(* ===== verification/Prelude.thy ===== *)
theory Prelude
  imports Main "HOL-Library.AList" "HOL-Library.Sublist" "HOL-Library.List_Lexorder"
begin

text \<open>
  What the components share: Python values and dictionaries, results with an error,
  the string operations the code calls, database tables as lists of rows with the
  operations of the object-relational mapper, and the interface of a table written by
  \<open>update_or_create\<close>.
\<close>

named_theorems table_simps \<open>rewriting facts of the table operations\<close>
named_theorems dict_simps \<open>rewriting facts of the dictionary operations\<close>

subsection \<open>Python values\<close>

text \<open>
  JSON-like values, and a point in time as the number the database orders it by. A
  dictionary is an association list in insertion order.
\<close>

datatype pyval =
    PNone
  | PBool bool
  | PInt int
  | PStr string
  | PTime int
  | PList "pyval list"
  | PDict "(string \<times> pyval) list"

type_synonym dict = "(string \<times> pyval) list"

text \<open>The truth value Python gives to an object.\<close>

fun truthy :: "pyval \<Rightarrow> bool" where
  "truthy PNone = False"
| "truthy (PBool b) = b"
| "truthy (PInt i) = (i \<noteq> 0)"
| "truthy (PStr s) = (s \<noteq> [])"
| "truthy (PTime _) = True"
| "truthy (PList xs) = (xs \<noteq> [])"
| "truthy (PDict d) = (d \<noteq> [])"

definition truthy_str :: "string option \<Rightarrow> bool" where
  "truthy_str s = (case s of None \<Rightarrow> False | Some t \<Rightarrow> t \<noteq> [])"

lemma truthy_str_simps [simp]:
  "truthy_str None = False"
  "truthy_str (Some t) = (t \<noteq> [])"
  by (simp_all add: truthy_str_def)

lemma truthy_str_iff: "truthy_str s \<longleftrightarrow> (\<exists>t. s = Some t \<and> t \<noteq> [])"
  by (cases s) simp_all

definition opt_str :: "string option \<Rightarrow> pyval" where
  "opt_str s = (case s of None \<Rightarrow> PNone | Some t \<Rightarrow> PStr t)"

definition of_opt_int :: "int option \<Rightarrow> pyval" where
  "of_opt_int i = (case i of None \<Rightarrow> PNone | Some n \<Rightarrow> PInt n)"

text \<open>\<open>d[k] = v\<close> keeps the place of an existing key; \<open>d.update(e)\<close> does so for each item.\<close>

abbreviation dict_get :: "('k \<times> 'v) list \<Rightarrow> 'k \<Rightarrow> 'v option" where
  "dict_get d k \<equiv> map_of d k"

abbreviation dict_set :: "'k \<Rightarrow> 'v \<Rightarrow> ('k \<times> 'v) list \<Rightarrow> ('k \<times> 'v) list" where
  "dict_set \<equiv> AList.update"

abbreviation dict_del :: "'k \<Rightarrow> ('k \<times> 'v) list \<Rightarrow> ('k \<times> 'v) list" where
  "dict_del \<equiv> AList.delete"

fun dict_update :: "('k \<times> 'v) list \<Rightarrow> ('k \<times> 'v) list \<Rightarrow> ('k \<times> 'v) list" where
  "dict_update d [] = d"
| "dict_update d ((k, v) # e) = dict_update (dict_set k v d) e"

text \<open>\<open>d.setdefault(k, []).append(v)\<close>.\<close>

fun group_append :: "'k \<Rightarrow> 'v \<Rightarrow> ('k \<times> 'v list) list \<Rightarrow> ('k \<times> 'v list) list" where
  "group_append k v [] = [(k, [v])]"
| "group_append k v ((j, vs) # r) = (if j = k then (j, vs @ [v]) # r else (j, vs) # group_append k v r)"

definition dict_get_default :: "dict \<Rightarrow> string \<Rightarrow> pyval \<Rightarrow> pyval" where
  "dict_get_default d k v = (case dict_get d k of None \<Rightarrow> v | Some w \<Rightarrow> w)"

lemma dict_get_set [dict_simps]:
  "dict_get (dict_set k v d) j = (if j = k then Some v else dict_get d j)"
  by (simp add: update_conv')

lemma dict_get_del [dict_simps]:
  "dict_get (dict_del k d) j = (if j = k then None else dict_get d j)"
  by (simp add: AList.delete_conv')

lemma dict_get_update [dict_simps]:
  "distinct (map fst e) \<Longrightarrow>
   dict_get (dict_update d e) j = (case dict_get e j of None \<Rightarrow> dict_get d j | Some v \<Rightarrow> Some v)"
proof (induction d e rule: dict_update.induct)
  case (2 d k v e)
  then have "k \<notin> fst ` set e" by simp
  then have "dict_get e k = None" by (simp add: map_of_eq_None_iff)
  with 2 show ?case by (auto simp: update_conv' split: option.splits)
qed simp

lemma dict_update_distinct: "distinct (map fst d) \<Longrightarrow> distinct (map fst (dict_update d e))"
  by (induction d e rule: dict_update.induct) (auto simp: distinct_update)

lemma dict_keys_update: "set (map fst (dict_update d e)) = set (map fst d) \<union> set (map fst e)"
  by (induction d e rule: dict_update.induct) (auto simp: dom_update)

lemma dict_set_new: "k \<notin> set (map fst d) \<Longrightarrow> dict_set k v d = d @ [(k, v)]"
  by (induction d) auto

lemma dict_update_append:
  "distinct (map fst (d @ e)) \<Longrightarrow> dict_update d e = d @ e"
proof (induction d e rule: dict_update.induct)
  case (2 d k v e)
  then have "dict_set k v d = d @ [(k, v)]" by (intro dict_set_new) auto
  with 2 show ?case by simp
qed simp

text \<open>Only the items that have a value, in order: \<open>{k: v for k, v in ... if v}\<close>.\<close>

definition present :: "(string \<times> pyval option) list \<Rightarrow> dict" where
  "present items = List.map_filter (\<lambda>(k, v). map_option (Pair k) v) items"

lemma present_simps [simp]:
  "present [] = []"
  "present ((k, None) # r) = present r"
  "present ((k, Some v) # r) = (k, v) # present r"
  by (simp_all add: present_def map_filter_simps)

lemma present_keys: "set (map fst (present items)) \<subseteq> set (map fst items)"
  by (induction items) (auto simp: present_def map_filter_simps split: option.splits)

lemma present_get:
  "distinct (map fst items) \<Longrightarrow> dict_get (present items) k = Option.bind (map_of items k) id"
proof (induction items)
  case (Cons x items)
  obtain j w where x: "x = (j, w)" by fastforce
  have "j \<notin> set (map fst (present items))"
    using Cons.prems present_keys [of items] x by auto
  then have none: "dict_get (present items) j = None"
    by (simp add: map_of_eq_None_iff)
  show ?case using Cons x none by (cases w) auto
qed simp

text \<open>Dropping the items with a rejected value: \<open>{k: v for k, v in ... if p(v)}\<close>.\<close>

lemma map_of_filter_val [dict_simps]:
  "distinct (map fst items) \<Longrightarrow>
   map_of (filter (\<lambda>(k, v). p v) items) k =
     (case map_of items k of None \<Rightarrow> None | Some v \<Rightarrow> if p v then Some v else None)"
proof (induction items)
  case (Cons x items)
  obtain j w where x: "x = (j, w)" by fastforce
  have "map_of items j = None" using Cons.prems x by (simp add: map_of_eq_None_iff)
  with Cons x show ?case by auto
qed simp

subsection \<open>Results\<close>

text \<open>
  The exceptions the components raise, and an operation that may raise: \<open>Inl\<close> the error,
  \<open>Inr\<close> the value.
\<close>

datatype pyerror =
    AttributeError
  | KeyError string
  | IndexError
  | TypeError
  | ValueError
  | AssertionError
  | NotImplementedError
  | DoesNotExist
  | MultipleObjectsReturned
  | IntegrityError
  | ProtectedError
  | PermissionDenied string
  | SuspiciousOperation string
  | Http404
  | EnrollmentSessionStatusError
  | EnrollmentSecretVerificationFailed string
  | DataError
  | MTOError
  | ValidationError
  | RecursionError

definition bind_result :: "'e + 'a \<Rightarrow> ('a \<Rightarrow> 'e + 'b) \<Rightarrow> 'e + 'b" where
  "bind_result r f = (case r of Inl e \<Rightarrow> Inl e | Inr x \<Rightarrow> f x)"

lemma bind_result_simps [simp]:
  "bind_result (Inl e) f = Inl e"
  "bind_result (Inr x) f = f x"
  by (simp_all add: bind_result_def)

lemma bind_result_Inr: "bind_result r f = Inr y \<longleftrightarrow> (\<exists>x. r = Inr x \<and> f x = Inr y)"
  by (cases r) simp_all

fun map_result :: "('a \<Rightarrow> 'e + 'b) \<Rightarrow> 'a list \<Rightarrow> 'e + 'b list" where
  "map_result f [] = Inr []"
| "map_result f (x # xs) =
     bind_result (f x) (\<lambda>y. bind_result (map_result f xs) (\<lambda>ys. Inr (y # ys)))"

subsection \<open>Strings\<close>

text \<open>\<open>s.split(c)\<close> for one separator character, \<open>c.join(parts)\<close>, \<open>s.strip()\<close>.\<close>

fun split_on :: "char \<Rightarrow> string \<Rightarrow> string list" where
  "split_on c [] = [[]]"
| "split_on c (x # s) =
     (if x = c then [] # split_on c s
      else case split_on c s of [] \<Rightarrow> [[x]] | w # ws \<Rightarrow> (x # w) # ws)"

fun join_with :: "string \<Rightarrow> string list \<Rightarrow> string" where
  "join_with sep [] = []"
| "join_with sep [w] = w"
| "join_with sep (w # v # ws) = w @ sep @ join_with sep (v # ws)"

definition is_space :: "char \<Rightarrow> bool" where
  "is_space c \<longleftrightarrow> c \<in> set [CHR '' '', CHR 0x09, CHR 0x0A, CHR 0x0B, CHR 0x0C, CHR 0x0D,
                          CHR 0x1C, CHR 0x1D, CHR 0x1E, CHR 0x1F]"

definition strip :: "string \<Rightarrow> string" where
  "strip s = rev (dropWhile is_space (rev (dropWhile is_space s)))"

lemma split_on_not_Nil [simp]: "split_on c s \<noteq> []"
  by (induction s) (auto split: list.splits)

lemma join_split_on: "join_with [c] (split_on c s) = s"
proof (induction s)
  case (Cons x s)
  obtain w ws where s: "split_on c s = w # ws"
    using split_on_not_Nil by (metis neq_Nil_conv)
  with Cons show ?case by (cases ws) auto
qed simp

lemma split_on_no_sep: "c \<notin> set s \<Longrightarrow> split_on c s = [s]"
  by (induction s) auto

lemma split_on_append:
  "c \<notin> set w \<Longrightarrow> split_on c (w @ c # s) = w # split_on c s"
  by (induction w) (auto split: list.splits)

lemma split_on_join:
  "ws \<noteq> [] \<Longrightarrow> \<forall>w \<in> set ws. c \<notin> set w \<Longrightarrow> split_on c (join_with [c] ws) = ws"
  by (induction "[c]" ws rule: join_with.induct)
     (auto simp: split_on_no_sep split_on_append)

text \<open>Strings compare by the codes of their characters.\<close>

definition str_key :: "string \<Rightarrow> nat list" where
  "str_key s = map of_char s"

lemma str_key_inject [simp]: "str_key s = str_key t \<longleftrightarrow> s = t"
  by (simp add: str_key_def inj_map_eq_map inj_on_def)

text \<open>The case of ASCII letters.\<close>

definition upper_char :: "char \<Rightarrow> char" where
  "upper_char c = (if 97 \<le> (of_char c :: nat) \<and> (of_char c :: nat) \<le> 122 then char_of (of_char c - 32 :: nat) else c)"

definition lower_char :: "char \<Rightarrow> char" where
  "lower_char c = (if 65 \<le> (of_char c :: nat) \<and> (of_char c :: nat) \<le> 90 then char_of (of_char c + 32 :: nat) else c)"

definition lower :: "string \<Rightarrow> string" where
  "lower s = map lower_char s"

definition upper :: "string \<Rightarrow> string" where
  "upper s = map upper_char s"

text \<open>Decimal digits: \<open>str(n)\<close> and the digits \<open>int(s)\<close> reads.\<close>

fun digit_char :: "nat \<Rightarrow> char" where
  "digit_char d = char_of (48 + d)"

fun nat_str :: "nat \<Rightarrow> string" where
  "nat_str n = (if n < 10 then [digit_char n] else nat_str (n div 10) @ [digit_char (n mod 10)])"

declare nat_str.simps [simp del]

definition int_str :: "int \<Rightarrow> string" where
  "int_str i = (if i < 0 then CHR ''-'' # nat_str (nat (- i)) else nat_str (nat i))"

definition is_digit :: "char \<Rightarrow> bool" where
  "is_digit c \<longleftrightarrow> 48 \<le> (of_char c :: nat) \<and> (of_char c :: nat) \<le> 57"

fun digits_value :: "nat \<Rightarrow> string \<Rightarrow> nat" where
  "digits_value acc [] = acc"
| "digits_value acc (c # s) = digits_value (10 * acc + (of_char c - 48)) s"

text \<open>
  \<open>int(s)\<close> for ASCII strings: surrounding white space and one sign are accepted, then digits,
  with single underscores between them.
\<close>

definition parse_int :: "string \<Rightarrow> int option" where
  "parse_int s =
     (let t = strip s;
          neg = (t \<noteq> [] \<and> hd t = CHR ''-'');
          u = (if t \<noteq> [] \<and> (hd t = CHR ''-'' \<or> hd t = CHR ''+'') then tl t else t);
          groups = split_on CHR ''_'' u;
          n = int (digits_value 0 (concat groups))
      in if list_all (\<lambda>g. g \<noteq> [] \<and> list_all is_digit g) groups
         then Some (if neg then - n else n)
         else None)"

lemma digit_char_value: "d < 10 \<Longrightarrow> is_digit (digit_char d) \<and> of_char (digit_char d) = (48 + d :: nat)"
  by (simp add: is_digit_def)

lemma digits_value_append: "digits_value a (s @ [c]) = 10 * digits_value a s + (of_char c - 48)"
  by (induction s arbitrary: a) auto

lemma nat_str_digits: "list_all is_digit (nat_str n) \<and> nat_str n \<noteq> []"
proof (induction n rule: nat_str.induct)
  case (1 n)
  show ?case
  proof (cases "n < 10")
    case True
    then show ?thesis using digit_char_value [of n] by (subst (1 2) nat_str.simps) auto
  next
    case False
    with 1 show ?thesis
      using digit_char_value [of "n mod 10"] by (subst (1 2) nat_str.simps) auto
  qed
qed

lemma nat_str_value: "digits_value 0 (nat_str n) = n"
proof (induction n rule: nat_str.induct)
  case (1 n)
  show ?case
  proof (cases "n < 10")
    case True
    then show ?thesis using digit_char_value [of n] by (subst nat_str.simps) simp
  next
    case False
    with 1 show ?thesis
      using digit_char_value [of "n mod 10"]
      by (subst nat_str.simps) (simp add: digits_value_append del: digit_char.simps)
  qed
qed

lemma digit_not_space: "is_digit c \<Longrightarrow> \<not> is_space c \<and> c \<noteq> CHR ''-'' \<and> c \<noteq> CHR ''+''"
  by (auto simp: is_digit_def is_space_def)

lemma strip_no_space: "list_all (\<lambda>c. \<not> is_space c) s \<Longrightarrow> strip s = s"
proof -
  assume a: "list_all (\<lambda>c. \<not> is_space c) s"
  then have 1: "dropWhile is_space s = s" by (cases s) auto
  from a have "list_all (\<lambda>c. \<not> is_space c) (rev s)" by simp
  then have "dropWhile is_space (rev s) = rev s" by (cases "rev s") auto
  with 1 show ?thesis by (simp add: strip_def)
qed

lemma parse_int_nat_str [simp]: "parse_int (nat_str n) = Some (int n)"
proof -
  have d: "list_all is_digit (nat_str n)" and ne: "nat_str n \<noteq> []"
    using nat_str_digits by auto
  then have "list_all (\<lambda>c. \<not> is_space c) (nat_str n)"
    by (auto simp: list_all_iff dest: digit_not_space)
  then have "strip (nat_str n) = nat_str n" by (rule strip_no_space)
  moreover have "is_digit (hd (nat_str n))" using d ne by (cases "nat_str n") auto
  moreover have "CHR ''_'' \<notin> set (nat_str n)" using d by (auto simp: list_all_iff is_digit_def)
  ultimately show ?thesis
    using d ne digit_not_space by (simp add: parse_int_def nat_str_value split_on_no_sep)
qed

lemma nat_str_inject [simp]: "nat_str m = nat_str n \<longleftrightarrow> m = n"
  by (metis nat_str_value)

lemma nat_str_no_char: "\<not> is_digit c \<Longrightarrow> c \<notin> set (nat_str n)"
  using nat_str_digits [of n] by (auto simp: list_all_iff)

text \<open>\<open>s.replace(old, new)\<close>: every occurrence, from the left, without overlaps.\<close>

function replace_all :: "string \<Rightarrow> string \<Rightarrow> string \<Rightarrow> string" where
  "replace_all old new s =
     (if old = [] then s
      else if prefix old s then new @ replace_all old new (drop (length old) s)
      else case s of [] \<Rightarrow> [] | c # r \<Rightarrow> c # replace_all old new r)"
  by pat_completeness auto
termination
  by (relation "measure (\<lambda>(old, new, s). length s)") (auto simp: prefix_def)

declare replace_all.simps [simp del]

subsection \<open>Tables\<close>

text \<open>
  A table is the list of its rows in the order they were inserted. \<open>filter(...)\<close>
  selects rows, \<open>.delete()\<close> and \<open>.update(...)\<close> change the selected ones, and \<open>.get()\<close>
  wants exactly one.
\<close>

definition get_one :: "('r \<Rightarrow> bool) \<Rightarrow> 'r list \<Rightarrow> pyerror + 'r" where
  "get_one p rows =
     (case filter p rows of
        [] \<Rightarrow> Inl DoesNotExist
      | [r] \<Rightarrow> Inr r
      | _ \<Rightarrow> Inl MultipleObjectsReturned)"

definition update_where :: "('r \<Rightarrow> bool) \<Rightarrow> ('r \<Rightarrow> 'r) \<Rightarrow> 'r list \<Rightarrow> 'r list" where
  "update_where p f rows = map (\<lambda>r. if p r then f r else r) rows"

definition delete_where :: "('r \<Rightarrow> bool) \<Rightarrow> 'r list \<Rightarrow> 'r list" where
  "delete_where p rows = filter (\<lambda>r. \<not> p r) rows"

lemma update_where_simps [table_simps]:
  "update_where p f [] = []"
  "update_where p f (r # rows) = (if p r then f r else r) # update_where p f rows"
  by (simp_all add: update_where_def)

lemma delete_where_simps [table_simps]:
  "delete_where p [] = []"
  "delete_where p (r # rows) = (if p r then delete_where p rows else r # delete_where p rows)"
  by (simp_all add: delete_where_def)

lemma set_delete_where [table_simps]: "set (delete_where p rows) = {r \<in> set rows. \<not> p r}"
  by (auto simp: delete_where_def)

lemma set_update_where [table_simps]:
  "set (update_where p f rows) = (\<lambda>r. if p r then f r else r) ` set rows"
  by (simp add: update_where_def)

lemma length_update_where [simp]: "length (update_where p f rows) = length rows"
  by (simp add: update_where_def)

lemma get_one_Inr: "get_one p rows = Inr r \<Longrightarrow> r \<in> set rows \<and> p r \<and> filter p rows = [r]"
proof -
  assume a: "get_one p rows = Inr r"
  then have f: "filter p rows = [r]"
    by (simp add: get_one_def split: list.splits)
  then have "r \<in> set (filter p rows)" by simp
  then have "r \<in> set rows \<and> p r" by (simp only: set_filter mem_Collect_eq)
  with f show ?thesis by blast
qed

lemma get_one_none: "get_one p rows = Inl DoesNotExist \<longleftrightarrow> (\<forall>r \<in> set rows. \<not> p r)"
proof -
  have "get_one p rows = Inl DoesNotExist \<longleftrightarrow> filter p rows = []"
    by (auto simp: get_one_def split: list.splits)
  then show ?thesis by (simp add: filter_empty_conv)
qed

lemma get_one_cong: "(\<And>r. r \<in> set rows \<Longrightarrow> p r = q r) \<Longrightarrow> get_one p rows = get_one q rows"
  by (simp add: get_one_def cong: filter_cong)

lemma get_one_multiple:
  "get_one p rows = Inl MultipleObjectsReturned \<longleftrightarrow> 1 < length (filter p rows)"
  by (auto simp: get_one_def split: list.splits)

text \<open>
  A uniqueness constraint with a condition: among the rows where \<open>c\<close> holds, no two have
  the same key.
\<close>

definition unique_on :: "('r \<Rightarrow> bool) \<Rightarrow> ('r \<Rightarrow> 'k) \<Rightarrow> 'r list \<Rightarrow> bool" where
  "unique_on c key rows = distinct (map key (filter c rows))"

lemma unique_on_get:
  assumes "unique_on c key rows" and "\<And>r. p r \<Longrightarrow> c r \<and> key r = k"
  shows "get_one p rows \<noteq> Inl MultipleObjectsReturned"
proof -
  have "length (filter p rows) \<le> 1"
    using assms
  proof (induction rows)
    case (Cons r rows)
    have u: "unique_on c key rows"
      using Cons.prems(1) by (simp add: unique_on_def split: if_splits)
    show ?case
    proof (cases "p r")
      case True
      with Cons.prems(2) have "c r" "key r = k" by auto
      with Cons.prems(1) have "\<forall>s \<in> set rows. c s \<longrightarrow> key s \<noteq> k"
        by (auto simp: unique_on_def image_iff)
      with Cons.prems(2) have "filter p rows = []"
        by (metis (no_types, lifting) filter_empty_conv)
      with True show ?thesis by simp
    qed (use Cons u in simp)
  qed simp
  then show ?thesis by (simp add: get_one_multiple)
qed

lemma unique_on_filter: "unique_on c key rows \<Longrightarrow> unique_on c key (filter p rows)"
  by (induction rows) (auto simp: unique_on_def)

lemma unique_on_delete: "unique_on c key rows \<Longrightarrow> unique_on c key (delete_where p rows)"
  by (simp add: delete_where_def unique_on_filter)

lemma unique_on_append:
  "unique_on c key (rows @ [r]) \<longleftrightarrow>
     unique_on c key rows \<and> (c r \<longrightarrow> (\<forall>s \<in> set rows. c s \<longrightarrow> key s \<noteq> key r))"
  by (auto simp: unique_on_def image_iff)

text \<open>An update that does not make more rows count, nor change the key of one that does.\<close>

lemma unique_on_update:
  assumes "unique_on c key rows"
    and "\<And>r. r \<in> set rows \<Longrightarrow> p r \<Longrightarrow> c (f r) \<Longrightarrow> c r \<and> key (f r) = key r"
  shows "unique_on c key (update_where p f rows)"
  using assms
proof (induction rows)
  case (Cons r rows)
  have sub: "key ` {s \<in> set (update_where p f rows). c s} \<subseteq> key ` {s \<in> set rows. c s}"
  proof
    fix k assume "k \<in> key ` {s \<in> set (update_where p f rows). c s}"
    then obtain s where s: "s \<in> set rows" "c (if p s then f s else s)" "k = key (if p s then f s else s)"
      by (auto simp: set_update_where)
    with Cons.prems(2) [of s] show "k \<in> key ` {s \<in> set rows. c s}"
      by (auto split: if_splits)
  qed
  have "unique_on c key (update_where p f rows)"
    using Cons by (auto simp: unique_on_def split: if_splits)
  with Cons.prems sub show ?case
    by (auto simp: unique_on_def update_where_simps)
qed (simp add: unique_on_def update_where_simps)

text \<open>Saving one row, found by its primary key.\<close>

lemma update_where_absent: "\<forall>r \<in> set rows. \<not> p r \<Longrightarrow> update_where p f rows = rows"
  by (induction rows) (auto simp: update_where_simps)

lemma set_update_pk:
  "r \<in> set rows \<Longrightarrow> pk r = pk s \<Longrightarrow>
   set (update_where (\<lambda>j. pk j = pk s) (\<lambda>_. s) rows) = insert s {j \<in> set rows. pk j \<noteq> pk s}"
  by (auto simp: set_update_where)

lemma map_update_pk: "map pk (update_where (\<lambda>j. pk j = pk s) (\<lambda>_. s) rows) = map pk rows"
  by (auto simp: update_where_def)

lemma unique_on_replace:
  assumes "unique_on c key rows" and "distinct (map pk rows)"
    and "\<forall>j \<in> set rows. pk j \<noteq> pk s \<longrightarrow> c j \<longrightarrow> c s \<longrightarrow> key j \<noteq> key s"
  shows "unique_on c key (update_where (\<lambda>j. pk j = pk s) (\<lambda>_. s) rows)"
  using assms
proof (induction rows)
  case (Cons r rows)
  show ?case
  proof (cases "pk r = pk s")
    case True
    with Cons.prems(2) have "\<forall>j \<in> set rows. pk j \<noteq> pk s" by (auto simp: image_iff)
    with Cons.prems True show ?thesis
      by (auto simp: unique_on_def update_where_simps update_where_absent image_iff split: if_splits)
  next
    case False
    have IH: "unique_on c key (update_where (\<lambda>j. pk j = pk s) (\<lambda>_. s) rows)"
      using Cons by (auto simp: unique_on_def split: if_splits)
    have "c r \<Longrightarrow> \<forall>j \<in> set (update_where (\<lambda>j. pk j = pk s) (\<lambda>_. s) rows). c j \<longrightarrow> key j \<noteq> key r"
      using Cons.prems False by (auto simp: unique_on_def set_update_where image_iff)
    with IH False show ?thesis
      by (auto simp: unique_on_def update_where_simps image_iff)
  qed
qed (simp add: unique_on_def update_where_simps)

lemma distinct_map_eqD:
  "distinct (map f xs) \<Longrightarrow> x \<in> set xs \<Longrightarrow> y \<in> set xs \<Longrightarrow> f x = f y \<Longrightarrow> x = y"
  by (simp add: distinct_map inj_on_def)

lemma get_one_pk:
  assumes "distinct (map pk rows)" "r \<in> set rows"
  shows "get_one (\<lambda>j. pk j = pk r) rows = Inr r"
proof -
  have "filter (\<lambda>j. pk j = pk r) rows = [r]"
    using assms by (induction rows) (auto simp: filter_empty_conv image_iff)
  then show ?thesis by (simp add: get_one_def)
qed

lemma unique_on_same_key:
  assumes "unique_on c key rows" "r \<in> set rows" "s \<in> set rows" "c r" "c s" "key r = key s"
  shows "r = s"
  using assms by (auto simp: unique_on_def distinct_map inj_on_def)

lemma unique_on_get_set:
  assumes u: "unique_on c key rows" and "\<And>r. r \<in> set rows \<Longrightarrow> p r \<Longrightarrow> c r \<and> key r = k"
  shows "get_one p rows \<noteq> Inl MultipleObjectsReturned"
proof -
  have "get_one p rows = get_one (\<lambda>r. r \<in> set rows \<and> p r) rows"
    by (rule get_one_cong) simp
  then show ?thesis
    using unique_on_get [OF u, of "\<lambda>r. r \<in> set rows \<and> p r" k] assms(2) by auto
qed

text \<open>The primary key of a new row.\<close>

definition fresh_pk :: "nat list \<Rightarrow> nat" where
  "fresh_pk pks = Suc (fold max pks 0)"

lemma fold_max_ge: "n \<le> fold max pks n \<and> (\<forall>k \<in> set pks. k \<le> fold max pks n)" for n :: nat
proof (induction pks arbitrary: n)
  case (Cons k pks)
  from Cons.IH [of "max k n"] show ?case by auto
qed simp

lemma fresh_pk_new: "fresh_pk pks \<notin> set pks"
  using fold_max_ge [where pks = pks and n = 0] by (auto simp: fresh_pk_def)

subsection \<open>The interface of a table written by update or create\<close>

text \<open>
  \<open>Model.objects.update_or_create(key, defaults)\<close>: \<open>mk k d\<close> is the row created for the key
  \<open>k\<close> with the defaults \<open>d\<close>, \<open>app d r\<close> an existing row with the defaults written. A
  client only relies on the two laws below.
\<close>

fun upsert :: "('r \<Rightarrow> 'k) \<Rightarrow> ('k \<Rightarrow> 'd \<Rightarrow> 'r) \<Rightarrow> ('d \<Rightarrow> 'r \<Rightarrow> 'r) \<Rightarrow> 'k \<Rightarrow> 'd \<Rightarrow> 'r list \<Rightarrow> 'r list" where
  "upsert key mk app k d [] = [mk k d]"
| "upsert key mk app k d (r # rows) =
     (if key r = k then app d r # rows else r # upsert key mk app k d rows)"

locale upsert_table =
  fixes key :: "'r \<Rightarrow> 'k" and mk :: "'k \<Rightarrow> 'd \<Rightarrow> 'r" and app :: "'d \<Rightarrow> 'r \<Rightarrow> 'r"
  assumes key_mk: "key (mk k d) = k"
    and key_app: "key (app d r) = key r"
begin

lemma keys_upsert: "set (map key (upsert key mk app k d rows)) = insert k (set (map key rows))"
  by (induction rows) (auto simp: key_mk key_app)

lemma distinct_upsert:
  "distinct (map key rows) \<Longrightarrow> distinct (map key (upsert key mk app k d rows))"
proof (induction rows)
  case (Cons r rows)
  have ks: "set (map key (upsert key mk app k d rows)) = insert k (set (map key rows))"
    by (rule keys_upsert)
  show ?case using Cons ks by (auto simp: key_app)
qed (simp add: key_mk)

lemma upsert_other: "k' \<noteq> k \<Longrightarrow>
  filter (\<lambda>r. key r = k') (upsert key mk app k d rows) = filter (\<lambda>r. key r = k') rows"
  by (induction rows) (auto simp: key_mk key_app)

lemma upsert_found:
  "distinct (map key rows) \<Longrightarrow> r \<in> set rows \<Longrightarrow> key r = k \<Longrightarrow>
   filter (\<lambda>s. key s = k) (upsert key mk app k d rows) = [app d r]"
  by (induction rows) (auto simp: key_app filter_empty_conv rev_image_eqI)

lemma upsert_created:
  "k \<notin> set (map key rows) \<Longrightarrow> upsert key mk app k d rows = rows @ [mk k d]"
  by (induction rows) auto

lemma upsert_set:
  "distinct (map key rows) \<Longrightarrow>
   set (upsert key mk app k d rows) =
     {r \<in> set rows. key r \<noteq> k} \<union>
     (if k \<in> set (map key rows) then app d ` {r \<in> set rows. key r = k} else {mk k d})"
proof (induction rows)
  case (Cons r rows)
  show ?case
  proof (cases "key r = k")
    case True
    with Cons.prems have "\<forall>s \<in> set rows. key s \<noteq> k" by (auto simp: rev_image_eqI)
    with True show ?thesis by auto
  next
    case False
    with Cons show ?thesis by auto
  qed
qed simp

end

end
