(* ===== verification/IncidentModels.thy ===== *)
theory IncidentModels imports Prelude begin

text \<open>
  \<open>zentral/core/incidents/models.py\<close>: severities, the status graph, the incident and
  machine incident rows with their uniqueness constraints, and their serializations. The
  tables are the record \<open>incident_db\<close>; both constraints are checked where a row is saved.
\<close>

subsection \<open>Severity and status\<close>

definition SEVERITY_CRITICAL :: nat where "SEVERITY_CRITICAL = 300"
definition SEVERITY_MAJOR :: nat where "SEVERITY_MAJOR = 200"
definition SEVERITY_MINOR :: nat where "SEVERITY_MINOR = 100"

definition SEVERITY_CHOICES :: "(nat \<times> string) list" where
  "SEVERITY_CHOICES =
     [(SEVERITY_CRITICAL, ''Critical''), (SEVERITY_MAJOR, ''Major''), (SEVERITY_MINOR, ''Minor'')]"

datatype status = OPEN | IN_PROGRESS | RESOLVED | CLOSED | REOPENED

fun status_str :: "status \<Rightarrow> string" where
  "status_str OPEN = ''OPEN''"
| "status_str IN_PROGRESS = ''IN_PROGRESS''"
| "status_str RESOLVED = ''RESOLVED''"
| "status_str CLOSED = ''CLOSED''"
| "status_str REOPENED = ''REOPENED''"

definition STATUS_CHOICES :: "(status \<times> string) list" where
  "STATUS_CHOICES =
     [(OPEN, ''Open''), (IN_PROGRESS, ''In Progress''), (RESOLVED, ''Resolved''),
      (CLOSED, ''Closed''), (REOPENED, ''Reopened'')]"

definition OPEN_STATUSES :: "status list" where
  "OPEN_STATUSES = [OPEN, IN_PROGRESS, REOPENED]"

definition CLOSED_STATUSES :: "status list" where
  "CLOSED_STATUSES = [CLOSED, RESOLVED]"

fun get_next_statuses :: "status \<Rightarrow> status list" where
  "get_next_statuses OPEN = [IN_PROGRESS, CLOSED, RESOLVED]"
| "get_next_statuses REOPENED = [IN_PROGRESS, CLOSED, RESOLVED]"
| "get_next_statuses IN_PROGRESS = [CLOSED, RESOLVED]"
| "get_next_statuses CLOSED = [REOPENED]"
| "get_next_statuses RESOLVED = [REOPENED]"

abbreviation is_open :: "status \<Rightarrow> bool" where
  "is_open s \<equiv> s \<in> set OPEN_STATUSES"

lemma is_open_simps [simp]:
  "is_open OPEN" "is_open IN_PROGRESS" "is_open REOPENED"
  "\<not> is_open CLOSED" "\<not> is_open RESOLVED"
  by (simp_all add: OPEN_STATUSES_def)

lemma open_or_closed: "is_open s \<longleftrightarrow> s \<notin> set CLOSED_STATUSES"
  by (cases s) (simp_all add: OPEN_STATUSES_def CLOSED_STATUSES_def)

subsection \<open>Rows and tables\<close>

record incident =
  inc_pk :: nat
  inc_probe_source :: "nat option"
  inc_name :: string
  inc_description :: string
  inc_severity :: nat
  inc_status :: status
  inc_event_id :: string

record machine_incident =
  mi_pk :: nat
  mi_incident :: nat
  mi_serial_number :: string
  mi_status :: status
  mi_event_id :: string

record incident_db =
  incidents :: "incident list"
  machine_incidents :: "machine_incident list"
  incident_seq :: nat
  machine_incident_seq :: nat

text \<open>The rows the two partial unique constraints range over, and their keys.\<close>

definition open_incident :: "incident \<Rightarrow> bool" where
  "open_incident i \<longleftrightarrow> is_open (inc_status i) \<and> inc_probe_source i \<noteq> None"

definition open_machine_incident :: "machine_incident \<Rightarrow> bool" where
  "open_machine_incident m \<longleftrightarrow> is_open (mi_status m)"

definition mi_key :: "machine_incident \<Rightarrow> nat \<times> string" where
  "mi_key m = (mi_incident m, mi_serial_number m)"

definition violates_incident_constraint :: "incident \<Rightarrow> incident list \<Rightarrow> bool" where
  "violates_incident_constraint i rows \<longleftrightarrow>
     open_incident i \<and>
     list_ex (\<lambda>j. inc_pk j \<noteq> inc_pk i \<and> open_incident j \<and>
                  inc_probe_source j = inc_probe_source i) rows"

definition violates_machine_incident_constraint ::
  "machine_incident \<Rightarrow> machine_incident list \<Rightarrow> bool" where
  "violates_machine_incident_constraint m rows \<longleftrightarrow>
     open_machine_incident m \<and>
     list_ex (\<lambda>n. mi_pk n \<noteq> mi_pk m \<and> open_machine_incident n \<and> mi_key n = mi_key m) rows"

definition save_incident :: "incident \<Rightarrow> incident_db \<Rightarrow> pyerror + incident_db" where
  "save_incident i db =
     (if violates_incident_constraint i (incidents db) then Inl IntegrityError
      else Inr (db\<lparr>incidents := update_where (\<lambda>j. inc_pk j = inc_pk i) (\<lambda>_. i) (incidents db)\<rparr>))"

definition save_machine_incident ::
  "machine_incident \<Rightarrow> incident_db \<Rightarrow> pyerror + incident_db" where
  "save_machine_incident m db =
     (if violates_machine_incident_constraint m (machine_incidents db) then Inl IntegrityError
      else Inr (db\<lparr>machine_incidents :=
             update_where (\<lambda>n. mi_pk n = mi_pk m) (\<lambda>_. m) (machine_incidents db)\<rparr>))"

definition find_incident :: "nat \<Rightarrow> incident_db \<Rightarrow> incident option" where
  "find_incident pk db = find (\<lambda>i. inc_pk i = pk) (incidents db)"

text \<open>Deleting a probe source nulls the foreign key of its incidents (\<open>SET_NULL\<close>).\<close>

definition incident_probe_source_deleted :: "nat \<Rightarrow> incident_db \<Rightarrow> incident_db" where
  "incident_probe_source_deleted ps db =
     db\<lparr>incidents := update_where (\<lambda>i. inc_probe_source i = Some ps)
                       (\<lambda>i. i\<lparr>inc_probe_source := None\<rparr>) (incidents db)\<rparr>"

subsection \<open>Methods of an incident\<close>

text \<open>\<open>self.probe_source.pk\<close> raises when the probe source has been deleted.\<close>

definition incident_serialize_for_event_metadata :: "incident \<Rightarrow> pyerror + dict" where
  "incident_serialize_for_event_metadata i =
     (case inc_probe_source i of
        None \<Rightarrow> Inl AttributeError
      | Some probe_pk \<Rightarrow> Inr
          [(''pk'', PInt (int (inc_pk i))),
           (''probe_pk'', PInt (int probe_pk)),
           (''name'', PStr (inc_name i)),
           (''severity'', PInt (int (inc_severity i))),
           (''status'', PStr (status_str (inc_status i)))])"

definition incident_serialize_for_event :: "incident \<Rightarrow> pyerror + dict" where
  "incident_serialize_for_event i =
     bind_result (incident_serialize_for_event_metadata i)
       (\<lambda>d. Inr (dict_set ''event_id'' (PStr (inc_event_id i)) d))"

definition incident_get_next_statuses :: "incident \<Rightarrow> incident_db \<Rightarrow> status list" where
  "incident_get_next_statuses i db =
     (let next_statuses = get_next_statuses (inc_status i) in
      if list_ex (\<lambda>m. mi_incident m = inc_pk i \<and> is_open (mi_status m)) (machine_incidents db)
      then remove1 RESOLVED (remove1 CLOSED next_statuses)
      else next_statuses)"

definition incident_get_next_status_choices :: "incident \<Rightarrow> incident_db \<Rightarrow> (status \<times> string) list" where
  "incident_get_next_status_choices i db =
     filter (\<lambda>(s, l). s \<in> set (incident_get_next_statuses i db)) STATUS_CHOICES"

subsection \<open>Methods of a machine incident\<close>

definition machine_incident_serialize :: "bool \<Rightarrow> machine_incident \<Rightarrow> dict" where
  "machine_incident_serialize include_event_id m =
     (let d = [(''pk'', PInt (int (mi_pk m))), (''status'', PStr (status_str (mi_status m)))]
      in if include_event_id then dict_set ''event_id'' (PStr (mi_event_id m)) d else d)"

definition machine_incident_serialize_for_event_metadata ::
  "incident_db \<Rightarrow> machine_incident \<Rightarrow> pyerror + dict" where
  "machine_incident_serialize_for_event_metadata db m =
     (case find_incident (mi_incident m) db of
        None \<Rightarrow> Inl DoesNotExist
      | Some i \<Rightarrow> bind_result (incident_serialize_for_event_metadata i)
          (\<lambda>d. Inr (dict_set ''machine_incident'' (PDict (machine_incident_serialize False m)) d)))"

definition machine_incident_serialize_for_event ::
  "incident_db \<Rightarrow> machine_incident \<Rightarrow> pyerror + dict" where
  "machine_incident_serialize_for_event db m =
     (case find_incident (mi_incident m) db of
        None \<Rightarrow> Inl DoesNotExist
      | Some i \<Rightarrow> bind_result (incident_serialize_for_event i)
          (\<lambda>d. Inr (dict_set ''incident'' (PDict d) (machine_incident_serialize True m))))"

definition machine_incident_get_next_statuses :: "machine_incident \<Rightarrow> status list" where
  "machine_incident_get_next_statuses m = get_next_statuses (mi_status m)"

definition machine_incident_get_next_status_choices :: "machine_incident \<Rightarrow> (status \<times> string) list" where
  "machine_incident_get_next_status_choices m =
     filter (\<lambda>(s, l). s \<in> set (machine_incident_get_next_statuses m)) STATUS_CHOICES"

subsection \<open>Facts on the rows\<close>

lemma next_status_not_self: "s \<notin> set (get_next_statuses s)"
  by (cases s) simp_all

lemma next_never_open: "OPEN \<notin> set (get_next_statuses s)"
  by (cases s) simp_all

lemma next_distinct: "distinct (get_next_statuses s)"
  by (cases s) simp_all

lemma incident_next_subset:
  "set (incident_get_next_statuses i db) \<subseteq> set (get_next_statuses (inc_status i))"
  using set_remove1_subset [of RESOLVED "remove1 CLOSED (get_next_statuses (inc_status i))"]
    set_remove1_subset [of CLOSED "get_next_statuses (inc_status i)"]
  by (auto simp: incident_get_next_statuses_def Let_def)

lemma incident_next_open_machines:
  assumes "m \<in> set (machine_incidents db)" "mi_incident m = inc_pk i" "is_open (mi_status m)"
    and "s \<in> set (incident_get_next_statuses i db)"
  shows "is_open s"
proof -
  have "list_ex (\<lambda>m. mi_incident m = inc_pk i \<and> is_open (mi_status m)) (machine_incidents db)"
    using assms(1-3) by (auto simp: list_ex_iff)
  with assms(4) have "s \<in> set (remove1 RESOLVED (remove1 CLOSED (get_next_statuses (inc_status i))))"
    by (simp add: incident_get_next_statuses_def Let_def)
  then have "s \<noteq> RESOLVED" "s \<noteq> CLOSED"
    using next_distinct [of "inc_status i"] by (auto simp: set_remove1_eq)
  then show ?thesis by (cases s) simp_all
qed

lemma find_incident_Some:
  "find_incident pk db = Some i \<Longrightarrow> i \<in> set (incidents db) \<and> inc_pk i = pk"
  by (auto simp: find_incident_def find_Some_iff in_set_conv_nth)

lemma find_incident_None:
  "find_incident pk db = None \<longleftrightarrow> pk \<notin> inc_pk ` set (incidents db)"
  by (auto simp: find_incident_def find_None_iff)

end
