(* ===== verification/Events.thy ===== *)
theory Events imports Prelude begin

text \<open>
  \<open>zentral/core/events/base.py\<close> and \<open>utils.py\<close>: the event, its metadata and the request it
  came from, their serializations and deserializations, and the command parser. Parameters:
  \<open>isoformat\<close> and \<open>parse_datetime\<close> (\<open>datetime.isoformat\<close>, \<open>dateutil.parser.parse\<close>) and
  \<open>machine_info\<close> (the serialized inventory of a machine).
\<close>

subsection \<open>Arguments in one string\<close>

text \<open>\<open>encode_args\<close> and \<open>decode_args\<close> with their default delimiter and escape character.\<close>

definition delimiter :: char where "delimiter = CHR ''|''"
definition escapechar :: char where "escapechar = CHR 0x5C"

lemma delimiter_escapechar [simp]: "delimiter \<noteq> escapechar" "escapechar \<noteq> delimiter"
  by (simp_all add: delimiter_def escapechar_def)

fun decode_args_loop :: "string list \<Rightarrow> bool \<Rightarrow> string \<Rightarrow> string \<Rightarrow> string list" where
  "decode_args_loop args escaping current_arg [] = args @ [current_arg]"
| "decode_args_loop args escaping current_arg (c # s) =
     (if escaping then decode_args_loop args False (current_arg @ [c]) s
      else if c = escapechar then decode_args_loop args True current_arg s
      else if c = delimiter then decode_args_loop (args @ [current_arg]) False [] s
      else decode_args_loop args False (current_arg @ [c]) s)"

definition decode_args :: "string \<Rightarrow> string list" where
  "decode_args s = decode_args_loop [] False [] s"

fun encode_arg :: "string \<Rightarrow> string" where
  "encode_arg [] = []"
| "encode_arg (c # s) =
     (if c = delimiter \<or> c = escapechar then [escapechar, c] else [c]) @ encode_arg s"

fun encode_args_loop :: "nat \<Rightarrow> string list \<Rightarrow> string" where
  "encode_args_loop idx [] = []"
| "encode_args_loop idx (arg # args) =
     (if idx > 0 then [delimiter] else []) @ encode_arg arg @ encode_args_loop (Suc idx) args"

definition encode_args :: "string list \<Rightarrow> string" where
  "encode_args args = encode_args_loop 0 args"

lemma decode_encode_arg:
  "decode_args_loop args False cur (encode_arg a @ s) = decode_args_loop args False (cur @ a) s"
  by (induction a arbitrary: cur) auto

lemma decode_encode_loop:
  "decode_args_loop args False cur (encode_args_loop (Suc n) as) = args @ cur # as"
proof (induction as arbitrary: args cur n)
  case (Cons a as)
  then show ?case by (simp add: decode_encode_arg)
qed simp

lemma decode_encode_args: "as \<noteq> [] \<Longrightarrow> decode_args (encode_args as) = as"
  by (cases as) (simp_all add: decode_args_def encode_args_def decode_encode_arg decode_encode_loop)

lemma decode_args_not_Nil: "decode_args s \<noteq> []"
proof -
  have "decode_args_loop args e cur s \<noteq> []" for args e cur
    by (induction args e cur s rule: decode_args_loop.induct) auto
  then show ?thesis by (simp add: decode_args_def)
qed

subsection \<open>Observer\<close>

record event_observer =
  hostname :: pyval
  vendor :: pyval
  observer_type :: pyval
  content_type :: pyval
  observer_pk :: pyval

definition dict_attr :: "dict \<Rightarrow> string \<Rightarrow> pyval" where
  "dict_attr d k = dict_get_default d k PNone"

definition observer_deserialize :: "dict \<Rightarrow> event_observer" where
  "observer_deserialize d =
     \<lparr>hostname = dict_attr d ''hostname'', vendor = dict_attr d ''vendor'',
      observer_type = dict_attr d ''type'', content_type = dict_attr d ''content_type'',
      observer_pk = dict_attr d ''pk''\<rparr>"

definition observer_serialize :: "event_observer \<Rightarrow> dict" where
  "observer_serialize o' =
     filter (\<lambda>(k, v). truthy v)
       [(''hostname'', hostname o'), (''vendor'', vendor o'), (''type'', observer_type o'),
        (''content_type'', content_type o'), (''pk'', observer_pk o')]"

text \<open>\<open>None\<close> is the only falsy attribute of an observer that survives its serialization.\<close>

definition observer_clean :: "event_observer \<Rightarrow> bool" where
  "observer_clean o' \<longleftrightarrow> list_all (\<lambda>v. truthy v \<or> v = PNone)
     [hostname o', vendor o', observer_type o', content_type o', observer_pk o']"

lemma observer_roundtrip: "observer_clean o' \<Longrightarrow> observer_deserialize (observer_serialize o') = o'"
  by (cases o') (auto simp: observer_clean_def observer_serialize_def observer_deserialize_def
      dict_attr_def dict_get_default_def map_of_filter_val simp del: filter.simps)

subsection \<open>User, geography and request\<close>

record event_request_user =
  user_id :: pyval
  username :: pyval
  email :: pyval
  is_remote :: pyval
  is_service_account :: pyval
  is_superuser :: pyval
  session :: pyval

definition user_from_kwargs :: "dict \<Rightarrow> event_request_user" where
  "user_from_kwargs d =
     \<lparr>user_id = dict_attr d ''id'', username = dict_attr d ''username'', email = dict_attr d ''email'',
      is_remote = dict_attr d ''is_remote'', is_service_account = dict_attr d ''is_service_account'',
      is_superuser = dict_attr d ''is_superuser'', session = dict_attr d ''session''\<rparr>"

definition user_serialize :: "event_request_user \<Rightarrow> dict" where
  "user_serialize u =
     filter (\<lambda>(k, v). v \<noteq> PNone)
       [(''id'', user_id u), (''username'', username u), (''email'', email u),
        (''is_remote'', is_remote u), (''is_service_account'', is_service_account u),
        (''is_superuser'', is_superuser u), (''session'', session u)]"

lemma user_roundtrip: "user_from_kwargs (user_serialize u) = u"
  by (cases u) (simp add: user_serialize_def user_from_kwargs_def dict_attr_def
      dict_get_default_def map_of_filter_val del: filter.simps)

text \<open>What the builder reads of a web request: its user, session and realm session.\<close>

record realm_authentication_session =
  ras_is_remote :: bool
  ras_pk :: string
  ras_user_pk :: string
  ras_realm_pk :: string
  ras_realm_name :: string

record web_request =
  req_user_attrs :: "dict option"
  req_is_authenticated :: bool
  req_expire_at_browser_close :: bool
  req_expiry_age :: int
  req_ras :: "realm_authentication_session option"
  req_mfa_authenticated :: bool
  req_user_agent :: "string option"
  req_ip :: "string option"

definition session_dict :: "web_request \<Rightarrow> dict" where
  "session_dict r =
     (let seabc = req_expire_at_browser_close r;
          d = [(''expire_at_browser_close'', PBool seabc)]
              @ (if seabc then [] else [(''expiry_age'', PInt (req_expiry_age r))])
      in case req_ras r of
           Some ras \<Rightarrow>
             if ras_is_remote ras then
               dict_update d
                 [(''is_remote'', PBool True),
                  (''realm_authentication_session_pk'', PStr (ras_pk ras)),
                  (''realm_user_pk'', PStr (ras_user_pk ras)),
                  (''realm'', PDict [(''pk'', PStr (ras_realm_pk ras)),
                                     (''name'', PStr (ras_realm_name ras))])]
             else dict_update d
                 [(''is_remote'', PBool False),
                  (''mfa_authenticated'', PBool (req_mfa_authenticated r))]
         | None \<Rightarrow> dict_update d
                 [(''is_remote'', PBool False),
                  (''mfa_authenticated'', PBool (req_mfa_authenticated r))])"

definition user_build_from_request :: "web_request \<Rightarrow> event_request_user option" where
  "user_build_from_request r =
     (case req_user_attrs r of
        Some attrs \<Rightarrow>
          if req_is_authenticated r
          then Some (user_from_kwargs (dict_set ''session'' (PDict (session_dict r)) attrs))
          else None
      | None \<Rightarrow> None)"

record event_request_geo =
  city_name :: pyval
  continent_name :: pyval
  country_iso_code :: pyval
  country_name :: pyval
  location :: pyval
  region_iso_code :: pyval
  region_name :: pyval

definition geo_from_kwargs :: "dict \<Rightarrow> event_request_geo" where
  "geo_from_kwargs d =
     \<lparr>city_name = dict_attr d ''city_name'', continent_name = dict_attr d ''continent_name'',
      country_iso_code = dict_attr d ''country_iso_code'', country_name = dict_attr d ''country_name'',
      location = dict_attr d ''location'', region_iso_code = dict_attr d ''region_iso_code'',
      region_name = dict_attr d ''region_name''\<rparr>"

definition geo_serialize :: "event_request_geo \<Rightarrow> dict" where
  "geo_serialize g =
     filter (\<lambda>(k, v). v \<noteq> PNone)
       [(''city_name'', city_name g), (''continent_name'', continent_name g),
        (''country_iso_code'', country_iso_code g), (''country_name'', country_name g),
        (''location'', location g), (''region_iso_code'', region_iso_code g),
        (''region_name'', region_name g)]"

lemma geo_roundtrip: "geo_from_kwargs (geo_serialize g) = g"
  by (cases g) (simp add: geo_serialize_def geo_from_kwargs_def dict_attr_def
      dict_get_default_def map_of_filter_val del: filter.simps)

text \<open>The record the GeoIP library returns for an address.\<close>

record geoip_city =
  gc_city_name :: "string option"
  gc_continent_name :: "string option"
  gc_country_iso_code :: "string option"
  gc_country_name :: "string option"
  gc_latitude :: "int option"
  gc_longitude :: "int option"
  gc_region_iso_code :: "string option"
  gc_region_name :: "string option"

definition geo_build_from_city :: "geoip_city \<Rightarrow> event_request_geo option" where
  "geo_build_from_city c =
     (let str_item = (\<lambda>s. if truthy_str s then Some (opt_str s) else None);
          kwargs = present
            [(''city_name'', str_item (gc_city_name c)),
             (''continent_name'', str_item (gc_continent_name c)),
             (''country_iso_code'', str_item (gc_country_iso_code c)),
             (''country_name'', str_item (gc_country_name c)),
             (''location'', case (gc_longitude c, gc_latitude c) of
                (Some lon, Some lat) \<Rightarrow> Some (PDict [(''lat'', PInt lat), (''lon'', PInt lon)])
              | _ \<Rightarrow> None),
             (''region_iso_code'', str_item (gc_region_iso_code c)),
             (''region_name'', str_item (gc_region_name c))]
      in if kwargs \<noteq> [] then Some (geo_from_kwargs kwargs) else None)"

record event_request =
  user_agent :: pyval
  ip :: pyval
  geo :: "event_request_geo option"
  user :: "event_request_user option"

definition request_build_from_request :: "web_request \<Rightarrow> event_request option" where
  "request_build_from_request r =
     (let u = user_build_from_request r in
      if truthy_str (req_user_agent r) \<or> truthy_str (req_ip r) \<or> u \<noteq> None
      then Some \<lparr>user_agent = opt_str (req_user_agent r), ip = opt_str (req_ip r),
                 geo = None, user = u\<rparr>
      else None)"

definition request_deserialize :: "dict \<Rightarrow> event_request" where
  "request_deserialize d =
     \<lparr>user_agent = dict_attr d ''user_agent'', ip = dict_attr d ''ip'',
      geo = (case dict_attr d ''geo'' of
               PDict g \<Rightarrow> if g = [] then None else Some (geo_from_kwargs g)
             | _ \<Rightarrow> None),
      user = (case dict_attr d ''user'' of
               PDict u \<Rightarrow> if u = [] then None else Some (user_from_kwargs u)
             | _ \<Rightarrow> None)\<rparr>"

definition request_serialize :: "event_request \<Rightarrow> dict" where
  "request_serialize r =
     filter (\<lambda>(k, v). truthy v) [(''user_agent'', user_agent r), (''ip'', ip r)]
     @ (case geo r of None \<Rightarrow> [] | Some g \<Rightarrow> [(''geo'', PDict (geo_serialize g))])
     @ (case user r of None \<Rightarrow> [] | Some u \<Rightarrow> [(''user'', PDict (user_serialize u))])"

definition set_geo_from_city :: "geoip_city \<Rightarrow> event_request \<Rightarrow> event_request" where
  "set_geo_from_city c r = r\<lparr>geo := geo_build_from_city c\<rparr>"

definition user_agent_str_length :: nat where "user_agent_str_length = 50"

text \<open>The ellipsis is one character; \<open>ellipsis\<close> stands for it.\<close>

definition request_str :: "string \<Rightarrow> event_request \<Rightarrow> string" where
  "request_str ellipsis r =
     join_with '' - ''
       ((case user r of
           Some u \<Rightarrow> (case username u of PStr n \<Rightarrow> if n \<noteq> [] then [n] else [] | _ \<Rightarrow> [])
         | None \<Rightarrow> []) @
        (case ip r of PStr a \<Rightarrow> if a \<noteq> [] then [a] else [] | _ \<Rightarrow> []) @
        (case user_agent r of
           PStr a \<Rightarrow>
             if a = [] then []
             else if length a > user_agent_str_length
             then [strip (take (user_agent_str_length - 1) a) @ ellipsis]
             else [a]
         | _ \<Rightarrow> []))"

text \<open>
  A request whose serialization loses nothing: a falsy agent or address is \<open>None\<close>, and the
  optional parts are not empty.
\<close>

definition request_clean :: "event_request \<Rightarrow> bool" where
  "request_clean r \<longleftrightarrow>
     (truthy (user_agent r) \<or> user_agent r = PNone) \<and> (truthy (ip r) \<or> ip r = PNone) \<and>
     (\<forall>g. geo r = Some g \<longrightarrow> geo_serialize g \<noteq> []) \<and>
     (\<forall>u. user r = Some u \<longrightarrow> user_serialize u \<noteq> [])"

lemma request_roundtrip:
  assumes "request_clean r"
  shows "request_deserialize (request_serialize r) = r"
proof -
  have head: "map_of (filter (\<lambda>(k, v). truthy v) [(''user_agent'', user_agent r), (''ip'', ip r)]) k =
      (if k = ''user_agent'' \<and> truthy (user_agent r) then Some (user_agent r)
       else if k = ''ip'' \<and> truthy (ip r) then Some (ip r) else None)" for k
    by (auto simp: map_of_filter_val simp del: filter.simps)
  define base where "base = filter (\<lambda>(k, v). truthy v) [(''user_agent'', user_agent r), (''ip'', ip r)]"
  have clean: "truthy (user_agent r) \<or> user_agent r = PNone" "truthy (ip r) \<or> ip r = PNone"
    "\<And>g. geo r = Some g \<Longrightarrow> geo_serialize g \<noteq> []" "\<And>u. user r = Some u \<Longrightarrow> user_serialize u \<noteq> []"
    using assms by (auto simp: request_clean_def)
  have attrs: "dict_attr (request_serialize r) ''user_agent'' = user_agent r"
    "dict_attr (request_serialize r) ''ip'' = ip r"
    "dict_attr (request_serialize r) ''geo'' =
      (case geo r of None \<Rightarrow> PNone | Some g \<Rightarrow> PDict (geo_serialize g))"
    "dict_attr (request_serialize r) ''user'' =
      (case user r of None \<Rightarrow> PNone | Some u \<Rightarrow> PDict (user_serialize u))"
    using clean(1,2) unfolding request_serialize_def base_def [symmetric]
    by (auto simp: dict_attr_def dict_get_default_def map_add_def head [folded base_def]
        split: option.splits)
  show ?thesis
    unfolding request_deserialize_def attrs
    using clean(3,4) by (cases r) (auto simp: geo_roundtrip user_roundtrip split: option.splits)
qed

lemma request_serialize_Nil:
  "request_clean r \<Longrightarrow> request_serialize r = [] \<longleftrightarrow>
     user_agent r = PNone \<and> ip r = PNone \<and> geo r = None \<and> user r = None"
  by (auto simp: request_clean_def request_serialize_def split: option.splits)

lemma geo_from_city_clean:
  assumes "geo_build_from_city c = Some g"
  shows "geo_serialize g \<noteq> []"
proof
  assume "geo_serialize g = []"
  then have none: "city_name g = PNone" "continent_name g = PNone" "country_iso_code g = PNone"
    "country_name g = PNone" "location g = PNone" "region_iso_code g = PNone" "region_name g = PNone"
    by (auto simp: geo_serialize_def split: if_splits)
  define str_item where "str_item = (\<lambda>s. if truthy_str s then Some (opt_str s) else None)"
  have item: "(case str_item s of None \<Rightarrow> PNone | Some v \<Rightarrow> v) = PNone \<longleftrightarrow> str_item s = None" for s
    by (cases s) (auto simp: str_item_def opt_str_def)
  define loc where "loc = (case (gc_longitude c, gc_latitude c) of
      (Some lon, Some lat) \<Rightarrow> Some (PDict [(''lat'', PInt lat), (''lon'', PInt lon)]) | _ \<Rightarrow> None)"
  have loc: "(case loc of None \<Rightarrow> PNone | Some v \<Rightarrow> v) = PNone \<longleftrightarrow> loc = None"
    by (auto simp: loc_def split: option.splits)
  define kw where "kw = present
      [(''city_name'', str_item (gc_city_name c)), (''continent_name'', str_item (gc_continent_name c)),
       (''country_iso_code'', str_item (gc_country_iso_code c)),
       (''country_name'', str_item (gc_country_name c)), (''location'', loc),
       (''region_iso_code'', str_item (gc_region_iso_code c)),
       (''region_name'', str_item (gc_region_name c))]"
  have "geo_build_from_city c = (if kw \<noteq> [] then Some (geo_from_kwargs kw) else None)"
    by (simp only: geo_build_from_city_def Let_def kw_def str_item_def loc_def)
  with assms have g: "g = geo_from_kwargs kw" and kw: "kw \<noteq> []"
    by (simp_all split: if_splits)
  have "str_item (gc_city_name c) = None" "str_item (gc_continent_name c) = None"
    "str_item (gc_country_iso_code c) = None" "str_item (gc_country_name c) = None" "loc = None"
    "str_item (gc_region_iso_code c) = None" "str_item (gc_region_name c) = None"
    using none unfolding g
    by (simp_all add: geo_from_kwargs_def dict_attr_def dict_get_default_def kw_def present_get
        item loc)
  then have "kw = []" by (simp add: kw_def)
  with kw show False by simp
qed

subsection \<open>Metadata and event\<close>

text \<open>The class attributes of an event class.\<close>

record event_class =
  event_type :: string
  namespace :: "string option"
  class_tags :: "string list"

record event_metadata =
  md_deserialized :: bool
  md_uuid :: string
  md_index :: int
  md_created_at :: int
  md_machine_serial_number :: "string option"
  md_observer :: "event_observer option"
  md_request :: "event_request option"
  md_probes :: "pyval list"
  md_incidents :: "pyval list"
  md_tags :: "string list"
  md_objects :: "(string \<times> string list list) list"

record event =
  ev_class :: event_class
  ev_metadata :: event_metadata
  ev_payload :: dict
  ev_linked_objects :: "(string \<times> string list list) list"

text \<open>\<open>EventMetadata()\<close> without arguments, given the fresh UUID and the current time.\<close>

definition metadata_new :: "string \<Rightarrow> int \<Rightarrow> event_metadata" where
  "metadata_new new_uuid now =
     \<lparr>md_deserialized = False, md_uuid = new_uuid, md_index = 0, md_created_at = now,
      md_machine_serial_number = None, md_observer = None, md_request = None, md_probes = [],
      md_incidents = [], md_tags = [], md_objects = []\<rparr>"

definition metadata_namespace :: "event_class \<Rightarrow> string" where
  "metadata_namespace c = (case namespace c of
     Some ns \<Rightarrow> if ns \<noteq> [] then ns else event_type c | None \<Rightarrow> event_type c)"

text \<open>\<open>set(self.tags + self.event.tags)\<close>, listed in the order of first occurrence.\<close>

definition all_tags :: "event_class \<Rightarrow> event_metadata \<Rightarrow> string list" where
  "all_tags c md = rev (remdups (rev (md_tags md @ class_tags c)))"

definition encode_objects :: "(string \<times> string list list) list \<Rightarrow> dict" where
  "encode_objects objs = map (\<lambda>(k, v). (k, PList (map (\<lambda>args. PStr (encode_args args)) v))) objs"

text \<open>A deserialized event keeps the objects it came with.\<close>

definition event_objects :: "event \<Rightarrow> (string \<times> string list list) list" where
  "event_objects e =
     (if md_deserialized (ev_metadata e) then md_objects (ev_metadata e) else ev_linked_objects e)"

definition metadata_serialize ::
  "(int \<Rightarrow> string) \<Rightarrow> (string \<Rightarrow> dict) \<Rightarrow> bool \<Rightarrow> event \<Rightarrow> dict" where
  "metadata_serialize isoformat machine_info machine_metadata e =
     (let md = ev_metadata e; c = ev_class e; tags = all_tags c md; objects = event_objects e
      in present
        [(''created_at'', Some (PStr (isoformat (md_created_at md)))),
         (''id'', Some (PStr (md_uuid md))),
         (''index'', Some (PInt (md_index md))),
         (''type'', Some (PStr (event_type c))),
         (''namespace'', Some (PStr (metadata_namespace c))),
         (''tags'', if tags \<noteq> [] then Some (PList (map PStr tags)) else None),
         (''observer'', map_option (\<lambda>ob. PDict (observer_serialize ob)) (md_observer md)),
         (''request'', map_option (\<lambda>r. PDict (request_serialize r)) (md_request md)),
         (''probes'', if md_probes md \<noteq> [] then Some (PList (md_probes md)) else None),
         (''incidents'', if md_incidents md \<noteq> [] then Some (PList (md_incidents md)) else None),
         (''machine_serial_number'',
            if truthy_str (md_machine_serial_number md)
            then Some (opt_str (md_machine_serial_number md)) else None),
         (''objects'', if objects \<noteq> [] then Some (PDict (encode_objects objects)) else None),
         (''machine'',
            if machine_metadata \<and> truthy_str (md_machine_serial_number md) \<and>
               machine_info (the (md_machine_serial_number md)) \<noteq> []
            then Some (PDict (machine_info (the (md_machine_serial_number md)))) else None)])"

text \<open>Reading the arguments of the constructor back.\<close>

fun pop_list :: "dict \<Rightarrow> string \<Rightarrow> pyerror + pyval list" where
  "pop_list d k = (case dict_get d k of
     None \<Rightarrow> Inr [] | Some (PList xs) \<Rightarrow> Inr xs | Some _ \<Rightarrow> Inl TypeError)"

fun as_str :: "pyval \<Rightarrow> pyerror + string" where
  "as_str (PStr s) = Inr s"
| "as_str _ = Inl TypeError"

fun decode_object :: "string \<times> pyval \<Rightarrow> pyerror + string \<times> string list list" where
  "decode_object (k, PList vs) =
     bind_result (map_result as_str vs) (\<lambda>ss. Inr (k, map decode_args ss))"
| "decode_object (k, _) = Inl TypeError"

definition pop_objects :: "dict \<Rightarrow> pyerror + (string \<times> string list list) list" where
  "pop_objects d = (case dict_get d ''objects'' of
     None \<Rightarrow> Inr [] | Some (PDict objs) \<Rightarrow> map_result decode_object objs | Some _ \<Rightarrow> Inl AttributeError)"

definition pop_index :: "dict \<Rightarrow> pyerror + int" where
  "pop_index d = (case dict_get_default d ''index'' (PInt 0) of
     PInt i \<Rightarrow> Inr i
   | PStr s \<Rightarrow> (case parse_int s of Some i \<Rightarrow> Inr i | None \<Rightarrow> Inl ValueError)
   | _ \<Rightarrow> Inl TypeError)"

definition pop_created_at :: "(string \<Rightarrow> int) \<Rightarrow> int \<Rightarrow> dict \<Rightarrow> pyerror + int" where
  "pop_created_at parse_datetime now d = (case dict_get_default d ''created_at'' PNone of
     PNone \<Rightarrow> Inr now | PStr s \<Rightarrow> Inr (parse_datetime s) | PTime t \<Rightarrow> Inr t | _ \<Rightarrow> Inl TypeError)"

definition metadata_deserialize :: "(string \<Rightarrow> int) \<Rightarrow> int \<Rightarrow> dict \<Rightarrow> pyerror + event_metadata" where
  "metadata_deserialize parse_datetime now d =
     (case dict_get d ''id'' of
        None \<Rightarrow> Inl (KeyError ''id'')
      | Some idv \<Rightarrow>
     bind_result (as_str idv) (\<lambda>uuid.
     bind_result (pop_index d) (\<lambda>idx.
     bind_result (pop_created_at parse_datetime now d) (\<lambda>created_at.
     bind_result (pop_list d ''probes'') (\<lambda>probes.
     bind_result (pop_list d ''incidents'') (\<lambda>incidents.
     bind_result (bind_result (pop_list d ''tags'') (map_result as_str)) (\<lambda>tags.
     bind_result (pop_objects d) (\<lambda>objects.
       Inr \<lparr>md_deserialized = True, md_uuid = uuid, md_index = idx, md_created_at = created_at,
            md_machine_serial_number = (case dict_attr d ''machine_serial_number'' of
               PStr s \<Rightarrow> Some s | _ \<Rightarrow> None),
            md_observer = (case dict_attr d ''observer'' of
               PDict ob \<Rightarrow> if ob = [] then None else Some (observer_deserialize ob) | _ \<Rightarrow> None),
            md_request = (case dict_attr d ''request'' of
               PDict r \<Rightarrow> if r = [] then None else Some (request_deserialize r) | _ \<Rightarrow> None),
            md_probes = probes, md_incidents = incidents, md_tags = tags,
            md_objects = objects\<rparr>))))))))"

definition event_serialize ::
  "(int \<Rightarrow> string) \<Rightarrow> (string \<Rightarrow> dict) \<Rightarrow> bool \<Rightarrow> event \<Rightarrow> dict" where
  "event_serialize isoformat machine_info machine_metadata e =
     dict_set ''_zentral'' (PDict (metadata_serialize isoformat machine_info machine_metadata e))
       (ev_payload e)"

definition event_deserialize ::
  "(string \<Rightarrow> int) \<Rightarrow> int \<Rightarrow> event_class \<Rightarrow> dict \<Rightarrow> pyerror + event" where
  "event_deserialize parse_datetime now c event_d =
     (case dict_get event_d ''_zentral'' of
        None \<Rightarrow> Inl (KeyError ''_zentral'')
      | Some (PDict md_d) \<Rightarrow>
          bind_result (metadata_deserialize parse_datetime now md_d) (\<lambda>md.
            Inr \<lparr>ev_class = c, ev_metadata = md, ev_payload = dict_del ''_zentral'' event_d,
                 ev_linked_objects = []\<rparr>)
      | Some _ \<Rightarrow> Inl AttributeError)"

definition event_key :: "event \<Rightarrow> string \<times> string \<times> int" where
  "event_key e = (event_type (ev_class e), md_uuid (ev_metadata e), md_index (ev_metadata e))"

definition event_eq :: "event \<Rightarrow> event \<Rightarrow> bool" where
  "event_eq e e' \<longleftrightarrow> event_key e = event_key e'"

text \<open>
  One event per payload, with one UUID and the position as the index. \<open>get_created_at\<close> may
  raise (\<open>None\<close>): the time of the construction is then kept.
\<close>

definition build_from_machine_request_payloads ::
  "event_class \<Rightarrow> string \<Rightarrow> int \<Rightarrow> string option \<Rightarrow> string option \<Rightarrow> string option \<Rightarrow> dict list \<Rightarrow>
   (dict \<Rightarrow> int option) option \<Rightarrow> dict option \<Rightarrow> event list" where
  "build_from_machine_request_payloads c new_uuid now msn ua ip' payloads get_created_at observer =
     (let request = (if truthy_str ua \<or> truthy_str ip'
                     then Some \<lparr>user_agent = opt_str ua, ip = opt_str ip', geo = None, user = None\<rparr>
                     else None);
          obs = (case observer of
                   None \<Rightarrow> None
                 | Some d \<Rightarrow> if d = [] then None else Some (observer_deserialize d))
      in map (\<lambda>(index, payload).
           \<lparr>ev_class = c,
            ev_metadata = (metadata_new new_uuid now)
              \<lparr>md_index := int index, md_machine_serial_number := msn, md_observer := obs,
               md_request := request,
               md_created_at := (case get_created_at of
                  None \<Rightarrow> now
                | Some g \<Rightarrow> (case g payload of None \<Rightarrow> now | Some t \<Rightarrow> t))\<rparr>,
            ev_payload = payload, ev_linked_objects = []\<rparr>)
         (enumerate 0 payloads))"

subsection \<open>Round trip of the metadata\<close>

text \<open>The metadata whose parts all survive their own serialization.\<close>

definition metadata_clean :: "event \<Rightarrow> bool" where
  "metadata_clean e \<longleftrightarrow>
     (let md = ev_metadata e
      in (\<forall>ob. md_observer md = Some ob \<longrightarrow> observer_clean ob \<and> observer_serialize ob \<noteq> []) \<and>
         (\<forall>r. md_request md = Some r \<longrightarrow> request_clean r \<and> request_serialize r \<noteq> []) \<and>
         md_machine_serial_number md \<noteq> Some [] \<and>
         list_all (\<lambda>(k, v). list_all (\<lambda>args. args \<noteq> []) v) (event_objects e))"

lemma map_result_as_str: "map_result as_str (map PStr ss) = Inr ss"
  by (induction ss) simp_all

lemma map_result_encode_args:
  "list_all (\<lambda>args. args \<noteq> []) v \<Longrightarrow>
   bind_result (map_result as_str (map (\<lambda>args. PStr (encode_args args)) v))
     (\<lambda>ss. Inr (k, map decode_args ss)) = Inr (k, v)"
proof -
  assume a: "list_all (\<lambda>args. args \<noteq> []) v"
  have "map_result as_str (map (\<lambda>args. PStr (encode_args args)) v) = Inr (map encode_args v)"
    by (induction v) simp_all
  moreover from a have "map decode_args (map encode_args v) = v"
    by (induction v) (auto simp: decode_encode_args)
  ultimately show ?thesis by simp
qed

lemma decode_encode_objects:
  "list_all (\<lambda>(k, v). list_all (\<lambda>args. args \<noteq> []) v) objs \<Longrightarrow>
   map_result decode_object (encode_objects objs) = Inr objs"
proof (induction objs)
  case (Cons x objs)
  obtain k v where x: "x = (k, v)" by fastforce
  with Cons.prems have "list_all (\<lambda>args. args \<noteq> []) v" by simp
  then have "decode_object (k, PList (map (\<lambda>args. PStr (encode_args args)) v)) = Inr (k, v)"
    using map_result_encode_args [of v k] by simp
  with Cons x show ?case by (simp add: encode_objects_def)
qed (simp add: encode_objects_def)

lemma all_tags_set: "set (all_tags c md) = set (md_tags md) \<union> set (class_tags c)"
  by (auto simp: all_tags_def)

lemma all_tags_distinct: "distinct (all_tags c md)"
  by (simp add: all_tags_def)

lemma metadata_serialize_get:
  fixes isoformat machine_info machine_metadata e
  defines "d \<equiv> metadata_serialize isoformat machine_info machine_metadata e"
    and "md \<equiv> ev_metadata e" and "c \<equiv> ev_class e"
  shows "dict_get d ''id'' = Some (PStr (md_uuid md))"
    and "dict_get d ''index'' = Some (PInt (md_index md))"
    and "dict_get d ''created_at'' = Some (PStr (isoformat (md_created_at md)))"
    and "dict_get d ''tags'' =
      (if all_tags c md \<noteq> [] then Some (PList (map PStr (all_tags c md))) else None)"
    and "dict_get d ''observer'' = map_option (\<lambda>ob. PDict (observer_serialize ob)) (md_observer md)"
    and "dict_get d ''request'' = map_option (\<lambda>r. PDict (request_serialize r)) (md_request md)"
    and "dict_get d ''probes'' = (if md_probes md \<noteq> [] then Some (PList (md_probes md)) else None)"
    and "dict_get d ''incidents'' =
      (if md_incidents md \<noteq> [] then Some (PList (md_incidents md)) else None)"
    and "dict_get d ''machine_serial_number'' =
      (if truthy_str (md_machine_serial_number md)
       then Some (opt_str (md_machine_serial_number md)) else None)"
    and "dict_get d ''objects'' =
      (if event_objects e \<noteq> [] then Some (PDict (encode_objects (event_objects e))) else None)"
  unfolding d_def md_def c_def metadata_serialize_def Let_def
  by (simp_all add: present_get split del: if_split)

lemma bind_Some_id [simp]: "Option.bind (Some x) id = x"
  by simp

lemma pop_metadata:
  fixes e :: event and isoformat :: "int \<Rightarrow> string" and machine_info :: "string \<Rightarrow> dict"
    and machine_metadata :: bool
  assumes "metadata_clean e" and "\<And>t. parse_datetime (isoformat t) = t"
  defines "d \<equiv> metadata_serialize isoformat machine_info machine_metadata e"
    and "md \<equiv> ev_metadata e"
  shows "pop_index d = Inr (md_index md)"
    and "pop_created_at parse_datetime now d = Inr (md_created_at md)"
    and "pop_list d ''probes'' = Inr (md_probes md)"
    and "pop_list d ''incidents'' = Inr (md_incidents md)"
    and "bind_result (pop_list d ''tags'') (map_result as_str) = Inr (all_tags (ev_class e) md)"
    and "pop_objects d = Inr (event_objects e)"
proof -
  note get = metadata_serialize_get [of isoformat machine_info machine_metadata e,
      folded d_def md_def]
  show "pop_index d = Inr (md_index md)"
    by (simp add: pop_index_def dict_get_default_def get)
  show "pop_created_at parse_datetime now d = Inr (md_created_at md)"
    by (simp add: pop_created_at_def dict_get_default_def get assms(2))
  show "pop_list d ''probes'' = Inr (md_probes md)" by (simp add: get)
  show "pop_list d ''incidents'' = Inr (md_incidents md)" by (simp add: get)
  show "bind_result (pop_list d ''tags'') (map_result as_str) = Inr (all_tags (ev_class e) md)"
    by (simp add: get map_result_as_str)
  have "list_all (\<lambda>(k, v). list_all (\<lambda>args. args \<noteq> []) v) (event_objects e)"
    using assms(1) by (simp add: metadata_clean_def Let_def)
  then show "pop_objects d = Inr (event_objects e)"
    using decode_encode_objects [of "event_objects e"] unfolding pop_objects_def get by simp
qed

lemma metadata_roundtrip:
  fixes e :: event and isoformat :: "int \<Rightarrow> string" and machine_info :: "string \<Rightarrow> dict"
    and machine_metadata :: bool
  assumes clean: "metadata_clean e" and dt: "\<And>t. parse_datetime (isoformat t) = t"
  shows "metadata_deserialize parse_datetime now
           (metadata_serialize isoformat machine_info machine_metadata e) =
         Inr ((ev_metadata e)\<lparr>md_deserialized := True,
                md_tags := all_tags (ev_class e) (ev_metadata e),
                md_objects := event_objects e\<rparr>)"
proof -
  define md where "md = ev_metadata e"
  define d where "d = metadata_serialize isoformat machine_info machine_metadata e"
  note get = metadata_serialize_get [of isoformat machine_info machine_metadata e,
      folded md_def d_def]
  note pop = pop_metadata [of e parse_datetime isoformat, OF clean dt,
      where machine_info = machine_info and machine_metadata = machine_metadata,
      folded md_def d_def]
  have cl: "\<And>ob. md_observer md = Some ob \<Longrightarrow> observer_clean ob \<and> observer_serialize ob \<noteq> []"
    "\<And>r. md_request md = Some r \<Longrightarrow> request_clean r \<and> request_serialize r \<noteq> []"
    "md_machine_serial_number md \<noteq> Some []"
    using clean by (simp_all add: metadata_clean_def md_def Let_def)
  have sn: "(case dict_attr d ''machine_serial_number'' of PStr s \<Rightarrow> Some s | _ \<Rightarrow> None) =
      md_machine_serial_number md"
    using cl(3) by (cases "md_machine_serial_number md")
      (auto simp: dict_attr_def dict_get_default_def get opt_str_def)
  have ob: "(case dict_attr d ''observer'' of
      PDict ob \<Rightarrow> if ob = [] then None else Some (observer_deserialize ob) | _ \<Rightarrow> None) = md_observer md"
    using cl(1) by (cases "md_observer md")
      (simp_all add: dict_attr_def dict_get_default_def get observer_roundtrip)
  have rq: "(case dict_attr d ''request'' of
      PDict r \<Rightarrow> if r = [] then None else Some (request_deserialize r) | _ \<Rightarrow> None) = md_request md"
    using cl(2) by (cases "md_request md")
      (simp_all add: dict_attr_def dict_get_default_def get request_roundtrip)
  show ?thesis
    unfolding d_def [symmetric] md_def [symmetric] metadata_deserialize_def get(1) option.case
      as_str.simps bind_result_simps pop sn ob rq
    by (cases md) simp
qed

subsection \<open>Commands\<close>

text \<open>
  \<open>COMMAND_RE\<close>: \<open>zentral$\<close>, a command, one or more \<open>$\<close> serial numbers, then optional
  \<open>#\<close> arguments. The separators are not in the classes, so each repetition ends where the
  next separator begins, and the match is a split.
\<close>

definition is_alpha :: "char \<Rightarrow> bool" where
  "is_alpha c \<longleftrightarrow> (let n = of_char c :: nat in (65 \<le> n \<and> n \<le> 90) \<or> (97 \<le> n \<and> n \<le> 122))"

definition command_char :: "char \<Rightarrow> bool" where
  "command_char c \<longleftrightarrow> is_alpha c \<or> c \<in> set ''-_ ''"

definition serial_number_char :: "char \<Rightarrow> bool" where
  "serial_number_char c \<longleftrightarrow> is_alpha c \<or> is_digit c \<or> c \<in> set ''-_''"

definition arg_char :: "char \<Rightarrow> bool" where
  "arg_char c \<longleftrightarrow> is_alpha c \<or> is_digit c \<or> c \<in> set ''-_ ''"

definition match_command :: "string \<Rightarrow> (string \<times> string list \<times> string list) option" where
  "match_command line =
     (if \<not> prefix ''zentral$'' line then None
      else case split_on CHR ''#'' (drop (length ''zentral$'') line) of
        [] \<Rightarrow> None
      | head # args \<Rightarrow>
         (case split_on CHR ''$'' head of
            [] \<Rightarrow> None
          | command # serial_numbers \<Rightarrow>
              if command \<noteq> [] \<and> list_all command_char command \<and> serial_numbers \<noteq> [] \<and>
                 list_all (\<lambda>sn. sn \<noteq> [] \<and> list_all serial_number_char sn) serial_numbers \<and>
                 list_all (\<lambda>a. a \<noteq> [] \<and> list_all arg_char a) args
              then Some (command, serial_numbers, args) else None))"

definition is_line_boundary :: "char \<Rightarrow> bool" where
  "is_line_boundary c \<longleftrightarrow>
     c \<in> set [CHR 0x0A, CHR 0x0B, CHR 0x0C, CHR 0x0D, CHR 0x1C, CHR 0x1D, CHR 0x1E]"

text \<open>\<open>message.splitlines()\<close>: a carriage return and a line feed after it end one line.\<close>

fun splitlines_loop :: "string \<Rightarrow> string \<Rightarrow> string list" where
  "splitlines_loop cur [] = (if cur = [] then [] else [cur])"
| "splitlines_loop cur [c] = (if is_line_boundary c then [cur] else [cur @ [c]])"
| "splitlines_loop cur (c # d # s) =
     (if c = CHR 0x0D \<and> d = CHR 0x0A then cur # splitlines_loop [] s
      else if is_line_boundary c then cur # splitlines_loop [] (d # s)
      else splitlines_loop (cur @ [c]) (d # s))"

definition splitlines :: "string \<Rightarrow> string list" where
  "splitlines s = splitlines_loop [] s"

definition CommandEvent :: event_class where
  "CommandEvent = \<lparr>event_type = ''zentral_command'', namespace = None, class_tags = [''zentral'']\<rparr>"

text \<open>The serial number and the payload of every event posted, in the order they are posted.\<close>

definition command_line_events :: "pyval \<Rightarrow> string \<Rightarrow> (string \<times> dict) list" where
  "command_line_events source line =
     (case match_command (strip line) of
        None \<Rightarrow> []
      | Some (command, serial_numbers, args) \<Rightarrow>
          (let payload = [(''command'', PStr command), (''source'', source)]
                 @ (if args \<noteq> [] then [(''args'', PList (map PStr args))] else [])
           in map (\<lambda>sn. (sn, payload)) serial_numbers))"

definition post_command_events ::
  "(nat \<Rightarrow> string) \<Rightarrow> int \<Rightarrow> string \<Rightarrow> pyval \<Rightarrow> string list \<Rightarrow> event list" where
  "post_command_events new_uuid now message source tags =
     (if message = [] then []
      else map (\<lambda>(i, (sn, payload)).
             \<lparr>ev_class = CommandEvent,
              ev_metadata = (metadata_new (new_uuid i) now)
                \<lparr>md_machine_serial_number := Some sn, md_tags := tags\<rparr>,
              ev_payload = payload, ev_linked_objects = []\<rparr>)
           (enumerate 0 (concat (map (command_line_events source) (splitlines message)))))"

text \<open>The line a sender writes for a command.\<close>

definition command_line :: "string \<Rightarrow> string list \<Rightarrow> string list \<Rightarrow> string" where
  "command_line command serial_numbers args =
     ''zentral$'' @ join_with ''#'' (join_with ''$'' (command # serial_numbers) # args)"

lemma not_in_class:
  "list_all command_char s \<Longrightarrow> CHR ''$'' \<notin> set s \<and> CHR ''#'' \<notin> set s"
  "list_all serial_number_char s \<Longrightarrow> CHR ''$'' \<notin> set s \<and> CHR ''#'' \<notin> set s"
  "list_all arg_char s \<Longrightarrow> CHR ''#'' \<notin> set s"
  by (auto simp: list_all_iff command_char_def serial_number_char_def arg_char_def is_alpha_def
      is_digit_def Let_def)

lemma not_in_join: "c \<notin> set sep \<Longrightarrow> \<forall>w \<in> set ws. c \<notin> set w \<Longrightarrow> c \<notin> set (join_with sep ws)"
  by (induction sep ws rule: join_with.induct) auto

lemma match_command_line:
  assumes "command \<noteq> []" "list_all command_char command" "serial_numbers \<noteq> []"
    and "list_all (\<lambda>sn. sn \<noteq> [] \<and> list_all serial_number_char sn) serial_numbers"
    and "list_all (\<lambda>a. a \<noteq> [] \<and> list_all arg_char a) args"
  shows "match_command (command_line command serial_numbers args) =
    Some (command, serial_numbers, args)"
proof -
  define head where "head = join_with ''$'' (command # serial_numbers)"
  have words: "\<forall>w \<in> set (command # serial_numbers). CHR ''$'' \<notin> set w \<and> CHR ''#'' \<notin> set w"
    using assms(2,4) not_in_class(1,2) by (simp add: list_all_iff)
  have "split_on CHR ''$'' head = command # serial_numbers"
    unfolding head_def using words by (intro split_on_join) auto
  moreover have "CHR ''#'' \<notin> set head"
    unfolding head_def using words by (intro not_in_join) auto
  moreover have "\<forall>a \<in> set args. CHR ''#'' \<notin> set a"
    using assms(5) not_in_class(3) by (simp add: list_all_iff)
  ultimately have "split_on CHR ''#'' (join_with ''#'' (head # args)) = head # args"
    by (intro split_on_join) auto
  with \<open>split_on CHR ''$'' head = _\<close> assms show ?thesis
    by (simp add: match_command_def command_line_def head_def [symmetric])
qed

subsection \<open>Properties\<close>

text \<open>
  The keys of the objects an event is linked to survive their encoding, whatever the
  characters of their parts, separator and escape character included.
\<close>

theorem linked_object_key_roundtrip:
  assumes "args \<noteq> []"
  shows "decode_args (encode_args args) = args"
  using assms by (rule decode_encode_args)

theorem linked_object_key_roundtrip_witness:
  "decode_args (encode_args [''a|b'', [CHR 0x5C], '''']) = [''a|b'', [CHR 0x5C], '''']"
  by (rule linked_object_key_roundtrip) simp


definition sample_metadata_event :: event where
  "sample_metadata_event =
     \<lparr>ev_class = CommandEvent,
      ev_metadata = (metadata_new ''u1'' 3)
        \<lparr>md_request := Some \<lparr>user_agent = PStr ''ua'', ip = PNone, geo = None, user = None\<rparr>,
         md_machine_serial_number := Some ''SN1''\<rparr>,
      ev_payload = [], ev_linked_objects = [(''munki_script_check'', [[''1'', ''2'']])]\<rparr>"

definition sample_isoformat :: "int \<Rightarrow> string" where
  "sample_isoformat t =
     (if t < 0 then CHR ''-'' # replicate (nat (- t)) CHR ''i'' else replicate (nat t) CHR ''i'')"

definition sample_parse_datetime :: "string \<Rightarrow> int" where
  "sample_parse_datetime s = (case s of [] \<Rightarrow> 0
     | c # r \<Rightarrow> if c = CHR ''-'' then - int (length r) else int (length s))"

lemma sample_datetime_roundtrip: "sample_parse_datetime (sample_isoformat t) = t"
  by (cases "nat t") (auto simp: sample_parse_datetime_def sample_isoformat_def)


text \<open>
  A command line written for a command, serial numbers and arguments made of the characters
  the command syntax allows is parsed back to exactly these.
\<close>

theorem command_line_parsed:
  assumes "command \<noteq> []" "list_all command_char command" "serial_numbers \<noteq> []"
    and "list_all (\<lambda>sn. sn \<noteq> [] \<and> list_all serial_number_char sn) serial_numbers"
    and "list_all (\<lambda>a. a \<noteq> [] \<and> list_all arg_char a) args"
  shows "match_command (command_line command serial_numbers args) =
    Some (command, serial_numbers, args)"
  using assms by (rule match_command_line)

theorem command_line_parsed_witness:
  "match_command (command_line ''ping'' [''SN1'', ''SN2''] [''a b'']) =
     Some (''ping'', [''SN1'', ''SN2''], [''a b''])"
  by (rule command_line_parsed)
     (simp_all add: command_char_def serial_number_char_def arg_char_def is_alpha_def is_digit_def)

end
