(* ===== verification/Probes.thy ===== *)
theory Probes imports IncidentModels Events "HOL-Library.Multiset" begin

text \<open>
  \<open>zentral/core/probes/base.py\<close> and \<open>conf.py\<close>: the inventory, metadata and payload filters of
  a probe, how a validated body is loaded, how machines and events are matched, the export of
  a probe, and the cached views over the active probes. Sets of the source are lists read by
  membership. The declared fields of the serializers are typed records; the conversions the
  REST framework makes on raw input are not modelled, the \<open>validate\<close> methods of the code are.
\<close>

subsection \<open>Probe sources\<close>

datatype probe_status = ACTIVE | INACTIVE

record probe_source =
  ps_pk :: nat
  ps_model :: "string option"
  ps_name :: string
  ps_slug :: string
  ps_status :: probe_status
  ps_description :: string
  ps_event_types :: "string list"
  ps_feed_probe :: "nat option"
  ps_feed_probe_update_available :: bool
  ps_body :: dict
  ps_created_at :: int

definition active_probe_sources :: "probe_source list \<Rightarrow> probe_source list" where
  "active_probe_sources sources = filter (\<lambda>s. ps_status s = ACTIVE) sources"

subsection \<open>Inventory filters\<close>

record inventory_filter =
  meta_business_unit_ids :: "nat list"
  tag_ids :: "nat list"
  platforms :: "string list"
  types :: "string list"

record inventory_filter_data =
  ifd_meta_business_unit_ids :: "nat list option"
  ifd_tag_ids :: "nat list option"
  ifd_platforms :: "string list option"
  ifd_types :: "string list option"

definition get_list :: "'a list option \<Rightarrow> 'a list" where
  "get_list x = (case x of None \<Rightarrow> [] | Some xs \<Rightarrow> xs)"

definition InventoryFilter :: "inventory_filter_data \<Rightarrow> inventory_filter" where
  "InventoryFilter d =
     \<lparr>meta_business_unit_ids = get_list (ifd_meta_business_unit_ids d),
      tag_ids = get_list (ifd_tag_ids d),
      platforms = get_list (ifd_platforms d), types = get_list (ifd_types d)\<rparr>"

text \<open>The choices of the two multiple choice fields, then the method \<open>validate\<close>.\<close>

definition inventory_filter_validate ::
  "string list \<Rightarrow> string list \<Rightarrow> inventory_filter_data \<Rightarrow> bool" where
  "inventory_filter_validate platform_choices type_choices d \<longleftrightarrow>
     set (get_list (ifd_platforms d)) \<subseteq> set platform_choices \<and>
     set (get_list (ifd_types d)) \<subseteq> set type_choices \<and>
     (get_list (ifd_meta_business_unit_ids d) \<noteq> [] \<or> get_list (ifd_tag_ids d) \<noteq> [] \<or>
      get_list (ifd_platforms d) \<noteq> [] \<or> get_list (ifd_types d) \<noteq> [])"

text \<open>\<open>cached_probe_filtering_values\<close> of a machine.\<close>

record machine_values =
  m_platform :: "string option"
  m_type :: "string option"
  m_mbu_id_set :: "nat list"
  m_tag_id_set :: "nat list"

definition intersects :: "'a list \<Rightarrow> 'a list \<Rightarrow> bool" where
  "intersects xs ys = list_ex (\<lambda>x. List.member ys x) xs"

lemma intersects_iff: "intersects xs ys \<longleftrightarrow> set xs \<inter> set ys \<noteq> {}"
  by (auto simp: intersects_def list_ex_iff)

definition inventory_filter_test_machine :: "inventory_filter \<Rightarrow> machine_values \<Rightarrow> bool" where
  "inventory_filter_test_machine f m =
     (if meta_business_unit_ids f \<noteq> [] \<and> \<not> intersects (meta_business_unit_ids f) (m_mbu_id_set m)
      then False
      else if tag_ids f \<noteq> [] \<and> \<not> intersects (tag_ids f) (m_tag_id_set m) then False
      else if platforms f \<noteq> [] \<and> \<not> list_ex (\<lambda>p. m_platform m = Some p) (platforms f) then False
      else if types f \<noteq> [] \<and> \<not> list_ex (\<lambda>t. m_type m = Some t) (types f) then False
      else True)"

subsection \<open>Metadata filters\<close>

record metadata_filter =
  mf_event_types :: "string list"
  mf_event_tags :: "string list"

record metadata_filter_data =
  mfd_event_types :: "string list option"
  mfd_event_tags :: "string list option"

definition MetadataFilter :: "metadata_filter_data \<Rightarrow> metadata_filter" where
  "MetadataFilter d =
     \<lparr>mf_event_types = (case mfd_event_types d of None \<Rightarrow> [] | Some ts \<Rightarrow> ts),
      mf_event_tags = (case mfd_event_tags d of None \<Rightarrow> [] | Some ts \<Rightarrow> ts)\<rparr>"

definition metadata_filter_validate :: "metadata_filter_data \<Rightarrow> bool" where
  "metadata_filter_validate d \<longleftrightarrow>
     get_list (mfd_event_types d) \<noteq> [] \<or> get_list (mfd_event_tags d) \<noteq> []"

definition test_event_metadata :: "metadata_filter \<Rightarrow> event \<Rightarrow> bool" where
  "test_event_metadata f e =
     (if mf_event_types f \<noteq> [] \<and> \<not> List.member (mf_event_types f) (event_type (ev_class e)) then False
      else if mf_event_tags f \<noteq> [] \<and>
              \<not> intersects (all_tags (ev_class e) (ev_metadata e)) (mf_event_tags f) then False
      else True)"

text \<open>The known event types of a filter, sorted by what is displayed: underscores as spaces.\<close>

definition event_type_display :: "string \<Rightarrow> string" where
  "event_type_display t = map (\<lambda>c. if c = CHR ''_'' then CHR '' '' else c) t"

definition metadata_filter_get_event_type_classes ::
  "(string \<times> event_class) list \<Rightarrow> metadata_filter \<Rightarrow> event_class list" where
  "metadata_filter_get_event_type_classes event_types f =
     sort_key (\<lambda>c. str_key (event_type_display (event_type c)))
       (List.map_filter (\<lambda>t. map_of event_types t) (remdups (mf_event_types f)))"

subsection \<open>Payload filters\<close>

text \<open>
  \<open>get_flattened_payload_values\<close>: lists are searched at every level, each with its own copy of
  the attributes; \<open>str(v)\<close> of a value is the parameter \<open>py_str\<close>. The list of attributes is
  never empty when a dictionary is reached, and the model would raise there.
\<close>

fun flattened :: "(pyval \<Rightarrow> string) \<Rightarrow> pyval \<Rightarrow> string list \<Rightarrow> pyerror + string list"
  and flattened_list :: "(pyval \<Rightarrow> string) \<Rightarrow> pyval list \<Rightarrow> string list \<Rightarrow> pyerror + string list"
  and flattened_item :: "(pyval \<Rightarrow> string) \<Rightarrow> (string \<times> pyval) list \<Rightarrow> string \<Rightarrow> string list \<Rightarrow>
         pyerror + string list"
where
  "flattened py_str (PList ps) attrs = flattened_list py_str ps attrs"
| "flattened py_str (PDict d) [] = Inl IndexError"
| "flattened py_str (PDict d) (attr # attrs) = flattened_item py_str d attr attrs"
| "flattened py_str _ attrs = Inr []"
| "flattened_list py_str [] attrs = Inr []"
| "flattened_list py_str (p # ps) attrs =
     bind_result (flattened py_str p attrs) (\<lambda>vs.
       bind_result (flattened_list py_str ps attrs) (\<lambda>ws. Inr (vs @ ws)))"
| "flattened_item py_str [] attr attrs = Inr []"
| "flattened_item py_str ((k, val) # d) attr attrs =
     (if k \<noteq> attr then flattened_item py_str d attr attrs
      else if val = PNone then Inr []
      else if attrs = [] then
        Inr (case val of PList vs \<Rightarrow> map py_str vs | _ \<Rightarrow> [py_str val])
      else flattened py_str val attrs)"

definition get_flattened_payload_values ::
  "(pyval \<Rightarrow> string) \<Rightarrow> pyval \<Rightarrow> string list \<Rightarrow> pyerror + string list" where
  "get_flattened_payload_values py_str payload attrs = flattened py_str payload attrs"

datatype operator = IN | NOT_IN

text \<open>An item as written (the operator a string) and as kept by the filter.\<close>

record payload_filter_item_data =
  pfi_attribute :: string
  pfi_operator :: string
  pfi_values :: "string list"

type_synonym payload_filter_item = "string \<times> operator \<times> string list"
type_synonym payload_filter = "payload_filter_item list"

definition parse_operator :: "string \<Rightarrow> operator option" where
  "parse_operator s = (if s = ''IN'' then Some IN else if s = ''NOT_IN'' then Some NOT_IN else None)"

definition payload_filter_item_validate :: "payload_filter_item_data \<Rightarrow> bool" where
  "payload_filter_item_validate d \<longleftrightarrow> parse_operator (pfi_operator d) \<noteq> None"

text \<open>
  \<open>self.items.sort()\<close> compares the attribute, then the operator, then the sets of values by
  inclusion, which is no total order: the sort is an insertion that moves an item past those
  it is strictly below.
\<close>

definition item_less :: "payload_filter_item \<Rightarrow> payload_filter_item \<Rightarrow> bool" where
  "item_less x y = (case (x, y) of ((a, op, vs), (b, oq, ws)) \<Rightarrow>
     if a \<noteq> b then str_key a < str_key b
     else if op \<noteq> oq then op = IN
     else set vs \<subset> set ws)"

fun insert_item :: "payload_filter_item \<Rightarrow> payload_filter \<Rightarrow> payload_filter" where
  "insert_item x [] = [x]"
| "insert_item x (y # ys) = (if item_less x y then x # y # ys else y # insert_item x ys)"

definition sort_items :: "payload_filter \<Rightarrow> payload_filter" where
  "sort_items xs = fold insert_item xs []"

fun payload_filter_items :: "payload_filter_item_data list \<Rightarrow> pyerror + payload_filter" where
  "payload_filter_items [] = Inr []"
| "payload_filter_items (d # ds) =
     (case parse_operator (pfi_operator d) of
        None \<Rightarrow> Inl ValueError
      | Some op \<Rightarrow>
          bind_result (payload_filter_items ds) (\<lambda>items.
            Inr (if pfi_values d = [] then items
                 else (pfi_attribute d, op, pfi_values d) # items)))"

definition PayloadFilter :: "payload_filter_item_data list \<Rightarrow> pyerror + payload_filter" where
  "PayloadFilter data = bind_result (payload_filter_items data) (\<lambda>items. Inr (sort_items items))"

fun test_event_payload :: "(pyval \<Rightarrow> string) \<Rightarrow> payload_filter \<Rightarrow> pyval \<Rightarrow> pyerror + bool" where
  "test_event_payload py_str [] payload = Inr True"
| "test_event_payload py_str ((attribute, op, values) # items) payload =
     bind_result (get_flattened_payload_values py_str payload (split_on CHR ''.'' attribute))
       (\<lambda>payload_values.
          let common_values = intersects values payload_values in
          if (op = IN \<and> \<not> common_values) \<or> (op = NOT_IN \<and> common_values) then Inr False
          else test_event_payload py_str items payload)"

subsection \<open>Probes\<close>

text \<open>The validated body, and a probe class with the attributes its subclasses override.\<close>

record filters_data =
  fd_inventory :: "inventory_filter_data list option"
  fd_metadata :: "metadata_filter_data list option"
  fd_payload :: "payload_filter_item_data list list option"

record probe_body =
  pb_filters :: "filters_data option"
  pb_actions :: "(string \<times> pyval) list option"
  pb_incident_severity :: "nat option"

record probe_class =
  pc_name :: string
  forced_event_type :: "string option"
  can_edit_payload_filters :: bool

definition base_probe_class :: probe_class where
  "base_probe_class =
     \<lparr>pc_name = ''BaseProbe'', forced_event_type = None, can_edit_payload_filters = True\<rparr>"

definition probe_body_validate :: "string list \<Rightarrow> string list \<Rightarrow> probe_body \<Rightarrow> bool" where
  "probe_body_validate platform_choices type_choices b \<longleftrightarrow>
     (case pb_filters b of
        None \<Rightarrow> True
      | Some f \<Rightarrow>
          list_all (inventory_filter_validate platform_choices type_choices) (get_list (fd_inventory f)) \<and>
          list_all metadata_filter_validate (get_list (fd_metadata f)) \<and>
          list_all (list_all payload_filter_item_validate) (get_list (fd_payload f))) \<and>
     (case pb_incident_severity b of None \<Rightarrow> True | Some s \<Rightarrow> s \<in> set (map fst SEVERITY_CHOICES))"

record probe =
  pr_source :: probe_source
  pr_class :: probe_class
  pr_loaded :: bool
  inventory_filters :: "inventory_filter list"
  metadata_filters :: "metadata_filter list"
  payload_filters :: "payload_filter list"
  pr_actions :: "(string \<times> pyval) list"
  incident_severity :: "nat option"

definition load_actions :: "string list \<Rightarrow> probe_body \<Rightarrow> (string \<times> pyval) list" where
  "load_actions available_actions b =
     (case pb_actions b of
        None \<Rightarrow> []
      | Some actions \<Rightarrow> filter (\<lambda>(name, config). name \<in> set available_actions) actions)"

definition load_filters ::
  "probe_class \<Rightarrow> probe_body \<Rightarrow>
   pyerror + inventory_filter list \<times> payload_filter list \<times> metadata_filter list" where
  "load_filters c b =
     (let inventory = get_list (Option.bind (pb_filters b) fd_inventory);
          payload = get_list (Option.bind (pb_filters b) fd_payload);
          metadata = get_list (Option.bind (pb_filters b) fd_metadata);
          metadata' = (case forced_event_type c of
             None \<Rightarrow> metadata
           | Some t \<Rightarrow> [\<lparr>mfd_event_types = Some [t], mfd_event_tags = None\<rparr>])
      in bind_result (if can_edit_payload_filters c then map_result PayloadFilter payload else Inr [])
           (\<lambda>pfs. Inr (map InventoryFilter inventory, pfs, map MetadataFilter metadata')))"

text \<open>
  \<open>load\<close>: an invalid body leaves the probe not loaded. \<open>data\<close> is the body as the REST
  framework typed it, \<open>None\<close> when it could not.
\<close>

definition probe_load ::
  "string list \<Rightarrow> string list \<Rightarrow> string list \<Rightarrow> probe_class \<Rightarrow> probe_source \<Rightarrow> probe_body option \<Rightarrow>
   pyerror + probe" where
  "probe_load platform_choices type_choices available_actions c src data =
     (let empty = \<lparr>pr_source = src, pr_class = c, pr_loaded = False, inventory_filters = [],
                   metadata_filters = [], payload_filters = [], pr_actions = [],
                   incident_severity = None\<rparr>
      in case data of
           None \<Rightarrow> Inr empty
         | Some b \<Rightarrow>
             if probe_body_validate platform_choices type_choices b then
               bind_result (load_filters c b) (\<lambda>(inv, pay, met).
                 Inr (empty\<lparr>pr_loaded := True, inventory_filters := inv, payload_filters := pay,
                            metadata_filters := met,
                            pr_actions := load_actions available_actions b,
                            incident_severity := pb_incident_severity b\<rparr>))
             else Inr empty)"

definition probe_eq :: "probe \<Rightarrow> probe \<Rightarrow> bool" where
  "probe_eq p q \<longleftrightarrow> ps_pk (pr_source p) = ps_pk (pr_source q)"

definition probe_test_machine :: "probe \<Rightarrow> machine_values \<Rightarrow> bool" where
  "probe_test_machine p m =
     (if \<not> pr_loaded p then False
      else if inventory_filters p = [] then True
      else list_ex (\<lambda>f. inventory_filter_test_machine f m) (inventory_filters p))"

definition probe_test_event_metadata :: "probe \<Rightarrow> event \<Rightarrow> bool" where
  "probe_test_event_metadata p e =
     (if metadata_filters p = [] then True
      else list_ex (\<lambda>f. test_event_metadata f e) (metadata_filters p))"

fun any_payload_filter ::
  "(pyval \<Rightarrow> string) \<Rightarrow> payload_filter list \<Rightarrow> pyval \<Rightarrow> pyerror + bool" where
  "any_payload_filter py_str [] payload = Inr False"
| "any_payload_filter py_str (f # fs) payload =
     bind_result (test_event_payload py_str f payload)
       (\<lambda>b. if b then Inr True else any_payload_filter py_str fs payload)"

definition probe_test_event_payload :: "(pyval \<Rightarrow> string) \<Rightarrow> probe \<Rightarrow> pyval \<Rightarrow> pyerror + bool" where
  "probe_test_event_payload py_str p payload =
     (if payload_filters p = [] then Inr True
      else any_payload_filter py_str (payload_filters p) payload)"

text \<open>\<open>machine_values\<close> gives the filtering values of a machine from its serial number.\<close>

definition probe_test_event ::
  "(pyval \<Rightarrow> string) \<Rightarrow> (string \<Rightarrow> machine_values) \<Rightarrow> probe \<Rightarrow> event \<Rightarrow> pyerror + bool" where
  "probe_test_event py_str machine_of p e =
     (let sn = md_machine_serial_number (ev_metadata e) in
      if \<not> pr_loaded p then Inr False
      else if truthy_str sn \<and> \<not> probe_test_machine p (machine_of (the sn)) then Inr False
      else if (case forced_event_type (pr_class p) of
                 Some t \<Rightarrow> event_type (ev_class e) \<noteq> t
               | None \<Rightarrow> \<not> probe_test_event_metadata p e) then Inr False
      else probe_test_event_payload py_str p (PDict (ev_payload e)))"

definition probe_serialize_for_event_metadata :: "probe \<Rightarrow> dict" where
  "probe_serialize_for_event_metadata p =
     [(''pk'', PInt (int (ps_pk (pr_source p)))), (''name'', PStr (ps_name (pr_source p)))]"

definition get_incident_severity_display :: "probe \<Rightarrow> string" where
  "get_incident_severity_display p =
     (case incident_severity p of
        None \<Rightarrow> ''Do not create incidents''
      | Some s \<Rightarrow> (case map_of SEVERITY_CHOICES s of
          Some l \<Rightarrow> l | None \<Rightarrow> ''Unknown severity '' @ nat_str s))"

definition not_configured_actions :: "string list \<Rightarrow> probe \<Rightarrow> string list" where
  "not_configured_actions available_actions p =
     sort_key str_key (filter (\<lambda>a. a \<notin> set (map fst (pr_actions p))) available_actions)"

text \<open>
  \<open>export\<close>: the raw body without the actions and the inventory filters, and without the
  sections the class does not let a user edit.
\<close>

definition probe_export :: "probe \<Rightarrow> dict" where
  "probe_export p =
     (let body = dict_del ''actions'' (ps_body (pr_source p));
          strip_filters = (\<lambda>fs.
            let fs1 = dict_del ''inventory'' fs;
                fs2 = (if forced_event_type (pr_class p) \<noteq> None then dict_del ''metadata'' fs1 else fs1)
            in if can_edit_payload_filters (pr_class p) then fs2 else dict_del ''payload'' fs2);
          body' = (case dict_get body ''filters'' of
             Some (PDict fs) \<Rightarrow> dict_set ''filters'' (PDict (strip_filters fs)) body
           | _ \<Rightarrow> body);
          d = [(''name'', PStr (ps_name (pr_source p))),
               (''model'', PStr (pc_name (pr_class p))),
               (''body'', PDict body')]
      in if ps_description (pr_source p) \<noteq> []
         then d @ [(''description'', PStr (ps_description (pr_source p)))] else d)"

subsection \<open>Views over the active probes\<close>

text \<open>
  \<open>ProbeList\<close> and \<open>ProbesDict\<close> load their probes from the parent view once and keep them until
  they are cleared; clearing a list clears its children. A list filters by \<open>filter_func\<close>, a
  dictionary keys by \<open>item_func\<close>: the last probe wins a key when keys are unique, and all are
  collected otherwise.
\<close>

definition probe_list_load ::
  "'p list option \<Rightarrow> 'p list \<Rightarrow> ('p \<Rightarrow> bool) option \<Rightarrow> 'p list" where
  "probe_list_load cached parent filter_func =
     (case cached of
        Some ps \<Rightarrow> ps
      | None \<Rightarrow> (case filter_func of None \<Rightarrow> parent | Some f \<Rightarrow> filter f parent))"

fun probes_dict_items :: "('p \<Rightarrow> ('k \<times> 'v) list) \<Rightarrow> 'p list \<Rightarrow> ('k \<times> 'v) list" where
  "probes_dict_items item_func [] = []"
| "probes_dict_items item_func (p # ps) = item_func p @ probes_dict_items item_func ps"

definition probes_dict_load_unique ::
  "('k \<times> 'v) list option \<Rightarrow> 'p list \<Rightarrow> ('p \<Rightarrow> ('k \<times> 'v) list) \<Rightarrow> ('k \<times> 'v) list" where
  "probes_dict_load_unique cached parent item_func =
     (case cached of
        Some d \<Rightarrow> d
      | None \<Rightarrow> dict_update [] (probes_dict_items item_func parent))"

fun dict_collect :: "('k \<times> 'v list) list \<Rightarrow> ('k \<times> 'v) list \<Rightarrow> ('k \<times> 'v list) list" where
  "dict_collect d [] = d"
| "dict_collect d ((k, v) # items) =
     dict_collect (dict_set k ((case dict_get d k of None \<Rightarrow> [] | Some vs \<Rightarrow> vs) @ [v]) d) items"

definition probes_dict_load_multi ::
  "('k \<times> 'v list) list option \<Rightarrow> 'p list \<Rightarrow> ('p \<Rightarrow> ('k \<times> 'v) list) \<Rightarrow> ('k \<times> 'v list) list" where
  "probes_dict_load_multi cached parent item_func =
     (case cached of
        Some d \<Rightarrow> d
      | None \<Rightarrow> dict_collect [] (probes_dict_items item_func parent))"

subsection \<open>Facts\<close>

lemma mset_insert_item: "mset (insert_item x ys) = add_mset x (mset ys)"
  by (induction ys) auto

lemma mset_sort_items: "mset (sort_items xs) = mset xs"
proof -
  have "mset (fold insert_item xs acc) = mset xs + mset acc" for acc
    by (induction xs arbitrary: acc) (auto simp: mset_insert_item)
  from this [of "[]"] show ?thesis by (simp add: sort_items_def)
qed

lemma set_sort_items: "set (sort_items xs) = set xs"
  by (metis mset_sort_items set_mset_mset)

text \<open>With at least one attribute, flattening never runs out of them.\<close>

lemma flattened_ok:
  "attrs \<noteq> [] \<Longrightarrow> \<exists>vs. flattened py_str p attrs = Inr vs"
  "attrs \<noteq> [] \<Longrightarrow> \<exists>vs. flattened_list py_str ps attrs = Inr vs"
  "\<exists>vs. flattened_item py_str d attr as = Inr vs"
  by (induction py_str p attrs and py_str ps attrs and py_str d attr as
      rule: flattened_flattened_list_flattened_item.induct) auto

lemma payload_values_ok:
  "\<exists>vs. get_flattened_payload_values py_str payload (split_on CHR ''.'' a) = Inr vs"
  unfolding get_flattened_payload_values_def by (rule flattened_ok(1)) simp

text \<open>What an item of a payload filter asks of the payload.\<close>

definition item_matches :: "(pyval \<Rightarrow> string) \<Rightarrow> pyval \<Rightarrow> payload_filter_item \<Rightarrow> bool" where
  "item_matches py_str payload item =
     (case item of (a, op, values) \<Rightarrow>
        (case get_flattened_payload_values py_str payload (split_on CHR ''.'' a) of
           Inl _ \<Rightarrow> False
         | Inr vs \<Rightarrow> (op = IN) = intersects values vs))"

lemma test_event_payload_iff:
  "test_event_payload py_str items payload = Inr (\<forall>i \<in> set items. item_matches py_str payload i)"
proof (induction items)
  case (Cons i items)
  obtain a op vals where i: "i = (a, op, vals)" by (cases i) auto
  obtain vs where vs: "get_flattened_payload_values py_str payload (split_on CHR ''.'' a) = Inr vs"
    using payload_values_ok by blast
  show ?case
    using Cons unfolding i by (cases op) (auto simp: vs item_matches_def Let_def)
qed simp

lemma any_payload_filter_iff:
  "any_payload_filter py_str fs payload =
     Inr (\<exists>f \<in> set fs. \<forall>i \<in> set f. item_matches py_str payload i)"
  by (induction fs) (auto simp: test_event_payload_iff)

lemma dict_collect_get:
  "dict_get (dict_collect d items) k =
     (case (dict_get d k, map snd (filter (\<lambda>(j, v). j = k) items)) of
        (None, []) \<Rightarrow> None
      | (o', vs) \<Rightarrow> Some ((case o' of None \<Rightarrow> [] | Some ws \<Rightarrow> ws) @ vs))"
  by (induction d items rule: dict_collect.induct)
     (auto simp: dict_get_set split: option.splits list.splits)

subsection \<open>Properties\<close>

definition inventory_filter_matches :: "inventory_filter \<Rightarrow> machine_values \<Rightarrow> bool" where
  "inventory_filter_matches f m \<longleftrightarrow>
     (meta_business_unit_ids f = [] \<or> set (meta_business_unit_ids f) \<inter> set (m_mbu_id_set m) \<noteq> {}) \<and>
     (tag_ids f = [] \<or> set (tag_ids f) \<inter> set (m_tag_id_set m) \<noteq> {}) \<and>
     (platforms f = [] \<or> m_platform m \<in> Some ` set (platforms f)) \<and>
     (types f = [] \<or> m_type m \<in> Some ` set (types f))"

definition metadata_filter_matches :: "metadata_filter \<Rightarrow> event \<Rightarrow> bool" where
  "metadata_filter_matches f e \<longleftrightarrow>
     (mf_event_types f = [] \<or> event_type (ev_class e) \<in> set (mf_event_types f)) \<and>
     (mf_event_tags f = [] \<or>
      (set (md_tags (ev_metadata e)) \<union> set (class_tags (ev_class e))) \<inter> set (mf_event_tags f) \<noteq> {})"

lemma inventory_filter_test_iff:
  "inventory_filter_test_machine f m = inventory_filter_matches f m"
  by (auto simp: inventory_filter_test_machine_def inventory_filter_matches_def intersects_iff
      list_ex_iff image_iff)

lemma metadata_filter_test_iff: "test_event_metadata f e = metadata_filter_matches f e"
  by (auto simp: test_event_metadata_def metadata_filter_matches_def intersects_iff all_tags_set)

text \<open>
  testing an event against a probe never raises, and the answer is the conjunction of the
  sections of the filters, each section the disjunction of its filters, each filter the
  conjunction of its conditions: an absent section or condition matches everything, the
  inventory section is not asked for an event without a machine, and a forced event type
  replaces the metadata section.
\<close>

theorem probe_test_event_sections:
  "probe_test_event py_str machine_of p e =
     Inr (pr_loaded p \<and>
       (case md_machine_serial_number (ev_metadata e) of
          None \<Rightarrow> True
        | Some sn \<Rightarrow> sn = [] \<or> inventory_filters p = [] \<or>
            (\<exists>f \<in> set (inventory_filters p). inventory_filter_matches f (machine_of sn))) \<and>
       (case forced_event_type (pr_class p) of
          Some t \<Rightarrow> event_type (ev_class e) = t
        | None \<Rightarrow> metadata_filters p = [] \<or>
            (\<exists>f \<in> set (metadata_filters p). metadata_filter_matches f e)) \<and>
       (payload_filters p = [] \<or>
        (\<exists>f \<in> set (payload_filters p). list_all (item_matches py_str (PDict (ev_payload e))) f)))"
  by (auto simp: probe_test_event_def probe_test_machine_def probe_test_event_metadata_def
      probe_test_event_payload_def any_payload_filter_iff Let_def list_ex_iff list_all_iff
      inventory_filter_test_iff metadata_filter_test_iff split: option.splits)

lemma payload_filter_items_set:
  "payload_filter_items data = Inr items \<Longrightarrow>
   set items = {(pfi_attribute d, op, pfi_values d) |d op.
     d \<in> set data \<and> pfi_values d \<noteq> [] \<and> parse_operator (pfi_operator d) = Some op}"
proof (induction data arbitrary: items)
  case (Cons d data)
  then obtain op rest where "parse_operator (pfi_operator d) = Some op"
      "payload_filter_items data = Inr rest"
      "items = (if pfi_values d = [] then rest else (pfi_attribute d, op, pfi_values d) # rest)"
    by (auto simp: bind_result_Inr split: option.splits)
  with Cons.IH show ?case by auto
qed simp

lemma payload_filter_items_validated:
  "list_all payload_filter_item_validate data \<Longrightarrow> \<exists>items. payload_filter_items data = Inr items"
  by (induction data) (auto simp: payload_filter_item_validate_def)

text \<open>
  a payload filter that passed validation is built without an exception, and it accepts a
  payload exactly when every item with values does: neither the sort by attribute, operator and
  values nor the order of the items changes the answer, and an item without values is ignored.
\<close>

theorem payload_filter_meaning:
  assumes "list_all payload_filter_item_validate data"
  shows "\<exists>items. PayloadFilter data = Inr items \<and>
    test_event_payload py_str items payload =
      Inr (\<forall>d \<in> set data. \<forall>op. pfi_values d \<noteq> [] \<and> parse_operator (pfi_operator d) = Some op \<longrightarrow>
        item_matches py_str payload (pfi_attribute d, op, pfi_values d))"
proof -
  obtain items where items: "payload_filter_items data = Inr items"
    using payload_filter_items_validated [OF assms] by blast
  then have "PayloadFilter data = Inr (sort_items items)" by (simp add: PayloadFilter_def)
  moreover have "(\<forall>i \<in> set items. item_matches py_str payload i) \<longleftrightarrow>
      (\<forall>d \<in> set data. \<forall>op. pfi_values d \<noteq> [] \<and> parse_operator (pfi_operator d) = Some op \<longrightarrow>
        item_matches py_str payload (pfi_attribute d, op, pfi_values d))"
    unfolding payload_filter_items_set [OF items] by blast
  ultimately show ?thesis by (simp add: test_event_payload_iff set_sort_items)
qed

definition sample_payload_items :: "payload_filter_item_data list" where
  "sample_payload_items =
     [\<lparr>pfi_attribute = ''decision'', pfi_operator = ''IN'', pfi_values = [''BLOCK'', ''ALLOW'']\<rparr>,
      \<lparr>pfi_attribute = ''agent'', pfi_operator = ''NOT_IN'', pfi_values = [''x'']\<rparr>]"

theorem payload_filter_meaning_witness:
  "\<exists>items. PayloadFilter sample_payload_items = Inr items \<and>
    test_event_payload (\<lambda>v. case v of PStr s \<Rightarrow> s | _ \<Rightarrow> '''') items
      (PDict [(''decision'', PStr ''BLOCK'')]) =
      Inr (\<forall>d \<in> set sample_payload_items. \<forall>op. pfi_values d \<noteq> [] \<and>
         parse_operator (pfi_operator d) = Some op \<longrightarrow>
        item_matches (\<lambda>v. case v of PStr s \<Rightarrow> s | _ \<Rightarrow> '''') (PDict [(''decision'', PStr ''BLOCK'')])
          (pfi_attribute d, op, pfi_values d))"
  by (rule payload_filter_meaning)
     (simp add: sample_payload_items_def payload_filter_item_validate_def parse_operator_def)

end
