(* ===== verification/Incidents.thy ===== *)
theory Incidents imports Probes begin

text \<open>
  \<open>zentral/core/incidents/utils.py\<close>: opening, updating and closing incidents and machine
  incidents, each in one database transaction: an error leaves the tables as they were. The
  operations are the steps of \<open>incident_step\<close>; the invariant \<open>incident_inv\<close> holds in every
  reachable state and makes the lookups of the code unambiguous.
\<close>

subsection \<open>Opening an incident\<close>

definition open_incident_of :: "probe_source \<Rightarrow> incident \<Rightarrow> bool" where
  "open_incident_of ps i \<longleftrightarrow> inc_probe_source i = Some (ps_pk ps) \<and> is_open (inc_status i)"

definition severity_diff :: "nat \<Rightarrow> nat \<Rightarrow> pyval" where
  "severity_diff old new =
     PDict [(''removed'', PDict [(''severity'', PInt (int old))]),
            (''added'', PDict [(''severity'', PInt (int new))])]"

definition status_diff :: "status \<Rightarrow> status \<Rightarrow> pyval" where
  "status_diff old new =
     PDict [(''removed'', PDict [(''status'', PStr (status_str old))]),
            (''added'', PDict [(''status'', PStr (status_str new))])]"

text \<open>The severity update and the event, from line 36 on; \<open>action\<close> is set by a creation.\<close>

definition finish_open_incident ::
  "nat \<Rightarrow> incident \<Rightarrow> string option \<Rightarrow> incident_db \<Rightarrow>
   pyerror + (incident \<times> dict option) \<times> incident_db" where
  "finish_open_incident sev i action db =
     (let updated = inc_severity i < sev;
          i' = (if updated then i\<lparr>inc_severity := sev\<rparr> else i);
          action' = (if updated then Some ''updated'' else action);
          extra = (if updated then [(''diff'', severity_diff (inc_severity i) sev)] else [])
      in bind_result (if updated then save_incident i' db else Inr db) (\<lambda>db'.
           case action' of
             None \<Rightarrow> Inr ((i', None), db')
           | Some a \<Rightarrow>
               bind_result (incident_serialize_for_event i') (\<lambda>d.
                 Inr ((i', Some (dict_update (dict_set ''action'' (PStr a) d) extra)), db'))))"

text \<open>
  \<open>race\<close> is what other transactions commit between the lookup and the insertion. When the
  insertion violates the unique constraint, the code looks the incident up again and raises
  the integrity error in any case.
\<close>

definition update_or_create_open_incident_inner ::
  "(incident_db \<Rightarrow> incident_db) \<Rightarrow> probe_source \<Rightarrow> nat \<Rightarrow> string \<Rightarrow> incident_db \<Rightarrow>
   pyerror + (incident \<times> dict option) \<times> incident_db" where
  "update_or_create_open_incident_inner race ps sev event_id db =
     (case get_one (open_incident_of ps) (incidents db) of
        Inr i \<Rightarrow> finish_open_incident sev i None db
      | Inl DoesNotExist \<Rightarrow>
          (let db1 = race db;
               i = \<lparr>inc_pk = incident_seq db1, inc_probe_source = Some (ps_pk ps),
                    inc_name = ps_name ps, inc_description = ps_description ps,
                    inc_severity = sev, inc_status = OPEN, inc_event_id = event_id\<rparr>
           in if violates_incident_constraint i (incidents db1)
              then (case get_one (open_incident_of ps) (incidents db1) of
                      Inl MultipleObjectsReturned \<Rightarrow> Inl MultipleObjectsReturned
                    | _ \<Rightarrow> Inl IntegrityError)
              else finish_open_incident sev i (Some ''created'')
                     (db1\<lparr>incidents := incidents db1 @ [i],
                          incident_seq := Suc (incident_seq db1)\<rparr>))
      | Inl e \<Rightarrow> Inl e)"

definition update_or_create_open_incident ::
  "(incident_db \<Rightarrow> incident_db) \<Rightarrow> probe_source \<Rightarrow> nat \<Rightarrow> string \<Rightarrow> incident_db \<Rightarrow>
   pyerror + (incident \<times> dict list) \<times> incident_db" where
  "update_or_create_open_incident race ps sev event_id db =
     bind_result (update_or_create_open_incident_inner race ps sev event_id db)
       (\<lambda>((i, payload), db'). Inr ((i, case payload of None \<Rightarrow> [] | Some d \<Rightarrow> [d]), db'))"

subsection \<open>Machine incidents\<close>

definition automatic_machine_incident_of :: "incident_db \<Rightarrow> probe_source \<Rightarrow> string \<Rightarrow> machine_incident \<Rightarrow> bool" where
  "automatic_machine_incident_of db ps sn m \<longleftrightarrow>
     (case find_incident (mi_incident m) db of
        None \<Rightarrow> False
      | Some i \<Rightarrow> inc_probe_source i = Some (ps_pk ps)) \<and>
     mi_serial_number m = sn \<and> mi_status m = OPEN"

text \<open>
  Closing the incident after its machine incident, lines 82 to 97: not when it is not open,
  nor when its status is not \<open>OPEN\<close> (a manual intervention), nor while it has open machine
  incidents.
\<close>

definition close_parent_incident ::
  "machine_incident \<Rightarrow> incident_db \<Rightarrow> pyerror + dict list \<times> incident_db" where
  "close_parent_incident m db =
     (case find_incident (mi_incident m) db of
        None \<Rightarrow> Inl DoesNotExist
      | Some i \<Rightarrow>
          if inc_status i \<notin> set OPEN_STATUSES then Inr ([], db)
          else if inc_status i = OPEN \<and>
                  \<not> list_ex (\<lambda>n. mi_incident n = inc_pk i \<and> is_open (mi_status n))
                      (machine_incidents db) then
            (let i' = i\<lparr>inc_status := CLOSED\<rparr> in
             bind_result (save_incident i' db) (\<lambda>db'.
             bind_result (incident_serialize_for_event i') (\<lambda>d.
               Inr ([dict_set ''diff'' (status_diff OPEN CLOSED)
                       (dict_set ''action'' (PStr ''closed'') d)], db'))))
          else Inr ([], db))"

definition close_machine_incident ::
  "probe_source \<Rightarrow> string \<Rightarrow> incident_db \<Rightarrow>
   pyerror + (machine_incident option \<times> dict list) \<times> incident_db" where
  "close_machine_incident ps sn db =
     (case get_one (automatic_machine_incident_of db ps sn) (machine_incidents db) of
        Inl DoesNotExist \<Rightarrow> Inr ((None, []), db)
      | Inl e \<Rightarrow> Inl e
      | Inr m \<Rightarrow>
          (let m' = m\<lparr>mi_status := CLOSED\<rparr> in
           bind_result (save_machine_incident m' db) (\<lambda>db1.
           bind_result (machine_incident_serialize_for_event db1 m') (\<lambda>d.
           bind_result (close_parent_incident m' db1) (\<lambda>(payloads, db2).
             Inr ((Some m',
                   dict_set ''diff'' (status_diff (mi_status m) CLOSED)
                     (dict_set ''action'' (PStr ''closed'') d) # payloads), db2))))))"

definition open_machine_incident_of :: "incident \<Rightarrow> string \<Rightarrow> machine_incident \<Rightarrow> bool" where
  "open_machine_incident_of i sn m \<longleftrightarrow>
     mi_incident m = inc_pk i \<and> mi_serial_number m = sn \<and> is_open (mi_status m)"

definition get_or_create_machine_incident ::
  "incident \<Rightarrow> string \<Rightarrow> string \<Rightarrow> incident_db \<Rightarrow>
   pyerror + (machine_incident \<times> bool) \<times> incident_db" where
  "get_or_create_machine_incident i sn event_id db =
     (case get_one (open_machine_incident_of i sn) (machine_incidents db) of
        Inr m \<Rightarrow> Inr ((m, False), db)
      | Inl DoesNotExist \<Rightarrow>
          (let m = \<lparr>mi_pk = machine_incident_seq db, mi_incident = inc_pk i,
                    mi_serial_number = sn, mi_status = OPEN, mi_event_id = event_id\<rparr>
           in if violates_machine_incident_constraint m (machine_incidents db)
              then Inl IntegrityError
              else Inr ((m, True),
                     db\<lparr>machine_incidents := machine_incidents db @ [m],
                        machine_incident_seq := Suc (machine_incident_seq db)\<rparr>))
      | Inl e \<Rightarrow> Inl e)"

definition update_or_create_open_machine_incident ::
  "(incident_db \<Rightarrow> incident_db) \<Rightarrow> probe_source \<Rightarrow> nat \<Rightarrow> string \<Rightarrow> string \<Rightarrow> incident_db \<Rightarrow>
   pyerror + (machine_incident option \<times> dict list) \<times> incident_db" where
  "update_or_create_open_machine_incident race ps sev sn event_id db =
     (if sev = 0 then close_machine_incident ps sn db
      else
        bind_result (update_or_create_open_incident_inner race ps sev event_id db)
          (\<lambda>((i, payload), db1).
        bind_result (get_or_create_machine_incident i sn event_id db1) (\<lambda>((m, created), db2).
        bind_result (if created
                     then bind_result (machine_incident_serialize_for_event db2 m)
                            (\<lambda>d. Inr [dict_set ''action'' (PStr ''created'') d])
                     else Inr []) (\<lambda>created_payloads.
          Inr ((Some m, (case payload of None \<Rightarrow> [] | Some d \<Rightarrow> [d]) @ created_payloads), db2)))))"

subsection \<open>Manual status updates\<close>

definition update_incident_status ::
  "incident \<Rightarrow> status \<Rightarrow> incident_db \<Rightarrow> pyerror + (incident \<times> dict list) \<times> incident_db" where
  "update_incident_status inc new_status db =
     (case get_one (\<lambda>i. inc_pk i = inc_pk inc) (incidents db) of
        Inl DoesNotExist \<Rightarrow> Inr ((inc, []), db)
      | Inl e \<Rightarrow> Inl e
      | Inr i \<Rightarrow>
          if new_status \<notin> set (incident_get_next_statuses i db) then Inr ((i, []), db)
          else
            (let i' = i\<lparr>inc_status := new_status\<rparr> in
             bind_result (save_incident i' db) (\<lambda>db'.
             bind_result (incident_serialize_for_event i') (\<lambda>d.
               Inr ((i', [dict_set ''diff'' (status_diff (inc_status i) new_status)
                            (dict_set ''action'' (PStr ''updated'') d)]), db')))))"

definition update_machine_incident_status ::
  "machine_incident \<Rightarrow> status \<Rightarrow> incident_db \<Rightarrow>
   pyerror + (machine_incident \<times> dict list) \<times> incident_db" where
  "update_machine_incident_status machine_incident new_status db =
     (case get_one (\<lambda>m. mi_pk m = mi_pk machine_incident) (machine_incidents db) of
        Inl DoesNotExist \<Rightarrow> Inr ((machine_incident, []), db)
      | Inl e \<Rightarrow> Inl e
      | Inr m \<Rightarrow>
          if new_status \<notin> set (machine_incident_get_next_statuses m) then Inr ((m, []), db)
          else
            (let m' = m\<lparr>mi_status := new_status\<rparr> in
             bind_result (save_machine_incident m' db) (\<lambda>db'.
             bind_result (machine_incident_serialize_for_event db' m') (\<lambda>d.
               Inr ((m', [dict_set ''diff'' (status_diff (mi_status m) new_status)
                            (dict_set ''action'' (PStr ''updated'') d)]), db')))))"

subsection \<open>Steps and invariant\<close>

text \<open>
  One step is one successful transaction, run alone (\<open>race = id\<close>), or the deletion of a probe
  source.
\<close>

inductive incident_step :: "incident_db \<Rightarrow> incident_db \<Rightarrow> bool" where
  open_incident_step:
    "update_or_create_open_incident id ps sev event_id db = Inr (r, db') \<Longrightarrow> incident_step db db'"
| machine_incident_step:
    "update_or_create_open_machine_incident id ps sev sn event_id db = Inr (r', db') \<Longrightarrow>
     incident_step db db'"
| incident_status_step:
    "update_incident_status i s db = Inr (r, db') \<Longrightarrow> incident_step db db'"
| machine_incident_status_step:
    "update_machine_incident_status m s db = Inr (r'', db') \<Longrightarrow> incident_step db db'"
| probe_source_deleted_step: "incident_step db (incident_probe_source_deleted ps_id db)"

definition init_incident_db :: incident_db where
  "init_incident_db =
     \<lparr>incidents = [], machine_incidents = [], incident_seq = 1, machine_incident_seq = 1\<rparr>"

inductive incident_reachable :: "incident_db \<Rightarrow> bool" where
  init: "incident_reachable init_incident_db"
| step: "incident_reachable db \<Longrightarrow> incident_step db db' \<Longrightarrow> incident_reachable db'"

text \<open>
  Primary keys are unique and below the sequences, both unique constraints hold, foreign keys
  resolve, and a machine incident that is still \<open>OPEN\<close> has an open incident.
\<close>

definition incident_inv :: "incident_db \<Rightarrow> bool" where
  "incident_inv db \<longleftrightarrow>
     distinct (map inc_pk (incidents db)) \<and>
     (\<forall>i \<in> set (incidents db). inc_pk i < incident_seq db) \<and>
     distinct (map mi_pk (machine_incidents db)) \<and>
     (\<forall>m \<in> set (machine_incidents db). mi_pk m < machine_incident_seq db) \<and>
     unique_on open_incident inc_probe_source (incidents db) \<and>
     unique_on open_machine_incident mi_key (machine_incidents db) \<and>
     (\<forall>m \<in> set (machine_incidents db). \<exists>i \<in> set (incidents db). inc_pk i = mi_incident m \<and>
        (mi_status m = OPEN \<longrightarrow> is_open (inc_status i)))"

lemma incident_invD:
  assumes "incident_inv db"
  shows "distinct (map inc_pk (incidents db))"
    and "i \<in> set (incidents db) \<Longrightarrow> inc_pk i < incident_seq db"
    and "distinct (map mi_pk (machine_incidents db))"
    and "m \<in> set (machine_incidents db) \<Longrightarrow> mi_pk m < machine_incident_seq db"
    and "unique_on open_incident inc_probe_source (incidents db)"
    and "unique_on open_machine_incident mi_key (machine_incidents db)"
    and "m \<in> set (machine_incidents db) \<Longrightarrow> \<exists>i \<in> set (incidents db). inc_pk i = mi_incident m \<and>
           (mi_status m = OPEN \<longrightarrow> is_open (inc_status i))"
  using assms by (auto simp: incident_inv_def)

lemma find_incident_in:
  assumes "incident_inv db" "i \<in> set (incidents db)"
  shows "find_incident (inc_pk i) db = Some i"
proof (cases "find_incident (inc_pk i) db")
  case None
  with assms show ?thesis by (auto simp: find_incident_None)
next
  case (Some j)
  then have "j \<in> set (incidents db)" "inc_pk j = inc_pk i" by (auto dest: find_incident_Some)
  with assms Some show ?thesis
    using incident_invD(1) [OF assms(1)] by (auto simp: distinct_map inj_on_def)
qed

text \<open>The four elementary changes of the tables keep the invariant.\<close>

lemma inv_save_incident:
  assumes inv: "incident_inv db" and i: "i \<in> set (incidents db)" and pk: "inc_pk i' = inc_pk i"
    and save: "save_incident i' db = Inr db'"
    and still: "is_open (inc_status i') \<or>
      (\<forall>m \<in> set (machine_incidents db). mi_incident m = inc_pk i \<longrightarrow> mi_status m \<noteq> OPEN)"
  shows "incident_inv db'"
proof -
  have ok: "\<not> violates_incident_constraint i' (incidents db)"
    and db': "db' = db\<lparr>incidents := update_where (\<lambda>j. inc_pk j = inc_pk i') (\<lambda>_. i') (incidents db)\<rparr>"
    using save by (auto simp: save_incident_def split: if_splits)
  have set': "set (incidents db') = insert i' {j \<in> set (incidents db). inc_pk j \<noteq> inc_pk i'}"
    using i pk by (auto simp: db' set_update_where)
  have "unique_on open_incident inc_probe_source (incidents db')"
    using ok incident_invD(1,5) [OF inv] unfolding db'
    by (auto simp: violates_incident_constraint_def list_ex_iff intro!: unique_on_replace)
  moreover have "\<exists>j \<in> set (incidents db'). inc_pk j = mi_incident m \<and>
      (mi_status m = OPEN \<longrightarrow> is_open (inc_status j))"
    if "m \<in> set (machine_incidents db)" for m
    using incident_invD(7) [OF inv that] still pk that unfolding set' by (cases "mi_incident m = inc_pk i") auto
  moreover have "map inc_pk (incidents db') = map inc_pk (incidents db)"
    by (simp add: db' map_update_pk)
  ultimately show ?thesis
    using inv i pk set' by (auto simp: incident_inv_def db')
qed

lemma inv_create_incident:
  assumes inv: "incident_inv db" and pk: "inc_pk i = incident_seq db"
    and ok: "\<not> violates_incident_constraint i (incidents db)"
  shows "incident_inv (db\<lparr>incidents := incidents db @ [i], incident_seq := Suc (incident_seq db)\<rparr>)"
proof -
  have fresh: "\<forall>j \<in> set (incidents db). inc_pk j \<noteq> inc_pk i"
    using incident_invD(2) [OF inv] pk by force
  then have "unique_on open_incident inc_probe_source (incidents db @ [i])"
    using ok incident_invD(5) [OF inv]
    by (auto simp: unique_on_append violates_incident_constraint_def list_ex_iff)
  with inv pk fresh show ?thesis by (force simp: incident_inv_def)
qed

lemma inv_save_machine_incident:
  assumes inv: "incident_inv db" and m: "m \<in> set (machine_incidents db)"
    and eqs: "mi_pk m' = mi_pk m" "mi_incident m' = mi_incident m" "mi_status m' \<noteq> OPEN"
    and save: "save_machine_incident m' db = Inr db'"
  shows "incident_inv db'"
proof -
  have ok: "\<not> violates_machine_incident_constraint m' (machine_incidents db)"
    and db': "db' = db\<lparr>machine_incidents :=
      update_where (\<lambda>j. mi_pk j = mi_pk m') (\<lambda>_. m') (machine_incidents db)\<rparr>"
    using save by (auto simp: save_machine_incident_def split: if_splits)
  have set': "set (machine_incidents db') =
      insert m' {j \<in> set (machine_incidents db). mi_pk j \<noteq> mi_pk m'}"
    using m eqs(1) by (auto simp: db' set_update_where)
  have "unique_on open_machine_incident mi_key (machine_incidents db')"
    using ok incident_invD(3,6) [OF inv] unfolding db'
    by (auto simp: violates_machine_incident_constraint_def list_ex_iff intro!: unique_on_replace)
  moreover have "map mi_pk (machine_incidents db') = map mi_pk (machine_incidents db)"
    by (simp add: db' map_update_pk)
  ultimately show ?thesis
    using inv m eqs set' incident_invD(7) [OF inv m] by (auto simp: incident_inv_def db')
qed

lemma inv_create_machine_incident:
  assumes inv: "incident_inv db" and pk: "mi_pk m = machine_incident_seq db"
    and ok: "\<not> violates_machine_incident_constraint m (machine_incidents db)"
    and parent: "i \<in> set (incidents db)" "inc_pk i = mi_incident m" "is_open (inc_status i)"
  shows "incident_inv (db\<lparr>machine_incidents := machine_incidents db @ [m],
                          machine_incident_seq := Suc (machine_incident_seq db)\<rparr>)"
proof -
  have fresh: "\<forall>j \<in> set (machine_incidents db). mi_pk j \<noteq> mi_pk m"
    using incident_invD(4) [OF inv] pk by force
  then have "unique_on open_machine_incident mi_key (machine_incidents db @ [m])"
    using ok incident_invD(6) [OF inv]
    by (auto simp: unique_on_append violates_machine_incident_constraint_def list_ex_iff)
  with inv pk fresh parent show ?thesis by (force simp: incident_inv_def)
qed

lemma inv_probe_source_deleted:
  assumes inv: "incident_inv db"
  shows "incident_inv (incident_probe_source_deleted ps db)"
proof -
  define f :: "incident \<Rightarrow> incident" where "f = (\<lambda>i. if inc_probe_source i = Some ps then i\<lparr>inc_probe_source := None\<rparr> else i)"
  have rows: "incidents (incident_probe_source_deleted ps db) = map f (incidents db)"
    by (simp add: incident_probe_source_deleted_def update_where_def f_def)
  have f: "inc_pk (f i) = inc_pk i" "inc_status (f i) = inc_status i" for i
    by (simp_all add: f_def)
  have u: "unique_on open_incident inc_probe_source
      (incidents (incident_probe_source_deleted ps db))"
    unfolding incident_probe_source_deleted_def
    using incident_invD(5) [OF inv] by (auto simp: open_incident_def intro!: unique_on_update)
  have same: "machine_incidents (incident_probe_source_deleted ps db) = machine_incidents db"
    "incident_seq (incident_probe_source_deleted ps db) = incident_seq db"
    "machine_incident_seq (incident_probe_source_deleted ps db) = machine_incident_seq db"
    by (simp_all add: incident_probe_source_deleted_def)
  have "map inc_pk (incidents (incident_probe_source_deleted ps db)) = map inc_pk (incidents db)"
    by (simp add: rows f)
  then have "distinct (map inc_pk (incidents (incident_probe_source_deleted ps db)))"
    using incident_invD(1) [OF inv] by simp
  moreover have "\<forall>m \<in> set (machine_incidents db).
      \<exists>i \<in> set (incidents (incident_probe_source_deleted ps db)).
      inc_pk i = mi_incident m \<and> (mi_status m = OPEN \<longrightarrow> is_open (inc_status i))"
  proof
    fix m assume "m \<in> set (machine_incidents db)"
    then obtain i where "i \<in> set (incidents db)" "inc_pk i = mi_incident m"
        "mi_status m = OPEN \<longrightarrow> is_open (inc_status i)"
      using incident_invD(7) [OF inv] by blast
    then show "\<exists>i \<in> set (incidents (incident_probe_source_deleted ps db)).
      inc_pk i = mi_incident m \<and> (mi_status m = OPEN \<longrightarrow> is_open (inc_status i))"
      by (intro bexI [of _ "f i"]) (simp_all add: rows f)
  qed
  moreover have "\<forall>i \<in> set (incidents (incident_probe_source_deleted ps db)). inc_pk i < incident_seq db"
    using incident_invD(2) [OF inv] by (auto simp: rows f)
  ultimately show ?thesis
    using incident_invD(3,4,6) [OF inv] u by (simp add: incident_inv_def same)
qed

subsection \<open>The operations succeed and keep the invariant\<close>

lemma incident_serialize_Some:
  "inc_probe_source i = Some p \<Longrightarrow> \<exists>d. incident_serialize_for_event i = Inr d"
  by (simp add: incident_serialize_for_event_def incident_serialize_for_event_metadata_def)

lemma machine_incident_serialize_Some:
  assumes "find_incident (mi_incident m) db = Some i" "inc_probe_source i = Some p"
  shows "\<exists>d. machine_incident_serialize_for_event db m = Inr d"
  using assms incident_serialize_Some [OF assms(2)]
  by (auto simp: machine_incident_serialize_for_event_def)

lemma save_same_violations:
  assumes "incident_inv db" "i \<in> set (incidents db)" "inc_pk i' = inc_pk i"
    and "inc_probe_source i' = inc_probe_source i" "is_open (inc_status i') \<Longrightarrow> is_open (inc_status i)"
  shows "\<not> violates_incident_constraint i' (incidents db)"
proof
  assume "violates_incident_constraint i' (incidents db)"
  then obtain j where j: "j \<in> set (incidents db)" "inc_pk j \<noteq> inc_pk i'" "open_incident j"
      "inc_probe_source j = inc_probe_source i'" and "open_incident i'"
    by (auto simp: violates_incident_constraint_def list_ex_iff)
  with assms have "open_incident i" by (simp add: open_incident_def)
  with j assms have "j = i"
    by (intro unique_on_same_key [OF incident_invD(5) [OF assms(1)]]) auto
  with j assms show False by simp
qed

lemma finish_open_incident_ok:
  assumes inv: "incident_inv db" and i: "i \<in> set (incidents db)" and p: "inc_probe_source i = Some p"
    and op: "is_open (inc_status i)"
  shows "\<exists>i' payload db'. finish_open_incident sev i action db = Inr ((i', payload), db') \<and>
    incident_inv db' \<and> i' \<in> set (incidents db') \<and> inc_pk i' = inc_pk i \<and>
    inc_probe_source i' = Some p \<and> inc_status i' = inc_status i \<and>
    inc_severity i' = max sev (inc_severity i) \<and>
    machine_incidents db' = machine_incidents db \<and>
    machine_incident_seq db' = machine_incident_seq db"
proof (cases "inc_severity i < sev")
  case True
  define i' where "i' = i\<lparr>inc_severity := sev\<rparr>"
  have nv: "\<not> violates_incident_constraint i' (incidents db)"
    by (rule save_same_violations [OF inv i]) (simp_all add: i'_def)
  then obtain db' where db': "save_incident i' db = Inr db'" by (simp add: save_incident_def)
  have "incident_inv db'"
    by (rule inv_save_incident [OF inv i _ db']) (use op in \<open>simp_all add: i'_def\<close>)
  moreover have "i' \<in> set (incidents db')" "machine_incidents db' = machine_incidents db"
    "machine_incident_seq db' = machine_incident_seq db"
    using db' i by (auto simp: save_incident_def set_update_where i'_def split: if_splits)
  moreover obtain d where "incident_serialize_for_event i' = Inr d"
    using incident_serialize_Some [of i' p] p by (auto simp: i'_def)
  ultimately show ?thesis
    using True p db' by (auto simp: finish_open_incident_def Let_def i'_def [symmetric]) (auto simp: i'_def)
next
  case False
  obtain d where "incident_serialize_for_event i = Inr d"
    using incident_serialize_Some p by blast
  with False inv i p show ?thesis
    by (auto simp: finish_open_incident_def Let_def split: option.splits)
qed

lemma open_incident_inner_ok:
  assumes inv: "incident_inv db"
  shows "\<exists>i payload db'.
    update_or_create_open_incident_inner id ps sev event_id db = Inr ((i, payload), db') \<and>
    incident_inv db' \<and> i \<in> set (incidents db') \<and> open_incident_of ps i \<and> sev \<le> inc_severity i \<and>
    machine_incidents db' = machine_incidents db \<and>
    machine_incident_seq db' = machine_incident_seq db"
proof -
  have nm: "get_one (open_incident_of ps) (incidents db) \<noteq> Inl MultipleObjectsReturned"
    by (rule unique_on_get [OF incident_invD(5) [OF inv], where k = "Some (ps_pk ps)"])
       (simp add: open_incident_of_def open_incident_def)
  show ?thesis
  proof (cases "get_one (open_incident_of ps) (incidents db)")
    case (Inr i)
    then have i: "i \<in> set (incidents db)" "open_incident_of ps i" by (auto dest: get_one_Inr)
    then show ?thesis
      using finish_open_incident_ok [OF inv i(1), of "ps_pk ps" sev None] Inr
      by (auto simp: update_or_create_open_incident_inner_def open_incident_of_def)
  next
    case (Inl e)
    then have e: "e = DoesNotExist"
      using nm by (auto simp: get_one_def split: list.splits)
    define i where "i = \<lparr>inc_pk = incident_seq db, inc_probe_source = Some (ps_pk ps),
      inc_name = ps_name ps, inc_description = ps_description ps, inc_severity = sev,
      inc_status = OPEN, inc_event_id = event_id\<rparr>"
    have nv: "\<not> violates_incident_constraint i (incidents db)"
      using Inl e by (auto simp: get_one_none violates_incident_constraint_def list_ex_iff i_def
          open_incident_of_def open_incident_def)
    define db1 where "db1 = db\<lparr>incidents := incidents db @ [i], incident_seq := Suc (incident_seq db)\<rparr>"
    have inv1: "incident_inv db1"
      unfolding db1_def by (rule inv_create_incident [OF inv _ nv]) (simp add: i_def)
    obtain i' payload db' where fin: "finish_open_incident sev i (Some ''created'') db1 = Inr ((i', payload), db')"
      and props: "incident_inv db'" "i' \<in> set (incidents db')" "inc_probe_source i' = Some (ps_pk ps)"
        "inc_status i' = inc_status i" "inc_severity i' = max sev (inc_severity i)"
        "machine_incidents db' = machine_incidents db1"
        "machine_incident_seq db' = machine_incident_seq db1"
      using finish_open_incident_ok [OF inv1, of i "ps_pk ps" sev "Some ''created''"]
      by (auto simp: db1_def i_def)
    have "update_or_create_open_incident_inner id ps sev event_id db = Inr ((i', payload), db')"
      using Inl e nv fin
      by (simp add: update_or_create_open_incident_inner_def i_def [symmetric] db1_def [symmetric] Let_def)
    with props show ?thesis
      by (auto simp: open_incident_of_def i_def db1_def)
  qed
qed

lemma get_or_create_machine_incident_ok:
  assumes inv: "incident_inv db" and i: "i \<in> set (incidents db)" "is_open (inc_status i)"
  shows "\<exists>m created db'. get_or_create_machine_incident i sn event_id db = Inr ((m, created), db') \<and>
    incident_inv db' \<and> m \<in> set (machine_incidents db') \<and> open_machine_incident_of i sn m \<and>
    incidents db' = incidents db"
proof -
  have nm: "get_one (open_machine_incident_of i sn) (machine_incidents db) \<noteq> Inl MultipleObjectsReturned"
    by (rule unique_on_get [OF incident_invD(6) [OF inv], where k = "(inc_pk i, sn)"])
       (simp add: open_machine_incident_of_def open_machine_incident_def mi_key_def)
  show ?thesis
  proof (cases "get_one (open_machine_incident_of i sn) (machine_incidents db)")
    case (Inr m)
    with inv show ?thesis
      by (auto simp: get_or_create_machine_incident_def dest: get_one_Inr)
  next
    case (Inl e)
    then have e: "e = DoesNotExist"
      using nm by (auto simp: get_one_def split: list.splits)
    define m where "m = \<lparr>mi_pk = machine_incident_seq db, mi_incident = inc_pk i,
      mi_serial_number = sn, mi_status = OPEN, mi_event_id = event_id\<rparr>"
    have nv: "\<not> violates_machine_incident_constraint m (machine_incidents db)"
      using Inl e by (auto simp: get_one_none violates_machine_incident_constraint_def list_ex_iff
          m_def open_machine_incident_of_def open_machine_incident_def mi_key_def)
    define db1 where "db1 = db\<lparr>machine_incidents := machine_incidents db @ [m],
      machine_incident_seq := Suc (machine_incident_seq db)\<rparr>"
    have "incident_inv db1"
      unfolding db1_def
      by (rule inv_create_machine_incident [OF inv _ nv i(1)]) (use i in \<open>simp_all add: m_def\<close>)
    moreover have "get_or_create_machine_incident i sn event_id db = Inr ((m, True), db1)"
      using Inl e nv
      by (simp add: get_or_create_machine_incident_def m_def [symmetric] db1_def [symmetric] Let_def)
    moreover have "m \<in> set (machine_incidents db1)" "open_machine_incident_of i sn m"
        "incidents db1 = incidents db"
      by (simp_all add: db1_def m_def open_machine_incident_of_def)
    ultimately show ?thesis by blast
  qed
qed

text \<open>The machine incident closed by a zero severity, and what happens to its incident.\<close>

lemma close_parent_incident_ok:
  assumes inv: "incident_inv db" and i: "find_incident (mi_incident m) db = Some i"
    and p: "inc_probe_source i = Some p"
  shows "\<exists>payloads db'. close_parent_incident m db = Inr (payloads, db') \<and> incident_inv db' \<and>
    machine_incidents db' = machine_incidents db"
proof (cases "inc_status i = OPEN \<and>
    \<not> list_ex (\<lambda>n. mi_incident n = inc_pk i \<and> is_open (mi_status n)) (machine_incidents db)")
  case True
  define i' where "i' = i\<lparr>inc_status := CLOSED\<rparr>"
  have mem: "i \<in> set (incidents db)" using i by (auto dest: find_incident_Some)
  have nv: "\<not> violates_incident_constraint i' (incidents db)"
    by (rule save_same_violations [OF inv mem]) (simp_all add: i'_def)
  then obtain db' where db': "save_incident i' db = Inr db'" by (simp add: save_incident_def)
  have "incident_inv db'"
    by (rule inv_save_incident [OF inv mem _ db'])
       (use True in \<open>auto simp: i'_def list_ex_iff\<close>)
  moreover have "machine_incidents db' = machine_incidents db"
    using db' by (auto simp: save_incident_def split: if_splits)
  moreover obtain d where "incident_serialize_for_event i' = Inr d"
    using incident_serialize_Some [of i' p] p by (auto simp: i'_def)
  ultimately show ?thesis
    using True i db' by (simp add: close_parent_incident_def i'_def [symmetric])
next
  case False
  then have "close_parent_incident m db = Inr ([], db)"
    unfolding close_parent_incident_def i by (simp only: option.case if_False if_cancel)
  with inv show ?thesis by blast
qed

lemma automatic_unique:
  assumes inv: "incident_inv db"
  shows "get_one (automatic_machine_incident_of db ps sn) (machine_incidents db) \<noteq>
    Inl MultipleObjectsReturned"
proof -
  define c where "c = (\<lambda>m. open_machine_incident m \<and> (\<exists>i \<in> set (incidents db).
    inc_pk i = mi_incident m \<and> open_incident i \<and> inc_probe_source i = Some (ps_pk ps)))"
  have sub: "inc_pk i = inc_pk j" if "i \<in> set (incidents db)" "j \<in> set (incidents db)"
    "open_incident i" "open_incident j" "inc_probe_source i = inc_probe_source j" for i j
    using unique_on_same_key [OF incident_invD(5) [OF inv] that] by simp
  have "unique_on c mi_serial_number (machine_incidents db)"
    unfolding unique_on_def distinct_map
  proof
    have "distinct (machine_incidents db)"
      using incident_invD(3) [OF inv] by (simp add: distinct_map)
    then show "distinct (filter c (machine_incidents db))" by simp
    show "inj_on mi_serial_number (set (filter c (machine_incidents db)))"
    proof (rule inj_onI)
      fix m n assume mn: "m \<in> set (filter c (machine_incidents db))"
        "n \<in> set (filter c (machine_incidents db))" "mi_serial_number m = mi_serial_number n"
      then have cs: "c m" "c n" by simp_all
      obtain i where i: "i \<in> set (incidents db)" "inc_pk i = mi_incident m" "open_incident i"
          "inc_probe_source i = Some (ps_pk ps)"
        using cs(1) by (auto simp: c_def)
      obtain j where j: "j \<in> set (incidents db)" "inc_pk j = mi_incident n" "open_incident j"
          "inc_probe_source j = Some (ps_pk ps)"
        using cs(2) by (auto simp: c_def)
      have "mi_incident m = mi_incident n"
        using sub [OF i(1) j(1) i(3) j(3)] i j by simp
      with mn show "m = n"
        by (intro unique_on_same_key [OF incident_invD(6) [OF inv]]) (auto simp: c_def mi_key_def)
    qed
  qed
  moreover have "c m \<and> mi_serial_number m = sn"
    if a: "automatic_machine_incident_of db ps sn m" and m: "m \<in> set (machine_incidents db)" for m
  proof -
    obtain i where i: "i \<in> set (incidents db)" "inc_pk i = mi_incident m"
        "mi_status m = OPEN \<longrightarrow> is_open (inc_status i)"
      using incident_invD(7) [OF inv m] by blast
    then have "find_incident (mi_incident m) db = Some i"
      using find_incident_in [OF inv i(1)] by simp
    then have "inc_probe_source i = Some (ps_pk ps)" "mi_status m = OPEN" "mi_serial_number m = sn"
      using a by (simp_all add: automatic_machine_incident_of_def)
    with i show ?thesis
      unfolding c_def open_machine_incident_def open_incident_def by auto
  qed
  ultimately show ?thesis by (rule unique_on_get_set [where k = sn])
qed

text \<open>The two automatic operations succeed in every state of the invariant, and keep it.\<close>

lemma close_machine_incident_ok:
  assumes inv: "incident_inv db"
  shows "\<exists>m payloads db'. close_machine_incident ps sn db = Inr ((m, payloads), db') \<and> incident_inv db'"
proof (cases "get_one (automatic_machine_incident_of db ps sn) (machine_incidents db)")
  case (Inl e)
  then have "e = DoesNotExist"
    using automatic_unique [OF inv, of ps sn] by (auto simp: get_one_def split: list.splits)
  with Inl inv show ?thesis by (simp add: close_machine_incident_def)
next
  case (Inr m)
  then have m: "m \<in> set (machine_incidents db)" "automatic_machine_incident_of db ps sn m"
    by (auto dest: get_one_Inr)
  then obtain i where i: "find_incident (mi_incident m) db = Some i"
      "inc_probe_source i = Some (ps_pk ps)" and op: "mi_status m = OPEN"
    by (auto simp: automatic_machine_incident_of_def split: option.splits)
  define m' where "m' = m\<lparr>mi_status := CLOSED\<rparr>"
  have eqs: "mi_pk m' = mi_pk m" "mi_incident m' = mi_incident m" "mi_status m' \<noteq> OPEN"
    by (simp_all add: m'_def)
  have nv: "\<not> violates_machine_incident_constraint m' (machine_incidents db)"
    by (simp add: violates_machine_incident_constraint_def open_machine_incident_def m'_def)
  then obtain db1 where save: "save_machine_incident m' db = Inr db1"
    by (simp add: save_machine_incident_def)
  have inv1: "incident_inv db1" by (rule inv_save_machine_incident [OF inv m(1) eqs save])
  have "incidents db1 = incidents db"
    using save by (auto simp: save_machine_incident_def split: if_splits)
  then have i1: "find_incident (mi_incident m') db1 = Some i"
    using i(1) eqs(2) by (simp add: find_incident_def)
  obtain d where d: "machine_incident_serialize_for_event db1 m' = Inr d"
    using machine_incident_serialize_Some [OF i1 i(2)] by blast
  obtain payloads db2 where "close_parent_incident m' db1 = Inr (payloads, db2)" "incident_inv db2"
    using close_parent_incident_ok [OF inv1 i1 i(2)] by blast
  with Inr save d show ?thesis
    by (simp add: close_machine_incident_def m'_def [symmetric] Let_def)
qed

lemma update_or_create_machine_incident_ok:
  assumes inv: "incident_inv db"
  shows "\<exists>m payloads db'.
    update_or_create_open_machine_incident id ps sev sn event_id db = Inr ((m, payloads), db') \<and>
    incident_inv db' \<and>
    (sev \<noteq> 0 \<longrightarrow> (\<exists>mi i. m = Some mi \<and> mi \<in> set (machine_incidents db') \<and>
       i \<in> set (incidents db') \<and> open_machine_incident_of i sn mi \<and>
       open_incident_of ps i \<and> sev \<le> inc_severity i))"
proof (cases "sev = 0")
  case True
  then show ?thesis
    using close_machine_incident_ok [OF inv, of ps sn]
    by (simp add: update_or_create_open_machine_incident_def)
next
  case False
  obtain i payload db1 where inner:
      "update_or_create_open_incident_inner id ps sev event_id db = Inr ((i, payload), db1)"
    and inv1: "incident_inv db1" and i: "i \<in> set (incidents db1)" "open_incident_of ps i"
      "sev \<le> inc_severity i"
    using open_incident_inner_ok [OF inv, of ps sev event_id] by blast
  have "is_open (inc_status i)" using i(2) by (simp add: open_incident_of_def)
  then obtain m created db2 where get:
      "get_or_create_machine_incident i sn event_id db1 = Inr ((m, created), db2)"
    and inv2: "incident_inv db2" and m: "m \<in> set (machine_incidents db2)"
      "open_machine_incident_of i sn m" "incidents db2 = incidents db1"
    using get_or_create_machine_incident_ok [OF inv1 i(1), of sn event_id] by blast
  have "find_incident (mi_incident m) db2 = Some i"
    using find_incident_in [OF inv2, of i] i(1) m by (simp add: open_machine_incident_of_def)
  then obtain d where "machine_incident_serialize_for_event db2 m = Inr d"
    using machine_incident_serialize_Some i(2) by (fastforce simp: open_incident_of_def)
  with False inner get inv2 m i show ?thesis
    by (cases created) (auto simp: update_or_create_open_machine_incident_def)
qed

lemma inv_update_incident_status:
  assumes inv: "incident_inv db" and upd: "update_incident_status i0 s db = Inr (r, db')"
  shows "incident_inv db'"
proof (cases "db' = db")
  case False
  obtain i i' where get: "i \<in> set (incidents db)" and next': "s \<in> set (incident_get_next_statuses i db)"
    and i': "i' = i\<lparr>inc_status := s\<rparr>" and save: "save_incident i' db = Inr db'"
    using upd False
    by (auto simp: update_incident_status_def Let_def bind_result_Inr dest: get_one_Inr
        split: sum.splits pyerror.splits if_splits)
  show ?thesis
    by (rule inv_save_incident [OF inv get _ save])
       (use incident_next_open_machines [OF _ _ _ next'] in \<open>fastforce simp: i'\<close>)+
qed (use inv in simp)

lemma inv_update_machine_incident_status:
  assumes inv: "incident_inv db" and upd: "update_machine_incident_status m0 s db = Inr (r, db')"
  shows "incident_inv db'"
proof (cases "db' = db")
  case False
  obtain m m' where get: "m \<in> set (machine_incidents db)"
    and next': "s \<in> set (machine_incident_get_next_statuses m)"
    and m': "m' = m\<lparr>mi_status := s\<rparr>" and save: "save_machine_incident m' db = Inr db'"
    using upd False
    by (auto simp: update_machine_incident_status_def Let_def bind_result_Inr dest: get_one_Inr
        split: sum.splits pyerror.splits if_splits)
  show ?thesis
    by (rule inv_save_machine_incident [OF inv get _ _ _ save])
       (use next' next_never_open in \<open>auto simp: m' machine_incident_get_next_statuses_def\<close>)
qed (use inv in simp)

lemma inv_open_incident:
  assumes inv: "incident_inv db"
    and upd: "update_or_create_open_incident id ps sev event_id db = Inr (r, db')"
  shows "incident_inv db'"
proof -
  obtain i payload db1 where
      "update_or_create_open_incident_inner id ps sev event_id db = Inr ((i, payload), db1)"
      "incident_inv db1"
    using open_incident_inner_ok [OF inv, of ps sev event_id] by blast
  with upd show ?thesis by (simp add: update_or_create_open_incident_def)
qed

lemma inv_open_machine_incident:
  assumes inv: "incident_inv db"
    and upd: "update_or_create_open_machine_incident id ps sev sn event_id db = Inr (r, db')"
  shows "incident_inv db'"
proof -
  obtain m payloads db1 where
      "update_or_create_open_machine_incident id ps sev sn event_id db = Inr ((m, payloads), db1)"
      "incident_inv db1"
    using update_or_create_machine_incident_ok [OF inv, of ps sev sn event_id] by blast
  with upd show ?thesis by simp
qed

lemma inv_incident_step: "incident_step db db' \<Longrightarrow> incident_inv db \<Longrightarrow> incident_inv db'"
  by (induction rule: incident_step.induct)
     (auto intro: inv_open_incident inv_open_machine_incident inv_update_incident_status
       inv_update_machine_incident_status inv_probe_source_deleted)

lemma incident_inv_init: "incident_inv init_incident_db"
  by (simp add: incident_inv_def init_incident_db_def unique_on_def)

lemma incident_reachable_inv: "incident_reachable db \<Longrightarrow> incident_inv db"
  by (induction rule: incident_reachable.induct) (auto intro: incident_inv_init inv_incident_step)

subsection \<open>Severities\<close>

definition severities_kept :: "incident_db \<Rightarrow> incident_db \<Rightarrow> bool" where
  "severities_kept db db' \<longleftrightarrow>
     (\<forall>i \<in> set (incidents db). \<exists>i' \<in> set (incidents db').
        inc_pk i' = inc_pk i \<and> inc_severity i \<le> inc_severity i')"

lemma severities_kept_refl: "severities_kept db db"
  by (auto simp: severities_kept_def)

lemma severities_kept_rows: "incidents db' = incidents db \<Longrightarrow> severities_kept db db'"
  by (auto simp: severities_kept_def)

lemma severities_kept_trans:
  assumes "severities_kept db db1" "severities_kept db1 db2"
  shows "severities_kept db db2"
  unfolding severities_kept_def
proof
  fix i assume "i \<in> set (incidents db)"
  then obtain j where j: "j \<in> set (incidents db1)" "inc_pk j = inc_pk i" "inc_severity i \<le> inc_severity j"
    using assms(1) unfolding severities_kept_def by blast
  then obtain k where "k \<in> set (incidents db2)" "inc_pk k = inc_pk j" "inc_severity j \<le> inc_severity k"
    using assms(2) unfolding severities_kept_def by blast
  with j show "\<exists>k \<in> set (incidents db2). inc_pk k = inc_pk i \<and> inc_severity i \<le> inc_severity k"
    by (intro bexI [of _ k]) auto
qed

lemma severities_kept_save:
  assumes inv: "incident_inv db" and i: "i \<in> set (incidents db)" and pk: "inc_pk i' = inc_pk i"
    and sev: "inc_severity i \<le> inc_severity i'" and save: "save_incident i' db = Inr db'"
  shows "severities_kept db db'"
proof -
  have "set (incidents db') = insert i' {j \<in> set (incidents db). inc_pk j \<noteq> inc_pk i'}"
    using save i pk by (auto simp: save_incident_def set_update_where split: if_splits)
  moreover have "j = i" if "j \<in> set (incidents db)" "inc_pk j = inc_pk i" for j
    using that i incident_invD(1) [OF inv] by (auto simp: distinct_map inj_on_def)
  ultimately show ?thesis using pk sev by (auto simp: severities_kept_def)
qed

lemma severities_kept_finish:
  assumes "incident_inv db" "i \<in> set (incidents db)"
    and "finish_open_incident sev i action db = Inr (r, db')"
  shows "severities_kept db db'"
proof (cases "inc_severity i < sev")
  case True
  obtain db1 where "save_incident (i\<lparr>inc_severity := sev\<rparr>) db = Inr db1" "db1 = db'"
    using assms(3) True by (auto simp: finish_open_incident_def Let_def bind_result_Inr)
  with True show ?thesis
    by (intro severities_kept_save [OF assms(1,2), of "i\<lparr>inc_severity := sev\<rparr>"]) auto
next
  case False
  with assms(3) have "db' = db"
    by (auto simp: finish_open_incident_def Let_def bind_result_Inr split: option.splits)
  then show ?thesis by (simp add: severities_kept_refl)
qed

lemma severities_kept_inner:
  assumes inv: "incident_inv db"
    and upd: "update_or_create_open_incident_inner id ps sev event_id db = Inr (r, db')"
  shows "severities_kept db db'"
proof (cases "get_one (open_incident_of ps) (incidents db)")
  case (Inr i)
  with upd have "finish_open_incident sev i None db = Inr (r, db')"
    by (simp add: update_or_create_open_incident_inner_def)
  with Inr show ?thesis by (auto intro: severities_kept_finish [OF inv] dest: get_one_Inr)
next
  case (Inl e)
  define i where "i = \<lparr>inc_pk = incident_seq db, inc_probe_source = Some (ps_pk ps),
    inc_name = ps_name ps, inc_description = ps_description ps, inc_severity = sev,
    inc_status = OPEN, inc_event_id = event_id\<rparr>"
  define db1 where "db1 = db\<lparr>incidents := incidents db @ [i], incident_seq := Suc (incident_seq db)\<rparr>"
  have nv: "\<not> violates_incident_constraint i (incidents db)"
    and fin: "finish_open_incident sev i (Some ''created'') db1 = Inr (r, db')"
    using Inl upd
    by (auto simp: update_or_create_open_incident_inner_def i_def [symmetric] db1_def [symmetric]
        Let_def split: pyerror.splits if_splits sum.splits)
  have "incident_inv db1"
    unfolding db1_def by (rule inv_create_incident [OF inv _ nv]) (simp add: i_def)
  then have "severities_kept db1 db'"
    by (rule severities_kept_finish [OF _ _ fin]) (simp add: db1_def)
  moreover have "severities_kept db db1" by (auto simp: severities_kept_def db1_def)
  ultimately show ?thesis by (rule severities_kept_trans [rotated])
qed

lemma severities_kept_open:
  assumes "incident_inv db" "update_or_create_open_incident id ps sev event_id db = Inr (r, db')"
  shows "severities_kept db db'"
  using assms(2) severities_kept_inner [OF assms(1)]
  by (auto simp: update_or_create_open_incident_def bind_result_Inr)

lemma severities_kept_save_status:
  assumes "incident_inv db" "i \<in> set (incidents db)" "save_incident (i\<lparr>inc_status := s\<rparr>) db = Inr db'"
  shows "severities_kept db db'"
  by (rule severities_kept_save [OF assms(1,2) _ _ assms(3)]) simp_all

lemma incidents_get_or_create:
  "get_or_create_machine_incident i sn event_id db = Inr (r, db') \<Longrightarrow> incidents db' = incidents db"
  by (auto simp: get_or_create_machine_incident_def Let_def
      split: sum.splits pyerror.splits if_splits)

lemma incidents_save_machine_incident:
  "save_machine_incident m db = Inr db' \<Longrightarrow> incidents db' = incidents db"
  by (auto simp: save_machine_incident_def split: if_splits)

lemma severities_kept_close_parent:
  assumes "incident_inv db" "close_parent_incident m db = Inr (payloads, db')"
  shows "severities_kept db db'"
proof (cases "db' = db")
  case False
  then obtain i where "find_incident (mi_incident m) db = Some i"
      and "save_incident (i\<lparr>inc_status := CLOSED\<rparr>) db = Inr db'"
    using assms(2) by (auto simp: close_parent_incident_def Let_def bind_result_Inr
        split: option.splits if_splits)
  then show ?thesis
    by (intro severities_kept_save_status [OF assms(1)]) (auto dest: find_incident_Some)
qed (simp add: severities_kept_refl)

lemma close_machine_incident_states:
  assumes "close_machine_incident ps sn db = Inr (r, db')" "db' \<noteq> db"
  obtains m payloads db1 where "m \<in> set (machine_incidents db)" "mi_status m = OPEN"
    "mi_serial_number m = sn" "save_machine_incident (m\<lparr>mi_status := CLOSED\<rparr>) db = Inr db1"
    "close_parent_incident (m\<lparr>mi_status := CLOSED\<rparr>) db1 = Inr (payloads, db')"
  using assms
  by (auto simp: close_machine_incident_def Let_def bind_result_Inr automatic_machine_incident_of_def
      dest!: get_one_Inr split: sum.splits pyerror.splits option.splits)

lemma severities_kept_close:
  assumes inv: "incident_inv db" and upd: "close_machine_incident ps sn db = Inr (r, db')"
  shows "severities_kept db db'"
proof (cases "db' = db")
  case False
  with upd obtain m payloads db1 where m: "m \<in> set (machine_incidents db)"
      and save: "save_machine_incident (m\<lparr>mi_status := CLOSED\<rparr>) db = Inr db1"
      and parent: "close_parent_incident (m\<lparr>mi_status := CLOSED\<rparr>) db1 = Inr (payloads, db')"
    by (rule close_machine_incident_states)
  have "incident_inv db1" by (rule inv_save_machine_incident [OF inv m _ _ _ save]) simp_all
  then have "severities_kept db1 db'" by (rule severities_kept_close_parent [OF _ parent])
  moreover have "severities_kept db db1"
    by (rule severities_kept_rows [OF incidents_save_machine_incident [OF save]])
  ultimately show ?thesis by (rule severities_kept_trans [rotated])
qed (simp add: severities_kept_refl)

lemma severities_kept_open_machine:
  assumes inv: "incident_inv db"
    and upd: "update_or_create_open_machine_incident id ps sev sn event_id db = Inr (r, db')"
  shows "severities_kept db db'"
proof (cases "sev = 0")
  case True
  with upd show ?thesis
    by (auto simp: update_or_create_open_machine_incident_def intro: severities_kept_close [OF inv])
next
  case False
  with upd obtain i payload db1 m where
      inner: "update_or_create_open_incident_inner id ps sev event_id db = Inr ((i, payload), db1)"
      and get: "get_or_create_machine_incident i sn event_id db1 = Inr (m, db')"
    by (auto simp: update_or_create_open_machine_incident_def bind_result_Inr split: if_splits)
  show ?thesis
    by (rule severities_kept_trans [OF severities_kept_inner [OF inv inner]])
       (rule severities_kept_rows [OF incidents_get_or_create [OF get]])
qed

lemma severities_kept_status:
  assumes inv: "incident_inv db" and upd: "update_incident_status i0 s db = Inr (r, db')"
  shows "severities_kept db db'"
proof (cases "db' = db")
  case False
  then obtain i where "i \<in> set (incidents db)" "save_incident (i\<lparr>inc_status := s\<rparr>) db = Inr db'"
    using upd by (auto simp: update_incident_status_def Let_def bind_result_Inr dest: get_one_Inr
        split: sum.splits pyerror.splits if_splits)
  then show ?thesis by (rule severities_kept_save_status [OF inv])
qed (simp add: severities_kept_refl)

lemma severities_kept_machine_status:
  assumes "update_machine_incident_status m0 s db = Inr (r, db')"
  shows "severities_kept db db'"
  using assms
  by (auto simp: update_machine_incident_status_def Let_def bind_result_Inr severities_kept_refl
      intro!: severities_kept_rows dest: incidents_save_machine_incident
      split: sum.splits pyerror.splits if_splits)

lemma severities_kept_deleted: "severities_kept db (incident_probe_source_deleted ps_id db)"
  unfolding severities_kept_def
proof
  fix i assume "i \<in> set (incidents db)"
  then have "(if inc_probe_source i = Some ps_id then i\<lparr>inc_probe_source := None\<rparr> else i)
      \<in> set (incidents (incident_probe_source_deleted ps_id db))"
    unfolding incident_probe_source_deleted_def update_where_def by (simp del: if_image_distrib)
  then show "\<exists>i' \<in> set (incidents (incident_probe_source_deleted ps_id db)).
      inc_pk i' = inc_pk i \<and> inc_severity i \<le> inc_severity i'"
    by (rule bexI [rotated]) simp
qed

lemma severities_kept_step: "incident_step db db' \<Longrightarrow> incident_inv db \<Longrightarrow> severities_kept db db'"
  by (induction rule: incident_step.induct)
     (auto intro: severities_kept_open severities_kept_open_machine severities_kept_status
       severities_kept_machine_status severities_kept_deleted)

text \<open>What a zero severity changes: one machine incident, and the status of one incident.\<close>

lemma find_incident_save:
  assumes "save_incident i' db = Inr db'" "find_incident (inc_pk i') db = Some i"
    "inc_probe_source i' = inc_probe_source i" "find_incident k db' = Some j'"
  shows "\<exists>j. find_incident k db = Some j \<and> inc_probe_source j' = inc_probe_source j"
proof -
  have rows: "incidents db' = update_where (\<lambda>j. inc_pk j = inc_pk i') (\<lambda>_. i') (incidents db)"
    using assms(1) by (auto simp: save_incident_def split: if_splits)
  have "find (\<lambda>j. inc_pk j = k) (update_where (\<lambda>j. inc_pk j = inc_pk i') (\<lambda>_. i') xs) = Some j' \<Longrightarrow>
      (k = inc_pk i' \<and> j' = i') \<or> find (\<lambda>j. inc_pk j = k) xs = Some j'" for xs
    by (induction xs) (auto simp: update_where_def split: if_splits)
  then show ?thesis
    using assms(2-4) by (fastforce simp: find_incident_def rows)
qed

lemma close_parent_sources:
  assumes "close_parent_incident m db = Inr (payloads, db')" "find_incident k db' = Some j'"
  shows "\<exists>j. find_incident k db = Some j \<and> inc_probe_source j' = inc_probe_source j"
proof (cases "db' = db")
  case False
  then obtain i where i: "find_incident (mi_incident m) db = Some i"
      and save: "save_incident (i\<lparr>inc_status := CLOSED\<rparr>) db = Inr db'"
    using assms(1) by (auto simp: close_parent_incident_def Let_def bind_result_Inr
        split: option.splits if_splits)
  have "mi_incident m = inc_pk i" using i by (auto dest: find_incident_Some)
  with i have "find_incident (inc_pk (i\<lparr>inc_status := CLOSED\<rparr>)) db = Some i" by simp
  then show ?thesis by (rule find_incident_save [OF save]) (simp_all add: assms(2))
qed (use assms(2) in simp)

lemma close_parent_machines:
  "close_parent_incident m db = Inr (payloads, db') \<Longrightarrow> machine_incidents db' = machine_incidents db"
  by (auto simp: close_parent_incident_def save_incident_def Let_def bind_result_Inr
      split: option.splits if_splits)

lemma get_one_only: "get_one p rows = Inr r \<Longrightarrow> s \<in> set rows \<Longrightarrow> p s \<Longrightarrow> s = r"
proof -
  assume "get_one p rows = Inr r" "s \<in> set rows" "p s"
  then have "filter p rows = [r]" "s \<in> set (filter p rows)"
    by (auto simp: get_one_def split: list.splits)
  then show "s = r" by (simp del: set_filter)
qed

lemma close_machine_incident_effect:
  assumes inv: "incident_inv db" and upd: "close_machine_incident ps sn db = Inr (r, db')"
  shows "\<forall>n \<in> set (machine_incidents db').
      \<not> automatic_machine_incident_of db' ps sn n"
    and "\<forall>n \<in> set (machine_incidents db). \<not> automatic_machine_incident_of db ps sn n \<longrightarrow>
      n \<in> set (machine_incidents db')"
proof -
  let ?auto = "automatic_machine_incident_of db ps sn"
  have "(\<forall>n \<in> set (machine_incidents db'). \<not> automatic_machine_incident_of db' ps sn n) \<and>
    (\<forall>n \<in> set (machine_incidents db). \<not> ?auto n \<longrightarrow> n \<in> set (machine_incidents db'))"
  proof (cases "get_one ?auto (machine_incidents db)")
    case (Inl e)
    with upd have "db' = db" "e = DoesNotExist"
      by (auto simp: close_machine_incident_def split: pyerror.splits)
    with Inl show ?thesis by (auto simp: get_one_none)
  next
    case (Inr m)
    then have m: "m \<in> set (machine_incidents db)" "?auto m" by (auto dest: get_one_Inr)
    define m' where "m' = m\<lparr>mi_status := CLOSED\<rparr>"
    obtain db1 payloads where save: "save_machine_incident m' db = Inr db1"
        and parent: "close_parent_incident m' db1 = Inr (payloads, db')"
      using upd Inr by (auto simp: close_machine_incident_def Let_def m'_def bind_result_Inr)
    have rows: "set (machine_incidents db') =
        insert m' {n \<in> set (machine_incidents db). mi_pk n \<noteq> mi_pk m}"
      using save m(1) unfolding close_parent_machines [OF parent]
      by (auto simp: save_machine_incident_def set_update_where m'_def split: if_splits)
    have same: "\<exists>j. find_incident k db = Some j \<and> inc_probe_source j' = inc_probe_source j"
      if "find_incident k db' = Some j'" for k j'
      using close_parent_sources [OF parent that] incidents_save_machine_incident [OF save]
      by (simp add: find_incident_def)
    have "\<not> automatic_machine_incident_of db' ps sn n" if n: "n \<in> set (machine_incidents db')" for n
    proof
      assume a: "automatic_machine_incident_of db' ps sn n"
      then have "n \<noteq> m'" by (auto simp: automatic_machine_incident_of_def m'_def)
      with n have nn: "n \<in> set (machine_incidents db)" "mi_pk n \<noteq> mi_pk m" by (auto simp: rows)
      have "?auto n"
        using a same [of "mi_incident n"]
        by (fastforce simp: automatic_machine_incident_of_def split: option.splits)
      then have "n = m" by (rule get_one_only [OF Inr nn(1)])
      with nn(2) show False by simp
    qed
    moreover have "n \<in> set (machine_incidents db')"
      if "n \<in> set (machine_incidents db)" "\<not> ?auto n" for n
      using that m incident_invD(3) [OF inv] by (auto simp: rows distinct_map inj_on_def)
    ultimately show ?thesis by blast
  qed
  then show "\<forall>n \<in> set (machine_incidents db'). \<not> automatic_machine_incident_of db' ps sn n"
    and "\<forall>n \<in> set (machine_incidents db). \<not> ?auto n \<longrightarrow> n \<in> set (machine_incidents db')"
    by blast+
qed

subsection \<open>Properties\<close>


definition sample_probe_source :: probe_source where
  "sample_probe_source =
     \<lparr>ps_pk = 1, ps_model = None, ps_name = ''tarpits'', ps_slug = ''tarpits'', ps_status = ACTIVE,
      ps_description = '''', ps_event_types = [], ps_feed_probe = None,
      ps_feed_probe_update_available = False, ps_body = [], ps_created_at = 0\<rparr>"

definition sample_incident :: incident where
  "sample_incident =
     \<lparr>inc_pk = 1, inc_probe_source = Some 1, inc_name = ''tarpits'', inc_description = '''',
      inc_severity = 200, inc_status = OPEN, inc_event_id = ''e1''\<rparr>"

definition sample_incident_db :: incident_db where
  "sample_incident_db =
     \<lparr>incidents = [sample_incident],
      machine_incidents = [\<lparr>mi_pk = 1, mi_incident = 1, mi_serial_number = ''SN1'',
        mi_status = OPEN, mi_event_id = ''e1''\<rparr>],
      incident_seq = 2, machine_incident_seq = 2\<rparr>"

lemmas incident_sample_simps =
  sample_probe_source_def sample_incident_def sample_incident_db_def init_incident_db_def
  update_or_create_open_machine_incident_def update_or_create_open_incident_inner_def
  finish_open_incident_def get_or_create_machine_incident_def get_one_def
  violates_incident_constraint_def violates_machine_incident_constraint_def
  open_incident_def open_machine_incident_def open_incident_of_def open_machine_incident_of_def
  find_incident_def Let_def

lemma sample_incident_db_step:
  "\<exists>r. update_or_create_open_machine_incident id sample_probe_source 200 ''SN1'' ''e1'' init_incident_db
     = Inr (r, sample_incident_db)"
  by (simp add: incident_sample_simps incident_serialize_for_event_def
      incident_serialize_for_event_metadata_def machine_incident_serialize_for_event_def)

lemma sample_incident_db_reachable: "incident_reachable sample_incident_db"
  using sample_incident_db_step by (blast intro: incident_reachable.intros incident_step.intros)


text \<open>
  in every reachable state, a probe that reports a zero severity for a machine is answered
  without an exception; afterwards the machine has no \<open>OPEN\<close> machine incident of this probe,
  and every other machine incident (other machines, other probes, and those taken over manually,
  whose status is not \<open>OPEN\<close>) is what it was.
\<close>

theorem zero_severity_closes:
  assumes "incident_reachable db"
  shows "\<exists>m payloads db'.
    update_or_create_open_machine_incident id ps 0 sn event_id db = Inr ((m, payloads), db') \<and>
    incident_inv db' \<and>
    (\<forall>n \<in> set (machine_incidents db'). \<not> automatic_machine_incident_of db' ps sn n) \<and>
    (\<forall>n \<in> set (machine_incidents db). \<not> automatic_machine_incident_of db ps sn n \<longrightarrow>
       n \<in> set (machine_incidents db'))"
proof -
  note inv = incident_reachable_inv [OF assms]
  obtain m payloads db' where upd: "close_machine_incident ps sn db = Inr ((m, payloads), db')"
      and "incident_inv db'"
    using close_machine_incident_ok [OF inv, of ps sn] by blast
  then show ?thesis
    using close_machine_incident_effect [OF inv upd]
    by (auto simp: update_or_create_open_machine_incident_def)
qed

theorem zero_severity_closes_witness:
  "\<exists>m payloads db'.
    update_or_create_open_machine_incident id sample_probe_source 0 ''SN1'' ''e2'' sample_incident_db
      = Inr ((m, payloads), db') \<and>
    incident_inv db' \<and>
    (\<forall>n \<in> set (machine_incidents db').
       \<not> automatic_machine_incident_of db' sample_probe_source ''SN1'' n) \<and>
    (\<forall>n \<in> set (machine_incidents sample_incident_db).
       \<not> automatic_machine_incident_of sample_incident_db sample_probe_source ''SN1'' n \<longrightarrow>
       n \<in> set (machine_incidents db'))"
  by (rule zero_severity_closes [OF sample_incident_db_reachable])

text \<open>
  along every step of the system (automatic openings and closings, manual status updates,
  deletions of probe sources), no incident disappears and no severity decreases.
\<close>

theorem severity_never_decreases:
  assumes "incident_reachable db" "incident_step db db'" "i \<in> set (incidents db)"
  shows "\<exists>i' \<in> set (incidents db'). inc_pk i' = inc_pk i \<and> inc_severity i \<le> inc_severity i'"
  using severities_kept_step [OF assms(2) incident_reachable_inv [OF assms(1)]] assms(3)
  by (simp add: severities_kept_def)

theorem severity_never_decreases_witness:
  "\<exists>i' \<in> set (incidents (incident_probe_source_deleted 1 sample_incident_db)).
     inc_pk i' = inc_pk sample_incident \<and> inc_severity sample_incident \<le> inc_severity i'"
  by (rule severity_never_decreases [OF sample_incident_db_reachable probe_source_deleted_step])
     (simp add: sample_incident_db_def)

text \<open>
  a manual status update that emits an event has followed the transition table, changed only
  the status of the incident, and has never closed or resolved an incident that still has open
  machine incidents.
\<close>

theorem manual_status_update_guarded:
  assumes "update_incident_status inc s db = Inr ((i', payloads), db')" "payloads \<noteq> []"
  shows "\<exists>i. i \<in> set (incidents db) \<and> inc_pk i = inc_pk inc \<and> i' = i\<lparr>inc_status := s\<rparr> \<and>
    i' \<in> set (incidents db') \<and> s \<in> set (get_next_statuses (inc_status i)) \<and>
    machine_incidents db' = machine_incidents db \<and>
    (s \<in> set CLOSED_STATUSES \<longrightarrow>
       (\<forall>m \<in> set (machine_incidents db'). mi_incident m = inc_pk i' \<longrightarrow>
          mi_status m \<notin> set OPEN_STATUSES))"
proof -
  obtain i where get: "get_one (\<lambda>i. inc_pk i = inc_pk inc) (incidents db) = Inr i"
    and next': "s \<in> set (incident_get_next_statuses i db)"
    and i': "i' = i\<lparr>inc_status := s\<rparr>" and save: "save_incident i' db = Inr db'"
    using assms by (auto simp: update_incident_status_def Let_def bind_result_Inr
        split: sum.splits pyerror.splits if_splits)
  have i: "i \<in> set (incidents db)" "inc_pk i = inc_pk inc" using get by (auto dest: get_one_Inr)
  have s: "s \<in> set (get_next_statuses (inc_status i))"
    using next' incident_next_subset by blast
  have "i' \<in> set (incidents db')" and same: "machine_incidents db' = machine_incidents db"
    using save i(1) by (auto simp: save_incident_def set_update_where i' split: if_splits)
  moreover have "mi_status m \<notin> set OPEN_STATUSES"
    if "s \<in> set CLOSED_STATUSES" "m \<in> set (machine_incidents db)" "mi_incident m = inc_pk i'" for m
    using incident_next_open_machines [OF that(2) _ _ next'] that(1,3) by (auto simp: i' open_or_closed)
  ultimately show ?thesis using i i' s same by auto
qed

definition quiet_incident_db :: incident_db where
  "quiet_incident_db = \<lparr>incidents = [sample_incident], machine_incidents = [], incident_seq = 2, machine_incident_seq = 1\<rparr>"

lemma quiet_incident_update:
  "\<exists>payloads db'. update_incident_status sample_incident CLOSED quiet_incident_db =
     Inr ((sample_incident\<lparr>inc_status := CLOSED\<rparr>, payloads), db') \<and> payloads \<noteq> []"
  by (simp add: update_incident_status_def quiet_incident_db_def incident_get_next_statuses_def
      sample_incident_def get_one_def save_incident_def violates_incident_constraint_def Let_def
      open_incident_def incident_serialize_for_event_def incident_serialize_for_event_metadata_def)

theorem manual_status_update_guarded_witness:
  "\<exists>i. i \<in> set (incidents quiet_incident_db) \<and> inc_status i = OPEN \<and>
     CLOSED \<in> set (get_next_statuses (inc_status i))"
proof -
  obtain payloads db' where u: "update_incident_status sample_incident CLOSED quiet_incident_db =
      Inr ((sample_incident\<lparr>inc_status := CLOSED\<rparr>, payloads), db')" and ne: "payloads \<noteq> []"
    using quiet_incident_update by blast
  show ?thesis
    using manual_status_update_guarded [OF u ne]
    by (auto simp: quiet_incident_db_def sample_incident_def)
qed

text \<open>
  When two requests open the incident of a probe at the same time, the loser finds no open
  incident, its insertion violates the unique constraint, the recovery finds the incident of the
  winner, and the integrity error is raised all the same: the request fails.
\<close>

theorem concurrent_opening_fails:
  assumes "get_one (open_incident_of ps) (incidents db) = Inl DoesNotExist"
    and "incident_inv (race db)" "get_one (open_incident_of ps) (incidents (race db)) = Inr winner"
  shows "update_or_create_open_machine_incident race ps (Suc sev) sn event_id db = Inl IntegrityError"
proof -
  have w: "winner \<in> set (incidents (race db))" "open_incident_of ps winner"
    using assms(3) by (auto dest: get_one_Inr)
  then have "inc_pk winner < incident_seq (race db)" using incident_invD(2) [OF assms(2)] by blast
  with w have "violates_incident_constraint
      \<lparr>inc_pk = incident_seq (race db), inc_probe_source = Some (ps_pk ps), inc_name = ps_name ps,
       inc_description = ps_description ps, inc_severity = Suc sev, inc_status = OPEN,
       inc_event_id = event_id\<rparr> (incidents (race db))"
    by (auto simp: violates_incident_constraint_def list_ex_iff open_incident_def open_incident_of_def
        intro!: bexI [of _ winner])
  with assms show ?thesis
    by (simp add: update_or_create_open_machine_incident_def
        update_or_create_open_incident_inner_def Let_def)
qed

theorem concurrent_opening_fails_witness:
  "update_or_create_open_machine_incident (\<lambda>_. sample_incident_db) sample_probe_source (Suc 99)
     ''SN2'' ''e2'' init_incident_db = Inl IntegrityError"
  by (rule concurrent_opening_fails [where winner = sample_incident])
     (rule incident_reachable_inv [OF sample_incident_db_reachable] |
      simp add: get_one_def init_incident_db_def sample_incident_db_def open_incident_of_def sample_incident_def
       sample_probe_source_def)+

end
