(* ===== verification/Pipeline.thy ===== *)
theory Pipeline imports Incidents begin

text \<open>
  \<open>zentral/core/events/pipeline.py\<close>, with \<open>zentral/core/incidents/events/__init__.py\<close> and the
  methods of \<open>EventMetadata\<close> the pipeline calls: enriching an event with the geography of its
  request, the probes that match it and their incidents, and triggering the actions of the
  probes.
\<close>

subsection \<open>Incident events\<close>

definition IncidentEvent :: event_class where
  "IncidentEvent = \<lparr>event_type = ''incident'', namespace = None, class_tags = [''incident'']\<rparr>"

definition MachineIncidentEvent :: event_class where
  "MachineIncidentEvent =
     \<lparr>event_type = ''machine_incident'', namespace = None, class_tags = [''incident'']\<rparr>"

definition build_incident_events ::
  "string \<Rightarrow> int \<Rightarrow> dict list \<Rightarrow> string option \<Rightarrow> event_request option \<Rightarrow> event list" where
  "build_incident_events incident_events_uuid now payloads machine_serial_number request =
     map (\<lambda>(index, payload).
        \<lparr>ev_class = (if dict_get payload ''incident'' \<noteq> None then MachineIncidentEvent
                     else IncidentEvent),
         ev_metadata = (metadata_new incident_events_uuid now)
           \<lparr>md_index := int index, md_machine_serial_number := machine_serial_number,
            md_request := request\<rparr>,
         ev_payload = payload, ev_linked_objects = []\<rparr>)
       (enumerate 0 payloads)"

subsection \<open>Methods of the metadata\<close>

definition add_probe :: "probe \<Rightarrow> event \<Rightarrow> event" where
  "add_probe p e = e\<lparr>ev_metadata := (ev_metadata e)
     \<lparr>md_probes := md_probes (ev_metadata e) @ [PDict (probe_serialize_for_event_metadata p)]\<rparr>\<rparr>"

definition add_incident_dict :: "dict \<Rightarrow> event \<Rightarrow> event" where
  "add_incident_dict d e = e\<lparr>ev_metadata := (ev_metadata e)
     \<lparr>md_incidents := md_incidents (ev_metadata e) @ [PDict d]\<rparr>\<rparr>"

text \<open>\<open>add_incident\<close> calls a method of its argument, which raises when it is \<open>None\<close>.\<close>

definition add_incident :: "(pyerror + dict) option \<Rightarrow> event \<Rightarrow> pyerror + event" where
  "add_incident serialized e =
     (case serialized of
        None \<Rightarrow> Inl AttributeError
      | Some r \<Rightarrow> bind_result r (\<lambda>d. Inr (add_incident_dict d e)))"

text \<open>The probes of the event that are loaded; an unknown one is logged and skipped.\<close>

fun iter_loaded_probes :: "(nat \<times> probe) list \<Rightarrow> pyval list \<Rightarrow> probe list \<times> pyerror option" where
  "iter_loaded_probes all_probes_dict [] = ([], None)"
| "iter_loaded_probes all_probes_dict (PDict serialized_probe # rest) =
     (case dict_get serialized_probe ''pk'' of
        None \<Rightarrow> ([], Some (KeyError ''pk''))
      | Some (PList _) \<Rightarrow> ([], Some TypeError)
      | Some (PDict _) \<Rightarrow> ([], Some TypeError)
      | Some (PInt pk) \<Rightarrow>
          (case (if pk < 0 then None else dict_get all_probes_dict (nat pk)) of
             None \<Rightarrow> iter_loaded_probes all_probes_dict rest
           | Some p \<Rightarrow> (case iter_loaded_probes all_probes_dict rest of (ps, err) \<Rightarrow> (p # ps, err)))
      | Some _ \<Rightarrow> iter_loaded_probes all_probes_dict rest)"
| "iter_loaded_probes all_probes_dict (_ # rest) = ([], Some TypeError)"

subsection \<open>Enriching an event\<close>

definition get_city :: "(string \<Rightarrow> pyerror + geoip_city) \<Rightarrow> string \<Rightarrow> geoip_city option" where
  "get_city city addr = (case city addr of Inl _ \<Rightarrow> None | Inr c \<Rightarrow> Some c)"

definition enrich_geo :: "(string \<Rightarrow> pyerror + geoip_city) option \<Rightarrow> event \<Rightarrow> event" where
  "enrich_geo city_db_reader e =
     (case (md_request (ev_metadata e), city_db_reader) of
        (Some r, Some city) \<Rightarrow>
          (case ip r of
             PStr ip_str \<Rightarrow>
               if ip_str \<noteq> [] \<and> geo r = None then
                 (case get_city city ip_str of
                    None \<Rightarrow> e
                  | Some c \<Rightarrow> e\<lparr>ev_metadata := (ev_metadata e)\<lparr>md_request := Some (set_geo_from_city c r)\<rparr>\<rparr>)
               else e
           | _ \<Rightarrow> e)
      | _ \<Rightarrow> e)"

text \<open>\<open>ProbeList.event_filtered\<close>: the whole list is filtered before the first probe is yielded.\<close>

fun event_filtered :: "(probe \<Rightarrow> pyerror + bool) \<Rightarrow> probe list \<Rightarrow> pyerror + probe list" where
  "event_filtered test [] = Inr []"
| "event_filtered test (p # ps) =
     bind_result (test p) (\<lambda>b. bind_result (event_filtered test ps) (\<lambda>qs.
       Inr (if b then p # qs else qs)))"

definition get_matching_event_incident_severity :: "probe \<Rightarrow> nat option" where
  "get_matching_event_incident_severity p = incident_severity p"

text \<open>
  One probe: the events yielded, the tables, and the event with one probe and at most one
  incident more.
\<close>

definition enrich_incident ::
  "(incident_db \<Rightarrow> incident_db) \<Rightarrow> probe \<Rightarrow> event \<Rightarrow> incident_db \<Rightarrow>
   pyerror + (dict list \<times> event) \<times> incident_db" where
  "enrich_incident race p e db =
     (let e1 = add_probe p e; md = ev_metadata e1 in
      case get_matching_event_incident_severity p of
        None \<Rightarrow> Inr (([], e1), db)
      | Some sev \<Rightarrow>
          (case md_machine_serial_number md of
             Some sn \<Rightarrow>
               bind_result (update_or_create_open_machine_incident race (pr_source p) sev sn
                              (md_uuid md) db) (\<lambda>((m, payloads), db').
               bind_result (add_incident (map_option (machine_incident_serialize_for_event_metadata db') m) e1)
                 (\<lambda>e2. Inr ((payloads, e2), db')))
           | None \<Rightarrow>
               bind_result (update_or_create_open_incident race (pr_source p) sev (md_uuid md) db)
                 (\<lambda>((i, payloads), db').
               bind_result (add_incident (Some (incident_serialize_for_event_metadata i)) e1)
                 (\<lambda>e2. Inr ((payloads, e2), db')))))"

text \<open>
  The generator: what it yields, the tables it leaves, and the error it stops at. The tables are
  those of the last committed transaction: an incident committed just before \<open>add_incident\<close>
  raises stays.
\<close>

definition committed_db ::
  "(incident_db \<Rightarrow> incident_db) \<Rightarrow> probe \<Rightarrow> event \<Rightarrow> incident_db \<Rightarrow> incident_db" where
  "committed_db race p e db =
     (case (get_matching_event_incident_severity p, md_machine_serial_number (ev_metadata e)) of
        (None, _) \<Rightarrow> db
      | (Some sev, Some sn) \<Rightarrow>
          (case update_or_create_open_machine_incident race (pr_source p) sev sn
                  (md_uuid (ev_metadata e)) db of Inl _ \<Rightarrow> db | Inr (_, db') \<Rightarrow> db')
      | (Some sev, None) \<Rightarrow>
          (case update_or_create_open_incident race (pr_source p) sev (md_uuid (ev_metadata e)) db of
             Inl _ \<Rightarrow> db | Inr (_, db') \<Rightarrow> db'))"

fun enrich_probes ::
  "(incident_db \<Rightarrow> incident_db) \<Rightarrow> (nat \<Rightarrow> string) \<Rightarrow> int \<Rightarrow> nat \<Rightarrow> probe list \<Rightarrow> event \<Rightarrow> incident_db \<Rightarrow>
   event list \<times> incident_db \<times> (pyerror + event)" where
  "enrich_probes race new_uuid now n [] e db = ([e], db, Inr e)"
| "enrich_probes race new_uuid now n (p # ps) e db =
     (case enrich_incident race p e db of
        Inl err \<Rightarrow> ([], committed_db race p e db, Inl err)
      | Inr ((payloads, e'), db') \<Rightarrow>
          (let evs = build_incident_events (new_uuid n) now payloads
                 (md_machine_serial_number (ev_metadata e')) (md_request (ev_metadata e'))
           in case enrich_probes race new_uuid now (Suc n) ps e' db' of
                (rest, final) \<Rightarrow> (evs @ rest, final)))"

definition enrich_event ::
  "(incident_db \<Rightarrow> incident_db) \<Rightarrow> (pyval \<Rightarrow> string) \<Rightarrow> (string \<Rightarrow> machine_values) \<Rightarrow>
   (string \<Rightarrow> pyerror + geoip_city) option \<Rightarrow> (nat \<Rightarrow> string) \<Rightarrow> int \<Rightarrow> probe list \<Rightarrow> event \<Rightarrow>
   incident_db \<Rightarrow> event list \<times> incident_db \<times> (pyerror + event)" where
  "enrich_event race py_str machine_of city_db_reader new_uuid now all_probes e db =
     (let e1 = enrich_geo city_db_reader e in
      case event_filtered (\<lambda>p. probe_test_event py_str machine_of p e1) all_probes of
        Inl err \<Rightarrow> ([], db, Inl err)
      | Inr ps \<Rightarrow> enrich_probes race new_uuid now 0 ps e1 db)"

subsection \<open>Triggering the actions\<close>

text \<open>
  The triggers attempted, in order: an action that raises is logged, and the next one runs. The
  error is the one the iteration over the probes stops at.
\<close>

definition process_event ::
  "(nat \<times> probe) list \<Rightarrow> event \<Rightarrow> (nat \<times> string \<times> pyval) list \<times> pyerror option" where
  "process_event all_probes_dict e =
     (case iter_loaded_probes all_probes_dict (md_probes (ev_metadata e)) of
        (ps, err) \<Rightarrow>
          (concat (map (\<lambda>p. map (\<lambda>(action, config). (ps_pk (pr_source p), action, config))
                             (pr_actions p)) ps), err))"

subsection \<open>Facts\<close>

lemma probe_test_event_ok: "\<exists>b. probe_test_event py_str machine_of p e = Inr b"
  by (auto simp: probe_test_event_def probe_test_event_payload_def any_payload_filter_iff Let_def)

lemma event_filtered_filter:
  "(\<And>p. \<exists>b. test p = Inr b) \<Longrightarrow> event_filtered test ps = Inr (filter (\<lambda>p. test p = Inr True) ps)"
proof (induction ps)
  case (Cons p ps)
  obtain b where "test p = Inr b" using Cons.prems by blast
  with Cons show ?case by (cases b) auto
qed simp

lemma loaded_severity:
  assumes "probe_load pc tc aa c src data = Inr p"
  shows "incident_severity p \<noteq> Some 0"
  using assms
  by (auto simp: probe_load_def Let_def bind_result_Inr probe_body_validate_def SEVERITY_CHOICES_def
      SEVERITY_CRITICAL_def SEVERITY_MAJOR_def SEVERITY_MINOR_def split: option.splits if_splits)

text \<open>One probe extends the event, and its incident operation is a step of the tables.\<close>

definition extends_event :: "probe list \<Rightarrow> event \<Rightarrow> event \<Rightarrow> bool" where
  "extends_event ps e e' \<longleftrightarrow>
     ev_class e' = ev_class e \<and> ev_payload e' = ev_payload e \<and>
     md_machine_serial_number (ev_metadata e') = md_machine_serial_number (ev_metadata e) \<and>
     md_request (ev_metadata e') = md_request (ev_metadata e) \<and>
     md_uuid (ev_metadata e') = md_uuid (ev_metadata e) \<and>
     md_index (ev_metadata e') = md_index (ev_metadata e) \<and>
     md_probes (ev_metadata e') = md_probes (ev_metadata e) @
       map (\<lambda>p. PDict (probe_serialize_for_event_metadata p)) ps \<and>
     length (md_incidents (ev_metadata e')) = length (md_incidents (ev_metadata e)) +
       length (filter (\<lambda>p. incident_severity p \<noteq> None) ps)"

lemma extends_event_refl: "extends_event [] e e"
  by (simp add: extends_event_def)

lemma extends_event_trans:
  "extends_event ps e e1 \<Longrightarrow> extends_event qs e1 e2 \<Longrightarrow> extends_event (ps @ qs) e e2"
  by (simp add: extends_event_def)

lemma extends_add_probe: "incident_severity p = None \<Longrightarrow> extends_event [p] e (add_probe p e)"
  by (simp add: extends_event_def add_probe_def)

lemma extends_add_incident:
  "incident_severity p \<noteq> None \<Longrightarrow> extends_event [p] e (add_incident_dict d (add_probe p e))"
  by (simp add: extends_event_def add_probe_def add_incident_dict_def)

lemma metadata_add_probe [simp]:
  "md_machine_serial_number (ev_metadata (add_probe p e)) = md_machine_serial_number (ev_metadata e)"
  "md_uuid (ev_metadata (add_probe p e)) = md_uuid (ev_metadata e)"
  by (simp_all add: add_probe_def)

lemma enrich_incident_ok:
  assumes db: "incident_reachable db" and sev: "incident_severity p \<noteq> Some 0"
  shows "\<exists>payloads e' db'. enrich_incident id p e db = Inr ((payloads, e'), db') \<and>
    incident_reachable db' \<and> extends_event [p] e e'"
proof (cases "incident_severity p")
  case None
  with db show ?thesis
    by (simp add: enrich_incident_def get_matching_event_incident_severity_def extends_add_probe)
next
  case (Some s)
  note inv = incident_reachable_inv [OF db]
  let ?uuid = "md_uuid (ev_metadata e)"
  have ext: "extends_event [p] e (add_incident_dict d (add_probe p e))" for d
    using Some by (intro extends_add_incident) simp
  show ?thesis
  proof (cases "md_machine_serial_number (ev_metadata e)")
    case None
    obtain i payload db' where inner: "update_or_create_open_incident_inner id (pr_source p) s ?uuid db =
        Inr ((i, payload), db')" and i: "open_incident_of (pr_source p) i"
      using open_incident_inner_ok [OF inv, of "pr_source p" s ?uuid] by blast
    define payloads where "payloads = (case payload of None \<Rightarrow> [] | Some d \<Rightarrow> [d])"
    have upd: "update_or_create_open_incident id (pr_source p) s ?uuid db = Inr ((i, payloads), db')"
      using inner by (simp add: update_or_create_open_incident_def payloads_def)
    obtain d where "incident_serialize_for_event_metadata i = Inr d"
      using i by (auto simp: open_incident_of_def incident_serialize_for_event_metadata_def)
    with Some None upd ext [of d] show ?thesis
      using incident_reachable.step [OF db open_incident_step [OF upd]]
      by (simp add: enrich_incident_def get_matching_event_incident_severity_def add_incident_def)
  next
    case (Some sn)
    have s: "s \<noteq> 0" using sev \<open>incident_severity p = Some s\<close> by simp
    obtain m payloads db' i where
        upd: "update_or_create_open_machine_incident id (pr_source p) s sn ?uuid db =
          Inr ((Some m, payloads), db')"
      and inv': "incident_inv db'" and i: "i \<in> set (incidents db')" "open_machine_incident_of i sn m"
          "open_incident_of (pr_source p) i"
      using update_or_create_machine_incident_ok [OF inv, of "pr_source p" s sn ?uuid] s by blast
    have "find_incident (mi_incident m) db' = Some i"
      using find_incident_in [OF inv' i(1)] i(2) by (simp add: open_machine_incident_of_def)
    then obtain d where "machine_incident_serialize_for_event_metadata db' m = Inr d"
      using i(3) by (auto simp: open_incident_of_def incident_serialize_for_event_metadata_def
          machine_incident_serialize_for_event_metadata_def)
    with Some \<open>incident_severity p = Some s\<close> upd ext [of d] show ?thesis
      using incident_reachable.step [OF db machine_incident_step [OF upd]]
      by (simp add: enrich_incident_def get_matching_event_incident_severity_def add_incident_def)
  qed
qed

lemma enrich_probes_ok:
  assumes "incident_reachable db" "\<forall>p \<in> set ps. incident_severity p \<noteq> Some 0"
  shows "\<exists>evs db' e'. enrich_probes id new_uuid now n ps e db = (evs @ [e'], db', Inr e') \<and>
    incident_reachable db' \<and> extends_event ps e e'"
  using assms
proof (induction ps arbitrary: e db n)
  case Nil
  then show ?case by (simp add: extends_event_refl)
next
  case (Cons p ps)
  obtain payloads e1 db1 where one: "enrich_incident id p e db = Inr ((payloads, e1), db1)"
      and r: "incident_reachable db1" and x: "extends_event [p] e e1"
    using enrich_incident_ok [of db p e] Cons.prems by auto
  have "\<forall>p \<in> set ps. incident_severity p \<noteq> Some 0" using Cons.prems by simp
  then obtain evs db2 e2 where
      "enrich_probes id new_uuid now (Suc n) ps e1 db1 = (evs @ [e2], db2, Inr e2)"
      "incident_reachable db2" "extends_event ps e1 e2"
    using Cons.IH [OF r] by blast
  moreover have "extends_event (p # ps) e e2"
    using extends_event_trans [OF x \<open>extends_event ps e1 e2\<close>] by simp
  ultimately show ?case
    unfolding enrich_probes.simps one by (simp add: Let_def del: append_assoc add: append_assoc [symmetric])
qed

lemma probes_iterated:
  assumes "distinct (map (\<lambda>p. ps_pk (pr_source p)) all_probes)" "set ps \<subseteq> set all_probes"
  shows "iter_loaded_probes (map (\<lambda>p. (ps_pk (pr_source p), p)) all_probes)
     (map (\<lambda>p. PDict (probe_serialize_for_event_metadata p)) ps) = (ps, None)"
  using assms(2)
proof (induction ps)
  case (Cons p ps)
  have "map_of (map (\<lambda>p. (ps_pk (pr_source p), p)) all_probes) (ps_pk (pr_source p)) = Some p"
    using Cons.prems assms(1) by (intro map_of_is_SomeI) (auto simp: comp_def)
  moreover have "dict_get (probe_serialize_for_event_metadata p) ''pk'' = Some (PInt (int (ps_pk (pr_source p))))"
    by (simp add: probe_serialize_for_event_metadata_def)
  ultimately show ?case using Cons by simp
qed simp

subsection \<open>Properties\<close>

lemma enrich_geo_same:
  "md_probes (ev_metadata (enrich_geo reader e)) = md_probes (ev_metadata e)"
  "md_incidents (ev_metadata (enrich_geo reader e)) = md_incidents (ev_metadata e)"
  "ev_payload (enrich_geo reader e) = ev_payload e"
  "ev_class (enrich_geo reader e) = ev_class e"
  "md_machine_serial_number (ev_metadata (enrich_geo reader e)) = md_machine_serial_number (ev_metadata e)"
  by (auto simp: enrich_geo_def split: option.splits pyval.splits)

definition matching_probes ::
  "(pyval \<Rightarrow> string) \<Rightarrow> (string \<Rightarrow> machine_values) \<Rightarrow> probe list \<Rightarrow> event \<Rightarrow> probe list" where
  "matching_probes py_str machine_of ps e =
     filter (\<lambda>p. probe_test_event py_str machine_of p e = Inr True) ps"

lemma enrich_event_ok:
  assumes "incident_reachable db" "\<forall>p \<in> set all_probes. incident_severity p \<noteq> Some 0"
  shows "\<exists>evs e' db'.
    enrich_event id py_str machine_of reader new_uuid now all_probes e db = (evs @ [e'], db', Inr e') \<and>
    incident_reachable db' \<and>
    extends_event (matching_probes py_str machine_of all_probes (enrich_geo reader e))
      (enrich_geo reader e) e'"
proof -
  let ?e = "enrich_geo reader e"
  have filt: "event_filtered (\<lambda>p. probe_test_event py_str machine_of p ?e) all_probes =
      Inr (matching_probes py_str machine_of all_probes ?e)"
    unfolding matching_probes_def by (rule event_filtered_filter) (rule probe_test_event_ok)
  have "\<forall>p \<in> set (matching_probes py_str machine_of all_probes ?e). incident_severity p \<noteq> Some 0"
    using assms(2) by (simp add: matching_probes_def)
  from enrich_probes_ok [OF assms(1) this] filt show ?thesis
    unfolding enrich_event_def Let_def filt sum.case by blast
qed


definition sample_probe :: probe where
  "sample_probe =
     \<lparr>pr_source = sample_probe_source, pr_class = base_probe_class, pr_loaded = True,
      inventory_filters = [], metadata_filters = [], payload_filters = [],
      pr_actions = [(''http'', PNone)], incident_severity = Some 300\<rparr>"

definition sample_body :: probe_body where
  "sample_body = \<lparr>pb_filters = None, pb_actions = Some [(''http'', PNone)], pb_incident_severity = Some 300\<rparr>"

lemma sample_probe_loaded:
  "probe_load [] [] [''http''] base_probe_class sample_probe_source (Some sample_body) = Inr sample_probe"
  by (simp add: probe_load_def sample_body_def sample_probe_def probe_body_validate_def Let_def
      SEVERITY_CHOICES_def SEVERITY_CRITICAL_def load_filters_def load_actions_def base_probe_class_def
      get_list_def)

definition sample_event :: event where
  "sample_event =
     \<lparr>ev_class = CommandEvent,
      ev_metadata = (metadata_new ''u1'' 0)\<lparr>md_machine_serial_number := Some ''SN1''\<rparr>,
      ev_payload = [(''command'', PStr ''ping'')], ev_linked_objects = []\<rparr>"


text \<open>
  an event enriched by a set of loaded probes, with unique primary keys, and then processed with the same
  probes triggers the actions of exactly the probes that matched, each probe's in its order, and
  no probe is unknown.
\<close>

theorem enriched_event_triggers_matching_actions:
  assumes "incident_reachable db"
    and "\<forall>p \<in> set all_probes. \<exists>c src data. probe_load pc tc aa c src data = Inr p"
    and "distinct (map (\<lambda>p. ps_pk (pr_source p)) all_probes)" "md_probes (ev_metadata e) = []"
    and "enrich_event id py_str machine_of reader new_uuid now all_probes e db = (evs, db', Inr e')"
  shows "process_event (map (\<lambda>p. (ps_pk (pr_source p), p)) all_probes) e' =
    (concat (map (\<lambda>p. map (\<lambda>(action, config). (ps_pk (pr_source p), action, config)) (pr_actions p))
       (matching_probes py_str machine_of all_probes (enrich_geo reader e))), None)"
proof -
  let ?ps = "matching_probes py_str machine_of all_probes (enrich_geo reader e)"
  have "\<forall>p \<in> set all_probes. incident_severity p \<noteq> Some 0"
    using assms(2) loaded_severity by blast
  from enrich_event_ok [OF assms(1) this, of py_str machine_of reader new_uuid now e]
  have "extends_event ?ps (enrich_geo reader e) e'" unfolding assms(5) by blast
  then have "md_probes (ev_metadata e') = map (\<lambda>p. PDict (probe_serialize_for_event_metadata p)) ?ps"
    using assms(4) by (simp add: extends_event_def enrich_geo_same)
  moreover have "set ?ps \<subseteq> set all_probes" by (auto simp: matching_probes_def)
  ultimately show ?thesis
    using probes_iterated [OF assms(3)] by (simp add: process_event_def)
qed

theorem enriched_event_triggers_matching_actions_witness:
  "\<exists>e'. process_event [(1, sample_probe)] e' = ([(1, ''http'', PNone)], None)"
proof -
  let ?machine = "\<lambda>_. \<lparr>m_platform = None, m_type = None, m_mbu_id_set = [], m_tag_id_set = []\<rparr>"
  have loaded: "\<forall>p \<in> set [sample_probe]. \<exists>c src data. probe_load [] [] [''http''] c src data = Inr p"
    using sample_probe_loaded by auto
  have sev: "\<forall>p \<in> set [sample_probe]. incident_severity p \<noteq> Some 0" by (simp add: sample_probe_def)
  obtain evs e' db' where e': "enrich_event id (\<lambda>_. '''') ?machine None (\<lambda>_. ''u2'') 0 [sample_probe]
      sample_event init_incident_db = (evs @ [e'], db', Inr e')"
    using enrich_event_ok [OF incident_reachable.init sev] by blast
  have "process_event (map (\<lambda>p. (ps_pk (pr_source p), p)) [sample_probe]) e' =
      (concat (map (\<lambda>p. map (\<lambda>(action, config). (ps_pk (pr_source p), action, config)) (pr_actions p))
         (matching_probes (\<lambda>_. '''') ?machine [sample_probe] (enrich_geo None sample_event))), None)"
    by (rule enriched_event_triggers_matching_actions [OF incident_reachable.init loaded _ _ e'])
       (simp_all add: sample_event_def metadata_new_def)
  moreover have "matching_probes (\<lambda>_. '''') ?machine [sample_probe] (enrich_geo None sample_event) =
      [sample_probe]"
    by (simp add: matching_probes_def probe_test_event_def probe_test_machine_def
        probe_test_event_metadata_def probe_test_event_payload_def sample_probe_def
        base_probe_class_def Let_def)
  ultimately show ?thesis
    by (intro exI [of _ e']) (simp add: sample_probe_def sample_probe_source_def)
qed

text \<open>
  The one severity the code handles as a request to close makes the enrichment fail when the
  machine has nothing to close: no machine incident is returned, and adding it to the metadata
  raises.
\<close>

theorem closing_nothing_raises:
  assumes "incident_severity p = Some 0" "md_machine_serial_number (ev_metadata e) = Some sn"
    and "\<forall>m \<in> set (machine_incidents db). \<not> automatic_machine_incident_of db (pr_source p) sn m"
  shows "enrich_incident race p e db = Inl AttributeError"
proof -
  have "get_one (automatic_machine_incident_of db (pr_source p) sn) (machine_incidents db) = Inl DoesNotExist"
    using assms(3) by (simp add: get_one_none)
  then have "update_or_create_open_machine_incident race (pr_source p) 0 sn uuid db =
      Inr ((None, []), db)" for uuid
    by (simp add: update_or_create_open_machine_incident_def close_machine_incident_def)
  with assms(1,2) show ?thesis
    by (simp add: enrich_incident_def get_matching_event_incident_severity_def add_incident_def)
qed

theorem closing_nothing_raises_witness:
  "enrich_incident id (sample_probe\<lparr>incident_severity := Some 0\<rparr>) sample_event init_incident_db =
     Inl AttributeError"
  by (rule closing_nothing_raises [where sn = "''SN1''"])
     (simp_all add: sample_event_def init_incident_db_def)

end
