(* ===== verification/EnrollmentSecrets.thy ===== *)
theory EnrollmentSecrets imports Events begin

text \<open>
  The enrollment secrets of \<open>zentral/contrib/inventory/models.py\<close> with the verification of
  \<open>zentral/contrib/inventory/utils.py\<close>: every agent (MDM, Munki, Osquery, Santa) enrolls by
  presenting a secret, which may be limited to serial numbers, UDIDs, a business unit, a date
  and a number of requests.
\<close>

subsection \<open>Rows and tables\<close>

record enrollment_secret =
  es_pk :: nat
  es_secret :: string
  es_meta_business_unit :: nat
  es_tags :: "(nat \<times> string) list"
  es_serial_numbers :: "string list option"
  es_udids :: "string list option"
  es_quota :: "int option"
  es_request_count :: int
  es_revoked_at :: "int option"
  es_expired_at :: "int option"
  es_created_at :: int

record enrollment_secret_request =
  esr_enrollment_secret :: nat
  esr_user_agent :: string
  esr_public_ip_address :: string
  esr_serial_number :: "string option"
  esr_udid :: "string option"

text \<open>
  An enrollment of one of the applications: \<open>enr_model\<close> is the name of the reverse relation of
  its secret. \<open>enr_distributor\<close> is the event dictionary of its distributor, empty when the
  distributor has none.
\<close>

record enrollment =
  enr_pk :: nat
  enr_model :: string
  enr_secret :: nat
  enr_version :: nat
  enr_distributor :: "dict option"
  enr_created_at :: int

record enrollment_db =
  enrollment_secrets :: "enrollment_secret list"
  enrollment_requests :: "enrollment_secret_request list"
  enrollments :: "enrollment list"

subsection \<open>Validity of a secret\<close>

definition is_revoked :: "enrollment_secret \<Rightarrow> bool" where
  "is_revoked es \<longleftrightarrow> es_revoked_at es \<noteq> None"

definition is_expired :: "int \<Rightarrow> enrollment_secret \<Rightarrow> bool" where
  "is_expired now es \<longleftrightarrow> (case es_expired_at es of None \<Rightarrow> False | Some t \<Rightarrow> t \<le> now)"

definition is_used_up :: "enrollment_secret \<Rightarrow> bool" where
  "is_used_up es \<longleftrightarrow> (case es_quota es of None \<Rightarrow> False | Some q \<Rightarrow> q \<noteq> 0 \<and> q \<le> es_request_count es)"

text \<open>A restriction is asked when the request names a value and the secret lists some.\<close>

definition restricted :: "string option \<Rightarrow> string list option \<Rightarrow> bool" where
  "restricted v allowed \<longleftrightarrow> (case (v, allowed) of
     (Some x, Some xs) \<Rightarrow> x \<noteq> [] \<and> xs \<noteq> [] \<and> x \<notin> set xs | _ \<Rightarrow> False)"

definition is_valid ::
  "int \<Rightarrow> string option \<Rightarrow> string option \<Rightarrow> nat option \<Rightarrow> enrollment_secret \<Rightarrow> bool \<times> string option" where
  "is_valid now serial_number udid meta_business_unit es =
     (let err_msg =
        (if is_revoked es then Some ''revoked''
         else if is_expired now es then Some ''expired''
         else if restricted serial_number (es_serial_numbers es) then Some ''serial number mismatch''
         else if restricted udid (es_udids es) then Some ''udid mismatch''
         else if meta_business_unit \<noteq> None \<and> meta_business_unit \<noteq> Some (es_meta_business_unit es)
           then Some ''business unit mismatch''
         else if is_used_up es then Some ''quota used up'' else None)
      in (err_msg = None, err_msg))"

subsection \<open>Verification\<close>

text \<open>
  \<open>EnrollmentSecretManager.verify\<close>; \<open>extra\<close> stands for the other lookups of the caller. The
  error carries the secret it is about, when there is one.
\<close>

definition secret_queryset ::
  "string \<Rightarrow> string \<Rightarrow> (enrollment_secret \<Rightarrow> enrollment \<Rightarrow> bool) \<Rightarrow> enrollment_db \<Rightarrow>
   enrollment_secret list" where
  "secret_queryset model secret extra db =
     filter (\<lambda>es. es_secret es = secret \<and>
        list_ex (\<lambda>en. enr_model en = model \<and> enr_secret en = es_pk es \<and> extra es en) (enrollments db))
       (enrollment_secrets db)"

definition verify ::
  "int \<Rightarrow> string \<Rightarrow> string \<Rightarrow> string \<Rightarrow> string \<Rightarrow> string option \<Rightarrow> string option \<Rightarrow> nat option \<Rightarrow>
   (enrollment_secret \<Rightarrow> enrollment \<Rightarrow> bool) \<Rightarrow> enrollment_db \<Rightarrow>
   (pyerror \<times> enrollment_secret option) + (enrollment_secret_request \<times> enrollment_db)" where
  "verify now model secret ua ip_addr serial_number udid meta_business_unit extra db =
     (case secret_queryset model secret extra db of
        [] \<Rightarrow> Inl (EnrollmentSecretVerificationFailed ''unknown secret'', None)
      | es # _ \<Rightarrow>
          (case is_valid now serial_number udid meta_business_unit es of
             (True, _) \<Rightarrow>
               (let esr = \<lparr>esr_enrollment_secret = es_pk es, esr_user_agent = ua,
                           esr_public_ip_address = ip_addr,
                           esr_serial_number = serial_number, esr_udid = udid\<rparr>;
                    es' = es\<lparr>es_request_count := es_request_count es + 1\<rparr>
                in Inr (esr, db\<lparr>enrollment_requests := enrollment_requests db @ [esr],
                              enrollment_secrets := update_where (\<lambda>s. es_pk s = es_pk es) (\<lambda>_. es')
                                (enrollment_secrets db)\<rparr>))
           | (False, err_msg) \<Rightarrow>
               Inl (EnrollmentSecretVerificationFailed (case err_msg of None \<Rightarrow> [] | Some m \<Rightarrow> m),
                    Some es)))"

definition EnrollmentSecretVerificationEvent :: event_class where
  "EnrollmentSecretVerificationEvent =
     \<lparr>event_type = ''enrollment_secret_verification'', namespace = None, class_tags = []\<rparr>"

text \<open>\<open>mbu_serialize\<close> is the serialization of a meta business unit.\<close>

definition enrollment_secret_serialize_for_event ::
  "int \<Rightarrow> (nat \<Rightarrow> dict) \<Rightarrow> enrollment_secret \<Rightarrow> dict" where
  "enrollment_secret_serialize_for_event now mbu_serialize es =
     [(''enrollment_secret'', PDict (present
        [(''pk'', Some (PInt (int (es_pk es)))),
         (''quota'', map_option PInt (es_quota es)),
         (''request_count'', Some (PInt (es_request_count es))),
         (''is_used_up'', Some (PBool (is_used_up es))),
         (''revoked_at'', map_option PTime (es_revoked_at es)),
         (''is_revoked'', Some (PBool (is_revoked es))),
         (''expired_at'', map_option PTime (es_expired_at es)),
         (''is_expired'', Some (PBool (is_expired now es))),
         (''created_at'', Some (PTime (es_created_at es))),
         (''tags'', if es_tags es = [] then None else Some (PList (map (\<lambda>(pk, n).
            PDict [(''pk'', PInt (int pk)), (''name'', PStr n)]) (es_tags es)))),
         (''meta_business_unit'', Some (PDict (mbu_serialize (es_meta_business_unit es)))),
         (''serial_numbers'', case es_serial_numbers es of
            Some (s # ss) \<Rightarrow> Some (PList (map PStr (s # ss))) | _ \<Rightarrow> None),
         (''udids'', case es_udids es of
            Some (s # ss) \<Rightarrow> Some (PList (map PStr (s # ss))) | _ \<Rightarrow> None)]))]"

definition enrollment_serialize_for_event ::
  "int \<Rightarrow> (nat \<Rightarrow> dict) \<Rightarrow> enrollment_secret \<Rightarrow> enrollment \<Rightarrow> dict" where
  "enrollment_serialize_for_event now mbu_serialize es en =
     dict_update
       (dict_update [(''pk'', PInt (int (enr_pk en))), (''created_at'', PTime (enr_created_at en))]
          (enrollment_secret_serialize_for_event now mbu_serialize es))
       (case enr_distributor en of None \<Rightarrow> [] | Some d \<Rightarrow> d)"

text \<open>The event of a verification, its enrollment read through the reverse relation.\<close>

definition verification_event ::
  "string \<Rightarrow> int \<Rightarrow> string \<Rightarrow> string \<Rightarrow> string option \<Rightarrow> dict \<Rightarrow> event" where
  "verification_event new_uuid now ua ip_addr serial_number payload =
     \<lparr>ev_class = EnrollmentSecretVerificationEvent,
      ev_metadata = (metadata_new new_uuid now)
        \<lparr>md_machine_serial_number := serial_number,
         md_request := Some \<lparr>user_agent = PStr ua, ip = PStr ip_addr,
                             geo = None, user = None\<rparr>\<rparr>,
      ev_payload = payload, ev_linked_objects = []\<rparr>"

definition enrollment_of :: "string \<Rightarrow> enrollment_secret \<Rightarrow> enrollment_db \<Rightarrow> pyerror + enrollment" where
  "enrollment_of model es db =
     get_one (\<lambda>en. enr_model en = model \<and> enr_secret en = es_pk es) (enrollments db)"

definition verify_enrollment_secret ::
  "int \<Rightarrow> string \<Rightarrow> (nat \<Rightarrow> dict) \<Rightarrow> string \<Rightarrow> string \<Rightarrow> string \<Rightarrow> string \<Rightarrow> string option \<Rightarrow> string option \<Rightarrow>
   nat option \<Rightarrow> (enrollment_secret \<Rightarrow> enrollment \<Rightarrow> bool) \<Rightarrow> enrollment_db \<Rightarrow>
   (pyerror + enrollment_secret_request) \<times> event list \<times> enrollment_db" where
  "verify_enrollment_secret now new_uuid mbu_serialize model secret ua ip_addr
      serial_number udid meta_business_unit extra db =
     (let ev = verification_event new_uuid now ua ip_addr serial_number in
      case verify now model secret ua ip_addr serial_number udid
             meta_business_unit extra db of
        Inl (err, es) \<Rightarrow>
          (let reason = (case err of EnrollmentSecretVerificationFailed m \<Rightarrow> PStr m | _ \<Rightarrow> PNone);
               payload = [(''status'', PStr ''failure''), (''reason'', reason), (''type'', PStr model)]
           in case es of
                None \<Rightarrow> (Inl err, [ev payload], db)
              | Some s \<Rightarrow>
                  (case enrollment_of model s db of
                     Inl e \<Rightarrow> (Inl e, [], db)
                   | Inr en \<Rightarrow>
                       (Inl err, [ev (dict_update payload
                          (enrollment_serialize_for_event now mbu_serialize s en))], db)))
      | Inr (esr, db') \<Rightarrow>
          (case get_one (\<lambda>s. es_pk s = esr_enrollment_secret esr) (enrollment_secrets db') of
             Inl e \<Rightarrow> (Inl e, [], db')
           | Inr s \<Rightarrow>
               (case enrollment_of model s db' of
                  Inl e \<Rightarrow> (Inl e, [], db')
                | Inr en \<Rightarrow>
                    (Inr esr,
                     [ev (dict_update [(''status'', PStr ''success''), (''type'', PStr model)]
                        (enrollment_serialize_for_event now mbu_serialize s en))], db'))))"

subsection \<open>Enrollments\<close>

definition can_be_deleted :: "enrollment \<Rightarrow> bool" where
  "can_be_deleted en \<longleftrightarrow> enr_distributor en = None"

definition can_be_revoked :: "enrollment_secret \<Rightarrow> bool" where
  "can_be_revoked es \<longleftrightarrow> \<not> is_revoked es"

text \<open>A later save bumps the version in the table; the flag tells that the distributor is called back.\<close>

definition enrollment_save :: "enrollment \<Rightarrow> enrollment_db \<Rightarrow> (enrollment \<times> bool) \<times> enrollment_db" where
  "enrollment_save en db =
     (case get_one (\<lambda>e. enr_pk e = enr_pk en \<and> enr_model e = enr_model en) (enrollments db) of
        Inr old \<Rightarrow>
          (let en' = en\<lparr>enr_version := enr_version old + 1\<rparr> in
           ((en', enr_distributor en' \<noteq> None),
            db\<lparr>enrollments := update_where (\<lambda>e. enr_pk e = enr_pk en \<and> enr_model e = enr_model en)
                 (\<lambda>_. en') (enrollments db)\<rparr>))
      | Inl _ \<Rightarrow> ((en, enr_distributor en \<noteq> None), db\<lparr>enrollments := enrollments db @ [en]\<rparr>))"

text \<open>Deleting the secret cascades to its requests and enrollments.\<close>

definition enrollment_delete :: "enrollment \<Rightarrow> enrollment_db \<Rightarrow> pyerror + enrollment_db" where
  "enrollment_delete en db =
     (if can_be_deleted en then
        Inr \<lparr>enrollment_secrets = delete_where (\<lambda>s. es_pk s = enr_secret en) (enrollment_secrets db),
             enrollment_requests =
               delete_where (\<lambda>r. esr_enrollment_secret r = enr_secret en) (enrollment_requests db),
             enrollments = delete_where (\<lambda>e. enr_secret e = enr_secret en \<or>
               (enr_pk e = enr_pk en \<and> enr_model e = enr_model en)) (enrollments db)\<rparr>
      else Inl ValueError)"

definition revoke :: "int \<Rightarrow> nat \<Rightarrow> enrollment_db \<Rightarrow> enrollment_db" where
  "revoke now pk db =
     db\<lparr>enrollment_secrets := update_where (\<lambda>s. es_pk s = pk) (\<lambda>s. s\<lparr>es_revoked_at := Some now\<rparr>)
          (enrollment_secrets db)\<rparr>"

subsection \<open>Steps and invariant\<close>

text \<open>
  \<open>save\<close> of a new secret: its primary key and its random secret string are new, its counter zero.
\<close>

inductive enrollment_step :: "enrollment_db \<Rightarrow> enrollment_db \<Rightarrow> bool" where
  verify_step:
    "verify now model secret ua ip_addr sn udid mbu extra db = Inr (esr, db') \<Longrightarrow> enrollment_step db db'"
| create_step:
    "\<forall>s \<in> set (enrollment_secrets db). es_pk s \<noteq> es_pk es \<and> es_secret s \<noteq> es_secret es \<Longrightarrow>
     \<forall>r \<in> set (enrollment_requests db). esr_enrollment_secret r \<noteq> es_pk es \<Longrightarrow>
     es_request_count es = 0 \<Longrightarrow> (\<forall>q. es_quota es = Some q \<longrightarrow> 1 \<le> q) \<Longrightarrow>
     enrollment_step db (db\<lparr>enrollment_secrets := enrollment_secrets db @ [es]\<rparr>)"
| save_step: "enrollment_step db (snd (enrollment_save en db))"
| revoke_step: "enrollment_step db (revoke now pk db)"
| delete_step: "enrollment_delete en db = Inr db' \<Longrightarrow> enrollment_step db db'"

inductive enrollment_reachable :: "enrollment_db \<Rightarrow> bool" where
  empty: "enrollment_reachable
    \<lparr>enrollment_secrets = [], enrollment_requests = [], enrollments = []\<rparr>"
| step: "enrollment_reachable db \<Longrightarrow> enrollment_step db db' \<Longrightarrow> enrollment_reachable db'"

definition requests_of :: "nat \<Rightarrow> enrollment_db \<Rightarrow> enrollment_secret_request list" where
  "requests_of pk db = filter (\<lambda>r. esr_enrollment_secret r = pk) (enrollment_requests db)"

definition secret_ok :: "enrollment_db \<Rightarrow> enrollment_secret \<Rightarrow> bool" where
  "secret_ok db es \<longleftrightarrow>
     es_request_count es = int (length (requests_of (es_pk es) db)) \<and>
     (\<forall>q. es_quota es = Some q \<longrightarrow> 1 \<le> q \<and> es_request_count es \<le> q)"

definition enrollment_inv :: "enrollment_db \<Rightarrow> bool" where
  "enrollment_inv db \<longleftrightarrow>
     distinct (map es_pk (enrollment_secrets db)) \<and>
     distinct (map es_secret (enrollment_secrets db)) \<and>
     (\<forall>es \<in> set (enrollment_secrets db). secret_ok db es)"

lemma is_valid_iff:
  "is_valid now sn udid mbu es = (True, m) \<longleftrightarrow>
     m = None \<and> \<not> is_revoked es \<and> \<not> is_expired now es \<and> \<not> restricted sn (es_serial_numbers es) \<and>
     \<not> restricted udid (es_udids es) \<and> (mbu = None \<or> mbu = Some (es_meta_business_unit es)) \<and>
     \<not> is_used_up es"
  by (auto simp: is_valid_def Let_def)

lemma verify_Inr:
  assumes "verify now model secret ua ip_addr sn udid mbu extra db = Inr (esr, db')"
  obtains es where "es \<in> set (enrollment_secrets db)" "es_secret es = secret"
    "is_valid now sn udid mbu es = (True, None)" "esr_enrollment_secret esr = es_pk es"
    "enrollment_requests db' = enrollment_requests db @ [esr]"
    "enrollment_secrets db' = update_where (\<lambda>s. es_pk s = es_pk es)
       (\<lambda>_. es\<lparr>es_request_count := es_request_count es + 1\<rparr>) (enrollment_secrets db)"
    "enrollments db' = enrollments db"
proof -
  obtain es rest where q: "secret_queryset model secret extra db = es # rest"
    using assms by (auto simp: verify_def split: list.splits)
  obtain v m where v: "is_valid now sn udid mbu es = (v, m)" by fastforce
  have True: "v" using assms by (auto simp: verify_def q v split: bool.splits)
  then have "m = None" using v by (simp add: is_valid_iff)
  have "es \<in> set (secret_queryset model secret extra db)" by (simp add: q)
  then have "es \<in> set (enrollment_secrets db)" "es_secret es = secret"
    by (auto simp: secret_queryset_def)
  then show thesis
    using assms v True \<open>m = None\<close> by (intro that [of es]) (auto simp: verify_def q Let_def)
qed

lemma secret_ok_cong:
  "requests_of (es_pk es) db' = requests_of (es_pk es) db \<Longrightarrow> secret_ok db' es = secret_ok db es"
  by (simp add: secret_ok_def)

lemma enrollment_inv_verify:
  assumes inv: "enrollment_inv db"
    and v: "verify now model secret ua ip_addr sn udid mbu extra db = Inr (esr, db')"
  shows "enrollment_inv db'"
proof -
  obtain es where es: "es \<in> set (enrollment_secrets db)" "is_valid now sn udid mbu es = (True, None)"
      "esr_enrollment_secret esr = es_pk es"
    and rows: "enrollment_requests db' = enrollment_requests db @ [esr]"
      "enrollment_secrets db' = update_where (\<lambda>s. es_pk s = es_pk es)
         (\<lambda>_. es\<lparr>es_request_count := es_request_count es + 1\<rparr>) (enrollment_secrets db)"
    using v by (rule verify_Inr)
  have d: "distinct (map es_pk (enrollment_secrets db))" "distinct (map es_secret (enrollment_secrets db))"
    using inv by (simp_all add: enrollment_inv_def)
  have only: "s = es" if "s \<in> set (enrollment_secrets db)" "es_pk s = es_pk es" for s
    using that es(1) d(1) by (auto simp: distinct_map inj_on_def)
  let ?f = "\<lambda>s. if es_pk s = es_pk es then es\<lparr>es_request_count := es_request_count es + 1\<rparr> else s"
  have keep: "es_pk (?f s) = es_pk s" "s \<in> set (enrollment_secrets db) \<Longrightarrow> es_secret (?f s) = es_secret s" for s
    using only by auto
  have rows': "enrollment_secrets db' = map ?f (enrollment_secrets db)"
    by (simp add: rows update_where_def)
  have "map es_pk (enrollment_secrets db') = map es_pk (enrollment_secrets db)"
    "map es_secret (enrollment_secrets db') = map es_secret (enrollment_secrets db)"
    using keep by (simp_all add: rows')
  moreover have "secret_ok db' s'" if s': "s' \<in> set (enrollment_secrets db')" for s'
  proof -
    obtain s where s: "s \<in> set (enrollment_secrets db)" "s' = ?f s" using s' by (auto simp: rows')
    have ok: "secret_ok db s" using inv s(1) by (simp add: enrollment_inv_def)
    show ?thesis
    proof (cases "es_pk s = es_pk es")
      case True
      then have "s = es" by (rule only [OF s(1)])
      have "\<not> is_used_up es" using es(2) by (simp add: is_valid_iff)
      then show ?thesis
        using ok es(3) s(2) unfolding \<open>s = es\<close>
        by (auto simp: secret_ok_def requests_of_def rows is_used_up_def split: option.splits)
    next
      case False
      then have "requests_of (es_pk s) db' = requests_of (es_pk s) db"
        using es(3) by (simp add: requests_of_def rows)
      from secret_ok_cong [OF this] show ?thesis using ok s(2) False by simp
    qed
  qed
  ultimately show ?thesis using d by (simp add: enrollment_inv_def)
qed

lemma enrollment_inv_step: "enrollment_step db db' \<Longrightarrow> enrollment_inv db \<Longrightarrow> enrollment_inv db'"
proof (induction rule: enrollment_step.induct)
  case (verify_step now model secret ua ip_addr sn udid mbu extra db esr db')
  then show ?case by (auto intro: enrollment_inv_verify)
next
  case (create_step db es)
  have "requests_of (es_pk es) db = []"
    using create_step(2) by (auto simp: requests_of_def filter_empty_conv)
  with create_step show ?case
    by (force simp: enrollment_inv_def secret_ok_def requests_of_def)
next
  case (save_step db en)
  have "enrollment_secrets (snd (enrollment_save en db)) = enrollment_secrets db"
    "enrollment_requests (snd (enrollment_save en db)) = enrollment_requests db"
    by (auto simp: enrollment_save_def Let_def split: sum.splits)
  moreover from this have "secret_ok (snd (enrollment_save en db)) es = secret_ok db es" for es
    by (intro secret_ok_cong) (simp add: requests_of_def)
  ultimately show ?case using save_step by (simp add: enrollment_inv_def)
next
  case (revoke_step db now pk)
  let ?f = "\<lambda>s. if es_pk s = pk then s\<lparr>es_revoked_at := Some now\<rparr> else s"
  have rows: "enrollment_secrets (revoke now pk db) = map ?f (enrollment_secrets db)"
    "enrollment_requests (revoke now pk db) = enrollment_requests db"
    by (simp_all add: revoke_def update_where_def)
  have keep: "es_pk (?f s) = es_pk s" "es_secret (?f s) = es_secret s" for s by simp_all
  have "secret_ok (revoke now pk db) (?f s)" if "secret_ok db s" for s
    using that by (auto simp: secret_ok_def requests_of_def rows)
  with revoke_step show ?case
    unfolding enrollment_inv_def rows map_map comp_def keep set_map by blast
next
  case (delete_step en db db')
  then have rows: "enrollment_secrets db' = delete_where (\<lambda>s. es_pk s = enr_secret en) (enrollment_secrets db)"
    "enrollment_requests db' =
       delete_where (\<lambda>r. esr_enrollment_secret r = enr_secret en) (enrollment_requests db)"
    by (auto simp: enrollment_delete_def split: if_splits)
  have "requests_of pk db' = requests_of pk db" if "pk \<noteq> enr_secret en" for pk
    using that by (auto simp: requests_of_def rows delete_where_def intro: filter_cong)
  then have "\<forall>s \<in> set (enrollment_secrets db'). secret_ok db' s"
    using delete_step(2) by (auto simp: enrollment_inv_def secret_ok_def rows delete_where_def)
  with delete_step(2) show ?case
    by (auto simp: enrollment_inv_def rows delete_where_def distinct_map_filter)
qed

lemma enrollment_reachable_inv: "enrollment_reachable db \<Longrightarrow> enrollment_inv db"
proof (induction rule: enrollment_reachable.induct)
  case empty
  show ?case by (simp add: enrollment_inv_def)
qed (auto intro: enrollment_inv_step)

subsection \<open>Properties\<close>


definition sample_secret :: enrollment_secret where
  "sample_secret =
     \<lparr>es_pk = 1, es_secret = ''s3cr3t'', es_meta_business_unit = 1, es_tags = [],
      es_serial_numbers = Some [''SN1''], es_udids = None, es_quota = Some 1, es_request_count = 0,
      es_revoked_at = None, es_expired_at = Some 100, es_created_at = 0\<rparr>"

definition sample_enrollment :: enrollment where
  "sample_enrollment =
     \<lparr>enr_pk = 1, enr_model = ''santa_enrollment'', enr_secret = 1, enr_version = 1,
      enr_distributor = None, enr_created_at = 0\<rparr>"

definition sample_enrollment_db :: enrollment_db where
  "sample_enrollment_db =
     \<lparr>enrollment_secrets = [sample_secret], enrollment_requests = [],
      enrollments = [sample_enrollment]\<rparr>"

lemma sample_enrollment_db_reachable: "enrollment_reachable sample_enrollment_db"
proof -
  let ?db0 = "\<lparr>enrollment_secrets = [], enrollment_requests = [], enrollments = []\<rparr>"
  let ?db1 = "\<lparr>enrollment_secrets = [sample_secret], enrollment_requests = [], enrollments = []\<rparr>"
  have "enrollment_step ?db0 (?db0\<lparr>enrollment_secrets := enrollment_secrets ?db0 @ [sample_secret]\<rparr>)"
    by (rule create_step) (simp_all add: sample_secret_def)
  then have "enrollment_reachable ?db1"
    using enrollment_reachable.step [OF enrollment_reachable.empty] by simp
  moreover have "snd (enrollment_save sample_enrollment ?db1) = sample_enrollment_db"
    by (simp add: enrollment_save_def sample_enrollment_db_def get_one_def)
  ultimately show ?thesis
    using enrollment_reachable.step save_step by metis
qed

definition used_enrollment_db :: enrollment_db where
  "used_enrollment_db =
     \<lparr>enrollment_secrets = [sample_secret\<lparr>es_request_count := 1\<rparr>],
      enrollment_requests = [\<lparr>esr_enrollment_secret = 1, esr_user_agent = ''Zentral'',
        esr_public_ip_address = ''1.2.3.4'', esr_serial_number = Some ''SN1'', esr_udid = None\<rparr>],
      enrollments = [sample_enrollment]\<rparr>"

lemma used_enrollment_db_reachable: "enrollment_reachable used_enrollment_db"
proof -
  have "\<exists>esr. verify 50 ''santa_enrollment'' ''s3cr3t'' ''Zentral'' ''1.2.3.4'' (Some ''SN1'') None None
      (\<lambda>_ _. True) sample_enrollment_db = Inr (esr, used_enrollment_db)"
    by (simp add: verify_def secret_queryset_def sample_enrollment_db_def used_enrollment_db_def
        sample_secret_def sample_enrollment_def is_valid_def is_revoked_def is_expired_def
        restricted_def is_used_up_def update_where_def Let_def)
  then show ?thesis
    using enrollment_reachable.step [OF sample_enrollment_db_reachable] verify_step by metis
qed


lemma verify_known_extra:
  assumes inv: "enrollment_inv db" and es: "es \<in> set (enrollment_secrets db)"
    and en: "en \<in> set (enrollments db)" "enr_model en = model" "enr_secret en = es_pk es" "extra es en"
  shows "verify now model (es_secret es) ua ip_addr sn udid mbu extra db =
    (case is_valid now sn udid mbu es of
       (True, _) \<Rightarrow>
         (let esr = \<lparr>esr_enrollment_secret = es_pk es, esr_user_agent = ua,
                     esr_public_ip_address = ip_addr, esr_serial_number = sn, esr_udid = udid\<rparr>
          in Inr (esr, db\<lparr>enrollment_requests := enrollment_requests db @ [esr],
                        enrollment_secrets := update_where (\<lambda>s. es_pk s = es_pk es)
                          (\<lambda>_. es\<lparr>es_request_count := es_request_count es + 1\<rparr>) (enrollment_secrets db)\<rparr>))
     | (False, err_msg) \<Rightarrow>
         Inl (EnrollmentSecretVerificationFailed (case err_msg of None \<Rightarrow> [] | Some m \<Rightarrow> m), Some es))"
proof -
  let ?q = "secret_queryset model (es_secret es) extra db"
  have mem: "es \<in> set ?q" using es en by (auto simp: secret_queryset_def list_ex_iff)
  have d: "distinct (map es_secret (enrollment_secrets db))" using inv by (simp add: enrollment_inv_def)
  have only: "s = es" if "s \<in> set ?q" for s
    by (rule distinct_map_eqD [OF d]) (use that es in \<open>auto simp: secret_queryset_def\<close>)
  have "?q \<noteq> []" using mem by auto
  then have "?q = es # tl ?q" using only [OF hd_in_set] by (metis list.collapse)
  then obtain rest where "?q = es # rest" by blast
  then show ?thesis unfolding verify_def Let_def by simp
qed

lemma enrollment_of_in:
  "enrollment_of model es db = Inr en \<Longrightarrow>
   en \<in> set (enrollments db) \<and> enr_model en = model \<and> enr_secret en = es_pk es"
  by (auto simp: enrollment_of_def dest: get_one_Inr)

lemma verify_unknown:
  assumes "\<And>es en. es \<in> set (enrollment_secrets db) \<Longrightarrow> es_secret es = secret \<Longrightarrow>
    en \<in> set (enrollments db) \<Longrightarrow> enr_model en = model \<Longrightarrow> enr_secret en = es_pk es \<Longrightarrow> \<not> extra es en"
  shows "verify now model secret ua ip_addr sn udid mbu extra db =
    Inl (EnrollmentSecretVerificationFailed ''unknown secret'', None)"
proof -
  have "secret_queryset model secret extra db = []"
    using assms by (auto simp: secret_queryset_def filter_empty_conv list_ex_iff)
  then show ?thesis by (simp add: verify_def)
qed

lemma enrollment_serialize_get:
  "enr_distributor en = None \<Longrightarrow>
   dict_get (dict_update payload (enrollment_serialize_for_event now mbu_serialize es en)) k =
     (if k = ''pk'' then Some (PInt (int (enr_pk en)))
      else if k = ''created_at'' then Some (PTime (enr_created_at en))
      else if k = ''enrollment_secret'' then
        Some (snd (hd (enrollment_secret_serialize_for_event now mbu_serialize es)))
      else dict_get payload k)"
  by (simp add: enrollment_serialize_for_event_def enrollment_secret_serialize_for_event_def
      dict_get_set)

text \<open>
  C30: for an enrollment that has no distributor, a verification posts exactly one event and
  answers by the rules of its secret alone: it succeeds exactly when the secret is neither
  revoked nor expired nor used up, admits the serial number and the UDID, and is of the business
  unit asked for; otherwise it raises with the first reason that applies, and no table changes.
\<close>

theorem verification_decides:
  assumes "enrollment_reachable db" "es \<in> set (enrollment_secrets db)"
    and "enrollment_of model es db = Inr en" "enr_distributor en = None"
  shows "\<exists>answer ev db'.
    verify_enrollment_secret now new_uuid mbu_serialize model (es_secret es) ua ip_addr sn udid mbu
      (\<lambda>_ _. True) db = (answer, [ev], db') \<and>
    ((\<exists>esr. answer = Inr esr \<and>
        \<not> is_revoked es \<and> \<not> is_expired now es \<and> \<not> restricted sn (es_serial_numbers es) \<and>
        \<not> restricted udid (es_udids es) \<and> mbu \<in> {None, Some (es_meta_business_unit es)} \<and>
        \<not> is_used_up es \<and> requests_of (es_pk es) db' = requests_of (es_pk es) db @ [esr] \<and>
        dict_get (ev_payload ev) ''status'' = Some (PStr ''success'')) \<or>
     (\<exists>reason. answer = Inl (EnrollmentSecretVerificationFailed reason) \<and>
        db' = db \<and> is_valid now sn udid mbu es = (False, Some reason) \<and>
        dict_get (ev_payload ev) ''status'' = Some (PStr ''failure'') \<and>
        dict_get (ev_payload ev) ''reason'' = Some (PStr reason)))"
proof -
  have inv: "enrollment_inv db" by (rule enrollment_reachable_inv [OF assms(1)])
  note link = enrollment_of_in [OF assms(3)]
  note known = verify_known_extra [OF inv assms(2), of en model "\<lambda>_ _. True" now ua ip_addr sn udid mbu,
      simplified link simp_thms, simplified]
  obtain v m where v: "is_valid now sn udid mbu es = (v, m)" by fastforce
  show ?thesis
  proof (cases v)
    case False
    with v obtain reason where m: "m = Some reason" by (auto simp: is_valid_def Let_def)
    show ?thesis
      using v False assms(3,4)
      by (simp add: verify_enrollment_secret_def known m Let_def verification_event_def
          enrollment_serialize_get)
  next
    case True
    with v have ok: "is_valid now sn udid mbu es = (True, None)" by (simp add: is_valid_iff)
    define es' where "es' = es\<lparr>es_request_count := es_request_count es + 1\<rparr>"
    let ?rows = "update_where (\<lambda>s. es_pk s = es_pk es) (\<lambda>_. es') (enrollment_secrets db)"
    have pk: "es_pk es' = es_pk es" by (simp add: es'_def)
    have "distinct (map es_pk ?rows)"
      using inv map_update_pk [of es_pk es' "enrollment_secrets db"]
      by (simp add: enrollment_inv_def pk)
    moreover have "es' \<in> set ?rows" using assms(2) by (auto simp: set_update_where)
    ultimately have "get_one (\<lambda>s. es_pk s = es_pk es') ?rows = Inr es'" by (rule get_one_pk)
    moreover have "enrollment_of model es' (db\<lparr>enrollment_requests := r, enrollment_secrets := ss\<rparr>) = Inr en"
      for r ss using assms(3) by (simp add: enrollment_of_def es'_def)
    ultimately show ?thesis
      using ok assms(4) unfolding is_valid_iff
      by (simp add: verify_enrollment_secret_def known ok Let_def verification_event_def
          enrollment_serialize_get es'_def [symmetric] requests_of_def pk)
  qed
qed

theorem verification_decides_witness:
  "\<exists>esr ev db'. verify_enrollment_secret 50 ''u1'' (\<lambda>_. []) ''santa_enrollment'' ''s3cr3t'' ''Zentral''
     ''1.2.3.4'' (Some ''SN1'') None None (\<lambda>_ _. True) sample_enrollment_db = (Inr esr, [ev], db') \<and>
     requests_of 1 db' = [esr]"
proof -
  have es: "sample_secret \<in> set (enrollment_secrets sample_enrollment_db)"
    and en: "enrollment_of ''santa_enrollment'' sample_secret sample_enrollment_db = Inr sample_enrollment"
      "enr_distributor sample_enrollment = None"
    by (simp_all add: sample_enrollment_db_def enrollment_of_def sample_secret_def
        sample_enrollment_def get_one_def)
  have "is_valid 50 (Some ''SN1'') None None sample_secret = (True, None)"
    by (simp add: is_valid_def is_revoked_def is_expired_def restricted_def is_used_up_def
        sample_secret_def)
  moreover have "requests_of (es_pk sample_secret) sample_enrollment_db = []" "es_pk sample_secret = 1"
    "es_secret sample_secret = ''s3cr3t''"
    by (simp_all add: requests_of_def sample_enrollment_db_def sample_secret_def)
  ultimately show ?thesis
    using verification_decides [OF sample_enrollment_db_reachable es en, where now = 50
        and new_uuid = "''u1''" and mbu_serialize = "\<lambda>_. []" and ua = "''Zentral''"
        and ip_addr = "''1.2.3.4''" and sn = "Some ''SN1''" and udid = None and mbu = None]
    by auto
qed

end
