(* ===== verification/MdmModels.thy ===== *)
theory MdmModels imports EnrollmentSecrets begin

text \<open>
  The enrollment models of \<open>zentral/contrib/mdm/models.py\<close>: channels and platforms, push
  certificates, blueprints, enrolled devices and users, and the OTA, DEP and user enrollments
  with their sessions. A row that another row refers to by a foreign key is given by its
  primary key, except where a method reads it: then it is an argument of the method.
\<close>

subsection \<open>Devices and users\<close>

datatype channel = DeviceChannel | UserChannel

fun channel_str :: "channel \<Rightarrow> string" where
  "channel_str DeviceChannel = ''Device''"
| "channel_str UserChannel = ''User''"

datatype platform = iOS | iPadOS | macOS | tvOS

fun platform_str :: "platform \<Rightarrow> string" where
  "platform_str iOS = ''iOS''"
| "platform_str iPadOS = ''iPadOS''"
| "platform_str macOS = ''macOS''"
| "platform_str tvOS = ''tvOS''"

definition all_platforms :: "platform list" where
  "all_platforms = [iOS, iPadOS, macOS, tvOS]"

definition platform_choices :: "(string \<times> string) list" where
  "platform_choices = map (\<lambda>p. (platform_str p, platform_str p)) all_platforms"

definition platform_all_values :: "string list" where
  "platform_all_values = map platform_str all_platforms"

record push_certificate =
  pc_pk :: nat
  pc_topic :: string
  pc_not_before :: int
  pc_not_after :: int

record blueprint =
  bp_pk :: nat
  bp_activation :: dict
  bp_declaration_items :: dict

text \<open>\<open>declarations_token\<close>: \<open>parse_uuid\<close> is the constructor of \<open>uuid.UUID\<close>.\<close>

definition declarations_token :: "(string \<Rightarrow> 'u option) \<Rightarrow> blueprint \<Rightarrow> pyerror + 'u" where
  "declarations_token parse_uuid bp =
     (case dict_get (bp_declaration_items bp) ''DeclarationsToken'' of
        None \<Rightarrow> Inl (KeyError ''DeclarationsToken'')
      | Some (PStr s) \<Rightarrow> (case parse_uuid s of None \<Rightarrow> Inl ValueError | Some u \<Rightarrow> Inr u)
      | Some _ \<Rightarrow> Inl AttributeError)"

record enrolled_device =
  ed_pk :: nat
  ed_udid :: string
  ed_enrollment_id :: "string option"
  ed_serial_number :: string
  ed_platform :: platform
  ed_push_certificate :: "push_certificate option"
  ed_token :: "string option"
  ed_push_magic :: "string option"
  ed_unlock_token :: "string option"
  ed_bootstrap_token :: "string option"
  ed_cert_fingerprint :: "string option"
  ed_cert_not_valid_after :: "int option"
  ed_blueprint :: "nat option"
  ed_awaiting_configuration :: "bool option"
  ed_declarative_management :: bool
  ed_declarations_token :: "string option"
  ed_checkout_at :: "int option"

record enrolled_user =
  eu_pk :: nat
  eu_enrolled_device :: nat
  eu_user_id :: string
  eu_enrollment_id :: "string option"
  eu_long_name :: string
  eu_short_name :: string
  eu_token :: string

definition enrolled_user_str :: "enrolled_user \<Rightarrow> string" where
  "enrolled_user_str u = (if eu_long_name u \<noteq> [] then eu_long_name u else eu_short_name u)"

text \<open>
  The tables \<open>purge_state\<close> empties, as pairs of a primary key and the device it belongs to: the
  device commands, the installed artifacts and the users.
\<close>

record device_db =
  devices :: "enrolled_device list"
  device_commands_of :: "(string \<times> nat) list"
  installed_artifacts_of :: "(nat \<times> nat) list"
  enrolled_users :: "enrolled_user list"

definition save_device :: "enrolled_device \<Rightarrow> device_db \<Rightarrow> device_db" where
  "save_device d db = db\<lparr>devices := update_where (\<lambda>x. ed_pk x = ed_pk d) (\<lambda>_. d) (devices db)\<rparr>"

definition purge_state :: "enrolled_device \<Rightarrow> device_db \<Rightarrow> enrolled_device \<times> device_db" where
  "purge_state d db =
     (let d' = d\<lparr>ed_declarative_management := False\<rparr>; db1 = save_device d' db in
      (d', db1\<lparr>device_commands_of := filter (\<lambda>(_, dev). dev \<noteq> ed_pk d) (device_commands_of db1),
              installed_artifacts_of := filter (\<lambda>(_, dev). dev \<noteq> ed_pk d) (installed_artifacts_of db1),
              enrolled_users := filter (\<lambda>u. eu_enrolled_device u \<noteq> ed_pk d) (enrolled_users db1)\<rparr>))"

definition do_checkout :: "int \<Rightarrow> enrolled_device \<Rightarrow> device_db \<Rightarrow> enrolled_device \<times> device_db" where
  "do_checkout now d db =
     (let d1 = d\<lparr>ed_token := None, ed_push_magic := None, ed_unlock_token := None,
                ed_bootstrap_token := None, ed_checkout_at := Some now\<rparr>
      in case purge_state d1 db of (d2, db1) \<Rightarrow> (d2, save_device d2 db1))"

definition can_be_poked :: "int \<Rightarrow> enrolled_device \<Rightarrow> bool" where
  "can_be_poked now d \<longleftrightarrow>
     ed_checkout_at d = None \<and>
     (case ed_push_certificate d of
        None \<Rightarrow> False
      | Some c \<Rightarrow> pc_not_before c < now \<and> now < pc_not_after c) \<and>
     ed_token d \<noteq> None \<and> ed_push_magic d \<noteq> None"

subsection \<open>Enrollments\<close>

record realm_user =
  ru_pk :: string
  ru_username :: string
  ru_email :: string
  ru_first_name :: string
  ru_last_name :: string
  ru_full_name :: string
  ru_password_hash :: "dict option"
  ru_realm_pk :: string
  ru_realm_name :: string

definition get_full_name :: "realm_user \<Rightarrow> string" where
  "get_full_name u =
     (if ru_full_name u \<noteq> [] then ru_full_name u
      else (let full_name = join_with '' '' (filter (\<lambda>s. s \<noteq> []) [ru_first_name u, ru_last_name u])
            in if full_name \<noteq> [] then full_name else ru_username u))"

definition device_username :: "realm_user \<Rightarrow> string" where
  "device_username u = replace_all ''.'' '''' (hd (split_on CHR ''@'' (ru_username u)))"

definition email_prefix :: "realm_user \<Rightarrow> string" where
  "email_prefix u = strip (hd (split_on CHR ''@'' (ru_email u)))"

text \<open>The fields common to the OTA and the user enrollments.\<close>

record mdm_enrollment =
  me_pk :: nat
  me_name :: string
  me_secret :: nat
  me_push_certificate :: nat
  me_blueprint :: "nat option"
  me_realm :: "nat option"
  me_created_at :: int
  me_updated_at :: int

definition mdm_enrollment_serialize_for_event ::
  "string \<Rightarrow> int \<Rightarrow> (nat \<Rightarrow> dict) \<Rightarrow> enrollment_secret \<Rightarrow> mdm_enrollment \<Rightarrow> dict" where
  "mdm_enrollment_serialize_for_event key now mbu_serialize es e =
     [(key, PDict (dict_update
        [(''pk'', PInt (int (me_pk e))), (''name'', PStr (me_name e)),
         (''created_at'', PTime (me_created_at e)), (''updated_at'', PTime (me_updated_at e))]
        (enrollment_secret_serialize_for_event now mbu_serialize es)))]"

definition ota_enrollment_serialize_for_event ::
  "int \<Rightarrow> (nat \<Rightarrow> dict) \<Rightarrow> enrollment_secret \<Rightarrow> mdm_enrollment \<Rightarrow> dict" where
  "ota_enrollment_serialize_for_event = mdm_enrollment_serialize_for_event ''ota_enrollment''"

definition user_enrollment_serialize_for_event ::
  "int \<Rightarrow> (nat \<Rightarrow> dict) \<Rightarrow> enrollment_secret \<Rightarrow> mdm_enrollment \<Rightarrow> dict" where
  "user_enrollment_serialize_for_event = mdm_enrollment_serialize_for_event ''user_enrollment''"

text \<open>\<open>revoke\<close> saves the secret and the enrollment, once.\<close>

definition mdm_enrollment_revoke :: "int \<Rightarrow> enrollment_secret \<Rightarrow> enrollment_secret" where
  "mdm_enrollment_revoke now es =
     (if es_revoked_at es = None then es\<lparr>es_revoked_at := Some now\<rparr> else es)"

text \<open>
  A DEP enrollment; the standard DEP profile fields are those \<open>serialize_dep_profile\<close> reads.
\<close>

record dep_enrollment =
  de_uuid :: string
  de_virtual_server :: nat
  de_push_certificate :: "nat option"
  de_blueprint :: "nat option"
  de_secret :: nat
  de_realm :: "nat option"
  de_use_realm_user :: bool
  de_realm_user_is_admin :: bool
  de_admin_full_name :: "string option"
  de_admin_short_name :: "string option"
  de_admin_password_hash :: "dict option"
  de_name :: string
  de_allow_pairing :: bool
  de_auto_advance_setup :: bool
  de_await_device_configured :: bool
  de_department :: string
  de_is_mandatory :: bool
  de_is_mdm_removable :: bool
  de_is_multi_user :: bool
  de_is_supervised :: bool
  de_language :: string
  de_org_magic :: string
  de_region :: string
  de_skip_setup_items :: "string list"
  de_support_email_address :: string
  de_support_phone_number :: string
  de_include_tls_certificates :: bool

definition requires_account_configuration :: "dep_enrollment \<Rightarrow> bool" where
  "requires_account_configuration e \<longleftrightarrow>
     de_use_realm_user e \<or>
     (truthy_str (de_admin_full_name e) \<and> truthy_str (de_admin_short_name e) \<and>
      (case de_admin_password_hash e of None \<Rightarrow> False | Some h \<Rightarrow> h \<noteq> []))"

end
