(* ===== verification/MdmSessions.thy ===== *)
theory MdmSessions imports MdmModels begin

text \<open>
  The enrollment sessions of \<open>zentral/contrib/mdm/models.py\<close>: the status of an OTA, a DEP or a
  user session moves forward one stage at a time, each method testing the stage it starts from.
  A method that raises leaves the session as it was. The locale \<open>staged_session\<close> states what
  the three kinds have in common; it is interpreted on each of them.
\<close>

subsection \<open>The common base\<close>

record enrollment_session =
  ses_pk :: nat
  ses_realm_user :: "realm_user option"
  ses_enrolled_device :: "nat option"
  ses_secret :: nat

definition session_common_name :: "string \<Rightarrow> enrollment_secret \<Rightarrow> string" where
  "session_common_name cn_prefix es = cn_prefix @ ''$'' @ es_secret es"

definition session_organization :: "enrollment_secret \<Rightarrow> string" where
  "session_organization es = ''MBU$'' @ nat_str (es_meta_business_unit es)"

definition session_serial_number :: "enrollment_secret \<Rightarrow> string option" where
  "session_serial_number es = (case es_serial_numbers es of Some (sn # _) \<Rightarrow> Some sn | _ \<Rightarrow> None)"

definition session_payload_name :: "string \<Rightarrow> string" where
  "session_payload_name cn_prefix =
     ''Zentral - '' @ join_with '' - '' (split_on CHR ''$'' cn_prefix) @ '' Enrollment SCEP''"

text \<open>\<open>extra_dict\<close> is not used by the method.\<close>

definition session_serialize_for_event :: "string \<Rightarrow> string \<Rightarrow> enrollment_session \<Rightarrow> dict \<Rightarrow> dict" where
  "session_serialize_for_event status_str enrollment_session_type s extra_dict =
     [(''enrollment_session'', PDict
        [(''pk'', PInt (int (ses_pk s))), (''type'', PStr enrollment_session_type),
         (''status'', PStr status_str)])]"

definition set_next_status :: "bool \<Rightarrow> 's \<Rightarrow> pyerror + 's" where
  "set_next_status test s' = (if test then Inr s' else Inl EnrollmentSessionStatusError)"

subsection \<open>OTA sessions\<close>

datatype ota_status = PHASE_1 | PHASE_2 | PHASE_2_SCEP_VERIFIED | PHASE_3 | PHASE_3_SCEP_VERIFIED
  | OTA_AUTHENTICATED | OTA_COMPLETED

fun ota_status_str :: "ota_status \<Rightarrow> string" where
  "ota_status_str PHASE_1 = ''PHASE_1''"
| "ota_status_str PHASE_2 = ''PHASE_2''"
| "ota_status_str PHASE_2_SCEP_VERIFIED = ''PHASE_2_SCEP_VERIFIED''"
| "ota_status_str PHASE_3 = ''PHASE_3''"
| "ota_status_str PHASE_3_SCEP_VERIFIED = ''PHASE_3_SCEP_VERIFIED''"
| "ota_status_str OTA_AUTHENTICATED = ''AUTHENTICATED''"
| "ota_status_str OTA_COMPLETED = ''COMPLETED''"

record ota_session = enrollment_session +
  ota_st :: ota_status
  ota_enrollment_pk :: nat
  phase2_request :: "enrollment_secret_request option"
  phase2_scep_request :: "enrollment_secret_request option"
  phase3_scep_request :: "enrollment_secret_request option"

definition ota_get_prefix :: "ota_status \<Rightarrow> pyerror + string" where
  "ota_get_prefix st =
     (if st = PHASE_2 then Inr ''OTA'' else if st = PHASE_3 then Inr ''MDM$OTA'' else Inl ValueError)"

definition set_phase2_status ::
  "enrollment_secret_request option \<Rightarrow> string \<Rightarrow> string \<Rightarrow> ota_session \<Rightarrow> enrollment_secret \<Rightarrow>
   pyerror + ota_session \<times> enrollment_secret" where
  "set_phase2_status es_request serial_number udid s es =
     bind_result (set_next_status
       (serial_number \<noteq> [] \<and> udid \<noteq> [] \<and> ses_realm_user s \<noteq> None \<and> ota_st s = PHASE_1 \<and>
        phase2_request s = None \<and> phase2_scep_request s = None \<and> phase3_scep_request s = None \<and>
        ses_enrolled_device s = None)
       (s\<lparr>ota_st := PHASE_2, phase2_request := es_request\<rparr>))
     (\<lambda>s'. Inr (s', es\<lparr>es_serial_numbers := Some [serial_number], es_udids := Some [udid]\<rparr>))"

definition set_phase2_scep_verified_status ::
  "enrollment_secret_request option \<Rightarrow> ota_session \<Rightarrow> pyerror + ota_session" where
  "set_phase2_scep_verified_status es_request s =
     set_next_status
       (es_request \<noteq> None \<and> ota_st s = PHASE_2 \<and> phase2_scep_request s = None \<and>
        phase3_scep_request s = None \<and> ses_enrolled_device s = None)
       (s\<lparr>ota_st := PHASE_2_SCEP_VERIFIED, phase2_scep_request := es_request\<rparr>)"

definition set_phase3_status :: "ota_session \<Rightarrow> pyerror + ota_session" where
  "set_phase3_status s =
     set_next_status
       (ota_st s = PHASE_2_SCEP_VERIFIED \<and> phase2_scep_request s \<noteq> None \<and>
        phase3_scep_request s = None \<and> ses_enrolled_device s = None)
       (s\<lparr>ota_st := PHASE_3\<rparr>)"

definition set_phase3_scep_verified_status ::
  "enrollment_secret_request option \<Rightarrow> ota_session \<Rightarrow> pyerror + ota_session" where
  "set_phase3_scep_verified_status es_request s =
     set_next_status
       (es_request \<noteq> None \<and> ota_st s = PHASE_3 \<and> phase2_scep_request s \<noteq> None \<and>
        phase3_scep_request s = None \<and> ses_enrolled_device s = None)
       (s\<lparr>ota_st := PHASE_3_SCEP_VERIFIED, phase3_scep_request := es_request\<rparr>)"

definition ota_set_authenticated_status :: "nat option \<Rightarrow> ota_session \<Rightarrow> pyerror + ota_session" where
  "ota_set_authenticated_status enrolled_device s =
     set_next_status
       (enrolled_device \<noteq> None \<and> ota_st s = PHASE_3_SCEP_VERIFIED \<and> phase2_scep_request s \<noteq> None \<and>
        phase3_scep_request s \<noteq> None \<and> ses_enrolled_device s = None)
       (s\<lparr>ota_st := OTA_AUTHENTICATED, ses_enrolled_device := enrolled_device\<rparr>)"

definition ota_set_completed_status :: "nat option \<Rightarrow> ota_session \<Rightarrow> pyerror + ota_session" where
  "ota_set_completed_status enrolled_device s =
     set_next_status
       (enrolled_device \<noteq> None \<and> ota_st s = OTA_AUTHENTICATED \<and> phase2_scep_request s \<noteq> None \<and>
        phase3_scep_request s \<noteq> None \<and> ses_enrolled_device s = enrolled_device)
       (s\<lparr>ota_st := OTA_COMPLETED\<rparr>)"

subsection \<open>DEP sessions\<close>

datatype dep_status = DEP_STARTED | DEP_SCEP_VERIFIED | DEP_AUTHENTICATED | DEP_COMPLETED

fun dep_status_str :: "dep_status \<Rightarrow> string" where
  "dep_status_str DEP_STARTED = ''STARTED''"
| "dep_status_str DEP_SCEP_VERIFIED = ''SCEP_VERIFIED''"
| "dep_status_str DEP_AUTHENTICATED = ''AUTHENTICATED''"
| "dep_status_str DEP_COMPLETED = ''COMPLETED''"

record dep_session = enrollment_session +
  dep_st :: dep_status
  dep_enrollment_pk :: nat
  dep_scep_request :: "enrollment_secret_request option"

definition dep_get_prefix :: "dep_status \<Rightarrow> pyerror + string" where
  "dep_get_prefix st = (if st = DEP_STARTED then Inr ''MDM$DEP'' else Inl ValueError)"

definition dep_set_scep_verified_status ::
  "enrollment_secret_request option \<Rightarrow> dep_session \<Rightarrow> pyerror + dep_session" where
  "dep_set_scep_verified_status es_request s =
     set_next_status
       (es_request \<noteq> None \<and> dep_st s = DEP_STARTED \<and> dep_scep_request s = None \<and>
        ses_enrolled_device s = None)
       (s\<lparr>dep_st := DEP_SCEP_VERIFIED, dep_scep_request := es_request\<rparr>)"

definition dep_set_authenticated_status :: "nat option \<Rightarrow> dep_session \<Rightarrow> pyerror + dep_session" where
  "dep_set_authenticated_status enrolled_device s =
     set_next_status
       (enrolled_device \<noteq> None \<and> dep_st s = DEP_SCEP_VERIFIED \<and> dep_scep_request s \<noteq> None \<and>
        ses_enrolled_device s = None)
       (s\<lparr>dep_st := DEP_AUTHENTICATED, ses_enrolled_device := enrolled_device\<rparr>)"

definition dep_set_completed_status :: "nat option \<Rightarrow> dep_session \<Rightarrow> pyerror + dep_session" where
  "dep_set_completed_status enrolled_device s =
     set_next_status
       (enrolled_device \<noteq> None \<and> dep_st s = DEP_AUTHENTICATED \<and> dep_scep_request s \<noteq> None \<and>
        ses_enrolled_device s = enrolled_device)
       (s\<lparr>dep_st := DEP_COMPLETED\<rparr>)"

subsection \<open>User sessions\<close>

datatype user_status = ACCOUNT_DRIVEN_START | ACCOUNT_DRIVEN_AUTHENTICATED | USER_STARTED
  | USER_SCEP_VERIFIED | USER_AUTHENTICATED | USER_COMPLETED

fun user_status_str :: "user_status \<Rightarrow> string" where
  "user_status_str ACCOUNT_DRIVEN_START = ''ACCOUNT_DRIVEN_START''"
| "user_status_str ACCOUNT_DRIVEN_AUTHENTICATED = ''ACCOUNT_DRIVEN_AUTHENTICATED''"
| "user_status_str USER_STARTED = ''STARTED''"
| "user_status_str USER_SCEP_VERIFIED = ''SCEP_VERIFIED''"
| "user_status_str USER_AUTHENTICATED = ''AUTHENTICATED''"
| "user_status_str USER_COMPLETED = ''COMPLETED''"

record user_session = enrollment_session +
  user_st :: user_status
  user_enrollment_pk :: nat
  user_scep_request :: "enrollment_secret_request option"
  managed_apple_id :: "string option"
  access_token :: "string option"

definition user_get_prefix :: "user_status \<Rightarrow> pyerror + string" where
  "user_get_prefix st = (if st = USER_STARTED then Inr ''MDM$USER'' else Inl ValueError)"

text \<open>
  The keyword arguments are evaluated before the test is: without a realm user, \<open>realm_user.email\<close>
  raises first. \<open>random_token\<close> is the fresh random string.
\<close>

definition set_account_driven_authenticated_status ::
  "string \<Rightarrow> realm_user option \<Rightarrow> user_session \<Rightarrow> pyerror + user_session" where
  "set_account_driven_authenticated_status random_token ru s =
     (case ru of
        None \<Rightarrow> Inl AttributeError
      | Some u \<Rightarrow> set_next_status
          (ru_email u \<noteq> [] \<and> user_st s = ACCOUNT_DRIVEN_START)
          (s\<lparr>user_st := ACCOUNT_DRIVEN_AUTHENTICATED, ses_realm_user := Some u,
             managed_apple_id := Some (ru_email u), access_token := Some random_token\<rparr>))"

definition set_started_status :: "user_session \<Rightarrow> pyerror + user_session" where
  "set_started_status s =
     set_next_status
       (ses_realm_user s \<noteq> None \<and> truthy_str (managed_apple_id s) \<and> truthy_str (access_token s) \<and>
        user_st s = ACCOUNT_DRIVEN_AUTHENTICATED)
       (s\<lparr>user_st := USER_STARTED\<rparr>)"

definition user_set_scep_verified_status ::
  "enrollment_secret_request option \<Rightarrow> user_session \<Rightarrow> pyerror + user_session" where
  "user_set_scep_verified_status es_request s =
     set_next_status
       (es_request \<noteq> None \<and> user_st s = USER_STARTED \<and> user_scep_request s = None \<and>
        ses_enrolled_device s = None)
       (s\<lparr>user_st := USER_SCEP_VERIFIED, user_scep_request := es_request\<rparr>)"

definition user_set_authenticated_status :: "nat option \<Rightarrow> user_session \<Rightarrow> pyerror + user_session" where
  "user_set_authenticated_status enrolled_device s =
     set_next_status
       (enrolled_device \<noteq> None \<and> user_st s = USER_SCEP_VERIFIED \<and> user_scep_request s \<noteq> None \<and>
        ses_enrolled_device s = None)
       (s\<lparr>user_st := USER_AUTHENTICATED, ses_enrolled_device := enrolled_device\<rparr>)"

definition user_set_completed_status :: "nat option \<Rightarrow> user_session \<Rightarrow> pyerror + user_session" where
  "user_set_completed_status enrolled_device s =
     set_next_status
       (enrolled_device \<noteq> None \<and> user_st s = USER_AUTHENTICATED \<and> user_scep_request s \<noteq> None \<and>
        ses_enrolled_device s = enrolled_device)
       (s\<lparr>user_st := USER_COMPLETED\<rparr>)"

subsection \<open>Steps of a session\<close>

inductive ota_step :: "ota_session \<Rightarrow> ota_session \<Rightarrow> bool" where
  "set_phase2_status r sn udid s es = Inr (s', es') \<Longrightarrow> ota_step s s'"
| "set_phase2_scep_verified_status r s = Inr s' \<Longrightarrow> ota_step s s'"
| "set_phase3_status s = Inr s' \<Longrightarrow> ota_step s s'"
| "set_phase3_scep_verified_status r s = Inr s' \<Longrightarrow> ota_step s s'"
| "ota_set_authenticated_status d s = Inr s' \<Longrightarrow> ota_step s s'"
| "ota_set_completed_status d s = Inr s' \<Longrightarrow> ota_step s s'"

inductive dep_step :: "dep_session \<Rightarrow> dep_session \<Rightarrow> bool" where
  "dep_set_scep_verified_status r s = Inr s' \<Longrightarrow> dep_step s s'"
| "dep_set_authenticated_status d s = Inr s' \<Longrightarrow> dep_step s s'"
| "dep_set_completed_status d s = Inr s' \<Longrightarrow> dep_step s s'"

inductive user_step :: "user_session \<Rightarrow> user_session \<Rightarrow> bool" where
  "set_account_driven_authenticated_status t u s = Inr s' \<Longrightarrow> user_step s s'"
| "set_started_status s = Inr s' \<Longrightarrow> user_step s s'"
| "user_set_scep_verified_status r s = Inr s' \<Longrightarrow> user_step s s'"
| "user_set_authenticated_status d s = Inr s' \<Longrightarrow> user_step s s'"
| "user_set_completed_status d s = Inr s' \<Longrightarrow> user_step s s'"

text \<open>
  What the three kinds share: a step moves to the next stage, the stages end, and the device of a
  session is never replaced.
\<close>

locale staged_session =
  fixes stage :: "'s \<Rightarrow> nat" and last_stage :: nat and step :: "'s \<Rightarrow> 's \<Rightarrow> bool"
    and device :: "'s \<Rightarrow> nat option"
  assumes next_stage: "step s s' \<Longrightarrow> stage s' = Suc (stage s)"
    and bounded: "stage s \<le> last_stage"
    and device_kept: "step s s' \<Longrightarrow> device s = Some d \<Longrightarrow> device s' = Some d"
begin

lemma run_stage: "(step ^^ n) s s' \<Longrightarrow> stage s' = stage s + n"
  by (induction n arbitrary: s') (auto dest: next_stage)

lemma run_bounded: "(step ^^ n) s s' \<Longrightarrow> n \<le> last_stage - stage s"
  using run_stage bounded by (metis add_diff_cancel_left' diff_le_mono)

lemma no_cycle: "step\<^sup>+\<^sup>+ s s' \<Longrightarrow> stage s < stage s'"
  by (induction rule: tranclp.induct) (auto dest: next_stage)

lemma run_device: "step\<^sup>*\<^sup>* s s' \<Longrightarrow> device s = Some d \<Longrightarrow> device s' = Some d"
  by (induction rule: rtranclp.induct) (auto intro: device_kept)

lemma terminating: "wfP (\<lambda>s' s. step s s')"
proof (rule wfp_if_convertible_to_nat)
  show "last_stage - stage s' < last_stage - stage s" if "step s s'" for s s'
    using next_stage [OF that] bounded [of s'] by simp
qed

end

fun ota_stage :: "ota_status \<Rightarrow> nat" where
  "ota_stage PHASE_1 = 0"
| "ota_stage PHASE_2 = 1"
| "ota_stage PHASE_2_SCEP_VERIFIED = 2"
| "ota_stage PHASE_3 = 3"
| "ota_stage PHASE_3_SCEP_VERIFIED = 4"
| "ota_stage OTA_AUTHENTICATED = 5"
| "ota_stage OTA_COMPLETED = 6"

fun dep_stage :: "dep_status \<Rightarrow> nat" where
  "dep_stage DEP_STARTED = 0"
| "dep_stage DEP_SCEP_VERIFIED = 1"
| "dep_stage DEP_AUTHENTICATED = 2"
| "dep_stage DEP_COMPLETED = 3"

fun user_stage :: "user_status \<Rightarrow> nat" where
  "user_stage ACCOUNT_DRIVEN_START = 0"
| "user_stage ACCOUNT_DRIVEN_AUTHENTICATED = 1"
| "user_stage USER_STARTED = 2"
| "user_stage USER_SCEP_VERIFIED = 3"
| "user_stage USER_AUTHENTICATED = 4"
| "user_stage USER_COMPLETED = 5"

lemmas ota_methods = set_phase2_status_def set_phase2_scep_verified_status_def set_phase3_status_def
  set_phase3_scep_verified_status_def ota_set_authenticated_status_def ota_set_completed_status_def
  set_next_status_def

lemmas dep_methods = dep_set_scep_verified_status_def dep_set_authenticated_status_def
  dep_set_completed_status_def set_next_status_def

lemmas user_methods = set_account_driven_authenticated_status_def set_started_status_def
  user_set_scep_verified_status_def user_set_authenticated_status_def
  user_set_completed_status_def set_next_status_def

inductive_cases ota_stepE: "ota_step s s'"
inductive_cases dep_stepE: "dep_step s s'"
inductive_cases user_stepE: "user_step s s'"

interpretation ota: staged_session "\<lambda>s. ota_stage (ota_st s)" 6 ota_step ses_enrolled_device
proof
  show "ota_stage (ota_st s') = Suc (ota_stage (ota_st s))" if "ota_step s s'" for s s'
    using that by (cases rule: ota_step.cases) (auto simp: ota_methods split: if_splits)
  show "ota_stage (ota_st s) \<le> 6" for s :: ota_session by (cases "ota_st s") simp_all
  show "ses_enrolled_device s' = Some d" if "ota_step s s'" "ses_enrolled_device s = Some d" for s s' d
    using that by (cases rule: ota_step.cases) (auto simp: ota_methods split: if_splits)
qed

interpretation dep: staged_session "\<lambda>s. dep_stage (dep_st s)" 3 dep_step ses_enrolled_device
proof
  show "dep_stage (dep_st s') = Suc (dep_stage (dep_st s))" if "dep_step s s'" for s s'
    using that by (cases rule: dep_step.cases) (auto simp: dep_methods split: if_splits)
  show "dep_stage (dep_st s) \<le> 3" for s :: dep_session by (cases "dep_st s") simp_all
  show "ses_enrolled_device s' = Some d" if "dep_step s s'" "ses_enrolled_device s = Some d" for s s' d
    using that by (cases rule: dep_step.cases) (auto simp: dep_methods split: if_splits)
qed

interpretation user: staged_session "\<lambda>s. user_stage (user_st s)" 5 user_step ses_enrolled_device
proof
  show "user_stage (user_st s') = Suc (user_stage (user_st s))" if "user_step s s'" for s s'
    using that by (cases rule: user_step.cases) (auto simp: user_methods split: if_splits option.splits)
  show "user_stage (user_st s) \<le> 5" for s :: user_session by (cases "user_st s") simp_all
  show "ses_enrolled_device s' = Some d" if "user_step s s'" "ses_enrolled_device s = Some d" for s s' d
    using that by (cases rule: user_step.cases) (auto simp: user_methods split: if_splits option.splits)
qed

subsection \<open>Reachable sessions\<close>

text \<open>A request and a device are recorded exactly at the stage that needs them.\<close>

definition ota_wf :: "ota_session \<Rightarrow> bool" where
  "ota_wf s \<longleftrightarrow>
     (phase2_scep_request s \<noteq> None \<longleftrightarrow> 2 \<le> ota_stage (ota_st s)) \<and>
     (phase3_scep_request s \<noteq> None \<longleftrightarrow> 4 \<le> ota_stage (ota_st s)) \<and>
     (ses_enrolled_device s \<noteq> None \<longleftrightarrow> 5 \<le> ota_stage (ota_st s)) \<and>
     (ota_st s = PHASE_1 \<longrightarrow> ses_realm_user s \<noteq> None \<and> phase2_request s = None)"

definition dep_wf :: "dep_session \<Rightarrow> bool" where
  "dep_wf s \<longleftrightarrow>
     (dep_scep_request s \<noteq> None \<longleftrightarrow> 1 \<le> dep_stage (dep_st s)) \<and>
     (ses_enrolled_device s \<noteq> None \<longleftrightarrow> 2 \<le> dep_stage (dep_st s))"

definition user_wf :: "user_session \<Rightarrow> bool" where
  "user_wf s \<longleftrightarrow>
     (user_scep_request s \<noteq> None \<longleftrightarrow> 3 \<le> user_stage (user_st s)) \<and>
     (ses_enrolled_device s \<noteq> None \<longleftrightarrow> 4 \<le> user_stage (user_st s)) \<and>
     (user_st s = ACCOUNT_DRIVEN_AUTHENTICATED \<longrightarrow>
        ses_realm_user s \<noteq> None \<and> truthy_str (managed_apple_id s) \<and> truthy_str (access_token s))"

lemma ota_wf_step: "ota_step s s' \<Longrightarrow> ota_wf s \<Longrightarrow> ota_wf s'"
  by (cases rule: ota_step.cases; simp add: ota_methods split: if_splits; clarify;
      simp add: ota_wf_def)

lemma ota_wf_run: "ota_step\<^sup>*\<^sup>* s s' \<Longrightarrow> ota_wf s \<Longrightarrow> ota_wf s'"
  by (induction rule: rtranclp.induct) (auto intro: ota_wf_step)

lemma dep_wf_step: "dep_step s s' \<Longrightarrow> dep_wf s \<Longrightarrow> dep_wf s'"
  by (cases rule: dep_step.cases) (auto simp: dep_methods dep_wf_def split: if_splits)

lemma dep_wf_run: "dep_step\<^sup>*\<^sup>* s s' \<Longrightarrow> dep_wf s \<Longrightarrow> dep_wf s'"
  by (induction rule: rtranclp.induct) (auto intro: dep_wf_step)

lemma ota_wf_next:
  assumes "ota_wf s" "ota_st s \<noteq> OTA_COMPLETED"
  shows "\<exists>s'. ota_step s s'"
proof (cases "ota_st s")
  case PHASE_1
  then have "\<exists>s' es'. set_phase2_status None ''S'' ''U'' s es = Inr (s', es')" for es
    using assms by (simp add: set_phase2_status_def set_next_status_def ota_wf_def)
  then show ?thesis by (blast intro: ota_step.intros)
next
  case PHASE_2
  then have "\<exists>s'. set_phase2_scep_verified_status
      (Some \<lparr>esr_enrollment_secret = 0, esr_user_agent = [], esr_public_ip_address = [],
             esr_serial_number = None, esr_udid = None\<rparr>) s = Inr s'"
    using assms by (simp add: set_phase2_scep_verified_status_def set_next_status_def ota_wf_def)
  then show ?thesis by (blast intro: ota_step.intros)
next
  case PHASE_2_SCEP_VERIFIED
  then have "\<exists>s'. set_phase3_status s = Inr s'"
    using assms by (simp add: set_phase3_status_def set_next_status_def ota_wf_def)
  then show ?thesis by (blast intro: ota_step.intros)
next
  case PHASE_3
  then have "\<exists>s'. set_phase3_scep_verified_status (phase2_scep_request s) s = Inr s'"
    using assms by (simp add: set_phase3_scep_verified_status_def set_next_status_def ota_wf_def)
  then show ?thesis by (blast intro: ota_step.intros)
next
  case PHASE_3_SCEP_VERIFIED
  then have "\<exists>s'. ota_set_authenticated_status (Some 0) s = Inr s'"
    using assms by (simp add: ota_set_authenticated_status_def set_next_status_def ota_wf_def)
  then show ?thesis by (blast intro: ota_step.intros)
next
  case OTA_AUTHENTICATED
  then have "\<exists>s'. ota_set_completed_status (ses_enrolled_device s) s = Inr s'"
    using assms by (simp add: ota_set_completed_status_def set_next_status_def ota_wf_def)
  then show ?thesis by (blast intro: ota_step.intros)
next
  case OTA_COMPLETED
  then show ?thesis using assms by simp
qed

lemma ota_completed_final: "ota_st s = OTA_COMPLETED \<Longrightarrow> \<not> ota_step s s'"
  by (auto elim!: ota_stepE simp: ota_methods split: if_splits)

subsection \<open>Properties of the sessions\<close>


definition sample_ota_session :: ota_session where
  "sample_ota_session =
     \<lparr>ses_pk = 1, ses_realm_user = Some \<lparr>ru_pk = ''r'', ru_username = ''u'', ru_email = ''e'', ru_first_name = [],
        ru_last_name = [], ru_full_name = [], ru_password_hash = None, ru_realm_pk = ''p'', ru_realm_name = ''n''\<rparr>,
      ses_enrolled_device = None, ses_secret = 1, ota_st = PHASE_1, ota_enrollment_pk = 1,
      phase2_request = None, phase2_scep_request = None, phase3_scep_request = None\<rparr>"


text \<open>
  a DEP session completes only through the verification of its certificate request and the
  authentication of its device, in this order, and completes for the device it authenticated.
\<close>

theorem dep_session_completes_in_order:
  assumes "dep_st s = DEP_STARTED" "dep_scep_request s = None" "ses_enrolled_device s = None"
    and "dep_step\<^sup>*\<^sup>* s s'" "dep_st s' = DEP_COMPLETED"
  shows "\<exists>s1 s2 r d.
    dep_set_scep_verified_status (Some r) s = Inr s1 \<and>
    dep_set_authenticated_status (Some d) s1 = Inr s2 \<and>
    dep_set_completed_status (Some d) s2 = Inr s' \<and>
    dep_scep_request s' = Some r \<and> ses_enrolled_device s' = Some d"
proof -
  obtain n where n: "(dep_step ^^ n) s s'" using assms(4) by (auto dest: rtranclp_imp_relpowp)
  then have "n = 3" using dep.run_stage [OF n] assms(1,5) by simp
  then have "(dep_step ^^ Suc (Suc (Suc 0))) s s'" using n by (simp add: eval_nat_numeral)
  then obtain s1 s2 where steps: "dep_step s s1" "dep_step s1 s2" "dep_step s2 s'"
    by (auto simp: OO_def)
  then have st: "dep_stage (dep_st s1) = 1" "dep_stage (dep_st s2) = 2"
    using dep.next_stage assms(1) by fastforce+
  obtain r where r: "dep_set_scep_verified_status (Some r) s = Inr s1" "dep_scep_request s1 = Some r"
    using steps(1) assms(1) by (auto elim!: dep_stepE simp: dep_methods split: if_splits)
  obtain d where d: "dep_set_authenticated_status (Some d) s1 = Inr s2" "ses_enrolled_device s2 = Some d"
      "dep_scep_request s2 = dep_scep_request s1"
    using steps(2) st(1) by (auto elim!: dep_stepE simp: dep_methods split: if_splits)
  have "dep_set_completed_status (Some d) s2 = Inr s'" "ses_enrolled_device s' = Some d"
      "dep_scep_request s' = dep_scep_request s2"
    using steps(3) st(2) d(2) by (auto elim!: dep_stepE simp: dep_methods split: if_splits)
  with r d show ?thesis by (intro exI [of _ s1] exI [of _ s2] exI [of _ r] exI [of _ d]) simp
qed


definition sample_dep_session :: dep_session where
  "sample_dep_session =
     \<lparr>ses_pk = 1, ses_realm_user = None, ses_enrolled_device = None, ses_secret = 1,
      dep_st = DEP_STARTED, dep_enrollment_pk = 1, dep_scep_request = None\<rparr>"

definition sample_request :: enrollment_secret_request where
  "sample_request = \<lparr>esr_enrollment_secret = 1, esr_user_agent = [], esr_public_ip_address = [],
     esr_serial_number = None, esr_udid = None\<rparr>"

theorem dep_session_completes_in_order_witness:
  "\<exists>s1 s2 r d s'.
    dep_set_scep_verified_status (Some r) sample_dep_session = Inr s1 \<and>
    dep_set_authenticated_status (Some d) s1 = Inr s2 \<and>
    dep_set_completed_status (Some d) s2 = Inr s' \<and> ses_enrolled_device s' = Some d"
proof -
  define s1 where "s1 = sample_dep_session\<lparr>dep_st := DEP_SCEP_VERIFIED, dep_scep_request := Some sample_request\<rparr>"
  define s2 where "s2 = s1\<lparr>dep_st := DEP_AUTHENTICATED, ses_enrolled_device := Some 7\<rparr>"
  define s3 where "s3 = s2\<lparr>dep_st := DEP_COMPLETED\<rparr>"
  have "dep_set_scep_verified_status (Some sample_request) sample_dep_session = Inr s1"
    "dep_set_authenticated_status (Some 7) s1 = Inr s2" "dep_set_completed_status (Some 7) s2 = Inr s3"
    by (simp_all add: dep_methods s1_def s2_def s3_def sample_dep_session_def)
  then have steps: "dep_step sample_dep_session s1" "dep_step s1 s2" "dep_step s2 s3"
    by (auto intro: dep_step.intros)
  have run: "dep_step\<^sup>*\<^sup>* sample_dep_session s3"
    using steps by (auto intro: converse_rtranclp_into_rtranclp)
  have "dep_st sample_dep_session = DEP_STARTED" "dep_scep_request sample_dep_session = None"
    "ses_enrolled_device sample_dep_session = None" "dep_st s3 = DEP_COMPLETED"
    by (simp_all add: sample_dep_session_def s3_def)
  from dep_session_completes_in_order [OF this(1-3) run this(4)] show ?thesis by blast
qed

end
