(* ===== verification/MdmEnroll.thy ===== *)
theory MdmEnroll imports MdmSessions begin

text \<open>
  The enrollment requests of an MDM client: the OTA view (\<open>zentral/contrib/mdm/views/ota.py\<close>), the
  DEP and user views (\<open>views/dep.py\<close>, \<open>views/user.py\<close>) and the verification of the certificate
  request of a session (\<open>views/scep.py\<close>, \<open>zentral/utils/api_views.py\<close>). Every request is one
  database transaction: a handler that raises leaves the tables as they were. Signatures and
  certificates are checked outside this model: a handler starts from the payload and the
  certificate names they guarantee.
\<close>

record session_db =
  sd_secrets :: enrollment_db
  sd_ota_enrollments :: "mdm_enrollment list"
  sd_dep_enrollments :: "dep_enrollment list"
  sd_user_enrollments :: "mdm_enrollment list"
  sd_ota_sessions :: "ota_session list"
  sd_dep_sessions :: "dep_session list"
  sd_user_sessions :: "user_session list"

definition secret_by_pk :: "nat \<Rightarrow> session_db \<Rightarrow> pyerror + enrollment_secret" where
  "secret_by_pk pk db = get_one (\<lambda>es. es_pk es = pk) (enrollment_secrets (sd_secrets db))"

text \<open>
  A new secret with the business unit and the tags of another one, and the reverse relation of
  the session it belongs to. \<open>random_secret\<close> is the fresh random string.
\<close>

definition add_session_secret ::
  "string \<Rightarrow> int \<Rightarrow> string \<Rightarrow> nat \<Rightarrow> enrollment_secret \<Rightarrow> string list option \<Rightarrow> string list option \<Rightarrow> int \<Rightarrow>
   int option \<Rightarrow> session_db \<Rightarrow> enrollment_secret \<times> session_db" where
  "add_session_secret random_secret now model ses es sns udids quota expired_at db =
     (let edb = sd_secrets db;
          new_es = \<lparr>es_pk = fresh_pk (map es_pk (enrollment_secrets edb)), es_secret = random_secret,
                    es_meta_business_unit = es_meta_business_unit es, es_tags = es_tags es,
                    es_serial_numbers = sns, es_udids = udids, es_quota = Some quota,
                    es_request_count = 0, es_revoked_at = None, es_expired_at = expired_at,
                    es_created_at = now\<rparr>;
          link = \<lparr>enr_pk = ses, enr_model = model, enr_secret = es_pk new_es, enr_version = 1,
                  enr_distributor = None, enr_created_at = now\<rparr>
      in (new_es, db\<lparr>sd_secrets := edb\<lparr>enrollment_secrets := enrollment_secrets edb @ [new_es],
                                      enrollments := enrollments edb @ [link]\<rparr>\<rparr>))"

subsection \<open>Creating the sessions\<close>

definition create_from_realm_user ::
  "string \<Rightarrow> int \<Rightarrow> mdm_enrollment \<Rightarrow> realm_user \<Rightarrow> session_db \<Rightarrow> pyerror + ota_session \<times> session_db" where
  "create_from_realm_user random_secret now e u db =
     bind_result (secret_by_pk (me_secret e) db) (\<lambda>es.
       (let pk = fresh_pk (map ses_pk (sd_ota_sessions db)) in
        case add_session_secret random_secret now ''ota_enrollment_session'' pk es None None 3
               (es_expired_at es) db of
          (new_es, db1) \<Rightarrow>
            (let s = \<lparr>ses_pk = pk, ses_realm_user = Some u, ses_enrolled_device = None,
                      ses_secret = es_pk new_es, ota_st = PHASE_1, ota_enrollment_pk = me_pk e,
                      phase2_request = None, phase2_scep_request = None, phase3_scep_request = None\<rparr>
             in Inr (s, db1\<lparr>sd_ota_sessions := sd_ota_sessions db1 @ [s]\<rparr>))))"

definition create_from_machine_info ::
  "string \<Rightarrow> int \<Rightarrow> mdm_enrollment \<Rightarrow> string \<Rightarrow> string \<Rightarrow> session_db \<Rightarrow>
   pyerror + ota_session \<times> session_db" where
  "create_from_machine_info random_secret now e serial_number udid db =
     bind_result (secret_by_pk (me_secret e) db) (\<lambda>es.
       (let pk = fresh_pk (map ses_pk (sd_ota_sessions db)) in
        case add_session_secret random_secret now ''ota_enrollment_session'' pk es
               (Some [serial_number]) (Some [udid]) 2 (es_expired_at es) db of
          (new_es, db1) \<Rightarrow>
            (let s = \<lparr>ses_pk = pk, ses_realm_user = None, ses_enrolled_device = None,
                      ses_secret = es_pk new_es, ota_st = PHASE_2, ota_enrollment_pk = me_pk e,
                      phase2_request = None, phase2_scep_request = None, phase3_scep_request = None\<rparr>
             in Inr (s, db1\<lparr>sd_ota_sessions := sd_ota_sessions db1 @ [s]\<rparr>))))"

text \<open>The session secret of a DEP enrollment expires after one hour and is used once.\<close>

definition create_from_dep_enrollment ::
  "string \<Rightarrow> int \<Rightarrow> dep_enrollment \<Rightarrow> nat \<Rightarrow> string \<Rightarrow> string \<Rightarrow> realm_user option \<Rightarrow> session_db \<Rightarrow>
   pyerror + dep_session \<times> session_db" where
  "create_from_dep_enrollment random_secret now e e_pk serial_number udid u db =
     bind_result (secret_by_pk (de_secret e) db) (\<lambda>es.
       (let pk = fresh_pk (map ses_pk (sd_dep_sessions db)) in
        case add_session_secret random_secret now ''dep_enrollment_session'' pk es
               (Some [serial_number]) (Some [udid]) 1 (Some (now + 3600)) db of
          (new_es, db1) \<Rightarrow>
            (let s = \<lparr>ses_pk = pk, ses_realm_user = u, ses_enrolled_device = None,
                      ses_secret = es_pk new_es, dep_st = DEP_STARTED, dep_enrollment_pk = e_pk,
                      dep_scep_request = None\<rparr>
             in Inr (s, db1\<lparr>sd_dep_sessions := sd_dep_sessions db1 @ [s]\<rparr>))))"

definition create_from_user_enrollment ::
  "string \<Rightarrow> int \<Rightarrow> mdm_enrollment \<Rightarrow> string option \<Rightarrow> session_db \<Rightarrow>
   pyerror + user_session \<times> session_db" where
  "create_from_user_enrollment random_secret now e apple_id db =
     bind_result (secret_by_pk (me_secret e) db) (\<lambda>es.
       (let pk = fresh_pk (map ses_pk (sd_user_sessions db));
            (status, quota) = (if truthy_str apple_id then (USER_STARTED, 1)
                               else (ACCOUNT_DRIVEN_START, 10)) in
        case add_session_secret random_secret now ''user_enrollment_session'' pk es None None quota
               (es_expired_at es) db of
          (new_es, db1) \<Rightarrow>
            (let s = \<lparr>ses_pk = pk, ses_realm_user = None, ses_enrolled_device = None,
                      ses_secret = es_pk new_es, user_st = status, user_enrollment_pk = me_pk e,
                      user_scep_request = None, managed_apple_id = apple_id, access_token = None\<rparr>
             in Inr (s, db1\<lparr>sd_user_sessions := sd_user_sessions db1 @ [s]\<rparr>))))"

subsection \<open>The certificate request of a session\<close>

datatype session_kind = OTA_PHASE_2 | OTA_PHASE_3 | DEP_KIND | USER_KIND

definition kind_model :: "session_kind \<Rightarrow> string" where
  "kind_model k = (case k of
     OTA_PHASE_2 \<Rightarrow> ''ota_enrollment_session'' | OTA_PHASE_3 \<Rightarrow> ''ota_enrollment_session''
   | DEP_KIND \<Rightarrow> ''dep_enrollment_session'' | USER_KIND \<Rightarrow> ''user_enrollment_session'')"

definition get_enrollment_session_info :: "string \<Rightarrow> session_kind option" where
  "get_enrollment_session_info cn_prefix =
     (if cn_prefix = ''OTA'' then Some OTA_PHASE_2
      else if cn_prefix = ''MDM$OTA'' then Some OTA_PHASE_3
      else if cn_prefix = ''MDM$DEP'' then Some DEP_KIND
      else if cn_prefix = ''MDM$USER'' then Some USER_KIND
      else None)"

text \<open>\<open>s.rsplit("$", 1)\<close>, when it has two parts.\<close>

definition rsplit_dollar :: "string \<Rightarrow> (string \<times> string) option" where
  "rsplit_dollar s =
     (case rev (split_on CHR ''$'' s) of
        l # p # ps \<Rightarrow> Some (join_with ''$'' (rev (p # ps)), l)
      | _ \<Rightarrow> None)"

text \<open>The sessions of a kind in the status the kind asks for, by the row of the reverse relation.\<close>

definition session_in_status :: "session_kind \<Rightarrow> session_db \<Rightarrow> nat \<Rightarrow> bool" where
  "session_in_status k db pk = (case k of
     OTA_PHASE_2 \<Rightarrow> list_ex (\<lambda>s. ses_pk s = pk \<and> ota_st s = PHASE_2) (sd_ota_sessions db)
   | OTA_PHASE_3 \<Rightarrow> list_ex (\<lambda>s. ses_pk s = pk \<and> ota_st s = PHASE_3) (sd_ota_sessions db)
   | DEP_KIND \<Rightarrow> list_ex (\<lambda>s. ses_pk s = pk \<and> dep_st s = DEP_STARTED) (sd_dep_sessions db)
   | USER_KIND \<Rightarrow> list_ex (\<lambda>s. ses_pk s = pk \<and> user_st s = USER_STARTED) (sd_user_sessions db))"

definition save_session ::
  "('s \<Rightarrow> nat) \<Rightarrow> 's \<Rightarrow> 's list \<Rightarrow> 's list" where
  "save_session pk s rows = update_where (\<lambda>x. pk x = pk s) (\<lambda>_. s) rows"

definition update_session_status ::
  "session_kind \<Rightarrow> enrollment_secret_request \<Rightarrow> session_db \<Rightarrow> pyerror + dict \<times> session_db" where
  "update_session_status k esr db =
     (case k of
        OTA_PHASE_2 \<Rightarrow>
          bind_result (get_one (\<lambda>s. ses_secret s = esr_enrollment_secret esr) (sd_ota_sessions db)) (\<lambda>s.
          bind_result (set_phase2_scep_verified_status (Some esr) s) (\<lambda>s'.
            Inr (session_serialize_for_event (ota_status_str (ota_st s')) ''ota''
                   (enrollment_session.truncate s') [],
                 db\<lparr>sd_ota_sessions := save_session ses_pk s' (sd_ota_sessions db)\<rparr>)))
      | OTA_PHASE_3 \<Rightarrow>
          bind_result (get_one (\<lambda>s. ses_secret s = esr_enrollment_secret esr) (sd_ota_sessions db)) (\<lambda>s.
          bind_result (set_phase3_scep_verified_status (Some esr) s) (\<lambda>s'.
            Inr (session_serialize_for_event (ota_status_str (ota_st s')) ''ota''
                   (enrollment_session.truncate s') [],
                 db\<lparr>sd_ota_sessions := save_session ses_pk s' (sd_ota_sessions db)\<rparr>)))
      | DEP_KIND \<Rightarrow>
          bind_result (get_one (\<lambda>s. ses_secret s = esr_enrollment_secret esr) (sd_dep_sessions db)) (\<lambda>s.
          bind_result (dep_set_scep_verified_status (Some esr) s) (\<lambda>s'.
            Inr (session_serialize_for_event (dep_status_str (dep_st s')) ''dep''
                   (enrollment_session.truncate s') [],
                 db\<lparr>sd_dep_sessions := save_session ses_pk s' (sd_dep_sessions db)\<rparr>)))
      | USER_KIND \<Rightarrow>
          bind_result (get_one (\<lambda>s. ses_secret s = esr_enrollment_secret esr) (sd_user_sessions db)) (\<lambda>s.
          bind_result (user_set_scep_verified_status (Some esr) s) (\<lambda>s'.
            Inr (session_serialize_for_event (user_status_str (user_st s')) ''user''
                   (enrollment_session.truncate s') [],
                 db\<lparr>sd_user_sessions := save_session ses_pk s' (sd_user_sessions db)\<rparr>))))"

text \<open>The names of the certificate request, by the attributes of its subject.\<close>

record csr_subject =
  csr_serial_number :: "string option"
  csr_organization_name :: "string option"
  csr_common_name :: "string option"

definition scep_abort :: "string \<Rightarrow> (pyerror + session_db) \<times> dict list" where
  "scep_abort reason =
     (Inl (SuspiciousOperation reason),
      [[(''reason'', PStr reason), (''scep_status'', PStr ''failure'')]])"

text \<open>
  \<open>BaseVerifySCEPCSRView.do_post\<close>: the answer, and the payloads of the SCEP events. \<open>mbu_exists\<close>
  tells the business units that exist.
\<close>

definition scep_do_post ::
  "int \<Rightarrow> string \<Rightarrow> string \<Rightarrow> (nat \<Rightarrow> bool) \<Rightarrow> csr_subject \<Rightarrow> session_db \<Rightarrow>
   (pyerror + session_db) \<times> dict list" where
  "scep_do_post now ua ip_addr mbu_exists csr db =
     (let sn = (if truthy_str (csr_serial_number csr) then csr_serial_number csr else None) in
      case csr_organization_name csr of
        None \<Rightarrow> scep_abort ''Unknown organization name format''
      | Some o_name \<Rightarrow>
          if \<not> prefix ''MBU$'' o_name then scep_abort ''Unknown organization name format''
          else case parse_int (drop 4 o_name) of
            None \<Rightarrow> (Inl ValueError, [])
          | Some mbu \<Rightarrow>
              if mbu < 0 \<or> \<not> mbu_exists (nat mbu) then (Inl Http404, [])
              else case Option.bind (csr_common_name csr) rsplit_dollar of
                None \<Rightarrow> scep_abort ''Unknown common name format''
              | Some (cn_prefix, secret) \<Rightarrow>
                  (case get_enrollment_session_info cn_prefix of
                     None \<Rightarrow> scep_abort (''Unknown CN prefix '' @ cn_prefix)
                   | Some k \<Rightarrow>
                       (case verify now (kind_model k) secret ua ip_addr sn None (Some (nat mbu))
                              (\<lambda>es en. session_in_status k db (enr_pk en)) (sd_secrets db) of
                          Inl (EnrollmentSecretVerificationFailed m, _) \<Rightarrow>
                            scep_abort (''secret verification failed: '' @ [CHR 0x27] @ m @ [CHR 0x27])
                        | Inl (e, _) \<Rightarrow> (Inl e, [])
                        | Inr (esr, edb) \<Rightarrow>
                            (case update_session_status k esr (db\<lparr>sd_secrets := edb\<rparr>) of
                               Inl e \<Rightarrow> (Inl e, [])
                             | Inr (d, db') \<Rightarrow>
                                 (Inr db', [dict_set ''scep_status'' (PStr ''success'') d])))))"

subsection \<open>The enrollment views\<close>

text \<open>\<open>PostEventMixin\<close>: the payload of an event, and \<open>abort\<close>, which posts the failure and raises.\<close>

definition mdm_event_payload :: "string \<Rightarrow> realm_user option \<Rightarrow> string \<Rightarrow> dict \<Rightarrow> dict" where
  "mdm_event_payload udid ru status payload =
     dict_update (dict_set ''status'' (PStr status) payload)
       ((if udid \<noteq> [] then [(''udid'', PStr udid)] else []) @
        (case ru of
           None \<Rightarrow> []
         | Some u \<Rightarrow>
             [(''realm'', PDict [(''pk'', PStr (ru_realm_pk u)), (''name'', PStr (ru_realm_name u))]),
              (''realm_user'', PDict [(''pk'', PStr (ru_pk u)), (''username'', PStr (ru_username u))])]))"

definition mdm_abort ::
  "string \<Rightarrow> realm_user option \<Rightarrow> dict \<Rightarrow> string \<Rightarrow> (pyerror + 'a) \<times> dict list" where
  "mdm_abort udid ru extra reason =
     (Inl (SuspiciousOperation []),
      [mdm_event_payload udid ru ''failure'' (dict_set ''reason'' (PStr reason) extra)])"

definition verification_abort :: "string \<Rightarrow> dict \<Rightarrow> pyerror \<Rightarrow> (pyerror + 'a) \<times> dict list" where
  "verification_abort udid extra e = (case e of
     EnrollmentSecretVerificationFailed m \<Rightarrow>
       mdm_abort udid None extra (''secret verification failed: '' @ [CHR 0x27] @ m @ [CHR 0x27])
   | e' \<Rightarrow> (Inl e', []))"

text \<open>
  The payload of an OTA request and the names of the certificate that signed it. \<open>ota_phase\<close> is
  2 when an Apple device CA issued it, 3 when the SCEP CA did, \<open>None\<close> when nobody known did.
\<close>

record ota_request =
  ota_phase :: "nat option"
  ota_issuer_cn :: string
  ota_serial :: string
  ota_udid :: string
  ota_challenge :: "string option"
  ota_session_flag :: bool
  ota_signer_serial :: string
  ota_signer_cn :: string
  ota_signer_organization :: string

definition ota_phase_2 ::
  "int \<Rightarrow> string \<Rightarrow> string \<Rightarrow> string \<Rightarrow> ota_request \<Rightarrow> session_db \<Rightarrow>
   (pyerror + ota_session \<times> session_db) \<times> dict list" where
  "ota_phase_2 now random_secret ua ip_addr req db =
     (let phase = [(''phase'', PInt 2)] in
      if \<not> truthy_str (ota_challenge req) then mdm_abort (ota_udid req) None phase ''missing challenge''
      else
        (let challenge = the (ota_challenge req) in
         if ota_session_flag req then
           (case verify now ''ota_enrollment_session'' challenge ua ip_addr (Some (ota_serial req))
                   (Some (ota_udid req)) None (\<lambda>_ _. True) (sd_secrets db) of
              Inl (e, _) \<Rightarrow> verification_abort (ota_udid req) phase e
            | Inr (esr, edb) \<Rightarrow>
                (let db1 = db\<lparr>sd_secrets := edb\<rparr> in
                 (bind_result (get_one (\<lambda>s. ses_secret s = esr_enrollment_secret esr) (sd_ota_sessions db1))
                    (\<lambda>s.
                  bind_result (secret_by_pk (ses_secret s) db1) (\<lambda>es.
                  bind_result (set_phase2_status (Some esr) (ota_serial req) (ota_udid req) s es)
                    (\<lambda>(s', es').
                  Inr (s', db1\<lparr>sd_ota_sessions := save_session ses_pk s' (sd_ota_sessions db1),
                              sd_secrets := edb\<lparr>enrollment_secrets :=
                                save_session es_pk es' (enrollment_secrets edb)\<rparr>\<rparr>)))),
                  [])))
         else
           (case verify now ''ota_enrollment'' challenge ua ip_addr (Some (ota_serial req))
                   (Some (ota_udid req)) None (\<lambda>_ _. True) (sd_secrets db) of
              Inl (e, _) \<Rightarrow> verification_abort (ota_udid req) phase e
            | Inr (esr, edb) \<Rightarrow>
                (let db1 = db\<lparr>sd_secrets := edb\<rparr> in
                 case get_one (\<lambda>e. me_secret e = esr_enrollment_secret esr) (sd_ota_enrollments db1) of
                   Inl e \<Rightarrow> (Inl e, [])
                 | Inr e \<Rightarrow>
                     if me_realm e \<noteq> None then
                       mdm_abort (ota_udid req) None phase ''cannot use ota enrollment secret on ota enrollment with realm''
                     else (create_from_machine_info random_secret now e (ota_serial req) (ota_udid req) db1,
                           [])))))"

definition ota_phase_3 :: "ota_request \<Rightarrow> session_db \<Rightarrow> (pyerror + ota_session \<times> session_db) \<times> dict list" where
  "ota_phase_3 req db =
     (let phase = [(''phase'', PInt 3)] in
      if ota_serial req \<noteq> ota_signer_serial req then
        mdm_abort (ota_udid req) None phase ''signing certificate DN serial number != payload serial number''
      else case split_on CHR ''$'' (ota_signer_cn req) of
        [_, secret] \<Rightarrow>
          (case bind_result (get_one (\<lambda>es. es_secret es = secret) (enrollment_secrets (sd_secrets db)))
                  (\<lambda>es. bind_result (get_one (\<lambda>s. ses_secret s = es_pk es) (sd_ota_sessions db))
                    (\<lambda>s. Inr (s, es))) of
             Inl DoesNotExist \<Rightarrow>
               mdm_abort (ota_udid req) None phase ''could not find ota enrollment session from payload signing certificate''
           | Inl e \<Rightarrow> (Inl e, [])
           | Inr (s, es) \<Rightarrow>
               (case set_phase3_status s of
                  Inl EnrollmentSessionStatusError \<Rightarrow>
                    mdm_abort (ota_udid req) (ses_realm_user s) phase ''ota enrollment session has wrong status''
                | Inl e \<Rightarrow> (Inl e, [])
                | Inr s' \<Rightarrow>
                    (case parse_int (last (split_on CHR ''$'' (ota_signer_organization req))) of
                       None \<Rightarrow> (Inl ValueError, [])
                     | Some mbu \<Rightarrow>
                         if mbu \<noteq> int (es_meta_business_unit es) then
                           mdm_abort (ota_udid req) (ses_realm_user s) phase
                             (''DN mbu doesn'' @ [CHR 0x27] @ ''t match ota enrollment session mbu'')
                         else (Inr (s', db\<lparr>sd_ota_sessions := save_session ses_pk s' (sd_ota_sessions db)\<rparr>),
                               []))))
      | _ \<Rightarrow> (Inl ValueError, []))"

text \<open>
  \<open>OTAEnrollView.post\<close>: the session, and the common name of the certificate request payload, from
  the prefix of its status.
\<close>

definition ota_enroll_post ::
  "int \<Rightarrow> string \<Rightarrow> string \<Rightarrow> string \<Rightarrow> ota_request \<Rightarrow> session_db \<Rightarrow>
   (pyerror + (ota_session \<times> string) \<times> session_db) \<times> dict list" where
  "ota_enroll_post now random_secret ua ip_addr req db =
     (case ota_phase req of
        None \<Rightarrow> mdm_abort [] None [] (''Unknown signing certificate issuer: '' @ ota_issuer_cn req)
      | Some phase \<Rightarrow>
          (case (if phase = 2 then ota_phase_2 now random_secret ua ip_addr req db
                 else ota_phase_3 req db) of
             (Inl e, evs) \<Rightarrow> (Inl e, evs)
           | (Inr (s, db'), evs) \<Rightarrow>
               (case bind_result (ota_get_prefix (ota_st s)) (\<lambda>p.
                       bind_result (secret_by_pk (ses_secret s) db') (\<lambda>es.
                         Inr (session_common_name p es))) of
                  Inl e \<Rightarrow> (Inl e, evs)
                | Inr cn \<Rightarrow>
                    (Inr ((s, cn), db'),
                     evs @ [mdm_event_payload (ota_udid req) (ses_realm_user s) ''success''
                             [(''phase'', PInt (int phase))]]))))"

text \<open>\<open>DEPEnrollView.post\<close>, after the signature of the payload has been verified.\<close>

definition dep_enroll_post ::
  "int \<Rightarrow> string \<Rightarrow> string \<Rightarrow> string \<Rightarrow> string \<Rightarrow> string \<Rightarrow> string \<Rightarrow> session_db \<Rightarrow>
   (pyerror + dep_session \<times> session_db) \<times> dict list" where
  "dep_enroll_post now random_secret ua ip_addr secret serial_number udid db =
     (case verify now ''dep_enrollment'' secret ua ip_addr (Some serial_number) (Some udid) None
             (\<lambda>_ _. True) (sd_secrets db) of
        Inl (e, _) \<Rightarrow> verification_abort udid [] e
      | Inr (esr, edb) \<Rightarrow>
          (let db1 = db\<lparr>sd_secrets := edb\<rparr> in
           case get_one (\<lambda>(_, e). de_secret e = esr_enrollment_secret esr)
                  (enumerate 0 (sd_dep_enrollments db1)) of
             Inl e \<Rightarrow> (Inl e, [])
           | Inr (pk, e) \<Rightarrow>
               if de_realm e \<noteq> None then
                 mdm_abort udid None [] ''this DEP enrollment requires an authenticated realm user''
               else
                 (case create_from_dep_enrollment random_secret now e pk serial_number udid None db1 of
                    Inl err \<Rightarrow> (Inl err, [])
                  | Inr (s, db2) \<Rightarrow>
                      (Inr (s, db2),
                       [mdm_event_payload udid None ''success''
                          (session_serialize_for_event (dep_status_str (dep_st s)) ''dep''
                             (enrollment_session.truncate s) [])]))))"

text \<open>
  \<open>EnrollUserView.post\<close>: without an authorization header a session is started, and answered with
  a redirection to the authentication; with one, the authenticated session of the token starts.
\<close>

definition user_enroll_post ::
  "int \<Rightarrow> string \<Rightarrow> string \<Rightarrow> string \<Rightarrow> string \<Rightarrow> string option \<Rightarrow> session_db \<Rightarrow>
   (pyerror + user_session \<times> session_db) \<times> dict list" where
  "user_enroll_post now random_secret ua ip_addr secret authorization db =
     (case verify now ''user_enrollment'' secret ua ip_addr None None None (\<lambda>_ _. True) (sd_secrets db) of
        Inl (e, _) \<Rightarrow> verification_abort [] [] e
      | Inr (esr, edb) \<Rightarrow>
          (let db1 = db\<lparr>sd_secrets := edb\<rparr>;
               success = (\<lambda>s. [mdm_event_payload [] None ''success''
                 (session_serialize_for_event (user_status_str (user_st s)) ''user''
                    (enrollment_session.truncate s) [])])
           in case get_one (\<lambda>e. me_secret e = esr_enrollment_secret esr) (sd_user_enrollments db1) of
                Inl e \<Rightarrow> (Inl e, [])
              | Inr e \<Rightarrow>
                  if me_realm e = None then mdm_abort [] None [] ''This user enrollment has no realm''
                  else if \<not> truthy_str authorization then
                    (case create_from_user_enrollment random_secret now e None db1 of
                       Inl err \<Rightarrow> (Inl err, [])
                     | Inr (s, db2) \<Rightarrow> (Inr (s, db2), success s))
                  else
                    (let token = strip (replace_all ''Bearer'' '''' (the authorization)) in
                     case get_one (\<lambda>s. user_enrollment_pk s = me_pk e \<and> access_token s = Some token)
                            (sd_user_sessions db1) of
                       Inl DoesNotExist \<Rightarrow> mdm_abort [] None [] ''Invalid access token''
                     | Inl err \<Rightarrow> (Inl err, [])
                     | Inr s \<Rightarrow>
                         (case set_started_status s of
                            Inl err \<Rightarrow> (Inl err, [])
                          | Inr s' \<Rightarrow>
                              (Inr (s', db1\<lparr>sd_user_sessions :=
                                 save_session ses_pk s' (sd_user_sessions db1)\<rparr>), success s')))))"

text \<open>\<open>user_enroll_callback\<close>: the realm authenticated a user for a session.\<close>

definition user_enroll_callback ::
  "string \<Rightarrow> nat \<Rightarrow> nat \<Rightarrow> realm_user option \<Rightarrow> session_db \<Rightarrow> pyerror + user_session \<times> session_db" where
  "user_enroll_callback random_token realm session_pk u db =
     bind_result (get_one (\<lambda>s. ses_pk s = session_pk \<and>
         list_ex (\<lambda>e. me_pk e = user_enrollment_pk s \<and> me_realm e = Some realm) (sd_user_enrollments db))
        (sd_user_sessions db)) (\<lambda>s.
     bind_result (set_account_driven_authenticated_status random_token u s) (\<lambda>s'.
       Inr (s', db\<lparr>sd_user_sessions := save_session ses_pk s' (sd_user_sessions db)\<rparr>)))"

subsection \<open>Properties\<close>

lemma split_on_last: "c \<notin> set w \<Longrightarrow> split_on c (p @ c # w) = split_on c p @ [w]"
proof (induction p)
  case (Cons x p)
  obtain v vs where "split_on c p = v # vs" using split_on_not_Nil by (metis neq_Nil_conv)
  with Cons show ?case by simp
qed (simp add: split_on_no_sep)

lemma rsplit_join:
  assumes "CHR ''$'' \<notin> set secret"
  shows "rsplit_dollar (p @ ''$'' @ secret) = Some (p, secret)"
proof -
  have s: "split_on CHR ''$'' (p @ CHR ''$'' # secret) = split_on CHR ''$'' p @ [secret]"
    by (rule split_on_last [OF assms])
  obtain w ws where w: "rev (split_on CHR ''$'' p) = w # ws"
    using split_on_not_Nil [of "CHR ''$''" p] by (metis neq_Nil_conv rev_is_Nil_conv)
  then have "rev (w # ws) = split_on CHR ''$'' p" by (metis rev_rev_ident)
  then show ?thesis
    using join_split_on [of "CHR ''$''" p] by (simp add: rsplit_dollar_def s w)
qed

text \<open>
  The name a session puts into its certificate payload is enough to find it again: for every
  kind and every status that has a prefix, splitting the common name gives back the prefix and
  the secret, the prefix is a known one, and it asks for the status the session is in.
\<close>

theorem common_name_identifies_session:
  assumes "CHR ''$'' \<notin> set (es_secret es)"
    and "ota_get_prefix st = Inr p \<or> dep_get_prefix dst = Inr p \<or> user_get_prefix ust = Inr p"
  shows "rsplit_dollar (session_common_name p es) = Some (p, es_secret es) \<and>
    (\<exists>k. get_enrollment_session_info p = Some k \<and>
      (case k of
         OTA_PHASE_2 \<Rightarrow> ota_get_prefix PHASE_2 = Inr p
       | OTA_PHASE_3 \<Rightarrow> ota_get_prefix PHASE_3 = Inr p
       | DEP_KIND \<Rightarrow> dep_get_prefix DEP_STARTED = Inr p
       | USER_KIND \<Rightarrow> user_get_prefix USER_STARTED = Inr p))"
  using assms(2) rsplit_join [OF assms(1), of p]
  by (auto simp: session_common_name_def ota_get_prefix_def dep_get_prefix_def user_get_prefix_def
      get_enrollment_session_info_def split: if_splits)

theorem common_name_identifies_session_witness:
  "rsplit_dollar ''MDM$DEP$s3cr3t'' = Some (''MDM$DEP'', ''s3cr3t'')"
  using common_name_identifies_session [of sample_secret PHASE_1 "''MDM$DEP''" DEP_STARTED USER_STARTED]
  by (simp add: sample_secret_def dep_get_prefix_def session_common_name_def)

text \<open>What the tables hold about a DEP session that waits for its certificate.\<close>

definition dep_session_waiting :: "session_db \<Rightarrow> dep_session \<Rightarrow> enrollment_secret \<Rightarrow> bool" where
  "dep_session_waiting db s es \<longleftrightarrow>
     distinct (map ses_pk (sd_dep_sessions db)) \<and> distinct (map ses_secret (sd_dep_sessions db)) \<and>
     s \<in> set (sd_dep_sessions db) \<and> dep_st s = DEP_STARTED \<and> dep_wf s \<and>
     es \<in> set (enrollment_secrets (sd_secrets db)) \<and> es_pk es = ses_secret s \<and>
     CHR ''$'' \<notin> set (es_secret es) \<and>
     list_ex (\<lambda>en. enr_model en = ''dep_enrollment_session'' \<and> enr_secret en = es_pk es)
       (enrollments (sd_secrets db)) \<and>
     list_all (\<lambda>en. enr_model en = ''dep_enrollment_session'' \<and> enr_secret en = es_pk es \<longrightarrow>
       enr_pk en = ses_pk s) (enrollments (sd_secrets db))"

definition dep_csr :: "string option \<Rightarrow> enrollment_secret \<Rightarrow> csr_subject" where
  "dep_csr sn es =
     \<lparr>csr_serial_number = sn, csr_organization_name = Some (session_organization es),
      csr_common_name = Some (session_common_name ''MDM$DEP'' es)\<rparr>"

lemma scep_dep_csr:
  assumes "CHR ''$'' \<notin> set (es_secret es)" "mbu_exists (es_meta_business_unit es)"
  shows "scep_do_post now ua ip_addr mbu_exists (dep_csr sn es) db =
    (case verify now ''dep_enrollment_session'' (es_secret es) ua ip_addr
            (if truthy_str sn then sn else None) None (Some (es_meta_business_unit es))
            (\<lambda>es en. session_in_status DEP_KIND db (enr_pk en)) (sd_secrets db) of
       Inl (EnrollmentSecretVerificationFailed m, _) \<Rightarrow>
         scep_abort (''secret verification failed: '' @ [CHR 0x27] @ m @ [CHR 0x27])
     | Inl (e, _) \<Rightarrow> (Inl e, [])
     | Inr (esr, edb) \<Rightarrow>
         (case update_session_status DEP_KIND esr (db\<lparr>sd_secrets := edb\<rparr>) of
            Inl e \<Rightarrow> (Inl e, [])
          | Inr (d, db') \<Rightarrow> (Inr db', [dict_set ''scep_status'' (PStr ''success'') d])))"
proof -
  have "rsplit_dollar (session_common_name ''MDM$DEP'' es) = Some (''MDM$DEP'', es_secret es)"
    unfolding session_common_name_def by (rule rsplit_join [OF assms(1)])
  moreover have "get_enrollment_session_info ''MDM$DEP'' = Some DEP_KIND"
    by (simp add: get_enrollment_session_info_def)
  moreover have "kind_model DEP_KIND = ''dep_enrollment_session''" by (simp add: kind_model_def)
  moreover have "prefix ''MBU$'' (session_organization es)"
    "parse_int (drop 4 (session_organization es)) = Some (int (es_meta_business_unit es))"
    by (simp_all add: session_organization_def)
  ultimately show ?thesis
    using assms(2) by (simp add: scep_do_post_def dep_csr_def Let_def)
qed

text \<open>
  the certificate request built from the payload of a DEP session, sent while its secret is
  valid, is accepted exactly once: the session becomes verified, with the request that
  verified it, and the same certificate request is refused from then on.
\<close>

theorem dep_certificate_accepted_once:
  assumes inv: "enrollment_reachable (sd_secrets db)" and wait: "dep_session_waiting db s es"
    and valid: "is_valid now (if truthy_str sn then sn else None) None (Some (es_meta_business_unit es)) es
      = (True, None)"
    and mbu: "mbu_exists (es_meta_business_unit es)"
  shows "\<exists>db' ev s'. scep_do_post now ua ip_addr mbu_exists (dep_csr sn es) db = (Inr db', [ev]) \<and>
    s' \<in> set (sd_dep_sessions db') \<and> ses_pk s' = ses_pk s \<and> dep_st s' = DEP_SCEP_VERIFIED \<and>
    dep_scep_request s' \<noteq> None \<and>
    fst (scep_do_post later ua ip_addr mbu_exists (dep_csr sn es) db') =
      Inl (SuspiciousOperation
        (''secret verification failed: '' @ [CHR 0x27] @ ''unknown secret'' @ [CHR 0x27]))"
proof -
  note w = wait [unfolded dep_session_waiting_def list_ex_iff list_all_iff]
  have s: "s \<in> set (sd_dep_sessions db)" "dep_st s = DEP_STARTED" "dep_wf s"
    and es: "es \<in> set (enrollment_secrets (sd_secrets db))" "es_pk es = ses_secret s"
    and nd: "CHR ''$'' \<notin> set (es_secret es)"
    and dp: "distinct (map ses_pk (sd_dep_sessions db))" "distinct (map ses_secret (sd_dep_sessions db))"
    using w by blast+
  obtain en where en: "en \<in> set (enrollments (sd_secrets db))" "enr_model en = ''dep_enrollment_session''"
      "enr_secret en = es_pk es" "enr_pk en = ses_pk s"
    using w by blast
  define esr where "esr = \<lparr>esr_enrollment_secret = es_pk es, esr_user_agent = ua,
    esr_public_ip_address = ip_addr, esr_serial_number = (if truthy_str sn then sn else None),
    esr_udid = None\<rparr>"
  define edb where "edb = (sd_secrets db)\<lparr>enrollment_requests := enrollment_requests (sd_secrets db) @ [esr],
    enrollment_secrets := update_where (\<lambda>s. es_pk s = es_pk es)
      (\<lambda>_. es\<lparr>es_request_count := es_request_count es + 1\<rparr>) (enrollment_secrets (sd_secrets db))\<rparr>"
  define s' where "s' = s\<lparr>dep_st := DEP_SCEP_VERIFIED, dep_scep_request := Some esr\<rparr>"
  define db' where "db' = db\<lparr>sd_secrets := edb,
    sd_dep_sessions := save_session ses_pk s' (sd_dep_sessions db)\<rparr>"
  have st: "session_in_status DEP_KIND db (enr_pk en)"
    using s en(4) by (auto simp: session_in_status_def list_ex_iff)
  from verify_known_extra [where extra = "\<lambda>es en. session_in_status DEP_KIND db (enr_pk en)",
      OF enrollment_reachable_inv [OF inv] es(1) en(1-3) st]
  have v: "verify now ''dep_enrollment_session'' (es_secret es) ua ip_addr (if truthy_str sn then sn else None)
      None (Some (es_meta_business_unit es)) (\<lambda>es en. session_in_status DEP_KIND db (enr_pk en))
      (sd_secrets db) = Inr (esr, edb)"
    by (simp add: valid esr_def edb_def Let_def)
  have g: "get_one (\<lambda>x. ses_secret x = esr_enrollment_secret esr) (sd_dep_sessions db) = Inr s"
    using get_one_pk [OF dp(2) s(1)] es(2) by (simp add: esr_def)
  have "dep_set_scep_verified_status (Some esr) s = Inr s'"
    using s by (simp add: dep_methods dep_wf_def s'_def)
  then have "\<exists>d. update_session_status DEP_KIND esr (db\<lparr>sd_secrets := edb\<rparr>) = Inr (d, db')"
    by (simp add: update_session_status_def g db'_def)
  then obtain ev where first: "scep_do_post now ua ip_addr mbu_exists (dep_csr sn es) db = (Inr db', [ev])"
    unfolding scep_dep_csr [where mbu_exists = mbu_exists, OF nd mbu] v by auto
  have rows: "set (sd_dep_sessions db') = insert s' {x \<in> set (sd_dep_sessions db). ses_pk x \<noteq> ses_pk s}"
    using s(1) by (auto simp: db'_def save_session_def set_update_where s'_def)
  have "verify later ''dep_enrollment_session'' (es_secret es) ua ip_addr (if truthy_str sn then sn else None)
      None (Some (es_meta_business_unit es)) (\<lambda>es en. session_in_status DEP_KIND db' (enr_pk en))
      (sd_secrets db') = Inl (EnrollmentSecretVerificationFailed ''unknown secret'', None)"
  proof (rule verify_unknown)
    fix es2 en2
    assume a: "es2 \<in> set (enrollment_secrets (sd_secrets db'))" "es_secret es2 = es_secret es"
      "en2 \<in> set (enrollments (sd_secrets db'))" "enr_model en2 = ''dep_enrollment_session''"
      "enr_secret en2 = es_pk es2"
    have d: "distinct (map es_secret (enrollment_secrets (sd_secrets db)))"
      using enrollment_reachable_inv [OF inv] by (simp add: enrollment_inv_def)
    have "es_pk es2 = es_pk es"
    proof (cases "es2 \<in> set (enrollment_secrets (sd_secrets db))")
      case True
      then show ?thesis using distinct_map_eqD [OF d True es(1) a(2)] by simp
    next
      case False
      then show ?thesis
        using a(1) es(1) by (auto simp: db'_def edb_def set_update_where)
    qed
    moreover have "en2 \<in> set (enrollments (sd_secrets db))" using a(3) by (simp add: db'_def edb_def)
    ultimately have "enr_pk en2 = ses_pk s" using a(4,5) w by metis
    then show "\<not> session_in_status DEP_KIND db' (enr_pk en2)"
      by (auto simp: session_in_status_def list_ex_iff rows s'_def)
  qed
  then have "fst (scep_do_post later ua ip_addr mbu_exists (dep_csr sn es) db') =
      Inl (SuspiciousOperation
        (''secret verification failed: '' @ [CHR 0x27] @ ''unknown secret'' @ [CHR 0x27]))"
    unfolding scep_dep_csr [where mbu_exists = mbu_exists, OF nd mbu] by (simp add: scep_abort_def)
  moreover have "s' \<in> set (sd_dep_sessions db')" "ses_pk s' = ses_pk s" "dep_st s' = DEP_SCEP_VERIFIED"
    "dep_scep_request s' \<noteq> None"
    by (simp_all add: rows s'_def)
  ultimately show ?thesis using first by blast
qed

definition sample_dep_secret :: enrollment_secret where
  "sample_dep_secret =
     \<lparr>es_pk = 1, es_secret = ''d3p'', es_meta_business_unit = 1, es_tags = [],
      es_serial_numbers = Some [''SN1''], es_udids = Some [''U1''], es_quota = Some 1,
      es_request_count = 0, es_revoked_at = None, es_expired_at = Some 3600, es_created_at = 0\<rparr>"

definition sample_session_db :: session_db where
  "sample_session_db =
     \<lparr>sd_secrets = \<lparr>enrollment_secrets = [sample_dep_secret], enrollment_requests = [],
        enrollments = [\<lparr>enr_pk = 1, enr_model = ''dep_enrollment_session'', enr_secret = 1,
          enr_version = 1, enr_distributor = None, enr_created_at = 0\<rparr>]\<rparr>,
      sd_ota_enrollments = [], sd_dep_enrollments = [], sd_user_enrollments = [],
      sd_ota_sessions = [], sd_dep_sessions = [sample_dep_session], sd_user_sessions = []\<rparr>"

lemma sample_session_db_reachable: "enrollment_reachable (sd_secrets sample_session_db)"
proof -
  let ?db0 = "\<lparr>enrollment_secrets = [], enrollment_requests = [], enrollments = []\<rparr>"
  let ?db1 = "\<lparr>enrollment_secrets = [sample_dep_secret], enrollment_requests = [], enrollments = []\<rparr>"
  let ?en = "\<lparr>enr_pk = 1, enr_model = ''dep_enrollment_session'', enr_secret = 1,
    enr_version = 1, enr_distributor = None, enr_created_at = 0\<rparr>"
  have "enrollment_step ?db0 (?db0\<lparr>enrollment_secrets := enrollment_secrets ?db0 @ [sample_dep_secret]\<rparr>)"
    by (rule create_step) (simp_all add: sample_dep_secret_def)
  then have "enrollment_reachable ?db1"
    using enrollment_reachable.step [OF enrollment_reachable.empty] by simp
  moreover have "snd (enrollment_save ?en ?db1) = sd_secrets sample_session_db"
    by (simp add: enrollment_save_def sample_session_db_def get_one_def)
  ultimately show ?thesis
    using enrollment_reachable.step save_step by metis
qed

theorem dep_certificate_accepted_once_witness:
  "\<exists>db' ev s'. scep_do_post 60 ''scepd'' ''10.0.0.1'' (\<lambda>_. True) (dep_csr (Some ''SN1'') sample_dep_secret)
      sample_session_db = (Inr db', [ev]) \<and> s' \<in> set (sd_dep_sessions db') \<and> dep_st s' = DEP_SCEP_VERIFIED"
proof -
  have "dep_session_waiting sample_session_db sample_dep_session sample_dep_secret"
    by (simp add: dep_session_waiting_def sample_session_db_def sample_dep_session_def
        sample_dep_secret_def dep_wf_def)
  moreover have "is_valid 60 (if truthy_str (Some ''SN1'') then Some ''SN1'' else None) None
      (Some (es_meta_business_unit sample_dep_secret)) sample_dep_secret = (True, None)"
    by (simp add: is_valid_def is_revoked_def is_expired_def restricted_def is_used_up_def
        sample_dep_secret_def)
  ultimately show ?thesis
    using dep_certificate_accepted_once [where mbu_exists = "\<lambda>_. True", OF sample_session_db_reachable]
    by blast
qed

end
