(* ===== verification/MdmArtifacts.thy ===== *)
theory MdmArtifacts imports MdmModels begin

text \<open>
  The artifacts of \<open>zentral/contrib/mdm/models.py\<close>: which version of which artifact is to be
  installed next on a target (a device or a user of it), and which is to be removed. The SQL
  queries of \<open>ArtifactVersionManager\<close> are written as list comprehensions over the tables, one
  per \<open>with\<close> clause. Rows that the \<open>order by\<close> clause does not separate keep the table order.
\<close>

subsection \<open>Rows\<close>

datatype artifact_type = EnterpriseApp | Profile

fun artifact_type_str :: "artifact_type \<Rightarrow> string" where
  "artifact_type_str EnterpriseApp = ''EnterpriseApp''"
| "artifact_type_str Profile = ''Profile''"

datatype artifact_operation = Installation | Removal

fun artifact_operation_str :: "artifact_operation \<Rightarrow> string" where
  "artifact_operation_str Installation = ''Installation''"
| "artifact_operation_str Removal = ''Removal''"

record artifact =
  a_pk :: nat
  a_name :: string
  a_type :: artifact_type
  a_channel :: channel
  a_platforms :: "platform list"

record artifact_version =
  av_pk :: nat
  av_artifact :: nat
  av_version :: nat
  av_created_at :: int

record blueprint_artifact =
  ba_blueprint :: nat
  ba_artifact :: nat
  ba_install_before_setup_assistant :: bool
  ba_auto_update :: bool
  ba_priority :: nat

datatype target_artifact_status = Acknowledged | AwaitingConfirmation | Installed

text \<open>A device artifact or a user artifact: \<open>ta_target\<close> is the device or the user.\<close>

record target_artifact =
  ta_target :: nat
  ta_artifact_version :: nat
  ta_status :: target_artifact_status

text \<open>\<open>CommandStatus\<close>, and what \<open>choices\<close> builds from it: the first character of every value.\<close>

datatype command_status = StatusAcknowledged | StatusError | StatusCommandFormatError | StatusNotNow

fun command_status_str :: "command_status \<Rightarrow> string" where
  "command_status_str StatusAcknowledged = ''Acknowledged''"
| "command_status_str StatusError = ''Error''"
| "command_status_str StatusCommandFormatError = ''CommandFormatError''"
| "command_status_str StatusNotNow = ''NotNow''"

definition command_status_choices :: "(string \<times> string) list" where
  "command_status_choices =
     map (\<lambda>i. ([hd (command_status_str i)], [hd (command_status_str i)]))
       [StatusAcknowledged, StatusError, StatusCommandFormatError, StatusNotNow]"

text \<open>A device command or a user command. The status is the string of the response.\<close>

record db_command =
  cmd_uuid :: nat
  cmd_target :: nat
  cmd_name :: string
  cmd_artifact_version :: "nat option"
  cmd_artifact_operation :: "artifact_operation option"
  cmd_retries :: "nat option"
  cmd_not_before :: "int option"
  cmd_time :: "int option"
  cmd_result_time :: "int option"
  cmd_status :: "string option"
  cmd_error_chain :: "pyval option"
  cmd_created_at :: int

record artifact_db =
  artifacts :: "artifact list"
  artifact_versions :: "artifact_version list"
  blueprint_artifacts :: "blueprint_artifact list"
  device_artifacts :: "target_artifact list"
  user_artifacts :: "target_artifact list"
  device_commands :: "db_command list"
  user_commands :: "db_command list"

definition db_command_str :: "(nat \<Rightarrow> string) \<Rightarrow> db_command \<Rightarrow> string" where
  "db_command_str uuid_str c =
     join_with '' - '' (filter (\<lambda>s. s \<noteq> [])
       [cmd_name c, uuid_str (cmd_uuid c), (case cmd_status c of None \<Rightarrow> [] | Some s \<Rightarrow> s)])"

subsection \<open>Targets\<close>

datatype target = TDevice enrolled_device | TUser enrolled_user enrolled_device

fun target_device :: "target \<Rightarrow> enrolled_device" where
  "target_device (TDevice d) = d"
| "target_device (TUser u d) = d"

fun target_channel :: "target \<Rightarrow> channel" where
  "target_channel (TDevice d) = DeviceChannel"
| "target_channel (TUser u d) = UserChannel"

fun target_pk :: "target \<Rightarrow> nat" where
  "target_pk (TDevice d) = ed_pk d"
| "target_pk (TUser u d) = eu_pk u"

fun target_commands :: "target \<Rightarrow> artifact_db \<Rightarrow> db_command list" where
  "target_commands (TDevice d) db = device_commands db"
| "target_commands (TUser u d) db = user_commands db"

fun target_artifacts :: "target \<Rightarrow> artifact_db \<Rightarrow> target_artifact list" where
  "target_artifacts (TDevice d) db = device_artifacts db"
| "target_artifacts (TUser u d) db = user_artifacts db"

subsection \<open>The queries\<close>

text \<open>A row of \<open>blueprint_artifact_versions\<close>: the version with the columns of its blueprint row.\<close>

record bav_row =
  bav_version :: artifact_version
  bav_auto_update :: bool
  bav_priority :: nat

text \<open>\<open>rank() over (partition by artifact_id order by version desc) = 1\<close>.\<close>

definition latest_rows :: "('r \<Rightarrow> artifact_version) \<Rightarrow> 'r list \<Rightarrow> 'r list" where
  "latest_rows v rows =
     filter (\<lambda>r. list_all (\<lambda>q. av_artifact (v q) = av_artifact (v r) \<longrightarrow>
        av_version (v q) \<le> av_version (v r)) rows) rows"

definition blueprint_where :: "target \<Rightarrow> artifact \<Rightarrow> blueprint_artifact \<Rightarrow> bool" where
  "blueprint_where t a ba \<longleftrightarrow>
     a_channel a = target_channel t \<and> ed_platform (target_device t) \<in> set (a_platforms a) \<and>
     ed_blueprint (target_device t) = Some (ba_blueprint ba) \<and>
     (ed_awaiting_configuration (target_device t) = Some True \<longrightarrow> ba_install_before_setup_assistant ba)"

definition blueprint_artifact_versions :: "target \<Rightarrow> artifact_db \<Rightarrow> bav_row list" where
  "blueprint_artifact_versions t db =
     latest_rows bav_version
       [\<lparr>bav_version = av, bav_auto_update = ba_auto_update ba, bav_priority = ba_priority ba\<rparr>.
        av \<leftarrow> artifact_versions db, a \<leftarrow> artifacts db, a_pk a = av_artifact av,
        ba \<leftarrow> blueprint_artifacts db, ba_artifact ba = a_pk a, blueprint_where t a ba]"

definition target_artifact_versions :: "target \<Rightarrow> artifact_db \<Rightarrow> artifact_version list" where
  "target_artifact_versions t db =
     latest_rows id
       [av. av \<leftarrow> artifact_versions db, ta \<leftarrow> target_artifacts t db,
            ta_artifact_version ta = av_pk av, ta_target ta = target_pk t]"

definition failed_artifact_version_operations ::
  "target \<Rightarrow> artifact_operation \<Rightarrow> artifact_db \<Rightarrow> nat list" where
  "failed_artifact_version_operations t op db =
     remdups (List.map_filter (\<lambda>c.
       if cmd_target c = target_pk t \<and> cmd_artifact_operation c = Some op \<and> cmd_status c = Some ''Error''
       then cmd_artifact_version c else None) (target_commands t db))"

text \<open>
  \<open>_next_to\<close>: the rows of the query, without a limit or with \<open>limit 1\<close>. With no blueprint there
  is nothing to install, and no blueprint row keeps an installed version.
\<close>

definition installable :: "target \<Rightarrow> artifact_db \<Rightarrow> bav_row \<Rightarrow> bool" where
  "installable t db r \<longleftrightarrow>
     av_pk (bav_version r) \<notin> set (failed_artifact_version_operations t Installation db) \<and>
     (let tavs = filter (\<lambda>tav. av_artifact tav = av_artifact (bav_version r))
                   (target_artifact_versions t db)
      in tavs = [] \<or> list_ex (\<lambda>tav. av_pk (bav_version r) \<noteq> av_pk tav \<and> bav_auto_update r) tavs)"

definition next_to_install_rows :: "target \<Rightarrow> artifact_db \<Rightarrow> bav_row list" where
  "next_to_install_rows t db =
     sort_key (\<lambda>r. - int (bav_priority r))
       (sort_key (\<lambda>r. av_created_at (bav_version r))
         (filter (installable t db) (blueprint_artifact_versions t db)))"

definition next_to_install_all :: "target \<Rightarrow> artifact_db \<Rightarrow> artifact_version list option" where
  "next_to_install_all t db =
     (if ed_blueprint (target_device t) = None then None
      else Some (rev (remdups (rev (map bav_version (next_to_install_rows t db))))))"

definition next_to_install :: "target \<Rightarrow> artifact_db \<Rightarrow> artifact_version option" where
  "next_to_install t db =
     (if ed_blueprint (target_device t) = None then None
      else case next_to_install_rows t db of [] \<Rightarrow> None | r # _ \<Rightarrow> Some (bav_version r))"

definition removable :: "target \<Rightarrow> artifact_db \<Rightarrow> artifact_version \<Rightarrow> bool" where
  "removable t db tav \<longleftrightarrow>
     list_ex (\<lambda>a. a_pk a = av_artifact tav \<and> a_type a = Profile) (artifacts db) \<and>
     av_pk tav \<notin> set (failed_artifact_version_operations t Removal db) \<and>
     \<not> list_ex (\<lambda>r. av_artifact (bav_version r) = av_artifact tav) (blueprint_artifact_versions t db)"

definition next_to_remove_rows :: "target \<Rightarrow> artifact_db \<Rightarrow> artifact_version list" where
  "next_to_remove_rows t db =
     sort_key av_created_at (filter (removable t db) (target_artifact_versions t db))"

definition next_to_remove :: "target \<Rightarrow> artifact_db \<Rightarrow> artifact_version option" where
  "next_to_remove t db = (case next_to_remove_rows t db of [] \<Rightarrow> None | tav # _ \<Rightarrow> Some tav)"

definition latest_for_blueprint :: "nat \<Rightarrow> artifact_type option \<Rightarrow> artifact_db \<Rightarrow> (nat \<times> nat) list" where
  "latest_for_blueprint bp ty db =
     map (\<lambda>av. (av_artifact av, av_pk av))
       (latest_rows id
         [av. av \<leftarrow> artifact_versions db, a \<leftarrow> artifacts db, a_pk a = av_artifact av,
              ba \<leftarrow> blueprint_artifacts db, ba_artifact ba = a_pk a, ba_blueprint ba = bp,
              (case ty of None \<Rightarrow> True | Some k \<Rightarrow> a_type a = k)])"

end
