(* ===== verification/MdmCommands.thy ===== *)
theory MdmCommands imports MdmArtifacts begin

text \<open>
  The commands of \<open>zentral/contrib/mdm/commands\<close>: which channel and device a command is for, how
  it is queued, what an acknowledgement changes, and which command a connected device gets next
  (\<open>commands/base.py\<close>, \<open>commands/utils.py\<close> and one file per command).
\<close>

subsection \<open>The registered commands\<close>

datatype request =
    AccountConfiguration | DeclarativeManagement | DeviceConfigured | DeviceInformation
  | InstallEnterpriseApplication | InstallProfile | InstalledApplicationList | RemoveProfile

fun request_type :: "request \<Rightarrow> string" where
  "request_type AccountConfiguration = ''AccountConfiguration''"
| "request_type DeclarativeManagement = ''DeclarativeManagement''"
| "request_type DeviceConfigured = ''DeviceConfigured''"
| "request_type DeviceInformation = ''DeviceInformation''"
| "request_type InstallEnterpriseApplication = ''InstallEnterpriseApplication''"
| "request_type InstallProfile = ''InstallProfile''"
| "request_type InstalledApplicationList = ''InstalledApplicationList''"
| "request_type RemoveProfile = ''RemoveProfile''"

definition registered_commands :: "request list" where
  "registered_commands = [InstalledApplicationList, AccountConfiguration, DeclarativeManagement,
     DeviceConfigured, DeviceInformation, InstallEnterpriseApplication, InstallProfile, RemoveProfile]"

definition registered :: "string \<Rightarrow> request option" where
  "registered name = find (\<lambda>r. request_type r = name) registered_commands"

fun allowed_channels :: "request \<Rightarrow> channel list" where
  "allowed_channels AccountConfiguration = [DeviceChannel]"
| "allowed_channels DeclarativeManagement = [DeviceChannel]"
| "allowed_channels InstallEnterpriseApplication = [DeviceChannel]"
| "allowed_channels _ = [DeviceChannel, UserChannel]"

fun allowed_platforms :: "request \<Rightarrow> platform list" where
  "allowed_platforms AccountConfiguration = [macOS]"
| "allowed_platforms DeclarativeManagement = [iOS, iPadOS]"
| "allowed_platforms InstallEnterpriseApplication = [macOS]"
| "allowed_platforms _ = [iOS, iPadOS, macOS, tvOS]"

fun command_artifact_operation :: "request \<Rightarrow> artifact_operation option" where
  "command_artifact_operation InstallEnterpriseApplication = Some Installation"
| "command_artifact_operation InstallProfile = Some Installation"
| "command_artifact_operation RemoveProfile = Some Removal"
| "command_artifact_operation _ = None"

definition verify_channel_and_device :: "request \<Rightarrow> channel \<Rightarrow> enrolled_device \<Rightarrow> bool" where
  "verify_channel_and_device r c d \<longleftrightarrow>
     c \<in> set (allowed_channels r) \<and> ed_platform d \<in> set (allowed_platforms r)"

subsection \<open>State\<close>

text \<open>
  \<open>mdm_apps\<close> gives the bundles of an enterprise application, an identifier and a version string
  each, by artifact version. The effects are the notifications queued on commit and the
  inventory trees committed.
\<close>

datatype mdm_effect = Notify nat nat | CommitTree nat pyval

record mdm_db =
  mdm_artifacts :: artifact_db
  mdm_devices :: "enrolled_device list"
  mdm_blueprints :: "blueprint list"
  mdm_apps :: "(nat \<times> (string \<times> string) list) list"
  mdm_next_uuid :: nat
  mdm_effects :: "mdm_effect list"

fun update_commands :: "channel \<Rightarrow> (db_command list \<Rightarrow> db_command list) \<Rightarrow> artifact_db \<Rightarrow> artifact_db" where
  "update_commands DeviceChannel f db = db\<lparr>device_commands := f (device_commands db)\<rparr>"
| "update_commands UserChannel f db = db\<lparr>user_commands := f (user_commands db)\<rparr>"

fun update_target_artifacts ::
  "channel \<Rightarrow> (target_artifact list \<Rightarrow> target_artifact list) \<Rightarrow> artifact_db \<Rightarrow> artifact_db" where
  "update_target_artifacts DeviceChannel f db = db\<lparr>device_artifacts := f (device_artifacts db)\<rparr>"
| "update_target_artifacts UserChannel f db = db\<lparr>user_artifacts := f (user_artifacts db)\<rparr>"

fun channel_commands :: "channel \<Rightarrow> artifact_db \<Rightarrow> db_command list" where
  "channel_commands DeviceChannel db = device_commands db"
| "channel_commands UserChannel db = user_commands db"

fun channel_artifacts :: "channel \<Rightarrow> artifact_db \<Rightarrow> target_artifact list" where
  "channel_artifacts DeviceChannel db = device_artifacts db"
| "channel_artifacts UserChannel db = user_artifacts db"

definition save_command :: "channel \<Rightarrow> db_command \<Rightarrow> mdm_db \<Rightarrow> mdm_db" where
  "save_command c cmd db = db\<lparr>mdm_artifacts :=
     update_commands c (update_where (\<lambda>x. cmd_uuid x = cmd_uuid cmd) (\<lambda>_. cmd)) (mdm_artifacts db)\<rparr>"

definition save_mdm_device :: "enrolled_device \<Rightarrow> mdm_db \<Rightarrow> mdm_db" where
  "save_mdm_device d db =
     db\<lparr>mdm_devices := update_where (\<lambda>x. ed_pk x = ed_pk d) (\<lambda>_. d) (mdm_devices db)\<rparr>"

definition artifact_of_version :: "nat \<Rightarrow> artifact_db \<Rightarrow> nat option" where
  "artifact_of_version v db = map_option av_artifact (find (\<lambda>av. av_pk av = v) (artifact_versions db))"

subsection \<open>Creating a command\<close>

definition create_for_target ::
  "int \<Rightarrow> request \<Rightarrow> target \<Rightarrow> nat option \<Rightarrow> nat option \<Rightarrow> bool \<Rightarrow> nat option \<Rightarrow> mdm_db \<Rightarrow>
   pyerror + db_command \<times> mdm_db" where
  "create_for_target now r t version retries queue delay db =
     (let c = target_channel t; delayed = (case delay of None \<Rightarrow> False | Some n \<Rightarrow> n \<noteq> 0) in
      if \<not> verify_channel_and_device r c (target_device t) then Inl ValueError
      else if \<not> queue \<and> delayed then Inl ValueError
      else
        (let cmd = \<lparr>cmd_uuid = mdm_next_uuid db, cmd_target = target_pk t, cmd_name = request_type r,
                    cmd_artifact_version = version,
                    cmd_artifact_operation = command_artifact_operation r, cmd_retries = retries,
                    cmd_not_before = (if queue \<and> delayed then Some (now + int (the delay)) else None),
                    cmd_time = (if queue then None else Some now), cmd_result_time = None,
                    cmd_status = None, cmd_error_chain = None, cmd_created_at = now\<rparr>
         in Inr (cmd, db\<lparr>mdm_next_uuid := Suc (mdm_next_uuid db),
              mdm_artifacts := update_commands c (\<lambda>cs. cs @ [cmd]) (mdm_artifacts db)\<rparr>)))"

definition set_time :: "int \<Rightarrow> channel \<Rightarrow> db_command \<Rightarrow> mdm_db \<Rightarrow> pyerror + db_command \<times> mdm_db" where
  "set_time now c cmd db =
     (if cmd_time cmd \<noteq> None then Inl ValueError
      else (let cmd' = cmd\<lparr>cmd_time := Some now\<rparr> in Inr (cmd', save_command c cmd' db)))"

definition load_command :: "db_command \<Rightarrow> pyerror + request" where
  "load_command cmd = (case registered (cmd_name cmd) of None \<Rightarrow> Inl ValueError | Some r \<Rightarrow> Inr r)"

definition get_command :: "channel \<Rightarrow> nat \<Rightarrow> mdm_db \<Rightarrow> pyerror + (request \<times> db_command) option" where
  "get_command c uuid db =
     (case get_one (\<lambda>x. cmd_uuid x = uuid) (channel_commands c (mdm_artifacts db)) of
        Inl DoesNotExist \<Rightarrow> Inr None
      | Inl e \<Rightarrow> Inl e
      | Inr cmd \<Rightarrow> Inr (map_option (\<lambda>r. (r, cmd)) (registered (cmd_name cmd))))"

subsection \<open>Acknowledgements\<close>

record installed_app =
  app_identifier :: "string option"
  app_short_version :: "string option"
  app_download_waiting :: bool
  app_download_paused :: bool
  app_installing :: bool
  app_download_cancelled :: bool
  app_download_failed :: bool

record mdm_response =
  rs_status :: string
  rs_error_chain :: "pyval option"
  rs_installed_application_list :: "installed_app list option"
  rs_query_responses :: "pyval option"

text \<open>\<open>update_or_create\<close> of a target artifact.\<close>

definition update_or_create_ta ::
  "(target_artifact \<Rightarrow> bool) \<Rightarrow> (target_artifact \<Rightarrow> target_artifact) \<Rightarrow> target_artifact \<Rightarrow>
   target_artifact list \<Rightarrow> pyerror + target_artifact list" where
  "update_or_create_ta p f new rows =
     (case get_one p rows of
        Inr r \<Rightarrow> Inr (update_where p f rows)
      | Inl DoesNotExist \<Rightarrow> Inr (rows @ [new])
      | Inl e \<Rightarrow> Inl e)"

definition on_channel_artifacts ::
  "channel \<Rightarrow> (target_artifact list \<Rightarrow> pyerror + target_artifact list) \<Rightarrow> mdm_db \<Rightarrow> pyerror + mdm_db" where
  "on_channel_artifacts c f db =
     bind_result (f (channel_artifacts c (mdm_artifacts db))) (\<lambda>rows.
       Inr (db\<lparr>mdm_artifacts := update_target_artifacts c (\<lambda>_. rows) (mdm_artifacts db)\<rparr>))"

text \<open>The version a command is about, and its artifact: an attribute error when it has none.\<close>

definition command_version :: "db_command \<Rightarrow> mdm_db \<Rightarrow> pyerror + nat \<times> nat" where
  "command_version cmd db =
     (case cmd_artifact_version cmd of
        None \<Rightarrow> Inl AttributeError
      | Some v \<Rightarrow> (case artifact_of_version v (mdm_artifacts db) of
          None \<Rightarrow> Inl DoesNotExist | Some a \<Rightarrow> Inr (v, a)))"

definition of_artifact :: "nat \<Rightarrow> nat \<Rightarrow> mdm_db \<Rightarrow> target_artifact \<Rightarrow> bool" where
  "of_artifact tpk a db ta \<longleftrightarrow>
     ta_target ta = tpk \<and> artifact_of_version (ta_artifact_version ta) (mdm_artifacts db) = Some a"

definition install_profile_acknowledged ::
  "channel \<Rightarrow> db_command \<Rightarrow> mdm_db \<Rightarrow> pyerror + mdm_db" where
  "install_profile_acknowledged c cmd db =
     bind_result (command_version cmd db) (\<lambda>(v, a).
       on_channel_artifacts c
         (update_or_create_ta (of_artifact (cmd_target cmd) a db)
            (\<lambda>ta. ta\<lparr>ta_artifact_version := v\<rparr>)
            \<lparr>ta_target = cmd_target cmd, ta_artifact_version = v, ta_status = Acknowledged\<rparr>) db)"

definition remove_profile_acknowledged ::
  "channel \<Rightarrow> db_command \<Rightarrow> mdm_db \<Rightarrow> pyerror + mdm_db" where
  "remove_profile_acknowledged c cmd db =
     (if cmd_artifact_version cmd = None then Inr db
      else bind_result (command_version cmd db) (\<lambda>(v, a).
        on_channel_artifacts c (\<lambda>rows. Inr (delete_where (of_artifact (cmd_target cmd) a db) rows)) db))"

text \<open>The rows of the other versions are deleted, and the one of this version written.\<close>

definition keep_only_version ::
  "nat \<Rightarrow> nat \<Rightarrow> nat \<Rightarrow> target_artifact_status \<Rightarrow> mdm_db \<Rightarrow> pyerror + mdm_db" where
  "keep_only_version dev v a status db =
     on_channel_artifacts DeviceChannel
       (\<lambda>rows. update_or_create_ta (\<lambda>ta. ta_target ta = dev \<and> ta_artifact_version ta = v)
          (\<lambda>ta. ta\<lparr>ta_status := status\<rparr>)
          \<lparr>ta_target = dev, ta_artifact_version = v, ta_status = status\<rparr>
          (delete_where (\<lambda>ta. of_artifact dev a db ta \<and> ta_artifact_version ta \<noteq> v) rows)) db"

definition first_delay_seconds :: nat where "first_delay_seconds = 15"

definition queue_installed_application_list ::
  "int \<Rightarrow> enrolled_device \<Rightarrow> nat \<Rightarrow> nat option \<Rightarrow> mdm_db \<Rightarrow> pyerror + mdm_db" where
  "queue_installed_application_list now d v retries db =
     bind_result (create_for_target now InstalledApplicationList (TDevice d) (Some v) retries True
                    (Some first_delay_seconds) db)
       (\<lambda>(cmd, db'). Inr (db'\<lparr>mdm_effects := mdm_effects db' @ [Notify (ed_pk d) first_delay_seconds]\<rparr>))"

definition install_enterprise_application_acknowledged ::
  "int \<Rightarrow> enrolled_device \<Rightarrow> db_command \<Rightarrow> mdm_db \<Rightarrow> pyerror + mdm_db" where
  "install_enterprise_application_acknowledged now d cmd db =
     bind_result (command_version cmd db) (\<lambda>(v, a).
       case dict_get (mdm_apps db) v of
         None \<Rightarrow> Inl DoesNotExist
       | Some bundles \<Rightarrow>
           if bundles \<noteq> [] then
             bind_result (on_channel_artifacts DeviceChannel
                 (update_or_create_ta (\<lambda>ta. ta_target ta = ed_pk d \<and> ta_artifact_version ta = v)
                    (\<lambda>ta. ta\<lparr>ta_status := AwaitingConfirmation\<rparr>)
                    \<lparr>ta_target = ed_pk d, ta_artifact_version = v, ta_status = AwaitingConfirmation\<rparr>) db)
               (queue_installed_application_list now d v None)
           else keep_only_version (ed_pk d) v a Acknowledged db)"

text \<open>The loop over the applications of the response: found, error and installed.\<close>

fun scan_apps ::
  "(string \<times> string) list \<Rightarrow> installed_app list \<Rightarrow> bool \<times> bool \<times> bool \<Rightarrow>
   pyerror + bool \<times> bool \<times> bool" where
  "scan_apps keys [] st = Inr st"
| "scan_apps keys (app # apps) (found, error, installed) =
     (case (app_identifier app, app_short_version app) of
        (None, _) \<Rightarrow> Inl (KeyError ''Identifier'')
      | (_, None) \<Rightarrow> Inl (KeyError ''ShortVersion'')
      | (Some i, Some v) \<Rightarrow>
          if (i, v) \<notin> set keys then scan_apps keys apps (found, error, installed)
          else if app_download_waiting app \<or> app_download_paused app \<or> app_installing app then
            scan_apps keys apps (True, error, False)
          else if app_download_cancelled app \<or> app_download_failed app then Inr (True, True, installed)
          else scan_apps keys apps (True, error, installed))"

definition installed_application_list_acknowledged ::
  "int \<Rightarrow> enrolled_device \<Rightarrow> db_command \<Rightarrow> mdm_response \<Rightarrow> mdm_db \<Rightarrow> pyerror + mdm_db" where
  "installed_application_list_acknowledged now d cmd rs db =
     (case cmd_artifact_version cmd of
        None \<Rightarrow> Inr db
      | Some _ \<Rightarrow>
          bind_result (command_version cmd db) (\<lambda>(v, a).
          case dict_get (mdm_apps db) v of
            None \<Rightarrow> Inl DoesNotExist
          | Some keys \<Rightarrow>
              if keys = [] then Inr db
              else
                bind_result (scan_apps keys
                    (case rs_installed_application_list rs of None \<Rightarrow> [] | Some l \<Rightarrow> l)
                    (False, False, True)) (\<lambda>(found, error, installed).
                  if found \<and> installed then keep_only_version (ed_pk d) v a Installed db
                  else if error then
                    on_channel_artifacts DeviceChannel (\<lambda>rows. Inr (delete_where
                      (\<lambda>ta. ta_target ta = ed_pk d \<and> ta_artifact_version ta = v) rows)) db
                  else
                    (let retries = (case cmd_retries cmd of None \<Rightarrow> 0 | Some n \<Rightarrow> n) in
                     if retries \<ge> 10 then Inr db
                     else queue_installed_application_list now d v (Some (retries + 1)) db))))"

definition device_configured_acknowledged :: "enrolled_device \<Rightarrow> mdm_db \<Rightarrow> mdm_db" where
  "device_configured_acknowledged d db =
     (if ed_awaiting_configuration d = Some True
      then save_mdm_device (d\<lparr>ed_awaiting_configuration := Some False\<rparr>) db else db)"

definition device_blueprint :: "enrolled_device \<Rightarrow> mdm_db \<Rightarrow> blueprint option" where
  "device_blueprint d db =
     (case ed_blueprint d of None \<Rightarrow> None | Some b \<Rightarrow> find (\<lambda>x. bp_pk x = b) (mdm_blueprints db))"

definition declarative_management_acknowledged ::
  "(string \<Rightarrow> string option) \<Rightarrow> enrolled_device \<Rightarrow> mdm_db \<Rightarrow> pyerror + mdm_db" where
  "declarative_management_acknowledged parse_uuid d db =
     (let d1 = d\<lparr>ed_declarative_management := True\<rparr> in
      case device_blueprint d db of
        None \<Rightarrow> Inr (if d1 \<noteq> d then save_mdm_device d1 db else db)
      | Some bp \<Rightarrow>
          bind_result (declarations_token parse_uuid bp) (\<lambda>token.
            (let d2 = d1\<lparr>ed_declarations_token := Some token\<rparr>
             in Inr (if d2 \<noteq> d then save_mdm_device d2 db else db))))"

definition device_information_acknowledged :: "enrolled_device \<Rightarrow> mdm_response \<Rightarrow> mdm_db \<Rightarrow> mdm_db" where
  "device_information_acknowledged d rs db =
     (case rs_query_responses rs of
        None \<Rightarrow> db
      | Some q \<Rightarrow> if truthy q then db\<lparr>mdm_effects := mdm_effects db @ [CommitTree (ed_pk d) q]\<rparr> else db)"

fun command_acknowledged ::
  "int \<Rightarrow> (string \<Rightarrow> string option) \<Rightarrow> request \<Rightarrow> target \<Rightarrow> db_command \<Rightarrow> mdm_response \<Rightarrow> mdm_db \<Rightarrow>
   pyerror + mdm_db" where
  "command_acknowledged now parse_uuid InstallProfile t cmd rs db =
     install_profile_acknowledged (target_channel t) cmd db"
| "command_acknowledged now parse_uuid RemoveProfile t cmd rs db =
     remove_profile_acknowledged (target_channel t) cmd db"
| "command_acknowledged now parse_uuid InstallEnterpriseApplication t cmd rs db =
     install_enterprise_application_acknowledged now (target_device t) cmd db"
| "command_acknowledged now parse_uuid InstalledApplicationList t cmd rs db =
     installed_application_list_acknowledged now (target_device t) cmd rs db"
| "command_acknowledged now parse_uuid DeviceConfigured t cmd rs db =
     Inr (device_configured_acknowledged (target_device t) db)"
| "command_acknowledged now parse_uuid DeclarativeManagement t cmd rs db =
     declarative_management_acknowledged parse_uuid (target_device t) db"
| "command_acknowledged now parse_uuid DeviceInformation t cmd rs db =
     Inr (device_information_acknowledged (target_device t) rs db)"
| "command_acknowledged now parse_uuid AccountConfiguration t cmd rs db = Inr db"

text \<open>A command that already has a result is not processed again.\<close>

definition process_response ::
  "int \<Rightarrow> (string \<Rightarrow> string option) \<Rightarrow> request \<Rightarrow> target \<Rightarrow> db_command \<Rightarrow> mdm_response \<Rightarrow> mdm_db \<Rightarrow>
   pyerror + mdm_db" where
  "process_response now parse_uuid r t cmd rs db =
     (if cmd_result_time cmd \<noteq> None then Inr db
      else
        (let cmd' = cmd\<lparr>cmd_result_time := Some now, cmd_status := Some (rs_status rs),
                       cmd_error_chain := rs_error_chain rs\<rparr>;
             db' = save_command (target_channel t) cmd' db
         in if rs_status rs = command_status_str StatusAcknowledged
            then command_acknowledged now parse_uuid r t cmd' rs db' else Inr db'))"

subsection \<open>The next command\<close>

text \<open>What the functions read of the enrollment session; only a DEP session has an enrollment here.\<close>

record command_session =
  cs_dep_enrollment :: "dep_enrollment option"
  cs_realm_user :: "realm_user option"
  cs_managed_apple_id :: "string option"

type_synonym next_command = "pyerror + (request \<times> db_command) option \<times> mdm_db"

definition created :: "request \<Rightarrow> pyerror + db_command \<times> mdm_db \<Rightarrow> next_command" where
  "created r res = bind_result res (\<lambda>(cmd, db). Inr (Some (r, cmd), db))"

text \<open>The oldest command queued and due, in the order of creation.\<close>

definition get_next_queued_command :: "int \<Rightarrow> target \<Rightarrow> mdm_db \<Rightarrow> next_command" where
  "get_next_queued_command now t db =
     (case sort_key cmd_created_at (filter (\<lambda>c. cmd_target c = target_pk t \<and> cmd_time c = None \<and>
              (case cmd_not_before c of None \<Rightarrow> True | Some nb \<Rightarrow> nb \<le> now))
            (target_commands t (mdm_artifacts db))) of
        [] \<Rightarrow> Inr (None, db)
      | cmd # _ \<Rightarrow>
          bind_result (load_command cmd) (\<lambda>r. created r (set_time now (target_channel t) cmd db)))"

definition configure_dep_enrollment_accounts ::
  "int \<Rightarrow> command_session \<Rightarrow> target \<Rightarrow> mdm_db \<Rightarrow> next_command" where
  "configure_dep_enrollment_accounts now s t db =
     (let d = target_device t; skip = Inr (None, db) in
      if target_channel t \<noteq> DeviceChannel then skip
      else if ed_awaiting_configuration d \<noteq> Some True then skip
      else case cs_dep_enrollment s of
        None \<Rightarrow> skip
      | Some e \<Rightarrow>
          if \<not> requires_account_configuration e then skip
          else if cs_realm_user s = None then skip
          else if list_ex (\<lambda>c. cmd_name c = request_type AccountConfiguration \<and>
                      cmd_target c = ed_pk d \<and>
                      cmd_status c = Some (command_status_str StatusAcknowledged))
                    (device_commands (mdm_artifacts db)) then skip
          else created AccountConfiguration
                 (create_for_target now AccountConfiguration (TDevice d) None None False (Some 0) db))"

definition renew_mdm_payload :: "target \<Rightarrow> mdm_db \<Rightarrow> next_command" where
  "renew_mdm_payload t db = Inr (None, db)"

definition version_type :: "artifact_version \<Rightarrow> mdm_db \<Rightarrow> artifact_type option" where
  "version_type av db =
     map_option a_type (find (\<lambda>a. a_pk a = av_artifact av) (artifacts (mdm_artifacts db)))"

definition install_artifacts :: "int \<Rightarrow> target \<Rightarrow> mdm_db \<Rightarrow> next_command" where
  "install_artifacts now t db =
     (if ed_declarative_management (target_device t) then Inr (None, db)
      else case next_to_install t (mdm_artifacts db) of
        None \<Rightarrow> Inr (None, db)
      | Some av \<Rightarrow>
          (case version_type av db of
             None \<Rightarrow> Inl DoesNotExist
           | Some ty \<Rightarrow>
               (let r = (case ty of Profile \<Rightarrow> InstallProfile | EnterpriseApp \<Rightarrow> InstallEnterpriseApplication)
                in created r (create_for_target now r t (Some (av_pk av)) None False (Some 0) db))))"

definition remove_artifacts :: "int \<Rightarrow> target \<Rightarrow> mdm_db \<Rightarrow> next_command" where
  "remove_artifacts now t db =
     (if ed_declarative_management (target_device t) then Inr (None, db)
      else case next_to_remove t (mdm_artifacts db) of
        None \<Rightarrow> Inr (None, db)
      | Some av \<Rightarrow>
          (case version_type av db of
             None \<Rightarrow> Inl DoesNotExist
           | Some Profile \<Rightarrow>
               created RemoveProfile (create_for_target now RemoveProfile t (Some (av_pk av)) None False (Some 0) db)
           | Some EnterpriseApp \<Rightarrow> Inl ValueError))"

definition trigger_declarative_management ::
  "int \<Rightarrow> (string \<Rightarrow> string option) \<Rightarrow> target \<Rightarrow> mdm_db \<Rightarrow> next_command" where
  "trigger_declarative_management now parse_uuid t db =
     (let d = target_device t in
      if \<not> ed_declarative_management d then Inr (None, db)
      else if target_channel t \<noteq> DeviceChannel then Inr (None, db)
      else case device_blueprint d db of
        None \<Rightarrow> Inr (None, db)
      | Some bp \<Rightarrow>
          bind_result (declarations_token parse_uuid bp) (\<lambda>token.
            if ed_declarations_token d \<noteq> Some token
            then created DeclarativeManagement
                   (create_for_target now DeclarativeManagement (TDevice d) None None False (Some 0) db)
            else Inr (None, db)))"

definition finish_dep_enrollment_configuration :: "int \<Rightarrow> target \<Rightarrow> mdm_db \<Rightarrow> next_command" where
  "finish_dep_enrollment_configuration now t db =
     (let d = target_device t in
      if target_channel t \<noteq> DeviceChannel then Inr (None, db)
      else if ed_awaiting_configuration d \<noteq> Some True then Inr (None, db)
      else created DeviceConfigured
             (create_for_target now DeviceConfigured (TDevice d) None None False (Some 0) db))"

text \<open>The first function that has a command answers; \<open>None\<close> is the empty response.\<close>

fun first_command :: "(mdm_db \<Rightarrow> next_command) list \<Rightarrow> mdm_db \<Rightarrow> next_command" where
  "first_command [] db = Inr (None, db)"
| "first_command (f # fs) db =
     (case f db of
        Inl e \<Rightarrow> Inl e
      | Inr (Some cmd, db') \<Rightarrow> Inr (Some cmd, db')
      | Inr (None, db') \<Rightarrow> first_command fs db')"

definition next_command_funcs ::
  "int \<Rightarrow> (string \<Rightarrow> string option) \<Rightarrow> command_session \<Rightarrow> target \<Rightarrow> (mdm_db \<Rightarrow> next_command) list" where
  "next_command_funcs now parse_uuid s t =
     [get_next_queued_command now t, configure_dep_enrollment_accounts now s t, renew_mdm_payload t,
      install_artifacts now t, remove_artifacts now t,
      trigger_declarative_management now parse_uuid t, finish_dep_enrollment_configuration now t]"

definition get_next_command ::
  "int \<Rightarrow> (string \<Rightarrow> string option) \<Rightarrow> command_session \<Rightarrow> target \<Rightarrow> mdm_db \<Rightarrow> next_command" where
  "get_next_command now parse_uuid s t db = first_command (next_command_funcs now parse_uuid s t) db"

subsection \<open>Building a command\<close>

text \<open>\<open>substitute_variables\<close>: the variables of a profile, replaced in every string, in this order.\<close>

definition substitute_str ::
  "enrolled_device \<Rightarrow> command_session \<Rightarrow> enrolled_user option \<Rightarrow> string \<Rightarrow> string" where
  "substitute_str d s u str =
     fold (\<lambda>(var, val). replace_all var val)
       ([(''$ENROLLED_DEVICE.SERIAL_NUMBER'', ed_serial_number d), (''$ENROLLED_DEVICE.UDID'', ed_udid d)] @
        (case u of None \<Rightarrow> []
         | Some eu \<Rightarrow> [(''$ENROLLED_USER.LONG_NAME'', eu_long_name eu),
                      (''$ENROLLED_USER.SHORT_NAME'', eu_short_name eu)]) @
        (case cs_realm_user s of None \<Rightarrow> []
         | Some ru \<Rightarrow>
             [(''$REALM_USER.USERNAME'', ru_username ru), (''$REALM_USER.DEVICE_USERNAME'', device_username ru),
              (''$REALM_USER.EMAIL_PREFIX'', email_prefix ru), (''$REALM_USER.EMAIL_PREFIX'', email_prefix ru),
              (''$REALM_USER.EMAIL'', ru_email ru), (''$REALM_USER.EMAIL'', ru_email ru),
              (''$REALM_USER.FIRST_NAME'', ru_first_name ru), (''$REALM_USER.LAST_NAME'', ru_last_name ru),
              (''$REALM_USER.FULL_NAME'', ru_full_name ru)]) @
        (case cs_managed_apple_id s of None \<Rightarrow> []
         | Some m \<Rightarrow> if m \<noteq> [] then [(''$MANAGED_APPLE_ID.EMAIL'', m)] else [])) str"

fun substitute_variables :: "(string \<Rightarrow> string) \<Rightarrow> pyval \<Rightarrow> pyval" where
  "substitute_variables f (PStr s) = PStr (f s)"
| "substitute_variables f (PList vs) = PList (map (substitute_variables f) vs)"
| "substitute_variables f (PDict kvs) = PDict (map (\<lambda>(k, v). (k, substitute_variables f v)) kvs)"
| "substitute_variables f PNone = PNone"
| "substitute_variables f (PBool b) = PBool b"
| "substitute_variables f (PInt i) = PInt i"
| "substitute_variables f (PTime t) = PTime t"

text \<open>
  \<open>AccountConfiguration.build_command\<close>; \<open>serialize_hash\<close> is the plist encoding of the password
  hash. A realm user is read before its presence is tested.
\<close>

definition build_account_configuration ::
  "(dict \<Rightarrow> string) \<Rightarrow> command_session \<Rightarrow> pyerror + dict" where
  "build_account_configuration serialize_hash s =
     (case cs_dep_enrollment s of
        None \<Rightarrow> Inl ValueError
      | Some e \<Rightarrow>
          bind_result
            (if de_use_realm_user e \<and> de_realm_user_is_admin e then
               (case cs_realm_user s of
                  None \<Rightarrow> Inl AttributeError
                | Some u \<Rightarrow>
                    (case ru_password_hash u of
                       Some (h # hs) \<Rightarrow>
                         Inr [(''DontAutoPopulatePrimaryAccountInfo'', PBool True),
                              (''AutoSetupAdminAccounts'', PList [PDict
                                 [(''fullName'', PStr (get_full_name u)),
                                  (''shortName'', PStr (device_username u)), (''hidden'', PBool False),
                                  (''passwordHash'', PStr (serialize_hash (h # hs)))]])]
                     | _ \<Rightarrow>
                         Inr [(''DontAutoPopulatePrimaryAccountInfo'', PBool False),
                              (''AutoSetupAdminAccounts'', PList []),
                              (''PrimaryAccountFullName'', PStr (get_full_name u)),
                              (''PrimaryAccountUserName'', PStr (device_username u)),
                              (''SetPrimarySetupAccountAsRegularUser'', PBool False)]))
             else Inr [(''DontAutoPopulatePrimaryAccountInfo'', PBool True),
                       (''AutoSetupAdminAccounts'', PList [])])
            (\<lambda>command.
              (let auto_populate =
                 (dict_get command ''DontAutoPopulatePrimaryAccountInfo'' = Some (PBool False))
               in Inr (command @ [(''LockPrimaryAccountInfo'', PBool auto_populate),
                                  (''SkipPrimarySetupAccountCreation'', PBool (\<not> auto_populate))]))))"

text \<open>
  The device information queries. Two string literals without a comma between them are one
  string in Python.
\<close>

definition device_information_queries :: "string list" where
  "device_information_queries =
     [''ActiveManagedUsers'', ''AppAnalyticsEnabled'', ''AutoSetupAdminAccounts'',
      ''AvailableDeviceCapacity'', ''AwaitingConfiguration'', ''BatteryLevel'', ''BluetoothMAC'',
      ''BuildVersion'', ''CarrierSettingsVersion'', ''CellularTechnology'',
      ''CurrentCarrierNetwork'', ''CurrentMCC'', ''CurrentMNC'', ''DataRoamingEnabled'',
      ''DeviceCapacity'', ''DeviceID'', ''DeviceName'', ''DiagnosticSubmissionEnabled'',
      ''EASDeviceIdentifier'', ''EstimatedResidentUsers'', ''EthernetMAC'', ''EthernetMACs'',
      ''HostName'', ''ICCID'', ''IMEI'', ''IsActivationLockEnabled'',
      ''IsActivationLockSupported'', ''IsAppleSilicon'', ''IsCloudBackupEnabled'',
      ''IsDeviceLocatorServiceEnabled'', ''IsDoNotDisturbInEffect'', ''IsMDMLostModeEnabled'',
      ''IsMultiUser'', ''IsNetworkTethered'', ''IsRoaming'', ''IsSupervised'',
      ''iTunesStoreAccountHash'', ''iTunesStoreAccountIsActiveLastCloudBackupDate'',
      ''LocalHostName'', ''MaximumResidentUsers'', ''MDMOptions'', ''MEID'', ''Model'',
      ''ModelName'', ''ModemFirmwareVersion'', ''OrganizationInfo'', ''OSUpdateSettings'',
      ''OSVersion'', ''PersonalHotspotEnabled'', ''PhoneNumber'', ''PINRequiredForDeviceLock'',
      ''PINRequiredForEraseDevice'', ''ProductName'', ''ProvisioningUDID'', ''PushToken'',
      ''QuotaSize'', ''ResidentUsers'', ''SerialNumber'', ''ServiceSubscriptions'',
      ''SoftwareUpdateDeviceID'', ''SubscriberCarrierNetwork'', ''SubscriberMCC'',
      ''SubscriberMNC'', ''SupportsiOSAppInstalls'', ''SupportsLOMDevice'',
      ''SystemIntegrityProtectionEnabled'', ''TemporarySessionOnly'',
      ''TemporarySessionTimeout'', ''TimeZone'', ''UDID'', ''UserSessionTimeout'',
      ''VoiceRoamingEnabled'', ''WiFiMAC'']"

end
