(* ===== verification/MdmConvergence.thy ===== *)
theory MdmConvergence imports MdmCommands begin

text \<open>
  What the artifact queries and the acknowledgements achieve together: a device that acknowledges
  every profile ends up with the latest version of every artifact of its blueprint, in at most
  one round per artifact; a failed installation is not sent again, a command the device could
  not read is.
\<close>

subsection \<open>The rows of the queries\<close>

lemma set_latest_rows:
  "set (latest_rows v rows) = {r \<in> set rows. \<forall>q \<in> set rows.
     av_artifact (v q) = av_artifact (v r) \<longrightarrow> av_version (v q) \<le> av_version (v r)}"
  by (auto simp: latest_rows_def list_all_iff)

lemma latest_rows_same:
  assumes "r \<in> set (latest_rows v rows)" "q \<in> set (latest_rows v rows)"
    "av_artifact (v r) = av_artifact (v q)"
  shows "av_version (v r) = av_version (v q)"
proof (rule antisym)
  show "av_version (v r) \<le> av_version (v q)" "av_version (v q) \<le> av_version (v r)"
    using assms unfolding set_latest_rows by simp_all
qed

definition artifact_tables_wf :: "artifact_db \<Rightarrow> bool" where
  "artifact_tables_wf db \<longleftrightarrow>
     distinct (map av_pk (artifact_versions db)) \<and>
     distinct (map (\<lambda>av. (av_artifact av, av_version av)) (artifact_versions db))"

text \<open>A target has one version of an artifact, and every row names a version that exists.\<close>

definition target_wf :: "target \<Rightarrow> artifact_db \<Rightarrow> bool" where
  "target_wf t db \<longleftrightarrow>
     (\<forall>ta \<in> set (target_artifacts t db). \<exists>av \<in> set (artifact_versions db). av_pk av = ta_artifact_version ta) \<and>
     unique_on (\<lambda>ta. ta_target ta = target_pk t)
       (\<lambda>ta. artifact_of_version (ta_artifact_version ta) db) (target_artifacts t db)"

lemma artifact_of_version_in:
  assumes "artifact_tables_wf db" "av \<in> set (artifact_versions db)"
  shows "artifact_of_version (av_pk av) db = Some (av_artifact av)"
proof -
  have d: "distinct (map av_pk (artifact_versions db))" using assms(1) by (simp add: artifact_tables_wf_def)
  obtain x where x: "find (\<lambda>x. av_pk x = av_pk av) (artifact_versions db) = Some x"
    using assms(2) by (cases "find (\<lambda>x. av_pk x = av_pk av) (artifact_versions db)") (auto simp: find_None_iff)
  then have "x \<in> set (artifact_versions db)" "av_pk x = av_pk av"
    by (auto simp: find_Some_iff)
  then have "x = av" using distinct_map_eqD [OF d _ assms(2)] by blast
  with x show ?thesis by (simp add: artifact_of_version_def)
qed

definition installed_on :: "target \<Rightarrow> artifact_db \<Rightarrow> artifact_version set" where
  "installed_on t db = {av \<in> set (artifact_versions db). \<exists>ta \<in> set (target_artifacts t db).
     ta_artifact_version ta = av_pk av \<and> ta_target ta = target_pk t}"

lemma installed_on_unique:
  assumes wf: "artifact_tables_wf db" "target_wf t db"
    and "x \<in> installed_on t db" "y \<in> installed_on t db" "av_artifact x = av_artifact y"
  shows "x = y"
proof -
  obtain ta tb where r: "ta \<in> set (target_artifacts t db)" "ta_artifact_version ta = av_pk x"
      "ta_target ta = target_pk t" "tb \<in> set (target_artifacts t db)"
      "ta_artifact_version tb = av_pk y" "ta_target tb = target_pk t"
    and v: "x \<in> set (artifact_versions db)" "y \<in> set (artifact_versions db)"
    using assms(3,4) by (auto simp: installed_on_def)
  have "ta = tb"
    by (rule unique_on_same_key [where c = "\<lambda>ta. ta_target ta = target_pk t"
          and key = "\<lambda>ta. artifact_of_version (ta_artifact_version ta) db"])
       (use wf(2) r v assms(5) in \<open>simp_all add: target_wf_def artifact_of_version_in [OF wf(1)]\<close>)
  then have "av_pk x = av_pk y" using r by simp
  then show ?thesis
    using distinct_map_eqD [of av_pk "artifact_versions db"] wf(1) v by (simp add: artifact_tables_wf_def)
qed

lemma set_target_artifact_versions:
  assumes "artifact_tables_wf db" "target_wf t db"
  shows "set (target_artifact_versions t db) = installed_on t db"
proof -
  have s: "set [av. av \<leftarrow> artifact_versions db, ta \<leftarrow> target_artifacts t db,
      ta_artifact_version ta = av_pk av, ta_target ta = target_pk t] = installed_on t db"
    by (auto simp: installed_on_def)
  show ?thesis
    unfolding target_artifact_versions_def set_latest_rows s
    using installed_on_unique [OF assms] by (auto simp: id_def)
qed

lemma blueprint_rows_same_artifact:
  assumes "artifact_tables_wf db" "r \<in> set (blueprint_artifact_versions t db)"
    "q \<in> set (blueprint_artifact_versions t db)"
    "av_artifact (bav_version r) = av_artifact (bav_version q)"
  shows "bav_version r = bav_version q"
proof -
  have le: "av_version (bav_version r) = av_version (bav_version q)"
    using latest_rows_same [where v = bav_version] assms(2-4)
    unfolding blueprint_artifact_versions_def by blast
  have "bav_version r \<in> set (artifact_versions db)" "bav_version q \<in> set (artifact_versions db)"
    using assms(2,3) unfolding blueprint_artifact_versions_def set_latest_rows by auto
  then show ?thesis
    using distinct_map_eqD [of "\<lambda>av. (av_artifact av, av_version av)" "artifact_versions db"]
      assms(1,4) le by (simp add: artifact_tables_wf_def)
qed

lemma blueprint_rows_version:
  "r \<in> set (blueprint_artifact_versions t db) \<Longrightarrow> bav_version r \<in> set (artifact_versions db)"
  by (auto simp: blueprint_artifact_versions_def set_latest_rows)

lemma installable_iff:
  assumes "artifact_tables_wf db" "target_wf t db"
  shows "installable t db r \<longleftrightarrow>
    av_pk (bav_version r) \<notin> set (failed_artifact_version_operations t Installation db) \<and>
    (\<forall>x \<in> installed_on t db. av_artifact x = av_artifact (bav_version r) \<longrightarrow>
       av_pk (bav_version r) \<noteq> av_pk x \<and> bav_auto_update r)"
proof -
  have s: "set (filter (\<lambda>tav. av_artifact tav = av_artifact (bav_version r)) (target_artifact_versions t db)) =
      {x \<in> installed_on t db. av_artifact x = av_artifact (bav_version r)}"
    using set_target_artifact_versions [OF assms] by auto
  have "filter (\<lambda>tav. av_artifact tav = av_artifact (bav_version r)) (target_artifact_versions t db) = [] \<longleftrightarrow>
      {x \<in> installed_on t db. av_artifact x = av_artifact (bav_version r)} = {}"
    unfolding s [symmetric] by (auto simp: filter_empty_conv)
  moreover have "x = y" if "x \<in> installed_on t db" "y \<in> installed_on t db"
    "av_artifact x = av_artifact (bav_version r)" "av_artifact y = av_artifact (bav_version r)" for x y
    using installed_on_unique [OF assms that(1,2)] that(3,4) by simp
  ultimately show ?thesis
    unfolding installable_def Let_def list_ex_iff s by blast
qed

lemma set_next_to_install_rows:
  "set (next_to_install_rows t db) = {r \<in> set (blueprint_artifact_versions t db). installable t db r}"
  by (simp add: next_to_install_rows_def)

lemma next_to_install_Some:
  assumes "next_to_install t db = Some av"
  obtains r where "r \<in> set (blueprint_artifact_versions t db)" "installable t db r" "bav_version r = av"
proof -
  obtain r rs where "next_to_install_rows t db = r # rs" "bav_version r = av"
    using assms by (auto simp: next_to_install_def split: list.splits if_splits)
  moreover from this have "r \<in> set (next_to_install_rows t db)" by simp
  ultimately show thesis using that unfolding set_next_to_install_rows by blast
qed

lemma next_to_install_None:
  assumes "ed_blueprint (target_device t) \<noteq> None"
  shows "next_to_install t db = None \<longleftrightarrow>
    (\<forall>r \<in> set (blueprint_artifact_versions t db). \<not> installable t db r)"
proof -
  have "next_to_install t db = None \<longleftrightarrow> next_to_install_rows t db = []"
    using assms by (simp add: next_to_install_def split: list.splits)
  also have "\<dots> \<longleftrightarrow> set (next_to_install_rows t db) = {}" by simp
  finally show ?thesis unfolding set_next_to_install_rows by blast
qed

subsection \<open>One acknowledged profile\<close>

lemma channel_target:
  "channel_commands (target_channel t) db = target_commands t db"
  "channel_artifacts (target_channel t) db = target_artifacts t db"
  by (cases t; simp)+

lemma update_channel_target [simp]:
  "target_commands t (update_commands (target_channel t) f db) = f (target_commands t db)"
  "target_artifacts t (update_commands (target_channel t) f db) = target_artifacts t db"
  "target_commands t (update_target_artifacts (target_channel t) g db) = target_commands t db"
  "target_artifacts t (update_target_artifacts (target_channel t) g db) = g (target_artifacts t db)"
  "artifact_versions (update_commands c f db) = artifact_versions db"
  "artifact_versions (update_target_artifacts c g db) = artifact_versions db"
  "artifacts (update_commands c f db) = artifacts db"
  "artifacts (update_target_artifacts c g db) = artifacts db"
  "blueprint_artifacts (update_commands c f db) = blueprint_artifacts db"
  "blueprint_artifacts (update_target_artifacts c g db) = blueprint_artifacts db"
  by (cases t; simp | cases c; simp)+

lemma tables_cong:
  assumes "artifact_versions db' = artifact_versions db" "artifacts db' = artifacts db"
    "blueprint_artifacts db' = blueprint_artifacts db"
  shows "blueprint_artifact_versions t db' = blueprint_artifact_versions t db"
    and "artifact_tables_wf db' = artifact_tables_wf db"
    and "artifact_of_version v db' = artifact_of_version v db"
  unfolding blueprint_artifact_versions_def artifact_tables_wf_def artifact_of_version_def assms
  by (rule refl)+

text \<open>The acknowledged rows of a profile: the version replaces the one of its artifact.\<close>

lemma install_profile_rows:
  assumes wf: "artifact_tables_wf (mdm_artifacts db)" "target_wf t (mdm_artifacts db)"
    and av: "av \<in> set (artifact_versions (mdm_artifacts db))"
    and cmd: "cmd_target cmd = target_pk t" "cmd_artifact_version cmd = Some (av_pk av)"
  shows "\<exists>rows. install_profile_acknowledged (target_channel t) cmd db =
      Inr (db\<lparr>mdm_artifacts := update_target_artifacts (target_channel t) (\<lambda>_. rows) (mdm_artifacts db)\<rparr>) \<and>
    (\<forall>ta \<in> set rows. \<exists>x \<in> set (artifact_versions (mdm_artifacts db)). av_pk x = ta_artifact_version ta) \<and>
    unique_on (\<lambda>ta. ta_target ta = target_pk t)
      (\<lambda>ta. artifact_of_version (ta_artifact_version ta) (mdm_artifacts db)) rows \<and>
    ta_artifact_version ` {ta \<in> set rows. ta_target ta = target_pk t} =
      insert (av_pk av) (ta_artifact_version ` {ta \<in> set (target_artifacts t (mdm_artifacts db)).
        ta_target ta = target_pk t \<and>
        artifact_of_version (ta_artifact_version ta) (mdm_artifacts db) \<noteq> Some (av_artifact av)})"
proof -
  let ?adb = "mdm_artifacts db"
  let ?art = "\<lambda>ta. artifact_of_version (ta_artifact_version ta) ?adb"
  let ?c = "\<lambda>ta. ta_target ta = target_pk t"
  let ?p = "of_artifact (target_pk t) (av_artifact av) db"
  let ?rows = "target_artifacts t ?adb"
  have v: "artifact_of_version (av_pk av) ?adb = Some (av_artifact av)"
    by (rule artifact_of_version_in [OF wf(1) av])
  have known: "\<forall>ta \<in> set ?rows. \<exists>x \<in> set (artifact_versions ?adb). av_pk x = ta_artifact_version ta"
    and u: "unique_on ?c ?art ?rows"
    using wf(2) by (simp_all add: target_wf_def)
  have p: "?p ta \<longleftrightarrow> ?c ta \<and> ?art ta = Some (av_artifact av)" for ta
    by (simp add: of_artifact_def)
  let ?f = "\<lambda>ta. ta\<lparr>ta_artifact_version := av_pk av\<rparr>"
  let ?new = "\<lparr>ta_target = target_pk t, ta_artifact_version = av_pk av, ta_status = Acknowledged\<rparr>"
  have run: "install_profile_acknowledged (target_channel t) cmd db =
      on_channel_artifacts (target_channel t) (update_or_create_ta ?p ?f ?new) db"
    using cmd v by (simp add: install_profile_acknowledged_def command_version_def)
  have nm: "get_one ?p ?rows \<noteq> Inl MultipleObjectsReturned"
    by (rule unique_on_get [OF u, where k = "Some (av_artifact av)"]) (simp add: p)
  show ?thesis
  proof (cases "get_one ?p ?rows")
    case (Inl e)
    then have none: "\<forall>ta \<in> set ?rows. \<not> ?p ta"
      using nm by (auto simp: get_one_def filter_empty_conv split: list.splits)
    have e: "e = DoesNotExist" using Inl nm by (auto simp: get_one_def split: list.splits)
    have "unique_on ?c ?art (?rows @ [?new])"
      using u none v by (auto simp: unique_on_append p)
    moreover have "{ta \<in> set (?rows @ [?new]). ?c ta} =
        insert ?new {ta \<in> set ?rows. ?c ta \<and> ?art ta \<noteq> Some (av_artifact av)}"
      using none by (auto simp: p)
    then have "ta_artifact_version ` {ta \<in> set (?rows @ [?new]). ?c ta} = insert (av_pk av)
        (ta_artifact_version ` {ta \<in> set ?rows. ?c ta \<and> ?art ta \<noteq> Some (av_artifact av)})"
      by simp
    moreover have "\<forall>ta \<in> set (?rows @ [?new]). \<exists>x \<in> set (artifact_versions ?adb). av_pk x = ta_artifact_version ta"
      using known av by auto
    moreover have "install_profile_acknowledged (target_channel t) cmd db =
        Inr (db\<lparr>mdm_artifacts := update_target_artifacts (target_channel t) (\<lambda>_. ?rows @ [?new]) ?adb\<rparr>)"
      by (simp add: run on_channel_artifacts_def channel_target update_or_create_ta_def Inl e)
    ultimately show ?thesis by blast
  next
    case (Inr r)
    have "unique_on ?c ?art (update_where ?p ?f ?rows)"
      by (rule unique_on_update [OF u]) (simp_all add: p v)
    moreover have r: "r \<in> set ?rows" "?p r" using Inr by (auto dest: get_one_Inr)
    moreover have "{ta \<in> set (update_where ?p ?f ?rows). ?c ta} =
        ?f ` {ta \<in> set ?rows. ?p ta} \<union> {ta \<in> set ?rows. ?c ta \<and> ?art ta \<noteq> Some (av_artifact av)}"
      by (auto simp: set_update_where p)
    moreover have "ta_artifact_version ` ?f ` {ta \<in> set ?rows. ?p ta} = {av_pk av}"
      using r by (force simp: image_image)
    ultimately have img: "ta_artifact_version ` {ta \<in> set (update_where ?p ?f ?rows). ?c ta} = insert (av_pk av)
        (ta_artifact_version ` {ta \<in> set ?rows. ?c ta \<and> ?art ta \<noteq> Some (av_artifact av)})"
      by (simp add: image_Un)
    have "\<forall>ta \<in> set (update_where ?p ?f ?rows). \<exists>x \<in> set (artifact_versions ?adb). av_pk x = ta_artifact_version ta"
      using known av by (auto simp: set_update_where)
    moreover have "install_profile_acknowledged (target_channel t) cmd db = Inr (db\<lparr>mdm_artifacts :=
        update_target_artifacts (target_channel t) (\<lambda>_. update_where ?p ?f ?rows) ?adb\<rparr>)"
      by (simp add: run on_channel_artifacts_def channel_target update_or_create_ta_def Inr)
    ultimately show ?thesis
      using img \<open>unique_on ?c ?art (update_where ?p ?f ?rows)\<close> by blast
  qed
qed

subsection \<open>Rounds\<close>

definition acknowledged_response :: mdm_response where
  "acknowledged_response =
     \<lparr>rs_status = command_status_str StatusAcknowledged, rs_error_chain = None,
      rs_installed_application_list = None, rs_query_responses = None\<rparr>"

text \<open>One round: the next installation is sent, and acknowledged.\<close>

definition install_round ::
  "int \<Rightarrow> (string \<Rightarrow> string option) \<Rightarrow> target \<Rightarrow> mdm_db \<Rightarrow> pyerror + mdm_db" where
  "install_round now parse_uuid t db =
     bind_result (install_artifacts now t db) (\<lambda>(next, db1).
       case next of
         None \<Rightarrow> Inr db1
       | Some (r, cmd) \<Rightarrow> process_response now parse_uuid r t cmd acknowledged_response db1)"

fun install_rounds ::
  "int \<Rightarrow> (string \<Rightarrow> string option) \<Rightarrow> target \<Rightarrow> nat \<Rightarrow> mdm_db \<Rightarrow> pyerror + mdm_db" where
  "install_rounds now parse_uuid t 0 db = Inr db"
| "install_rounds now parse_uuid t (Suc n) db =
     bind_result (install_round now parse_uuid t db) (install_rounds now parse_uuid t n)"

definition pending :: "target \<Rightarrow> artifact_db \<Rightarrow> nat set" where
  "pending t db = (\<lambda>r. av_artifact (bav_version r)) `
     {r \<in> set (blueprint_artifact_versions t db). installable t db r}"

definition sync_ready :: "target \<Rightarrow> mdm_db \<Rightarrow> bool" where
  "sync_ready t db \<longleftrightarrow>
     artifact_tables_wf (mdm_artifacts db) \<and> target_wf t (mdm_artifacts db) \<and>
     list_all (\<lambda>a. a_type a = Profile) (artifacts (mdm_artifacts db)) \<and>
     list_all (\<lambda>c. cmd_uuid c < mdm_next_uuid db) (target_commands t (mdm_artifacts db)) \<and>
     \<not> ed_declarative_management (target_device t)"

lemma pending_empty_iff: "pending t db = {} \<longleftrightarrow>
    (\<forall>r \<in> set (blueprint_artifact_versions t db). \<not> installable t db r)"
  by (auto simp: pending_def)

lemma no_blueprint_rows:
  assumes "ed_blueprint (target_device t) = None"
  shows "blueprint_artifact_versions t db = []"
proof -
  have "set (blueprint_artifact_versions t db) = {}"
    using assms unfolding blueprint_artifact_versions_def set_latest_rows
    by (auto simp: blueprint_where_def)
  then show ?thesis by simp
qed

lemma pending_next:
  "next_to_install t db = None \<longleftrightarrow> pending t db = {}"
proof (cases "ed_blueprint (target_device t)")
  case None
  then show ?thesis by (simp add: pending_empty_iff no_blueprint_rows next_to_install_def)
qed (simp add: pending_empty_iff next_to_install_None)

lemma blueprint_version_type:
  assumes "list_all (\<lambda>a. a_type a = Profile) (artifacts (mdm_artifacts db))"
    "r \<in> set (blueprint_artifact_versions t (mdm_artifacts db))"
  shows "version_type (bav_version r) db = Some Profile"
proof -
  obtain a where "a \<in> set (artifacts (mdm_artifacts db))" "a_pk a = av_artifact (bav_version r)"
    using assms(2) unfolding blueprint_artifact_versions_def set_latest_rows by auto
  then obtain b where b: "find (\<lambda>a. a_pk a = av_artifact (bav_version r)) (artifacts (mdm_artifacts db)) = Some b"
    by (cases "find (\<lambda>a. a_pk a = av_artifact (bav_version r)) (artifacts (mdm_artifacts db))")
      (auto simp: find_None_iff)
  then have "b \<in> set (artifacts (mdm_artifacts db))" by (auto simp: find_Some_iff)
  with b assms(1) show ?thesis by (auto simp: version_type_def list_all_iff)
qed

lemma profile_always_allowed: "verify_channel_and_device InstallProfile c d"
  by (cases c; cases "ed_platform d") (simp_all add: verify_channel_and_device_def)

definition install_profile_command :: "int \<Rightarrow> target \<Rightarrow> nat \<Rightarrow> mdm_db \<Rightarrow> db_command" where
  "install_profile_command now t v db =
     \<lparr>cmd_uuid = mdm_next_uuid db, cmd_target = target_pk t, cmd_name = request_type InstallProfile,
      cmd_artifact_version = Some v, cmd_artifact_operation = Some Installation, cmd_retries = None,
      cmd_not_before = None, cmd_time = Some now, cmd_result_time = None, cmd_status = None,
      cmd_error_chain = None, cmd_created_at = now\<rparr>"

lemma install_artifacts_profile:
  assumes "sync_ready t db" "next_to_install t (mdm_artifacts db) = Some av"
  shows "install_artifacts now t db =
    Inr (Some (InstallProfile, install_profile_command now t (av_pk av) db),
         db\<lparr>mdm_next_uuid := Suc (mdm_next_uuid db),
           mdm_artifacts := update_commands (target_channel t)
             (\<lambda>cs. cs @ [install_profile_command now t (av_pk av) db]) (mdm_artifacts db)\<rparr>)"
proof -
  obtain r where r: "r \<in> set (blueprint_artifact_versions t (mdm_artifacts db))" "bav_version r = av"
    using next_to_install_Some [OF assms(2)] by metis
  have "version_type av db = Some Profile"
    using blueprint_version_type [of db r t] assms(1) r by (simp add: sync_ready_def)
  then show ?thesis
    using assms
    by (simp add: install_artifacts_def sync_ready_def created_def create_for_target_def
        profile_always_allowed install_profile_command_def Let_def)
qed

text \<open>The commands of a round: one more row, with the status of the response.\<close>

lemma save_new_command:
  assumes "list_all (\<lambda>c. cmd_uuid c < cmd_uuid cmd) cs" "cmd_uuid cmd' = cmd_uuid cmd"
  shows "update_where (\<lambda>x. cmd_uuid x = cmd_uuid cmd') (\<lambda>_. cmd') (cs @ [cmd]) = cs @ [cmd']"
proof -
  have "update_where (\<lambda>x. cmd_uuid x = cmd_uuid cmd') (\<lambda>_. cmd') cs = cs"
    using assms by (induction cs) (auto simp: update_where_def)
  then show ?thesis using assms(2) by (simp add: update_where_def)
qed

lemma failed_append:
  assumes "cmd_status cmd \<noteq> Some ''Error''"
    and "target_commands t db' = target_commands t db @ [cmd]"
  shows "set (failed_artifact_version_operations t op db') = set (failed_artifact_version_operations t op db)"
  using assms by (simp add: failed_artifact_version_operations_def List.map_filter_def)

lemma installed_on_after:
  assumes wf: "artifact_tables_wf db"
    and same: "artifact_versions db' = artifact_versions db"
    and av: "av \<in> set (artifact_versions db)"
    and img: "ta_artifact_version ` {ta \<in> set (target_artifacts t db'). ta_target ta = target_pk t} =
      insert (av_pk av) (ta_artifact_version ` {ta \<in> set (target_artifacts t db).
        ta_target ta = target_pk t \<and>
        artifact_of_version (ta_artifact_version ta) db \<noteq> Some (av_artifact av)})"
  shows "installed_on t db' = insert av {x \<in> installed_on t db. av_artifact x \<noteq> av_artifact av}"
proof -
  have pk: "av_pk x = av_pk y \<longleftrightarrow> x = y"
    if "x \<in> set (artifact_versions db)" "y \<in> set (artifact_versions db)" for x y
    using that wf distinct_map_eqD [of av_pk "artifact_versions db"] by (auto simp: artifact_tables_wf_def)
  have on: "x \<in> installed_on t d \<longleftrightarrow> x \<in> set (artifact_versions d) \<and>
      av_pk x \<in> ta_artifact_version ` {ta \<in> set (target_artifacts t d). ta_target ta = target_pk t}" for x d
    by (auto simp: installed_on_def image_iff)
  have art: "av_pk x \<in> ta_artifact_version ` {ta \<in> set (target_artifacts t db). ta_target ta = target_pk t \<and>
        artifact_of_version (ta_artifact_version ta) db \<noteq> Some (av_artifact av)} \<longleftrightarrow>
      x \<in> installed_on t db \<and> av_artifact x \<noteq> av_artifact av"
    if "x \<in> set (artifact_versions db)" for x
    using artifact_of_version_in [OF wf that] that unfolding on by (auto simp: image_iff)
  show ?thesis
  proof (rule set_eqI)
    fix x
    show "x \<in> installed_on t db' \<longleftrightarrow> x \<in> insert av {x \<in> installed_on t db. av_artifact x \<noteq> av_artifact av}"
    proof (cases "x \<in> set (artifact_versions db)")
      case True
      then show ?thesis unfolding on [of x db'] same img using pk [OF True av] art [OF True] by simp
    next
      case False
      then show ?thesis using av by (auto simp: on same)
    qed
  qed
qed

lemma installable_after:
  assumes wf: "artifact_tables_wf db" "target_wf t db" "artifact_tables_wf db'" "target_wf t db'"
    and rows: "blueprint_artifact_versions t db' = blueprint_artifact_versions t db"
    and failed: "set (failed_artifact_version_operations t Installation db') =
      set (failed_artifact_version_operations t Installation db)"
    and inst: "installed_on t db' = insert av {x \<in> installed_on t db. av_artifact x \<noteq> av_artifact av}"
    and r0: "r0 \<in> set (blueprint_artifact_versions t db)" "bav_version r0 = av"
    and r: "r \<in> set (blueprint_artifact_versions t db)"
  shows "installable t db' r \<longleftrightarrow> av_artifact (bav_version r) \<noteq> av_artifact av \<and> installable t db r"
proof (cases "av_artifact (bav_version r) = av_artifact av")
  case True
  then have "bav_version r = av" using blueprint_rows_same_artifact [OF wf(1) r r0(1)] r0(2) by simp
  then show ?thesis unfolding installable_iff [OF wf(3,4)] inst by simp
next
  case False
  then have "(\<forall>x \<in> installed_on t db'. av_artifact x = av_artifact (bav_version r) \<longrightarrow>
        av_pk (bav_version r) \<noteq> av_pk x \<and> bav_auto_update r) \<longleftrightarrow>
      (\<forall>x \<in> installed_on t db. av_artifact x = av_artifact (bav_version r) \<longrightarrow>
        av_pk (bav_version r) \<noteq> av_pk x \<and> bav_auto_update r)"
    unfolding inst by auto
  with False show ?thesis unfolding installable_iff [OF wf(3,4)] installable_iff [OF wf(1,2)] failed by simp
qed

lemma install_round_effect:
  assumes ready: "sync_ready t db" and nxt: "next_to_install t (mdm_artifacts db) = Some av"
  shows "\<exists>db'. install_round now parse_uuid t db = Inr db' \<and> sync_ready t db' \<and>
    pending t (mdm_artifacts db') = pending t (mdm_artifacts db) - {av_artifact av} \<and>
    av_artifact av \<in> pending t (mdm_artifacts db) \<and>
    blueprint_artifact_versions t (mdm_artifacts db') = blueprint_artifact_versions t (mdm_artifacts db) \<and>
    set (failed_artifact_version_operations t Installation (mdm_artifacts db')) =
      set (failed_artifact_version_operations t Installation (mdm_artifacts db))"
proof -
  let ?adb = "mdm_artifacts db" and ?c = "target_channel t"
  define cmd where "cmd = install_profile_command now t (av_pk av) db"
  define cmd' where "cmd' = cmd\<lparr>cmd_result_time := Some now, cmd_status := Some (rs_status acknowledged_response),
    cmd_error_chain := rs_error_chain acknowledged_response\<rparr>"
  obtain r0 where r0: "r0 \<in> set (blueprint_artifact_versions t ?adb)" "installable t ?adb r0"
      "bav_version r0 = av"
    using next_to_install_Some [OF nxt] by metis
  have av: "av \<in> set (artifact_versions ?adb)" using blueprint_rows_version [OF r0(1)] r0(3) by simp
  have wf: "artifact_tables_wf ?adb" "target_wf t ?adb" using ready by (simp_all add: sync_ready_def)
  define adb2 where "adb2 = update_commands ?c (\<lambda>cs. cs @ [cmd']) ?adb"
  define db2 where "db2 = db\<lparr>mdm_next_uuid := Suc (mdm_next_uuid db), mdm_artifacts := adb2\<rparr>"
  have uuids: "list_all (\<lambda>c. cmd_uuid c < cmd_uuid cmd) (target_commands t ?adb)"
    using ready by (simp add: sync_ready_def cmd_def install_profile_command_def)
  have saved: "save_command ?c cmd' (db\<lparr>mdm_next_uuid := Suc (mdm_next_uuid db),
      mdm_artifacts := update_commands ?c (\<lambda>cs. cs @ [cmd]) ?adb\<rparr>) = db2"
    using save_new_command [OF uuids, of cmd']
    by (cases t) (simp_all add: save_command_def db2_def adb2_def cmd'_def)
  have same2: "artifact_versions adb2 = artifact_versions ?adb" "artifacts adb2 = artifacts ?adb"
    "blueprint_artifacts adb2 = blueprint_artifacts ?adb"
    by (simp_all add: adb2_def)
  have ta2: "target_artifacts t adb2 = target_artifacts t ?adb"
    "target_commands t adb2 = target_commands t ?adb @ [cmd']"
    by (simp_all add: adb2_def)
  have wf2: "artifact_tables_wf (mdm_artifacts db2)" "target_wf t (mdm_artifacts db2)"
    using wf by (simp_all add: db2_def tables_cong(2) [OF same2] target_wf_def tables_cong(3) [OF same2] ta2 same2)
  have av2: "av \<in> set (artifact_versions (mdm_artifacts db2))" by (simp add: db2_def same2 av)
  have fields: "cmd_target cmd' = target_pk t" "cmd_artifact_version cmd' = Some (av_pk av)"
    by (simp_all add: cmd'_def cmd_def install_profile_command_def)
  obtain rows where ack: "install_profile_acknowledged ?c cmd' db2 =
        Inr (db2\<lparr>mdm_artifacts := update_target_artifacts ?c (\<lambda>_. rows) adb2\<rparr>)"
    and known: "\<forall>ta \<in> set rows. \<exists>x \<in> set (artifact_versions adb2). av_pk x = ta_artifact_version ta"
    and u: "unique_on (\<lambda>ta. ta_target ta = target_pk t)
        (\<lambda>ta. artifact_of_version (ta_artifact_version ta) adb2) rows"
    and img: "ta_artifact_version ` {ta \<in> set rows. ta_target ta = target_pk t} =
      insert (av_pk av) (ta_artifact_version ` {ta \<in> set (target_artifacts t adb2).
        ta_target ta = target_pk t \<and>
        artifact_of_version (ta_artifact_version ta) adb2 \<noteq> Some (av_artifact av)})"
    using install_profile_rows [OF wf2 av2 fields] by (simp add: db2_def) blast
  define adb3 where "adb3 = update_target_artifacts ?c (\<lambda>_. rows) adb2"
  define db3 where "db3 = db2\<lparr>mdm_artifacts := adb3\<rparr>"
  have run: "install_round now parse_uuid t db = Inr db3"
  proof -
    have "process_response now parse_uuid InstallProfile t cmd acknowledged_response
        (db\<lparr>mdm_next_uuid := Suc (mdm_next_uuid db),
           mdm_artifacts := update_commands ?c (\<lambda>cs. cs @ [cmd]) ?adb\<rparr>) =
        install_profile_acknowledged ?c cmd' db2"
      unfolding process_response_def Let_def cmd'_def [symmetric] saved
      by (simp add: cmd_def install_profile_command_def acknowledged_response_def)
    then show ?thesis
      unfolding install_round_def install_artifacts_profile [OF ready nxt] cmd_def [symmetric]
      by (simp add: ack db3_def adb3_def)
  qed
  have same3: "artifact_versions adb3 = artifact_versions ?adb" "artifacts adb3 = artifacts ?adb"
    "blueprint_artifacts adb3 = blueprint_artifacts ?adb"
    by (simp_all add: adb3_def same2)
  have rows3: "target_artifacts t adb3 = rows" "target_commands t adb3 = target_commands t ?adb @ [cmd']"
    by (simp_all add: adb3_def ta2)
  have wf3: "artifact_tables_wf adb3" "target_wf t adb3"
    using wf(1) known u
    by (simp_all add: tables_cong(2) [OF same3] target_wf_def rows3 tables_cong(3) [OF same3]
        tables_cong(3) [OF same2] same2 same3)
  have bav: "blueprint_artifact_versions t adb3 = blueprint_artifact_versions t ?adb"
    by (rule tables_cong(1) [OF same3])
  have failed: "set (failed_artifact_version_operations t Installation adb3) =
      set (failed_artifact_version_operations t Installation ?adb)"
    by (rule failed_append [OF _ rows3(2)]) (simp add: cmd'_def acknowledged_response_def)
  have inst: "installed_on t adb3 = insert av {x \<in> installed_on t ?adb. av_artifact x \<noteq> av_artifact av}"
    by (rule installed_on_after [OF wf(1) same3(1) av])
       (simp add: rows3 img ta2 tables_cong(3) [OF same2])
  note inst_iff = installable_after [OF wf wf3 bav failed inst r0(1,3)]
  have "pending t adb3 = pending t ?adb - {av_artifact av}"
    using inst_iff unfolding pending_def bav by auto
  moreover have "av_artifact av \<in> pending t ?adb" using r0 by (auto simp: pending_def)
  moreover have "sync_ready t db3"
    using ready wf3 uuids
    by (auto simp: sync_ready_def db3_def db2_def rows3 same3 cmd'_def cmd_def install_profile_command_def
        list_all_iff)
  ultimately show ?thesis
    using run bav failed by (intro exI [of _ db3]) (simp add: db3_def)
qed

lemma finite_pending [simp]: "finite (pending t db)"
  by (simp add: pending_def)

lemma install_rounds_reach:
  assumes "sync_ready t db"
  shows "\<exists>n db'. n \<le> card (pending t (mdm_artifacts db)) \<and>
    install_rounds now parse_uuid t n db = Inr db' \<and> sync_ready t db' \<and>
    pending t (mdm_artifacts db') = {} \<and>
    blueprint_artifact_versions t (mdm_artifacts db') = blueprint_artifact_versions t (mdm_artifacts db) \<and>
    set (failed_artifact_version_operations t Installation (mdm_artifacts db')) =
      set (failed_artifact_version_operations t Installation (mdm_artifacts db))"
  using assms
proof (induction "card (pending t (mdm_artifacts db))" arbitrary: db)
  case 0
  then show ?case by (intro exI [of _ 0] exI [of _ db]) simp
next
  case (Suc k)
  then have "pending t (mdm_artifacts db) \<noteq> {}" by auto
  then obtain av where nxt: "next_to_install t (mdm_artifacts db) = Some av"
    using pending_next [of t "mdm_artifacts db"] by auto
  obtain db1 where r: "install_round now parse_uuid t db = Inr db1" "sync_ready t db1"
      "pending t (mdm_artifacts db1) = pending t (mdm_artifacts db) - {av_artifact av}"
      "av_artifact av \<in> pending t (mdm_artifacts db)"
      "blueprint_artifact_versions t (mdm_artifacts db1) = blueprint_artifact_versions t (mdm_artifacts db)"
      "set (failed_artifact_version_operations t Installation (mdm_artifacts db1)) =
        set (failed_artifact_version_operations t Installation (mdm_artifacts db))"
    using install_round_effect [OF Suc.prems nxt] by blast
  then have "k = card (pending t (mdm_artifacts db1))" using Suc.hyps(2) by simp
  from Suc.hyps(1) [OF this r(2)] obtain n db' where n: "n \<le> card (pending t (mdm_artifacts db1))"
      "install_rounds now parse_uuid t n db1 = Inr db'" "sync_ready t db'"
      "pending t (mdm_artifacts db') = {}"
      "blueprint_artifact_versions t (mdm_artifacts db') = blueprint_artifact_versions t (mdm_artifacts db1)"
      "set (failed_artifact_version_operations t Installation (mdm_artifacts db')) =
        set (failed_artifact_version_operations t Installation (mdm_artifacts db1))"
    by blast
  have "Suc n \<le> card (pending t (mdm_artifacts db))"
    using n(1) Suc.hyps(2) \<open>k = card (pending t (mdm_artifacts db1))\<close> by simp
  moreover have "install_rounds now parse_uuid t (Suc n) db = Inr db'" using r(1) n(2) by simp
  ultimately show ?case using n r by (intro exI [of _ "Suc n"] exI [of _ db']) simp
qed

lemma nothing_pending_installed:
  assumes wf: "artifact_tables_wf db" "target_wf t db" and none: "pending t db = {}"
    and r: "r \<in> set (blueprint_artifact_versions t db)"
    and ok: "av_pk (bav_version r) \<notin> set (failed_artifact_version_operations t Installation db)"
  shows "\<exists>x \<in> installed_on t db. av_artifact x = av_artifact (bav_version r) \<and>
    (bav_auto_update r \<longrightarrow> x = bav_version r)"
proof -
  have "\<not> installable t db r" using none r by (simp add: pending_empty_iff)
  then obtain x where x: "x \<in> installed_on t db" "av_artifact x = av_artifact (bav_version r)"
      "av_pk (bav_version r) = av_pk x \<or> \<not> bav_auto_update r"
    using ok unfolding installable_iff [OF wf] by blast
  have "x \<in> set (artifact_versions db)" "bav_version r \<in> set (artifact_versions db)"
    using x(1) blueprint_rows_version [OF r] by (simp_all add: installed_on_def)
  then have "av_pk (bav_version r) = av_pk x \<Longrightarrow> x = bav_version r"
    using wf(1) distinct_map_eqD [of av_pk "artifact_versions db"] by (simp add: artifact_tables_wf_def)
  with x show ?thesis by blast
qed

text \<open>
  C1: A device that acknowledges the profiles it is sent gets all of them. On well-formed tables
  of profiles, rounds of "send the next installation, get it acknowledged" all succeed, and after
  at most one round per pending artifact nothing is left to install: every version of the
  blueprint whose installation had not already failed on the target has its artifact installed,
  at this very version when the blueprint row says auto update.
\<close>

theorem acknowledged_profiles_converge:
  assumes "sync_ready t db"
  shows "\<exists>n db'. n \<le> card (pending t (mdm_artifacts db)) \<and>
    install_rounds now parse_uuid t n db = Inr db' \<and>
    next_to_install t (mdm_artifacts db') = None \<and>
    (\<forall>r \<in> set (blueprint_artifact_versions t (mdm_artifacts db)).
       av_pk (bav_version r) \<notin> set (failed_artifact_version_operations t Installation (mdm_artifacts db)) \<longrightarrow>
       (\<exists>x \<in> installed_on t (mdm_artifacts db').
          av_artifact x = av_artifact (bav_version r) \<and> (bav_auto_update r \<longrightarrow> x = bav_version r)))"
proof -
  obtain n db' where n: "n \<le> card (pending t (mdm_artifacts db))"
      "install_rounds now parse_uuid t n db = Inr db'" "sync_ready t db'"
      "pending t (mdm_artifacts db') = {}"
      "blueprint_artifact_versions t (mdm_artifacts db') = blueprint_artifact_versions t (mdm_artifacts db)"
      "set (failed_artifact_version_operations t Installation (mdm_artifacts db')) =
        set (failed_artifact_version_operations t Installation (mdm_artifacts db))"
    using install_rounds_reach [OF assms] by blast
  have wf: "artifact_tables_wf (mdm_artifacts db')" "target_wf t (mdm_artifacts db')"
    using n(3) by (simp_all add: sync_ready_def)
  note inst = nothing_pending_installed [OF wf n(4), unfolded n(5,6)]
  have "next_to_install t (mdm_artifacts db') = None" using n(4) by (simp add: pending_next)
  then show ?thesis using n(1,2) inst by (intro exI [of _ n] exI [of _ db']) blast
qed

text \<open>A macOS device with two profiles in its blueprint; the first one is installed in an old version.\<close>

definition sample_mdm_device :: enrolled_device where
  "sample_mdm_device =
     \<lparr>ed_pk = 1, ed_udid = ''UDID-1'', ed_enrollment_id = None, ed_serial_number = ''SN1'',
      ed_platform = macOS, ed_push_certificate = None, ed_token = None, ed_push_magic = None,
      ed_unlock_token = None, ed_bootstrap_token = None, ed_cert_fingerprint = None,
      ed_cert_not_valid_after = None, ed_blueprint = Some 1, ed_awaiting_configuration = None,
      ed_declarative_management = False, ed_declarations_token = None, ed_checkout_at = None\<rparr>"

definition sample_artifacts :: artifact_db where
  "sample_artifacts =
     \<lparr>artifacts = [\<lparr>a_pk = 1, a_name = ''WiFi'', a_type = Profile, a_channel = DeviceChannel, a_platforms = [macOS]\<rparr>,
                   \<lparr>a_pk = 2, a_name = ''VPN'', a_type = Profile, a_channel = DeviceChannel, a_platforms = [macOS, iOS]\<rparr>],
      artifact_versions = [\<lparr>av_pk = 10, av_artifact = 1, av_version = 1, av_created_at = 5\<rparr>,
                           \<lparr>av_pk = 11, av_artifact = 1, av_version = 2, av_created_at = 6\<rparr>,
                           \<lparr>av_pk = 20, av_artifact = 2, av_version = 1, av_created_at = 7\<rparr>],
      blueprint_artifacts =
        [\<lparr>ba_blueprint = 1, ba_artifact = 1, ba_install_before_setup_assistant = False, ba_auto_update = True, ba_priority = 0\<rparr>,
         \<lparr>ba_blueprint = 1, ba_artifact = 2, ba_install_before_setup_assistant = False, ba_auto_update = False, ba_priority = 10\<rparr>],
      device_artifacts = [\<lparr>ta_target = 1, ta_artifact_version = 10, ta_status = Acknowledged\<rparr>],
      user_artifacts = [], device_commands = [], user_commands = []\<rparr>"

definition sample_mdm_db :: mdm_db where
  "sample_mdm_db =
     \<lparr>mdm_artifacts = sample_artifacts, mdm_devices = [sample_mdm_device], mdm_blueprints = [],
      mdm_apps = [], mdm_next_uuid = 1, mdm_effects = []\<rparr>"

lemma sample_ready: "sync_ready (TDevice sample_mdm_device) sample_mdm_db"
  by (simp add: sync_ready_def artifact_tables_wf_def target_wf_def sample_mdm_db_def sample_artifacts_def
      sample_mdm_device_def unique_on_def)

lemma sample_pending: "pending (TDevice sample_mdm_device) sample_artifacts = {1, 2}"
  by code_simp

lemma sample_pending_card:
  "card (pending (TDevice sample_mdm_device) (mdm_artifacts sample_mdm_db)) = 2"
  by (simp add: sample_mdm_db_def sample_pending)

theorem acknowledged_profiles_converge_witness:
  "\<exists>n db'. n \<le> 2 \<and> install_rounds 100 Some (TDevice sample_mdm_device) n sample_mdm_db = Inr db' \<and>
     next_to_install (TDevice sample_mdm_device) (mdm_artifacts db') = None"
  using acknowledged_profiles_converge [OF sample_ready, where now = 100 and parse_uuid = Some,
      unfolded sample_pending_card] by blast

end
