(* ===== verification/MdmAnswers.thy ===== *)
theory MdmAnswers imports MdmConvergence begin

text \<open>
  What the answers of a device do to the commands it gets next: errors, unreadable commands,
  the polling of installed applications, and the order of the functions of
  \<open>get_next_command_response\<close>.
\<close>

subsection \<open>Errors\<close>

lemma set_map_filter_iff: "y \<in> set (List.map_filter f xs) \<longleftrightarrow> (\<exists>x \<in> set xs. f x = Some y)"
  by (induction xs) (auto simp: map_filter_simps split: option.splits)

lemma failed_iff:
  "v \<in> set (failed_artifact_version_operations t op db) \<longleftrightarrow>
     (\<exists>c \<in> set (target_commands t db). cmd_target c = target_pk t \<and> cmd_artifact_operation c = Some op \<and>
        cmd_status c = Some ''Error'' \<and> cmd_artifact_version c = Some v)"
  by (auto simp: failed_artifact_version_operations_def set_map_filter_iff split: if_splits)

lemma set_save_command:
  assumes "distinct (map cmd_uuid cs)" "cmd \<in> set cs" "cmd_uuid cmd' = cmd_uuid cmd"
  shows "set (update_where (\<lambda>x. cmd_uuid x = cmd_uuid cmd') (\<lambda>_. cmd') cs) = insert cmd' (set cs - {cmd})"
proof -
  have eq: "cmd_uuid x = cmd_uuid cmd' \<longleftrightarrow> x = cmd" if "x \<in> set cs" for x
    using distinct_map_eqD [OF assms(1) that assms(2)] assms(3) by auto
  have "set (update_where (\<lambda>x. cmd_uuid x = cmd_uuid cmd') (\<lambda>_. cmd') cs) =
      (\<lambda>x. if x = cmd then cmd' else x) ` set cs"
    unfolding set_update_where by (rule image_cong) (simp_all add: eq)
  also have "\<dots> = insert cmd' (set cs - {cmd})" using assms(2) by auto
  finally show ?thesis .
qed

lemma next_to_install_cong:
  assumes "artifact_versions db' = artifact_versions db" "artifacts db' = artifacts db"
    "blueprint_artifacts db' = blueprint_artifacts db"
    and ta: "target_artifacts t db' = target_artifacts t db"
    and failed: "set (failed_artifact_version_operations t Installation db') =
      set (failed_artifact_version_operations t Installation db)"
  shows "next_to_install t db' = next_to_install t db"
proof -
  have "target_artifact_versions t db' = target_artifact_versions t db"
    by (simp add: target_artifact_versions_def assms(1) ta)
  then have "installable t db' = installable t db"
    by (simp add: fun_eq_iff installable_def failed)
  then show ?thesis
    by (simp add: next_to_install_def next_to_install_rows_def tables_cong(1) [OF assms(1-3)])
qed

lemma save_command_artifacts:
  "mdm_artifacts (save_command (target_channel t) cmd db) =
     update_commands (target_channel t) (update_where (\<lambda>x. cmd_uuid x = cmd_uuid cmd) (\<lambda>_. cmd)) (mdm_artifacts db)"
  by (simp add: save_command_def)

lemma process_not_acknowledged:
  assumes "cmd_result_time cmd = None" "rs_status rs \<noteq> ''Acknowledged''"
  shows "process_response now parse_uuid r t cmd rs db =
    Inr (save_command (target_channel t) (cmd\<lparr>cmd_result_time := Some now, cmd_status := Some (rs_status rs),
       cmd_error_chain := rs_error_chain rs\<rparr>) db)"
  using assms by (simp add: process_response_def Let_def)

text \<open>
  C18: What a device that does not acknowledge an installation is sent next. Its answer is always
  recorded. After an \<open>Error\<close> this version is not the next installation any more; after any other
  answer - \<open>NotNow\<close>, but also \<open>CommandFormatError\<close>, for a command the device cannot parse - the
  next installation is the one it would have been without the answer, so the same version is
  sent again at every connection.
\<close>

theorem unacknowledged_installation:
  assumes "distinct (map cmd_uuid (target_commands t (mdm_artifacts db)))"
    and "cmd \<in> set (target_commands t (mdm_artifacts db))"
    and "cmd_result_time cmd = None" "cmd_status cmd = None" "cmd_target cmd = target_pk t"
    and "cmd_artifact_version cmd = Some v" "cmd_artifact_operation cmd = Some Installation"
    and "rs_status rs \<noteq> ''Acknowledged''"
  shows "\<exists>db'. process_response now parse_uuid r t cmd rs db = Inr db' \<and>
    (rs_status rs = ''Error'' \<longrightarrow> (\<forall>av. next_to_install t (mdm_artifacts db') = Some av \<longrightarrow> av_pk av \<noteq> v)) \<and>
    (rs_status rs \<noteq> ''Error'' \<longrightarrow>
       next_to_install t (mdm_artifacts db') = next_to_install t (mdm_artifacts db))"
proof -
  define cmd' where "cmd' = cmd\<lparr>cmd_result_time := Some now, cmd_status := Some (rs_status rs),
    cmd_error_chain := rs_error_chain rs\<rparr>"
  let ?db' = "save_command (target_channel t) cmd' db"
  have run: "process_response now parse_uuid r t cmd rs db = Inr ?db'"
    unfolding cmd'_def by (rule process_not_acknowledged [OF assms(3,8)])
  have cmds: "set (target_commands t (mdm_artifacts ?db')) =
      insert cmd' (set (target_commands t (mdm_artifacts db)) - {cmd})"
    unfolding save_command_artifacts update_channel_target
    by (rule set_save_command [OF assms(1,2)]) (simp add: cmd'_def)
  have "av_pk av \<noteq> v" if e: "rs_status rs = ''Error''" and n: "next_to_install t (mdm_artifacts ?db') = Some av" for av
  proof -
    have "v \<in> set (failed_artifact_version_operations t Installation (mdm_artifacts ?db'))"
      unfolding failed_iff cmds using assms(5-7) e by (intro bexI [of _ cmd']) (simp_all add: cmd'_def)
    moreover obtain q where "installable t (mdm_artifacts ?db') q" "bav_version q = av"
      using next_to_install_Some [OF n] by blast
    ultimately show ?thesis by (auto simp: installable_def)
  qed
  moreover have "next_to_install t (mdm_artifacts ?db') = next_to_install t (mdm_artifacts db)"
    if e: "rs_status rs \<noteq> ''Error''"
  proof (rule next_to_install_cong)
    have "cmd_status cmd' \<noteq> Some ''Error''" using e by (simp add: cmd'_def)
    then show "set (failed_artifact_version_operations t Installation (mdm_artifacts ?db')) =
        set (failed_artifact_version_operations t Installation (mdm_artifacts db))"
      using assms(4) by (intro set_eqI) (unfold failed_iff cmds, auto)
  qed (simp_all add: save_command_artifacts)
  ultimately show ?thesis using run by blast
qed

definition sample_answer :: "string \<Rightarrow> mdm_response" where
  "sample_answer status =
     \<lparr>rs_status = status, rs_error_chain = None, rs_installed_application_list = None,
      rs_query_responses = None\<rparr>"

definition sent_mdm_db :: mdm_db where
  "sent_mdm_db = sample_mdm_db\<lparr>mdm_next_uuid := 2, mdm_artifacts := sample_artifacts
     \<lparr>device_commands := [install_profile_command 50 (TDevice sample_mdm_device) 20 sample_mdm_db]\<rparr>\<rparr>"

lemma sent_next: "next_to_install (TDevice sample_mdm_device) (mdm_artifacts sent_mdm_db) =
    Some \<lparr>av_pk = 20, av_artifact = 2, av_version = 1, av_created_at = 7\<rparr>"
  by code_simp

theorem unacknowledged_installation_witness:
  "\<exists>db'. process_response 100 Some InstallProfile (TDevice sample_mdm_device)
       (install_profile_command 50 (TDevice sample_mdm_device) 20 sample_mdm_db)
       (sample_answer ''CommandFormatError'') sent_mdm_db = Inr db' \<and>
     next_to_install (TDevice sample_mdm_device) (mdm_artifacts db') =
       Some \<lparr>av_pk = 20, av_artifact = 2, av_version = 1, av_created_at = 7\<rparr>"
  using unacknowledged_installation
    [where t = "TDevice sample_mdm_device" and db = sent_mdm_db and v = 20 and now = 100 and parse_uuid = Some
       and r = InstallProfile and cmd = "install_profile_command 50 (TDevice sample_mdm_device) 20 sample_mdm_db"
       and rs = "sample_answer ''CommandFormatError''"]
  by (simp add: sent_next) (simp add: sent_mdm_db_def install_profile_command_def sample_answer_def sample_mdm_device_def)

subsection \<open>Polling the installed applications\<close>

definition app_complete :: "installed_app \<Rightarrow> bool" where
  "app_complete app \<longleftrightarrow> app_identifier app \<noteq> None \<and> app_short_version app \<noteq> None"

definition app_matches :: "(string \<times> string) list \<Rightarrow> installed_app \<Rightarrow> bool" where
  "app_matches keys app \<longleftrightarrow> (\<exists>i v. app_identifier app = Some i \<and> app_short_version app = Some v \<and> (i, v) \<in> set keys)"

definition app_in_progress :: "installed_app \<Rightarrow> bool" where
  "app_in_progress app \<longleftrightarrow> app_download_waiting app \<or> app_download_paused app \<or> app_installing app"

definition app_failed :: "installed_app \<Rightarrow> bool" where
  "app_failed app \<longleftrightarrow> \<not> app_in_progress app \<and> (app_download_cancelled app \<or> app_download_failed app)"

text \<open>The applications of the artifact the loop looks at: it stops at the first that failed.\<close>

definition apps_before_failure :: "(string \<times> string) list \<Rightarrow> installed_app list \<Rightarrow> installed_app list" where
  "apps_before_failure keys apps = takeWhile (\<lambda>a. \<not> app_failed a) (filter (app_matches keys) apps)"

lemma scan_apps_meaning:
  assumes "list_all app_complete apps"
  shows "scan_apps keys apps (f, e, i) =
    Inr (f \<or> list_ex (app_matches keys) apps,
         e \<or> list_ex (\<lambda>a. app_matches keys a \<and> app_failed a) apps,
         i \<and> \<not> list_ex app_in_progress (apps_before_failure keys apps))"
  using assms
proof (induction apps arbitrary: f e i)
  case (Cons a apps)
  obtain x v where a: "app_identifier a = Some x" "app_short_version a = Some v"
    using Cons.prems by (auto simp: app_complete_def)
  then have m: "app_matches keys a \<longleftrightarrow> (x, v) \<in> set keys" by (simp add: app_matches_def)
  show ?case
    using Cons.IH Cons.prems
    by (cases "(x, v) \<in> set keys"; cases "app_in_progress a"; cases "app_failed a")
      (simp_all add: a m apps_before_failure_def app_in_progress_def [symmetric], auto simp: app_failed_def app_in_progress_def)
qed (simp add: apps_before_failure_def)

text \<open>The rows of a device for the versions of an artifact, after \<open>keep_only_version\<close>.\<close>

definition device_rows :: "nat \<Rightarrow> nat \<Rightarrow> mdm_db \<Rightarrow> target_artifact set" where
  "device_rows dev a db = {ta \<in> set (device_artifacts (mdm_artifacts db)). of_artifact dev a db ta}"

lemma of_artifact_update_rows [simp]:
  "of_artifact dev a (db\<lparr>mdm_artifacts := (mdm_artifacts db)\<lparr>device_artifacts := rows\<rparr>\<rparr>) = of_artifact dev a db"
  by (simp add: of_artifact_def artifact_of_version_def fun_eq_iff)

lemma keep_only_version_rows:
  assumes u: "unique_on (\<lambda>_. True) (\<lambda>ta. (ta_target ta, ta_artifact_version ta))
      (device_artifacts (mdm_artifacts db))"
    and v: "artifact_of_version v (mdm_artifacts db) = Some a"
  shows "\<exists>rows. keep_only_version dev v a st db =
      Inr (db\<lparr>mdm_artifacts := update_target_artifacts DeviceChannel (\<lambda>_. rows) (mdm_artifacts db)\<rparr>) \<and>
    (\<lambda>ta. (ta_artifact_version ta, ta_status ta)) ` {ta \<in> set rows. of_artifact dev a db ta} = {(v, st)}"
proof -
  let ?p = "\<lambda>ta. ta_target ta = dev \<and> ta_artifact_version ta = v"
  let ?f = "\<lambda>ta. ta\<lparr>ta_status := st\<rparr>"
  let ?g = "\<lambda>ta. (ta_artifact_version ta, ta_status ta)"
  let ?new = "\<lparr>ta_target = dev, ta_artifact_version = v, ta_status = st\<rparr>"
  define rest where "rest = delete_where (\<lambda>ta. of_artifact dev a db ta \<and> ta_artifact_version ta \<noteq> v)
    (device_artifacts (mdm_artifacts db))"
  have pa: "of_artifact dev a db ta" if "?p ta" for ta using that v by (simp add: of_artifact_def)
  have only: "ta_target ta = dev \<and> ta_artifact_version ta = v" if "ta \<in> set rest" "of_artifact dev a db ta" for ta
    using that by (auto simp: rest_def delete_where_def of_artifact_def)
  have "unique_on (\<lambda>_. True) (\<lambda>ta. (ta_target ta, ta_artifact_version ta)) rest"
    unfolding rest_def by (rule unique_on_delete [OF u])
  then have nm: "get_one ?p rest \<noteq> Inl MultipleObjectsReturned"
    by (rule unique_on_get [where k = "(dev, v)"]) simp
  show ?thesis
  proof (cases "get_one ?p rest")
    case (Inl e)
    then have e: "e = DoesNotExist" using nm by (auto simp: get_one_def split: list.splits)
    then have none: "\<forall>ta \<in> set rest. \<not> ?p ta" using Inl by (simp add: get_one_none)
    have "{ta \<in> set (rest @ [?new]). of_artifact dev a db ta} = {?new}"
      using only none pa [of ?new] by auto
    then have "?g ` {ta \<in> set (rest @ [?new]). of_artifact dev a db ta} = {(v, st)}" by simp
    moreover have "keep_only_version dev v a st db = Inr (db\<lparr>mdm_artifacts :=
        update_target_artifacts DeviceChannel (\<lambda>_. rest @ [?new]) (mdm_artifacts db)\<rparr>)"
      using Inl by (simp add: keep_only_version_def on_channel_artifacts_def update_or_create_ta_def e rest_def)
    ultimately show ?thesis by blast
  next
    case (Inr r)
    then have r: "r \<in> set rest" "?p r" by (auto dest: get_one_Inr)
    have "{ta \<in> set (update_where ?p ?f rest). of_artifact dev a db ta} = ?f ` {ta \<in> set rest. ?p ta}"
    proof -
      have "of_artifact dev a db (?f ta) \<longleftrightarrow> of_artifact dev a db ta" for ta by (simp add: of_artifact_def)
      moreover have "of_artifact dev a db ta \<longleftrightarrow> ?p ta" if "ta \<in> set rest" for ta
        using only [OF that] pa [of ta] by blast
      ultimately show ?thesis
        unfolding set_update_where by (intro set_eqI iffI) (auto split: if_splits)
    qed
    moreover have "?g ` ?f ` {ta \<in> set rest. ?p ta} = {(v, st)}" using r by (force simp: image_image)
    ultimately have "?g ` {ta \<in> set (update_where ?p ?f rest). of_artifact dev a db ta} = {(v, st)}" by simp
    moreover have "keep_only_version dev v a st db = Inr (db\<lparr>mdm_artifacts :=
        update_target_artifacts DeviceChannel (\<lambda>_. update_where ?p ?f rest) (mdm_artifacts db)\<rparr>)"
      using Inr by (simp add: keep_only_version_def on_channel_artifacts_def update_or_create_ta_def rest_def)
    ultimately show ?thesis by blast
  qed
qed

definition retried_command :: "int \<Rightarrow> nat \<Rightarrow> nat \<Rightarrow> nat \<Rightarrow> mdm_db \<Rightarrow> db_command" where
  "retried_command now dev v retries db =
     \<lparr>cmd_uuid = mdm_next_uuid db, cmd_target = dev, cmd_name = ''InstalledApplicationList'',
      cmd_artifact_version = Some v, cmd_artifact_operation = None, cmd_retries = Some retries,
      cmd_not_before = Some (now + 15), cmd_time = None, cmd_result_time = None,
      cmd_status = None, cmd_error_chain = None, cmd_created_at = now\<rparr>"

lemma queue_installed_application_list_runs:
  "queue_installed_application_list now d v (Some n) db =
     Inr (db\<lparr>mdm_next_uuid := Suc (mdm_next_uuid db),
       mdm_artifacts := update_commands DeviceChannel (\<lambda>cs. cs @ [retried_command now (ed_pk d) v n db])
         (mdm_artifacts db),
       mdm_effects := mdm_effects db @ [Notify (ed_pk d) 15]\<rparr>)"
  by (cases "ed_platform d") (simp_all add: queue_installed_application_list_def create_for_target_def
      verify_channel_and_device_def first_delay_seconds_def retried_command_def Let_def)

text \<open>
  C28: What the list of installed applications decides about an enterprise application. Nothing
  raises on a complete list. Without an application in progress before the first failed one, the
  version becomes the only row of its artifact, with the status \<open>Installed\<close> - also when the very
  first application of the artifact failed to download. With one in progress and a failed one, the
  row of the version is deleted. Otherwise the rows stay, and the list is asked for again in 15
  seconds with one more retry, at most ten times.
\<close>

theorem installed_applications_decide:
  assumes cmd: "cmd_artifact_version cmd = Some v"
      "artifact_of_version v (mdm_artifacts db) = Some a" "dict_get (mdm_apps db) v = Some keys" "keys \<noteq> []"
    and apps: "rs_installed_application_list rs = Some apps" "list_all app_complete apps"
    and u: "unique_on (\<lambda>_. True) (\<lambda>ta. (ta_target ta, ta_artifact_version ta))
      (device_artifacts (mdm_artifacts db))"
    and retries: "retries = (case cmd_retries cmd of None \<Rightarrow> 0 | Some n \<Rightarrow> n)"
    and found: "found \<longleftrightarrow> list_ex (app_matches keys) apps"
    and progress: "progress \<longleftrightarrow> list_ex app_in_progress (apps_before_failure keys apps)"
    and failed: "failed \<longleftrightarrow> list_ex (\<lambda>a. app_matches keys a \<and> app_failed a) apps"
  shows "\<exists>db'. installed_application_list_acknowledged now d cmd rs db = Inr db' \<and>
    (found \<and> \<not> progress \<longrightarrow>
       (\<lambda>ta. (ta_artifact_version ta, ta_status ta)) ` device_rows (ed_pk d) a db' = {(v, Installed)}) \<and>
    (found \<and> progress \<and> failed \<longrightarrow> \<not> (\<exists>ta \<in> set (device_artifacts (mdm_artifacts db')).
       ta_target ta = ed_pk d \<and> ta_artifact_version ta = v)) \<and>
    (\<not> found \<or> progress \<and> \<not> failed \<longrightarrow>
       device_artifacts (mdm_artifacts db') = device_artifacts (mdm_artifacts db)) \<and>
    device_commands (mdm_artifacts db') = device_commands (mdm_artifacts db) @
      (if (\<not> found \<or> progress \<and> \<not> failed) \<and> retries < 10
       then [retried_command now (ed_pk d) v (retries + 1) db] else [])"
proof -
  have nf: "\<not> failed" if "\<not> found" using that unfolding found failed by (auto simp: list_ex_iff)
  have scan: "scan_apps keys apps (False, False, True) = Inr (found, failed, \<not> progress)"
    unfolding scan_apps_meaning [OF apps(2)] found failed progress by simp
  have run: "installed_application_list_acknowledged now d cmd rs db =
      (if found \<and> \<not> progress then keep_only_version (ed_pk d) v a Installed db
       else if failed then Inr (db\<lparr>mdm_artifacts := update_target_artifacts DeviceChannel (\<lambda>_.
         delete_where (\<lambda>ta. ta_target ta = ed_pk d \<and> ta_artifact_version ta = v)
           (device_artifacts (mdm_artifacts db))) (mdm_artifacts db)\<rparr>)
       else if retries \<ge> 10 then Inr db
       else queue_installed_application_list now d v (Some (retries + 1)) db)"
    using cmd apps(1)
    by (simp add: installed_application_list_acknowledged_def command_version_def scan on_channel_artifacts_def
        retries [symmetric] Let_def)
  obtain rows where keep: "keep_only_version (ed_pk d) v a Installed db =
      Inr (db\<lparr>mdm_artifacts := update_target_artifacts DeviceChannel (\<lambda>_. rows) (mdm_artifacts db)\<rparr>)"
    "(\<lambda>ta. (ta_artifact_version ta, ta_status ta)) ` {ta \<in> set rows. of_artifact (ed_pk d) a db ta} = {(v, Installed)}"
    using keep_only_version_rows [OF u cmd(2)] by blast
  consider "found \<and> \<not> progress" | "found \<and> progress \<and> failed" | "\<not> found \<or> progress \<and> \<not> failed" by blast
  then show ?thesis
  proof cases
    case 1
    then show ?thesis using keep by (simp add: run device_rows_def)
  next
    case 2
    then show ?thesis by (simp add: run delete_where_def)
  next
    case 3
    then show ?thesis
      using nf by (simp add: run queue_installed_application_list_runs)
        (auto simp: queue_installed_application_list_runs)
  qed
qed

definition failed_app :: installed_app where
  "failed_app = \<lparr>app_identifier = Some ''com.example.vpn'', app_short_version = Some ''1.0'',
     app_download_waiting = False, app_download_paused = False, app_installing = False,
     app_download_cancelled = False, app_download_failed = True\<rparr>"

definition app_list_command :: db_command where
  "app_list_command =
     \<lparr>cmd_uuid = 7, cmd_target = 1, cmd_name = ''InstalledApplicationList'',
      cmd_artifact_version = Some 20, cmd_artifact_operation = None, cmd_retries = None,
      cmd_not_before = None, cmd_time = Some 90, cmd_result_time = None, cmd_status = None,
      cmd_error_chain = None, cmd_created_at = 80\<rparr>"

definition app_mdm_db :: mdm_db where
  "app_mdm_db = sample_mdm_db\<lparr>mdm_apps := [(20, [(''com.example.vpn'', ''1.0'')])]\<rparr>"

text \<open>A failed download of the only application is recorded as an installation.\<close>

theorem installed_applications_decide_witness:
  "\<exists>db'. installed_application_list_acknowledged 100 sample_mdm_device app_list_command
       ((sample_answer ''Acknowledged'')\<lparr>rs_installed_application_list := Some [failed_app]\<rparr>) app_mdm_db = Inr db' \<and>
     (\<lambda>ta. (ta_artifact_version ta, ta_status ta)) ` device_rows 1 2 db' = {(20, Installed)}"
proof -
  have c: "app_matches [(''com.example.vpn'', ''1.0'')] failed_app" "app_failed failed_app"
    "app_complete failed_app" "ed_pk sample_mdm_device = 1"
    by (simp_all add: app_matches_def app_failed_def failed_app_def app_in_progress_def app_complete_def
        sample_mdm_device_def)
  show ?thesis
    using installed_applications_decide
      [where d = sample_mdm_device and cmd = app_list_command and v = 20 and a = 2 and db = app_mdm_db and now = 100
        and keys = "[(''com.example.vpn'', ''1.0'')]" and apps = "[failed_app]"
        and rs = "(sample_answer ''Acknowledged'')\<lparr>rs_installed_application_list := Some [failed_app]\<rparr>"
        and retries = 0 and found = True and progress = False and failed = True]
    by (simp add: c apps_before_failure_def)
      (simp add: app_mdm_db_def sample_mdm_db_def sample_artifacts_def app_list_command_def
        artifact_of_version_def unique_on_def ex_forward)
qed

subsection \<open>The next command\<close>

text \<open>What a function that returns a command has done: taken it from the queue, or created it.\<close>

definition taken :: "int \<Rightarrow> target \<Rightarrow> request \<Rightarrow> db_command \<Rightarrow> mdm_db \<Rightarrow> mdm_db \<Rightarrow> bool" where
  "taken now t r cmd db db' \<longleftrightarrow>
     (\<exists>q \<in> set (target_commands t (mdm_artifacts db)).
        cmd_target q = target_pk t \<and> cmd_time q = None \<and> cmd_name q = request_type r \<and>
        (\<forall>nb. cmd_not_before q = Some nb \<longrightarrow> nb \<le> now) \<and>
        cmd = q\<lparr>cmd_time := Some now\<rparr> \<and> db' = save_command (target_channel t) cmd db)"

definition newly_created :: "int \<Rightarrow> target \<Rightarrow> request \<Rightarrow> db_command \<Rightarrow> mdm_db \<Rightarrow> mdm_db \<Rightarrow> bool" where
  "newly_created now t r cmd db db' \<longleftrightarrow>
     verify_channel_and_device r (target_channel t) (target_device t) \<and>
     cmd_uuid cmd = mdm_next_uuid db \<and> cmd_target cmd = target_pk t \<and> cmd_name cmd = request_type r \<and>
     cmd_time cmd = Some now \<and>
     db' = db\<lparr>mdm_next_uuid := Suc (mdm_next_uuid db),
       mdm_artifacts := update_commands (target_channel t) (\<lambda>cs. cs @ [cmd]) (mdm_artifacts db)\<rparr>"

definition well_behaved :: "int \<Rightarrow> target \<Rightarrow> (mdm_db \<Rightarrow> next_command) \<Rightarrow> bool" where
  "well_behaved now t f \<longleftrightarrow>
     (\<forall>db db'. f db = Inr (None, db') \<longrightarrow> db' = db) \<and>
     (\<forall>db r cmd db'. f db = Inr (Some (r, cmd), db') \<longrightarrow>
        taken now t r cmd db db' \<or> newly_created now t r cmd db db')"

lemma created_now:
  "created r (create_for_target now r t v None False (Some 0) db) = Inr (x, db') \<Longrightarrow>
     \<exists>cmd. x = Some (r, cmd) \<and> newly_created now t r cmd db db'"
  by (auto simp: created_def create_for_target_def newly_created_def Let_def split: if_splits)

lemma registered_name: "registered n = Some r \<Longrightarrow> n = request_type r"
  by (auto simp: registered_def find_Some_iff)

lemma queued_taken:
  assumes a: "get_next_queued_command now t db = Inr (Some (r, cmd), db')"
  shows "taken now t r cmd db db'"
proof -
  let ?due = "filter (\<lambda>c. cmd_target c = target_pk t \<and> cmd_time c = None \<and>
      (case cmd_not_before c of None \<Rightarrow> True | Some nb \<Rightarrow> nb \<le> now)) (target_commands t (mdm_artifacts db))"
  obtain q qs where q: "sort_key cmd_created_at ?due = q # qs"
    using a by (cases "sort_key cmd_created_at ?due") (simp_all add: get_next_queued_command_def)
  then have "q \<in> set (sort_key cmd_created_at ?due)" by simp
  then have "q \<in> set ?due" by (simp only: set_sort)
  moreover have "cmd_name q = request_type r" "cmd = q\<lparr>cmd_time := Some now\<rparr>"
      "db' = save_command (target_channel t) cmd db"
    using a unfolding get_next_queued_command_def q
    by (auto simp: created_def set_time_def load_command_def Let_def registered_name
        split: option.splits if_splits)
  ultimately show ?thesis
    unfolding taken_def by (intro bexI [of _ q]) (simp_all split: option.splits)
qed

lemma queued_None:
  assumes "get_next_queued_command now t db = Inr (None, db')"
  shows "db' = db" and "\<not> (\<exists>c \<in> set (target_commands t (mdm_artifacts db)).
    cmd_target c = target_pk t \<and> cmd_time c = None \<and> (\<forall>nb. cmd_not_before c = Some nb \<longrightarrow> nb \<le> now))"
proof -
  let ?due = "filter (\<lambda>c. cmd_target c = target_pk t \<and> cmd_time c = None \<and>
      (case cmd_not_before c of None \<Rightarrow> True | Some nb \<Rightarrow> nb \<le> now)) (target_commands t (mdm_artifacts db))"
  have s: "sort_key cmd_created_at ?due = []"
    using assms by (auto simp: get_next_queued_command_def created_def set_time_def load_command_def Let_def
        split: list.splits option.splits if_splits)
  then show "db' = db" using assms by (simp add: get_next_queued_command_def)
  have "set ?due = {}" unfolding set_sort [of cmd_created_at ?due, symmetric] s by simp
  then show "\<not> (\<exists>c \<in> set (target_commands t (mdm_artifacts db)).
    cmd_target c = target_pk t \<and> cmd_time c = None \<and> (\<forall>nb. cmd_not_before c = Some nb \<longrightarrow> nb \<le> now))"
    unfolding set_filter by (fastforce split: option.splits)
qed

lemma queued_well_behaved: "well_behaved now t (get_next_queued_command now t)"
  unfolding well_behaved_def using queued_taken queued_None(1) by blast

lemma accounts_well_behaved: "well_behaved now t (configure_dep_enrollment_accounts now s t)"
  unfolding well_behaved_def
  by (cases t) (auto simp: configure_dep_enrollment_accounts_def Let_def dest: created_now
      split: option.splits if_splits)

lemma install_well_behaved: "well_behaved now t (install_artifacts now t)"
  unfolding well_behaved_def
  by (auto simp: install_artifacts_def Let_def dest: created_now
      split: option.splits if_splits artifact_type.splits)

lemma remove_well_behaved: "well_behaved now t (remove_artifacts now t)"
  unfolding well_behaved_def
  by (auto simp: remove_artifacts_def dest: created_now
      split: option.splits if_splits artifact_type.splits)

lemma declarative_well_behaved: "well_behaved now t (trigger_declarative_management now parse_uuid t)"
  unfolding well_behaved_def
  by (cases t) (auto simp: trigger_declarative_management_def Let_def bind_result_Inr dest: created_now
      split: option.splits if_splits)

lemma finish_well_behaved: "well_behaved now t (finish_dep_enrollment_configuration now t)"
  unfolding well_behaved_def
  by (cases t) (auto simp: finish_dep_enrollment_configuration_def Let_def dest: created_now split: if_splits)

lemma next_command_funcs_well_behaved:
  "f \<in> set (next_command_funcs now parse_uuid s t) \<Longrightarrow> well_behaved now t f"
  using queued_well_behaved accounts_well_behaved install_well_behaved remove_well_behaved
    declarative_well_behaved finish_well_behaved
  by (auto simp: next_command_funcs_def) (simp add: well_behaved_def renew_mdm_payload_def)

text \<open>The functions before the one that answers all had nothing, in the same state.\<close>

lemma first_command_Some:
  assumes "first_command fs db = Inr (Some (r, cmd), db')" "\<And>f. f \<in> set fs \<Longrightarrow> well_behaved now t f"
  shows "\<exists>i < length fs. (fs ! i) db = Inr (Some (r, cmd), db') \<and> (\<forall>j < i. (fs ! j) db = Inr (None, db))"
  using assms
proof (induction fs)
  case (Cons f fs)
  have w: "well_behaved now t f" using Cons.prems(2) by simp
  show ?case
  proof (cases "f db")
    case (Inr p)
    show ?thesis
    proof (cases "fst p")
      case None
      then have f: "f db = Inr (None, db)" using Inr w unfolding well_behaved_def by (metis prod.collapse)
      then have "first_command fs db = Inr (Some (r, cmd), db')" using Cons.prems(1) by simp
      then obtain i where "i < length fs" "(fs ! i) db = Inr (Some (r, cmd), db')"
          "\<forall>j < i. (fs ! j) db = Inr (None, db)"
        using Cons.IH Cons.prems(2) by auto
      with f show ?thesis by (intro exI [of _ "Suc i"]) (auto simp: nth_Cons split: nat.splits)
    next
      case (Some x)
      then have "f db = Inr (Some (r, cmd), db')" using Inr Cons.prems(1) by (cases p) auto
      then show ?thesis by (intro exI [of _ 0]) simp
    qed
  next
    case (Inl e)
    then show ?thesis using Cons.prems(1) by simp
  qed
qed simp

lemma length_next_command_funcs: "length (next_command_funcs now parse_uuid s t) = 7"
  by (simp add: next_command_funcs_def)

lemma get_next_command_Some:
  assumes "get_next_command now parse_uuid s t db = Inr (Some (r, cmd), db')"
  obtains i where "i < 7" "(next_command_funcs now parse_uuid s t ! i) db = Inr (Some (r, cmd), db')"
    "\<forall>j < i. (next_command_funcs now parse_uuid s t ! j) db = Inr (None, db)"
proof -
  show thesis
    using first_command_Some [OF assms [unfolded get_next_command_def]
        next_command_funcs_well_behaved [of _ now parse_uuid s t]] that
    unfolding length_next_command_funcs by blast
qed

text \<open>
  C17: A command is delivered once. The command a device gets is one of the target, with its
  send time set now and stored so; no command of the database with this identifier had been sent
  before, it had been due when it came from the queue, and a new one is for a channel and a
  platform its class allows. The other commands do not change, and identifiers stay unique.
\<close>

theorem command_delivered_once:
  assumes uuids: "distinct (map cmd_uuid (target_commands t (mdm_artifacts db)))"
      "\<forall>c \<in> set (target_commands t (mdm_artifacts db)). cmd_uuid c < mdm_next_uuid db"
    and run: "get_next_command now parse_uuid s t db = Inr (Some (r, cmd), db')"
  shows "cmd_target cmd = target_pk t \<and> cmd_name cmd = request_type r \<and> cmd_time cmd = Some now \<and>
    (\<forall>c \<in> set (target_commands t (mdm_artifacts db)). cmd_uuid c = cmd_uuid cmd \<longrightarrow>
       cmd_time c = None \<and> (\<forall>nb. cmd_not_before c = Some nb \<longrightarrow> nb \<le> now)) \<and>
    (cmd_uuid cmd \<in> cmd_uuid ` set (target_commands t (mdm_artifacts db)) \<or>
       verify_channel_and_device r (target_channel t) (target_device t)) \<and>
    set (target_commands t (mdm_artifacts db')) =
      insert cmd {c \<in> set (target_commands t (mdm_artifacts db)). cmd_uuid c \<noteq> cmd_uuid cmd} \<and>
    distinct (map cmd_uuid (target_commands t (mdm_artifacts db'))) \<and>
    (\<forall>c \<in> set (target_commands t (mdm_artifacts db')). cmd_uuid c < mdm_next_uuid db')"
proof -
  obtain f where f: "f \<in> set (next_command_funcs now parse_uuid s t)" "f db = Inr (Some (r, cmd), db')"
    using get_next_command_Some [OF run]
    by (metis (no_types, lifting) length_next_command_funcs nth_mem)
  then consider "taken now t r cmd db db'" | "newly_created now t r cmd db db'"
    using next_command_funcs_well_behaved [OF f(1)] unfolding well_behaved_def by blast
  then show ?thesis
  proof cases
    case 1
    then obtain q where q: "q \<in> set (target_commands t (mdm_artifacts db))" "cmd_target q = target_pk t"
        "cmd_time q = None" "cmd_name q = request_type r" "\<forall>nb. cmd_not_before q = Some nb \<longrightarrow> nb \<le> now"
        "cmd = q\<lparr>cmd_time := Some now\<rparr>" "db' = save_command (target_channel t) cmd db"
      unfolding taken_def by blast
    have u: "cmd_uuid c = cmd_uuid cmd \<longleftrightarrow> c = q" if "c \<in> set (target_commands t (mdm_artifacts db))" for c
      using distinct_map_eqD [OF uuids(1) that q(1)] q(6) by auto
    have new: "target_commands t (mdm_artifacts db') =
        update_where (\<lambda>x. cmd_uuid x = cmd_uuid cmd) (\<lambda>_. cmd) (target_commands t (mdm_artifacts db))"
      using q(7) by (simp add: save_command_artifacts)
    have "set (target_commands t (mdm_artifacts db')) = insert cmd (set (target_commands t (mdm_artifacts db)) - {q})"
      unfolding new by (rule set_save_command [OF uuids(1) q(1)]) (simp add: q(6))
    moreover have "set (target_commands t (mdm_artifacts db)) - {q} =
        {c \<in> set (target_commands t (mdm_artifacts db)). cmd_uuid c \<noteq> cmd_uuid cmd}"
      using u by blast
    moreover have "mdm_next_uuid db' = mdm_next_uuid db" using q(7) by (simp add: save_command_def)
    moreover have "distinct (map cmd_uuid (target_commands t (mdm_artifacts db')))"
      unfolding new map_update_pk by (rule uuids(1))
    moreover have "cmd_time c = None \<and> (\<forall>nb. cmd_not_before c = Some nb \<longrightarrow> nb \<le> now)"
      if "c \<in> set (target_commands t (mdm_artifacts db))" "cmd_uuid c = cmd_uuid cmd" for c
      using u that q(3,5) by blast
    moreover have "cmd_target cmd = target_pk t" "cmd_name cmd = request_type r" "cmd_time cmd = Some now"
        "cmd_uuid cmd = cmd_uuid q"
      using q by simp_all
    ultimately show ?thesis using uuids(2) q(1) by auto
  next
    case 2
    then show ?thesis using uuids by (auto simp: newly_created_def)
  qed
qed

theorem command_delivered_once_witness:
  "\<exists>cmd db'. get_next_command 100 Some \<lparr>cs_dep_enrollment = None, cs_realm_user = None, cs_managed_apple_id = None\<rparr>
     (TDevice sample_mdm_device) sample_mdm_db = Inr (Some (InstallProfile, cmd), db') \<and>
     cmd_time cmd = Some 100 \<and> cmd \<in> set (device_commands (mdm_artifacts db'))"
proof -
  let ?s = "\<lparr>cs_dep_enrollment = None, cs_realm_user = None, cs_managed_apple_id = None\<rparr>"
  have "get_next_command 100 Some ?s (TDevice sample_mdm_device) sample_mdm_db =
      Inr (Some (InstallProfile, install_profile_command 100 (TDevice sample_mdm_device) 20 sample_mdm_db),
        sample_mdm_db\<lparr>mdm_next_uuid := 2, mdm_artifacts := sample_artifacts\<lparr>device_commands :=
          [install_profile_command 100 (TDevice sample_mdm_device) 20 sample_mdm_db]\<rparr>\<rparr>)"
    by code_simp
  from command_delivered_once [OF _ _ this] this show ?thesis
    by (simp add: sample_mdm_db_def sample_artifacts_def)
qed

lemma created_request: "created q res = Inr (Some (r, cmd), db') \<Longrightarrow> r = q"
  by (auto simp: created_def bind_result_Inr)

lemma other_requests:
  "configure_dep_enrollment_accounts now s t db = Inr (Some (r, cmd), db') \<Longrightarrow> r = AccountConfiguration"
  "install_artifacts now t db = Inr (Some (r, cmd), db') \<Longrightarrow> r = InstallProfile \<or> r = InstallEnterpriseApplication"
  "remove_artifacts now t db = Inr (Some (r, cmd), db') \<Longrightarrow> r = RemoveProfile"
  "trigger_declarative_management now parse_uuid t db = Inr (Some (r, cmd), db') \<Longrightarrow> r = DeclarativeManagement"
  by (auto simp: configure_dep_enrollment_accounts_def install_artifacts_def remove_artifacts_def
      trigger_declarative_management_def Let_def bind_result_Inr dest!: created_request
      split: option.splits if_splits artifact_type.splits)

text \<open>
  Setup Assistant is released last. A \<open>DeviceConfigured\<close> command that was not in the queue is
  only sent on the device channel to a device awaiting its configuration, when no queued command
  is due, the administrator account is configured or not required, no artifact to install before
  Setup Assistant and no profile to remove is left (or the device manages them by declarations,
  with the current token).
\<close>

theorem setup_released_last:
  assumes run: "get_next_command now parse_uuid s t db = Inr (Some (DeviceConfigured, cmd), db')"
    and queue: "\<forall>c \<in> set (target_commands t (mdm_artifacts db)).
      cmd_target c = target_pk t \<longrightarrow> cmd_time c = None \<longrightarrow> cmd_name c \<noteq> ''DeviceConfigured''"
  shows "target_channel t = DeviceChannel \<and>
    ed_awaiting_configuration (target_device t) = Some True \<and>
    \<not> (\<exists>c \<in> set (target_commands t (mdm_artifacts db)). cmd_target c = target_pk t \<and> cmd_time c = None \<and>
         (\<forall>nb. cmd_not_before c = Some nb \<longrightarrow> nb \<le> now)) \<and>
    (\<forall>e. cs_dep_enrollment s = Some e \<longrightarrow> requires_account_configuration e \<longrightarrow> cs_realm_user s \<noteq> None \<longrightarrow>
       (\<exists>c \<in> set (device_commands (mdm_artifacts db)). cmd_name c = ''AccountConfiguration'' \<and>
          cmd_target c = target_pk t \<and> cmd_status c = Some ''Acknowledged'')) \<and>
    (\<not> ed_declarative_management (target_device t) \<longrightarrow>
       next_to_install t (mdm_artifacts db) = None \<and> next_to_remove t (mdm_artifacts db) = None) \<and>
    (\<forall>bp. ed_declarative_management (target_device t) \<longrightarrow> device_blueprint (target_device t) db = Some bp \<longrightarrow>
       (\<exists>token. declarations_token parse_uuid bp = Inr token \<and>
          ed_declarations_token (target_device t) = Some token))"
proof -
  obtain i where i: "i < 7" "(next_command_funcs now parse_uuid s t ! i) db = Inr (Some (DeviceConfigured, cmd), db')"
      "\<forall>j < i. (next_command_funcs now parse_uuid s t ! j) db = Inr (None, db)"
    using get_next_command_Some [OF run] .
  have q: "get_next_queued_command now t db \<noteq> Inr (Some (DeviceConfigured, cmd), db')"
    using queued_taken [of now t db DeviceConfigured cmd db'] queue by (auto simp: taken_def)
  have f: "i = 0 \<or> i = 1 \<or> i = 2 \<or> i = 3 \<or> i = 4 \<or> i = 5 \<or> i = 6" using i(1) by presburger
  then have "i = 6"
    using i(2) q
    by (elim disjE) (auto simp: next_command_funcs_def renew_mdm_payload_def dest: other_requests)
  then have fin: "finish_dep_enrollment_configuration now t db = Inr (Some (DeviceConfigured, cmd), db')"
    and none: "get_next_queued_command now t db = Inr (None, db)"
      "configure_dep_enrollment_accounts now s t db = Inr (None, db)" "install_artifacts now t db = Inr (None, db)"
      "remove_artifacts now t db = Inr (None, db)" "trigger_declarative_management now parse_uuid t db = Inr (None, db)"
    using i(2) spec [OF i(3), of 0] spec [OF i(3), of 1] spec [OF i(3), of 3] spec [OF i(3), of 4] spec [OF i(3), of 5]
    by (simp_all add: next_command_funcs_def)
  have dev: "target_channel t = DeviceChannel" "ed_awaiting_configuration (target_device t) = Some True"
    using fin by (auto simp: finish_dep_enrollment_configuration_def Let_def split: if_splits)
  then have pk: "target_pk t = ed_pk (target_device t)" by (cases t) simp_all
  have "next_to_install t (mdm_artifacts db) = None \<and> next_to_remove t (mdm_artifacts db) = None"
    if "\<not> ed_declarative_management (target_device t)"
    using none(3,4) that by (auto simp: install_artifacts_def remove_artifacts_def created_def Let_def bind_result_Inr
        split: option.splits artifact_type.splits)
  moreover have "\<exists>c \<in> set (device_commands (mdm_artifacts db)). cmd_name c = ''AccountConfiguration'' \<and>
      cmd_target c = target_pk t \<and> cmd_status c = Some ''Acknowledged''"
    if "cs_dep_enrollment s = Some e" "requires_account_configuration e" "cs_realm_user s \<noteq> None" for e
    using none(2) that dev pk by (auto simp: configure_dep_enrollment_accounts_def created_def Let_def bind_result_Inr
        list_ex_iff split: if_splits)
  moreover have "\<exists>token. declarations_token parse_uuid bp = Inr token \<and>
      ed_declarations_token (target_device t) = Some token"
    if "ed_declarative_management (target_device t)" "device_blueprint (target_device t) db = Some bp" for bp
    using none(5) that dev by (auto simp: trigger_declarative_management_def created_def Let_def bind_result_Inr
        split: if_splits)
  ultimately show ?thesis using dev queued_None(2) [OF none(1)] by blast
qed

definition waiting_device :: enrolled_device where
  "waiting_device = sample_mdm_device\<lparr>ed_awaiting_configuration := Some True\<rparr>"

definition no_session :: command_session where
  "no_session = \<lparr>cs_dep_enrollment = None, cs_realm_user = None, cs_managed_apple_id = None\<rparr>"

definition clean_mdm_db :: mdm_db where
  "clean_mdm_db = sample_mdm_db\<lparr>mdm_artifacts := sample_artifacts\<lparr>device_artifacts := []\<rparr>\<rparr>"

lemma waiting_get_next:
  "fst (projr (get_next_command 100 Some no_session (TDevice waiting_device) clean_mdm_db)) =
     Some (DeviceConfigured, \<lparr>cmd_uuid = 1, cmd_target = 1, cmd_name = ''DeviceConfigured'',
       cmd_artifact_version = None, cmd_artifact_operation = None, cmd_retries = None, cmd_not_before = None,
       cmd_time = Some 100, cmd_result_time = None, cmd_status = None, cmd_error_chain = None, cmd_created_at = 100\<rparr>)"
  "isl (get_next_command 100 Some no_session (TDevice waiting_device) clean_mdm_db) = False"
  by code_simp+

theorem setup_released_last_witness:
  "\<exists>cmd db'. get_next_command 100 Some no_session (TDevice waiting_device) clean_mdm_db =
      Inr (Some (DeviceConfigured, cmd), db') \<and>
    ed_awaiting_configuration waiting_device = Some True \<and>
    next_to_install (TDevice waiting_device) (mdm_artifacts clean_mdm_db) = None"
proof -
  obtain cmd db' where run: "get_next_command 100 Some no_session (TDevice waiting_device) clean_mdm_db =
      Inr (Some (DeviceConfigured, cmd), db')"
    using waiting_get_next
    by (cases "get_next_command 100 Some no_session (TDevice waiting_device) clean_mdm_db") auto
  have "\<not> ed_declarative_management waiting_device" by (simp add: waiting_device_def sample_mdm_device_def)
  with setup_released_last [OF run] run show ?thesis
    by (simp add: clean_mdm_db_def sample_mdm_db_def sample_artifacts_def)
qed

end
