(* ===== verification/SantaModels.thy ===== *)
theory SantaModels imports EnrollmentSecrets begin

text \<open>
  The models of \<open>zentral/contrib/santa/models.py\<close>: the configuration and what a Santa client is
  told of it, the enrolled machines, the targets, the bundles and the rules. Text attributes that
  cannot be null are strings, the others options.
\<close>

subsection \<open>Configurations\<close>

abbreviation MONITOR_MODE :: int where "MONITOR_MODE \<equiv> 1"
abbreviation LOCKDOWN_MODE :: int where "LOCKDOWN_MODE \<equiv> 2"

record santa_configuration =
  sc_pk :: nat
  sc_name :: string
  sc_client_mode :: int
  sc_file_changes_regex :: string
  sc_file_changes_prefix_filters :: string
  sc_allowed_path_regex :: string
  sc_blocked_path_regex :: string
  sc_enable_page_zero_protection :: bool
  sc_enable_bad_signature_protection :: bool
  sc_enable_sysx_cache :: bool
  sc_more_info_url :: string
  sc_event_detail_url :: string
  sc_event_detail_text :: string
  sc_unknown_block_message :: string
  sc_banned_block_message :: string
  sc_mode_notification_monitor :: string
  sc_mode_notification_lockdown :: string
  sc_machine_owner_plist :: string
  sc_machine_owner_key :: string
  sc_client_certificate_auth :: bool
  sc_client_auth_certificate_issuer_cn :: string
  sc_batch_size :: nat
  sc_full_sync_interval :: nat
  sc_enable_bundles :: bool
  sc_enable_transitive_rules :: bool

text \<open>\<open>getattr(self, k)\<close>, for the attributes the two lists below name.\<close>

definition configuration_attrs :: "santa_configuration \<Rightarrow> dict" where
  "configuration_attrs c =
     [(''client_mode'', PInt (sc_client_mode c)),
      (''file_changes_regex'', PStr (sc_file_changes_regex c)),
      (''file_changes_prefix_filters'', PStr (sc_file_changes_prefix_filters c)),
      (''allowed_path_regex'', PStr (sc_allowed_path_regex c)),
      (''blocked_path_regex'', PStr (sc_blocked_path_regex c)),
      (''enable_page_zero_protection'', PBool (sc_enable_page_zero_protection c)),
      (''enable_bad_signature_protection'', PBool (sc_enable_bad_signature_protection c)),
      (''enable_sysx_cache'', PBool (sc_enable_sysx_cache c)),
      (''more_info_url'', PStr (sc_more_info_url c)),
      (''event_detail_url'', PStr (sc_event_detail_url c)),
      (''event_detail_text'', PStr (sc_event_detail_text c)),
      (''unknown_block_message'', PStr (sc_unknown_block_message c)),
      (''banned_block_message'', PStr (sc_banned_block_message c)),
      (''mode_notification_monitor'', PStr (sc_mode_notification_monitor c)),
      (''mode_notification_lockdown'', PStr (sc_mode_notification_lockdown c)),
      (''machine_owner_plist'', PStr (sc_machine_owner_plist c)),
      (''machine_owner_key'', PStr (sc_machine_owner_key c)),
      (''client_auth_certificate_issuer_cn'', PStr (sc_client_auth_certificate_issuer_cn c)),
      (''batch_size'', PInt (int (sc_batch_size c))),
      (''full_sync_interval'', PInt (int (sc_full_sync_interval c))),
      (''enable_bundles'', PBool (sc_enable_bundles c)),
      (''enable_transitive_rules'', PBool (sc_enable_transitive_rules c))]"

text \<open>The attribute sets of the class, in the order of the source.\<close>

definition LOCAL_CONFIGURATION_ATTRIBUTES :: "string list" where
  "LOCAL_CONFIGURATION_ATTRIBUTES =
     [''client_mode'', ''file_changes_regex'', ''file_changes_prefix_filters'', ''allowed_path_regex'',
      ''blocked_path_regex'', ''enable_page_zero_protection'', ''enable_bad_signature_protection'',
      ''enable_sysx_cache'', ''more_info_url'', ''event_detail_url'', ''event_detail_text'',
      ''unknown_block_message'', ''banned_block_message'', ''mode_notification_monitor'',
      ''mode_notification_lockdown'', ''machine_owner_plist'', ''machine_owner_key'',
      ''client_auth_certificate_issuer_cn'']"

definition SYNC_SERVER_CONFIGURATION_ATTRIBUTES :: "string list" where
  "SYNC_SERVER_CONFIGURATION_ATTRIBUTES =
     [''batch_size'', ''full_sync_interval'', ''allowed_path_regex'', ''blocked_path_regex'',
      ''enable_bundles'', ''enable_transitive_rules'']"

definition DEPRECATED_ATTRIBUTES_MAPPING_1_14 :: "(string \<times> string) list" where
  "DEPRECATED_ATTRIBUTES_MAPPING_1_14 =
     [(''allowed_path_regex'', ''whitelist_regex''), (''blocked_path_regex'', ''blacklist_regex''),
      (''enable_transitive_rules'', ''enabled_transitive_whitelisting'')]"

text \<open>Versions are tuples of integers, and tuples compare like lists.\<close>

definition parse_version :: "string \<Rightarrow> pyerror + int list" where
  "parse_version v = map_result (\<lambda>i. case parse_int i of None \<Rightarrow> Inl ValueError | Some n \<Rightarrow> Inr n) (split_on CHR ''.'' v)"

fun rename_attributes :: "(string \<times> string) list \<Rightarrow> dict \<Rightarrow> pyerror + dict" where
  "rename_attributes [] config = Inr config"
| "rename_attributes ((attr, deprecated) # m) config =
     (case dict_get config attr of
        None \<Rightarrow> Inl (KeyError attr)
      | Some v \<Rightarrow> rename_attributes m (dict_set deprecated v (dict_del attr config)))"

text \<open>\<open>random\<close> is the string \<open>get_random_string(8)\<close> returns for the attribute.\<close>

definition sync_regex :: "(string \<Rightarrow> string) \<Rightarrow> string \<Rightarrow> dict \<Rightarrow> dict" where
  "sync_regex random attr config =
     (if truthy (dict_get_default config attr PNone) then config
      else dict_set attr (PStr (''NON_MATCHING_PLACEHOLDER_'' @ random attr)) config)"

definition get_sync_server_config ::
  "(string \<Rightarrow> string) \<Rightarrow> santa_configuration \<Rightarrow> string \<Rightarrow> pyerror + dict" where
  "get_sync_server_config random c santa_version =
     (let config = map (\<lambda>k. (k, the (dict_get (configuration_attrs c) k))) SYNC_SERVER_CONFIGURATION_ATTRIBUTES in
      bind_result
        (if sc_client_mode c = MONITOR_MODE then Inr (dict_set ''client_mode'' (PStr ''MONITOR'') config)
         else if sc_client_mode c = LOCKDOWN_MODE then Inr (dict_set ''client_mode'' (PStr ''LOCKDOWN'') config)
         else Inl NotImplementedError) (\<lambda>config.
      bind_result (parse_version santa_version) (\<lambda>version.
        (let config = sync_regex random ''blocked_path_regex'' (sync_regex random ''allowed_path_regex'' config)
         in if version < [1, 14] then rename_attributes DEPRECATED_ATTRIBUTES_MAPPING_1_14 config
            else Inr config))))"

fun capitalize :: "string \<Rightarrow> string" where
  "capitalize [] = []"
| "capitalize (c # s) = upper_char c # map lower_char s"

definition config_attr_item :: "string \<Rightarrow> string" where
  "config_attr_item i = (if i = ''url'' then ''URL'' else if i = ''cn'' then ''CN'' else capitalize i)"

definition config_attr :: "int list \<Rightarrow> string \<Rightarrow> string" where
  "config_attr min_supported_santa_version k =
     (let k' = (if min_supported_santa_version < [1, 14]
                then (case map_of DEPRECATED_ATTRIBUTES_MAPPING_1_14 k of None \<Rightarrow> k | Some d \<Rightarrow> d) else k)
      in concat (map config_attr_item (split_on CHR ''_'' k')))"

definition get_local_config :: "int list \<Rightarrow> santa_configuration \<Rightarrow> dict" where
  "get_local_config min_supported_santa_version c =
     foldl (\<lambda>config k.
        (let v = the (dict_get (configuration_attrs c) k) in
         if \<not> truthy v then config else dict_set (config_attr min_supported_santa_version k) v config))
       [] LOCAL_CONFIGURATION_ATTRIBUTES"

definition configuration_serialize_for_event :: "santa_configuration \<Rightarrow> dict" where
  "configuration_serialize_for_event c = [(''pk'', PInt (int (sc_pk c))), (''name'', PStr (sc_name c))]"

definition is_monitor_mode :: "santa_configuration \<Rightarrow> bool" where
  "is_monitor_mode c \<longleftrightarrow> sc_client_mode c = MONITOR_MODE"

subsection \<open>What a client is told\<close>

lemma foldl_present:
  assumes "distinct (map f ks)"
  shows "dict_get (foldl (\<lambda>d k. if \<not> p k then d else dict_set (f k) (g k) d) d0 ks) x =
    (case map_of (map (\<lambda>k. (f k, k)) ks) x of
       None \<Rightarrow> dict_get d0 x
     | Some k \<Rightarrow> if p k then Some (g k) else dict_get d0 x)"
  using assms
proof (induction ks arbitrary: d0)
  case (Cons k ks)
  have "map_of (map (\<lambda>k. (f k, k)) ks) (f k) = None"
    using Cons.prems by (auto simp: map_of_eq_None_iff)
  then show ?case using Cons by (auto simp: dict_simps split: option.splits)
qed simp

lemma config_attr_names:
  "distinct (map (config_attr v) LOCAL_CONFIGURATION_ATTRIBUTES)"
proof (cases "v < [1, 14]")
  case True
  then have "config_attr v = config_attr [1, 13]" by (simp add: config_attr_def fun_eq_iff)
  moreover have "distinct (map (config_attr [1, 13]) LOCAL_CONFIGURATION_ATTRIBUTES)" by code_simp
  ultimately show ?thesis by simp
next
  case False
  then have "config_attr v = config_attr [1, 14]" by (simp add: config_attr_def fun_eq_iff)
  moreover have "distinct (map (config_attr [1, 14]) LOCAL_CONFIGURATION_ATTRIBUTES)" by code_simp
  ultimately show ?thesis by simp
qed

text \<open>
  The local configuration holds the settings, all of them and nothing else. For every local
  attribute of the class, the key built from its name (with the names of the older clients when
  these are supported) has its value, unless this value is empty or false, and then the key is
  absent; no other key is written, and two attributes never share a key.
\<close>

theorem local_config_complete:
  "dict_get (get_local_config v c) x =
     Option.bind (map_of (map (\<lambda>k. (config_attr v k, k)) LOCAL_CONFIGURATION_ATTRIBUTES) x)
       (\<lambda>k. case dict_get (configuration_attrs c) k of
          None \<Rightarrow> None | Some w \<Rightarrow> if truthy w then Some w else None) \<and>
   distinct (map (config_attr v) LOCAL_CONFIGURATION_ATTRIBUTES)"
proof -
  have k: "dict_get (configuration_attrs c) k \<noteq> None" if "k \<in> set LOCAL_CONFIGURATION_ATTRIBUTES" for k
    using that by (auto simp: LOCAL_CONFIGURATION_ATTRIBUTES_def configuration_attrs_def)
  have "dict_get (get_local_config v c) x =
      (case map_of (map (\<lambda>k. (config_attr v k, k)) LOCAL_CONFIGURATION_ATTRIBUTES) x of
         None \<Rightarrow> None
       | Some k \<Rightarrow> if truthy (the (dict_get (configuration_attrs c) k)) then dict_get (configuration_attrs c) k else None)"
    using foldl_present [OF config_attr_names, where p = "\<lambda>k. truthy (the (dict_get (configuration_attrs c) k))"
        and g = "\<lambda>k. the (dict_get (configuration_attrs c) k)" and ?d0.0 = "[]" and x = x] k
    by (auto simp: get_local_config_def Let_def dest!: map_of_SomeD split: option.splits)
  then show ?thesis using config_attr_names by (auto split: option.splits)
qed

text \<open>
  A client is always sent regular expressions it can compile, under names it knows. For a
  known client mode and a version made of integers, the configuration is built; the two path
  expressions have the setting when there is one, and a placeholder otherwise, never the empty
  string, under their old names before 1.14 and their new ones after, and never under both.
\<close>

theorem sync_config_regexes:
  assumes "sc_client_mode c = MONITOR_MODE \<or> sc_client_mode c = LOCKDOWN_MODE"
    and "parse_version santa_version = Inr v"
  shows "\<exists>config. get_sync_server_config random c santa_version = Inr config \<and>
    dict_get config ''client_mode'' =
      Some (PStr (if sc_client_mode c = MONITOR_MODE then ''MONITOR'' else ''LOCKDOWN'')) \<and>
    dict_get config ''batch_size'' = Some (PInt (int (sc_batch_size c))) \<and>
    dict_get config (if v < [1, 14] then ''whitelist_regex'' else ''allowed_path_regex'') =
      Some (PStr (if sc_allowed_path_regex c \<noteq> [] then sc_allowed_path_regex c
                  else ''NON_MATCHING_PLACEHOLDER_'' @ random ''allowed_path_regex'')) \<and>
    dict_get config (if v < [1, 14] then ''blacklist_regex'' else ''blocked_path_regex'') =
      Some (PStr (if sc_blocked_path_regex c \<noteq> [] then sc_blocked_path_regex c
                  else ''NON_MATCHING_PLACEHOLDER_'' @ random ''blocked_path_regex'')) \<and>
    dict_get config (if v < [1, 14] then ''allowed_path_regex'' else ''whitelist_regex'') = None \<and>
    dict_get config (if v < [1, 14] then ''blocked_path_regex'' else ''blacklist_regex'') = None"
  using assms
  by (cases "v < [1, 14]"; cases "sc_allowed_path_regex c = []"; cases "sc_blocked_path_regex c = []")
    (auto simp: get_sync_server_config_def SYNC_SERVER_CONFIGURATION_ATTRIBUTES_def configuration_attrs_def
      sync_regex_def dict_get_default_def DEPRECATED_ATTRIBUTES_MAPPING_1_14_def Let_def dict_simps)

definition sample_santa_configuration :: santa_configuration where
  "sample_santa_configuration =
     \<lparr>sc_pk = 1, sc_name = ''Default'', sc_client_mode = 2, sc_file_changes_regex = [],
      sc_file_changes_prefix_filters = [], sc_allowed_path_regex = ''^/Applications/'',
      sc_blocked_path_regex = [], sc_enable_page_zero_protection = True,
      sc_enable_bad_signature_protection = False, sc_enable_sysx_cache = False, sc_more_info_url = [],
      sc_event_detail_url = [], sc_event_detail_text = [], sc_unknown_block_message = ''Unknown'',
      sc_banned_block_message = ''Banned'', sc_mode_notification_monitor = ''Monitor'',
      sc_mode_notification_lockdown = ''Lockdown'', sc_machine_owner_plist = [], sc_machine_owner_key = [],
      sc_client_certificate_auth = False, sc_client_auth_certificate_issuer_cn = [],
      sc_batch_size = 5, sc_full_sync_interval = 600, sc_enable_bundles = True,
      sc_enable_transitive_rules = False\<rparr>"

theorem sync_config_regexes_witness:
  "\<exists>config. get_sync_server_config (\<lambda>_. ''12345678'') sample_santa_configuration ''1.13'' = Inr config \<and>
     dict_get config ''whitelist_regex'' = Some (PStr ''^/Applications/'') \<and>
     dict_get config ''blacklist_regex'' = Some (PStr ''NON_MATCHING_PLACEHOLDER_12345678'') \<and>
     dict_get config ''allowed_path_regex'' = None"
proof -
  have m: "sc_client_mode sample_santa_configuration = MONITOR_MODE \<or>
      sc_client_mode sample_santa_configuration = LOCKDOWN_MODE"
    by (simp add: sample_santa_configuration_def)
  have v: "parse_version ''1.13'' = Inr [1, 13]" by code_simp
  have lt: "[1, 13] < ([1, 14] :: int list)" by simp
  show ?thesis
    using sync_config_regexes [OF m v, where random = "\<lambda>_. ''12345678''"] lt
    by (auto simp: sample_santa_configuration_def)
qed

subsection \<open>Machines, targets, bundles and rules\<close>

record santa_machine =
  em_pk :: nat
  em_enrollment :: nat
  em_hardware_uuid :: string
  em_serial_number :: string
  em_primary_user :: "string option"
  em_client_mode :: int
  em_santa_version :: string
  em_binary_rule_count :: "int option"
  em_certificate_rule_count :: "int option"
  em_compiler_rule_count :: "int option"
  em_transitive_rule_count :: "int option"

datatype target_type = BINARY | BUNDLE | CERTIFICATE

fun target_type_str :: "target_type \<Rightarrow> string" where
  "target_type_str BINARY = ''BINARY''"
| "target_type_str BUNDLE = ''BUNDLE''"
| "target_type_str CERTIFICATE = ''CERTIFICATE''"

record santa_target =
  tg_pk :: nat
  tg_type :: target_type
  tg_sha256 :: string

definition target_serialize_for_event :: "santa_target \<Rightarrow> dict" where
  "target_serialize_for_event t =
     [(''type'', PStr (target_type_str (tg_type t))), (''sha256'', PStr (tg_sha256 t))]"

record santa_bundle =
  bd_pk :: nat
  bd_target :: nat
  bd_path :: string
  bd_executable_rel_path :: string
  bd_bundle_id :: string
  bd_name :: string
  bd_version :: string
  bd_version_str :: string
  bd_binary_count :: nat
  bd_binary_targets :: "nat list"
  bd_uploaded_at :: "int option"

definition bundle_str :: "santa_bundle \<Rightarrow> string" where
  "bundle_str b = bd_bundle_id b @ '' '' @ bd_version_str b"

record ruleset =
  rs_pk :: nat
  rs_name :: string

definition ruleset_serialize_for_event :: "ruleset \<Rightarrow> dict" where
  "ruleset_serialize_for_event r = [(''pk'', PInt (int (rs_pk r))), (''name'', PStr (rs_name r))]"

text \<open>A tag is its primary key and its name.\<close>

record santa_rule =
  ru_configuration :: nat
  ru_ruleset :: "ruleset option"
  ru_target :: nat
  ru_policy :: int
  ru_custom_msg :: string
  ru_version :: nat
  ru_serial_numbers :: "string list"
  ru_excluded_serial_numbers :: "string list"
  ru_primary_users :: "string list"
  ru_excluded_primary_users :: "string list"
  ru_tags :: "(nat \<times> string) list"
  ru_excluded_tags :: "(nat \<times> string) list"

abbreviation ALLOWLIST :: int where "ALLOWLIST \<equiv> 1"
abbreviation BLOCKLIST :: int where "BLOCKLIST \<equiv> 2"
abbreviation SILENT_BLOCKLIST :: int where "SILENT_BLOCKLIST \<equiv> 3"
abbreviation REMOVE :: int where "REMOVE \<equiv> 4"
abbreviation ALLOWLIST_COMPILER :: int where "ALLOWLIST_COMPILER \<equiv> 5"

definition is_blocking_rule :: "santa_rule \<Rightarrow> bool" where
  "is_blocking_rule r \<longleftrightarrow> ru_policy r \<in> {BLOCKLIST, SILENT_BLOCKLIST}"

definition translate_rule_policy :: "int \<Rightarrow> pyerror + string" where
  "translate_rule_policy policy =
     (if policy = ALLOWLIST then Inr ''ALLOWLIST''
      else if policy = ALLOWLIST_COMPILER then Inr ''ALLOWLIST_COMPILER''
      else if policy = BLOCKLIST then Inr ''BLOCKLIST''
      else if policy = SILENT_BLOCKLIST then Inr ''SILENT_BLOCKLIST''
      else if policy = REMOVE then Inr ''REMOVE''
      else Inl ValueError)"

definition tags_for_event :: "(nat \<times> string) list \<Rightarrow> pyval option" where
  "tags_for_event tags =
     (if tags = [] then None
      else Some (PList (map (\<lambda>(pk, name). PDict [(''pk'', PInt (int pk)), (''name'', PStr name)]) (sort_key fst tags))))"

definition strings_for_event :: "string list \<Rightarrow> pyval option" where
  "strings_for_event l = (if l = [] then None else Some (PList (map PStr (sort_key str_key l))))"

definition rule_serialize_for_event ::
  "santa_configuration \<Rightarrow> santa_target \<Rightarrow> santa_rule \<Rightarrow> pyerror + dict" where
  "rule_serialize_for_event c t r =
     bind_result (translate_rule_policy (ru_policy r)) (\<lambda>policy.
       Inr ([(''configuration'', PDict (configuration_serialize_for_event c)),
             (''target'', PDict (target_serialize_for_event t)), (''policy'', PStr policy)] @
         present
           [(''ruleset'', map_option (\<lambda>s. PDict (ruleset_serialize_for_event s)) (ru_ruleset r)),
            (''custom_msg'', if ru_custom_msg r = [] then None else Some (PStr (ru_custom_msg r))),
            (''serial_numbers'', strings_for_event (ru_serial_numbers r)),
            (''excluded_serial_numbers'', strings_for_event (ru_excluded_serial_numbers r)),
            (''primary_users'', strings_for_event (ru_primary_users r)),
            (''excluded_primary_users'', strings_for_event (ru_excluded_primary_users r)),
            (''tags'', tags_for_event (ru_tags r)),
            (''excluded_tags'', tags_for_event (ru_excluded_tags r))]))"

definition santa_enrollment_serialize_for_event ::
  "(enrollment \<Rightarrow> dict) \<Rightarrow> santa_configuration \<Rightarrow> enrollment \<Rightarrow> dict" where
  "santa_enrollment_serialize_for_event base c e =
     dict_set ''configuration'' (PDict [(''pk'', PInt (int (sc_pk c))), (''name'', PStr (sc_name c))]) (base e)"

end
