(* ===== verification/SantaRules.thy ===== *)
theory SantaRules imports SantaModels begin

text \<open>
  \<open>MachineRuleManager\<close> of \<open>zentral/contrib/santa/models.py\<close>: which rules a machine is sent
  next. The clauses of the query are list comprehensions over the tables; its two unions remove
  duplicates, and rows the \<open>order by\<close> clause does not separate keep the order of the tables.
\<close>

record machine_rule =
  mr_machine :: nat
  mr_target :: nat
  mr_policy :: int
  mr_version :: nat
  mr_cursor :: "string option"

record santa_tables =
  st_targets :: "santa_target list"
  st_bundles :: "santa_bundle list"
  st_rules :: "santa_rule list"
  st_machine_rules :: "machine_rule list"

subsection \<open>The query\<close>

text \<open>The conditions of \<open>filtered_rules\<close>, for the machine, its user and its tags.\<close>

definition rule_in_scope :: "santa_machine \<Rightarrow> nat list \<Rightarrow> santa_rule \<Rightarrow> bool" where
  "rule_in_scope m tags r \<longleftrightarrow>
     (ru_serial_numbers r = [] \<or> em_serial_number m \<in> set (ru_serial_numbers r)) \<and>
     em_serial_number m \<notin> set (ru_excluded_serial_numbers r) \<and>
     (if truthy_str (em_primary_user m)
      then (ru_primary_users r = [] \<or> the (em_primary_user m) \<in> set (ru_primary_users r)) \<and>
           the (em_primary_user m) \<notin> set (ru_excluded_primary_users r)
      else ru_primary_users r = [] \<and> ru_excluded_primary_users r = []) \<and>
     (if tags \<noteq> []
      then (ru_tags r = [] \<or> list_ex (\<lambda>t. t \<in> set tags) (map fst (ru_tags r))) \<and>
           \<not> list_ex (\<lambda>t. t \<in> set tags) (map fst (ru_excluded_tags r))
      else ru_tags r = [])"

text \<open>A bundle rule is a rule for each binary of the bundle, once these are known.\<close>

record expanded_rule =
  xr_target :: nat
  xr_policy :: int
  xr_custom_msg :: "string option"
  xr_version :: nat
  xr_bundle_count :: "nat option"
  xr_bundle_target :: "nat option"

definition expanded_row :: "santa_rule \<Rightarrow> nat \<Rightarrow> santa_bundle option \<Rightarrow> expanded_rule" where
  "expanded_row r t b =
     \<lparr>xr_target = t, xr_policy = ru_policy r, xr_custom_msg = Some (ru_custom_msg r),
      xr_version = ru_version r, xr_bundle_count = map_option bd_binary_count b,
      xr_bundle_target = map_option bd_target b\<rparr>"

definition bundle_rows :: "santa_rule \<Rightarrow> santa_bundle \<Rightarrow> expanded_rule list" where
  "bundle_rows r b =
     (case bd_binary_targets b of
        [] \<Rightarrow> [expanded_row r (ru_target r) (Some b)]
      | ts \<Rightarrow> map (\<lambda>t. expanded_row r t (Some b)) ts)"

definition expand_rule :: "santa_bundle list \<Rightarrow> santa_rule \<Rightarrow> expanded_rule list" where
  "expand_rule bundles r =
     (case filter (\<lambda>b. bd_target b = ru_target r) bundles of
        [] \<Rightarrow> [expanded_row r (ru_target r) None]
      | bs \<Rightarrow> concat (map (bundle_rows r) bs))"

definition expanded_rules ::
  "santa_configuration \<Rightarrow> santa_machine \<Rightarrow> nat list \<Rightarrow> santa_tables \<Rightarrow> expanded_rule list" where
  "expanded_rules c m tags db =
     concat (map (expand_rule (st_bundles db))
       (filter (\<lambda>r. ru_configuration r = sc_pk c \<and> rule_in_scope m tags r) (st_rules db)))"

definition rules_of_machine :: "nat \<Rightarrow> machine_rule list \<Rightarrow> machine_rule list" where
  "rules_of_machine pk rows = filter (\<lambda>mr. mr_machine mr = pk) rows"

text \<open>The rules the machine does not have as they are, and the ones it has to remove.\<close>

definition removal :: "nat \<Rightarrow> expanded_rule" where
  "removal t = \<lparr>xr_target = t, xr_policy = REMOVE, xr_custom_msg = None, xr_version = 1,
     xr_bundle_count = None, xr_bundle_target = None\<rparr>"

definition rule_changed :: "machine_rule list \<Rightarrow> expanded_rule \<Rightarrow> bool" where
  "rule_changed mrs er \<longleftrightarrow>
     (let ms = filter (\<lambda>mr. mr_target mr = xr_target er) mrs in
      ms = [] \<or> list_ex (\<lambda>mr. xr_policy er \<noteq> mr_policy mr \<or> xr_version er \<noteq> mr_version mr) ms)"

definition changed_rules :: "expanded_rule list \<Rightarrow> machine_rule list \<Rightarrow> expanded_rule list" where
  "changed_rules ers mrs =
     remdups (filter (rule_changed mrs) ers @
       map (\<lambda>mr. removal (mr_target mr))
         (filter (\<lambda>mr. \<not> list_ex (\<lambda>er. xr_target er = mr_target mr) ers) mrs))"

definition find_target :: "nat \<Rightarrow> santa_tables \<Rightarrow> santa_target option" where
  "find_target pk db = find (\<lambda>t. tg_pk t = pk) (st_targets db)"

text \<open>The rows of the query: the change and its target, in the order of the hashes.\<close>

definition iter_new_rules ::
  "santa_configuration \<Rightarrow> santa_machine \<Rightarrow> nat list \<Rightarrow> santa_tables \<Rightarrow> (santa_target \<times> expanded_rule) list" where
  "iter_new_rules c m tags db =
     take (sc_batch_size c)
       (sort_key (\<lambda>(t, er). str_key (tg_sha256 t))
         (List.map_filter (\<lambda>er. map_option (\<lambda>t. (t, er)) (find_target (xr_target er) db))
           (changed_rules (expanded_rules c m tags db)
             (rules_of_machine (em_pk m) (st_machine_rules db)))))"

subsection \<open>A batch\<close>

definition machine_rule_key :: "machine_rule \<Rightarrow> nat \<times> nat" where
  "machine_rule_key mr = (mr_machine mr, mr_target mr)"

definition new_machine_rule :: "nat \<times> nat \<Rightarrow> int \<times> nat \<times> string \<Rightarrow> machine_rule" where
  "new_machine_rule k d = \<lparr>mr_machine = fst k, mr_target = snd k, mr_policy = fst d,
     mr_version = fst (snd d), mr_cursor = Some (snd (snd d))\<rparr>"

definition apply_rule_defaults :: "int \<times> nat \<times> string \<Rightarrow> machine_rule \<Rightarrow> machine_rule" where
  "apply_rule_defaults d mr = mr\<lparr>mr_policy := fst d, mr_version := fst (snd d), mr_cursor := Some (snd (snd d))\<rparr>"

abbreviation upsert_machine_rule ::
  "nat \<times> nat \<Rightarrow> int \<times> nat \<times> string \<Rightarrow> machine_rule list \<Rightarrow> machine_rule list" where
  "upsert_machine_rule \<equiv> upsert machine_rule_key new_machine_rule apply_rule_defaults"

text \<open>
  What is acknowledged and what is forgotten when a machine asks for rules: \<open>truthy_str\<close> is the
  test of \<open>if cursor\<close>.
\<close>

definition cleanup_unacknowledged :: "nat \<Rightarrow> string option \<Rightarrow> machine_rule list \<Rightarrow> machine_rule list" where
  "cleanup_unacknowledged pk cursor rows =
     delete_where (\<lambda>mr. mr_machine mr = pk \<and> mr_policy mr \<noteq> REMOVE \<and> mr_cursor mr \<noteq> None \<and>
        (truthy_str cursor \<longrightarrow> mr_cursor mr \<noteq> cursor)) rows"

definition acknowledge_cursor :: "nat \<Rightarrow> string option \<Rightarrow> machine_rule list \<Rightarrow> machine_rule list" where
  "acknowledge_cursor pk cursor rows =
     (if truthy_str cursor
      then update_where (\<lambda>mr. mr_machine mr = pk \<and> mr_cursor mr = cursor) (\<lambda>mr. mr\<lparr>mr_cursor := None\<rparr>)
             (delete_where (\<lambda>mr. mr_machine mr = pk \<and> mr_cursor mr = cursor \<and> mr_policy mr = REMOVE) rows)
      else rows)"

text \<open>The dictionary sent for a change.\<close>

definition rule_dict :: "santa_tables \<Rightarrow> santa_target \<Rightarrow> expanded_rule \<Rightarrow> pyerror + dict" where
  "rule_dict db t er =
     bind_result (translate_rule_policy (xr_policy er)) (\<lambda>policy.
       if xr_policy er \<noteq> REMOVE \<and> xr_custom_msg er = None then Inl (KeyError ''custom_msg'')
       else Inr (present
         [(''rule_type'', Some (PStr (target_type_str (tg_type t)))),
          (''sha256'', Some (PStr (tg_sha256 t))),
          (''custom_msg'', if xr_policy er = REMOVE \<or> \<not> truthy_str (xr_custom_msg er) then None
             else map_option PStr (xr_custom_msg er)),
          (''file_bundle_binary_count'', map_option (\<lambda>n. PInt (int n)) (xr_bundle_count er)),
          (''file_bundle_hash'', Option.bind (xr_bundle_target er)
             (\<lambda>b. map_option (\<lambda>t2. PStr (tg_sha256 t2)) (find_target b db))),
          (''policy'', Some (PStr policy))]))"

fun send_rules ::
  "santa_tables \<Rightarrow> nat \<Rightarrow> string \<Rightarrow> (santa_target \<times> expanded_rule) list \<Rightarrow> machine_rule list \<Rightarrow>
   pyerror + dict list \<times> machine_rule list" where
  "send_rules db pk new_cursor [] rows = Inr ([], rows)"
| "send_rules db pk new_cursor ((t, er) # changes) rows =
     bind_result (rule_dict db t er) (\<lambda>d.
     bind_result (send_rules db pk new_cursor changes
         (upsert_machine_rule (pk, tg_pk t) (xr_policy er, xr_version er, new_cursor) rows))
       (\<lambda>(ds, rows'). Inr (d # ds, rows')))"

definition get_next_rule_batch ::
  "santa_configuration \<Rightarrow> santa_machine \<Rightarrow> nat list \<Rightarrow> string option \<Rightarrow> string \<Rightarrow> santa_tables \<Rightarrow>
   pyerror + (dict list \<times> string option) \<times> santa_tables" where
  "get_next_rule_batch c m tags cursor new_cursor db =
     (let db' = db\<lparr>st_machine_rules := acknowledge_cursor (em_pk m) cursor
                    (cleanup_unacknowledged (em_pk m) cursor (st_machine_rules db))\<rparr> in
      bind_result (send_rules db' (em_pk m) new_cursor (iter_new_rules c m tags db') (st_machine_rules db'))
        (\<lambda>(rules, rows).
          Inr ((rules, if rules = [] then None else Some new_cursor), db'\<lparr>st_machine_rules := rows\<rparr>)))"

interpretation machine_rules: upsert_table machine_rule_key new_machine_rule apply_rule_defaults
  by unfold_locales (simp_all add: machine_rule_key_def new_machine_rule_def apply_rule_defaults_def)

end
