(* ===== verification/SantaSync.thy ===== *)
theory SantaSync imports SantaRules begin

text \<open>
  The rule download protocol as a whole: a machine asks for a batch, applies it and asks again
  with the cursor it was given, until no cursor comes back. The table of the rules of a machine is
  abstracted to a map from targets to policy, version and cursor; every operation on the table is
  shown to be an operation on the map, and the protocol is followed there.
\<close>

subsection \<open>The rules of a machine as a map\<close>

type_synonym rule_view = "nat \<Rightarrow> (int \<times> nat \<times> string option) option"

definition view :: "nat \<Rightarrow> machine_rule list \<Rightarrow> rule_view" where
  "view pk rows t = map_option (\<lambda>mr. (mr_policy mr, mr_version mr, mr_cursor mr))
     (find (\<lambda>mr. machine_rule_key mr = (pk, t)) rows)"

lemma find_filter:
  assumes "distinct (map key rows)"
  shows "find (\<lambda>r. key r = k) (filter q rows) =
    (case find (\<lambda>r. key r = k) rows of None \<Rightarrow> None | Some r \<Rightarrow> if q r then Some r else None)"
  using assms
proof (induction rows)
  case (Cons r rows)
  have "find (\<lambda>s. key s = k) rows = None" if "key r = k"
    using Cons.prems that by (auto simp: find_None_iff image_iff)
  with Cons show ?case by (auto split: option.splits)
qed simp

lemma find_update_where:
  assumes "\<And>r. key (f r) = key r"
  shows "find (\<lambda>r. key r = k) (update_where p f rows) =
    map_option (\<lambda>r. if p r then f r else r) (find (\<lambda>r. key r = k) rows)"
  using assms by (induction rows) (auto simp: update_where_def)

lemma keys_update_where:
  assumes "\<And>r. key (f r) = key r"
  shows "map key (update_where p f rows) = map key rows"
  using assms by (simp add: update_where_def)

lemma distinct_delete_where: "distinct (map key rows) \<Longrightarrow> distinct (map key (delete_where p rows))"
  by (simp add: delete_where_def distinct_map_filter)

lemma found_machine: "find (\<lambda>mr. machine_rule_key mr = (pk, t)) rows = Some mr \<Longrightarrow> mr_machine mr = pk"
  by (auto simp: find_Some_iff machine_rule_key_def)

lemma view_cleanup:
  assumes "distinct (map machine_rule_key rows)"
  shows "view pk (cleanup_unacknowledged pk cursor rows) t =
    (case view pk rows t of
       Some (p, v, Some c) \<Rightarrow>
         if p \<noteq> REMOVE \<and> (truthy_str cursor \<longrightarrow> Some c \<noteq> cursor) then None else Some (p, v, Some c)
     | x \<Rightarrow> x)"
  using found_machine [of pk t rows]
  by (cases "find (\<lambda>mr. machine_rule_key mr = (pk, t)) rows")
    (simp_all add: view_def cleanup_unacknowledged_def delete_where_def find_filter [OF assms] split: option.splits)

lemma view_acknowledge:
  assumes "distinct (map machine_rule_key rows)"
  shows "view pk (acknowledge_cursor pk cursor rows) t =
    (case view pk rows t of
       None \<Rightarrow> None
     | Some (p, v, c) \<Rightarrow>
         if truthy_str cursor \<and> c = cursor then (if p = REMOVE then None else Some (p, v, None))
         else Some (p, v, c))"
proof -
  have key: "machine_rule_key (mr\<lparr>mr_cursor := None\<rparr>) = machine_rule_key mr" for mr
    by (simp add: machine_rule_key_def)
  show ?thesis
    using found_machine [of pk t rows]
    by (cases "find (\<lambda>mr. machine_rule_key mr = (pk, t)) rows")
      (simp_all add: view_def acknowledge_cursor_def find_update_where [of machine_rule_key, OF key]
        delete_where_def find_filter [OF assms])
qed

lemma find_upsert:
  "find (\<lambda>mr. machine_rule_key mr = k') (upsert_machine_rule k d rows) =
     (if k' = k then Some (case find (\<lambda>mr. machine_rule_key mr = k) rows of
          None \<Rightarrow> new_machine_rule k d | Some mr \<Rightarrow> apply_rule_defaults d mr)
      else find (\<lambda>mr. machine_rule_key mr = k') rows)"
  by (induction rows) (auto simp: machine_rules.key_mk machine_rules.key_app)

lemma view_upsert:
  "view pk (upsert_machine_rule (pk, t) (p, v, c) rows) = (view pk rows)(t \<mapsto> (p, v, Some c))"
  by (auto simp: fun_eq_iff view_def find_upsert new_machine_rule_def apply_rule_defaults_def split: option.splits)

definition settle :: "nat \<Rightarrow> string option \<Rightarrow> machine_rule list \<Rightarrow> machine_rule list" where
  "settle pk cursor rows = acknowledge_cursor pk cursor (cleanup_unacknowledged pk cursor rows)"

lemma distinct_settle:
  "distinct (map machine_rule_key rows) \<Longrightarrow> distinct (map machine_rule_key (settle pk cursor rows))"
  by (simp add: settle_def acknowledge_cursor_def cleanup_unacknowledged_def distinct_delete_where
      keys_update_where machine_rule_key_def [abs_def])

text \<open>After it, what is not acknowledged is a removal.\<close>

definition settled :: "rule_view \<Rightarrow> bool" where
  "settled w \<longleftrightarrow> (\<forall>t p v c. w t = Some (p, v, Some c) \<longrightarrow> p = REMOVE)"

lemma view_settle:
  assumes "distinct (map machine_rule_key rows)"
  shows "view pk (settle pk cursor rows) t =
    (case view pk rows t of
       Some (p, v, Some c) \<Rightarrow>
         if truthy_str cursor \<and> Some c = cursor then (if p = REMOVE then None else Some (p, v, None))
         else if p = REMOVE then Some (p, v, Some c) else None
     | x \<Rightarrow> x)"
proof -
  have d: "distinct (map machine_rule_key (cleanup_unacknowledged pk cursor rows))"
    using assms by (simp add: cleanup_unacknowledged_def distinct_delete_where)
  show ?thesis
    unfolding settle_def view_acknowledge [OF d] view_cleanup [OF assms]
    by (auto split: option.splits)
qed

lemma settled_settle: "distinct (map machine_rule_key rows) \<Longrightarrow> settled (view pk (settle pk cursor rows))"
  by (auto simp: settled_def view_settle split: option.splits if_splits)

subsection \<open>The changes\<close>

lemma filter_unique:
  "distinct (map key rows) \<Longrightarrow>
   filter (\<lambda>r. key r = k) rows = (case find (\<lambda>r. key r = k) rows of None \<Rightarrow> [] | Some r \<Rightarrow> [r])"
proof (induction rows)
  case (Cons r rows)
  show ?case
  proof (cases "key r = k")
    case True
    with Cons.prems have "filter (\<lambda>r. key r = k) rows = []" by (auto simp: filter_empty_conv image_iff)
    with True show ?thesis by simp
  qed (use Cons in simp)
qed simp

definition needs :: "rule_view \<Rightarrow> expanded_rule \<Rightarrow> bool" where
  "needs w er \<longleftrightarrow> (case w (xr_target er) of None \<Rightarrow> True | Some (p, v, c) \<Rightarrow> xr_policy er \<noteq> p \<or> xr_version er \<noteq> v)"

lemma rule_changed_view:
  assumes "distinct (map machine_rule_key rows)"
  shows "rule_changed (rules_of_machine pk rows) er \<longleftrightarrow> needs (view pk rows) er"
proof -
  have "filter (\<lambda>mr. mr_target mr = xr_target er) (rules_of_machine pk rows) =
      filter (\<lambda>mr. machine_rule_key mr = (pk, xr_target er)) rows"
    by (auto simp: rules_of_machine_def machine_rule_key_def intro: filter_cong)
  then show ?thesis
    unfolding rule_changed_def filter_unique [OF assms]
    by (auto simp: Let_def needs_def view_def split: option.splits)
qed

lemma view_dom: "view pk rows t \<noteq> None \<longleftrightarrow> t \<in> mr_target ` set (rules_of_machine pk rows)"
proof -
  have "view pk rows t \<noteq> None \<longleftrightarrow> (\<exists>mr \<in> set rows. machine_rule_key mr = (pk, t))"
    by (auto simp: view_def find_None_iff)
  also have "\<dots> \<longleftrightarrow> t \<in> mr_target ` set (rules_of_machine pk rows)"
    by (auto simp: rules_of_machine_def machine_rule_key_def)
  finally show ?thesis .
qed

lemma set_changed_rules:
  assumes "distinct (map machine_rule_key rows)"
  shows "set (changed_rules ers (rules_of_machine pk rows)) =
    {er \<in> set ers. needs (view pk rows) er} \<union>
    removal ` {t. view pk rows t \<noteq> None \<and> t \<notin> xr_target ` set ers}"
proof -
  have "{mr \<in> set (rules_of_machine pk rows). \<not> list_ex (\<lambda>er. xr_target er = mr_target mr) ers} =
      {mr \<in> set (rules_of_machine pk rows). mr_target mr \<notin> xr_target ` set ers}"
    by (auto simp: list_ex_iff image_iff)
  moreover have "(\<lambda>mr. removal (mr_target mr)) `
        {mr \<in> set (rules_of_machine pk rows). mr_target mr \<notin> xr_target ` set ers} =
      removal ` {t. view pk rows t \<noteq> None \<and> t \<notin> xr_target ` set ers}"
    unfolding view_dom by auto
  ultimately show ?thesis
    unfolding changed_rules_def by (simp add: rule_changed_view [OF assms])
qed

lemma removal_simps [simp]:
  "xr_target (removal t) = t" "xr_policy (removal t) = REMOVE" "xr_custom_msg (removal t) = None"
  by (simp_all add: removal_def)

definition open_targets :: "expanded_rule list \<Rightarrow> rule_view \<Rightarrow> nat set" where
  "open_targets ers w =
     xr_target ` {er \<in> set ers. needs w er} \<union> {t. w t \<noteq> None \<and> t \<notin> xr_target ` set ers}"

lemma finite_view: "finite {t. view pk rows t \<noteq> None}"
  unfolding view_dom by simp

lemma finite_open_targets: "finite (open_targets ers (view pk rows))"
proof -
  have "{t. view pk rows t \<noteq> None \<and> t \<notin> xr_target ` set ers} \<subseteq> {t. view pk rows t \<noteq> None}" by blast
  then show ?thesis using finite_view finite_subset by (auto simp: open_targets_def)
qed

lemma changed_targets:
  assumes "distinct (map machine_rule_key rows)"
  shows "xr_target ` set (changed_rules ers (rules_of_machine pk rows)) = open_targets ers (view pk rows)"
  unfolding set_changed_rules [OF assms] open_targets_def image_Un image_image by simp

lemma changed_rules_target_inj:
  assumes "distinct (map machine_rule_key rows)" "distinct (map xr_target ers)"
    "a \<in> set (changed_rules ers (rules_of_machine pk rows))"
    "b \<in> set (changed_rules ers (rules_of_machine pk rows))" "xr_target a = xr_target b"
  shows "a = b"
  using assms(3-5) distinct_map_eqD [OF assms(2)] unfolding set_changed_rules [OF assms(1)] by fastforce

subsection \<open>A batch\<close>

text \<open>
  What the tables are assumed to be: keys are unique, every target exists, and no binary is the
  target of two rules - it can be, with a rule of its own and one for its bundle.
\<close>

definition sync_tables_wf :: "santa_configuration \<Rightarrow> santa_machine \<Rightarrow> nat list \<Rightarrow> santa_tables \<Rightarrow> bool" where
  "sync_tables_wf c m tags db \<longleftrightarrow>
     0 < sc_batch_size c \<and>
     distinct (map machine_rule_key (st_machine_rules db)) \<and>
     distinct (map tg_pk (st_targets db)) \<and>
     distinct (map (\<lambda>t. (tg_type t, tg_sha256 t)) (st_targets db)) \<and>
     distinct (map xr_target (expanded_rules c m tags db)) \<and>
     list_all (\<lambda>er. xr_policy er \<in> {1, 2, 3, 5} \<and> find_target (xr_target er) db \<noteq> None) (expanded_rules c m tags db) \<and>
     list_all (\<lambda>mr. find_target (mr_target mr) db \<noteq> None) (rules_of_machine (em_pk m) (st_machine_rules db))"

lemma distinct_map_filter_inj:
  assumes "distinct xs" "inj_on h (set xs)" "\<And>x y. g x = Some y \<Longrightarrow> f y = h x"
  shows "distinct (map f (List.map_filter g xs))"
  using assms(1,2)
proof (induction xs)
  case (Cons x xs)
  have "f ` set (List.map_filter g xs) \<subseteq> h ` set xs"
    using assms(3) by (fastforce simp: map_filter_def)
  moreover have "h x \<notin> h ` set xs" using Cons.prems by auto
  ultimately have "f y \<notin> f ` set (List.map_filter g xs)" if "g x = Some y" for y
    using assms(3) [OF that] by auto
  then show ?case using Cons by (auto simp: map_filter_simps split: option.splits)
qed (simp add: map_filter_simps)

lemma sort_key_Nil: "sort_key k xs = [] \<longleftrightarrow> xs = []"
  by (metis set_empty set_sort)

lemma distinct_map_sort_take:
  "distinct (map f xs) \<Longrightarrow> distinct (map f (take n (sort_key k xs)))"
  by (simp add: take_map [symmetric] distinct_map)

lemma find_target_Some: "find_target pk db = Some t \<Longrightarrow> t \<in> set (st_targets db) \<and> tg_pk t = pk"
  by (auto simp: find_target_def find_Some_iff)

lemma sync_tables_wfD:
  assumes "sync_tables_wf c m tags db"
  shows "distinct (map machine_rule_key (st_machine_rules db))"
    and "distinct (map xr_target (expanded_rules c m tags db))"
  using assms by (simp_all add: sync_tables_wf_def)

lemma changes_found:
  assumes wf: "sync_tables_wf c m tags db" and "er \<in> set (changed_rules (expanded_rules c m tags db) (rules_of_machine (em_pk m) (st_machine_rules db)))"
  shows "find_target (xr_target er) db \<noteq> None"
proof -
  have "find_target t db \<noteq> None" if "view (em_pk m) (st_machine_rules db) t \<noteq> None" for t
    using that wf unfolding view_dom by (auto simp: sync_tables_wf_def list_all_iff)
  then show ?thesis
    using assms(2) wf unfolding set_changed_rules [OF sync_tables_wfD(1) [OF wf]] by (auto simp: sync_tables_wf_def list_all_iff)
qed

lemma batch_rows:
  assumes wf: "sync_tables_wf c m tags db" and "(t, er) \<in> set (iter_new_rules c m tags db)"
  shows "find_target (xr_target er) db = Some t"
    and "er \<in> set (changed_rules (expanded_rules c m tags db) (rules_of_machine (em_pk m) (st_machine_rules db)))"
    and "tg_pk t = xr_target er" and "t \<in> set (st_targets db)"
proof -
  have "(t, er) \<in> set (List.map_filter (\<lambda>er. map_option (\<lambda>t. (t, er)) (find_target (xr_target er) db))
      (changed_rules (expanded_rules c m tags db) (rules_of_machine (em_pk m) (st_machine_rules db))))"
    using assms(2) unfolding iter_new_rules_def by (auto dest: in_set_takeD)
  then show "find_target (xr_target er) db = Some t"
    "er \<in> set (changed_rules (expanded_rules c m tags db) (rules_of_machine (em_pk m) (st_machine_rules db)))"
    by (auto simp: map_filter_def)
  then show "tg_pk t = xr_target er" "t \<in> set (st_targets db)" by (auto dest: find_target_Some)
qed

lemma batch_distinct:
  assumes wf: "sync_tables_wf c m tags db"
  shows "distinct (map (\<lambda>(t, er). tg_pk t) (iter_new_rules c m tags db))"
  unfolding iter_new_rules_def
proof (rule distinct_map_sort_take, rule distinct_map_filter_inj)
  let ?cs = "changed_rules (expanded_rules c m tags db) (rules_of_machine (em_pk m) (st_machine_rules db))"
  show "distinct ?cs" by (simp add: changed_rules_def)
  show "inj_on xr_target (set ?cs)"
    using changed_rules_target_inj [OF sync_tables_wfD(1) [OF wf] sync_tables_wfD(2) [OF wf]] by (blast intro: inj_onI)
  show "(case y of (t, er) \<Rightarrow> tg_pk t) = xr_target er"
    if "map_option (\<lambda>t. (t, er)) (find_target (xr_target er) db) = Some y" for er y
    using that by (auto dest: find_target_Some)
qed

lemma batch_nonempty:
  assumes wf: "sync_tables_wf c m tags db" and "open_targets (expanded_rules c m tags db) (view (em_pk m) (st_machine_rules db)) \<noteq> {}"
  shows "iter_new_rules c m tags db \<noteq> []"
proof -
  let ?cs = "changed_rules (expanded_rules c m tags db) (rules_of_machine (em_pk m) (st_machine_rules db))"
  have "?cs \<noteq> []"
    using assms(2) unfolding changed_targets [OF sync_tables_wfD(1) [OF wf], symmetric] by force
  then obtain er where er: "er \<in> set ?cs" using list.set_sel(1) by blast
  obtain t where "find_target (xr_target er) db = Some t" using changes_found [OF wf er] by auto
  with er have "(t, er) \<in> set (List.map_filter (\<lambda>er. map_option (\<lambda>t. (t, er)) (find_target (xr_target er) db)) ?cs)"
    by (force simp: map_filter_def)
  then have "List.map_filter (\<lambda>er. map_option (\<lambda>t. (t, er)) (find_target (xr_target er) db)) ?cs \<noteq> []" by force
  then have "sort_key (\<lambda>(t, er). str_key (tg_sha256 t))
      (List.map_filter (\<lambda>er. map_option (\<lambda>t. (t, er)) (find_target (xr_target er) db)) ?cs) \<noteq> []"
    unfolding sort_key_Nil .
  moreover have "sc_batch_size c \<noteq> 0" using wf by (simp add: sync_tables_wf_def)
  ultimately show ?thesis unfolding iter_new_rules_def take_eq_Nil by blast
qed

subsection \<open>Sending and applying a batch\<close>

definition policy_name :: "int \<Rightarrow> string" where
  "policy_name p = projr (translate_rule_policy p)"

lemma policy_name_cases:
  assumes "p \<in> {1, 2, 3, 4, 5}"
  shows "translate_rule_policy p = Inr (policy_name p)" "policy_name p = ''REMOVE'' \<longleftrightarrow> p = REMOVE"
  using assms by (auto simp: translate_rule_policy_def policy_name_def)

text \<open>
  What the server relies on of a client that is not its code: \<open>apply d s\<close> is the rule database of
  the client after the rule \<open>d\<close>, \<open>lookup s\<close> the policy it has for a type and a hash.
\<close>

definition client_ok :: "(dict \<Rightarrow> 's \<Rightarrow> 's) \<Rightarrow> ('s \<Rightarrow> string \<times> string \<Rightarrow> string option) \<Rightarrow> bool" where
  "client_ok apply lookup \<longleftrightarrow>
     (\<forall>d s ty sha pol k.
        dict_get d ''rule_type'' = Some (PStr ty) \<longrightarrow> dict_get d ''sha256'' = Some (PStr sha) \<longrightarrow>
        dict_get d ''policy'' = Some (PStr pol) \<longrightarrow>
        lookup (apply d s) k =
          (if k = (ty, sha) then (if pol = ''REMOVE'' then None else Some pol) else lookup s k))"

definition target_key :: "santa_target \<Rightarrow> string \<times> string" where
  "target_key t = (target_type_str (tg_type t), tg_sha256 t)"

lemma target_type_str_inject [simp]: "target_type_str a = target_type_str b \<longleftrightarrow> a = b"
  by (cases a; cases b) simp_all

definition sendable :: "expanded_rule \<Rightarrow> bool" where
  "sendable er \<longleftrightarrow> xr_policy er \<in> {1, 2, 3, 4, 5} \<and> (xr_policy er \<noteq> REMOVE \<longrightarrow> xr_custom_msg er \<noteq> None)"

lemma rule_dict_sendable:
  assumes "sendable er"
  obtains d where "rule_dict db t er = Inr d" "dict_get d ''rule_type'' = Some (PStr (fst (target_key t)))"
    "dict_get d ''sha256'' = Some (PStr (snd (target_key t)))"
    "dict_get d ''policy'' = Some (PStr (policy_name (xr_policy er)))"
proof -
  have p: "translate_rule_policy (xr_policy er) = Inr (policy_name (xr_policy er))"
    using assms by (intro policy_name_cases) (simp add: sendable_def)
  define items where "items =
    [(''rule_type'', Some (PStr (target_type_str (tg_type t)))), (''sha256'', Some (PStr (tg_sha256 t))),
     (''custom_msg'', if xr_policy er = REMOVE \<or> \<not> truthy_str (xr_custom_msg er) then None
        else map_option PStr (xr_custom_msg er)),
     (''file_bundle_binary_count'', map_option (\<lambda>n. PInt (int n)) (xr_bundle_count er)),
     (''file_bundle_hash'', Option.bind (xr_bundle_target er)
        (\<lambda>b. map_option (\<lambda>t2. PStr (tg_sha256 t2)) (find_target b db))),
     (''policy'', Some (PStr (policy_name (xr_policy er))))]"
  have "rule_dict db t er = Inr (present items)"
    using assms by (auto simp: rule_dict_def p items_def sendable_def)
  moreover have "distinct (map fst items)" by (simp add: items_def)
  then have get: "dict_get (present items) k = Option.bind (map_of items k) id" for k by (rule present_get)
  have "dict_get (present items) ''rule_type'' = Some (PStr (fst (target_key t)))"
    "dict_get (present items) ''sha256'' = Some (PStr (snd (target_key t)))"
    "dict_get (present items) ''policy'' = Some (PStr (policy_name (xr_policy er)))"
    unfolding get by (simp_all add: items_def target_key_def)
  ultimately show ?thesis using that by blast
qed

definition sent :: "string \<Rightarrow> (santa_target \<times> expanded_rule) list \<Rightarrow> rule_view \<Rightarrow> rule_view" where
  "sent new_cursor changes w =
     fold (\<lambda>(t, er) w. w(tg_pk t \<mapsto> (xr_policy er, xr_version er, Some new_cursor))) changes w"

lemma sent_simps: "sent nc [] w = w"
  "sent nc ((t, er) # changes) w = sent nc changes (w(tg_pk t \<mapsto> (xr_policy er, xr_version er, Some nc)))"
  by (simp_all add: sent_def)

text \<open>What the client has once it has applied the rules.\<close>

definition known :: "expanded_rule \<Rightarrow> string option" where
  "known er = (if xr_policy er = REMOVE then None else Some (policy_name (xr_policy er)))"

definition told :: "(santa_target \<times> expanded_rule) list \<Rightarrow> (string \<times> string \<Rightarrow> string option) \<Rightarrow>
    string \<times> string \<Rightarrow> string option" where
  "told changes l = fold (\<lambda>(t, er) l. l(target_key t := known er)) changes l"

lemma told_simps: "told [] l = l" "told ((t, er) # changes) l = told changes (l(target_key t := known er))"
  by (simp_all add: told_def)

lemma send_rules_runs:
  assumes "list_all (\<lambda>(t, er). sendable er) changes" "distinct (map machine_rule_key rows)"
    "client_ok apply lookup"
  shows "\<exists>ds rows'. send_rules db pk new_cursor changes rows = Inr (ds, rows') \<and>
    (ds = [] \<longleftrightarrow> changes = []) \<and> distinct (map machine_rule_key rows') \<and>
    view pk rows' = sent new_cursor changes (view pk rows) \<and>
    (\<forall>s. lookup (fold apply ds s) = told changes (lookup s))"
  using assms(1,2)
proof (induction changes arbitrary: rows)
  case (Cons x changes)
  obtain t er where x: "x = (t, er)" by fastforce
  have ok: "sendable er" using Cons.prems(1) x by simp
  let ?rows = "upsert_machine_rule (pk, tg_pk t) (xr_policy er, xr_version er, new_cursor) rows"
  obtain d where d: "rule_dict db t er = Inr d" "dict_get d ''rule_type'' = Some (PStr (fst (target_key t)))"
    "dict_get d ''sha256'' = Some (PStr (snd (target_key t)))"
    "dict_get d ''policy'' = Some (PStr (policy_name (xr_policy er)))"
    using rule_dict_sendable [OF ok] by blast
  have pn: "policy_name (xr_policy er) = ''REMOVE'' \<longleftrightarrow> xr_policy er = REMOVE"
    using ok by (intro policy_name_cases) (simp add: sendable_def)
  have cl: "lookup (apply d s) = (lookup s)(target_key t := known er)" for s
  proof
    fix k
    show "lookup (apply d s) k = ((lookup s)(target_key t := known er)) k"
      using assms(3) [unfolded client_ok_def, rule_format, OF d(2-4), of s k] pn by (simp add: known_def)
  qed
  have "distinct (map machine_rule_key ?rows)" by (rule machine_rules.distinct_upsert [OF Cons.prems(2)])
  from Cons.IH [OF _ this] Cons.prems(1) x obtain ds rows' where
    IH: "send_rules db pk new_cursor changes ?rows = Inr (ds, rows')" "distinct (map machine_rule_key rows')"
      "view pk rows' = sent new_cursor changes (view pk ?rows)"
      "\<forall>s. lookup (fold apply ds s) = told changes (lookup s)"
    by auto
  show ?case
    using IH d(1)
    by (intro exI [of _ "d # ds"] exI [of _ rows']) (simp add: x sent_simps view_upsert cl told_simps)
qed (simp add: sent_simps told_simps)

lemma fold_updates_out:
  "k \<notin> (\<lambda>(t, er). f t) ` set xs \<Longrightarrow> fold (\<lambda>(t, er) g. g(f t := h er)) xs g0 k = g0 k"
  by (induction xs arbitrary: g0) auto

lemma fold_updates_in:
  assumes "distinct (map (\<lambda>(t, er). f t) xs)" "(t, er) \<in> set xs"
  shows "fold (\<lambda>(t, er) g. g(f t := h er)) xs g0 (f t) = h er"
  using assms
proof (induction xs arbitrary: g0)
  case (Cons x xs)
  show ?case
  proof (cases "(t, er) = x")
    case True
    then have "f t \<notin> (\<lambda>(t, er). f t) ` set xs" using Cons.prems(1) by auto
    then have "fold (\<lambda>(t, er) g. g(f t := h er)) xs (g0(f t := h er)) (f t) = (g0(f t := h er)) (f t)"
      by (rule fold_updates_out)
    then show ?thesis using True by (auto simp del: fun_upd_apply) (simp only: fun_upd_same)
  next
    case False
    then have "(t, er) \<in> set xs" "distinct (map (\<lambda>(t, er). f t) xs)" using Cons.prems by simp_all
    with Cons.IH show ?thesis by (cases x) (simp del: fun_upd_apply)
  qed
qed simp

subsection \<open>One batch, acknowledged\<close>

lemma sent_in:
  assumes "distinct (map (\<lambda>(t, er). tg_pk t) changes)" "(t, er) \<in> set changes"
  shows "sent nc changes w (tg_pk t) = Some (xr_policy er, xr_version er, Some nc)"
  unfolding sent_def
  using fold_updates_in [OF assms, where h = "\<lambda>er. Some (xr_policy er, xr_version er, Some nc)"] .

lemma sent_out:
  "t \<notin> (\<lambda>(t, er). tg_pk t) ` set changes \<Longrightarrow> sent nc changes w t = w t"
  unfolding sent_def by (rule fold_updates_out)

lemma told_in:
  assumes "distinct (map (\<lambda>(t, er). target_key t) changes)" "(t, er) \<in> set changes"
  shows "told changes l (target_key t) = known er"
  unfolding told_def using fold_updates_in [OF assms, where h = known] .

lemma told_out:
  "k \<notin> (\<lambda>(t, er). target_key t) ` set changes \<Longrightarrow> told changes l k = l k"
  unfolding told_def by (rule fold_updates_out)

definition batch_targets :: "(santa_target \<times> expanded_rule) list \<Rightarrow> nat set" where
  "batch_targets changes = (\<lambda>(t, er). tg_pk t) ` set changes"

definition acknowledged :: "expanded_rule \<Rightarrow> (int \<times> nat \<times> string option) option" where
  "acknowledged er = (if xr_policy er = REMOVE then None else Some (xr_policy er, xr_version er, None))"

lemma next_view:
  assumes d: "distinct (map machine_rule_key rows)"
    and v: "view pk rows = sent nc changes w"
    and dc: "distinct (map (\<lambda>(t, er). tg_pk t) changes)"
    and w: "settled w" and fresh: "nc \<noteq> []" "\<And>t p v. w t \<noteq> Some (p, v, Some nc)"
  shows "(t, er) \<in> set changes \<Longrightarrow> view pk (settle pk (Some nc) rows) (tg_pk t) = acknowledged er"
    and "k \<notin> batch_targets changes \<Longrightarrow> view pk (settle pk (Some nc) rows) k = w k"
proof -
  show "view pk (settle pk (Some nc) rows) (tg_pk t) = acknowledged er" if "(t, er) \<in> set changes"
    using fresh(1) by (simp add: view_settle [OF d] v sent_in [OF dc that] acknowledged_def)
  assume "k \<notin> batch_targets changes"
  then have "sent nc changes w k = w k" unfolding batch_targets_def by (rule sent_out)
  then show "view pk (settle pk (Some nc) rows) k = w k"
    using w fresh by (auto simp: view_settle [OF d] v settled_def split: option.splits)
qed

lemma open_after_batch:
  assumes E: "distinct (map xr_target ers)" "\<forall>er \<in> set ers. xr_policy er \<noteq> REMOVE"
    and B: "\<And>t er. (t, er) \<in> set changes \<Longrightarrow> tg_pk t = xr_target er \<and>
      (er \<in> set ers \<or> er = removal (xr_target er) \<and> xr_target er \<notin> xr_target ` set ers)"
    and w1: "\<And>t er. (t, er) \<in> set changes \<Longrightarrow> w' (tg_pk t) = acknowledged er"
    and w2: "\<And>k. k \<notin> batch_targets changes \<Longrightarrow> w' k = w k"
  shows "open_targets ers w' = open_targets ers w - batch_targets changes"
proof (rule set_eqI)
  fix k
  show "k \<in> open_targets ers w' \<longleftrightarrow> k \<in> open_targets ers w - batch_targets changes"
  proof (cases "k \<in> batch_targets changes")
    case False
    then have "needs w' er \<longleftrightarrow> needs w er" if "xr_target er = k" for er
      using that w2 by (simp add: needs_def)
    then show ?thesis using False w2 [OF False] by (auto simp: open_targets_def image_iff)
  next
    case True
    then obtain t er where t: "(t, er) \<in> set changes" "k = tg_pk t" by (auto simp: batch_targets_def)
    have k: "k = xr_target er" using B [OF t(1)] t(2) by simp
    have "k \<notin> open_targets ers w'"
    proof (cases "er \<in> set ers")
      case True
      then have "w' k = Some (xr_policy er, xr_version er, None)"
        using E(2) w1 [OF t(1)] t(2) by (simp add: acknowledged_def)
      moreover have "\<not> needs w' er'" if "er' \<in> set ers" "xr_target er' = k" for er'
      proof -
        have "er' = er" using distinct_map_eqD [OF E(1) that(1) True] that(2) k by simp
        then show ?thesis using calculation k by (simp add: needs_def)
      qed
      ultimately show ?thesis using True k unfolding open_targets_def by blast
    next
      case False
      then have r: "er = removal (xr_target er)" and "k \<notin> xr_target ` set ers"
        using B [OF t(1)] unfolding k by blast+
      have "xr_policy er = REMOVE" by (subst r) simp
      then have "w' k = None" using w1 [OF t(1)] t(2) by (simp add: acknowledged_def)
      then show ?thesis using \<open>k \<notin> xr_target ` set ers\<close> by (auto simp: open_targets_def)
    qed
    then show ?thesis using True by simp
  qed
qed

lemma distinct_keys:
  assumes "distinct (map (\<lambda>(t, er). f t) xs)" "\<And>t er. (t, er) \<in> set xs \<Longrightarrow> t \<in> set ts" "distinct (map g ts)"
  shows "distinct (map (\<lambda>(t, er). g t) xs)"
  using assms(1,2)
proof (induction xs)
  case (Cons x xs)
  obtain t er where x: "x = (t, er)" by fastforce
  have "g t \<noteq> g t'" if "(t', er') \<in> set xs" for t' er'
  proof
    assume "g t = g t'"
    then have "t = t'" using distinct_map_eqD [OF assms(3), of t t'] Cons.prems(2) that x by auto
    then have "f t \<in> (\<lambda>(t, er). f t) ` set xs" using that by force
    then show False using Cons.prems(1) x by simp
  qed
  then have "g t \<notin> (\<lambda>(t, er). g t) ` set xs" by auto
  moreover have "distinct (map (\<lambda>(t, er). g t) xs)"
    by (rule Cons.IH) (use Cons.prems in auto)
  ultimately show ?case using x by simp
qed simp

text \<open>What the server believes acknowledged is what the client has.\<close>

definition agrees ::
  "expanded_rule list \<Rightarrow> rule_view \<Rightarrow> (string \<times> string \<Rightarrow> string option) \<Rightarrow> santa_target list \<Rightarrow> bool" where
  "agrees ers w l ts \<longleftrightarrow>
     (\<forall>t \<in> set ts. case w (tg_pk t) of
        Some (p, v, None) \<Rightarrow> l (target_key t) = Some (policy_name p)
      | Some (p, v, Some c) \<Rightarrow> True
      | None \<Rightarrow> tg_pk t \<in> xr_target ` set ers \<or> l (target_key t) = None)"

lemma agrees_after_batch:
  assumes a: "agrees ers w l ts"
    and ts: "distinct (map tg_pk ts)" "distinct (map target_key ts)"
    and dc: "distinct (map (\<lambda>(t, er). tg_pk t) changes)" "\<And>t er. (t, er) \<in> set changes \<Longrightarrow> t \<in> set ts"
    and w1: "\<And>t er. (t, er) \<in> set changes \<Longrightarrow> w' (tg_pk t) = acknowledged er"
    and w2: "\<And>k. k \<notin> batch_targets changes \<Longrightarrow> w' k = w k"
  shows "agrees ers w' (told changes l) ts"
  unfolding agrees_def
proof
  fix t assume t: "t \<in> set ts"
  have key: "target_key t' = target_key t \<longleftrightarrow> t' = t" if "t' \<in> set ts" for t'
    using distinct_map_eqD [OF ts(2) that t] by auto
  have pk: "tg_pk t' = tg_pk t \<longleftrightarrow> t' = t" if "t' \<in> set ts" for t'
    using distinct_map_eqD [OF ts(1) that t] by auto
  have "distinct (map (\<lambda>(t, er). target_key t) changes)"
    by (rule distinct_keys [OF dc(1) _ ts(2)]) (use dc(2) in auto)
  note told = told_in [OF this]
  show "case w' (tg_pk t) of
        Some (p, v, None) \<Rightarrow> told changes l (target_key t) = Some (policy_name p)
      | Some (p, v, Some c) \<Rightarrow> True
      | None \<Rightarrow> tg_pk t \<in> xr_target ` set ers \<or> told changes l (target_key t) = None"
  proof (cases "tg_pk t \<in> batch_targets changes")
    case True
    then obtain t' er where "(t', er) \<in> set changes" "tg_pk t' = tg_pk t" by (auto simp: batch_targets_def)
    then have "(t, er) \<in> set changes" using dc(2) pk by metis
    then show ?thesis using w1 told by (simp add: acknowledged_def known_def)
  next
    case False
    then have "target_key t \<notin> (\<lambda>(t, er). target_key t) ` set changes"
      using dc(2) key by (fastforce simp: batch_targets_def)
    then have same: "told changes l (target_key t) = l (target_key t)" by (rule told_out)
    show ?thesis unfolding same w2 [OF False] using a t by (simp add: agrees_def)
  qed
qed

subsection \<open>The protocol\<close>

text \<open>
  The requests of a synchronisation, one random string per request; \<open>None\<close> when the strings are
  used up before the server stops sending a cursor.
\<close>

fun rule_sync ::
  "santa_configuration \<Rightarrow> santa_machine \<Rightarrow> nat list \<Rightarrow> (dict \<Rightarrow> 's \<Rightarrow> 's) \<Rightarrow> string list \<Rightarrow>
   string option \<Rightarrow> santa_tables \<Rightarrow> 's \<Rightarrow> pyerror + (santa_tables \<times> 's) option" where
  "rule_sync c m tags apply [] cursor db s = Inr None"
| "rule_sync c m tags apply (random # randoms) cursor db s =
     bind_result (get_next_rule_batch c m tags cursor random db) (\<lambda>((rules, next_cursor), db').
       (let s' = fold apply rules s in
        case next_cursor of
          None \<Rightarrow> Inr (Some (db', s'))
        | Some c' \<Rightarrow> rule_sync c m tags apply randoms (Some c') db' s'))"

definition settled_tables :: "santa_machine \<Rightarrow> string option \<Rightarrow> santa_tables \<Rightarrow> santa_tables" where
  "settled_tables m cursor db = db\<lparr>st_machine_rules := settle (em_pk m) cursor (st_machine_rules db)\<rparr>"

definition machine_view :: "santa_machine \<Rightarrow> santa_tables \<Rightarrow> rule_view" where
  "machine_view m db = view (em_pk m) (st_machine_rules db)"

lemma expanded_rules_machine_rules [simp]:
  "expanded_rules c m tags (db\<lparr>st_machine_rules := rows\<rparr>) = expanded_rules c m tags db"
  by (simp add: expanded_rules_def)

lemma find_target_machine_rules [simp]: "find_target t (db\<lparr>st_machine_rules := rows\<rparr>) = find_target t db"
  by (simp add: find_target_def)

lemma settled_tables_wf:
  assumes "sync_tables_wf c m tags db"
  shows "sync_tables_wf c m tags (settled_tables m cursor db)"
proof -
  have d: "distinct (map machine_rule_key (st_machine_rules db))" by (rule sync_tables_wfD(1) [OF assms])
  have "view (em_pk m) (st_machine_rules db) t \<noteq> None"
    if "view (em_pk m) (settle (em_pk m) cursor (st_machine_rules db)) t \<noteq> None" for t
    using that unfolding view_settle [OF d] by (auto split: option.splits)
  then have "mr_target ` set (rules_of_machine (em_pk m) (settle (em_pk m) cursor (st_machine_rules db))) \<subseteq>
      mr_target ` set (rules_of_machine (em_pk m) (st_machine_rules db))"
    unfolding view_dom by blast
  then have sub: "mr_target mr \<in> mr_target ` set (rules_of_machine (em_pk m) (st_machine_rules db))"
    if "mr \<in> set (rules_of_machine (em_pk m) (settle (em_pk m) cursor (st_machine_rules db)))" for mr
    using that by blast
  have "find_target (mr_target mr) db \<noteq> None"
    if mr: "mr \<in> set (rules_of_machine (em_pk m) (settle (em_pk m) cursor (st_machine_rules db)))" for mr
  proof -
    obtain mr0 where "mr0 \<in> set (rules_of_machine (em_pk m) (st_machine_rules db))" "mr_target mr = mr_target mr0"
      using sub [OF mr] by blast
    then show ?thesis using assms by (simp add: sync_tables_wf_def list_all_iff)
  qed
  then have "list_all (\<lambda>mr. find_target (mr_target mr) db \<noteq> None)
      (rules_of_machine (em_pk m) (settle (em_pk m) cursor (st_machine_rules db)))"
    unfolding list_all_iff by blast
  with assms distinct_settle [OF d] show ?thesis
    by (simp add: sync_tables_wf_def settled_tables_def)
qed

lemma expand_rule_fields:
  assumes "er \<in> set (expand_rule bundles r)"
  shows "xr_custom_msg er = Some (ru_custom_msg r)" "xr_policy er = ru_policy r" "xr_version er = ru_version r"
proof -
  have "\<exists>t b. er = expanded_row r t b"
  proof (cases "er = expanded_row r (ru_target r) None")
    case False
    then obtain b where "er \<in> set (bundle_rows r b)"
      using assms by (cases "filter (\<lambda>b. bd_target b = ru_target r) bundles") (auto simp: expand_rule_def)
    then show ?thesis by (cases "bd_binary_targets b") (auto simp: bundle_rows_def)
  qed blast
  then show "xr_custom_msg er = Some (ru_custom_msg r)" "xr_policy er = ru_policy r" "xr_version er = ru_version r"
    by (auto simp: expanded_row_def)
qed

lemma changes_shape:
  assumes wf: "sync_tables_wf c m tags db" and er: "(t, er) \<in> set (iter_new_rules c m tags db)"
  shows "sendable er"
    and "er \<in> set (expanded_rules c m tags db) \<or>
      er = removal (xr_target er) \<and> xr_target er \<notin> xr_target ` set (expanded_rules c m tags db)"
proof -
  have msg: "xr_custom_msg er \<noteq> None" if "er \<in> set (expanded_rules c m tags db)"
    using that by (auto simp: expanded_rules_def dest: expand_rule_fields(1))
  have pol: "xr_policy er \<in> {1, 2, 3, 5}" if "er \<in> set (expanded_rules c m tags db)"
    using that wf by (simp add: sync_tables_wf_def list_all_iff)
  show shape: "er \<in> set (expanded_rules c m tags db) \<or>
      er = removal (xr_target er) \<and> xr_target er \<notin> xr_target ` set (expanded_rules c m tags db)"
    using batch_rows(2) [OF wf er] unfolding set_changed_rules [OF sync_tables_wfD(1) [OF wf]] by auto
  then show "sendable er"
  proof
    assume "er \<in> set (expanded_rules c m tags db)"
    then show ?thesis using msg pol by (auto simp: sendable_def)
  next
    assume "er = removal (xr_target er) \<and> xr_target er \<notin> xr_target ` set (expanded_rules c m tags db)"
    then have "xr_policy er = REMOVE" using removal_simps(2) by metis
    then show ?thesis by (simp add: sendable_def)
  qed
qed

lemma sync_tables_wf_rows:
  assumes wf: "sync_tables_wf c m tags db" and d: "distinct (map machine_rule_key rows)"
    and known: "\<And>t. view (em_pk m) rows t \<noteq> None \<Longrightarrow> find_target t db \<noteq> None"
  shows "sync_tables_wf c m tags (db\<lparr>st_machine_rules := rows\<rparr>)"
proof -
  have "find_target (mr_target mr) db \<noteq> None" if mr: "mr \<in> set (rules_of_machine (em_pk m) rows)" for mr
  proof -
    have "mr_target mr \<in> mr_target ` set (rules_of_machine (em_pk m) rows)" using mr by blast
    then show ?thesis using known view_dom by blast
  qed
  then show ?thesis using wf d by (simp add: sync_tables_wf_def list_all_iff)
qed

lemma view_known_target:
  assumes "sync_tables_wf c m tags db" "view (em_pk m) (st_machine_rules db) t \<noteq> None"
  shows "find_target t db \<noteq> None"
proof -
  obtain mr where "mr \<in> set (rules_of_machine (em_pk m) (st_machine_rules db))" "t = mr_target mr"
    using assms(2) view_dom by blast
  then show ?thesis using assms(1) by (simp add: sync_tables_wf_def list_all_iff)
qed

lemma target_keys_wf:
  assumes "sync_tables_wf c m tags db"
  shows "distinct (map tg_pk (st_targets db))" "distinct (map target_key (st_targets db))"
    "\<forall>er \<in> set (expanded_rules c m tags db). xr_policy er \<noteq> REMOVE"
proof -
  have "inj_on (\<lambda>t. (tg_type t, tg_sha256 t)) (set (st_targets db)) = inj_on target_key (set (st_targets db))"
    by (simp add: inj_on_def target_key_def)
  then show "distinct (map tg_pk (st_targets db))" "distinct (map target_key (st_targets db))"
    using assms by (simp_all add: sync_tables_wf_def distinct_map)
  show "\<forall>er \<in> set (expanded_rules c m tags db). xr_policy er \<noteq> REMOVE"
    using assms by (auto simp: sync_tables_wf_def list_all_iff)
qed

text \<open>One request: the rules sent close the targets of the batch and keep the agreement.\<close>

lemma batch_effect:
  assumes wf: "sync_tables_wf c m tags db" and client: "client_ok apply lookup"
    and E: "ers = expanded_rules c m tags db"
    and w: "w = machine_view m (settled_tables m cursor db)"
    and ag: "agrees ers w (lookup s) (st_targets db)"
    and fresh: "nc \<noteq> []" "\<And>t p v. w t \<noteq> Some (p, v, Some nc)"
  shows "\<exists>rules db'. get_next_rule_batch c m tags cursor nc db =
      Inr ((rules, if open_targets ers w = {} then None else Some nc), db') \<and>
    (open_targets ers w = {} \<longrightarrow> rules = [] \<and> db' = settled_tables m cursor db) \<and>
    sync_tables_wf c m tags db' \<and> expanded_rules c m tags db' = ers \<and> st_targets db' = st_targets db \<and>
    agrees ers (machine_view m (settled_tables m (Some nc) db')) (lookup (fold apply rules s)) (st_targets db) \<and>
    (open_targets ers w \<noteq> {} \<longrightarrow>
       open_targets ers (machine_view m (settled_tables m (Some nc) db')) \<subset> open_targets ers w) \<and>
    (\<forall>t p v x. machine_view m (settled_tables m (Some nc) db') t = Some (p, v, Some x) \<longrightarrow> w t = Some (p, v, Some x))"
proof -
  define db1 where "db1 = settled_tables m cursor db"
  let ?pk = "em_pk m" and ?B = "iter_new_rules c m tags db1"
  have wf1: "sync_tables_wf c m tags db1" unfolding db1_def by (rule settled_tables_wf [OF wf])
  have E1: "expanded_rules c m tags db1 = ers" "st_targets db1 = st_targets db"
    by (simp_all add: db1_def settled_tables_def E)
  have w1: "w = view ?pk (st_machine_rules db1)" by (simp add: w machine_view_def db1_def)
  have sw: "settled w"
    using settled_settle [OF sync_tables_wfD(1) [OF wf]] by (simp add: w1 db1_def settled_tables_def)
  have "list_all (\<lambda>(t, er). sendable er) ?B"
    using changes_shape(1) [OF wf1] by (auto simp: list_all_iff)
  from send_rules_runs [OF this sync_tables_wfD(1) [OF wf1] client] obtain ds rows where
    run: "send_rules db1 ?pk nc ?B (st_machine_rules db1) = Inr (ds, rows)" "ds = [] \<longleftrightarrow> ?B = []"
      "distinct (map machine_rule_key rows)" "view ?pk rows = sent nc ?B w"
      "\<forall>s. lookup (fold apply ds s) = told ?B (lookup s)"
    unfolding w1 by blast
  have empty: "?B = [] \<longleftrightarrow> open_targets ers w = {}"
  proof
    assume b: "?B = []"
    show "open_targets ers w = {}"
    proof (rule ccontr)
      assume "open_targets ers w \<noteq> {}"
      then show False using batch_nonempty [OF wf1] b by (simp add: E1 w1)
    qed
  next
    assume "open_targets ers w = {}"
    then have "changed_rules ers (rules_of_machine ?pk (st_machine_rules db1)) = []"
      using changed_targets [OF sync_tables_wfD(1) [OF wf1], of ers ?pk] by (simp add: w1)
    then show "?B = []" by (simp add: iter_new_rules_def E1 map_filter_simps)
  qed
  define db' where "db' = db1\<lparr>st_machine_rules := rows\<rparr>"
  have get: "get_next_rule_batch c m tags cursor nc db = Inr ((ds, if ds = [] then None else Some nc), db')"
    using run(1) by (simp add: get_next_rule_batch_def Let_def db1_def settled_tables_def settle_def db'_def)
  have dB: "distinct (map (\<lambda>(t, er). tg_pk t) ?B)" by (rule batch_distinct [OF wf1])
  note nv = next_view [OF run(3,4) dB sw fresh]
  let ?w' = "machine_view m (settled_tables m (Some nc) db')"
  have w': "?w' = view ?pk (settle ?pk (Some nc) rows)"
    by (simp add: machine_view_def settled_tables_def db'_def)
  have in_B: "?w' (tg_pk t) = acknowledged er" if "(t, er) \<in> set ?B" for t er
    unfolding w' by (rule nv(1) [OF that])
  have out_B: "?w' k = w k" if "k \<notin> batch_targets ?B" for k
    unfolding w' by (rule nv(2) [OF that])
  have "find_target t db1 \<noteq> None" if v: "view ?pk rows t \<noteq> None" for t
  proof (cases "t \<in> batch_targets ?B")
    case True
    then show ?thesis using batch_rows(1,3) [OF wf1] by (fastforce simp: batch_targets_def)
  next
    case False
    then have "view ?pk rows t = w t" unfolding run(4) batch_targets_def by (rule sent_out)
    then show ?thesis using v view_known_target [OF wf1] by (simp add: w1)
  qed
  then have wf': "sync_tables_wf c m tags db'"
    unfolding db'_def by (intro sync_tables_wf_rows [OF wf1 run(3)])
  have open': "open_targets ers ?w' = open_targets ers w - batch_targets ?B"
  proof (rule open_after_batch [where w' = ?w' and changes = ?B and w = w, OF _ _ _ in_B out_B])
    show "distinct (map xr_target ers)" using sync_tables_wfD(2) [OF wf1] by (simp add: E1)
    show "\<forall>er \<in> set ers. xr_policy er \<noteq> REMOVE" using target_keys_wf(3) [OF wf1] by (simp add: E1)
    show "tg_pk t = xr_target er \<and> (er \<in> set ers \<or> er = removal (xr_target er) \<and> xr_target er \<notin> xr_target ` set ers)"
      if "(t, er) \<in> set ?B" for t er
      using batch_rows(3) [OF wf1 that] changes_shape(2) [OF wf1 that] unfolding E1 by blast
  qed
  have "batch_targets ?B \<subseteq> open_targets ers w"
  proof
    fix k assume "k \<in> batch_targets ?B"
    then obtain t er where t: "(t, er) \<in> set ?B" "k = tg_pk t" by (auto simp: batch_targets_def)
    then have "k \<in> xr_target ` set (changed_rules ers (rules_of_machine ?pk (st_machine_rules db1)))"
      using batch_rows(2,3) [OF wf1 t(1)] unfolding E1 by blast
    then show "k \<in> open_targets ers w"
      unfolding changed_targets [OF sync_tables_wfD(1) [OF wf1]] w1 .
  qed
  then have "open_targets ers ?w' \<subset> open_targets ers w" if "open_targets ers w \<noteq> {}"
    using that open' empty by (auto simp: batch_targets_def neq_Nil_conv)
  moreover have "agrees ers ?w' (lookup (fold apply ds s)) (st_targets db)"
    unfolding run(5) [rule_format]
    by (rule agrees_after_batch [where w' = ?w' and changes = ?B and w = w, OF ag _ _ dB _ in_B out_B])
      (use target_keys_wf [OF wf1] batch_rows(4) [OF wf1] in \<open>simp_all add: E1\<close>)
  moreover have "w t = Some (p, v, Some x)" if v: "?w' t = Some (p, v, Some x)" for t p v x
  proof (cases "t \<in> batch_targets ?B")
    case True
    then obtain t' er where "(t', er) \<in> set ?B" "t = tg_pk t'" by (auto simp: batch_targets_def)
    then show ?thesis using in_B v by (auto simp: acknowledged_def split: if_splits)
  next
    case False
    then show ?thesis using out_B v by simp
  qed
  moreover have "db' = settled_tables m cursor db" if "ds = []"
    using run(1,2) that by (simp add: db'_def db1_def)
  ultimately show ?thesis
    using get wf' run(2) empty
    by (intro exI [of _ ds] exI [of _ db']) (simp add: db'_def E1)
qed

lemma closed_agreement:
  assumes op: "open_targets ers w = {}" and sw: "settled w" and ag: "agrees ers w l ts"
    and E: "\<forall>er \<in> set ers. xr_policy er \<noteq> REMOVE"
  shows "er \<in> set ers \<Longrightarrow> w (xr_target er) = Some (xr_policy er, xr_version er, None)"
    and "er \<in> set ers \<Longrightarrow> t \<in> set ts \<Longrightarrow> tg_pk t = xr_target er \<Longrightarrow>
      l (target_key t) = Some (policy_name (xr_policy er))"
    and "k \<notin> xr_target ` set ers \<Longrightarrow> w k = None"
    and "t \<in> set ts \<Longrightarrow> tg_pk t \<notin> xr_target ` set ers \<Longrightarrow> l (target_key t) = None"
proof -
  show row: "w (xr_target er) = Some (xr_policy er, xr_version er, None)" if er: "er \<in> set ers" for er
  proof -
    have "\<not> needs w er" using op er by (auto simp: open_targets_def)
    then obtain x where x: "w (xr_target er) = Some (xr_policy er, xr_version er, x)"
      by (auto simp: needs_def split: option.splits)
    have "x = None"
    proof (rule ccontr)
      assume "x \<noteq> None"
      then have "xr_policy er = REMOVE" using sw x by (auto simp: settled_def)
      then show False using E er by simp
    qed
    then show ?thesis using x by simp
  qed
  show "l (target_key t) = Some (policy_name (xr_policy er))"
    if "er \<in> set ers" "t \<in> set ts" "tg_pk t = xr_target er"
    using ag row [OF that(1)] that(2,3) by (auto simp: agrees_def)
  show none: "w k = None" if "k \<notin> xr_target ` set ers" for k
    using op that unfolding open_targets_def by blast
  show "l (target_key t) = None" if "t \<in> set ts" "tg_pk t \<notin> xr_target ` set ers"
    using ag none [OF that(2)] that by (auto simp: agrees_def)
qed

lemma rule_sync_runs:
  assumes "sync_tables_wf c m tags db" "client_ok apply lookup"
    and "agrees (expanded_rules c m tags db) (machine_view m (settled_tables m cursor db)) (lookup s) (st_targets db)"
    and "distinct randoms" "[] \<notin> set randoms"
    and "\<forall>r \<in> set randoms. \<forall>t p v. machine_view m (settled_tables m cursor db) t \<noteq> Some (p, v, Some r)"
    and "card (open_targets (expanded_rules c m tags db) (machine_view m (settled_tables m cursor db))) < length randoms"
  shows "\<exists>db' s'. rule_sync c m tags apply randoms cursor db s = Inr (Some (db', s')) \<and>
    open_targets (expanded_rules c m tags db) (machine_view m db') = {} \<and> settled (machine_view m db') \<and>
    agrees (expanded_rules c m tags db) (machine_view m db') (lookup s') (st_targets db)"
  using assms
proof (induction randoms arbitrary: cursor db s)
  case (Cons nc randoms)
  let ?ers = "expanded_rules c m tags db" and ?w = "machine_view m (settled_tables m cursor db)"
  have nc: "nc \<noteq> []" "\<And>t p v. ?w t \<noteq> Some (p, v, Some nc)" using Cons.prems(5,6) by auto
  obtain rules db' where b: "get_next_rule_batch c m tags cursor nc db =
      Inr ((rules, if open_targets ?ers ?w = {} then None else Some nc), db')"
      "open_targets ?ers ?w = {} \<longrightarrow> rules = [] \<and> db' = settled_tables m cursor db"
      "sync_tables_wf c m tags db'" "expanded_rules c m tags db' = ?ers" "st_targets db' = st_targets db"
      "agrees ?ers (machine_view m (settled_tables m (Some nc) db')) (lookup (fold apply rules s)) (st_targets db)"
      "open_targets ?ers ?w \<noteq> {} \<longrightarrow>
         open_targets ?ers (machine_view m (settled_tables m (Some nc) db')) \<subset> open_targets ?ers ?w"
      "\<forall>t p v x. machine_view m (settled_tables m (Some nc) db') t = Some (p, v, Some x) \<longrightarrow> ?w t = Some (p, v, Some x)"
    using batch_effect [OF Cons.prems(1,2) refl refl Cons.prems(3) nc] by blast
  show ?case
  proof (cases "open_targets ?ers ?w = {}")
    case True
    then have "rules = []" "db' = settled_tables m cursor db" using b(2) by simp_all
    moreover have "settled ?w"
      using settled_settle [OF sync_tables_wfD(1) [OF Cons.prems(1)]] by (simp add: machine_view_def settled_tables_def)
    ultimately show ?thesis using True b(1) Cons.prems(3) by simp
  next
    case False
    let ?w' = "machine_view m (settled_tables m (Some nc) db')"
    have fin: "finite (open_targets ?ers ?w)" by (simp add: machine_view_def finite_open_targets)
    then have "card (open_targets ?ers ?w') < card (open_targets ?ers ?w)"
      using b(7) False by (simp add: psubset_card_mono)
    then have len: "card (open_targets ?ers ?w') < length randoms" using Cons.prems(7) by simp
    have "\<forall>r \<in> set randoms. \<forall>t p v. ?w' t \<noteq> Some (p, v, Some r)"
      using Cons.prems(6) b(8) by (metis list.set_intros(2))
    then have "\<exists>db'' s'. rule_sync c m tags apply randoms (Some nc) db' (fold apply rules s) = Inr (Some (db'', s')) \<and>
        open_targets ?ers (machine_view m db'') = {} \<and> settled (machine_view m db'') \<and>
        agrees ?ers (machine_view m db'') (lookup s') (st_targets db)"
      using Cons.IH [OF b(3) Cons.prems(2), of "Some nc" "fold apply rules s"] b(4-6) Cons.prems(4,5) len by simp
    then show ?thesis using b(1) False by simp
  qed
qed simp

text \<open>
  C2: A Santa synchronisation ends, and ends with the rules of the configuration. For a machine
  whose rules have one rule per target, and a client that applies the rules it is sent and agrees
  with the acknowledged rows of the server, asking for batches until no cursor comes back takes
  at most one request per rule to add, change or remove, and one more. Then the client has every
  rule in scope for the machine, with its policy, and no other rule of a known target; and the
  table has exactly these rules, all acknowledged - whatever was interrupted before.
\<close>

theorem rule_sync_converges:
  assumes "sync_tables_wf c m tags db" "client_ok apply lookup"
    and "agrees (expanded_rules c m tags db) (machine_view m (settled_tables m cursor db)) (lookup s) (st_targets db)"
    and "distinct randoms" "[] \<notin> set randoms"
    and "\<forall>r \<in> set randoms. \<forall>t p v. machine_view m (settled_tables m cursor db) t \<noteq> Some (p, v, Some r)"
    and "card (open_targets (expanded_rules c m tags db) (machine_view m (settled_tables m cursor db))) < length randoms"
  shows "\<exists>db' s'. rule_sync c m tags apply randoms cursor db s = Inr (Some (db', s')) \<and>
    (\<forall>t \<in> set (st_targets db). lookup s' (target_key t) =
       map_option (\<lambda>er. policy_name (xr_policy er))
         (find (\<lambda>er. xr_target er = tg_pk t) (expanded_rules c m tags db))) \<and>
    (\<forall>k. machine_view m db' k =
       map_option (\<lambda>er. (xr_policy er, xr_version er, None))
         (find (\<lambda>er. xr_target er = k) (expanded_rules c m tags db)))"
proof -
  let ?ers = "expanded_rules c m tags db"
  obtain db' s' where r: "rule_sync c m tags apply randoms cursor db s = Inr (Some (db', s'))"
      "open_targets ?ers (machine_view m db') = {}" "settled (machine_view m db')"
      "agrees ?ers (machine_view m db') (lookup s') (st_targets db)"
    using rule_sync_runs [OF assms] by blast
  note c = closed_agreement [OF r(2-4) target_keys_wf(3) [OF assms(1)]]
  have found: "(find (\<lambda>er. xr_target er = k) ?ers = None \<and> k \<notin> xr_target ` set ?ers) \<or>
      (\<exists>er \<in> set ?ers. find (\<lambda>er. xr_target er = k) ?ers = Some er \<and> xr_target er = k)" for k
  proof (cases "find (\<lambda>er. xr_target er = k) ?ers")
    case None
    then show ?thesis by (auto simp: find_None_iff)
  next
    case (Some er)
    then show ?thesis by (auto simp: find_Some_iff)
  qed
  have "lookup s' (target_key t) =
      map_option (\<lambda>er. policy_name (xr_policy er)) (find (\<lambda>er. xr_target er = tg_pk t) ?ers)"
    if "t \<in> set (st_targets db)" for t
    using found [of "tg_pk t"] c(2) [OF _ that] c(4) [OF that] by auto
  moreover have "machine_view m db' k =
      map_option (\<lambda>er. (xr_policy er, xr_version er, None)) (find (\<lambda>er. xr_target er = k) ?ers)" for k
    using found [of k] c(1) c(3) [of k] by auto
  ultimately show ?thesis using r(1) by blast
qed

text \<open>A client that keeps its rules in a function, and a machine with a bundle rule and a binary rule.\<close>

definition map_client :: "dict \<Rightarrow> (string \<times> string \<Rightarrow> string option) \<Rightarrow> string \<times> string \<Rightarrow> string option" where
  "map_client d s =
     (case (dict_get d ''rule_type'', dict_get d ''sha256'', dict_get d ''policy'') of
        (Some (PStr ty), Some (PStr sha), Some (PStr pol)) \<Rightarrow>
          s((ty, sha) := (if pol = ''REMOVE'' then None else Some pol))
      | _ \<Rightarrow> s)"

definition sample_santa_machine :: santa_machine where
  "sample_santa_machine =
     \<lparr>em_pk = 1, em_enrollment = 1, em_hardware_uuid = ''UUID-1'', em_serial_number = ''SN1'',
      em_primary_user = None, em_client_mode = 1, em_santa_version = ''2021.1'', em_binary_rule_count = None,
      em_certificate_rule_count = None, em_compiler_rule_count = None, em_transitive_rule_count = None\<rparr>"

definition sample_rule :: "nat \<Rightarrow> int \<Rightarrow> santa_rule" where
  "sample_rule t policy =
     \<lparr>ru_configuration = 1, ru_ruleset = None, ru_target = t, ru_policy = policy, ru_custom_msg = [],
      ru_version = 1, ru_serial_numbers = [], ru_excluded_serial_numbers = [], ru_primary_users = [],
      ru_excluded_primary_users = [], ru_tags = [], ru_excluded_tags = []\<rparr>"

definition sample_bundle :: santa_bundle where
  "sample_bundle = \<lparr>bd_pk = 1, bd_target = 3, bd_path = [], bd_executable_rel_path = [], bd_bundle_id = ''com.example'',
     bd_name = ''Example'', bd_version = ''1'', bd_version_str = ''1.0'', bd_binary_count = 1,
     bd_binary_targets = [1], bd_uploaded_at = Some 10\<rparr>"

definition sample_santa_tables :: "santa_rule list \<Rightarrow> santa_tables" where
  "sample_santa_tables rules =
     \<lparr>st_targets = [\<lparr>tg_pk = 1, tg_type = BINARY, tg_sha256 = ''aa''\<rparr>,
                    \<lparr>tg_pk = 2, tg_type = CERTIFICATE, tg_sha256 = ''bb''\<rparr>,
                    \<lparr>tg_pk = 3, tg_type = BUNDLE, tg_sha256 = ''cc''\<rparr>],
      st_bundles = [sample_bundle], st_rules = rules,
      st_machine_rules = [\<lparr>mr_machine = 1, mr_target = 2, mr_policy = 2, mr_version = 1, mr_cursor = None\<rparr>]\<rparr>"

lemma singleton_filter: "p x \<Longrightarrow> {y \<in> set [x]. p y} = {x}"
  by auto

lemma map_client_ok: "client_ok map_client id"
  by (auto simp: client_ok_def map_client_def)

theorem rule_sync_converges_witness:
  "\<exists>db' s'. rule_sync sample_santa_configuration sample_santa_machine [] map_client
       [''r1'', ''r2'', ''r3''] None (sample_santa_tables [sample_rule 3 1])
       ((\<lambda>_. None)((''CERTIFICATE'', ''bb'') := Some ''BLOCKLIST'')) = Inr (Some (db', s')) \<and>
     s' (''BINARY'', ''aa'') = Some ''ALLOWLIST'' \<and> s' (''CERTIFICATE'', ''bb'') = None"
proof -
  let ?db = "sample_santa_tables [sample_rule 3 1]" and ?c = sample_santa_configuration
    and ?m = sample_santa_machine and ?s = "(\<lambda>_. None)((''CERTIFICATE'', ''bb'') := Some ''BLOCKLIST'')"
  have E: "expanded_rules ?c ?m [] ?db = [expanded_row (sample_rule 3 1) 1 (Some sample_bundle)]" by code_simp
  have v: "machine_view ?m (settled_tables ?m None ?db) = (\<lambda>k. if k = 2 then Some (2, 1, None) else None)"
    by (simp add: fun_eq_iff machine_view_def settled_tables_def settle_def acknowledge_cursor_def
        cleanup_unacknowledged_def delete_where_def view_def sample_santa_tables_def sample_santa_machine_def
        machine_rule_key_def)
  have wf: "sync_tables_wf ?c ?m [] ?db"
    unfolding sync_tables_wf_def E
    by (simp add: sample_santa_tables_def sample_santa_configuration_def sample_santa_machine_def
        machine_rule_key_def find_target_def rules_of_machine_def expanded_row_def sample_rule_def)
  have ag: "agrees (expanded_rules ?c ?m [] ?db) (machine_view ?m (settled_tables ?m None ?db)) (id ?s) (st_targets ?db)"
    unfolding E v
    by (simp add: agrees_def sample_santa_tables_def target_key_def expanded_row_def sample_rule_def
        policy_name_def translate_rule_policy_def)
  have n: "needs (\<lambda>k. if k = 2 then Some (2, 1, None) else None) (expanded_row (sample_rule 3 1) 1 (Some sample_bundle))"
    and t: "xr_target (expanded_row (sample_rule 3 1) 1 (Some sample_bundle)) = 1"
    by (simp_all add: needs_def expanded_row_def)
  have "{er \<in> set [expanded_row (sample_rule 3 1) 1 (Some sample_bundle)].
      needs (\<lambda>k. if k = 2 then Some (2, 1, None) else None) er} = {expanded_row (sample_rule 3 1) 1 (Some sample_bundle)}"
    by (rule singleton_filter [where p = "needs (\<lambda>k. if k = 2 then Some (2, 1, None) else None)"]) (rule n)
  moreover have "{k. (if k = 2 then Some (2, 1, None) else None) \<noteq> (None :: (int \<times> nat \<times> string option) option) \<and>
      k \<notin> xr_target ` set [expanded_row (sample_rule 3 1) 1 (Some sample_bundle)]} = {2 :: nat}"
    using t by (intro set_eqI) simp
  ultimately have "open_targets (expanded_rules ?c ?m [] ?db) (machine_view ?m (settled_tables ?m None ?db)) = {1, 2}"
    unfolding open_targets_def E v using t by (simp add: insert_commute)
  then have card: "card (open_targets (expanded_rules ?c ?m [] ?db) (machine_view ?m (settled_tables ?m None ?db))) <
      length [''r1'', ''r2'', ''r3'']"
    by simp
  have fresh: "\<forall>r \<in> set [''r1'', ''r2'', ''r3'']. \<forall>t p v.
      machine_view ?m (settled_tables ?m None ?db) t \<noteq> Some (p, v, Some r)"
    unfolding v by simp
  obtain db' s' where r: "rule_sync ?c ?m [] map_client [''r1'', ''r2'', ''r3''] None ?db ?s = Inr (Some (db', s'))"
      "\<forall>t \<in> set (st_targets ?db). id s' (target_key t) =
        map_option (\<lambda>er. policy_name (xr_policy er)) (find (\<lambda>er. xr_target er = tg_pk t) (expanded_rules ?c ?m [] ?db))"
    using rule_sync_converges [where lookup = id and s = ?s, OF wf map_client_ok ag _ _ fresh card]
    by auto
  then show ?thesis
    unfolding E by (simp add: sample_santa_tables_def target_key_def expanded_row_def sample_rule_def
        policy_name_def translate_rule_policy_def)
qed

subsection \<open>When it does not end\<close>

lemma send_rules_nonempty:
  assumes "send_rules db pk nc changes rows = Inr (ds, rows')"
  shows "ds = [] \<longleftrightarrow> changes = []"
proof (cases changes)
  case (Cons x xs)
  then show ?thesis using assms by (cases x) (auto simp: bind_result_Inr)
qed (use assms in simp)

lemma get_next_rule_batch_runs:
  assumes "get_next_rule_batch c m tags cursor nc db = Inr ((rules, next_cursor), db')"
  shows "\<exists>rows. send_rules (settled_tables m cursor db) (em_pk m) nc
      (iter_new_rules c m tags (settled_tables m cursor db)) (st_machine_rules (settled_tables m cursor db)) =
        Inr (rules, rows) \<and>
    next_cursor = (if rules = [] then None else Some nc) \<and>
    db' = (settled_tables m cursor db)\<lparr>st_machine_rules := rows\<rparr>"
  using assms
  by (auto simp: get_next_rule_batch_def Let_def settle_def [symmetric] settled_tables_def [symmetric]
      bind_result_Inr)

lemma rule_dict_key:
  assumes "rule_dict db t er = Inr d"
  shows "dict_get d ''rule_type'' = Some (PStr (fst (target_key t)))"
    "dict_get d ''sha256'' = Some (PStr (snd (target_key t)))"
  using assms by (auto simp: rule_dict_def bind_result_Inr target_key_def split: if_splits)

lemma send_rules_sent:
  assumes "send_rules db pk nc changes rows = Inr (ds, rows')"
  shows "view pk rows' = sent nc changes (view pk rows)"
    and "d \<in> set ds \<Longrightarrow> \<exists>t er. (t, er) \<in> set changes \<and> rule_dict db t er = Inr d"
proof -
  have "view pk rows' = sent nc changes (view pk rows) \<and>
      (\<forall>d \<in> set ds. \<exists>t er. (t, er) \<in> set changes \<and> rule_dict db t er = Inr d)"
    using assms
  proof (induction changes arbitrary: rows ds)
    case (Cons x changes)
    obtain t er where x: "x = (t, er)" by fastforce
    obtain d ds' where r: "rule_dict db t er = Inr d" "ds = d # ds'"
        "send_rules db pk nc changes (upsert_machine_rule (pk, tg_pk t) (xr_policy er, xr_version er, nc) rows) =
          Inr (ds', rows')"
      using Cons.prems x by (auto simp: bind_result_Inr)
    have "view pk rows' = sent nc changes ((view pk rows)(tg_pk t \<mapsto> (xr_policy er, xr_version er, Some nc)))"
      and "\<forall>d \<in> set ds'. \<exists>t er. (t, er) \<in> set changes \<and> rule_dict db t er = Inr d"
      using Cons.IH [OF r(3)] unfolding view_upsert by blast+
    then show ?case unfolding x sent_simps r(2) using r(1) by (metis list.set_intros set_ConsD)
  qed (simp add: sent_simps)
  then show "view pk rows' = sent nc changes (view pk rows)"
    and "d \<in> set ds \<Longrightarrow> \<exists>t er. (t, er) \<in> set changes \<and> rule_dict db t er = Inr d"
    by blast+
qed

text \<open>
  C35: Two rules in scope on one binary that differ, for instance its own rule and the one of its
  bundle, are never satisfied at the same time. Whatever rules the machine has and whatever it
  acknowledges, every batch it asks for has rules again and a cursor to ask for the next: the
  synchronisation never ends.
\<close>

theorem conflicting_rules_never_end:
  assumes keys: "distinct (map machine_rule_key (st_machine_rules db))" and batch: "0 < sc_batch_size c"
    and er: "a \<in> set (expanded_rules c m tags db)" "b \<in> set (expanded_rules c m tags db)"
      "xr_target a = xr_target b" "xr_policy a \<noteq> xr_policy b \<or> xr_version a \<noteq> xr_version b"
    and target: "find_target (xr_target a) db = Some t"
    and run: "get_next_rule_batch c m tags cursor nc db = Inr ((rules, next_cursor), db')"
  shows "rules \<noteq> [] \<and> next_cursor = Some nc"
proof -
  define db1 where "db1 = settled_tables m cursor db"
  let ?rows = "st_machine_rules db1" and ?E = "expanded_rules c m tags db"
  have d: "distinct (map machine_rule_key ?rows)"
    using distinct_settle [OF keys] by (simp add: db1_def settled_tables_def)
  have E1: "expanded_rules c m tags db1 = ?E" "find_target k db1 = find_target k db" for k
    by (simp_all add: db1_def settled_tables_def)
  have "needs (view (em_pk m) ?rows) a \<or> needs (view (em_pk m) ?rows) b"
    using er(3,4) by (auto simp: needs_def split: option.splits)
  then obtain x where x: "x \<in> set (changed_rules ?E (rules_of_machine (em_pk m) ?rows))" "xr_target x = xr_target a"
    using er(1-3) unfolding set_changed_rules [OF d] by auto
  let ?rs = "List.map_filter (\<lambda>er. map_option (\<lambda>t. (t, er)) (find_target (xr_target er) db1))
      (changed_rules (expanded_rules c m tags db1) (rules_of_machine (em_pk m) ?rows))"
  have "(t, x) \<in> set ?rs" using x target by (force simp: map_filter_def E1)
  then have "?rs \<noteq> []" by force
  then have "sort_key (\<lambda>(t, er). str_key (tg_sha256 t)) ?rs \<noteq> []" unfolding sort_key_Nil .
  then have "iter_new_rules c m tags db1 \<noteq> []" using batch unfolding iter_new_rules_def take_eq_Nil by simp
  moreover obtain rows where "send_rules db1 (em_pk m) nc (iter_new_rules c m tags db1) ?rows = Inr (rules, rows)"
      "next_cursor = (if rules = [] then None else Some nc)"
    using get_next_rule_batch_runs [OF run] by (auto simp: db1_def)
  ultimately show ?thesis using send_rules_nonempty [of db1 "em_pk m" nc] by auto
qed

theorem conflicting_rules_never_end_witness:
  "\<exists>rules next_cursor db'. get_next_rule_batch sample_santa_configuration sample_santa_machine [] None ''r1''
       (sample_santa_tables [sample_rule 3 1, sample_rule 1 2]) = Inr ((rules, next_cursor), db') \<and>
     rules \<noteq> [] \<and> next_cursor = Some ''r1''"
proof -
  let ?db = "sample_santa_tables [sample_rule 3 1, sample_rule 1 2]"
  have ok: "isl (get_next_rule_batch sample_santa_configuration sample_santa_machine [] None ''r1'' ?db) = False"
    by code_simp
  obtain rules next_cursor db' where run: "get_next_rule_batch sample_santa_configuration sample_santa_machine []
      None ''r1'' ?db = Inr ((rules, next_cursor), db')"
    using ok by (cases "get_next_rule_batch sample_santa_configuration sample_santa_machine [] None ''r1'' ?db") auto
  have E: "expanded_rules sample_santa_configuration sample_santa_machine [] ?db =
      [expanded_row (sample_rule 3 1) 1 (Some sample_bundle), expanded_row (sample_rule 1 2) 1 None]"
    by code_simp
  have "rules \<noteq> [] \<and> next_cursor = Some ''r1''"
  proof (rule conflicting_rules_never_end [OF _ _ _ _ _ _ _ run])
    show "expanded_row (sample_rule 3 1) 1 (Some sample_bundle)
        \<in> set (expanded_rules sample_santa_configuration sample_santa_machine [] ?db)"
      "expanded_row (sample_rule 1 2) 1 None \<in> set (expanded_rules sample_santa_configuration sample_santa_machine [] ?db)"
      unfolding E by simp_all
    show "find_target (xr_target (expanded_row (sample_rule 3 1) 1 (Some sample_bundle))) ?db =
        Some \<lparr>tg_pk = 1, tg_type = BINARY, tg_sha256 = ''aa''\<rparr>"
      by (simp add: find_target_def sample_santa_tables_def expanded_row_def)
  qed (simp_all add: sample_santa_tables_def sample_santa_configuration_def expanded_row_def sample_rule_def)
  with run show ?thesis by blast
qed

text \<open>
  A rule whose delivery was not confirmed is forgotten. When a machine starts a new
  synchronisation, without a cursor, and its row for a target is not acknowledged and the target
  has no rule any more, the row is deleted and no removal is sent: a client that did receive the
  rule keeps it.
\<close>

theorem unconfirmed_rule_forgotten:
  assumes keys: "distinct (map machine_rule_key (st_machine_rules db))"
    and targets: "distinct (map target_key (st_targets db))" "tg \<in> set (st_targets db)"
    and row: "mr \<in> set (st_machine_rules db)" "mr_machine mr = em_pk m" "mr_target mr = tg_pk tg"
      "mr_cursor mr \<noteq> None" "mr_policy mr \<noteq> REMOVE"
    and gone: "tg_pk tg \<notin> xr_target ` set (expanded_rules c m tags db)"
    and run: "get_next_rule_batch c m tags None nc db = Inr ((rules, next_cursor), db')"
  shows "machine_view m db' (tg_pk tg) = None \<and>
    (\<forall>d \<in> set rules. dict_get d ''rule_type'' \<noteq> Some (PStr (fst (target_key tg))) \<or>
       dict_get d ''sha256'' \<noteq> Some (PStr (snd (target_key tg))))"
proof -
  let ?db1 = "settled_tables m None db" and ?E = "expanded_rules c m tags db"
  have "find (\<lambda>x. machine_rule_key x = (em_pk m, tg_pk tg)) (st_machine_rules db) = Some mr"
  proof -
    have "filter (\<lambda>x. machine_rule_key x = machine_rule_key mr) (st_machine_rules db) = [mr]"
      using get_one_pk [OF keys row(1)] get_one_Inr by metis
    then show ?thesis
      using filter_unique [OF keys, of "machine_rule_key mr"] row(2,3)
      by (auto simp: machine_rule_key_def split: option.splits)
  qed
  then have v: "view (em_pk m) (st_machine_rules db) (tg_pk tg) = Some (mr_policy mr, mr_version mr, mr_cursor mr)"
    by (simp add: view_def)
  have none: "view (em_pk m) (st_machine_rules ?db1) (tg_pk tg) = None"
    using row(4,5) by (auto simp: settled_tables_def view_settle [OF keys] v)
  have d: "distinct (map machine_rule_key (st_machine_rules ?db1))"
    using distinct_settle [OF keys] by (simp add: settled_tables_def)
  have E: "expanded_rules c m tags ?db1 = ?E" "find_target k ?db1 = find_target k db" for k
    by (simp_all add: settled_tables_def)
  have not_open: "tg_pk tg \<notin> open_targets ?E (view (em_pk m) (st_machine_rules ?db1))"
    using gone none unfolding open_targets_def by blast
  have other: "tg_pk t \<noteq> tg_pk tg \<and> t \<in> set (st_targets db)"
    if t: "(t, er) \<in> set (iter_new_rules c m tags ?db1)" for t er
  proof -
    have er: "er \<in> set (changed_rules ?E (rules_of_machine (em_pk m) (st_machine_rules ?db1)))"
      "find_target (xr_target er) db = Some t"
      using t unfolding iter_new_rules_def E by (auto dest!: in_set_takeD simp: map_filter_def)
    then have "xr_target er \<in> open_targets ?E (view (em_pk m) (st_machine_rules ?db1))"
      unfolding changed_targets [OF d, symmetric] by blast
    then show ?thesis using not_open find_target_Some [OF er(2)] by auto
  qed
  obtain rows where s: "send_rules ?db1 (em_pk m) nc (iter_new_rules c m tags ?db1) (st_machine_rules ?db1) = Inr (rules, rows)"
      "db' = ?db1\<lparr>st_machine_rules := rows\<rparr>"
    using get_next_rule_batch_runs [OF run] by blast
  have "tg_pk tg \<notin> (\<lambda>(t, er). tg_pk t) ` set (iter_new_rules c m tags ?db1)" using other by fastforce
  then have "machine_view m db' (tg_pk tg) = None"
    using sent_out none by (simp add: machine_view_def s(2) send_rules_sent(1) [OF s(1)])
  moreover have "target_key t \<noteq> target_key tg" if "(t, er) \<in> set (iter_new_rules c m tags ?db1)" for t er
    using other [OF that] distinct_map_eqD [OF targets(1) _ targets(2)] by auto
  then have "\<forall>d \<in> set rules. dict_get d ''rule_type'' \<noteq> Some (PStr (fst (target_key tg))) \<or>
      dict_get d ''sha256'' \<noteq> Some (PStr (snd (target_key tg)))"
    using send_rules_sent(2) [OF s(1)] rule_dict_key by (metis pyval.inject(3) option.inject prod.collapse)
  ultimately show ?thesis by blast
qed

definition interrupted_tables :: santa_tables where
  "interrupted_tables = (sample_santa_tables [])\<lparr>st_machine_rules :=
     [\<lparr>mr_machine = 1, mr_target = 2, mr_policy = 2, mr_version = 1, mr_cursor = Some ''lost''\<rparr>]\<rparr>"

theorem unconfirmed_rule_forgotten_witness:
  "\<exists>rules next_cursor db'. get_next_rule_batch sample_santa_configuration sample_santa_machine [] None ''r1''
       interrupted_tables = Inr ((rules, next_cursor), db') \<and>
     machine_view sample_santa_machine db' 2 = None \<and>
     (\<forall>d \<in> set rules. dict_get d ''sha256'' \<noteq> Some (PStr ''bb'') \<or> dict_get d ''rule_type'' \<noteq> Some (PStr ''CERTIFICATE''))"
proof -
  have ok: "isl (get_next_rule_batch sample_santa_configuration sample_santa_machine [] None ''r1'' interrupted_tables) = False"
    by code_simp
  obtain rules next_cursor db' where run: "get_next_rule_batch sample_santa_configuration sample_santa_machine []
      None ''r1'' interrupted_tables = Inr ((rules, next_cursor), db')"
    using ok by (cases "get_next_rule_batch sample_santa_configuration sample_santa_machine [] None ''r1'' interrupted_tables") auto
  have E: "expanded_rules sample_santa_configuration sample_santa_machine [] interrupted_tables = []" by code_simp
  let ?tg = "\<lparr>tg_pk = 2, tg_type = CERTIFICATE, tg_sha256 = ''bb''\<rparr>"
    and ?mr = "\<lparr>mr_machine = 1, mr_target = 2, mr_policy = 2, mr_version = 1, mr_cursor = Some ''lost''\<rparr>"
  have "machine_view sample_santa_machine db' (tg_pk ?tg) = None \<and>
    (\<forall>d \<in> set rules. dict_get d ''rule_type'' \<noteq> Some (PStr (fst (target_key ?tg))) \<or>
       dict_get d ''sha256'' \<noteq> Some (PStr (snd (target_key ?tg))))"
    by (rule unconfirmed_rule_forgotten [where mr = ?mr, OF _ _ _ _ _ _ _ _ _ run])
      (simp_all add: E, simp_all add: interrupted_tables_def sample_santa_tables_def sample_santa_machine_def target_key_def)
  with run show ?thesis by (auto simp: target_key_def)
qed

end
