(* ===== verification/SantaRefinement.thy ===== *)
theory SantaRefinement imports SantaSync begin

text \<open>
  What \<open>get_next_rule_batch\<close> of \<open>zentral/contrib/santa/models.py\<close> promises, without its tables:
  a protocol on the view of a machine, the map from targets to what the machine was sent and
  whether it confirmed it, and the proof that the code refines it.
\<close>

subsection \<open>The protocol\<close>

text \<open>A request confirms the batch of its cursor and forgets what was not confirmed, but for the removals.\<close>

definition settle_view :: "string option \<Rightarrow> rule_view \<Rightarrow> rule_view" where
  "settle_view cursor w t =
     (case w t of
        Some (p, v, Some c) \<Rightarrow>
          if truthy_str cursor \<and> Some c = cursor then (if p = REMOVE then None else Some (p, v, None))
          else if p = REMOVE then Some (p, v, Some c) else None
      | x \<Rightarrow> x)"

text \<open>The policy and the version a target should have: the ones of its rule, or its removal.\<close>

definition wanted :: "expanded_rule list \<Rightarrow> nat \<Rightarrow> int \<times> nat" where
  "wanted ers t =
     (case find (\<lambda>er. xr_target er = t) ers of
        None \<Rightarrow> (REMOVE, 1)
      | Some er \<Rightarrow> (xr_policy er, xr_version er))"

text \<open>
  A step: of the targets that are not as they should be, as many as a batch holds are sent, and
  wait for the new cursor.
\<close>

definition batch_step ::
  "expanded_rule list \<Rightarrow> nat \<Rightarrow> string option \<Rightarrow> string \<Rightarrow> rule_view \<Rightarrow> nat set \<Rightarrow> rule_view \<Rightarrow> bool" where
  "batch_step ers n cursor nc w B w' \<longleftrightarrow>
     B \<subseteq> open_targets ers (settle_view cursor w) \<and>
     card B = min n (card (open_targets ers (settle_view cursor w))) \<and>
     (\<forall>t. w' t = (if t \<in> B then (case wanted ers t of (p, v) \<Rightarrow> Some (p, v, Some nc)) else settle_view cursor w t))"

subsection \<open>The refinement\<close>

lemma machine_view_settled:
  assumes "distinct (map machine_rule_key (st_machine_rules db))"
  shows "machine_view m (settled_tables m cursor db) = settle_view cursor (machine_view m db)"
  by (auto simp: fun_eq_iff machine_view_def settled_tables_def settle_view_def view_settle [OF assms]
      split: option.split)

lemma wanted_change:
  assumes "distinct (map xr_target ers)" "er \<in> set ers \<or> er = removal (xr_target er) \<and> xr_target er \<notin> xr_target ` set ers"
  shows "wanted ers (xr_target er) = (xr_policy er, xr_version er)"
proof (cases "find (\<lambda>x. xr_target x = xr_target er) ers")
  case None
  then have "er \<notin> set ers" by (auto simp: find_None_iff)
  then have "er = removal (xr_target er)" using assms(2) by blast
  then have "xr_policy er = REMOVE \<and> xr_version er = 1" by (cases er) (simp add: removal_def)
  then show ?thesis using None by (simp add: wanted_def)
next
  case (Some x)
  then have x: "x \<in> set ers" "xr_target x = xr_target er" by (auto simp: find_Some_iff)
  then have "er \<in> set ers" using assms(2) by (metis imageI)
  then have "x = er" using distinct_map_eqD [OF assms(1) x(1) _ x(2)] by simp
  with Some show ?thesis by (simp add: wanted_def)
qed

text \<open>All the changes have their target, so a batch holds as many as it can.\<close>

lemma map_filter_all: "(\<And>x. x \<in> set xs \<Longrightarrow> g x \<noteq> None) \<Longrightarrow> length (List.map_filter g xs) = length xs"
  by (induction xs) (auto simp: map_filter_simps split: option.split)

lemma batch_length:
  assumes wf: "sync_tables_wf c m tags db"
  shows "length (iter_new_rules c m tags db) =
    min (sc_batch_size c) (card (open_targets (expanded_rules c m tags db) (machine_view m db)))"
proof -
  let ?ers = "expanded_rules c m tags db"
  let ?cs = "changed_rules ?ers (rules_of_machine (em_pk m) (st_machine_rules db))"
  have "inj_on xr_target (set ?cs)"
    using changed_rules_target_inj [OF sync_tables_wfD(1) [OF wf] sync_tables_wfD(2) [OF wf]] by (blast intro: inj_onI)
  moreover have "distinct ?cs" by (simp add: changed_rules_def)
  ultimately have "card (xr_target ` set ?cs) = length ?cs" by (simp add: card_image distinct_card)
  then have "card (open_targets ?ers (machine_view m db)) = length ?cs"
    using changed_targets [OF sync_tables_wfD(1) [OF wf]] by (simp add: machine_view_def)
  moreover have "length (List.map_filter (\<lambda>er. map_option (\<lambda>t. (t, er)) (find_target (xr_target er) db)) ?cs) = length ?cs"
    by (rule map_filter_all) (use changes_found [OF wf] in simp)
  ultimately show ?thesis by (simp add: iter_new_rules_def)
qed

lemma rules_of_other_machine:
  assumes "em_pk m' \<noteq> em_pk m"
  shows "machine_view m' (settled_tables m cursor db) = machine_view m' db"
    and "send_rules db0 (em_pk m) nc changes rows = Inr (ds, rows') \<Longrightarrow> view (em_pk m') rows' = view (em_pk m') rows"
proof -
  have key: "machine_rule_key (mr\<lparr>mr_cursor := None\<rparr>) = machine_rule_key mr" for mr
    by (simp add: machine_rule_key_def)
  have other: "find (\<lambda>mr. machine_rule_key mr = (em_pk m', t)) (delete_where (\<lambda>mr. mr_machine mr = em_pk m \<and> q mr) rows) =
      find (\<lambda>mr. machine_rule_key mr = (em_pk m', t)) rows" for q rows t
    using assms by (induction rows) (auto simp: delete_where_def machine_rule_key_def)
  have upd: "find (\<lambda>mr. machine_rule_key mr = (em_pk m', t))
        (update_where (\<lambda>mr. mr_machine mr = em_pk m \<and> q mr) (\<lambda>mr. mr\<lparr>mr_cursor := None\<rparr>) rows) =
      find (\<lambda>mr. machine_rule_key mr = (em_pk m', t)) rows" for q rows t
    using assms by (induction rows) (auto simp: update_where_def machine_rule_key_def)
  show "machine_view m' (settled_tables m cursor db) = machine_view m' db"
    by (simp add: fun_eq_iff machine_view_def view_def settled_tables_def settle_def acknowledge_cursor_def
        cleanup_unacknowledged_def other upd)
  show "view (em_pk m') rows' = view (em_pk m') rows"
    if "send_rules db0 (em_pk m) nc changes rows = Inr (ds, rows')"
    using that
  proof (induction changes arbitrary: rows ds)
    case (Cons x changes)
    obtain t er where x: "x = (t, er)" by fastforce
    let ?rows = "upsert_machine_rule (em_pk m, tg_pk t) (xr_policy er, xr_version er, nc) rows"
    obtain ds' where s: "send_rules db0 (em_pk m) nc changes ?rows = Inr (ds', rows')"
      using Cons.prems by (auto simp: x bind_result_Inr)
    have "view (em_pk m') ?rows = view (em_pk m') rows"
      using assms by (simp add: fun_eq_iff view_def find_upsert)
    then show ?case using Cons.IH [OF s] by simp
  qed simp
qed



end
