(* ===== verification/Requests.thy ===== *)
theory Requests imports EnrollmentSecrets begin

text \<open>
  What the API views of the applications share: the request, a result with the events posted before
  it, the values of the columns, and the verification of the secret of an enrollment.
\<close>

subsection \<open>Results and events\<close>

text \<open>A result with the events posted so far, kept when a later step raises.\<close>

type_synonym 'a posted = "(pyerror + 'a) \<times> event list"

definition bind_posted :: "'a posted \<Rightarrow> ('a \<Rightarrow> 'b posted) \<Rightarrow> 'b posted" where
  "bind_posted r f =
     (case fst r of Inl e \<Rightarrow> (Inl e, snd r) | Inr x \<Rightarrow> (fst (f x), snd r @ snd (f x)))"

text \<open>The same, with the next step taken once.\<close>

lemma bind_posted_code [code]:
  "bind_posted r f =
     (case r of
        (Inl e, evs) \<Rightarrow> (Inl e, evs)
      | (Inr x, evs) \<Rightarrow> (case f x of (y, evs') \<Rightarrow> (y, evs @ evs')))"
  by (simp add: bind_posted_def split: prod.splits sum.splits)

definition quiet :: "pyerror + 'a \<Rightarrow> 'a posted" where
  "quiet r = (r, [])"

lemma bind_posted_Inr:
  "bind_posted r f = (Inr y, evs) \<longleftrightarrow>
     (\<exists>x evs1 evs2. r = (Inr x, evs1) \<and> f x = (Inr y, evs2) \<and> evs = evs1 @ evs2)"
  by (cases r; cases "fst r") (auto simp: bind_posted_def prod_eq_iff)

lemma quiet_Inr: "quiet r = (Inr y, evs) \<longleftrightarrow> r = Inr y \<and> evs = []"
  by (auto simp: quiet_def)

subsection \<open>Requests\<close>

text \<open>A request: its headers, and its body as the characters of its bytes.\<close>

record http_post =
  hp_meta :: "(string \<times> string) list"
  hp_body :: string

text \<open>The server sets the address of the client.\<close>

definition user_agent_and_ip_address_from_request ::
  "(string \<Rightarrow> bool) \<Rightarrow> (string \<times> string) list \<Rightarrow> string \<times> string" where
  "user_agent_and_ip_address_from_request valid_ip meta =
     (let header = (\<lambda>k. case dict_get meta k of None \<Rightarrow> [] | Some v \<Rightarrow> v);
          real_ip = header ''HTTP_X_REAL_IP''
      in (header ''HTTP_USER_AGENT'', if valid_ip real_ip then real_ip else header ''REMOTE_ADDR''))"

definition request_item :: "dict \<Rightarrow> string \<Rightarrow> pyerror + pyval" where
  "request_item d k = (case dict_get d k of None \<Rightarrow> Inl (KeyError k) | Some v \<Rightarrow> Inr v)"

subsection \<open>Columns\<close>

text \<open>The values the columns accept: a text that is not null, and a number of 32 bits or null.\<close>

definition text_column :: "pyval \<Rightarrow> pyerror + string" where
  "text_column v =
     (case v of PStr s \<Rightarrow> Inr s | PInt i \<Rightarrow> Inr (int_str i) | PNone \<Rightarrow> Inl IntegrityError | _ \<Rightarrow> Inl TypeError)"

definition int_column :: "pyval \<Rightarrow> pyerror + int option" where
  "int_column v =
     (case v of
        PNone \<Rightarrow> Inr None
      | PInt i \<Rightarrow> if - (2 ^ 31) \<le> i \<and> i < 2 ^ 31 then Inr (Some i) else Inl DataError
      | PBool b \<Rightarrow> Inr (Some (if b then 1 else 0))
      | PStr s \<Rightarrow> (case parse_int s of None \<Rightarrow> Inl ValueError | Some i \<Rightarrow>
          if - (2 ^ 31) \<le> i \<and> i < 2 ^ 31 then Inr (Some i) else Inl DataError)
      | _ \<Rightarrow> Inl TypeError)"

subsection \<open>Enrollment\<close>

text \<open>The verification of the secret: one that fails denies the request.\<close>

definition verified :: "(pyerror + enrollment_secret_request) \<times> event list \<times> enrollment_db \<Rightarrow> enrollment_db posted" where
  "verified answer =
     (case answer of
        (Inl (EnrollmentSecretVerificationFailed _), evs, _) \<Rightarrow> (Inl (PermissionDenied ''Wrong enrollment secret''), evs)
      | (Inl e, evs, _) \<Rightarrow> (Inl e, evs)
      | (Inr _, evs, edb) \<Rightarrow> (Inr edb, evs))"

end
