(* ===== verification/SantaEvents.thy ===== *)
theory SantaEvents imports SantaRules begin

text \<open>
  The upload of events by a Santa client (\<open>process_events\<close> of
  \<open>zentral/contrib/santa/events/__init__.py\<close>): the bundles the events name, the binaries of the
  bundles, the trees of the files and the events posted. The inventory commit of a file tree is
  an effect: the trees passed to it are returned.
\<close>

subsection \<open>Events and trees\<close>

definition SantaEventEvent :: event_class where
  "SantaEventEvent = \<lparr>event_type = ''santa_event'', namespace = None, class_tags = [''santa'']\<rparr>"

definition SantaEnrollmentEvent :: event_class where
  "SantaEnrollmentEvent = \<lparr>event_type = ''santa_enrollment'', namespace = None, class_tags = [''santa'']\<rparr>"

definition SantaPreflightEvent :: event_class where
  "SantaPreflightEvent = \<lparr>event_type = ''santa_preflight'', namespace = None, class_tags = [''santa'', ''heartbeat'']\<rparr>"

definition get_default :: "dict \<Rightarrow> string \<Rightarrow> pyval" where
  "get_default d k = dict_get_default d k PNone"

definition is_bundle_binary_pseudo_event :: "dict \<Rightarrow> bool" where
  "is_bundle_binary_pseudo_event d \<longleftrightarrow> dict_get d ''decision'' = Some (PStr ''BUNDLE_BINARY'')"

text \<open>\<open>datetime.utcfromtimestamp\<close> of a number.\<close>

fun utcfromtimestamp :: "pyval \<Rightarrow> pyerror + pyval" where
  "utcfromtimestamp (PInt t) = Inr (PTime t)"
| "utcfromtimestamp (PBool b) = Inr (PTime (if b then 1 else 0))"
| "utcfromtimestamp _ = Inl TypeError"

definition build_certificate_tree :: "dict \<Rightarrow> pyerror + dict" where
  "build_certificate_tree d =
     bind_result (utcfromtimestamp (get_default d ''valid_from'')) (\<lambda>valid_from.
     bind_result (utcfromtimestamp (get_default d ''valid_until'')) (\<lambda>valid_until.
       Inr [(''common_name'', get_default d ''cn''), (''organization'', get_default d ''org''),
            (''organizational_unit'', get_default d ''ou''), (''sha_256'', get_default d ''sha256''),
            (''valid_from'', valid_from), (''valid_until'', valid_until)]))"

text \<open>Every certificate is put into the one before it, as the one it is signed by.\<close>

fun chain_certificates :: "dict list \<Rightarrow> pyval" where
  "chain_certificates [] = PNone"
| "chain_certificates [c] = PDict c"
| "chain_certificates (c # d # cs) = PDict (dict_set ''signed_by'' (chain_certificates (d # cs)) c)"

fun as_dict :: "pyval \<Rightarrow> pyerror + dict" where
  "as_dict (PDict d) = Inr d"
| "as_dict _ = Inl AttributeError"

fun as_list :: "pyval \<Rightarrow> pyerror + pyval list" where
  "as_list (PList l) = Inr l"
| "as_list _ = Inl TypeError"

definition build_signing_chain_tree :: "dict \<Rightarrow> pyerror + pyval" where
  "build_signing_chain_tree d =
     (let chain = get_default d ''signing_chain'' in
      if \<not> truthy chain then Inr PNone
      else bind_result (as_list chain) (\<lambda>cs.
           bind_result (map_result (\<lambda>c. bind_result (as_dict c) build_certificate_tree) cs) (\<lambda>certs.
             Inr (chain_certificates certs))))"

definition build_bundle_tree :: "dict \<Rightarrow> pyval" where
  "build_bundle_tree d =
     (let bundle_d = present (map (\<lambda>(from_a, to_a).
            (to_a, if truthy (get_default d from_a) then Some (get_default d from_a) else None))
          [(''file_bundle_id'', ''bundle_id''), (''file_bundle_name'', ''bundle_name''),
           (''file_bundle_version'', ''bundle_version''), (''file_bundle_version_string'', ''bundle_version_str'')])
      in if bundle_d = [] then PNone else PDict bundle_d)"

definition build_file_tree :: "dict \<Rightarrow> pyerror + dict" where
  "build_file_tree d =
     bind_result (build_signing_chain_tree d) (\<lambda>signed_by.
       Inr [(''source'', PDict [(''module'', PStr ''zentral.contrib.santa''), (''name'', PStr ''Santa events'')]),
            (''name'', get_default d ''file_name''), (''path'', get_default d ''file_path''),
            (''bundle_path'', get_default d ''file_bundle_path''), (''sha_256'', get_default d ''file_sha256''),
            (''bundle'', build_bundle_tree d), (''signed_by'', signed_by)])"

text \<open>An event whose tree cannot be built is logged and left out.\<close>

definition commit_files :: "dict list \<Rightarrow> dict list" where
  "commit_files events =
     List.map_filter (\<lambda>d. case build_file_tree d of Inl _ \<Rightarrow> None | Inr t \<Rightarrow> Some t) events"

subsection \<open>Targets and bundles\<close>

definition get_or_create_target :: "target_type \<Rightarrow> string \<Rightarrow> santa_tables \<Rightarrow> santa_target \<times> santa_tables" where
  "get_or_create_target ty sha db =
     (case find (\<lambda>t. tg_type t = ty \<and> tg_sha256 t = sha) (st_targets db) of
        Some t \<Rightarrow> (t, db)
      | None \<Rightarrow>
          (let t = \<lparr>tg_pk = fresh_pk (map tg_pk (st_targets db)), tg_type = ty, tg_sha256 = sha\<rparr>
           in (t, db\<lparr>st_targets := st_targets db @ [t]\<rparr>)))"

text \<open>A text value and a count as the database stores them; a negative count violates its check.\<close>

definition text_value :: "pyval \<Rightarrow> pyerror + string" where
  "text_value v = (case v of PNone \<Rightarrow> Inr [] | PStr s \<Rightarrow> Inr s | PInt i \<Rightarrow> Inr (int_str i) | _ \<Rightarrow> Inl TypeError)"

definition count_value :: "pyval \<Rightarrow> pyerror + nat" where
  "count_value v = (case v of PNone \<Rightarrow> Inr 0 | PInt i \<Rightarrow> if i < 0 then Inl IntegrityError else Inr (nat i)
     | _ \<Rightarrow> Inl TypeError)"

definition get_or_create_bundle :: "santa_target \<Rightarrow> dict \<Rightarrow> santa_tables \<Rightarrow> pyerror + santa_tables" where
  "get_or_create_bundle t d db =
     (if list_ex (\<lambda>b. bd_target b = tg_pk t) (st_bundles db) then Inr db
      else
        bind_result (text_value (get_default d ''file_bundle_path'')) (\<lambda>path.
        bind_result (text_value (get_default d ''file_bundle_executable_rel_path'')) (\<lambda>rel_path.
        bind_result (text_value (get_default d ''file_bundle_id'')) (\<lambda>bundle_id.
        bind_result (text_value (get_default d ''file_bundle_name'')) (\<lambda>name.
        bind_result (text_value (get_default d ''file_bundle_version'')) (\<lambda>version.
        bind_result (text_value (get_default d ''file_bundle_version_string'')) (\<lambda>version_str.
        bind_result (count_value (get_default d ''file_bundle_binary_count'')) (\<lambda>count.
          Inr (db\<lparr>st_bundles := st_bundles db @
            [\<lparr>bd_pk = fresh_pk (map bd_pk (st_bundles db)), bd_target = tg_pk t, bd_path = path,
              bd_executable_rel_path = rel_path, bd_bundle_id = bundle_id, bd_name = name,
              bd_version = version, bd_version_str = version_str, bd_binary_count = count,
              bd_binary_targets = [], bd_uploaded_at = None\<rparr>]\<rparr>)))))))))"

text \<open>The events by bundle hash: a later event takes the place of an earlier one.\<close>

fun bundle_events :: "dict list \<Rightarrow> (string \<times> dict) list \<Rightarrow> (string \<times> dict) list" where
  "bundle_events [] acc = acc"
| "bundle_events (d # ds) acc =
     bundle_events ds
       (if is_bundle_binary_pseudo_event d then acc
        else case get_default d ''file_bundle_hash'' of
          PStr sha \<Rightarrow> if sha \<noteq> [] then dict_set sha d acc else acc
        | _ \<Rightarrow> acc)"

definition bundle_uploaded :: "string \<Rightarrow> santa_tables \<Rightarrow> bool" where
  "bundle_uploaded sha db \<longleftrightarrow>
     list_ex (\<lambda>b. bd_uploaded_at b \<noteq> None \<and>
       list_ex (\<lambda>t. tg_pk t = bd_target b \<and> tg_type t = BUNDLE \<and> tg_sha256 t = sha) (st_targets db))
     (st_bundles db)"

fun create_bundles :: "(string \<times> dict) list \<Rightarrow> santa_tables \<Rightarrow> pyerror + santa_tables" where
  "create_bundles [] db = Inr db"
| "create_bundles ((sha, d) # bs) db =
     (let (t, db1) = get_or_create_target BUNDLE sha db
      in bind_result (get_or_create_bundle t d db1) (create_bundles bs))"

text \<open>The hashes are returned in the order of the events; \<open>None\<close> without a bundle event.\<close>

definition create_missing_bundles :: "dict list \<Rightarrow> santa_tables \<Rightarrow> pyerror + string list option \<times> santa_tables" where
  "create_missing_bundles events db =
     (let bs = bundle_events events [] in
      if bs = [] then Inr (None, db)
      else
        (let unknown = filter (\<lambda>(sha, d). \<not> bundle_uploaded sha db) bs in
         bind_result (create_bundles unknown db) (\<lambda>db'. Inr (Some (map fst unknown), db'))))"

subsection \<open>The binaries of a bundle\<close>

definition bundle_binary_events :: "dict list \<Rightarrow> (string \<times> dict list) list" where
  "bundle_binary_events events =
     fold (\<lambda>d acc. if \<not> is_bundle_binary_pseudo_event d then acc
        else case get_default d ''file_bundle_hash'' of
          PStr sha \<Rightarrow> if sha \<noteq> [] then group_append sha d acc else acc
        | _ \<Rightarrow> acc) events []"

definition find_bundle :: "string \<Rightarrow> santa_tables \<Rightarrow> pyerror + santa_bundle" where
  "find_bundle sha db =
     get_one (\<lambda>b. list_ex (\<lambda>t. tg_pk t = bd_target b \<and> tg_type t = BUNDLE \<and> tg_sha256 t = sha) (st_targets db))
       (st_bundles db)"

text \<open>
  The loop over the events of a bundle: the count of the first event that has one, when the
  bundle has none, and the targets of the binaries. A binary without a hash violates the
  constraint of the target.
\<close>

fun binary_targets_loop :: "dict list \<Rightarrow> nat \<Rightarrow> nat list \<Rightarrow> santa_tables \<Rightarrow> pyerror + (nat \<times> nat list) \<times> santa_tables" where
  "binary_targets_loop [] count targets db = Inr ((count, targets), db)"
| "binary_targets_loop (d # ds) count targets db =
     bind_result
       (if count = 0 \<and> truthy (get_default d ''file_bundle_binary_count'')
        then count_value (get_default d ''file_bundle_binary_count'') else Inr count) (\<lambda>count'.
     case get_default d ''file_sha256'' of
       PStr sha \<Rightarrow>
         (let (t, db') = get_or_create_target BINARY sha db
          in binary_targets_loop ds count' (targets @ [tg_pk t]) db')
     | _ \<Rightarrow> Inl IntegrityError)"

text \<open>\<open>binary_targets.add\<close> and the count of the bundle, then the check that it is complete.\<close>

definition finish_bundle :: "int \<Rightarrow> santa_bundle \<Rightarrow> nat \<Rightarrow> nat list \<Rightarrow> santa_bundle" where
  "finish_bundle now b count targets =
     (let b1 = b\<lparr>bd_binary_targets := bd_binary_targets b @ remdups (filter (\<lambda>t. t \<notin> set (bd_binary_targets b)) targets)\<rparr>;
          b2 = (if bd_binary_count b1 = 0 \<and> count \<noteq> 0 then b1\<lparr>bd_binary_count := count\<rparr> else b1)
      in if bd_binary_count b2 \<noteq> 0 \<and> length (bd_binary_targets b2) = bd_binary_count b2
         then b2\<lparr>bd_uploaded_at := Some now\<rparr> else b2)"

definition save_bundle :: "santa_bundle \<Rightarrow> santa_tables \<Rightarrow> santa_tables" where
  "save_bundle b db = db\<lparr>st_bundles := update_where (\<lambda>x. bd_pk x = bd_pk b) (\<lambda>_. b) (st_bundles db)\<rparr>"

fun create_bundle_binaries_of :: "int \<Rightarrow> (string \<times> dict list) list \<Rightarrow> santa_tables \<Rightarrow> pyerror + santa_tables" where
  "create_bundle_binaries_of now [] db = Inr db"
| "create_bundle_binaries_of now ((sha, events) # r) db =
     (case find_bundle sha db of
        Inl DoesNotExist \<Rightarrow> create_bundle_binaries_of now r db
      | Inl e \<Rightarrow> Inl e
      | Inr b \<Rightarrow>
          if bd_uploaded_at b \<noteq> None then create_bundle_binaries_of now r db
          else bind_result (binary_targets_loop events (bd_binary_count b) [] db) (\<lambda>((count, targets), db').
                 create_bundle_binaries_of now r (save_bundle (finish_bundle now b count targets) db')))"

definition create_bundle_binaries :: "int \<Rightarrow> dict list \<Rightarrow> santa_tables \<Rightarrow> pyerror + santa_tables" where
  "create_bundle_binaries now events db = create_bundle_binaries_of now (bundle_binary_events events) db"

subsection \<open>The upload\<close>

definition get_created_at :: "dict \<Rightarrow> int option" where
  "get_created_at d =
     (case dict_get d ''execution_time'' of
        Some (PInt t) \<Rightarrow> Some t
      | Some (PBool b) \<Rightarrow> Some (if b then 1 else 0)
      | _ \<Rightarrow> None)"

definition post_santa_events ::
  "string \<Rightarrow> int \<Rightarrow> string \<Rightarrow> string option \<Rightarrow> string option \<Rightarrow> dict list \<Rightarrow> event list" where
  "post_santa_events new_uuid now serial_number ua ip_addr events =
     build_from_machine_request_payloads SantaEventEvent new_uuid now (Some serial_number) ua ip_addr
       (filter (\<lambda>d. \<not> is_bundle_binary_pseudo_event d) events) (Some get_created_at) None"

definition upload_events :: "dict option \<Rightarrow> pyerror + dict list" where
  "upload_events data =
     (case data of
        None \<Rightarrow> Inl AttributeError
      | Some d \<Rightarrow>
          (let events = dict_get_default d ''events'' (PList []) in
           if \<not> truthy events then Inr []
           else bind_result (as_list events) (map_result as_dict)))"

record santa_upload =
  su_tables :: santa_tables
  su_unknown :: "string list option"
  su_files :: "dict list"
  su_events :: "event list"

definition process_events ::
  "string \<Rightarrow> int \<Rightarrow> string \<Rightarrow> string option \<Rightarrow> string option \<Rightarrow> dict option \<Rightarrow> santa_tables \<Rightarrow> pyerror + santa_upload" where
  "process_events new_uuid now serial_number ua ip_addr data db =
     bind_result (upload_events data) (\<lambda>events.
       if events = [] then Inr \<lparr>su_tables = db, su_unknown = Some [], su_files = [], su_events = []\<rparr>
       else
         bind_result (create_missing_bundles events db) (\<lambda>(unknown, db1).
         bind_result (create_bundle_binaries now events db1) (\<lambda>db2.
           Inr \<lparr>su_tables = db2, su_unknown = unknown, su_files = commit_files events,
                su_events = post_santa_events new_uuid now serial_number ua ip_addr events\<rparr>)))"

subsection \<open>Bundles are complete or not uploaded\<close>

definition bundle_ok :: "santa_bundle \<Rightarrow> bool" where
  "bundle_ok b \<longleftrightarrow> distinct (bd_binary_targets b) \<and>
     (bd_uploaded_at b \<noteq> None \<longrightarrow> bd_binary_count b \<noteq> 0 \<and> length (bd_binary_targets b) = bd_binary_count b)"

definition bundles_inv :: "santa_tables \<Rightarrow> bool" where
  "bundles_inv db \<longleftrightarrow> distinct (map bd_pk (st_bundles db)) \<and> list_all bundle_ok (st_bundles db)"

definition uploaded_kept :: "santa_tables \<Rightarrow> santa_tables \<Rightarrow> bool" where
  "uploaded_kept db db' \<longleftrightarrow> (\<forall>b \<in> set (st_bundles db). bd_uploaded_at b \<noteq> None \<longrightarrow> b \<in> set (st_bundles db'))"

lemma uploaded_kept_refl: "uploaded_kept db db"
  by (simp add: uploaded_kept_def)

lemma uploaded_kept_trans: "uploaded_kept a b \<Longrightarrow> uploaded_kept b c \<Longrightarrow> uploaded_kept a c"
  by (auto simp: uploaded_kept_def)

lemma get_or_create_target_bundles:
  "get_or_create_target ty sha db = (t, db') \<Longrightarrow> st_bundles db' = st_bundles db"
  by (auto simp: get_or_create_target_def Let_def split: option.splits)

lemma get_or_create_bundle_inv:
  assumes "bundles_inv db" "get_or_create_bundle t d db = Inr db'"
  shows "bundles_inv db' \<and> uploaded_kept db db'"
proof (cases "list_ex (\<lambda>b. bd_target b = tg_pk t) (st_bundles db)")
  case True
  then show ?thesis using assms by (simp add: get_or_create_bundle_def uploaded_kept_refl)
next
  case False
  then obtain b where b: "st_bundles db' = st_bundles db @ [b]" "bd_pk b = fresh_pk (map bd_pk (st_bundles db))"
      "bd_binary_targets b = []" "bd_uploaded_at b = None"
    using assms(2) by (auto simp: get_or_create_bundle_def bind_result_Inr)
  have "bd_pk b \<notin> set (map bd_pk (st_bundles db))" unfolding b(2) by (rule fresh_pk_new)
  then show ?thesis using assms(1) b by (auto simp: bundles_inv_def uploaded_kept_def bundle_ok_def)
qed

lemma create_bundles_inv:
  "bundles_inv db \<Longrightarrow> create_bundles bs db = Inr db' \<Longrightarrow> bundles_inv db' \<and> uploaded_kept db db'"
proof (induction bs arbitrary: db)
  case (Cons x bs)
  obtain sha d where x: "x = (sha, d)" by fastforce
  obtain t db1 where t: "get_or_create_target BUNDLE sha db = (t, db1)" by fastforce
  obtain db2 where b: "get_or_create_bundle t d db1 = Inr db2" "create_bundles bs db2 = Inr db'"
    using Cons.prems(2) x t by (auto simp: bind_result_Inr)
  have same: "st_bundles db1 = st_bundles db" by (rule get_or_create_target_bundles [OF t])
  then have "bundles_inv db1" using Cons.prems(1) by (simp add: bundles_inv_def)
  from get_or_create_bundle_inv [OF this b(1)] have "bundles_inv db2" "uploaded_kept db db2"
    using same by (simp_all add: uploaded_kept_def)
  with Cons.IH [OF _ b(2)] show ?case using uploaded_kept_trans by blast
qed (simp add: uploaded_kept_refl)

lemma binary_targets_loop_bundles:
  "binary_targets_loop ds count ts db = Inr (x, db') \<Longrightarrow> st_bundles db' = st_bundles db"
proof (induction ds arbitrary: count ts db)
  case (Cons d ds)
  obtain sha where sha: "get_default d ''file_sha256'' = PStr sha"
    using Cons.prems by (cases "get_default d ''file_sha256''") (auto simp: bind_result_Inr)
  obtain t db1 where t: "get_or_create_target BINARY sha db = (t, db1)" by fastforce
  obtain count' where "binary_targets_loop ds count' (ts @ [tg_pk t]) db1 = Inr (x, db')"
    using Cons.prems sha t by (auto simp: bind_result_Inr)
  from Cons.IH [OF this] get_or_create_target_bundles [OF t] show ?case by simp
qed simp

lemma finish_bundle_ok:
  assumes "bundle_ok b" "bd_uploaded_at b = None"
  shows "bundle_ok (finish_bundle now b count targets)" "bd_pk (finish_bundle now b count targets) = bd_pk b"
  using assms by (auto simp: bundle_ok_def finish_bundle_def Let_def)

lemma save_bundle_inv:
  assumes "bundles_inv db" "b \<in> set (st_bundles db)" "bd_uploaded_at b = None" "bundle_ok b'" "bd_pk b' = bd_pk b"
  shows "bundles_inv (save_bundle b' db) \<and> uploaded_kept db (save_bundle b' db)"
proof -
  have d: "distinct (map bd_pk (st_bundles db))" using assms(1) by (simp add: bundles_inv_def)
  have s: "set (st_bundles (save_bundle b' db)) = insert b' {x \<in> set (st_bundles db). bd_pk x \<noteq> bd_pk b'}"
    using set_update_pk [OF assms(2), of bd_pk b'] assms(5) by (simp add: save_bundle_def)
  have "distinct (map bd_pk (st_bundles (save_bundle b' db)))"
    using d by (simp add: save_bundle_def map_update_pk)
  moreover have "list_all bundle_ok (st_bundles (save_bundle b' db))"
    using assms(1,4) unfolding list_all_iff s by (auto simp: bundles_inv_def list_all_iff)
  moreover have "bd_pk x \<noteq> bd_pk b'" if "x \<in> set (st_bundles db)" "bd_uploaded_at x \<noteq> None" for x
    using distinct_map_eqD [OF d that(1) assms(2)] that(2) assms(3,5) by auto
  then have "uploaded_kept db (save_bundle b' db)" unfolding uploaded_kept_def s by blast
  ultimately show ?thesis by (simp add: bundles_inv_def)
qed

lemma create_bundle_binaries_inv:
  "bundles_inv db \<Longrightarrow> create_bundle_binaries_of now gs db = Inr db' \<Longrightarrow> bundles_inv db' \<and> uploaded_kept db db'"
proof (induction gs arbitrary: db)
  case (Cons x gs)
  obtain sha ds where x: "x = (sha, ds)" by fastforce
  show ?case
  proof (cases "find_bundle sha db")
    case (Inl e)
    then have "create_bundle_binaries_of now gs db = Inr db'"
      using Cons.prems(2) x by (cases e) simp_all
    then show ?thesis using Cons by blast
  next
    case (Inr b)
    then have b: "b \<in> set (st_bundles db)" using get_one_Inr by (fastforce simp: find_bundle_def)
    show ?thesis
    proof (cases "bd_uploaded_at b")
      case None
      obtain count targets db1 where l: "binary_targets_loop ds (bd_binary_count b) [] db = Inr ((count, targets), db1)"
          "create_bundle_binaries_of now gs (save_bundle (finish_bundle now b count targets) db1) = Inr db'"
        using Cons.prems(2) x Inr None by (auto simp: bind_result_Inr)
      have same: "st_bundles db1 = st_bundles db" by (rule binary_targets_loop_bundles [OF l(1)])
      have inv1: "bundles_inv db1" using Cons.prems(1) same by (simp add: bundles_inv_def)
      have "bundle_ok b" using Cons.prems(1) b by (simp add: bundles_inv_def list_all_iff)
      note fin = finish_bundle_ok [OF this None, of now count targets]
      have "b \<in> set (st_bundles db1)" using b same by simp
      from save_bundle_inv [OF inv1 this None fin]
      have "bundles_inv (save_bundle (finish_bundle now b count targets) db1)"
        "uploaded_kept db (save_bundle (finish_bundle now b count targets) db1)"
        using same by (simp_all add: uploaded_kept_def)
      with Cons.IH [OF _ l(2)] show ?thesis using uploaded_kept_trans by blast
    next
      case (Some u)
      then show ?thesis using Cons x Inr by simp
    qed
  qed
qed (simp add: uploaded_kept_refl)


definition empty_santa_tables :: santa_tables where
  "empty_santa_tables = \<lparr>st_targets = [], st_bundles = [], st_rules = [], st_machine_rules = []\<rparr>"

definition sample_upload :: dict where
  "sample_upload =
     [(''events'', PList
        [PDict [(''decision'', PStr ''ALLOW_UNKNOWN''), (''file_bundle_hash'', PStr ''dd''),
                (''file_bundle_binary_count'', PInt 1), (''execution_time'', PInt 7)],
         PDict [(''decision'', PStr ''BUNDLE_BINARY''), (''file_bundle_hash'', PStr ''dd''),
                (''file_sha256'', PStr ''aa'')]])]"

definition uploaded :: "pyerror + santa_upload" where
  "uploaded = process_events ''U1'' 10 ''SN1'' None None (Some sample_upload) empty_santa_tables"

lemma uploaded_runs:
  "isl uploaded = False"
  "map (\<lambda>b. (bd_binary_count b, bd_uploaded_at b)) (st_bundles (su_tables (projr uploaded))) = [(1, Some 10)]"
  "su_unknown (projr uploaded) = Some [''dd'']"
  by code_simp+


subsection \<open>The bundles asked for\<close>

lemma bundle_events_keys:
  "fst ` set (bundle_events ds acc) = fst ` set acc \<union>
     {sha. \<exists>d \<in> set ds. \<not> is_bundle_binary_pseudo_event d \<and> get_default d ''file_bundle_hash'' = PStr sha \<and> sha \<noteq> []}"
proof (induction ds arbitrary: acc)
  case (Cons d ds)
  show ?case
    unfolding bundle_events.simps Cons.IH
    by (cases "get_default d ''file_bundle_hash''") (auto simp: dom_update)
qed simp

lemma bundle_events_distinct:
  "distinct (map fst acc) \<Longrightarrow> distinct (map fst (bundle_events ds acc))"
proof (induction ds arbitrary: acc)
  case (Cons d ds)
  show ?case unfolding bundle_events.simps
    by (rule Cons.IH) (use Cons.prems in \<open>auto simp: distinct_update split: pyval.splits\<close>)
qed simp

definition has_bundle :: "string \<Rightarrow> santa_tables \<Rightarrow> bool" where
  "has_bundle sha db \<longleftrightarrow> (\<exists>t \<in> set (st_targets db). tg_type t = BUNDLE \<and> tg_sha256 t = sha \<and>
     tg_pk t \<in> bd_target ` set (st_bundles db))"

definition tables_grow :: "santa_tables \<Rightarrow> santa_tables \<Rightarrow> bool" where
  "tables_grow db db' \<longleftrightarrow> set (st_targets db) \<subseteq> set (st_targets db') \<and>
     bd_target ` set (st_bundles db) \<subseteq> bd_target ` set (st_bundles db')"

lemma tables_grow_refl: "tables_grow db db"
  by (simp add: tables_grow_def)

lemma tables_grow_trans: "tables_grow a b \<Longrightarrow> tables_grow b c \<Longrightarrow> tables_grow a c"
  unfolding tables_grow_def by blast

lemma has_bundle_grow: "has_bundle sha db \<Longrightarrow> tables_grow db db' \<Longrightarrow> has_bundle sha db'"
  unfolding has_bundle_def tables_grow_def by blast

lemma get_or_create_target_spec:
  assumes "get_or_create_target ty sha db = (t, db')"
  shows "tables_grow db db'" "t \<in> set (st_targets db')" "tg_type t = ty" "tg_sha256 t = sha"
  using assms by (auto simp: get_or_create_target_def Let_def tables_grow_def find_Some_iff split: option.splits)

lemma get_or_create_bundle_spec:
  assumes "get_or_create_bundle t d db = Inr db'"
  shows "tables_grow db db'" "tg_pk t \<in> bd_target ` set (st_bundles db')"
proof -
  have "tables_grow db db' \<and> tg_pk t \<in> bd_target ` set (st_bundles db')"
  proof (cases "list_ex (\<lambda>b. bd_target b = tg_pk t) (st_bundles db)")
    case True
    then have "tg_pk t \<in> bd_target ` set (st_bundles db)" unfolding list_ex_iff by force
    then show ?thesis using assms True by (simp add: get_or_create_bundle_def tables_grow_refl)
  next
    case False
    then show ?thesis using assms by (auto simp: get_or_create_bundle_def bind_result_Inr tables_grow_def)
  qed
  then show "tables_grow db db'" "tg_pk t \<in> bd_target ` set (st_bundles db')" by blast+
qed

lemma create_bundles_spec:
  "create_bundles bs db = Inr db' \<Longrightarrow> tables_grow db db' \<and> (\<forall>sha \<in> fst ` set bs. has_bundle sha db')"
proof (induction bs arbitrary: db)
  case (Cons x bs)
  obtain sha d where x: "x = (sha, d)" by fastforce
  obtain t db1 where t: "get_or_create_target BUNDLE sha db = (t, db1)" by fastforce
  obtain db2 where b: "get_or_create_bundle t d db1 = Inr db2" "create_bundles bs db2 = Inr db'"
    using Cons.prems x t by (auto simp: bind_result_Inr)
  note ts = get_or_create_target_spec [OF t] and bs = get_or_create_bundle_spec [OF b(1)]
  have "t \<in> set (st_targets db2)" using ts(2) bs(1) by (auto simp: tables_grow_def)
  then have hb: "has_bundle sha db2" using ts(3,4) bs(2) unfolding has_bundle_def by blast
  have IH: "tables_grow db2 db'" "\<forall>sha \<in> fst ` set bs. has_bundle sha db'"
    using Cons.IH [OF b(2)] by simp_all
  have "has_bundle sha db'" by (rule has_bundle_grow [OF hb IH(1)])
  moreover have "tables_grow db db'"
    by (rule tables_grow_trans [OF tables_grow_trans [OF ts(1) bs(1)] IH(1)])
  moreover have "fst ` set (x # bs) = insert sha (fst ` set bs)" by (simp add: x)
  ultimately show ?case using IH(2) by simp
qed (simp add: tables_grow_refl)

lemma binary_targets_loop_grow:
  "binary_targets_loop ds count ts db = Inr (x, db') \<Longrightarrow> tables_grow db db'"
proof (induction ds arbitrary: count ts db)
  case (Cons d ds)
  obtain sha where sha: "get_default d ''file_sha256'' = PStr sha"
    using Cons.prems by (cases "get_default d ''file_sha256''") (auto simp: bind_result_Inr)
  obtain t db1 where t: "get_or_create_target BINARY sha db = (t, db1)" by fastforce
  obtain count' where "binary_targets_loop ds count' (ts @ [tg_pk t]) db1 = Inr (x, db')"
    using Cons.prems sha t by (auto simp: bind_result_Inr)
  from Cons.IH [OF this] get_or_create_target_spec(1) [OF t] show ?case by (rule tables_grow_trans [rotated])
qed (simp add: tables_grow_refl)

lemma save_finished_grow:
  assumes "distinct (map bd_pk (st_bundles db))" "b \<in> set (st_bundles db)"
  shows "tables_grow db (save_bundle (finish_bundle now b count targets) db)"
proof -
  let ?b = "finish_bundle now b count targets"
  have f: "bd_pk ?b = bd_pk b" "bd_target ?b = bd_target b" by (simp_all add: finish_bundle_def Let_def)
  have "bd_target (if bd_pk x = bd_pk ?b then ?b else x) = bd_target x" if "x \<in> set (st_bundles db)" for x
    using distinct_map_eqD [OF assms(1) that assms(2)] f by auto
  then have "map bd_target (st_bundles (save_bundle ?b db)) = map bd_target (st_bundles db)"
    by (auto simp: save_bundle_def update_where_def)
  then have "bd_target ` set (st_bundles (save_bundle ?b db)) = bd_target ` set (st_bundles db)"
    unfolding set_map [symmetric] by (rule arg_cong)
  then show ?thesis by (simp add: tables_grow_def) (simp add: save_bundle_def)
qed

lemma create_bundle_binaries_grow:
  "bundles_inv db \<Longrightarrow> create_bundle_binaries_of now gs db = Inr db' \<Longrightarrow> tables_grow db db'"
proof (induction gs arbitrary: db)
  case (Cons x gs)
  obtain sha ds where x: "x = (sha, ds)" by fastforce
  show ?case
  proof (cases "find_bundle sha db")
    case (Inl e)
    then have "create_bundle_binaries_of now gs db = Inr db'"
      using Cons.prems(2) x by (cases e) simp_all
    then show ?thesis using Cons by blast
  next
    case (Inr b)
    then have b: "b \<in> set (st_bundles db)" using get_one_Inr by (fastforce simp: find_bundle_def)
    show ?thesis
    proof (cases "bd_uploaded_at b")
      case None
      obtain count targets db1 where l: "binary_targets_loop ds (bd_binary_count b) [] db = Inr ((count, targets), db1)"
          "create_bundle_binaries_of now gs (save_bundle (finish_bundle now b count targets) db1) = Inr db'"
        using Cons.prems(2) x Inr None by (auto simp: bind_result_Inr)
      have same: "st_bundles db1 = st_bundles db" by (rule binary_targets_loop_bundles [OF l(1)])
      have inv1: "bundles_inv db1" using Cons.prems(1) same by (simp add: bundles_inv_def)
      have ok: "bundle_ok b" using Cons.prems(1) b by (simp add: bundles_inv_def list_all_iff)
      have b1: "b \<in> set (st_bundles db1)" using b same by simp
      have "bundles_inv (save_bundle (finish_bundle now b count targets) db1)"
        using save_bundle_inv [OF inv1 b1 None finish_bundle_ok [OF ok None]] by blast
      from Cons.IH [OF this l(2)] binary_targets_loop_grow [OF l(1)]
        save_finished_grow [OF _ b1, of now count targets] inv1
      show ?thesis using tables_grow_trans unfolding bundles_inv_def by blast
    next
      case (Some u)
      then show ?thesis using Cons x Inr by simp
    qed
  qed
qed (simp add: tables_grow_refl)

text \<open>
  Santa is asked for the binaries of the bundles the server does not have, and of no others.
  After an upload with events, the hashes sent back are, without repetition, those of the bundles
  named by an event that is not itself the upload of a binary, except the bundles all of whose
  binaries were already there; and each of them now has a row, so that its binaries will be
  accepted.
\<close>

theorem unknown_bundles_requested:
  assumes "bundles_inv db" and "upload_events data = Inr events" and "events \<noteq> []"
    and "process_events new_uuid now serial_number ua ip_addr data db = Inr u"
    and "requested = (case su_unknown u of None \<Rightarrow> [] | Some l \<Rightarrow> l)"
  shows "distinct requested \<and>
    (\<forall>sha. sha \<in> set requested \<longleftrightarrow>
       (\<exists>d \<in> set events. \<not> is_bundle_binary_pseudo_event d \<and>
          get_default d ''file_bundle_hash'' = PStr sha \<and> sha \<noteq> []) \<and> \<not> bundle_uploaded sha db) \<and>
    (\<forall>sha \<in> set requested. has_bundle sha (su_tables u))"
proof -
  let ?bs = "bundle_events events []"
  let ?unknown = "filter (\<lambda>(sha, d). \<not> bundle_uploaded sha db) ?bs"
  obtain db1 where m: "create_missing_bundles events db = Inr (su_unknown u, db1)"
      "create_bundle_binaries now events db1 = Inr (su_tables u)"
    using assms(2-4) by (auto simp: process_events_def bind_result_Inr)
  have "requested = map fst ?unknown \<and> create_bundles ?unknown db = Inr db1"
  proof (cases "?bs = []")
    case True
    then show ?thesis using m(1) assms(5) by (simp add: create_missing_bundles_def)
  next
    case False
    then have "su_unknown u = Some (map fst ?unknown)" "create_bundles ?unknown db = Inr db1"
      using m(1) by (auto simp: create_missing_bundles_def Let_def bind_result_Inr)
    then show ?thesis using assms(5) by simp
  qed
  then have r: "requested = map fst ?unknown" and c: "create_bundles ?unknown db = Inr db1" by blast+
  have "distinct (map fst ?bs)" by (rule bundle_events_distinct) simp
  then have "distinct requested" unfolding r by (rule distinct_map_filter)
  moreover have "set requested = {sha \<in> fst ` set ?bs. \<not> bundle_uploaded sha db}"
    unfolding r by (auto simp: image_iff)
  moreover have "has_bundle sha (su_tables u)" if "sha \<in> set requested" for sha
  proof -
    have "has_bundle sha db1" using create_bundles_spec [OF c] that r by auto
    moreover have "bundles_inv db1" using create_bundles_inv [OF assms(1) c] by blast
    then have "tables_grow db1 (su_tables u)"
      using create_bundle_binaries_grow m(2) unfolding create_bundle_binaries_def by blast
    ultimately show ?thesis by (rule has_bundle_grow)
  qed
  ultimately show ?thesis unfolding bundle_events_keys by auto
qed

theorem unknown_bundles_requested_witness:
  "\<exists>u. uploaded = Inr u \<and> su_unknown u = Some [''dd''] \<and> has_bundle ''dd'' (su_tables u)"
proof -
  obtain u where u: "uploaded = Inr u" using uploaded_runs(1) by (metis sum.collapse(2))
  then have "projr uploaded = u" by (metis sum.sel(2))
  then have r: "su_unknown u = Some [''dd'']" using uploaded_runs(3) by simp
  have inv: "bundles_inv empty_santa_tables" by (simp add: bundles_inv_def empty_santa_tables_def)
  have ev: "\<exists>events. upload_events (Some sample_upload) = Inr events \<and> events \<noteq> []"
    by (simp add: upload_events_def sample_upload_def dict_get_default_def)
  then obtain events where "upload_events (Some sample_upload) = Inr events" "events \<noteq> []" by blast
  from unknown_bundles_requested [OF inv this u [unfolded uploaded_def], of "[''dd'']"] r
  have "has_bundle ''dd'' (su_tables u)" by simp
  with u r show ?thesis by blast
qed

end
