(* ===== verification/InventoryConf.thy ===== *)
theory InventoryConf imports Prelude begin

text \<open>
  \<open>zentral/contrib/inventory/conf.py\<close>: the platform and the type of a machine, guessed from the
  tree of its snapshot, and the macOS version of a build number. Platforms and types are the
  strings the database stores.
\<close>

subsection \<open>Platforms\<close>

datatype ms_platform = LINUX | MACOS | WINDOWS | ANDROID | IOS | IPADOS | TVOS

fun ms_platform_str :: "ms_platform \<Rightarrow> string" where
  "ms_platform_str LINUX = ''LINUX''"
| "ms_platform_str MACOS = ''MACOS''"
| "ms_platform_str WINDOWS = ''WINDOWS''"
| "ms_platform_str ANDROID = ''ANDROID''"
| "ms_platform_str IOS = ''IOS''"
| "ms_platform_str IPADOS = ''IPADOS''"
| "ms_platform_str TVOS = ''TVOS''"

datatype ms_type = DESKTOP | LAPTOP | MOBILE | SERVER | TABLET | TV | VM

fun ms_type_str :: "ms_type \<Rightarrow> string" where
  "ms_type_str DESKTOP = ''DESKTOP''"
| "ms_type_str LAPTOP = ''LAPTOP''"
| "ms_type_str MOBILE = ''MOBILE''"
| "ms_type_str SERVER = ''SERVER''"
| "ms_type_str TABLET = ''TABLET''"
| "ms_type_str TV = ''TV''"
| "ms_type_str VM = ''VM''"

definition PLATFORM_CHOICES :: "(ms_platform \<times> string) list" where
  "PLATFORM_CHOICES =
     [(LINUX, ''Linux''), (MACOS, ''macOS''), (WINDOWS, ''Windows''), (ANDROID, ''Android''),
      (IOS, ''iOS''), (IPADOS, ''iPadOS''), (TVOS, ''tvOS'')]"

definition TYPE_CHOICES :: "(ms_type \<times> string) list" where
  "TYPE_CHOICES =
     [(DESKTOP, ''Desktop''), (LAPTOP, ''Laptop''), (MOBILE, ''Mobile''), (SERVER, ''Server''),
      (TABLET, ''Tablet''), (TV, ''TV''), (VM, ''Virtual machine'')]"

definition HARDWARE_MODEL_SERIAL_MACHINE_TYPE_DICT :: "(string \<times> ms_type) list" where
  "HARDWARE_MODEL_SERIAL_MACHINE_TYPE_DICT =
     [(''appletv'', TV), (''imac'', DESKTOP), (''ipad'', TABLET), (''iphone'', MOBILE), (''macbook'', LAPTOP),
      (''macmini'', DESKTOP), (''macpro'', DESKTOP), (''powermac'', DESKTOP), (''vmware'', VM), (''xserve'', SERVER)]"

definition KNOWN_VM_MAC_PREFIXES :: "string list" where
  "KNOWN_VM_MAC_PREFIXES =
     [''0003FF'', ''005056'', ''000C29'', ''000569'', ''00163E'', ''001C42'', ''080027'']"

definition platform_with_os_name :: "string \<Rightarrow> ms_platform option" where
  "platform_with_os_name os_name =
     (if os_name = [] then None
      else
        (let n = replace_all '' '' [] (lower os_name) in
         if sublist ''macos'' n \<or> sublist ''osx'' n then Some MACOS
         else if sublist ''ios'' n then Some IOS
         else if sublist ''ipados'' n then Some IPADOS
         else if sublist ''tvos'' n then Some TVOS
         else if sublist ''windows'' n then Some WINDOWS
         else if list_ex (\<lambda>distro. sublist distro n)
                [''centos'', ''fedora'', ''redhat'', ''rehl'', ''debian'', ''ubuntu'', ''gentoo'', ''linux'']
         then Some LINUX else None))"

text \<open>The parts of a tree: a missing one is empty, one that is not a dictionary has no \<open>get\<close>.\<close>

definition tree_part :: "dict \<Rightarrow> string \<Rightarrow> pyerror + dict" where
  "tree_part tree k =
     (case dict_get tree k of None \<Rightarrow> Inr [] | Some (PDict d) \<Rightarrow> Inr d | Some _ \<Rightarrow> Inl AttributeError)"

definition text_attr :: "dict \<Rightarrow> string \<Rightarrow> pyerror + string" where
  "text_attr d k =
     (case dict_get d k of
        None \<Rightarrow> Inr []
      | Some (PStr s) \<Rightarrow> Inr s
      | Some v \<Rightarrow> if truthy v then Inl AttributeError else Inr [])"

definition ms_tree_platform :: "dict \<Rightarrow> pyerror + ms_platform option" where
  "ms_tree_platform tree =
     bind_result (tree_part tree ''os_version'') (\<lambda>os_version_t.
     bind_result (text_attr os_version_t ''name'') (\<lambda>os_name.
       Inr (platform_with_os_name os_name)))"

definition update_ms_tree_platform :: "dict \<Rightarrow> pyerror + dict" where
  "update_ms_tree_platform tree =
     bind_result (ms_tree_platform tree) (\<lambda>p.
       case p of None \<Rightarrow> Inr tree | Some p \<Rightarrow> Inr (dict_set ''platform'' (PStr (ms_platform_str p)) tree))"

subsection \<open>Types\<close>

definition hardware_type :: "string \<Rightarrow> ms_type option" where
  "hardware_type val =
     map_option snd (find (\<lambda>(p, ty). prefix p (lower val)) HARDWARE_MODEL_SERIAL_MACHINE_TYPE_DICT)"

definition vm_interface :: "pyval \<Rightarrow> pyerror + bool" where
  "vm_interface ni =
     (case ni of
        PDict d \<Rightarrow>
          (case dict_get d ''mac'' of
             Some (PStr mac) \<Rightarrow> Inr (upper (take 6 (replace_all '':'' [] mac)) \<in> set KNOWN_VM_MAC_PREFIXES)
           | _ \<Rightarrow> Inr False)
      | _ \<Rightarrow> Inl AttributeError)"

text \<open>\<open>all(...)\<close> stops at the first interface that is not one of a virtual machine.\<close>

fun all_vm :: "pyval list \<Rightarrow> pyerror + bool" where
  "all_vm [] = Inr True"
| "all_vm (ni # r) = bind_result (vm_interface ni) (\<lambda>b. if b then all_vm r else Inr False)"

definition ms_tree_type :: "dict \<Rightarrow> pyerror + ms_type option" where
  "ms_tree_type tree =
     bind_result (tree_part tree ''system_info'') (\<lambda>info.
     bind_result (text_attr info ''hardware_model'') (\<lambda>model.
     case (if model = [] then None else hardware_type model) of
       Some ty \<Rightarrow> Inr (Some ty)
     | None \<Rightarrow>
         bind_result (text_attr info ''hardware_serial'') (\<lambda>serial.
         case (if serial = [] then None else hardware_type serial) of
           Some ty \<Rightarrow> Inr (Some ty)
         | None \<Rightarrow>
             bind_result
               (case dict_get tree ''network_interfaces'' of
                  None \<Rightarrow> Inr False
                | Some (PList nis) \<Rightarrow> if nis = [] then Inr False else all_vm nis
                | Some v \<Rightarrow> if truthy v then Inl TypeError else Inr False) (\<lambda>vm.
             if vm then Inr (Some VM)
             else bind_result (text_attr info ''cpu_brand'') (\<lambda>brand.
               Inr (if brand \<noteq> [] \<and> sublist ''xeon'' (lower brand) then Some SERVER else None))))))"

definition update_ms_tree_type :: "dict \<Rightarrow> pyerror + dict" where
  "update_ms_tree_type tree =
     bind_result (ms_tree_type tree) (\<lambda>ty.
       case ty of None \<Rightarrow> Inr tree | Some t \<Rightarrow> Inr (dict_set ''type'' (PStr (ms_type_str t)) tree))"

definition has_deb_packages :: "string option option \<Rightarrow> bool" where
  "has_deb_packages os_version_name =
     (case os_version_name of
        None \<Rightarrow> False
      | Some os_name \<Rightarrow> truthy_str os_name \<and>
          (sublist ''ubuntu'' (lower (the os_name)) \<or> sublist ''debian'' (lower (the os_name))))"

subsection \<open>Build numbers\<close>

text \<open>
  The match of \<open>MACOS_BUILD_RE\<close>, at the start of the string: one or two digits, a capital letter
  and a digit that is not zero; the rest of the expression can match nothing more. The first group
  is greedy, and the letter after it cannot be a digit, so it never gives one back.
\<close>

definition is_capital :: "char \<Rightarrow> bool" where
  "is_capital c \<longleftrightarrow> 65 \<le> (of_char c :: nat) \<and> (of_char c :: nat) \<le> 90"

definition nonzero_digit :: "char \<Rightarrow> bool" where
  "nonzero_digit c \<longleftrightarrow> 49 \<le> (of_char c :: nat) \<and> (of_char c :: nat) \<le> 57"

definition match_build :: "string \<Rightarrow> (nat \<times> char) option" where
  "match_build build =
     (let ds = takeWhile is_digit build; rest = dropWhile is_digit build in
      case rest of
        letter # d # _ \<Rightarrow>
          if (length ds = 1 \<or> length ds = 2) \<and> is_capital letter \<and> nonzero_digit d
          then Some (digits_value 0 ds, letter) else None
      | _ \<Rightarrow> None)"

definition build_version_numbers :: "string \<Rightarrow> int \<Rightarrow> int \<Rightarrow> int \<times> int \<times> int" where
  "build_version_numbers build minor patch =
     (if minor \<ge> 17 then (12, patch, 0)
      else if minor \<ge> 16 then
        (let m = max 0 (patch - 1) in
         if build \<in> set [''20B29'', ''20B50'', ''20D74'', ''20D75'', ''20E241'', ''20G80''] then (11, m, 1)
         else if build \<in> set [''20D80'', ''20G95''] then (11, m, 2)
         else if build = ''20D91'' then (11, m, 3)
         else if build = ''20G165'' then (11, 6, 0)
         else (11, m, 0))
      else (10, minor, patch))"

definition macos_version_from_build :: "string \<Rightarrow> pyerror + dict" where
  "macos_version_from_build build =
     (case match_build build of
        None \<Rightarrow> Inl ValueError
      | Some (n, letter) \<Rightarrow>
          (let patch = int (of_char letter) - 65; minor = int n - 4 in
           if minor < 8 then Inl ValueError
           else
             (case build_version_numbers build minor patch of
                (maj, min', patch') \<Rightarrow>
                  Inr [(''name'', PStr (if minor < 12 then ''OS X'' else ''macOS'')), (''major'', PInt maj),
                       (''minor'', PInt min'), (''patch'', PInt patch'), (''build'', PStr build)])))"

lemma match_build_capital:
  assumes "match_build b = Some (n, l)" shows "65 \<le> (of_char l :: nat)"
  using assms by (auto simp: match_build_def Let_def is_capital_def split: list.splits if_splits)

lemma match_build_20G165: "match_build ''20G165'' = Some (20, CHR ''G'')"
  by code_simp

text \<open>The major and the minor number, from the parts of the build.\<close>

definition build_numbers :: "nat \<Rightarrow> char \<Rightarrow> int \<Rightarrow> int \<Rightarrow> bool" where
  "build_numbers n l maj min' \<longleftrightarrow> 12 \<le> n \<and>
     (if n < 20 then maj = 10 \<and> min' = int n - 4
      else if n = 20 then maj = 11 \<and> (min' = max 0 (int (of_char l) - 66) \<or> of_char l = (71::nat) \<and> min' = 6)
      else maj = 12 \<and> min' = int (of_char l) - 65)"

lemma build_version_numbers_bounds:
  assumes m: "match_build b = Some (n, l)" and n: "12 \<le> n"
    and v: "build_version_numbers b (int n - 4) (int (of_char l) - 65) = (maj, min', patch)"
  shows "build_numbers n l maj min'"
proof -
  have G: "n = 20 \<and> of_char l = (71 :: nat)" if "b = ''20G165''"
  proof -
    have "Some (n, l) = Some (20, CHR ''G'')" using m match_build_20G165 unfolding that by (rule trans [OF sym])
    then show ?thesis by auto
  qed
  consider "n < 20" | "n = 20" "b = ''20G165''" | "n = 20" "b \<noteq> ''20G165''" | "21 \<le> n"
    by linarith
  then show ?thesis
  proof cases
    case 2
    then show ?thesis using v G by (simp add: build_version_numbers_def build_numbers_def)
  next
    case 3
    have "maj = 11 \<and> min' = max 0 (int (of_char l) - 66)"
      using v 3 unfolding build_version_numbers_def Let_def by (simp del: list.set split: if_splits)
    then show ?thesis using 3(1) by (simp add: build_numbers_def)
  qed (use v n in \<open>auto simp: build_version_numbers_def build_numbers_def\<close>)
qed

lemma build_version:
  assumes m: "match_build b = Some (n, l)" and v: "macos_version_from_build b = Inr d"
  shows "\<exists>maj min'. dict_get d ''major'' = Some (PInt maj) \<and> dict_get d ''minor'' = Some (PInt min') \<and>
    build_numbers n l maj min'"
proof -
  obtain maj min' patch where e: "build_version_numbers b (int n - 4) (int (of_char l) - 65) = (maj, min', patch)"
    using prod_cases3 by blast
  have n: "12 \<le> n"
    using v by (simp add: macos_version_from_build_def m Let_def split: if_splits)
  then have "d = [(''name'', PStr (if int n - 4 < 12 then ''OS X'' else ''macOS'')), (''major'', PInt maj), (''minor'', PInt min'),
      (''patch'', PInt patch), (''build'', PStr b)]"
    using v by (simp add: macos_version_from_build_def m Let_def e)
  then show ?thesis using build_version_numbers_bounds [OF m n e] by simp
qed

text \<open>
  Later builds are not taken for earlier systems. For two builds the code can read, up to
  those that start with 21, the one with the smaller number, or the same number and an earlier
  letter, never gets a later major and minor version than the other; and versions are from 10 to
  12 with a minor number that is not negative.
\<close>

theorem build_versions_ordered:
  assumes "match_build b = Some (n, l)" "match_build b' = Some (n', l')"
    and "macos_version_from_build b = Inr d" "macos_version_from_build b' = Inr d'"
    and "n < n' \<or> n = n' \<and> (of_char l :: nat) < of_char l'" "n' \<le> 21"
  shows "\<exists>maj min maj' min'.
    dict_get d ''major'' = Some (PInt maj) \<and> dict_get d ''minor'' = Some (PInt min) \<and>
    dict_get d' ''major'' = Some (PInt maj') \<and> dict_get d' ''minor'' = Some (PInt min') \<and>
    10 \<le> maj \<and> maj' \<le> 12 \<and> 0 \<le> min \<and> (maj < maj' \<or> maj = maj' \<and> min \<le> min')"
proof -
  obtain maj min where v: "dict_get d ''major'' = Some (PInt maj)" "dict_get d ''minor'' = Some (PInt min)"
    and m: "build_numbers n l maj min"
    using build_version [OF assms(1,3)] by blast
  obtain maj' min' where v': "dict_get d' ''major'' = Some (PInt maj')" "dict_get d' ''minor'' = Some (PInt min')"
    and m': "build_numbers n' l' maj' min'"
    using build_version [OF assms(2,4)] by blast
  have l: "65 \<le> (of_char l :: nat)" "65 \<le> (of_char l' :: nat)"
    using match_build_capital assms(1,2) by blast+
  consider "n < 20" "n' < 20" | "n < 20" "n' = 20" | "n < 20" "n' = 21" | "n = 20" "n' = 20" | "n = 20" "n' = 21"
    | "n = 21" "n' = 21"
    using assms(5,6) by linarith
  then have "10 \<le> maj \<and> maj' \<le> 12 \<and> 0 \<le> min \<and> (maj < maj' \<or> maj = maj' \<and> min \<le> min')"
    using m m' l assms(5) by cases (auto simp: build_numbers_def)
  then show ?thesis using v v' by blast
qed

theorem build_versions_ordered_witness:
  "macos_version_from_build ''19H15'' = Inr [(''name'', PStr ''macOS''), (''major'', PInt 10), (''minor'', PInt 15),
     (''patch'', PInt 7), (''build'', PStr ''19H15'')] \<and>
   (\<exists>maj' min'. dict_get (projr (macos_version_from_build ''20G165'')) ''major'' = Some (PInt maj') \<and>
      dict_get (projr (macos_version_from_build ''20G165'')) ''minor'' = Some (PInt min') \<and>
      (10 < maj' \<or> 10 = maj' \<and> 15 \<le> min'))"
proof -
  have b: "match_build ''19H15'' = Some (19, CHR ''H'')" "match_build ''20G165'' = Some (20, CHR ''G'')"
    "macos_version_from_build ''19H15'' = Inr [(''name'', PStr ''macOS''), (''major'', PInt 10), (''minor'', PInt 15),
       (''patch'', PInt 7), (''build'', PStr ''19H15'')]"
    "macos_version_from_build ''20G165'' = Inr [(''name'', PStr ''macOS''), (''major'', PInt 11), (''minor'', PInt 6),
       (''patch'', PInt 0), (''build'', PStr ''20G165'')]"
    by code_simp+
  from build_versions_ordered [OF b] b show ?thesis by simp
qed

end
