(* ===== verification/Certificates.thy ===== *)
theory Certificates imports Events begin

text \<open>
  \<open>zentral/utils/certificates.py\<close>: the chain of certificates a client presents and the two
  parsers of distinguished names, with the texts they read back. The decoding of an ASN.1 value
  is a parameter.
\<close>

subsection \<open>Certificate chains\<close>

text \<open>The loop of \<open>split_certificate_chain\<close>: the lines since the last certificate that began.\<close>

fun split_lines :: "string list \<Rightarrow> string list \<Rightarrow> string list" where
  "split_lines current [] = (if current = [] then [] else [join_with [CHR 0x0A] current])"
| "split_lines current (line # lines) =
     (if sublist ''--BEGIN'' line \<and> current \<noteq> []
      then join_with [CHR 0x0A] current # split_lines [line] lines
      else split_lines (current @ [line]) lines)"

definition split_certificate_chain :: "string \<Rightarrow> string list" where
  "split_certificate_chain chain = split_lines [] (splitlines chain)"

subsection \<open>Distinguished names\<close>

text \<open>The state of the loop of a parser; \<open>dn_emitted\<close> are the pairs stored so far, in order.\<close>

record dn_state =
  dn_attr :: string
  dn_val :: string
  dn_in_val :: bool
  dn_escaped :: bool
  dn_emitted :: "(string \<times> string) list"

definition dn_init :: dn_state where
  "dn_init = \<lparr>dn_attr = [], dn_val = [], dn_in_val = False, dn_escaped = False, dn_emitted = []\<rparr>"

definition dn_emit :: "dn_state \<Rightarrow> (string \<times> string) list" where
  "dn_emit s = (if dn_attr s = [] then dn_emitted s else dn_emitted s @ [(dn_attr s, dn_val s)])"

definition dn_step :: "char \<Rightarrow> char \<Rightarrow> dn_state \<Rightarrow> dn_state" where
  "dn_step sep c s =
     (if c = CHR 0x5C \<and> \<not> dn_escaped s then s\<lparr>dn_escaped := True\<rparr>
      else if \<not> dn_escaped s \<and> c = CHR ''='' then s\<lparr>dn_in_val := True\<rparr>
      else if \<not> dn_escaped s \<and> c = sep
      then \<lparr>dn_attr = [], dn_val = [], dn_in_val = False, dn_escaped = False, dn_emitted = dn_emit s\<rparr>
      else (if dn_in_val s then s\<lparr>dn_val := dn_val s @ [c], dn_escaped := False\<rparr>
            else s\<lparr>dn_attr := dn_attr s @ [c], dn_escaped := False\<rparr>))"

definition dn_pairs :: "char \<Rightarrow> string \<Rightarrow> (string \<times> string) list" where
  "dn_pairs sep dn = dn_emit (fold (dn_step sep) dn dn_init)"

definition SERIAL_NUMBER_OID :: string where
  "SERIAL_NUMBER_OID = ''2.5.4.5''"

definition hex_char :: "char \<Rightarrow> bool" where
  "hex_char c \<longleftrightarrow> is_digit c \<or> 97 \<le> (of_char c :: nat) \<and> (of_char c :: nat) \<le> 102"

definition hex_value :: "char \<Rightarrow> nat" where
  "hex_value c = (if is_digit c then of_char c - 48 else of_char c - 87)"

text \<open>
  The bytes of the match of \<open>ASN1_ENCODED_STRING_RE\<close>, if it matches: at least three pairs of
  digits after the sharp, and \<open>$\<close> also holds before a last line feed.
\<close>

definition asn1_encoded :: "string \<Rightarrow> string option" where
  "asn1_encoded s =
     (case s of
        c # r \<Rightarrow>
          (let h = (if r \<noteq> [] \<and> last r = CHR 0x0A then butlast r else r) in
           if c = CHR ''#'' \<and> list_all hex_char h \<and> even (length h) \<and> 6 \<le> length h then Some h else None)
      | [] \<Rightarrow> None)"

fun fromhex :: "string \<Rightarrow> nat list" where
  "fromhex (a # b # r) = (16 * hex_value a + hex_value b) # fromhex r"
| "fromhex _ = []"

text \<open>\<open>load_asn1\<close> is the text of the decoded value, none when it cannot be decoded.\<close>

definition extract_serial_number :: "(nat list \<Rightarrow> string option) \<Rightarrow> (string \<times> string) list \<Rightarrow> (string \<times> string) list" where
  "extract_serial_number load_asn1 d =
     (case dict_get d SERIAL_NUMBER_OID of
        None \<Rightarrow> d
      | Some encoded \<Rightarrow>
          (case asn1_encoded (lower encoded) of
             None \<Rightarrow> d
           | Some h \<Rightarrow>
               (case load_asn1 (fromhex h) of
                  None \<Rightarrow> d
                | Some sn \<Rightarrow> dict_del SERIAL_NUMBER_OID (dict_set ''serialNumber'' sn d))))"

definition parse_dn :: "(nat list \<Rightarrow> string option) \<Rightarrow> string \<Rightarrow> (string \<times> string) list" where
  "parse_dn load_asn1 dn = extract_serial_number load_asn1 (dict_update [] (dn_pairs CHR '','' dn))"

definition parse_text_dn :: "string \<Rightarrow> (string \<times> string list) list" where
  "parse_text_dn dn = fold (\<lambda>(a, v). group_append a v) (dn_pairs CHR ''/'' dn) []"

text \<open>The text of a distinguished name, its special characters escaped.\<close>

definition dn_escape :: "char \<Rightarrow> string \<Rightarrow> string" where
  "dn_escape sep s = concat (map (\<lambda>c. if c = CHR 0x5C \<or> c = CHR ''='' \<or> c = sep then [CHR 0x5C, c] else [c]) s)"

definition dn_item :: "char \<Rightarrow> string \<times> string \<Rightarrow> string" where
  "dn_item sep p = dn_escape sep (fst p) @ CHR ''='' # dn_escape sep (snd p)"

definition dn_text :: "char \<Rightarrow> (string \<times> string) list \<Rightarrow> string" where
  "dn_text sep pairs = join_with [sep] (map (dn_item sep) pairs)"

lemma dn_escape_simps [simp]:
  "dn_escape sep [] = []"
  "dn_escape sep (c # s) = (if c = CHR 0x5C \<or> c = CHR ''='' \<or> c = sep then [CHR 0x5C, c] else [c]) @ dn_escape sep s"
  by (simp_all add: dn_escape_def)

text \<open>A parser reads an escaped text as the text itself.\<close>

lemma fold_escaped:
  assumes "\<not> dn_escaped s"
  shows "fold (dn_step sep) (dn_escape sep t) s =
    (if dn_in_val s then s\<lparr>dn_val := dn_val s @ t\<rparr> else s\<lparr>dn_attr := dn_attr s @ t\<rparr>)"
  using assms by (induction t arbitrary: s) (auto simp: dn_step_def)

lemma fold_item:
  assumes "sep \<noteq> CHR 0x5C" "sep \<noteq> CHR ''=''"
  shows "fold (dn_step sep) (dn_item sep p)
      \<lparr>dn_attr = [], dn_val = [], dn_in_val = False, dn_escaped = False, dn_emitted = acc\<rparr> =
    \<lparr>dn_attr = fst p, dn_val = snd p, dn_in_val = True, dn_escaped = False, dn_emitted = acc\<rparr>"
  by (simp add: dn_item_def fold_escaped) (simp add: dn_step_def fold_escaped)

lemma fold_items:
  assumes sep: "sep \<noteq> CHR 0x5C" "sep \<noteq> CHR ''=''" and ne: "\<forall>p \<in> set pairs. fst p \<noteq> []"
  shows "dn_emit (fold (dn_step sep) (dn_text sep pairs)
      \<lparr>dn_attr = [], dn_val = [], dn_in_val = False, dn_escaped = False, dn_emitted = acc\<rparr>) = acc @ pairs"
  using ne
proof (induction pairs arbitrary: acc)
  case Nil
  then show ?case by (simp add: dn_text_def dn_emit_def)
next
  case (Cons p ps)
  show ?case
  proof (cases ps)
    case Nil
    then show ?thesis using Cons.prems by (simp add: dn_text_def fold_item [OF sep] dn_emit_def)
  next
    case (Cons q qs)
    then have t: "dn_text sep (p # ps) = dn_item sep p @ sep # dn_text sep ps"
      by (simp add: dn_text_def)
    have "dn_step sep sep \<lparr>dn_attr = fst p, dn_val = snd p, dn_in_val = True, dn_escaped = False, dn_emitted = acc\<rparr> =
      \<lparr>dn_attr = [], dn_val = [], dn_in_val = False, dn_escaped = False, dn_emitted = acc @ [p]\<rparr>"
      using sep Cons.prems by (simp add: dn_step_def dn_emit_def)
    then show ?thesis
      using Cons.IH [of "acc @ [p]"] Cons.prems by (simp add: t fold_item [OF sep])
  qed
qed

lemma dn_pairs_text:
  "sep \<noteq> CHR 0x5C \<Longrightarrow> sep \<noteq> CHR ''='' \<Longrightarrow> \<forall>p \<in> set pairs. fst p \<noteq> [] \<Longrightarrow> dn_pairs sep (dn_text sep pairs) = pairs"
  by (simp add: dn_pairs_def dn_init_def fold_items)

lemma group_append_get:
  "dict_get (group_append k v d) j =
     (if j = k then Some (case dict_get d k of None \<Rightarrow> [v] | Some vs \<Rightarrow> vs @ [v]) else dict_get d j)"
  by (induction k v d rule: group_append.induct) auto

lemma group_fold_get:
  "dict_get (fold (\<lambda>(a, v). group_append a v) pairs d) j =
     (let vs = map snd (filter (\<lambda>p. fst p = j) pairs) in
      case dict_get d j of None \<Rightarrow> if vs = [] then None else Some vs | Some ws \<Rightarrow> Some (ws @ vs))"
  proof (induction pairs arbitrary: d)
  case (Cons p ps)
  show ?case
    by (cases p; cases "fst p = j"; cases "dict_get d j")
      (simp_all add: Cons.IH group_append_get Let_def)
qed (simp split: option.split)

text \<open>
  What a distinguished name says is what its text was made of: the parser of the names the
  web server passes gives back the attributes and the values, special characters included, in
  their order, when no attribute is empty or repeated and there is no encoded serial number; and
  the parser of the names in a text log gives each attribute all its values, in their order.
\<close>

theorem dn_roundtrip:
  assumes "\<forall>p \<in> set pairs. fst p \<noteq> []"
  shows "(distinct (map fst pairs) \<and> SERIAL_NUMBER_OID \<notin> fst ` set pairs \<longrightarrow>
      parse_dn load_asn1 (dn_text CHR '','' pairs) = pairs) \<and>
    dict_get (parse_text_dn (dn_text CHR ''/'' pairs)) a =
      (let vs = map snd (filter (\<lambda>p. fst p = a) pairs) in if vs = [] then None else Some vs)"
proof
  show "distinct (map fst pairs) \<and> SERIAL_NUMBER_OID \<notin> fst ` set pairs \<longrightarrow>
      parse_dn load_asn1 (dn_text CHR '','' pairs) = pairs"
  proof
    assume d: "distinct (map fst pairs) \<and> SERIAL_NUMBER_OID \<notin> fst ` set pairs"
    then have "dict_get pairs SERIAL_NUMBER_OID = None" by (simp add: map_of_eq_None_iff)
    then show "parse_dn load_asn1 (dn_text CHR '','' pairs) = pairs"
      using d assms dict_update_append [of "[]" pairs]
      by (simp add: parse_dn_def dn_pairs_text extract_serial_number_def)
  qed
  show "dict_get (parse_text_dn (dn_text CHR ''/'' pairs)) a =
      (let vs = map snd (filter (\<lambda>p. fst p = a) pairs) in if vs = [] then None else Some vs)"
    using assms by (simp add: parse_text_dn_def dn_pairs_text group_fold_get)
qed

theorem dn_roundtrip_witness:
  "parse_dn (\<lambda>_. None) (''CN=a'' @ [CHR 0x5C] @ '',b,O=x'') = [(''CN'', ''a,b''), (''O'', ''x'')] \<and>
   dict_get (parse_text_dn ''CN=a,b/O=x'') ''O'' = Some [''x'']"
proof -
  let ?ps = "[(''CN'', ''a,b''), (''O'', ''x'')]"
  have t: "dn_text CHR '','' ?ps = ''CN=a'' @ [CHR 0x5C] @ '',b,O=x''" "dn_text CHR ''/'' ?ps = ''CN=a,b/O=x''"
    "SERIAL_NUMBER_OID = ''2.5.4.5''"
    by code_simp+
  have "\<forall>p \<in> set ?ps. fst p \<noteq> []" by simp
  from dn_roundtrip [OF this, of "\<lambda>_. None" "''O''"]
  show ?thesis unfolding t by simp
qed

text \<open>The lines of each certificate of a chain.\<close>

fun certificate_lines :: "string list \<Rightarrow> string list \<Rightarrow> string list list" where
  "certificate_lines current [] = (if current = [] then [] else [current])"
| "certificate_lines current (line # lines) =
     (if sublist ''--BEGIN'' line \<and> current \<noteq> []
      then current # certificate_lines [line] lines
      else certificate_lines (current @ [line]) lines)"

lemma split_lines_certificates:
  "split_lines current lines = map (join_with [CHR 0x0A]) (certificate_lines current lines)"
  by (induction current lines rule: certificate_lines.induct) auto

lemma certificate_lines_all: "concat (certificate_lines current lines) = current @ lines"
  by (induction current lines rule: certificate_lines.induct) auto

definition one_begin :: "string list \<Rightarrow> bool" where
  "one_begin ls \<longleftrightarrow> ls \<noteq> [] \<and> (\<forall>l \<in> set (tl ls). \<not> sublist ''--BEGIN'' l)"

lemma certificate_lines_one:
  "ls \<in> set (certificate_lines current lines) \<Longrightarrow> current = [] \<or> one_begin current \<Longrightarrow> one_begin ls"
proof (induction current lines rule: certificate_lines.induct)
  case (2 current line lines)
  show ?case
  proof (cases "sublist ''--BEGIN'' line \<and> current \<noteq> []")
    case True
    moreover have "one_begin [line]" by (simp add: one_begin_def)
    ultimately show ?thesis using 2 by auto
  next
    case False
    then have "certificate_lines current (line # lines) = certificate_lines (current @ [line]) lines"
      by (simp only: certificate_lines.simps if_False)
    moreover have "one_begin (current @ [line])"
      using False 2(4) by (cases current) (simp_all add: one_begin_def)
    ultimately show ?thesis using 2(2) [OF False] 2(3) by simp
  qed
qed (simp split: if_splits)

lemma certificate_lines_hd:
  "current \<noteq> [] \<Longrightarrow> \<exists>more rest. certificate_lines current lines = (current @ more) # rest"
proof (induction current lines rule: certificate_lines.induct)
  case (2 current line lines)
  show ?case
  proof (cases "sublist ''--BEGIN'' line")
    case False
    then obtain more rest where "certificate_lines (current @ [line]) lines = ((current @ [line]) @ more) # rest"
      using 2 by auto
    with False show ?thesis by simp
  qed (use 2 in simp)
qed simp

lemma certificate_lines_begin:
  "ls \<in> set (tl (certificate_lines current lines)) \<Longrightarrow> sublist ''--BEGIN'' (hd ls)"
proof (induction current lines rule: certificate_lines.induct)
  case (2 current line lines)
  show ?case
  proof (cases "sublist ''--BEGIN'' line \<and> current \<noteq> []")
    case True
    obtain more rest where c: "certificate_lines [line] lines = ([line] @ more) # rest"
      using certificate_lines_hd [of "[line]"] by blast
    with 2 True show ?thesis by auto
  next
    case False
    then have "certificate_lines current (line # lines) = certificate_lines (current @ [line]) lines"
      by (simp only: certificate_lines.simps if_False)
    then show ?thesis using 2(2) [OF False] 2(3) by simp
  qed
qed (simp split: if_splits)

text \<open>
  The certificates of a chain are its lines, all of them and in order, cut before each line
  that begins a certificate: no certificate holds a second such line, and every one after the
  first starts with one.
\<close>

theorem certificates_split:
  "\<exists>certs. split_certificate_chain chain = map (join_with [CHR 0x0A]) certs \<and>
     concat certs = splitlines chain \<and>
     (\<forall>ls \<in> set certs. ls \<noteq> [] \<and> (\<forall>l \<in> set (tl ls). \<not> sublist ''--BEGIN'' l)) \<and>
     (\<forall>ls \<in> set (tl certs). sublist ''--BEGIN'' (hd ls))"
proof (intro exI conjI)
  let ?certs = "certificate_lines [] (splitlines chain)"
  show "split_certificate_chain chain = map (join_with [CHR 0x0A]) ?certs"
    by (simp add: split_certificate_chain_def split_lines_certificates)
  show "concat ?certs = splitlines chain"
    by (simp add: certificate_lines_all)
  show "\<forall>ls \<in> set ?certs. ls \<noteq> [] \<and> (\<forall>l \<in> set (tl ls). \<not> sublist ''--BEGIN'' l)"
    using certificate_lines_one [of _ "[]"] by (simp add: one_begin_def)
  show "\<forall>ls \<in> set (tl ?certs). sublist ''--BEGIN'' (hd ls)"
    by (blast intro: certificate_lines_begin)
qed

definition sample_chain :: string where
  "sample_chain = concat (map (\<lambda>l. l @ [CHR 0x0A]) [''--BEGIN'', ''a'', ''--BEGIN'', ''b''])"

theorem certificates_split_witness:
  "length (split_certificate_chain sample_chain) = 2 \<and>
   (\<exists>certs. split_certificate_chain sample_chain = map (join_with [CHR 0x0A]) certs \<and>
     concat certs = [''--BEGIN'', ''a'', ''--BEGIN'', ''b''])"
proof -
  have "length (split_certificate_chain sample_chain) = 2" "splitlines sample_chain = [''--BEGIN'', ''a'', ''--BEGIN'', ''b'']"
    by code_simp+
  then show ?thesis using certificates_split [of sample_chain] by auto
qed

end
