(* ===== verification/MachineIds.thy ===== *)
theory MachineIds imports Prelude begin

text \<open>
  The id of a machine in the sync API of Santa (\<open>BaseSyncView.post\<close> of
  \<open>zentral/contrib/santa/views.py\<close>): \<open>uuid.UUID\<close> as Python reads it, and the key of the cache.
\<close>

subsection \<open>The machine id\<close>

text \<open>\<open>uuid.UUID(s)\<close>: the value of the 32 hexadecimal digits left without the separators.\<close>

definition hex_digit_value :: "char \<Rightarrow> nat option" where
  "hex_digit_value c =
     (let n = of_char c in
      if 48 \<le> n \<and> n \<le> 57 then Some (n - 48)
      else if 97 \<le> n \<and> n \<le> 102 then Some (n - 87)
      else if 65 \<le> n \<and> n \<le> 70 then Some (n - 55) else None)"

definition hex_number :: "string \<Rightarrow> int" where
  "hex_number s = foldl (\<lambda>a c. 16 * a + int (the (hex_digit_value c))) 0 s"

text \<open>\<open>int(s, 16)\<close>: spaces around, a sign, a prefix and single underscores between digits are allowed.\<close>

fun int_sign :: "string \<Rightarrow> int \<times> string" where
  "int_sign [] = (1, [])"
| "int_sign (c # s) = (if c = CHR ''-'' then (- 1, s) else if c = CHR ''+'' then (1, s) else (1, c # s))"

fun hex_prefix :: "string \<Rightarrow> string" where
  "hex_prefix (a # b # s) =
     (if a = CHR ''0'' \<and> (b = CHR ''x'' \<or> b = CHR ''X'')
      then (case s of c # r \<Rightarrow> if c = CHR ''_'' then r else s | [] \<Rightarrow> s) else a # b # s)"
| "hex_prefix s = s"

definition int_base16 :: "string \<Rightarrow> int option" where
  "int_base16 s =
     (case int_sign (strip s) of (sign, t) \<Rightarrow>
       (let groups = split_on CHR ''_'' (hex_prefix t) in
        if list_all (\<lambda>g. g \<noteq> [] \<and> list_all (\<lambda>c. hex_digit_value c \<noteq> None) g) groups
        then Some (sign * hex_number (concat groups)) else None))"

definition hex_digit :: "nat \<Rightarrow> char" where
  "hex_digit d = char_of (if d < 10 then 48 + d else 87 + d)"

fun hex_text :: "nat \<Rightarrow> int \<Rightarrow> string" where
  "hex_text 0 n = []"
| "hex_text (Suc w) n = hex_text w (n div 16) @ [hex_digit (nat (n mod 16))]"

definition uuid_text :: "string \<Rightarrow> string" where
  "uuid_text h = take 8 h @ ''-'' @ take 4 (drop 8 h) @ ''-'' @ take 4 (drop 12 h) @ ''-'' @
     take 4 (drop 16 h) @ ''-'' @ drop 20 h"

definition is_brace :: "char \<Rightarrow> bool" where
  "is_brace c \<longleftrightarrow> c = CHR ''{'' \<or> c = CHR ''}''"

definition uuid_digits :: "string \<Rightarrow> string" where
  "uuid_digits s =
     filter (\<lambda>c. c \<noteq> CHR ''-'')
       (rev (dropWhile is_brace (rev (dropWhile is_brace
          (replace_all ''uuid:'' [] (replace_all ''urn:'' [] s))))))"

definition parse_uuid :: "string \<Rightarrow> string option" where
  "parse_uuid s =
     (let h = uuid_digits s in
      if length h \<noteq> 32 then None
      else (case int_base16 h of
              None \<Rightarrow> None
            | Some n \<Rightarrow> if n < 0 then None else Some (uuid_text (hex_text 32 n))))"

definition cache_key :: "string \<Rightarrow> string \<Rightarrow> string" where
  "cache_key enrollment_secret hardware_uuid = ''tests/santa/fixtures/'' @ enrollment_secret @ hardware_uuid"

lemma replace_all_absent:
  "c \<in> set old \<Longrightarrow> c \<notin> set s \<Longrightarrow> replace_all old new s = s"
proof (induction s)
  case Nil
  then show ?case by (cases old) (simp_all add: replace_all.simps)
next
  case (Cons d s)
  then have "\<not> prefix old (d # s)" using set_mono_prefix [of old "d # s"] by auto
  then show ?case using Cons by (cases "old = []") (simp_all add: replace_all.simps [of old new "d # s"])
qed

lemma hex_digit_range:
  assumes "d < 16"
  shows "hex_digit_value (hex_digit d) = Some d"
    and "of_char (hex_digit d) = (if d < 10 then 48 + d else 87 + d)"
proof -
  show o: "of_char (hex_digit d) = (if d < 10 then 48 + d else 87 + d)"
    using assms by (simp add: hex_digit_def)
  show "hex_digit_value (hex_digit d) = Some d"
    using assms by (auto simp: hex_digit_value_def o Let_def)
qed

definition is_hex_text :: "string \<Rightarrow> bool" where
  "is_hex_text s \<longleftrightarrow> list_all (\<lambda>c. \<exists>d < 16. c = hex_digit d) s"

lemma hex_text_shape: "length (hex_text w n) = w \<and> is_hex_text (hex_text w n)"
  by (induction w arbitrary: n) (auto simp: is_hex_text_def nat_less_iff intro: exI [of _ "nat (n mod 16)" for n])

lemma hex_number_snoc: "hex_number (s @ [c]) = 16 * hex_number s + int (the (hex_digit_value c))"
  by (simp add: hex_number_def)

lemma hex_number_text: "0 \<le> n \<Longrightarrow> n < 16 ^ w \<Longrightarrow> hex_number (hex_text w n) = n"
proof (induction w arbitrary: n)
  case 0
  then show ?case by (simp add: hex_number_def)
next
  case (Suc w)
  then have "n div 16 < 16 ^ w" "0 \<le> n div 16" by (simp_all add: div_less_iff_less_mult mult.commute pos_imp_zdiv_nonneg_iff)
  with Suc.IH show ?case by (simp add: hex_number_snoc hex_digit_range nat_less_iff)
qed

lemma hex_number_bound:
  "list_all (\<lambda>c. hex_digit_value c \<noteq> None) s \<Longrightarrow> 0 \<le> hex_number s \<and> hex_number s < 16 ^ length s"
proof (induction s rule: rev_induct)
  case Nil
  then show ?case by (simp add: hex_number_def)
next
  case (snoc c s)
  then obtain v where v: "hex_digit_value c = Some v" by auto
  then have "v < 16" by (auto simp: hex_digit_value_def Let_def split: if_splits)
  with snoc v show ?case by (simp add: hex_number_snoc)
qed

lemma hex_text_no_char:
  assumes "is_hex_text s" "of_char c < (48::nat) \<or> 57 < (of_char c :: nat) \<and> of_char c < (97::nat) \<or> 102 < (of_char c :: nat)"
  shows "c \<notin> set s"
proof
  assume "c \<in> set s"
  then obtain d where "d < 16" "c = hex_digit d" using assms(1) by (auto simp: is_hex_text_def list_all_iff)
  with assms(2) hex_digit_range(2) [of d] show False by (auto split: if_splits)
qed

lemma hex_text_values: "is_hex_text s \<Longrightarrow> list_all (\<lambda>c. hex_digit_value c \<noteq> None) s"
  by (auto simp: is_hex_text_def list_all_iff hex_digit_range(1))

lemma dropWhile_none: "\<forall>c \<in> set s. \<not> p c \<Longrightarrow> dropWhile p s = s"
  by (induction s) auto

lemma int_base16_text:
  assumes "is_hex_text s" "s \<noteq> []"
  shows "int_base16 s = Some (hex_number s)"
proof -
  note no = hex_text_no_char [OF assms(1)]
  have "\<forall>c \<in> set s. \<not> is_space c" using no by (fastforce simp: is_space_def)
  then have st: "strip s = s" by (intro strip_no_space) (simp add: list_all_iff)
  have sg: "int_sign s = (1, s)"
    using no [of "CHR ''-''"] no [of "CHR ''+''"] by (cases s) auto
  have px: "hex_prefix s = s"
    using no [of "CHR ''x''"] no [of "CHR ''X''"] by (cases s rule: hex_prefix.cases) auto
  have sp: "split_on CHR ''_'' s = [s]" using no [of "CHR ''_''"] by (intro split_on_no_sep) simp
  show ?thesis
    using assms(2) hex_text_values [OF assms(1)] by (simp add: int_base16_def st sg px sp)
qed

lemma uuid_text_digits:
  assumes "is_hex_text h" "length h = 32"
  shows "uuid_digits (uuid_text h) = h" "length (uuid_text h) = 36"
proof -
  note no = hex_text_no_char [OF assms(1)]
  have parts: "set (take n h) \<subseteq> set h" "set (drop n h) \<subseteq> set h" "set (take n (drop m h)) \<subseteq> set h" for n m
    by (simp_all add: set_take_subset set_drop_subset subset_trans [OF set_take_subset set_drop_subset])
  have u: "set (uuid_text h) \<subseteq> insert CHR ''-'' (set h)"
    unfolding uuid_text_def set_append Un_subset_iff
    using parts(1) [of 8] parts(2) [of 20] parts(3) [of 4 8] parts(3) [of 4 12] parts(3) [of 4 16] by auto
  have "replace_all ''urn:'' [] (uuid_text h) = uuid_text h" "replace_all ''uuid:'' [] (uuid_text h) = uuid_text h"
    using u no [of "CHR '':''"] by (auto intro!: replace_all_absent [of "CHR '':''"])
  moreover have "\<forall>c \<in> set (uuid_text h). \<not> is_brace c"
    using u no [of "CHR ''{''"] no [of "CHR ''}''"] by (auto simp: is_brace_def)
  ultimately have "uuid_digits (uuid_text h) = filter (\<lambda>c. c \<noteq> CHR ''-'') (uuid_text h)"
    by (simp add: uuid_digits_def dropWhile_none)
  moreover have "filter (\<lambda>c. c \<noteq> CHR ''-'') t = t" if "set t \<subseteq> set h" for t
    using that no [of "CHR ''-''"] by (intro filter_True) auto
  ultimately have "uuid_digits (uuid_text h) =
    take 8 h @ take 4 (drop 8 h) @ take 4 (drop 12 h) @ take 4 (drop 16 h) @ drop 20 h"
    using parts by (simp add: uuid_text_def)
  also have "\<dots> = h"
    using append_take_drop_id [of 8 h] append_take_drop_id [of 4 "drop 8 h"]
      append_take_drop_id [of 4 "drop 12 h"] append_take_drop_id [of 4 "drop 16 h"] by simp
  finally show "uuid_digits (uuid_text h) = h" .
  show "length (uuid_text h) = 36" using assms(2) by (simp add: uuid_text_def)
qed

lemma int_sign_length: "int_sign s = (sign, t) \<Longrightarrow> length t \<le> length s \<and> (sign = 1 \<or> sign = - 1)"
  by (cases s) (auto split: if_splits)

lemma hex_prefix_length: "length (hex_prefix s) \<le> length s"
  by (cases s rule: hex_prefix.cases) (auto split: list.splits)

lemma split_on_length: "length (concat (split_on c s)) \<le> length s"
  by (induction s) (auto split: list.splits)

lemma strip_length: "length (strip s) \<le> length s"
  using length_dropWhile_le [of is_space s] length_dropWhile_le [of is_space "rev (dropWhile is_space s)"]
  by (simp add: strip_def)

lemma int_base16_bound:
  assumes "int_base16 s = Some n"
  shows "n < 16 ^ length s"
proof -
  obtain sign t where st: "int_sign (strip s) = (sign, t)" by fastforce
  let ?d = "concat (split_on CHR ''_'' (hex_prefix t))"
  have n: "n = sign * hex_number ?d" and h: "list_all (\<lambda>c. hex_digit_value c \<noteq> None) ?d"
    using assms by (auto simp: int_base16_def st Let_def list_all_iff split: if_splits)
  have "length ?d \<le> length s"
    using split_on_length [of "CHR ''_''" "hex_prefix t"] hex_prefix_length [of t] int_sign_length [OF st] strip_length [of s]
    by linarith
  then have "(16::int) ^ length ?d \<le> 16 ^ length s" by (intro power_increasing) simp_all
  moreover have "0 \<le> hex_number ?d" "hex_number ?d < 16 ^ length ?d" using hex_number_bound [OF h] by simp_all
  moreover have "n = hex_number ?d \<or> n = - hex_number ?d" using n int_sign_length [OF st] by auto
  ultimately show ?thesis by linarith
qed

lemma parse_uuid_kept:
  assumes "parse_uuid s = Some u"
  obtains h where "u = uuid_text h" "is_hex_text h" "length h = 32" "hex_text 32 (hex_number h) = h"
proof -
  obtain n where n: "int_base16 (uuid_digits s) = Some n" "0 \<le> n" "u = uuid_text (hex_text 32 n)"
    and len: "length (uuid_digits s) = 32"
    using assms by (auto simp: parse_uuid_def Let_def split: if_splits option.splits)
  have "n < 16 ^ 32" using int_base16_bound [OF n(1)] len by simp
  then have "hex_number (hex_text 32 n) = n" by (rule hex_number_text [OF n(2)])
  then show thesis using that [OF n(3)] hex_text_shape by metis
qed

text \<open>
  The id of a machine has one form. Whatever way a client writes it, what is kept is read
  back as itself, and two pairs of a secret and a kept id never share a place in the cache.
\<close>

theorem machine_id_canonical:
  assumes "parse_uuid s = Some u"
  shows "parse_uuid u = Some u \<and>
    (\<forall>s' u' secret secret'. parse_uuid s' = Some u' \<longrightarrow> cache_key secret u = cache_key secret' u' \<longrightarrow>
       secret = secret' \<and> u = u')"
proof -
  obtain h where h: "u = uuid_text h" "is_hex_text h" "length h = 32" "hex_text 32 (hex_number h) = h"
    using parse_uuid_kept [OF assms] by metis
  note digits = uuid_text_digits [OF h(2,3)]
  have "h \<noteq> []" using h(3) by auto
  then have again: "parse_uuid u = Some u"
    using int_base16_text [OF h(2)] hex_number_bound [OF hex_text_values [OF h(2)]] h(3,4)
    by (simp add: parse_uuid_def h(1) digits)
  have "secret = secret' \<and> u = u'" if p: "parse_uuid s' = Some u'" and k: "cache_key secret u = cache_key secret' u'"
    for s' u' secret secret'
  proof -
    obtain h' where "u' = uuid_text h'" "is_hex_text h'" "length h' = 32"
      using parse_uuid_kept [OF p] by metis
    then have "length u' = 36" using uuid_text_digits(2) by simp
    then show ?thesis using k digits(2) h(1) by (simp add: cache_key_def)
  qed
  with again show ?thesis by blast
qed

theorem machine_id_canonical_witness:
  "parse_uuid ''{C1A3AE5F-C1CE-4EC2-AE4D-5F37A9D10E32}'' = Some ''c1a3ae5f-c1ce-4ec2-ae4d-5f37a9d10e32'' \<and>
   parse_uuid ''c1a3ae5f-c1ce-4ec2-ae4d-5f37a9d10e32'' = Some ''c1a3ae5f-c1ce-4ec2-ae4d-5f37a9d10e32''"
proof -
  have "parse_uuid ''{C1A3AE5F-C1CE-4EC2-AE4D-5F37A9D10E32}'' = Some ''c1a3ae5f-c1ce-4ec2-ae4d-5f37a9d10e32''"
    by code_simp
  with machine_id_canonical [OF this] show ?thesis by blast
qed

end
