(* ===== verification/SantaViews.thy ===== *)
theory SantaViews imports Requests SantaEvents InventoryConf Certificates MachineIds begin

text \<open>
  The sync API of \<open>zentral/contrib/santa/views.py\<close>: the preflight, with the enrollment of a
  machine, the download of the rules, the upload of the events and the postflight. A request is
  one transaction: when it raises, the tables are rolled back, and the cache and the events posted
  are kept. What the views only call of other libraries and of the inventory is in \<open>santa_env\<close>.
\<close>

subsection \<open>State\<close>

text \<open>
  \<open>sd_enrollment_configurations\<close> is the column of the configuration of the enrollments,
  \<open>sd_trees\<close> are the trees given to the inventory.
\<close>

record santa_db =
  sd_tables :: santa_tables
  sd_machines :: "santa_machine list"
  sd_configurations :: "santa_configuration list"
  sd_enrollment_configurations :: "(nat \<times> nat) list"
  sd_enrollment_db :: enrollment_db
  sd_machine_tags :: "(string \<times> nat) list"
  sd_trees :: "dict list"

text \<open>A machine with the rows the query of the view joins to it, as it is put in the cache.\<close>

record loaded_machine =
  lm_machine :: santa_machine
  lm_secret :: enrollment_secret
  lm_configuration :: santa_configuration

record cache_entry =
  ce_loaded :: loaded_machine
  ce_tags :: "nat list"
  ce_expires :: int

record sync_state =
  sy_db :: santa_db
  sy_cache :: "(string \<times> cache_entry) list"
  sy_events :: "event list"

text \<open>
  The clock and the random values of a request, the parsers of other libraries, the serialization
  of a meta business unit, its business unit for enrollments, and the tags a machine has from the
  meta business units it is in.
\<close>

record santa_env =
  env_now :: int
  env_uuid :: "nat \<Rightarrow> string"
  env_random :: "string \<Rightarrow> string"
  env_cursor :: string
  env_valid_ip :: "string \<Rightarrow> bool"
  env_json_loads :: "string \<Rightarrow> pyerror + pyval"
  env_decompress :: "string \<Rightarrow> pyerror + string"
  env_load_asn1 :: "nat list \<Rightarrow> string option"
  env_mbu_serialize :: "nat \<Rightarrow> dict"
  env_business_unit :: "nat \<Rightarrow> dict option"
  env_mbu_tags :: "string \<Rightarrow> nat list"

text \<open>What the \<open>post\<close> method keeps of a request on the view.\<close>

record sync_request =
  sr_secret :: string
  sr_uuid :: string
  sr_cert_dn :: "(string \<times> string) list option"
  sr_user_agent :: string
  sr_ip :: string
  sr_data :: "pyval option"

datatype sync_view = Preflight | RuleDownload | EventUpload | Postflight

subsection \<open>Reading the request\<close>

definition get_client_cert_dn ::
  "(nat list \<Rightarrow> string option) \<Rightarrow> (string \<times> string) list \<Rightarrow> (string \<times> string) list option" where
  "get_client_cert_dn load_asn1 meta =
     (case dict_get meta ''HTTP_X_SSL_CLIENT_S_DN'' of
        None \<Rightarrow> None
      | Some dn \<Rightarrow> if dn = [] then None else Some (parse_dn load_asn1 dn))"

definition get_json_data :: "santa_env \<Rightarrow> http_post \<Rightarrow> pyerror + pyval option" where
  "get_json_data env rq =
     (if hp_body rq = [] then Inr None
      else
        (case bind_result
           (if dict_get (hp_meta rq) ''HTTP_CONTENT_ENCODING'' \<in> {Some ''zlib'', Some ''deflate''}
            then env_decompress env (hp_body rq) else Inr (hp_body rq)) (env_json_loads env) of
           Inl ValueError \<Rightarrow> Inl (SuspiciousOperation ''Could not read JSON data'')
         | Inl e \<Rightarrow> Inl e
         | Inr v \<Rightarrow> Inr (Some v)))"

text \<open>The attributes of \<open>self.request_data\<close>, which has to be a dictionary.\<close>

definition request_dict :: "sync_request \<Rightarrow> pyerror + dict" where
  "request_dict rq = (case sr_data rq of Some (PDict d) \<Rightarrow> Inr d | _ \<Rightarrow> Inl AttributeError)"

subsection \<open>Machines\<close>

definition missing_certificate :: "santa_configuration \<Rightarrow> sync_request \<Rightarrow> bool" where
  "missing_certificate c rq \<longleftrightarrow>
     sc_client_certificate_auth c \<and> (case sr_cert_dn rq of None \<Rightarrow> True | Some dn \<Rightarrow> dn = [])"

definition enrollment_has_secret :: "string \<Rightarrow> enrollment_db \<Rightarrow> enrollment \<Rightarrow> bool" where
  "enrollment_has_secret secret db en \<longleftrightarrow> enr_model en = ''santa_enrollment'' \<and>
     list_ex (\<lambda>es. es_pk es = enr_secret en \<and> es_secret es = secret) (enrollment_secrets db)"

definition enrollment_configuration :: "santa_db \<Rightarrow> enrollment \<Rightarrow> pyerror + santa_configuration" where
  "enrollment_configuration db en =
     (case dict_get (sd_enrollment_configurations db) (enr_pk en) of
        None \<Rightarrow> Inl DoesNotExist
      | Some pk \<Rightarrow> get_one (\<lambda>c. sc_pk c = pk) (sd_configurations db))"

definition enrollment_secret_of :: "santa_db \<Rightarrow> enrollment \<Rightarrow> pyerror + enrollment_secret" where
  "enrollment_secret_of db en =
     get_one (\<lambda>es. es_pk es = enr_secret en) (enrollment_secrets (sd_enrollment_db db))"

definition machine_enrollment :: "santa_db \<Rightarrow> santa_machine \<Rightarrow> pyerror + enrollment" where
  "machine_enrollment db m =
     get_one (\<lambda>en. enr_model en = ''santa_enrollment'' \<and> enr_pk en = em_enrollment m) (enrollments (sd_enrollment_db db))"

definition load_machine :: "santa_db \<Rightarrow> santa_machine \<Rightarrow> pyerror + loaded_machine" where
  "load_machine db m =
     bind_result (machine_enrollment db m) (\<lambda>en.
     bind_result (enrollment_secret_of db en) (\<lambda>es.
     bind_result (enrollment_configuration db en) (\<lambda>c.
       Inr \<lparr>lm_machine = m, lm_secret = es, lm_configuration = c\<rparr>)))"

text \<open>\<open>BaseSyncView.get_enrolled_machine\<close>: none when the machine is not enrolled with the secret.\<close>

definition base_get_enrolled_machine :: "sync_request \<Rightarrow> santa_db \<Rightarrow> pyerror + loaded_machine option" where
  "base_get_enrolled_machine rq db =
     (case get_one (\<lambda>m. em_hardware_uuid m = sr_uuid rq \<and>
         list_ex (\<lambda>en. enr_pk en = em_enrollment m \<and> enrollment_has_secret (sr_secret rq) (sd_enrollment_db db) en)
           (enrollments (sd_enrollment_db db))) (sd_machines db) of
        Inl DoesNotExist \<Rightarrow> Inr None
      | Inl e \<Rightarrow> Inl e
      | Inr m \<Rightarrow>
          bind_result (load_machine db m) (\<lambda>lm.
            if missing_certificate (lm_configuration lm) rq
            then Inl (PermissionDenied ''Missing client certificate'') else Inr (Some lm)))"

subsection \<open>The values of a machine\<close>

definition get_primary_user :: "dict \<Rightarrow> pyerror + string option" where
  "get_primary_user d =
     (let v = dict_get_default d ''primary_user'' PNone in
      if \<not> truthy v then Inr None
      else (case v of
              PStr s \<Rightarrow> Inr (if strip s = [] then None else Some (strip s))
            | _ \<Rightarrow> Inl AttributeError))"

record machine_defaults =
  df_serial_number :: string
  df_primary_user :: "string option"
  df_client_mode :: int
  df_santa_version :: string
  df_binary_rule_count :: "int option"
  df_certificate_rule_count :: "int option"
  df_compiler_rule_count :: "int option"
  df_transitive_rule_count :: "int option"

definition get_enrolled_machine_defaults :: "dict \<Rightarrow> pyerror + machine_defaults" where
  "get_enrolled_machine_defaults d =
     bind_result (bind_result (request_item d ''serial_num'') text_column) (\<lambda>serial_number.
     bind_result (get_primary_user d) (\<lambda>primary_user.
     bind_result (bind_result (request_item d ''santa_version'') text_column) (\<lambda>santa_version.
     bind_result (int_column (dict_get_default d ''binary_rule_count'' PNone)) (\<lambda>binary.
     bind_result (int_column (dict_get_default d ''certificate_rule_count'' PNone)) (\<lambda>certificate.
     bind_result (int_column (dict_get_default d ''compiler_rule_count'' PNone)) (\<lambda>compiler.
     bind_result (int_column (dict_get_default d ''transitive_rule_count'' PNone)) (\<lambda>transitive.
       Inr \<lparr>df_serial_number = serial_number, df_primary_user = primary_user,
            df_client_mode = (if dict_get d ''client_mode'' = Some (PStr ''LOCKDOWN'')
                              then LOCKDOWN_MODE else MONITOR_MODE),
            df_santa_version = santa_version, df_binary_rule_count = binary,
            df_certificate_rule_count = certificate, df_compiler_rule_count = compiler,
            df_transitive_rule_count = transitive\<rparr>)))))))"

definition set_machine_values :: "machine_defaults \<Rightarrow> santa_machine \<Rightarrow> santa_machine" where
  "set_machine_values df m =
     m\<lparr>em_serial_number := df_serial_number df, em_primary_user := df_primary_user df,
       em_client_mode := df_client_mode df, em_santa_version := df_santa_version df,
       em_binary_rule_count := df_binary_rule_count df,
       em_certificate_rule_count := df_certificate_rule_count df,
       em_compiler_rule_count := df_compiler_rule_count df,
       em_transitive_rule_count := df_transitive_rule_count df\<rparr>"

definition machine_key :: "santa_machine \<Rightarrow> nat \<times> string" where
  "machine_key m = (em_enrollment m, em_hardware_uuid m)"

definition new_machine :: "nat \<times> string \<Rightarrow> nat \<times> machine_defaults \<Rightarrow> santa_machine" where
  "new_machine k d = (case (k, d) of ((en, uuid), (pk, df)) \<Rightarrow>
     \<lparr>em_pk = pk, em_enrollment = en, em_hardware_uuid = uuid, em_serial_number = df_serial_number df,
      em_primary_user = df_primary_user df, em_client_mode = df_client_mode df,
      em_santa_version = df_santa_version df, em_binary_rule_count = df_binary_rule_count df,
      em_certificate_rule_count = df_certificate_rule_count df,
      em_compiler_rule_count = df_compiler_rule_count df,
      em_transitive_rule_count = df_transitive_rule_count df\<rparr>)"

abbreviation upsert_machine ::
  "nat \<times> string \<Rightarrow> nat \<times> machine_defaults \<Rightarrow> santa_machine list \<Rightarrow> santa_machine list" where
  "upsert_machine \<equiv> upsert machine_key new_machine (\<lambda>d. set_machine_values (snd d))"

interpretation enrolled_machines: upsert_table machine_key new_machine "\<lambda>d. set_machine_values (snd d)"
  by unfold_locales (simp_all add: machine_key_def new_machine_def set_machine_values_def split: prod.split)

subsection \<open>Enrollment\<close>

definition cache_get :: "int \<Rightarrow> string \<Rightarrow> (string \<times> cache_entry) list \<Rightarrow> cache_entry option" where
  "cache_get now k cache =
     (case dict_get cache k of None \<Rightarrow> None | Some ce \<Rightarrow> if now < ce_expires ce then Some ce else None)"

text \<open>The serial number as the request gives it: a null one does not restrict the secret.\<close>

definition request_serial_number :: "dict \<Rightarrow> pyerror + string option" where
  "request_serial_number d =
     bind_result (request_item d ''serial_num'') (\<lambda>v.
       case v of PNone \<Rightarrow> Inr None | PStr s \<Rightarrow> Inr (Some s) | PInt i \<Rightarrow> Inr (Some (int_str i)) | _ \<Rightarrow> Inl TypeError)"

text \<open>
  The rows of an enrollment: the machine of the enrollment with the values of the request, the
  tags of the secret, and no other machine with the same hardware; its rules go with it.
\<close>

definition machine_row :: "nat \<Rightarrow> string \<Rightarrow> santa_db \<Rightarrow> santa_machine" where
  "machine_row en uuid db = hd (filter (\<lambda>m. machine_key m = (en, uuid)) (sd_machines db))"

definition update_or_create_machine :: "nat \<Rightarrow> string \<Rightarrow> machine_defaults \<Rightarrow> santa_db \<Rightarrow> santa_db" where
  "update_or_create_machine en uuid df db =
     db\<lparr>sd_machines := upsert_machine (en, uuid) (fresh_pk (map em_pk (sd_machines db)), df) (sd_machines db)\<rparr>"

definition add_machine_tags :: "string \<Rightarrow> nat list \<Rightarrow> santa_db \<Rightarrow> santa_db" where
  "add_machine_tags serial_number tags db =
     db\<lparr>sd_machine_tags := fold (\<lambda>t rows. if (serial_number, t) \<in> set rows then rows else rows @ [(serial_number, t)])
          tags (sd_machine_tags db)\<rparr>"

definition other_machine :: "santa_machine \<Rightarrow> santa_machine \<Rightarrow> bool" where
  "other_machine m o' \<longleftrightarrow> em_pk o' \<noteq> em_pk m \<and> em_hardware_uuid o' = em_hardware_uuid m"

definition delete_other_machines :: "santa_machine \<Rightarrow> santa_db \<Rightarrow> santa_db" where
  "delete_other_machines m db =
     (let pks = map em_pk (filter (other_machine m) (sd_machines db)) in
      db\<lparr>sd_machines := delete_where (other_machine m) (sd_machines db),
         sd_tables := (sd_tables db)\<lparr>st_machine_rules :=
           delete_where (\<lambda>mr. mr_machine mr \<in> set pks) (st_machine_rules (sd_tables db))\<rparr>\<rparr>)"

definition machine_event :: "event_class \<Rightarrow> santa_env \<Rightarrow> nat \<Rightarrow> string \<Rightarrow> sync_request \<Rightarrow> dict \<Rightarrow> event list" where
  "machine_event c env i serial_number rq payload =
     build_from_machine_request_payloads c (env_uuid env i) (env_now env) (Some serial_number)
       (Some (sr_user_agent rq)) (Some (sr_ip rq)) [payload] None None"

definition enroll_rows :: "nat \<Rightarrow> enrollment_secret \<Rightarrow> string \<Rightarrow> machine_defaults \<Rightarrow> santa_db \<Rightarrow> santa_db" where
  "enroll_rows en es uuid df db =
     (let db1 = update_or_create_machine en uuid df db; m = machine_row en uuid db1
      in delete_other_machines m (add_machine_tags (em_serial_number m) (map fst (es_tags es)) db1))"

definition enroll_verified ::
  "santa_env \<Rightarrow> sync_request \<Rightarrow> enrollment \<Rightarrow> enrollment_secret \<Rightarrow> santa_configuration \<Rightarrow> dict \<Rightarrow> santa_db \<Rightarrow>
   (loaded_machine \<times> santa_db) posted" where
  "enroll_verified env rq en es c d db =
     bind_posted (quiet (get_enrolled_machine_defaults d)) (\<lambda>df.
       (let db1 = update_or_create_machine (enr_pk en) (sr_uuid rq) df db;
            m = machine_row (enr_pk en) (sr_uuid rq) db1;
            action = (if list_ex (other_machine m) (sd_machines db1) then ''re-enrollment'' else ''enrollment'')
        in (Inr (\<lparr>lm_machine = m, lm_secret = es, lm_configuration = c\<rparr>,
                 enroll_rows (enr_pk en) es (sr_uuid rq) df db),
            machine_event SantaEnrollmentEvent env 1 (em_serial_number m) rq [(''action'', PStr action)])))"

definition enroll_machine :: "santa_env \<Rightarrow> sync_request \<Rightarrow> santa_db \<Rightarrow> (loaded_machine \<times> santa_db) posted" where
  "enroll_machine env rq db =
     (case get_one (enrollment_has_secret (sr_secret rq) (sd_enrollment_db db)) (enrollments (sd_enrollment_db db)) of
        Inl DoesNotExist \<Rightarrow> (Inl (PermissionDenied ''Unknown enrollment secret''), [])
      | Inl e \<Rightarrow> (Inl e, [])
      | Inr en \<Rightarrow>
          bind_posted (quiet (enrollment_secret_of db en)) (\<lambda>es.
          bind_posted (quiet (enrollment_configuration db en)) (\<lambda>c.
          if missing_certificate c rq then (Inl (PermissionDenied ''Missing client certificate''), [])
          else
            bind_posted (quiet (request_dict rq)) (\<lambda>d.
            bind_posted (quiet (request_serial_number d)) (\<lambda>serial_number.
            bind_posted
              (verified (verify_enrollment_secret (env_now env) (env_uuid env 0) (env_mbu_serialize env)
                 ''santa_enrollment'' (sr_secret rq) (sr_user_agent rq) (sr_ip rq) serial_number
                 (Some (sr_uuid rq)) None (\<lambda>_ _. True) (sd_enrollment_db db))) (\<lambda>edb.
              enroll_verified env rq en es c d (db\<lparr>sd_enrollment_db := edb\<rparr>)))))))"

definition save_machine :: "santa_machine \<Rightarrow> santa_db \<Rightarrow> santa_db" where
  "save_machine m db = db\<lparr>sd_machines := update_where (\<lambda>r. em_pk r = em_pk m) (\<lambda>_. m) (sd_machines db)\<rparr>"

text \<open>\<open>PreflightView.get_enrolled_machine\<close>.\<close>

definition preflight_get_enrolled_machine ::
  "santa_env \<Rightarrow> sync_request \<Rightarrow> santa_db \<Rightarrow> (loaded_machine \<times> santa_db) posted" where
  "preflight_get_enrolled_machine env rq db =
     bind_posted (quiet (base_get_enrolled_machine rq db)) (\<lambda>found.
       case found of
         None \<Rightarrow> enroll_machine env rq db
       | Some lm \<Rightarrow>
           bind_posted (quiet (bind_result (request_dict rq) get_enrolled_machine_defaults)) (\<lambda>df.
             (let m = set_machine_values df (lm_machine lm) in
              quiet (Inr (lm\<lparr>lm_machine := m\<rparr>,
                if m = lm_machine lm then db else save_machine m db)))))"

subsection \<open>Preflight\<close>

text \<open>At most three parts of the version are read: \<open>zip\<close> stops before it asks for a fourth.\<close>

definition os_version_numbers :: "string \<Rightarrow> pyerror + dict" where
  "os_version_numbers v =
     bind_result (map_result (\<lambda>s. case parse_int s of None \<Rightarrow> Inl ValueError | Some i \<Rightarrow> Inr i)
         (take 3 (split_on CHR ''.'' v))) (\<lambda>ns.
       Inr (zip [''major'', ''minor'', ''patch''] (map PInt ns)))"

definition preflight_os_version :: "dict \<Rightarrow> pyerror + dict" where
  "preflight_os_version d =
     bind_result (request_item d ''os_build'') (\<lambda>build.
     bind_result (request_item d ''os_version'') (\<lambda>v.
     bind_result (case v of PStr s \<Rightarrow> os_version_numbers s | _ \<Rightarrow> Inl AttributeError) (\<lambda>numbers.
       (let os_version = dict_update numbers [(''name'', PStr ''macOS''), (''build'', build)] in
        case build of
          PStr b \<Rightarrow>
            (case macos_version_from_build b of
               Inr known \<Rightarrow> Inr (dict_update os_version known)
             | Inl ValueError \<Rightarrow> Inr os_version
             | Inl e \<Rightarrow> Inl e)
        | _ \<Rightarrow> Inl TypeError))))"

definition preflight_tree :: "santa_env \<Rightarrow> sync_request \<Rightarrow> loaded_machine \<Rightarrow> dict \<Rightarrow> pyerror + dict" where
  "preflight_tree env rq lm d =
     bind_result (preflight_os_version d) (\<lambda>os_version.
     bind_result (request_item d ''hostname'') (\<lambda>hostname.
     bind_result (get_primary_user d) (\<lambda>primary_user.
       Inr ([(''source'', PDict [(''module'', PStr ''zentral.contrib.santa''), (''name'', PStr ''Santa'')]),
             (''reference'', PStr (sr_uuid rq)),
             (''serial_number'', PStr (em_serial_number (lm_machine lm))),
             (''os_version'', PDict os_version),
             (''system_info'', PDict [(''computer_name'', hostname)]),
             (''public_ip_address'', PStr (sr_ip rq))] @
         present
           [(''principal_user'', map_option (\<lambda>u. PDict
               [(''source'', PDict [(''type'', PStr ''SANTA_MACHINE_OWNER'')]),
                (''unique_id'', PStr u), (''principal_name'', PStr u)]) primary_user),
            (''business_unit'', map_option PDict (env_business_unit env (es_meta_business_unit (lm_secret lm))))]))))"

definition preflight_do_post :: "santa_env \<Rightarrow> sync_request \<Rightarrow> loaded_machine \<Rightarrow> santa_db \<Rightarrow> (dict \<times> santa_db) posted" where
  "preflight_do_post env rq lm db =
     (let m = lm_machine lm; rules = st_machine_rules (sd_tables db) in
      bind_posted (quiet (request_dict rq)) (\<lambda>d.
      bind_posted (Inr (), machine_event SantaPreflightEvent env 2 (em_serial_number m) rq d) (\<lambda>_.
      bind_posted (quiet (preflight_tree env rq lm d)) (\<lambda>tree.
      bind_posted (quiet (get_sync_server_config (env_random env) (lm_configuration lm) (em_santa_version m))) (\<lambda>response.
        quiet (Inr
          (if dict_get d ''request_clean_sync'' = Some (PBool True)
           then (dict_set ''clean_sync'' (PBool True) response,
                 db\<lparr>sd_trees := sd_trees db @ [tree],
                    sd_tables := (sd_tables db)\<lparr>st_machine_rules := delete_where (\<lambda>mr. mr_machine mr = em_pk m) rules\<rparr>\<rparr>)
           else (if rules_of_machine (em_pk m) rules = [] then dict_set ''clean_sync'' (PBool True) response else response,
                 db\<lparr>sd_trees := sd_trees db @ [tree]\<rparr>))))))))"

subsection \<open>The other views\<close>

text \<open>The cursor of a request; a rule of a machine that is not in its table violates its foreign key.\<close>

definition request_cursor :: "dict \<Rightarrow> pyerror + string option" where
  "request_cursor d =
     (case dict_get_default d ''cursor'' PNone of
        PStr s \<Rightarrow> Inr (Some s)
      | PInt i \<Rightarrow> Inr (if i = 0 then None else Some (int_str i))
      | v \<Rightarrow> if truthy v then Inl TypeError else Inr None)"

definition machine_rules_ok :: "santa_db \<Rightarrow> bool" where
  "machine_rules_ok db \<longleftrightarrow>
     list_all (\<lambda>mr. list_ex (\<lambda>m. em_pk m = mr_machine mr) (sd_machines db)) (st_machine_rules (sd_tables db))"

definition rule_download_do_post ::
  "santa_env \<Rightarrow> sync_request \<Rightarrow> loaded_machine \<Rightarrow> nat list \<Rightarrow> santa_db \<Rightarrow> pyerror + dict \<times> santa_db" where
  "rule_download_do_post env rq lm tags db =
     bind_result (request_dict rq) (\<lambda>d.
     bind_result (request_cursor d) (\<lambda>cursor.
     bind_result (get_next_rule_batch (lm_configuration lm) (lm_machine lm) tags cursor (env_cursor env) (sd_tables db))
       (\<lambda>((rules, response_cursor), tables).
         (let db' = db\<lparr>sd_tables := tables\<rparr> in
          if machine_rules_ok db'
          then Inr (present [(''rules'', Some (PList (map PDict rules))), (''cursor'', map_option PStr response_cursor)], db')
          else Inl IntegrityError))))"

definition event_upload_do_post ::
  "santa_env \<Rightarrow> sync_request \<Rightarrow> loaded_machine \<Rightarrow> santa_db \<Rightarrow> (dict \<times> santa_db) posted" where
  "event_upload_do_post env rq lm db =
     bind_posted (quiet (request_dict rq)) (\<lambda>d.
       case process_events (env_uuid env 2) (env_now env) (em_serial_number (lm_machine lm))
              (Some (sr_user_agent rq)) (Some (sr_ip rq)) (Some d) (sd_tables db) of
         Inl e \<Rightarrow> (Inl e, [])
       | Inr up \<Rightarrow>
           (Inr (case su_unknown up of
                   Some (h # hs) \<Rightarrow> [(''event_upload_bundle_binaries'', PList (map PStr (h # hs)))]
                 | _ \<Rightarrow> [],
                 db\<lparr>sd_tables := su_tables up, sd_trees := sd_trees db @ su_files up\<rparr>),
            su_events up))"

text \<open>The tags of a machine: its own and the ones of its meta business units.\<close>

definition machine_tag_ids :: "santa_env \<Rightarrow> string \<Rightarrow> santa_db \<Rightarrow> nat list" where
  "machine_tag_ids env serial_number db =
     remdups (map snd (filter (\<lambda>t. fst t = serial_number) (sd_machine_tags db)) @ env_mbu_tags env serial_number)"

subsection \<open>A request\<close>

text \<open>
  The machine of a request, with its tags, the tables and the cache: from the cache for every view
  but the preflight, from the tables otherwise. The entry stays ten minutes.
\<close>

definition authorize ::
  "santa_env \<Rightarrow> sync_view \<Rightarrow> sync_request \<Rightarrow> sync_state \<Rightarrow>
   ((loaded_machine \<times> nat list) \<times> santa_db \<times> (string \<times> cache_entry) list) posted" where
  "authorize env view rq st =
     (let k = cache_key (sr_secret rq) (sr_uuid rq);
          cached = (if view = Preflight then None else cache_get (env_now env) k (sy_cache st)) in
      case cached of
        Some ce \<Rightarrow>
          quiet (if missing_certificate (lm_configuration (ce_loaded ce)) rq
                 then Inl (PermissionDenied ''Missing client certificate'')
                 else Inr ((ce_loaded ce, ce_tags ce), sy_db st, sy_cache st))
      | None \<Rightarrow>
          bind_posted
            (if view = Preflight then preflight_get_enrolled_machine env rq (sy_db st)
             else quiet (bind_result (base_get_enrolled_machine rq (sy_db st)) (\<lambda>found.
                    case found of
                      None \<Rightarrow> Inl (PermissionDenied ''Machine not enrolled'')
                    | Some lm \<Rightarrow> Inr (lm, sy_db st)))) (\<lambda>(lm, db).
            (let tags = machine_tag_ids env (em_serial_number (lm_machine lm)) db in
             quiet (Inr ((lm, tags), db,
               dict_set k \<lparr>ce_loaded = lm, ce_tags = tags, ce_expires = env_now env + 600\<rparr> (sy_cache st))))))"

definition do_post ::
  "santa_env \<Rightarrow> sync_view \<Rightarrow> sync_request \<Rightarrow> loaded_machine \<Rightarrow> nat list \<Rightarrow> santa_db \<Rightarrow> (dict \<times> santa_db) posted" where
  "do_post env view rq lm tags db =
     (case view of
        Preflight \<Rightarrow> preflight_do_post env rq lm db
      | RuleDownload \<Rightarrow> quiet (rule_download_do_post env rq lm tags db)
      | EventUpload \<Rightarrow> event_upload_do_post env rq lm db
      | Postflight \<Rightarrow> quiet (Inr ([], db)))"

definition sync_request_of :: "santa_env \<Rightarrow> string \<Rightarrow> string \<Rightarrow> http_post \<Rightarrow> pyerror + sync_request" where
  "sync_request_of env secret machine_id rq =
     (case parse_uuid machine_id of
        None \<Rightarrow> Inl (PermissionDenied ''Invalid machine id'')
      | Some uuid \<Rightarrow>
          (case user_agent_and_ip_address_from_request (env_valid_ip env) (hp_meta rq) of
             (ua, ip_addr) \<Rightarrow>
               bind_result (get_json_data env rq) (\<lambda>data.
                 Inr \<lparr>sr_secret = secret, sr_uuid = uuid,
                      sr_cert_dn = get_client_cert_dn (env_load_asn1 env) (hp_meta rq),
                      sr_user_agent = ua, sr_ip = ip_addr, sr_data = data\<rparr>)))"

definition sync_handle :: "santa_env \<Rightarrow> sync_view \<Rightarrow> sync_request \<Rightarrow> sync_state \<Rightarrow> (pyerror + dict) \<times> sync_state" where
  "sync_handle env view rq st =
     (case authorize env view rq st of
        (Inl e, evs) \<Rightarrow> (Inl e, st\<lparr>sy_events := sy_events st @ evs\<rparr>)
      | (Inr ((lm, tags), db, cache), evs) \<Rightarrow>
          (let cache' = (if view = Postflight then dict_del (cache_key (sr_secret rq) (sr_uuid rq)) cache else cache) in
           case do_post env view rq lm tags db of
             (Inl e, evs') \<Rightarrow> (Inl e, st\<lparr>sy_cache := cache', sy_events := sy_events st @ evs @ evs'\<rparr>)
           | (Inr (response, db'), evs') \<Rightarrow>
               (Inr response, \<lparr>sy_db = db', sy_cache = cache', sy_events = sy_events st @ evs @ evs'\<rparr>)))"

definition sync_post ::
  "santa_env \<Rightarrow> sync_view \<Rightarrow> string \<Rightarrow> string \<Rightarrow> http_post \<Rightarrow> sync_state \<Rightarrow> (pyerror + dict) \<times> sync_state" where
  "sync_post env view secret machine_id rq st =
     (case sync_request_of env secret machine_id rq of
        Inl e \<Rightarrow> (Inl e, st)
      | Inr r \<Rightarrow> sync_handle env view r st)"

end
