(* ===== verification/SantaEnroll.thy ===== *)
theory SantaEnroll imports SantaViews SantaSync begin

text \<open>
  What the sync API keeps of the tables: one row per machine, and rules only of machines that
  exist. Which machines are let in, and what a preflight that fails leaves behind.
\<close>

subsection \<open>One machine per hardware\<close>

definition sync_inv :: "santa_db \<Rightarrow> bool" where
  "sync_inv db \<longleftrightarrow>
     distinct (map em_pk (sd_machines db)) \<and> distinct (map em_hardware_uuid (sd_machines db)) \<and>
     distinct (map machine_rule_key (st_machine_rules (sd_tables db))) \<and>
     mr_machine ` set (st_machine_rules (sd_tables db)) \<subseteq> em_pk ` set (sd_machines db)"

text \<open>
  A run of the server: requests at any time, and changes of everything else, which leave the
  machines and their rules alone.
\<close>

inductive sync_reachable :: "sync_state \<Rightarrow> bool" where
  start: "sd_machines (sy_db st) = [] \<Longrightarrow> st_machine_rules (sd_tables (sy_db st)) = [] \<Longrightarrow> sync_reachable st"
| request: "sync_reachable st \<Longrightarrow> sync_post env v secret machine_id rq st = (answer, st') \<Longrightarrow> sync_reachable st'"
| admin: "sync_reachable st \<Longrightarrow> sd_machines db = sd_machines (sy_db st) \<Longrightarrow>
    st_machine_rules (sd_tables db) = st_machine_rules (sd_tables (sy_db st)) \<Longrightarrow>
    sync_reachable \<lparr>sy_db = db, sy_cache = sy_cache st, sy_events = sy_events st\<rparr>"

lemma upsert_map:
  assumes "\<And>r. f (app d r) = f r" "k \<in> key ` set rows"
  shows "map f (upsert key mk app k d rows) = map f rows"
  using assms(2) by (induction rows) (auto simp: assms(1))

lemma set_machine_values_simps [simp]:
  "em_pk (set_machine_values df m) = em_pk m"
  "em_hardware_uuid (set_machine_values df m) = em_hardware_uuid m"
  "em_enrollment (set_machine_values df m) = em_enrollment m"
  by (simp_all add: set_machine_values_def)

lemma machine_row_in:
  assumes "(en, uuid) \<in> machine_key ` set (sd_machines db)"
  shows "machine_row en uuid db \<in> set (sd_machines db)" "machine_key (machine_row en uuid db) = (en, uuid)"
proof -
  let ?rows = "filter (\<lambda>m. machine_key m = (en, uuid)) (sd_machines db)"
  have "?rows \<noteq> []" using assms by (auto simp: filter_empty_conv)
  then have "hd ?rows \<in> set ?rows" by (rule hd_in_set)
  then show "machine_row en uuid db \<in> set (sd_machines db)" "machine_key (machine_row en uuid db) = (en, uuid)"
    by (simp_all add: machine_row_def)
qed

lemma new_machine_pk: "em_pk (new_machine k (pk, df)) = pk"
  by (cases k) (simp add: new_machine_def)

text \<open>The machines after an enrollment, the rows of other hardware unchanged.\<close>

lemma enrolled_rows:
  assumes pk: "distinct (map em_pk rows)" and hw: "distinct (map em_hardware_uuid rows)"
    and r: "rows' = upsert_machine (en, uuid) (fresh_pk (map em_pk rows), df) rows"
    and m: "m \<in> set rows'" "machine_key m = (en, uuid)"
  shows "distinct (map em_pk rows')" "distinct (map em_hardware_uuid (delete_where (other_machine m) rows'))"
    "em_pk ` set rows \<subseteq> em_pk ` set rows'"
proof -
  have "distinct (map em_pk rows') \<and> distinct (map em_hardware_uuid (delete_where (other_machine m) rows')) \<and>
    em_pk ` set rows \<subseteq> em_pk ` set rows'"
  proof (cases "(en, uuid) \<in> machine_key ` set rows")
    case True
    have p: "map em_pk rows' = map em_pk rows" "map em_hardware_uuid rows' = map em_hardware_uuid rows"
      unfolding r by (rule upsert_map; use True in simp)+
    have "distinct (map em_hardware_uuid rows')" using hw p(2) by simp
    then have "distinct (map em_hardware_uuid (delete_where (other_machine m) rows'))"
      by (simp add: delete_where_def distinct_map_filter)
    moreover have "em_pk ` set rows' = em_pk ` set rows" using p(1) by (metis set_map)
    ultimately show ?thesis using pk p(1) by simp
  next
    case False
    let ?new = "new_machine (en, uuid) (fresh_pk (map em_pk rows), df)"
    have rows': "rows' = rows @ [?new]"
      unfolding r by (rule enrolled_machines.upsert_created) (use False in simp)
    have new: "em_pk ?new = fresh_pk (map em_pk rows)" "em_hardware_uuid ?new = uuid"
      by (simp_all add: new_machine_def)
    have "m = ?new" using m False rows' by (auto simp: rev_image_eqI)
    then have d: "delete_where (other_machine m) rows' = delete_where (other_machine m) rows @ [m]"
      by (simp add: rows' delete_where_def other_machine_def)
    have old: "em_hardware_uuid o' \<noteq> uuid" if "o' \<in> set (delete_where (other_machine m) rows)" for o'
    proof -
      have "em_pk o' \<in> set (map em_pk rows)" using that by (auto simp: delete_where_def)
      then have "em_pk o' \<noteq> em_pk m" using fresh_pk_new \<open>m = ?new\<close> new(1) by metis
      then show ?thesis using that m(2) by (auto simp: delete_where_def other_machine_def machine_key_def)
    qed
    then have "uuid \<notin> em_hardware_uuid ` set (delete_where (other_machine m) rows)" by blast
    moreover have "distinct (map em_hardware_uuid (delete_where (other_machine m) rows))"
      using hw by (simp add: delete_where_def distinct_map_filter)
    moreover have "em_hardware_uuid m = uuid" using m(2) by (simp add: machine_key_def)
    ultimately have "distinct (map em_hardware_uuid (delete_where (other_machine m) rows'))"
      unfolding d by simp
    moreover have "fresh_pk (map em_pk rows) \<notin> set (map em_pk rows)" by (rule fresh_pk_new)
    then have "distinct (map em_pk rows')" using pk by (simp add: rows' new)
    ultimately show ?thesis by (auto simp: rows')
  qed
  then show "distinct (map em_pk rows')" "distinct (map em_hardware_uuid (delete_where (other_machine m) rows'))"
    "em_pk ` set rows \<subseteq> em_pk ` set rows'" by blast+
qed

lemma delete_other_machines_inv:
  assumes "distinct (map em_pk (sd_machines db))"
    and "distinct (map em_hardware_uuid (delete_where (other_machine m) (sd_machines db)))"
    and "distinct (map machine_rule_key (st_machine_rules (sd_tables db)))"
    and sub: "mr_machine ` set (st_machine_rules (sd_tables db)) \<subseteq> em_pk ` set (sd_machines db)"
  shows "sync_inv (delete_other_machines m db)"
proof -
  let ?rows = "sd_machines db" and ?rules = "st_machine_rules (sd_tables db)"
  let ?gone = "em_pk ` {o' \<in> set ?rows. other_machine m o'}"
  have "mr_machine mr \<in> em_pk ` set (delete_where (other_machine m) ?rows)"
    if "mr \<in> set ?rules" "mr_machine mr \<notin> ?gone" for mr
  proof -
    have "mr_machine mr \<in> em_pk ` set ?rows" by (rule subsetD [OF sub imageI [OF that(1)]])
    then obtain o' where "mr_machine mr = em_pk o'" "o' \<in> set ?rows" by (rule imageE)
    moreover have "o' \<notin> {o' \<in> set ?rows. other_machine m o'}" using that(2) \<open>mr_machine mr = em_pk o'\<close> by (metis imageI)
    ultimately show ?thesis by (simp add: set_delete_where)
  qed
  then have "mr_machine ` set (delete_where (\<lambda>mr. mr_machine mr \<in> ?gone) ?rules) \<subseteq>
    em_pk ` set (delete_where (other_machine m) ?rows)"
    unfolding set_delete_where by blast
  moreover have "set (map em_pk (filter (other_machine m) ?rows)) = ?gone" by simp
  moreover have "distinct (map em_pk (delete_where (other_machine m) ?rows))"
    "distinct (map machine_rule_key (delete_where (\<lambda>mr. mr_machine mr \<in> ?gone) ?rules))"
    using assms(1,3) by (simp_all add: delete_where_def distinct_map_filter)
  ultimately show ?thesis
    using assms(2) unfolding sync_inv_def delete_other_machines_def Let_def by simp
qed

lemma enroll_rows_inv:
  assumes "sync_inv db"
  shows "sync_inv (enroll_rows en es uuid df db)"
proof -
  let ?db1 = "update_or_create_machine en uuid df db"
  let ?m = "machine_row en uuid ?db1" and ?rows = "sd_machines ?db1"
  have r: "?rows = upsert_machine (en, uuid) (fresh_pk (map em_pk (sd_machines db)), df) (sd_machines db)"
    by (simp add: update_or_create_machine_def)
  have "(en, uuid) \<in> machine_key ` set ?rows"
    unfolding r using enrolled_machines.keys_upsert [of "(en, uuid)"] by (metis insertI1 set_map)
  note m = machine_row_in [OF this]
  have pk: "distinct (map em_pk (sd_machines db))" and hw: "distinct (map em_hardware_uuid (sd_machines db))"
    using assms by (simp_all add: sync_inv_def)
  note rows = enrolled_rows [OF pk hw r m]
  have t: "sd_tables ?db1 = sd_tables db" by (simp add: update_or_create_machine_def)
  have "mr_machine ` set (st_machine_rules (sd_tables db)) \<subseteq> em_pk ` set ?rows"
    using assms rows(3) unfolding sync_inv_def by blast
  with assms rows(1,2) t show ?thesis
    unfolding enroll_rows_def Let_def
    by (intro delete_other_machines_inv) (simp_all add: add_machine_tags_def sync_inv_def)
qed

text \<open>A machine found by the view is a row of the table.\<close>

lemma base_get_in:
  assumes "base_get_enrolled_machine rq db = Inr (Some lm)"
  shows "lm_machine lm \<in> set (sd_machines db)" "em_hardware_uuid (lm_machine lm) = sr_uuid rq"
    "load_machine db (lm_machine lm) = Inr lm" "\<not> missing_certificate (lm_configuration lm) rq"
    "\<exists>en \<in> set (enrollments (sd_enrollment_db db)). enr_pk en = em_enrollment (lm_machine lm) \<and>
       enrollment_has_secret (sr_secret rq) (sd_enrollment_db db) en"
proof -
  obtain m where m: "get_one (\<lambda>m. em_hardware_uuid m = sr_uuid rq \<and>
      list_ex (\<lambda>en. enr_pk en = em_enrollment m \<and> enrollment_has_secret (sr_secret rq) (sd_enrollment_db db) en)
        (enrollments (sd_enrollment_db db))) (sd_machines db) = Inr m"
    and l: "load_machine db m = Inr lm" "\<not> missing_certificate (lm_configuration lm) rq"
    using assms by (auto simp: base_get_enrolled_machine_def bind_result_Inr
        split: sum.splits pyerror.splits if_splits)
  have "lm_machine lm = m" using l(1) by (auto simp: load_machine_def bind_result_Inr)
  with l get_one_Inr [OF m]
  show "lm_machine lm \<in> set (sd_machines db)" "em_hardware_uuid (lm_machine lm) = sr_uuid rq"
    "load_machine db (lm_machine lm) = Inr lm" "\<not> missing_certificate (lm_configuration lm) rq"
    "\<exists>en \<in> set (enrollments (sd_enrollment_db db)). enr_pk en = em_enrollment (lm_machine lm) \<and>
       enrollment_has_secret (sr_secret rq) (sd_enrollment_db db) en"
    by (simp_all add: list_ex_iff)
qed

text \<open>What an enrollment that succeeds does to the tables.\<close>

lemma enroll_verified_configuration:
  "enroll_verified env rq en es c d db = (Inr (lm, db'), evs) \<Longrightarrow> c = lm_configuration lm"
  by (auto simp: enroll_verified_def bind_posted_Inr quiet_Inr Let_def)

lemma enroll_verified_Inr:
  assumes "enroll_verified env rq en es c d db = (Inr (lm, db'), evs)"
  shows "\<exists>df. db' = enroll_rows (enr_pk en) es (sr_uuid rq) df db \<and>
    lm_machine lm = machine_row (enr_pk en) (sr_uuid rq) (update_or_create_machine (enr_pk en) (sr_uuid rq) df db)"
proof -
  obtain df evs' where "(let db1 = update_or_create_machine (enr_pk en) (sr_uuid rq) df db;
            m = machine_row (enr_pk en) (sr_uuid rq) db1;
            action = (if list_ex (other_machine m) (sd_machines db1) then ''re-enrollment'' else ''enrollment'')
        in (Inr (\<lparr>lm_machine = m, lm_secret = es, lm_configuration = c\<rparr>,
                 enroll_rows (enr_pk en) es (sr_uuid rq) df db) :: pyerror + loaded_machine \<times> santa_db,
            machine_event SantaEnrollmentEvent env 1 (em_serial_number m) rq [(''action'', PStr action)])) =
      (Inr (lm, db'), evs')"
    using assms unfolding enroll_verified_def bind_posted_Inr by blast
  then have "lm = \<lparr>lm_machine = machine_row (enr_pk en) (sr_uuid rq) (update_or_create_machine (enr_pk en) (sr_uuid rq) df db),
      lm_secret = es, lm_configuration = c\<rparr>" "db' = enroll_rows (enr_pk en) es (sr_uuid rq) df db"
    unfolding Let_def prod.inject sum.inject by blast+
  then show ?thesis by (metis loaded_machine.select_convs(1))
qed

lemma enroll_machine_Inr:
  assumes "enroll_machine env rq db = (Inr (lm, db'), evs)"
  shows "\<exists>en es df edb. en \<in> set (enrollments (sd_enrollment_db db)) \<and>
    enrollment_has_secret (sr_secret rq) (sd_enrollment_db db) en \<and>
    enrollment_configuration db en = Inr (lm_configuration lm) \<and>
    \<not> missing_certificate (lm_configuration lm) rq \<and>
    db' = enroll_rows (enr_pk en) es (sr_uuid rq) df (db\<lparr>sd_enrollment_db := edb\<rparr>) \<and>
    lm_machine lm = machine_row (enr_pk en) (sr_uuid rq)
      (update_or_create_machine (enr_pk en) (sr_uuid rq) df (db\<lparr>sd_enrollment_db := edb\<rparr>))"
proof (cases "get_one (enrollment_has_secret (sr_secret rq) (sd_enrollment_db db)) (enrollments (sd_enrollment_db db))")
  case (Inl e)
  then show ?thesis using assms by (cases e) (simp_all add: enroll_machine_def)
next
  case (Inr en)
  from get_one_Inr [OF Inr]
  have en: "en \<in> set (enrollments (sd_enrollment_db db))" "enrollment_has_secret (sr_secret rq) (sd_enrollment_db db) en"
    by simp_all
  obtain c es d edb evs' where c: "enrollment_configuration db en = Inr c" "\<not> missing_certificate c rq"
    and v: "enroll_verified env rq en es c d (db\<lparr>sd_enrollment_db := edb\<rparr>) = (Inr (lm, db'), evs')"
    using assms by (auto simp: enroll_machine_def Inr bind_posted_Inr quiet_Inr split: if_splits)
  have "c = lm_configuration lm" by (rule enroll_verified_configuration [OF v])
  then show ?thesis
    using enroll_verified_Inr [OF v] en c by blast
qed

lemma preflight_get_Inr:
  assumes "preflight_get_enrolled_machine env rq db = (Inr (lm, db'), evs)"
  shows "(\<exists>evs'. base_get_enrolled_machine rq db = Inr None \<and> enroll_machine env rq db = (Inr (lm, db'), evs')) \<or>
    (\<exists>lm0 df m. base_get_enrolled_machine rq db = Inr (Some lm0) \<and> m = set_machine_values df (lm_machine lm0) \<and>
       lm = lm0\<lparr>lm_machine := m\<rparr> \<and> (db' = db \<or> db' = save_machine m db))"
proof -
  obtain found evs' where f: "base_get_enrolled_machine rq db = Inr found"
    and r: "(case found of None \<Rightarrow> enroll_machine env rq db
      | Some lm \<Rightarrow>
           bind_posted (quiet (bind_result (request_dict rq) get_enrolled_machine_defaults)) (\<lambda>df.
             (let m = set_machine_values df (lm_machine lm) in
              quiet (Inr (lm\<lparr>lm_machine := m\<rparr>, if m = lm_machine lm then db else save_machine m db))))) =
      (Inr (lm, db'), evs')"
    using assms by (auto simp: preflight_get_enrolled_machine_def bind_posted_Inr quiet_Inr)
  show ?thesis
  proof (cases found)
    case None
    then show ?thesis using f r by auto
  next
    case (Some lm0)
    then obtain df where "lm = lm0\<lparr>lm_machine := set_machine_values df (lm_machine lm0)\<rparr>"
      "db' = (if set_machine_values df (lm_machine lm0) = lm_machine lm0 then db
         else save_machine (set_machine_values df (lm_machine lm0)) db)"
      using r by (auto simp: bind_posted_Inr quiet_Inr Let_def)
    then show ?thesis using f Some by metis
  qed
qed

lemma save_machine_inv:
  assumes "sync_inv db" "m0 \<in> set (sd_machines db)"
  shows "sync_inv (save_machine (set_machine_values df m0) db)"
proof -
  let ?rows = "update_where (\<lambda>r. em_pk r = em_pk m0) (\<lambda>_. set_machine_values df m0) (sd_machines db)"
  have "r = m0" if "r \<in> set (sd_machines db)" "em_pk r = em_pk m0" for r
    using assms that by (intro distinct_map_eqD [of em_pk]) (simp_all add: sync_inv_def)
  then have p: "map em_pk ?rows = map em_pk (sd_machines db)"
    "map em_hardware_uuid ?rows = map em_hardware_uuid (sd_machines db)"
    by (auto simp: update_where_def)
  then have "em_pk ` set ?rows = em_pk ` set (sd_machines db)" by (metis set_map)
  with p show ?thesis using assms(1) by (simp add: sync_inv_def save_machine_def)
qed

lemma preflight_get_inv:
  assumes "sync_inv db" "preflight_get_enrolled_machine env rq db = (Inr (lm, db'), evs)"
  shows "sync_inv db'"
  using preflight_get_Inr [OF assms(2)]
proof (elim disjE exE conjE)
  fix evs' assume "enroll_machine env rq db = (Inr (lm, db'), evs')"
  then obtain en es df edb where "db' = enroll_rows en es (sr_uuid rq) df (db\<lparr>sd_enrollment_db := edb\<rparr>)"
    using enroll_machine_Inr by blast
  moreover have "sync_inv (db\<lparr>sd_enrollment_db := edb\<rparr>)" using assms(1) by (simp add: sync_inv_def)
  ultimately show ?thesis using enroll_rows_inv by simp
next
  fix lm0 df m
  assume "base_get_enrolled_machine rq db = Inr (Some lm0)" "m = set_machine_values df (lm_machine lm0)"
    "db' = save_machine m db"
  then show ?thesis using save_machine_inv [OF assms(1)] base_get_in(1) by blast
qed (use assms(1) in simp)

text \<open>The rules of a batch keep their keys apart, and a batch that is not empty writes some.\<close>

lemma send_rules_rows:
  "send_rules db pk nc changes rows = Inr (ds, rows') \<Longrightarrow>
   (distinct (map machine_rule_key rows) \<longrightarrow> distinct (map machine_rule_key rows')) \<and>
   machine_rule_key ` set rows \<subseteq> machine_rule_key ` set rows' \<and>
   (ds \<noteq> [] \<longrightarrow> (\<exists>mr \<in> set rows'. mr_machine mr = pk))"
proof (induction changes arbitrary: rows ds)
  case (Cons x changes)
  obtain t er where x: "x = (t, er)" by fastforce
  let ?rows = "upsert_machine_rule (pk, tg_pk t) (xr_policy er, xr_version er, nc) rows"
  obtain ds' where s: "send_rules db pk nc changes ?rows = Inr (ds', rows')"
    using Cons.prems by (auto simp: x bind_result_Inr)
  have k: "machine_rule_key ` set ?rows = insert (pk, tg_pk t) (machine_rule_key ` set rows)"
    using machine_rules.keys_upsert [of "(pk, tg_pk t)" _ rows] by simp
  have IH: "distinct (map machine_rule_key ?rows) \<longrightarrow> distinct (map machine_rule_key rows')"
    "insert (pk, tg_pk t) (machine_rule_key ` set rows) \<subseteq> machine_rule_key ` set rows'"
    using Cons.IH [OF s] unfolding k by blast+
  have "(pk, tg_pk t) \<in> machine_rule_key ` set rows'" using IH(2) by simp
  then obtain mr where "(pk, tg_pk t) = machine_rule_key mr" "mr \<in> set rows'" by (rule imageE)
  then have "\<exists>mr \<in> set rows'. mr_machine mr = pk" by (auto simp: machine_rule_key_def)
  moreover have "distinct (map machine_rule_key rows')" if "distinct (map machine_rule_key rows)"
    using IH(1) machine_rules.distinct_upsert [OF that] by simp
  moreover have "machine_rule_key ` set rows \<subseteq> machine_rule_key ` set rows'" using IH(2) by simp
  ultimately show ?case by simp
qed simp

lemma get_next_rule_batch_rows:
  assumes "get_next_rule_batch c m tags cursor nc db = Inr ((rules, next_cursor), db')"
  shows "distinct (map machine_rule_key (st_machine_rules db)) \<Longrightarrow> distinct (map machine_rule_key (st_machine_rules db'))"
    and "rules \<noteq> [] \<Longrightarrow> \<exists>mr \<in> set (st_machine_rules db'). mr_machine mr = em_pk m"
proof -
  obtain rows where s: "send_rules (settled_tables m cursor db) (em_pk m) nc
      (iter_new_rules c m tags (settled_tables m cursor db)) (st_machine_rules (settled_tables m cursor db)) =
        Inr (rules, rows)" "db' = (settled_tables m cursor db)\<lparr>st_machine_rules := rows\<rparr>"
    using get_next_rule_batch_runs [OF assms] by blast
  show "distinct (map machine_rule_key (st_machine_rules db'))" if "distinct (map machine_rule_key (st_machine_rules db))"
    using send_rules_rows [OF s(1)] distinct_settle [OF that] s(2) by (simp add: settled_tables_def)
  show "\<exists>mr \<in> set (st_machine_rules db'). mr_machine mr = em_pk m" if "rules \<noteq> []"
    using send_rules_rows [OF s(1)] that s(2) by simp
qed

text \<open>An upload of events does not touch the rules.\<close>

lemma get_or_create_target_rules:
  "get_or_create_target ty sha db = (t, db') \<Longrightarrow> st_machine_rules db' = st_machine_rules db"
  by (auto simp: get_or_create_target_def Let_def split: option.splits)

lemma get_or_create_bundle_rules:
  "get_or_create_bundle t d db = Inr db' \<Longrightarrow> st_machine_rules db' = st_machine_rules db"
  by (auto simp: get_or_create_bundle_def bind_result_Inr split: if_splits)

lemma create_bundles_rules:
  "create_bundles bs db = Inr db' \<Longrightarrow> st_machine_rules db' = st_machine_rules db"
proof (induction bs arbitrary: db)
  case (Cons x bs)
  obtain sha d where x: "x = (sha, d)" by fastforce
  obtain t db1 where t: "get_or_create_target BUNDLE sha db = (t, db1)" by fastforce
  obtain db2 where "get_or_create_bundle t d db1 = Inr db2" "create_bundles bs db2 = Inr db'"
    using Cons.prems x t by (auto simp: bind_result_Inr)
  with Cons.IH get_or_create_bundle_rules get_or_create_target_rules [OF t] show ?case by metis
qed simp

lemma binary_targets_loop_rules:
  "binary_targets_loop ds n ts db = Inr (r, db') \<Longrightarrow> st_machine_rules db' = st_machine_rules db"
proof (induction ds arbitrary: n ts db)
  case (Cons d ds)
  obtain n' where n': "(if n = 0 \<and> truthy (get_default d ''file_bundle_binary_count'')
      then count_value (get_default d ''file_bundle_binary_count'') else Inr n) = Inr n'"
    using Cons.prems by (auto simp: bind_result_Inr simp del: binary_targets_loop.simps(1))
  obtain sha where sha: "get_default d ''file_sha256'' = PStr sha"
    using Cons.prems n' by (auto split: pyval.splits)
  obtain t db1 where t: "get_or_create_target BINARY sha db = (t, db1)" by fastforce
  have "binary_targets_loop ds n' (ts @ [tg_pk t]) db1 = Inr (r, db')"
    using Cons.prems n' sha t by simp
  with Cons.IH get_or_create_target_rules [OF t] show ?case by metis
qed simp

lemma create_bundle_binaries_rules:
  "create_bundle_binaries_of now bs db = Inr db' \<Longrightarrow> st_machine_rules db' = st_machine_rules db"
proof (induction now bs db rule: create_bundle_binaries_of.induct)
  case (2 now sha events r db)
  show ?case
  proof (cases "find_bundle sha db")
    case (Inl e)
    then show ?thesis using 2 by (cases e) auto
  next
    case (Inr b)
    show ?thesis
    proof (cases "bd_uploaded_at b = None")
      case True
      obtain n ts db1 where b: "binary_targets_loop events (bd_binary_count b) [] db = Inr ((n, ts), db1)"
        using 2(4) Inr True by (auto simp: bind_result_Inr)
      have "create_bundle_binaries_of now r (save_bundle (finish_bundle now b n ts) db1) = Inr db'"
        using 2(4) Inr True b by simp
      then have "st_machine_rules db' = st_machine_rules (save_bundle (finish_bundle now b n ts) db1)"
        using 2(3) [OF Inr] True by simp
      then show ?thesis using binary_targets_loop_rules [OF b] by (simp add: save_bundle_def)
    qed (use 2 Inr in simp)
  qed
qed simp

lemma process_events_rules:
  assumes "process_events u now sn ua a data db = Inr up"
  shows "st_machine_rules (su_tables up) = st_machine_rules db"
proof -
  obtain events where e: "upload_events data = Inr events" using assms by (auto simp: process_events_def bind_result_Inr)
  show ?thesis
  proof (cases "events = []")
    case False
    obtain unknown db1 db2 where c: "create_missing_bundles events db = Inr (unknown, db1)"
      "create_bundle_binaries now events db1 = Inr db2" "su_tables up = db2"
      using assms e False by (auto simp: process_events_def bind_result_Inr)
    have "st_machine_rules db1 = st_machine_rules db"
      using c(1) create_bundles_rules by (auto simp: create_missing_bundles_def Let_def bind_result_Inr split: if_splits)
    then show ?thesis using create_bundle_binaries_rules c(2,3) by (simp add: create_bundle_binaries_def)
  qed (use assms e in \<open>auto simp: process_events_def\<close>)
qed

lemma sync_inv_rules:
  "sync_inv db \<Longrightarrow> sd_machines db' = sd_machines db \<Longrightarrow>
   st_machine_rules (sd_tables db') = filter p (st_machine_rules (sd_tables db)) \<Longrightarrow> sync_inv db'"
  by (auto simp: sync_inv_def distinct_map_filter)

lemma sync_inv_same:
  "sync_inv db \<Longrightarrow> sd_machines db' = sd_machines db \<Longrightarrow>
   st_machine_rules (sd_tables db') = st_machine_rules (sd_tables db) \<Longrightarrow> sync_inv db'"
  by (simp add: sync_inv_def)

lemma machine_rules_ok_iff:
  "machine_rules_ok db \<longleftrightarrow> mr_machine ` set (st_machine_rules (sd_tables db)) \<subseteq> em_pk ` set (sd_machines db)"
  unfolding machine_rules_ok_def list_all_iff list_ex_iff image_subset_iff image_iff by (simp add: eq_commute)

lemma rule_download_inv:
  assumes "sync_inv db" "rule_download_do_post env rq lm tags db = Inr (response, db')"
  shows "sync_inv db'"
proof -
  obtain cursor rules next_cursor tables where
    b: "get_next_rule_batch (lm_configuration lm) (lm_machine lm) tags cursor (env_cursor env) (sd_tables db) =
      Inr ((rules, next_cursor), tables)"
    and ok: "machine_rules_ok (db\<lparr>sd_tables := tables\<rparr>)" and db': "db' = db\<lparr>sd_tables := tables\<rparr>"
    using assms(2) by (auto simp: rule_download_do_post_def bind_result_Inr Let_def split: if_splits)
  have "distinct (map machine_rule_key (st_machine_rules tables))"
    by (rule get_next_rule_batch_rows(1) [OF b]) (use assms(1) in \<open>simp add: sync_inv_def\<close>)
  moreover have "mr_machine ` set (st_machine_rules tables) \<subseteq> em_pk ` set (sd_machines db)"
    using ok by (simp add: machine_rules_ok_iff)
  ultimately show ?thesis using assms(1) by (simp add: db' sync_inv_def)
qed

lemma preflight_do_post_inv:
  assumes "sync_inv db" "preflight_do_post env rq lm db = (Inr (response, db'), evs)"
  shows "sync_inv db'"
proof -
  obtain tree where "db' = db\<lparr>sd_trees := tree\<rparr> \<or>
    db' = db\<lparr>sd_trees := tree, sd_tables := (sd_tables db)\<lparr>st_machine_rules :=
      delete_where (\<lambda>mr. mr_machine mr = em_pk (lm_machine lm)) (st_machine_rules (sd_tables db))\<rparr>\<rparr>"
    using assms(2) by (auto simp: preflight_do_post_def Let_def bind_posted_Inr quiet_Inr split: if_splits)
  then show ?thesis
  proof
    assume "db' = db\<lparr>sd_trees := tree\<rparr>"
    then show ?thesis by (intro sync_inv_same [OF assms(1)]) simp_all
  next
    assume "db' = db\<lparr>sd_trees := tree, sd_tables := (sd_tables db)\<lparr>st_machine_rules :=
      delete_where (\<lambda>mr. mr_machine mr = em_pk (lm_machine lm)) (st_machine_rules (sd_tables db))\<rparr>\<rparr>"
    then show ?thesis by (intro sync_inv_rules [OF assms(1)]) (simp_all add: delete_where_def)
  qed
qed

lemma do_post_inv:
  assumes "sync_inv db" "do_post env v rq lm tags db = (Inr (response, db'), evs)"
  shows "sync_inv db'"
proof (cases v)
  case Preflight
  then show ?thesis using assms preflight_do_post_inv by (auto simp: do_post_def)
next
  case RuleDownload
  then show ?thesis using assms rule_download_inv by (auto simp: do_post_def quiet_Inr)
next
  case EventUpload
  then have e: "event_upload_do_post env rq lm db = (Inr (response, db'), evs)" using assms(2) by (simp add: do_post_def)
  then obtain d where d: "request_dict rq = Inr d"
    unfolding event_upload_do_post_def bind_posted_Inr quiet_Inr by blast
  show ?thesis
  proof (cases "process_events (env_uuid env 2) (env_now env) (em_serial_number (lm_machine lm))
      (Some (sr_user_agent rq)) (Some (sr_ip rq)) (Some d) (sd_tables db)")
    case (Inl err)
    then show ?thesis using e d by (simp add: event_upload_do_post_def quiet_def bind_posted_def)
  next
    case (Inr up)
    then have "db' = db\<lparr>sd_tables := su_tables up, sd_trees := sd_trees db @ su_files up\<rparr>"
      using e d by (simp add: event_upload_do_post_def quiet_def bind_posted_def)
    then show ?thesis using process_events_rules [OF Inr] by (intro sync_inv_same [OF assms(1)]) simp_all
  qed
next
  case Postflight
  then show ?thesis using assms by (simp add: do_post_def quiet_Inr)
qed

lemma authorize_inv:
  assumes "sync_inv (sy_db st)" "authorize env v rq st = (Inr ((lm, tags), db, cache), evs)"
  shows "sync_inv db"
proof -
  have "db = sy_db st \<or> (\<exists>evs. preflight_get_enrolled_machine env rq (sy_db st) = (Inr (lm, db), evs))"
    using assms(2)
    by (auto simp: authorize_def Let_def bind_posted_Inr quiet_Inr bind_result_Inr split: option.splits if_splits)
  then show ?thesis using assms(1) preflight_get_inv by blast
qed

lemma sync_post_inv:
  assumes "sync_inv (sy_db st)" "sync_post env v secret machine_id rq st = (answer, st')"
  shows "sync_inv (sy_db st')"
proof (cases "sync_request_of env secret machine_id rq")
  case (Inr r)
  then have h: "sync_handle env v r st = (answer, st')" using assms(2) by (simp add: sync_post_def)
  show ?thesis
  proof (cases "authorize env v r st")
    case (Pair a evs)
    show ?thesis
    proof (cases a)
      case (Inr x)
      obtain lm tags db cache where x: "x = ((lm, tags), db, cache)" by (cases x) auto
      have db: "sync_inv db" using authorize_inv [OF assms(1)] Pair Inr x by blast
      obtain y evs' where y: "do_post env v r lm tags db = (y, evs')" by fastforce
      show ?thesis
        using h assms(1) do_post_inv [OF db] y
        by (cases y) (auto simp: sync_handle_def Pair Inr x Let_def)
    qed (use h assms(1) Pair in \<open>auto simp: sync_handle_def\<close>)
  qed
qed (use assms in \<open>simp add: sync_post_def\<close>)

text \<open>
  C8: Whatever requests the clients send, in whatever order, with the administrators changing the
  rest of the database in between: a piece of hardware is at most one machine, a machine has at
  most one rule for a target, and every rule kept for a machine is of a machine that is still
  there.
\<close>

theorem one_machine_per_hardware:
  assumes "sync_reachable st"
  shows "distinct (map em_hardware_uuid (sd_machines (sy_db st))) \<and>
    distinct (map (\<lambda>mr. (mr_machine mr, mr_target mr)) (st_machine_rules (sd_tables (sy_db st)))) \<and>
    (\<forall>mr \<in> set (st_machine_rules (sd_tables (sy_db st))). \<exists>!m. m \<in> set (sd_machines (sy_db st)) \<and> em_pk m = mr_machine mr)"
proof -
  have inv: "sync_inv (sy_db st)"
    using assms
  proof induction
    case (start st)
    then show ?case by (simp add: sync_inv_def)
  next
    case (request st env v secret machine_id rq answer st')
    then show ?case using sync_post_inv by blast
  next
    case (admin st db)
    then show ?case by (simp add: sync_inv_def)
  qed
  have "\<exists>!m. m \<in> set (sd_machines (sy_db st)) \<and> em_pk m = mr_machine mr"
    if "mr \<in> set (st_machine_rules (sd_tables (sy_db st)))" for mr
  proof -
    have "mr_machine mr \<in> em_pk ` set (sd_machines (sy_db st))"
      by (rule subsetD [OF _ imageI [OF that]]) (use inv in \<open>simp add: sync_inv_def\<close>)
    then obtain m where "mr_machine mr = em_pk m" "m \<in> set (sd_machines (sy_db st))" by (rule imageE)
    moreover have "distinct (map em_pk (sd_machines (sy_db st)))" using inv by (simp add: sync_inv_def)
    ultimately show ?thesis using distinct_map_eqD [of em_pk] by metis
  qed
  then show ?thesis using inv by (simp add: sync_inv_def machine_rule_key_def [abs_def])
qed

subsection \<open>Who is let in\<close>

text \<open>An enrollment with the secret of the request, whose configuration wants no certificate.\<close>

definition open_enrollment :: "string \<Rightarrow> santa_db \<Rightarrow> bool" where
  "open_enrollment secret db \<longleftrightarrow>
     (\<exists>en \<in> set (enrollments (sd_enrollment_db db)). enrollment_has_secret secret (sd_enrollment_db db) en \<and>
        (\<exists>c. enrollment_configuration db en = Inr c \<and> \<not> sc_client_certificate_auth c))"

lemma get_one_same:
  assumes "get_one p rows = Inr r" "s \<in> set rows" "p s"
  shows "s = r"
proof -
  have "s \<in> set (filter p rows)" using assms(2,3) by simp
  then show ?thesis using get_one_Inr [OF assms(1)] by simp
qed

lemma base_get_open:
  assumes "base_get_enrolled_machine rq db = Inr (Some lm)" "sr_cert_dn rq = None \<or> sr_cert_dn rq = Some []"
  shows "open_enrollment (sr_secret rq) db"
proof -
  note found = base_get_in [OF assms(1)]
  obtain en where en: "en \<in> set (enrollments (sd_enrollment_db db))" "enr_pk en = em_enrollment (lm_machine lm)"
    "enrollment_has_secret (sr_secret rq) (sd_enrollment_db db) en"
    using found(5) by blast
  obtain en' es c where l: "machine_enrollment db (lm_machine lm) = Inr en'" "enrollment_configuration db en' = Inr c"
    and lm: "\<lparr>lm_machine = lm_machine lm, lm_secret = es, lm_configuration = c\<rparr> = lm"
    using found(3) unfolding load_machine_def bind_result_Inr sum.inject by blast
  have "en = en'"
    using get_one_same [OF l(1) [unfolded machine_enrollment_def] en(1)] en(2,3) by (simp add: enrollment_has_secret_def)
  moreover have "\<not> sc_client_certificate_auth c"
    using found(4) assms(2) arg_cong [OF lm, of lm_configuration] by (auto simp: missing_certificate_def)
  ultimately show ?thesis using en(1,3) l(2) by (auto simp: open_enrollment_def)
qed

lemma preflight_get_open:
  assumes "preflight_get_enrolled_machine env rq db = (Inr (lm, db'), evs)"
    and "sr_cert_dn rq = None \<or> sr_cert_dn rq = Some []"
  shows "open_enrollment (sr_secret rq) db"
  using preflight_get_Inr [OF assms(1)]
proof (elim disjE exE conjE)
  fix evs' assume "enroll_machine env rq db = (Inr (lm, db'), evs')"
  from enroll_machine_Inr [OF this] obtain en where "en \<in> set (enrollments (sd_enrollment_db db))"
    "enrollment_has_secret (sr_secret rq) (sd_enrollment_db db) en"
    "enrollment_configuration db en = Inr (lm_configuration lm)" "\<not> missing_certificate (lm_configuration lm) rq"
    by blast
  then show ?thesis using assms(2) by (auto simp: open_enrollment_def missing_certificate_def)
qed (use base_get_open [OF _ assms(2)] in blast)+


subsection \<open>A preflight that fails\<close>

text \<open>A machine enrolled by a request has a new primary key, unless a row had its key.\<close>

lemma enrolled_pk_new:
  assumes "base_get_enrolled_machine rq db = Inr None" "enroll_machine env rq db = (Inr (lm, db'), evs)"
  shows "em_pk (lm_machine lm) \<notin> em_pk ` set (sd_machines db)"
proof -
  obtain en df edb where en: "en \<in> set (enrollments (sd_enrollment_db db))"
      "enrollment_has_secret (sr_secret rq) (sd_enrollment_db db) en"
    and m: "lm_machine lm = machine_row (enr_pk en) (sr_uuid rq)
      (update_or_create_machine (enr_pk en) (sr_uuid rq) df (db\<lparr>sd_enrollment_db := edb\<rparr>))"
    using enroll_machine_Inr [OF assms(2)] by blast
  let ?p = "\<lambda>m. em_hardware_uuid m = sr_uuid rq \<and>
      list_ex (\<lambda>en. enr_pk en = em_enrollment m \<and> enrollment_has_secret (sr_secret rq) (sd_enrollment_db db) en)
        (enrollments (sd_enrollment_db db))"
  have "get_one ?p (sd_machines db) = Inl DoesNotExist"
    using assms(1) by (auto simp: base_get_enrolled_machine_def bind_result_Inr split: sum.splits pyerror.splits if_splits)
  then have none: "\<forall>m \<in> set (sd_machines db). \<not> ?p m" by (simp add: get_one_none)
  have absent: "(enr_pk en, sr_uuid rq) \<notin> machine_key ` set (sd_machines db)"
  proof
    assume "(enr_pk en, sr_uuid rq) \<in> machine_key ` set (sd_machines db)"
    then obtain m where k: "(enr_pk en, sr_uuid rq) = machine_key m" "m \<in> set (sd_machines db)" by (rule imageE)
    then have "?p m" using en by (auto simp: machine_key_def list_ex_iff)
    then show False using none k(2) by blast
  qed
  have "filter (\<lambda>m. machine_key m = (enr_pk en, sr_uuid rq)) (sd_machines db) = []"
    using absent by (force simp: filter_empty_conv)
  then have "lm_machine lm = new_machine (enr_pk en, sr_uuid rq) (fresh_pk (map em_pk (sd_machines db)), df)"
    using absent enrolled_machines.upsert_created [of "(enr_pk en, sr_uuid rq)" "sd_machines db"]
    by (simp add: m machine_row_def update_or_create_machine_def enrolled_machines.key_mk)
  then show ?thesis using fresh_pk_new by (metis new_machine_pk set_map)
qed

text \<open>
  A preflight that enrolls a machine and then raises enrolls nothing, but its machine stays in
  the cache. For ten minutes a request for its rules is not denied as one of a machine that is
  not enrolled: the rules are computed for a machine with a primary key no row has, and when there
  is a rule to send the request breaks on the foreign key.
\<close>

theorem failed_preflight_stays_cached:
  assumes fails: "sync_handle env Preflight rq st = (Inl e, st')"
    and enrolled: "authorize env Preflight rq st = (Inr ((lm, tags), db, cache), evs)"
    and new: "base_get_enrolled_machine rq (sy_db st) = Inr None"
    and later: "env_now env' < env_now env + 600" "sr_secret rq' = sr_secret rq" "sr_uuid rq' = sr_uuid rq"
      "\<not> missing_certificate (lm_configuration lm) rq'"
    and data: "request_dict rq' = Inr d" "request_cursor d = Inr cursor"
    and batch: "get_next_rule_batch (lm_configuration lm) (lm_machine lm) tags cursor (env_cursor env') (sd_tables (sy_db st)) =
      Inr ((rules, next_cursor), tables)" "rules \<noteq> []"
  shows "sy_db st' = sy_db st \<and> em_pk (lm_machine lm) \<notin> em_pk ` set (sd_machines (sy_db st)) \<and>
    fst (sync_handle env' RuleDownload rq' st') = Inl IntegrityError"
proof -
  obtain evs' where g: "preflight_get_enrolled_machine env rq (sy_db st) = (Inr (lm, db), evs')"
    and c: "cache = dict_set (cache_key (sr_secret rq) (sr_uuid rq))
      \<lparr>ce_loaded = lm, ce_tags = tags, ce_expires = env_now env + 600\<rparr> (sy_cache st)"
    using enrolled by (auto simp: authorize_def Let_def bind_posted_Inr quiet_Inr)
  have st': "sy_db st' = sy_db st" "sy_cache st' = cache"
    using fails by (auto simp: sync_handle_def enrolled Let_def split: prod.splits sum.splits)
  obtain evs2 where "enroll_machine env rq (sy_db st) = (Inr (lm, db), evs2)"
    using preflight_get_Inr [OF g] new by auto
  then have pk: "em_pk (lm_machine lm) \<notin> em_pk ` set (sd_machines (sy_db st))"
    by (rule enrolled_pk_new [OF new])
  have a: "authorize env' RuleDownload rq' st' = (Inr ((lm, tags), sy_db st, cache), [])"
    using later by (simp add: authorize_def Let_def st' c cache_get_def dict_get_set quiet_def)
  have "\<not> machine_rules_ok ((sy_db st)\<lparr>sd_tables := tables\<rparr>)"
  proof -
    obtain mr where mr: "mr \<in> set (st_machine_rules tables)" "mr_machine mr = em_pk (lm_machine lm)"
      using get_next_rule_batch_rows(2) [OF batch] by blast
    show ?thesis
    proof
      assume "machine_rules_ok ((sy_db st)\<lparr>sd_tables := tables\<rparr>)"
      then have "mr_machine ` set (st_machine_rules tables) \<subseteq> em_pk ` set (sd_machines (sy_db st))"
        by (simp add: machine_rules_ok_iff)
      from subsetD [OF this imageI [OF mr(1)]] show False using pk mr(2) by simp
    qed
  qed
  then have "rule_download_do_post env' rq' lm tags (sy_db st) = Inl IntegrityError"
    using data batch by (simp add: rule_download_do_post_def Let_def)
  then have "fst (sync_handle env' RuleDownload rq' st') = Inl IntegrityError"
    by (simp add: sync_handle_def a do_post_def quiet_def)
  then show ?thesis using st'(1) pk by blast
qed

subsection \<open>A run on sample tables\<close>

definition sample_request_data :: dict where
  "sample_request_data = [(''serial_num'', PStr ''SN1''), (''santa_version'', PStr ''2022.1''), (''hostname'', PStr ''mac'')]"

definition sample_os :: dict where
  "sample_os = [(''os_build'', PStr ''21A559''), (''os_version'', PStr ''12.0.1'')]"

definition sample_env :: santa_env where
  "sample_env =
     \<lparr>env_now = 50, env_uuid = (\<lambda>_. ''u''), env_random = (\<lambda>_. ''r''), env_cursor = ''c1'', env_valid_ip = (\<lambda>_. False),
      env_json_loads = (\<lambda>s. if s = ''full'' then Inr (PDict (sample_request_data @ sample_os))
         else if s = ''short'' then Inr (PDict sample_request_data) else Inr (PDict [])),
      env_decompress = (\<lambda>_. Inl ValueError), env_load_asn1 = (\<lambda>_. None), env_mbu_serialize = (\<lambda>_. []),
      env_business_unit = (\<lambda>_. None), env_mbu_tags = (\<lambda>_. [])\<rparr>"

definition sample_uuid :: string where
  "sample_uuid = ''c1a3ae5f-c1ce-4ec2-ae4d-5f37a9d10e32''"

definition sample_http_post :: "string \<Rightarrow> http_post" where
  "sample_http_post body = \<lparr>hp_meta = [(''REMOTE_ADDR'', ''1.2.3.4'')], hp_body = body\<rparr>"

definition sample_sync_state :: sync_state where
  "sample_sync_state =
     \<lparr>sy_db = \<lparr>sd_tables = (sample_santa_tables [sample_rule 1 BLOCKLIST])\<lparr>st_machine_rules := []\<rparr>,
        sd_machines = [], sd_configurations = [sample_santa_configuration],
        sd_enrollment_configurations = [(1, 1)], sd_enrollment_db = sample_enrollment_db,
        sd_machine_tags = [], sd_trees = []\<rparr>,
      sy_cache = [], sy_events = []\<rparr>"

definition sample_preflight :: "string \<Rightarrow> (pyerror + dict) \<times> sync_state" where
  "sample_preflight body = sync_post sample_env Preflight ''s3cr3t'' sample_uuid (sample_http_post body) sample_sync_state"

lemma sample_preflight_runs:
  "isl (fst (sample_preflight ''full'')) = False"
  "map em_hardware_uuid (sd_machines (sy_db (snd (sample_preflight ''full'')))) = [sample_uuid]"
  "map snd (projr (fst (sample_preflight ''full''))) \<noteq> []"
  by code_simp+

theorem one_machine_per_hardware_witness:
  "\<exists>st'. snd (sample_preflight ''full'') = st' \<and> map em_hardware_uuid (sd_machines (sy_db st')) = [sample_uuid] \<and>
     distinct (map em_hardware_uuid (sd_machines (sy_db st')))"
proof -
  obtain answer st' where p: "sample_preflight ''full'' = (answer, st')" by fastforce
  have "sync_reachable sample_sync_state"
    by (rule sync_reachable.start) (simp_all add: sample_sync_state_def)
  then have "sync_reachable st'"
    using p unfolding sample_preflight_def by (rule sync_reachable.request)
  then show ?thesis using one_machine_per_hardware [of st'] sample_preflight_runs(2) p by simp
qed


definition sample_sync_request :: "dict \<Rightarrow> sync_request" where
  "sample_sync_request d =
     \<lparr>sr_secret = ''s3cr3t'', sr_uuid = sample_uuid, sr_cert_dn = None, sr_user_agent = [], sr_ip = ''1.2.3.4'',
      sr_data = Some (PDict d)\<rparr>"

definition short_preflight :: "((loaded_machine \<times> nat list) \<times> santa_db \<times> (string \<times> cache_entry) list) posted" where
  "short_preflight = authorize sample_env Preflight (sample_sync_request sample_request_data) sample_sync_state"

definition short_batch :: "pyerror + (dict list \<times> string option) \<times> santa_tables" where
  "short_batch = (case fst (projr (fst short_preflight)) of (lm, tags) \<Rightarrow>
     get_next_rule_batch (lm_configuration lm) (lm_machine lm) tags None ''c1'' (sd_tables (sy_db sample_sync_state)))"

lemma short_preflight_runs:
  "isl (fst short_preflight) = False"
  "missing_certificate (lm_configuration (fst (fst (projr (fst short_preflight))))) (sample_sync_request []) = False"
  "isl short_batch = False"
  "(fst (fst (projr short_batch)) = []) = False"
  "fst (sync_handle sample_env Preflight (sample_sync_request sample_request_data) sample_sync_state) = Inl (KeyError ''os_build'')"
  by code_simp+

theorem failed_preflight_stays_cached_witness:
  "\<exists>st'. sync_handle sample_env Preflight (sample_sync_request sample_request_data) sample_sync_state =
      (Inl (KeyError ''os_build''), st') \<and> sd_machines (sy_db st') = [] \<and>
     fst (sync_handle sample_env RuleDownload (sample_sync_request []) st') = Inl IntegrityError"
proof -
  let ?rq = "sample_sync_request sample_request_data" and ?st = sample_sync_state
  obtain st' where f: "sync_handle sample_env Preflight ?rq ?st = (Inl (KeyError ''os_build''), st')"
    using short_preflight_runs(5) by (metis prod.collapse)
  obtain lm tags db cache evs where a: "authorize sample_env Preflight ?rq ?st = (Inr ((lm, tags), db, cache), evs)"
  proof -
    obtain x evs where "short_preflight = (Inr x, evs)"
      using short_preflight_runs(1) by (metis prod.collapse sum.collapse(2))
    then show thesis using that by (cases x) (auto simp: short_preflight_def)
  qed
  then have p: "fst (projr (fst short_preflight)) = (lm, tags)" by (simp add: short_preflight_def)
  obtain rules next_cursor tables where b: "short_batch = Inr ((rules, next_cursor), tables)"
    using short_preflight_runs(3) by (metis prod.collapse sum.collapse(2))
  have batch: "get_next_rule_batch (lm_configuration lm) (lm_machine lm) tags None (env_cursor sample_env)
      (sd_tables (sy_db ?st)) = Inr ((rules, next_cursor), tables)"
    using b by (simp add: short_batch_def p sample_env_def)
  have rules: "rules \<noteq> []" using short_preflight_runs(4) by (simp add: b)
  have cert: "\<not> missing_certificate (lm_configuration lm) (sample_sync_request [])"
    using short_preflight_runs(2) p by simp
  have none: "base_get_enrolled_machine ?rq (sy_db ?st) = Inr None"
    by (simp add: base_get_enrolled_machine_def sample_sync_state_def get_one_def)
  have d: "request_dict (sample_sync_request []) = Inr []" "request_cursor [] = Inr None"
    by (simp_all add: request_dict_def sample_sync_request_def request_cursor_def dict_get_default_def)
  have "env_now sample_env < env_now sample_env + 600" "sr_secret (sample_sync_request []) = sr_secret ?rq"
    "sr_uuid (sample_sync_request []) = sr_uuid ?rq"
    by (simp_all add: sample_sync_request_def)
  note failed_preflight_stays_cached [OF f a none this cert d batch rules]
  then show ?thesis using f by (simp add: sample_sync_state_def)
qed

end
