(* ===== verification/SantaLogs.thy ===== *)
theory SantaLogs imports SantaModels begin

text \<open>
  \<open>zentral/contrib/santa/utils.py\<close>: the configuration a machine enrolls with, and the parser of
  the lines of the Santa log. The base URLs and the parser of a date are parameters.
\<close>

subsection \<open>The configuration of an enrollment\<close>

definition build_santa_enrollment_configuration ::
  "(string \<Rightarrow> string) \<Rightarrow> int list \<Rightarrow> santa_configuration \<Rightarrow> string \<Rightarrow> dict" where
  "build_santa_enrollment_configuration api_setting min_supported_santa_version c secret =
     (let config = get_local_config min_supported_santa_version c;
          base_url_key = (if sc_client_certificate_auth c then ''tls_hostname_for_client_cert_auth'' else ''tls_hostname'')
      in dict_set ''SyncBaseURL'' (PStr (api_setting base_url_key @ ''/santa/sync/'' @ secret @ ''/'')) config)"

subsection \<open>Log lines\<close>

datatype log_place = Between | InAttr | InVal

record log_state =
  lg_dict :: dict
  lg_attr :: string
  lg_val :: string
  lg_place :: log_place

definition log_init :: log_state where
  "log_init = \<lparr>lg_dict = [], lg_attr = [], lg_val = [], lg_place = Between\<rparr>"

definition log_end_value :: "(string \<Rightarrow> pyerror + pyval) \<Rightarrow> log_place \<Rightarrow> log_state \<Rightarrow> pyerror + log_state" where
  "log_end_value parse_date place s =
     bind_result (if lg_attr s = ''timestamp'' then parse_date (lg_val s) else Inr (PStr (lg_val s))) (\<lambda>v.
       Inr \<lparr>lg_dict = dict_set (lg_attr s) v (lg_dict s), lg_attr = [], lg_val = [], lg_place = place\<rparr>)"

definition log_step :: "(string \<Rightarrow> pyerror + pyval) \<Rightarrow> char \<Rightarrow> log_state \<Rightarrow> pyerror + log_state" where
  "log_step parse_date c s =
     (case lg_place s of
        Between \<Rightarrow>
          Inr (if c = CHR ''['' then s\<lparr>lg_attr := ''timestamp'', lg_place := InVal\<rparr>
               else if c = CHR '':'' \<and> truthy (dict_get_default (lg_dict s) ''timestamp'' PNone)
               then s\<lparr>lg_place := InAttr, lg_attr := []\<rparr>
               else s)
      | InAttr \<Rightarrow>
          Inr (if c = CHR ''='' then s\<lparr>lg_place := InVal\<rparr>
               else if lg_attr s \<noteq> [] \<or> c \<noteq> CHR '' '' then s\<lparr>lg_attr := lg_attr s @ [c]\<rparr> else s)
      | InVal \<Rightarrow>
          if c = CHR ''|'' then log_end_value parse_date InAttr s
          else if lg_attr s = ''timestamp'' \<and> c = CHR '']'' then log_end_value parse_date Between s
          else Inr (s\<lparr>lg_val := lg_val s @ [c]\<rparr>))"

fun log_loop :: "(string \<Rightarrow> pyerror + pyval) \<Rightarrow> string \<Rightarrow> log_state \<Rightarrow> pyerror + log_state" where
  "log_loop parse_date [] s = Inr s"
| "log_loop parse_date (c # cs) s = bind_result (log_step parse_date c s) (log_loop parse_date cs)"

definition log_last_value :: "log_state \<Rightarrow> dict" where
  "log_last_value s =
     (if lg_attr s \<noteq> [] \<and> lg_val s \<noteq> [] then dict_set (lg_attr s) (PStr (lg_val s)) (lg_dict s) else lg_dict s)"

text \<open>\<open>int(val)\<close> for the attributes that end with \<open>id\<close>.\<close>

definition log_id :: "string \<times> pyval \<Rightarrow> string \<times> pyval" where
  "log_id p =
     (case p of (attr, val) \<Rightarrow>
       (attr,
        if suffix ''id'' attr
        then (case val of PStr v \<Rightarrow> (case parse_int v of Some i \<Rightarrow> PInt i | None \<Rightarrow> val) | _ \<Rightarrow> val)
        else val))"

text \<open>\<open>args.split()\<close>.\<close>

fun words_loop :: "string \<Rightarrow> string \<Rightarrow> string list" where
  "words_loop cur [] = (if cur = [] then [] else [cur])"
| "words_loop cur (c # s) =
     (if is_space c then (if cur = [] then words_loop [] s else cur # words_loop [] s)
      else words_loop (cur @ [c]) s)"

definition split_words :: "string \<Rightarrow> string list" where
  "split_words s = words_loop [] s"

definition parse_santa_log_message :: "(string \<Rightarrow> pyerror + pyval) \<Rightarrow> string \<Rightarrow> pyerror + dict" where
  "parse_santa_log_message parse_date message =
     bind_result (log_loop parse_date message log_init) (\<lambda>s.
       (let d = map log_id (log_last_value s) in
        if ''timestamp'' \<notin> set (map fst d) then Inl ValueError
        else
          (case dict_get_default d ''args'' PNone of
             PStr args \<Rightarrow> Inr (if args \<noteq> [] then dict_set ''args'' (PList (map PStr (split_words args))) d else d)
           | _ \<Rightarrow> Inr d)))"

subsection \<open>What a line says\<close>

definition log_line :: "string \<Rightarrow> string \<Rightarrow> (string \<times> string) list \<Rightarrow> string" where
  "log_line timestamp process items =
     ''['' @ timestamp @ '']'' @ process @ '': '' @
     join_with ''|'' (map (\<lambda>(attr, val). attr @ ''='' @ val) items)"

definition log_fields_ok :: "(string \<times> string) list \<Rightarrow> bool" where
  "log_fields_ok items \<longleftrightarrow> distinct (map fst items) \<and>
     (\<forall>(attr, val) \<in> set items. attr \<noteq> [] \<and> hd attr \<noteq> CHR '' '' \<and> CHR ''='' \<notin> set attr \<and>
        attr \<noteq> ''timestamp'' \<and> val \<noteq> [] \<and> CHR ''|'' \<notin> set val)"

definition log_value :: "string \<Rightarrow> string \<Rightarrow> pyval" where
  "log_value attr val =
     (if attr = ''args'' then PList (map PStr (split_words val))
      else if suffix ''id'' attr then (case parse_int val of Some i \<Rightarrow> PInt i | None \<Rightarrow> PStr val)
      else PStr val)"

lemma log_loop_append:
  "log_loop pd (xs @ ys) s = bind_result (log_loop pd xs s) (log_loop pd ys)"
proof (induction xs arbitrary: s)
  case (Cons c xs)
  show ?case by (cases "log_step pd c s") (simp_all add: Cons.IH)
qed simp

lemma log_loop_val:
  assumes "CHR ''|'' \<notin> set v" "lg_place s = InVal" "lg_attr s \<noteq> ''timestamp'' \<or> CHR '']'' \<notin> set v"
  shows "log_loop pd v s = Inr (s\<lparr>lg_val := lg_val s @ v\<rparr>)"
  using assms by (induction v arbitrary: s) (auto simp: log_step_def)

lemma log_loop_attr:
  assumes "CHR ''='' \<notin> set a" "lg_place s = InAttr" "lg_attr s \<noteq> [] \<or> a = [] \<or> hd a \<noteq> CHR '' ''"
  shows "log_loop pd a s = Inr (s\<lparr>lg_attr := lg_attr s @ a\<rparr>)"
  using assms by (induction a arbitrary: s) (auto simp: log_step_def)

lemma log_loop_between:
  assumes "CHR '':'' \<notin> set p" "CHR ''['' \<notin> set p" "lg_place s = Between"
  shows "log_loop pd p s = Inr s"
  using assms by (induction p arbitrary: s) (auto simp: log_step_def)

lemma log_loop_field:
  assumes "attr \<noteq> []" "hd attr \<noteq> CHR '' ''" "CHR ''='' \<notin> set attr" "attr \<noteq> ''timestamp''" "CHR ''|'' \<notin> set val"
  shows "log_loop pd (attr @ ''='' @ val) \<lparr>lg_dict = d, lg_attr = [], lg_val = [], lg_place = InAttr\<rparr> =
    Inr \<lparr>lg_dict = d, lg_attr = attr, lg_val = val, lg_place = InVal\<rparr>"
  using assms by (simp add: log_loop_append log_loop_attr log_loop_val log_step_def)

lemma log_loop_fields:
  assumes "log_fields_ok items" "items \<noteq> []" "\<forall>a \<in> fst ` set items. a \<notin> set (map fst d)"
  shows "\<exists>s. log_loop pd (join_with ''|'' (map (\<lambda>(attr, val). attr @ ''='' @ val) items))
      \<lparr>lg_dict = d, lg_attr = [], lg_val = [], lg_place = InAttr\<rparr> = Inr s \<and>
    log_last_value s = d @ map (\<lambda>(a, v). (a, PStr v)) items"
  using assms
proof (induction items arbitrary: d)
  case (Cons p ps)
  obtain a v where p: "p = (a, v)" by (cases p)
  have ok: "a \<noteq> []" "hd a \<noteq> CHR '' ''" "CHR ''='' \<notin> set a" "a \<noteq> ''timestamp''" "CHR ''|'' \<notin> set v" "v \<noteq> []"
    using Cons.prems(1) by (auto simp: log_fields_ok_def p)
  have new: "dict_set a w d = d @ [(a, w)]" for w
    using Cons.prems(3) by (intro dict_set_new) (auto simp: p)
  show ?case
  proof (cases ps)
    case Nil
    then show ?thesis
      using ok by (simp add: p log_loop_field [OF ok(1-5), simplified] log_last_value_def new)
  next
    case (Cons q qs)
    let ?d = "d @ [(a, PStr v)]"
    have "log_fields_ok ps" "\<forall>b \<in> fst ` set ps. b \<notin> set (map fst ?d)"
      using Cons.prems(1,3) by (auto simp: log_fields_ok_def p rev_image_eqI)
    with Cons.IH [of ?d] obtain s where s:
      "log_loop pd (join_with ''|'' (map (\<lambda>(attr, val). attr @ ''='' @ val) ps))
        \<lparr>lg_dict = ?d, lg_attr = [], lg_val = [], lg_place = InAttr\<rparr> = Inr s"
      "log_last_value s = ?d @ map (\<lambda>(a, v). (a, PStr v)) ps"
      using Cons by auto
    have j: "join_with ''|'' (map (\<lambda>(attr, val). attr @ ''='' @ val) (p # ps)) =
      (a @ ''='' @ v) @ ''|'' @ join_with ''|'' (map (\<lambda>(attr, val). attr @ ''='' @ val) ps)"
      by (simp add: p Cons)
    have sep: "log_loop pd ''|'' \<lparr>lg_dict = d, lg_attr = a, lg_val = v, lg_place = InVal\<rparr> =
      Inr \<lparr>lg_dict = ?d, lg_attr = [], lg_val = [], lg_place = InAttr\<rparr>"
      using ok by (simp add: log_step_def log_end_value_def new)
    have "log_loop pd (join_with ''|'' (map (\<lambda>(attr, val). attr @ ''='' @ val) (p # ps)))
        \<lparr>lg_dict = d, lg_attr = [], lg_val = [], lg_place = InAttr\<rparr> = Inr s"
      unfolding j log_loop_append log_loop_field [OF ok(1-5), unfolded log_loop_append] bind_result_simps sep s(1) by (rule refl)
    then show ?thesis using s(2) by (auto simp: p)
  qed
qed simp

lemma dict_set_map:
  "distinct (map fst d) \<Longrightarrow> k \<in> set (map fst d) \<Longrightarrow>
   dict_set k w d = map (\<lambda>(j, v). (j, if j = k then w else v)) d"
proof (induction d)
  case (Cons p d)
  obtain j v where p: "p = (j, v)" by (cases p)
  have "k \<notin> set (map fst d) \<Longrightarrow> map (\<lambda>(j, v). (j, if j = k then w else v)) d = d"
    by (rule map_idI) force
  with Cons p show ?case by auto
qed simp

lemma log_loop_start:
  assumes "parse_date ts = Inr t" "truthy t" "CHR '']'' \<notin> set ts" "CHR ''|'' \<notin> set ts"
    and "CHR '':'' \<notin> set process" "CHR ''['' \<notin> set process"
  shows "log_loop parse_date (''['' @ ts @ '']'' @ process @ '': '') log_init =
    Inr \<lparr>lg_dict = [(''timestamp'', t)], lg_attr = [], lg_val = [], lg_place = InAttr\<rparr>"
  using assms
  by (simp add: log_loop_append log_init_def log_step_def log_loop_val log_loop_between log_end_value_def
      dict_get_default_def)

text \<open>
  A line of the Santa log is read as what it says: the time stamp, then every attribute in
  the order of the line, an attribute that ends with \<open>id\<close> as a number when it is one and the
  arguments as their words. A value may hold equal signs, an attribute bars.
\<close>

theorem log_line_parsed:
  assumes "parse_date ts = Inr t" "truthy t" "CHR '']'' \<notin> set ts" "CHR ''|'' \<notin> set ts"
    and "CHR '':'' \<notin> set process" "CHR ''['' \<notin> set process" "log_fields_ok items" "items \<noteq> []"
  shows "parse_santa_log_message parse_date (log_line ts process items) =
    Inr ((''timestamp'', t) # map (\<lambda>(attr, val). (attr, log_value attr val)) items)"
proof -
  have new: "\<forall>a \<in> fst ` set items. a \<notin> set (map fst [(''timestamp'', t)])"
    using assms(7) by (auto simp: log_fields_ok_def)
  obtain s where s: "log_loop parse_date (join_with ''|'' (map (\<lambda>(attr, val). attr @ ''='' @ val) items))
      \<lparr>lg_dict = [(''timestamp'', t)], lg_attr = [], lg_val = [], lg_place = InAttr\<rparr> = Inr s"
    "log_last_value s = [(''timestamp'', t)] @ map (\<lambda>(a, v). (a, PStr v)) items"
    using log_loop_fields [OF assms(7,8) new] by blast
  have l: "log_line ts process items = (''['' @ ts @ '']'' @ process @ '': '') @
      join_with ''|'' (map (\<lambda>(attr, val). attr @ ''='' @ val) items)"
    by (simp add: log_line_def)
  have start: "log_loop parse_date (''['' @ ts @ '']'' @ process @ '': '') log_init =
    Inr \<lparr>lg_dict = [(''timestamp'', t)], lg_attr = [], lg_val = [], lg_place = InAttr\<rparr>"
    by (rule log_loop_start) (fact assms)+
  have loop: "log_loop parse_date (log_line ts process items) log_init = Inr s"
    unfolding l log_loop_append [of _ "''['' @ ts @ '']'' @ process @ '': ''"]
      start bind_result_simps s(1) by (rule refl)
  define d where "d = map log_id (log_last_value s)"
  have d: "d = (''timestamp'', t) # map (\<lambda>(a, v). log_id (a, PStr v)) items"
    by (simp add: d_def s(2) log_id_def suffix_def split_def split: pyval.split)
  have keys: "map fst d = ''timestamp'' # map fst items"
    by (simp add: d log_id_def split_def comp_def)
  have dist: "distinct (map fst d)"
    using assms(7) new by (auto simp: keys log_fields_ok_def)
  have args: "dict_get d ''args'' = map_option PStr (dict_get items ''args'')"
  proof -
    have "dict_get (map (\<lambda>(a, v). log_id (a, PStr v)) xs) ''args'' = map_option PStr (dict_get xs ''args'')" for xs
      by (induction xs) (auto simp: log_id_def suffix_def)
    then show ?thesis by (simp add: d)
  qed
  have parse: "parse_santa_log_message parse_date (log_line ts process items) =
    (case dict_get_default d ''args'' PNone of
       PStr args \<Rightarrow> Inr (if args \<noteq> [] then dict_set ''args'' (PList (map PStr (split_words args))) d else d)
     | _ \<Rightarrow> Inr d)"
    unfolding parse_santa_log_message_def loop bind_result_simps Let_def d_def [symmetric] keys by simp
  show ?thesis
  proof (cases "dict_get items ''args''")
    case None
    then have "map (\<lambda>(a, v). log_id (a, PStr v)) items = map (\<lambda>(a, v). (a, log_value a v)) items"
      by (auto simp: map_of_eq_None_iff log_id_def log_value_def image_iff split: option.split)
    then show ?thesis
      unfolding parse dict_get_default_def args None by (simp add: d)
  next
    case (Some v)
    then have v: "(''args'', v) \<in> set items" "v \<noteq> []"
      using map_of_SomeD assms(7) by (fastforce simp: log_fields_ok_def)+
    have a: "''args'' \<in> set (''timestamp'' # map fst items)" using v(1) by force
    have "dict_set ''args'' (PList (map PStr (split_words v))) d =
      (''timestamp'', t) # map (\<lambda>(attr, val). (attr, log_value attr val)) items"
      unfolding dict_set_map [OF dist, of "''args''", unfolded keys, OF a] unfolding d
      using assms(7) v(1) by (auto simp: log_id_def log_value_def suffix_def dest: eq_key_imp_eq_value simp: log_fields_ok_def)
    then show ?thesis
      using v(2) unfolding parse dict_get_default_def args Some by simp
  qed
qed

definition sample_parse_date :: "string \<Rightarrow> pyerror + pyval" where
  "sample_parse_date s = (if s = ''2022-01-01'' then Inr (PTime 5) else Inl ValueError)"

theorem log_line_parsed_witness:
  "parse_santa_log_message sample_parse_date ''[2022-01-01] I santad: action=EXEC|pid=12|args=ls -l|path=/a=b'' =
    Inr [(''timestamp'', PTime 5), (''action'', PStr ''EXEC''), (''pid'', PInt 12),
         (''args'', PList [PStr ''ls'', PStr ''-l'']), (''path'', PStr ''/a=b'')]"
proof -
  let ?items = "[(''action'', ''EXEC''), (''pid'', ''12''), (''args'', ''ls -l''), (''path'', ''/a=b'')]"
  have l: "log_line ''2022-01-01'' '' I santad'' ?items =
      ''[2022-01-01] I santad: action=EXEC|pid=12|args=ls -l|path=/a=b''"
    and d: "sample_parse_date ''2022-01-01'' = Inr (PTime 5)"
    and v: "map (\<lambda>(attr, val). (attr, log_value attr val)) ?items =
      [(''action'', PStr ''EXEC''), (''pid'', PInt 12), (''args'', PList [PStr ''ls'', PStr ''-l'']), (''path'', PStr ''/a=b'')]"
    by code_simp+
  have "log_fields_ok ?items" by (simp add: log_fields_ok_def)
  with d show ?thesis
    using log_line_parsed [of sample_parse_date "''2022-01-01''" "PTime 5" "'' I santad''" ?items]
    unfolding l v by simp
qed

end
