(* ===== verification/MtTrees.thy ===== *)
theory MtTrees imports Prelude "HOL-Library.Multiset" begin

text \<open>
  \<open>zentral/utils/mt_models.py\<close>, the hashes of the commit trees: \<open>Hasher\<close>,
  \<open>prepare_commit_tree\<close> and \<open>cleanup_commit_tree\<close>. A commit tree is a nested dictionary; the
  entry \<open>mt_hash\<close> of a dictionary is kept apart from its other items, as \<open>None\<close> when it is
  absent. Strings are their UTF-8 encoding, so \<open>encode\<close> is the identity.
\<close>

subsection \<open>Trees\<close>

text \<open>A date and time of the standard library, with its offset to UTC in minutes if it is aware.\<close>

record datetime =
  dt_year :: nat
  dt_month :: nat
  dt_day :: nat
  dt_hour :: nat
  dt_minute :: nat
  dt_second :: nat
  dt_microsecond :: nat
  dt_utcoffset :: "int option"

definition is_aware :: "datetime \<Rightarrow> bool" where
  "is_aware d \<longleftrightarrow> dt_utcoffset d \<noteq> None"

definition zero_pad :: "nat \<Rightarrow> nat \<Rightarrow> string" where
  "zero_pad n x = replicate (n - length (nat_str x)) CHR ''0'' @ nat_str x"

definition isoformat :: "datetime \<Rightarrow> string" where
  "isoformat d =
     zero_pad 4 (dt_year d) @ ''-'' @ zero_pad 2 (dt_month d) @ ''-'' @ zero_pad 2 (dt_day d) @ ''T'' @
     zero_pad 2 (dt_hour d) @ '':'' @ zero_pad 2 (dt_minute d) @ '':'' @ zero_pad 2 (dt_second d) @
     (if dt_microsecond d = 0 then [] else ''.'' @ zero_pad 6 (dt_microsecond d)) @
     (case dt_utcoffset d of
        None \<Rightarrow> []
      | Some m \<Rightarrow> (if m < 0 then ''-'' else ''+'') @
          zero_pad 2 (nat \<bar>m\<bar> div 60) @ '':'' @ zero_pad 2 (nat \<bar>m\<bar> mod 60))"

text \<open>\<open>TOther\<close> is a value of any other type (a float, bytes), given by its text.\<close>

datatype tree =
    TNone
  | TBool bool
  | TInt int
  | TStr string
  | TTime datetime
  | TOther string
  | TList "tree list"
  | TDict "string option" "(string \<times> tree) list"

type_synonym items = "(string \<times> tree) list"

text \<open>What the code takes from \<open>hashlib\<close> and from Django.\<close>

record mt_lib =
  sha1 :: "string \<Rightarrow> string"
  make_naive :: "datetime \<Rightarrow> datetime"

subsection \<open>Hasher\<close>

datatype field_value = FStr string | FList "string list"

type_synonym hasher = "(string \<times> field_value) list"

fun is_empty_value :: "tree \<Rightarrow> bool" where
  "is_empty_value TNone = True"
| "is_empty_value (TList xs) = (xs = [])"
| "is_empty_value (TDict h items) = (h = None \<and> items = [])"
| "is_empty_value _ = False"

text \<open>\<open>all([isinstance(e, str) and len(e) == 40 for e in v])\<close>, with the strings.\<close>

fun hash_list_texts :: "tree list \<Rightarrow> string list option" where
  "hash_list_texts [] = Some []"
| "hash_list_texts (TStr s # r) =
     (if length s = 40 then map_option (Cons s) (hash_list_texts r) else None)"
| "hash_list_texts (_ # r) = None"

definition py_bool_str :: "bool \<Rightarrow> string" where
  "py_bool_str b = (if b then ''True'' else ''False'')"

definition naive :: "mt_lib \<Rightarrow> datetime \<Rightarrow> datetime" where
  "naive lib d = (if is_aware d then make_naive lib d else d)"

definition field_text :: "mt_lib \<Rightarrow> tree \<Rightarrow> pyerror + field_value" where
  "field_text lib v =
     (case v of
        TBool b \<Rightarrow> Inr (FStr (py_bool_str b))
      | TInt i \<Rightarrow> Inr (FStr (int_str i))
      | TTime d \<Rightarrow> Inr (FStr (isoformat (naive lib d)))
      | TList es \<Rightarrow> (case hash_list_texts es of None \<Rightarrow> Inl AssertionError | Some ss \<Rightarrow> Inr (FList ss))
      | TStr s \<Rightarrow> Inr (FStr s)
      | _ \<Rightarrow> Inl ValueError)"

definition add_field :: "mt_lib \<Rightarrow> hasher \<Rightarrow> string \<Rightarrow> tree \<Rightarrow> pyerror + hasher" where
  "add_field lib hs k v =
     (if k = [] then Inl ValueError
      else if k \<in> fst ` set hs then Inl ValueError
      else if is_empty_value v then Inr hs
      else bind_result (field_text lib v) (\<lambda>f. Inr (hs @ [(k, f)])))"

definition field_bytes :: "field_value \<Rightarrow> string" where
  "field_bytes f = (case f of FStr s \<Rightarrow> s | FList ss \<Rightarrow> concat (sort_key str_key ss))"

definition message :: "hasher \<Rightarrow> string" where
  "message hs = concat (map (\<lambda>(k, f). k @ field_bytes f) (sort_key (\<lambda>kf. str_key (fst kf)) hs))"

definition hexdigest :: "mt_lib \<Rightarrow> hasher \<Rightarrow> string" where
  "hexdigest lib hs = sha1 lib (message hs)"

subsection \<open>Preparing a tree\<close>

text \<open>
  \<open>tree['mt_hash']\<close> of a dictionary that has been prepared.
\<close>

fun tree_hash :: "tree \<Rightarrow> string" where
  "tree_hash (TDict (Some h) items) = h"
| "tree_hash _ = []"

text \<open>
  An empty \<open>mt_hash\<close> is falsy, so the tree is hashed, and the loop adds the empty string as a
  field like any other.
\<close>

definition given_hash :: "string option \<Rightarrow> bool" where
  "given_hash h \<longleftrightarrow> h \<noteq> None \<and> h \<noteq> Some []"

definition start_fields :: "string option \<Rightarrow> hasher" where
  "start_fields h = (if h = Some [] then [(''mt_hash'', FStr [])] else [])"

text \<open>
  \<open>prepare_value\<close> is the chain of \<open>isinstance\<close> tests of the loop: the value left in the tree and
  the one given to \<open>add_field\<close>; \<open>prepare_list\<close> is the inner loop with its \<open>hash_list\<close>.
\<close>

fun prepare_commit_tree :: "mt_lib \<Rightarrow> tree \<Rightarrow> pyerror + tree"
  and prepare_items :: "mt_lib \<Rightarrow> hasher \<Rightarrow> items \<Rightarrow> pyerror + items \<times> hasher"
  and prepare_value :: "mt_lib \<Rightarrow> tree \<Rightarrow> pyerror + tree \<times> tree"
  and prepare_list :: "mt_lib \<Rightarrow> string list \<Rightarrow> tree list \<Rightarrow> pyerror + tree list \<times> string list"
where
  "prepare_commit_tree lib t =
     (case t of
        TDict h items \<Rightarrow>
          if given_hash h then Inr t
          else bind_result (prepare_items lib (start_fields h) items)
                 (\<lambda>(items', hs). Inr (TDict (Some (hexdigest lib hs)) items'))
      | _ \<Rightarrow> Inl MTOError)"
| "prepare_items lib hs [] = Inr ([], hs)"
| "prepare_items lib hs ((k, v) # r) =
     (if is_empty_value v then prepare_items lib hs r
      else bind_result (prepare_value lib v) (\<lambda>(v', hv).
           bind_result (add_field lib hs k hv) (\<lambda>hs'.
           bind_result (prepare_items lib hs' r) (\<lambda>(r', hs'').
             Inr ((k, v') # r', hs'')))))"
| "prepare_value lib v =
     (case v of
        TDict h items \<Rightarrow> bind_result (prepare_commit_tree lib v) (\<lambda>v'. Inr (v', TStr (tree_hash v')))
      | TList vs \<Rightarrow> bind_result (prepare_list lib [] vs) (\<lambda>(vs', hl). Inr (TList vs', TList (map TStr hl)))
      | TTime d \<Rightarrow> Inr (TTime (naive lib d), TTime (naive lib d))
      | _ \<Rightarrow> Inr (v, v))"
| "prepare_list lib hl [] = Inr ([], hl)"
| "prepare_list lib hl (s # r) =
     bind_result (prepare_commit_tree lib s) (\<lambda>s'.
       if tree_hash s' \<in> set hl then Inl MTOError
       else bind_result (prepare_list lib (hl @ [tree_hash s']) r) (\<lambda>(r', hl'). Inr (s' # r', hl')))"

text \<open>\<open>cleanup_commit_tree\<close>: a list element that is no dictionary has no \<open>pop\<close>.\<close>

fun cleanup_commit_tree :: "tree \<Rightarrow> pyerror + tree"
  and cleanup_items :: "items \<Rightarrow> pyerror + items"
  and cleanup_list :: "tree list \<Rightarrow> pyerror + tree list"
where
  "cleanup_commit_tree (TDict h items) = bind_result (cleanup_items items) (\<lambda>i. Inr (TDict None i))"
| "cleanup_commit_tree _ = Inl AttributeError"
| "cleanup_items [] = Inr []"
| "cleanup_items ((k, v) # r) =
     bind_result (case v of
                    TDict h items \<Rightarrow> cleanup_commit_tree v
                  | TList vs \<Rightarrow> bind_result (cleanup_list vs) (\<lambda>vs'. Inr (TList vs'))
                  | _ \<Rightarrow> Inr v) (\<lambda>v'.
     bind_result (cleanup_items r) (\<lambda>r'. Inr ((k, v') # r')))"
| "cleanup_list [] = Inr []"
| "cleanup_list (s # r) =
     bind_result (cleanup_commit_tree s) (\<lambda>s'. bind_result (cleanup_list r) (\<lambda>r'. Inr (s' # r')))"

subsection \<open>What a prepared tree is\<close>

declare prepare_commit_tree.simps [simp del] prepare_value.simps [simp del]

abbreviation present_items :: "items \<Rightarrow> items" where
  "present_items items \<equiv> filter (\<lambda>kv. \<not> is_empty_value (snd kv)) items"

text \<open>The item left in the tree and the field added for it.\<close>

definition item_prepared :: "mt_lib \<Rightarrow> string \<times> tree \<Rightarrow> string \<times> tree \<times> field_value \<Rightarrow> bool" where
  "item_prepared lib kv n \<longleftrightarrow> fst n = fst kv \<and> fst kv \<noteq> [] \<and>
     (\<exists>hv. prepare_value lib (snd kv) = Inr (fst (snd n), hv) \<and> field_text lib hv = Inr (snd (snd n)))"

abbreviation left_items :: "(string \<times> tree \<times> field_value) list \<Rightarrow> items" where
  "left_items ns \<equiv> map (\<lambda>n. (fst n, fst (snd n))) ns"

abbreviation added_fields :: "(string \<times> tree \<times> field_value) list \<Rightarrow> hasher" where
  "added_fields ns \<equiv> map (\<lambda>n. (fst n, snd (snd n))) ns"

lemma prepare_list_hashes:
  "prepare_list lib hl vs = Inr (vs', hl') \<Longrightarrow>
   list_all2 (\<lambda>v v'. prepare_commit_tree lib v = Inr v') vs vs' \<and> hl' = hl @ map tree_hash vs' \<and>
   (distinct hl \<longrightarrow> distinct (hl @ map tree_hash vs'))"
proof (induction vs arbitrary: hl vs' hl')
  case (Cons v r)
  from Cons.prems obtain v' r' where v: "prepare_commit_tree lib v = Inr v'" "tree_hash v' \<notin> set hl"
    and r: "prepare_list lib (hl @ [tree_hash v']) r = Inr (r', hl')" and vs: "vs' = v' # r'"
    by (auto simp: bind_result_Inr split: if_splits)
  from Cons.IH [OF r] v vs show ?case by simp
qed simp

lemma prepare_list_Inr:
  "list_all2 (\<lambda>v v'. prepare_commit_tree lib v = Inr v') vs vs' \<Longrightarrow>
   distinct (hl @ map tree_hash vs') \<Longrightarrow>
   prepare_list lib hl vs = Inr (vs', hl @ map tree_hash vs')"
  by (induction vs arbitrary: hl vs')
     (auto simp: bind_result_def list_all2_Cons1)

lemma prepare_list_iff:
  "prepare_list lib [] vs = Inr (vs', hl) \<longleftrightarrow>
     list_all2 (\<lambda>v v'. prepare_commit_tree lib v = Inr v') vs vs' \<and> hl = map tree_hash vs' \<and> distinct hl"
  using prepare_list_hashes [of lib "[]"] prepare_list_Inr [of lib vs vs' "[]"] by auto

lemma prepare_value_nonempty:
  assumes "prepare_value lib v = Inr (v', hv)" "\<not> is_empty_value v"
  shows "\<not> is_empty_value hv"
  using assms
  by (cases v) (auto simp: bind_result_Inr prepare_list_iff prepare_value.simps)

lemma prepare_items_Inr:
  "prepare_items lib hs items = Inr (items', hs') \<Longrightarrow> distinct (map fst hs) \<Longrightarrow>
   \<exists>ns. list_all2 (item_prepared lib) (present_items items) ns \<and> items' = left_items ns \<and>
        hs' = hs @ added_fields ns \<and> distinct (map fst hs')"
proof (induction items arbitrary: hs items' hs')
  case (Cons kv r)
  obtain k v where kv: "kv = (k, v)" by fastforce
  show ?case
  proof (cases "is_empty_value v")
    case True
    with Cons kv show ?thesis by simp
  next
    case False
    with Cons.prems(1) kv obtain v' hv hs1 r' where
      v: "prepare_value lib v = Inr (v', hv)" and a: "add_field lib hs k hv = Inr hs1"
      and r: "prepare_items lib hs1 r = Inr (r', hs')" and i: "items' = (k, v') # r'"
      by (auto simp: bind_result_Inr)
    have "\<not> is_empty_value hv" using prepare_value_nonempty v False by blast
    with a obtain f where f: "k \<noteq> []" "k \<notin> fst ` set hs" "field_text lib hv = Inr f" "hs1 = hs @ [(k, f)]"
      by (auto simp: add_field_def bind_result_Inr split: if_splits)
    then have d: "distinct (map fst hs1)" using Cons.prems(2) by simp
    from Cons.IH [OF r d] obtain ns where ns: "list_all2 (item_prepared lib) (present_items r) ns"
      "r' = left_items ns" "hs' = hs1 @ added_fields ns" "distinct (map fst hs')" by blast
    have "item_prepared lib kv (k, v', f)"
      using kv v f by (simp add: item_prepared_def)
    with ns f i kv False show ?thesis
      by (intro exI [of _ "(k, v', f) # ns"]) simp
  qed
qed simp

lemma prepare_items_ok:
  "list_all2 (item_prepared lib) (present_items items) ns \<Longrightarrow>
   distinct (map fst (hs @ added_fields ns)) \<Longrightarrow>
   prepare_items lib hs items = Inr (left_items ns, hs @ added_fields ns)"
proof (induction items arbitrary: hs ns)
  case (Cons kv r)
  obtain k v where kv: "kv = (k, v)" by fastforce
  show ?case
  proof (cases "is_empty_value v")
    case True
    with Cons kv show ?thesis by simp
  next
    case False
    with Cons.prems(1) kv obtain n ns' where n: "item_prepared lib (k, v) n"
      and ns': "list_all2 (item_prepared lib) (present_items r) ns'" and ns: "ns = n # ns'"
      by (auto simp: list_all2_Cons1)
    from n obtain v' f hv where nf: "n = (k, v', f)" "k \<noteq> []" and v: "prepare_value lib v = Inr (v', hv)"
      and f: "field_text lib hv = Inr f"
      by (cases n) (auto simp: item_prepared_def)
    have "\<not> is_empty_value hv" using prepare_value_nonempty v False by blast
    then have a: "add_field lib hs k hv = Inr (hs @ [(k, f)])"
      using Cons.prems(2) ns nf f by (auto simp: add_field_def)
    have "prepare_items lib (hs @ [(k, f)]) r = Inr (left_items ns', (hs @ [(k, f)]) @ added_fields ns')"
      using Cons.prems(2) ns nf by (intro Cons.IH [OF ns']) auto
    with a v False kv ns nf show ?thesis by simp
  qed
qed simp

text \<open>The dictionaries that are hashed: none has a hash already.\<close>

lemma prepare_dict_iff:
  assumes "h = None"
  shows "prepare_commit_tree lib (TDict h items) = Inr t' \<longleftrightarrow>
    (\<exists>ns. list_all2 (item_prepared lib) (present_items items) ns \<and> distinct (map fst ns) \<and>
          t' = TDict (Some (hexdigest lib (added_fields ns))) (left_items ns))"
    (is "_ \<longleftrightarrow> (\<exists>ns. ?P ns)")
proof
  assume "prepare_commit_tree lib (TDict h items) = Inr t'"
  with assms obtain items' hs where p: "prepare_items lib [] items = Inr (items', hs)"
    and t: "t' = TDict (Some (hexdigest lib hs)) items'"
    by (auto simp: prepare_commit_tree.simps given_hash_def start_fields_def bind_result_Inr)
  from prepare_items_Inr [OF p] t show "\<exists>ns. ?P ns" by (auto simp: comp_def)
next
  assume "\<exists>ns. ?P ns"
  then obtain ns where "?P ns" by blast
  with prepare_items_ok [of lib items ns "[]"] assms
  show "prepare_commit_tree lib (TDict h items) = Inr t'"
    by (simp add: prepare_commit_tree.simps given_hash_def start_fields_def comp_def)
qed

lemma prepare_given: "given_hash h \<Longrightarrow> prepare_commit_tree lib (TDict h items) = Inr (TDict h items)"
  by (simp add: prepare_commit_tree.simps)

lemma prepare_is_dict: "prepare_commit_tree lib t = Inr t' \<Longrightarrow> \<exists>h items. t = TDict h items"
  by (cases t) (simp_all add: prepare_commit_tree.simps)

subsection \<open>The order of a tree does not matter\<close>

lemma map_sort_key: "map f (sort_key (\<lambda>x. g (f x)) xs) = sort_key g (map f xs)"
proof -
  have ins: "map f (insort_key (\<lambda>x. g (f x)) x ys) = insort_key g (f x) (map f ys)" for x ys
    by (induction ys) auto
  show ?thesis by (induction xs) (simp_all add: ins)
qed

text \<open>Sorting by a key that identifies the elements forgets their order.\<close>

lemma sort_key_perm:
  assumes "mset xs = mset ys" "inj_on f (set xs)"
  shows "sort_key f xs = sort_key f ys"
proof -
  have s: "set ys = set xs" using assms(1) by (metis set_mset_mset)
  have "sort (map f xs) = sort (map f ys)"
    by (rule properties_for_sort) (simp_all add: assms(1))
  then have "map f (sort_key f xs) = map f (sort_key f ys)"
    using map_sort_key [of f "\<lambda>x. x"] by simp
  then show ?thesis
    by (rule map_inj_on) (simp add: s assms(2))
qed

lemma inj_str_key: "inj_on str_key A"
  by (simp add: inj_on_def)

definition byte_fields :: "hasher \<Rightarrow> (string \<times> string) list" where
  "byte_fields hs = map (\<lambda>kf. (fst kf, field_bytes (snd kf))) hs"

lemma message_byte_fields:
  "message hs = concat (map (\<lambda>kb. fst kb @ snd kb) (sort_key (\<lambda>kb. str_key (fst kb)) (byte_fields hs)))"
proof -
  let ?b = "\<lambda>kf :: string \<times> field_value. (fst kf, field_bytes (snd kf))"
  have "sort_key (\<lambda>kb. str_key (fst kb)) (map ?b hs) = map ?b (sort_key (\<lambda>kf. str_key (fst kf)) hs)"
    using map_sort_key [of ?b "\<lambda>kb. str_key (fst kb)" hs] by simp
  then show ?thesis
    by (simp add: message_def byte_fields_def comp_def case_prod_unfold)
qed

lemma message_perm:
  assumes "mset (byte_fields hs) = mset (byte_fields hs')" "distinct (map fst hs)"
  shows "message hs = message hs'"
proof -
  have "distinct (map fst (byte_fields hs))"
    using assms(2) by (simp add: byte_fields_def comp_def)
  then have "inj_on (\<lambda>kb. str_key (fst kb)) (set (byte_fields hs))"
    by (auto simp: distinct_map inj_on_def)
  with assms(1) show ?thesis by (simp add: message_byte_fields sort_key_perm)
qed

text \<open>
  Two trees with the same content: their dictionaries have the same items in some order, up to
  empty values, and their lists the same elements in some order. A dictionary without items
  is an empty value, one whose items are all empty is not.
\<close>

inductive same_tree :: "tree \<Rightarrow> tree \<Rightarrow> bool" where
  same_refl: "same_tree t t"
| same_list: "mset ys = mset us \<Longrightarrow> list_all2 same_tree xs us \<Longrightarrow> same_tree (TList xs) (TList ys)"
| same_dict: "mset (present_items ys) = mset us \<Longrightarrow>
    list_all2 (\<lambda>kv kw. fst kv = fst kw \<and> same_tree (snd kv) (snd kw)) (present_items xs) us \<Longrightarrow>
    (xs = []) = (ys = []) \<Longrightarrow> same_tree (TDict None xs) (TDict None ys)"

lemma list_all2_perm_right:
  assumes "mset ys = mset us" "list_all2 P us ws"
  shows "\<exists>vs. list_all2 P ys vs \<and> mset vs = mset ws"
  using assms
proof (induction us arbitrary: ys ws)
  case (Cons u us)
  obtain w ws' where ws: "ws = w # ws'" "P u w" "list_all2 P us ws'"
    using Cons.prems(2) by (auto simp: list_all2_Cons1)
  obtain a b where ys: "ys = a @ u # b"
    using Cons.prems(1) by (metis in_set_conv_decomp list.set_intros(1) set_mset_mset)
  then have "mset (a @ b) = mset us" using Cons.prems(1) by simp
  from Cons.IH [OF this ws(3)] obtain vs where vs: "list_all2 P (a @ b) vs" "mset vs = mset ws'" by blast
  then obtain va vb where v: "vs = va @ vb" "list_all2 P a va" "list_all2 P b vb"
    by (auto simp: list_all2_append1)
  then have "list_all2 P ys (va @ w # vb)"
    unfolding ys using ws(2) v by (intro list_all2_appendI) auto
  with vs(2) v(1) ws(1) show ?case by (intro exI [of _ "va @ w # vb"]) simp
qed simp

text \<open>What preparing one value gives, and preparing the other gives too.\<close>

definition same_value :: "mt_lib \<Rightarrow> tree \<Rightarrow> tree \<Rightarrow> bool" where
  "same_value lib t u \<longleftrightarrow> is_empty_value t = is_empty_value u \<and>
     (\<forall>t'. prepare_commit_tree lib t = Inr t' \<longrightarrow>
        (\<exists>u'. prepare_commit_tree lib u = Inr u' \<and> tree_hash u' = tree_hash t')) \<and>
     (\<forall>t' hv f. prepare_value lib t = Inr (t', hv) \<longrightarrow> field_text lib hv = Inr f \<longrightarrow>
        (\<exists>u' hw g. prepare_value lib u = Inr (u', hw) \<and> field_text lib hw = Inr g \<and>
           field_bytes g = field_bytes f))"

lemma hash_list_texts_strings: "hash_list_texts (map TStr ss) = Some fs \<Longrightarrow> fs = ss"
  by (induction ss arbitrary: fs) (auto split: if_splits)

lemma hash_list_texts_iff: "hash_list_texts (map TStr ss) = Some ss \<longleftrightarrow> (\<forall>s \<in> set ss. length s = 40)"
  by (induction ss) auto

lemma field_text_hashes:
  "field_text lib (TList (map TStr ss)) = Inr f \<longleftrightarrow> f = FList ss \<and> (\<forall>s \<in> set ss. length s = 40)"
proof -
  have "field_text lib (TList (map TStr ss)) = Inr f \<longleftrightarrow> f = FList ss \<and> hash_list_texts (map TStr ss) = Some ss"
    using hash_list_texts_strings by (auto simp: field_text_def split: option.splits)
  then show ?thesis by (simp add: hash_list_texts_iff)
qed

lemma same_value_list:
  assumes u: "mset ys = mset us" and s: "list_all2 (same_value lib) xs us"
  shows "same_value lib (TList xs) (TList ys)"
proof -
  have e: "(xs = []) = (ys = [])" using u s by (metis list_all2_Nil list_all2_Nil2 mset_zero_iff)
  have "\<exists>u' hw g. prepare_value lib (TList ys) = Inr (u', hw) \<and> field_text lib hw = Inr g \<and>
          field_bytes g = field_bytes f"
    if p: "prepare_value lib (TList xs) = Inr (t', hv)" and f: "field_text lib hv = Inr f" for t' hv f
  proof -
    from p obtain vs where vs: "list_all2 (\<lambda>v v'. prepare_commit_tree lib v = Inr v') xs vs"
      and d: "distinct (map tree_hash vs)" and hv: "hv = TList (map TStr (map tree_hash vs))"
      by (auto simp: prepare_value.simps bind_result_Inr prepare_list_iff)
    from f have fs: "f = FList (map tree_hash vs)" "\<forall>h \<in> set (map tree_hash vs). length h = 40"
      unfolding hv field_text_hashes by blast+
    from s vs have "\<exists>ws. list_all2 (\<lambda>v v'. prepare_commit_tree lib v = Inr v') us ws \<and>
      map tree_hash ws = map tree_hash vs"
    proof (induction xs arbitrary: us vs)
      case (Cons x xs)
      from Cons.prems obtain y us' v vs' where l: "us = y # us'" "vs = v # vs'" "same_value lib x y"
        "list_all2 (same_value lib) xs us'" "prepare_commit_tree lib x = Inr v"
        "list_all2 (\<lambda>v v'. prepare_commit_tree lib v = Inr v') xs vs'"
        by (auto simp: list_all2_Cons1)
      then obtain w where "prepare_commit_tree lib y = Inr w" "tree_hash w = tree_hash v"
        by (auto simp: same_value_def)
      with Cons.IH [OF l(4,6)] l show ?case by (auto simp: list_all2_Cons1)
    qed simp
    then obtain ws where ws: "list_all2 (\<lambda>v v'. prepare_commit_tree lib v = Inr v') us ws"
      "map tree_hash ws = map tree_hash vs" by blast
    from list_all2_perm_right [OF u ws(1)] obtain zs
      where zs: "list_all2 (\<lambda>v v'. prepare_commit_tree lib v = Inr v') ys zs" "mset zs = mset ws" by blast
    have m: "mset (map tree_hash zs) = mset (map tree_hash vs)"
      using zs(2) ws(2) by (metis mset_map)
    then have d': "distinct (map tree_hash zs)" and st: "set (map tree_hash zs) = set (map tree_hash vs)"
      using d by (metis mset_eq_imp_distinct_iff, metis mset_eq_setD)
    have pl: "prepare_value lib (TList ys) = Inr (TList zs, TList (map TStr (map tree_hash zs)))"
      using zs(1) d' by (auto simp: prepare_value.simps prepare_list_iff [THEN iffD2])
    have "field_text lib (TList (map TStr (map tree_hash zs))) = Inr (FList (map tree_hash zs))"
      using fs(2) unfolding st [symmetric] by (simp only: field_text_hashes simp_thms)
    moreover have "field_bytes (FList (map tree_hash zs)) = field_bytes f"
      using sort_key_perm [OF m inj_str_key] fs(1) by (simp add: field_bytes_def)
    ultimately show ?thesis using pl by blast
  qed
  with e show ?thesis
    by (simp add: same_value_def prepare_commit_tree.simps)
qed

lemma prepared_items_same:
  assumes "list_all2 (\<lambda>kv kw. fst kv = fst kw \<and> same_value lib (snd kv) (snd kw)) is us"
    and "list_all2 (item_prepared lib) is ns"
  shows "\<exists>ms. list_all2 (item_prepared lib) us ms \<and>
    byte_fields (added_fields ms) = byte_fields (added_fields ns)"
  using assms
proof (induction "is" arbitrary: us ns)
  case (Cons kv r)
  from Cons.prems obtain kw us' n ns' where l: "us = kw # us'" "ns = n # ns'" "fst kv = fst kw"
    "same_value lib (snd kv) (snd kw)" "item_prepared lib kv n"
    "list_all2 (\<lambda>kv kw. fst kv = fst kw \<and> same_value lib (snd kv) (snd kw)) r us'"
    "list_all2 (item_prepared lib) r ns'"
    by (auto simp: list_all2_Cons1)
  from Cons.IH [OF l(6,7)] obtain ms where ms: "list_all2 (item_prepared lib) us' ms"
    "byte_fields (added_fields ms) = byte_fields (added_fields ns')" by blast
  from l(5) obtain hv where n: "fst n = fst kv" "fst kv \<noteq> []"
    "prepare_value lib (snd kv) = Inr (fst (snd n), hv)" "field_text lib hv = Inr (snd (snd n))"
    by (auto simp: item_prepared_def)
  with l(4) obtain u' hw g where u: "prepare_value lib (snd kw) = Inr (u', hw)" "field_text lib hw = Inr g"
    "field_bytes g = field_bytes (snd (snd n))"
    unfolding same_value_def by blast
  have i: "item_prepared lib kw (fst n, u', g)"
    using n u l(3) by (simp add: item_prepared_def)
  show ?case
  proof (intro exI conjI)
    show "list_all2 (item_prepared lib) us ((fst n, u', g) # ms)" using l(1) i ms(1) by simp
    show "byte_fields (added_fields ((fst n, u', g) # ms)) = byte_fields (added_fields ns)"
      using ms(2) l(2) u(3) by (simp add: byte_fields_def)
  qed
qed (auto simp: byte_fields_def)

lemma same_value_dict:
  assumes u: "mset (present_items ys) = mset us"
    and s: "list_all2 (\<lambda>kv kw. fst kv = fst kw \<and> same_value lib (snd kv) (snd kw)) (present_items xs) us"
    and e: "(xs = []) = (ys = [])"
  shows "same_value lib (TDict None xs) (TDict None ys)"
proof -
  have p: "\<exists>u'. prepare_commit_tree lib (TDict None ys) = Inr u' \<and> tree_hash u' = tree_hash t'"
    if t: "prepare_commit_tree lib (TDict None xs) = Inr t'" for t'
  proof -
    from t obtain ns where ns: "list_all2 (item_prepared lib) (present_items xs) ns" "distinct (map fst ns)"
      and t': "t' = TDict (Some (hexdigest lib (added_fields ns))) (left_items ns)"
      by (auto simp: prepare_dict_iff)
    from prepared_items_same [OF s ns(1)] obtain ms where ms: "list_all2 (item_prepared lib) us ms"
      "byte_fields (added_fields ms) = byte_fields (added_fields ns)" by blast
    from list_all2_perm_right [OF u ms(1)] obtain zs
      where zs: "list_all2 (item_prepared lib) (present_items ys) zs" "mset zs = mset ms" by blast
    have b: "mset (byte_fields (added_fields zs)) = mset (byte_fields (added_fields ns))"
      unfolding ms(2) [symmetric] using zs(2) by (simp add: byte_fields_def)
    have keys: "map fst (byte_fields (added_fields ks)) = map fst ks" for ks :: "(string \<times> tree \<times> field_value) list"
      by (simp add: byte_fields_def comp_def)
    have "mset (map fst (byte_fields (added_fields zs))) = mset (map fst (byte_fields (added_fields ns)))"
      unfolding mset_map b ..
    then have "mset (map fst zs) = mset (map fst ns)" by (simp only: keys)
    then have "distinct (map fst zs)" using ns(2) by (metis mset_eq_imp_distinct_iff)
    moreover have "hexdigest lib (added_fields zs) = hexdigest lib (added_fields ns)"
      using message_perm [OF b] calculation by (simp add: hexdigest_def comp_def)
    ultimately show ?thesis
      using zs(1) t' by (intro exI [of _ "TDict (Some (hexdigest lib (added_fields zs))) (left_items zs)"])
        (auto simp: prepare_dict_iff)
  qed
  have "\<exists>u' hw g. prepare_value lib (TDict None ys) = Inr (u', hw) \<and> field_text lib hw = Inr g \<and>
          field_bytes g = field_bytes f"
    if v: "prepare_value lib (TDict None xs) = Inr (t', hv)" and f: "field_text lib hv = Inr f" for t' hv f
  proof -
    from v have t: "prepare_commit_tree lib (TDict None xs) = Inr t'" and hv: "hv = TStr (tree_hash t')"
      by (auto simp: prepare_value.simps bind_result_Inr)
    from p [OF t] obtain u' where u: "prepare_commit_tree lib (TDict None ys) = Inr u'"
      "tree_hash u' = tree_hash t'" by blast
    have "prepare_value lib (TDict None ys) = Inr (u', TStr (tree_hash u'))"
      using u(1) by (simp add: prepare_value.simps)
    moreover have "field_text lib (TStr (tree_hash u')) = Inr f"
      using f u(2) hv by simp
    ultimately show ?thesis by blast
  qed
  with p e show ?thesis by (simp add: same_value_def)
qed

lemma same_value_refl: "same_value lib t t"
  by (auto simp: same_value_def)

lemma same_tree_value: "same_tree t u \<Longrightarrow> same_value lib t u"
proof (induction rule: same_tree.induct)
  case (same_list ys us xs)
  then have "list_all2 (same_value lib) xs us" by (auto elim: list_all2_mono)
  with same_list(1) show ?case by (rule same_value_list)
next
  case (same_dict ys us xs)
  then have "list_all2 (\<lambda>kv kw. fst kv = fst kw \<and> same_value lib (snd kv) (snd kw)) (present_items xs) us"
    by (auto elim: list_all2_mono)
  from same_value_dict [OF same_dict(1) this same_dict(2)] show ?case .
qed (rule same_value_refl)

lemma same_tree_hash:
  "same_tree t u \<Longrightarrow> prepare_commit_tree lib t = Inr t' \<Longrightarrow>
   \<exists>u'. prepare_commit_tree lib u = Inr u' \<and> tree_hash u' = tree_hash t'"
  using same_tree_value by (fastforce simp: same_value_def)

subsection \<open>Preparing, cleaning up and preparing again\<close>

text \<open>
  The tree without its hashes and its empty values, its times naive: what remains of a tree
  that has been prepared and cleaned up.
\<close>

fun clean :: "mt_lib \<Rightarrow> tree \<Rightarrow> tree" and clean_items :: "mt_lib \<Rightarrow> items \<Rightarrow> items" where
  "clean lib (TDict h items) = TDict None (clean_items lib items)"
| "clean lib (TList vs) = TList (map (clean lib) vs)"
| "clean lib (TTime d) = TTime (naive lib d)"
| "clean lib t = t"
| "clean_items lib [] = []"
| "clean_items lib ((k, v) # r) =
     (if is_empty_value v then clean_items lib r else (k, clean lib v) # clean_items lib r)"

text \<open>
  A dictionary vanishes when it is not empty but has only empty values. \<open>solid\<close>: no dictionary
  is given a hash, and none below the root vanishes.
\<close>

fun vanishes :: "tree \<Rightarrow> bool" where
  "vanishes (TDict h items) \<longleftrightarrow> present_items items = []"
| "vanishes _ \<longleftrightarrow> False"

fun solid :: "tree \<Rightarrow> bool" and solid_items :: "items \<Rightarrow> bool" where
  "solid (TDict h items) \<longleftrightarrow> h = None \<and> solid_items items"
| "solid (TList vs) \<longleftrightarrow> list_all solid vs"
| "solid _ \<longleftrightarrow> True"
| "solid_items [] \<longleftrightarrow> True"
| "solid_items ((k, v) # r) \<longleftrightarrow> (is_empty_value v \<or> solid v \<and> \<not> vanishes v) \<and> solid_items r"

definition cleanup_value :: "tree \<Rightarrow> pyerror + tree" where
  "cleanup_value v =
     (case v of
        TDict h items \<Rightarrow> cleanup_commit_tree v
      | TList vs \<Rightarrow> bind_result (cleanup_list vs) (\<lambda>vs'. Inr (TList vs'))
      | _ \<Rightarrow> Inr v)"

lemma cleanup_items_Cons:
  "cleanup_items ((k, v) # r) =
     bind_result (cleanup_value v) (\<lambda>v'. bind_result (cleanup_items r) (\<lambda>r'. Inr ((k, v') # r')))"
  by (simp add: cleanup_value_def)

lemma clean_items_present: "clean_items lib items = [] \<longleftrightarrow> present_items items = []"
  by (induction items) auto

lemma clean_nonempty: "\<not> is_empty_value v \<Longrightarrow> \<not> vanishes v \<Longrightarrow> \<not> is_empty_value (clean lib v)"
  by (cases v) (auto simp: clean_items_present)

definition makes_naive :: "mt_lib \<Rightarrow> bool" where
  "makes_naive lib \<longleftrightarrow> (\<forall>d. \<not> is_aware (make_naive lib d))"

lemma prepared_is_dict: "prepare_commit_tree lib t = Inr t' \<Longrightarrow> \<exists>h items. t' = TDict (Some h) items"
  by (cases t) (auto simp: prepare_commit_tree.simps bind_result_Inr given_hash_def split: if_splits)

lemma cleanup_prepared:
  "makes_naive lib \<Longrightarrow> prepare_commit_tree lib t = Inr t' \<Longrightarrow> solid t \<Longrightarrow>
      prepare_commit_tree lib (clean lib t) = Inr t' \<and> cleanup_commit_tree t' = Inr (clean lib t)"
  "makes_naive lib \<Longrightarrow> prepare_items lib hs items = Inr (items', hs') \<Longrightarrow> solid_items items \<Longrightarrow>
      prepare_items lib hs (clean_items lib items) = Inr (items', hs') \<and>
      cleanup_items items' = Inr (clean_items lib items)"
  "makes_naive lib \<Longrightarrow> prepare_value lib v = Inr (v', hv) \<Longrightarrow> solid v \<Longrightarrow>
      prepare_value lib (clean lib v) = Inr (v', hv) \<and> cleanup_value v' = Inr (clean lib v)"
  "makes_naive lib \<Longrightarrow> prepare_list lib hl vs = Inr (vs', hl') \<Longrightarrow> list_all solid vs \<Longrightarrow>
      prepare_list lib hl (map (clean lib) vs) = Inr (vs', hl') \<and>
      cleanup_list vs' = Inr (map (clean lib) vs)"
proof (induction lib t and lib hs items and lib v and lib hl vs
    arbitrary: t' and items' hs' and v' hv and vs' hl'
    rule: prepare_commit_tree_prepare_items_prepare_value_prepare_list.induct)
  case (1 lib t)
  then show ?case
    by (cases t) (auto simp: prepare_commit_tree.simps given_hash_def start_fields_def bind_result_Inr)
next
  case (3 lib hs k v r)
  show ?case
  proof (cases "is_empty_value v")
    case True
    with 3 show ?thesis by simp
  next
    case False
    with 3 show ?thesis
      by (auto simp: bind_result_Inr clean_nonempty cleanup_items_Cons simp del: cleanup_items.simps)
  qed
next
  case (4 lib v)
  then show ?case
    by (cases v) (auto simp: prepare_value.simps bind_result_Inr cleanup_value_def naive_def makes_naive_def
                       dest!: prepared_is_dict)
next
  case (6 lib hl s r)
  then show ?case
    by (auto simp: bind_result_Inr split: if_splits)
qed auto

end
