(* ===== verification/MtStore.thy ===== *)
theory MtStore imports MtTrees begin

text \<open>
  \<open>zentral/utils/mt_models.py\<close>, the objects: \<open>MTObjectManager.commit\<close> and the methods
  \<open>get_mt_field\<close>, \<open>hash\<close>, \<open>serialize\<close> and \<open>diff\<close> of \<open>AbstractMTObject\<close>, over the tables of a set
  of models. The checks of Django and of the database on a new row are parameters; the
  uniqueness of the hashes and the columns that cannot be null are part of the model.
\<close>

subsection \<open>Models and tables\<close>

datatype field_kind =
    TextField
  | ValueField
  | JsonField
  | ForeignKey string
  | ManyToManyField string

record mt_field =
  fd_name :: string
  fd_kind :: field_kind
  fd_null :: bool

text \<open>The value of a field: plain or JSON, the key of a related object, the keys of several.\<close>

datatype stored = SValue tree | SKey "nat option" | SKeys "nat list"

text \<open>A row has the values of the fields of its model, and the columns that are not hashed.\<close>

record mt_row =
  row_pk :: nat
  row_hash :: string
  row_values :: "(string \<times> stored) list"
  row_extra :: "(string \<times> stored) list"

record mt_db =
  tables :: "string \<Rightarrow> mt_row list"

text \<open>
  A model, with what its \<open>save\<close> method does before the row is written; the first argument is the
  keyword argument of \<open>BusinessUnit.save\<close>.
\<close>

record 'a mt_model =
  mm_fields :: "mt_field list"
  mm_excluded :: "string list"
  mm_save :: "nat option \<Rightarrow> mt_row \<Rightarrow> 'a mt_db_scheme \<Rightarrow> pyerror + mt_row \<times> 'a mt_db_scheme"

text \<open>
  The models by name, and the checks of the framework and of the database. \<open>full_clean\<close> accepts an
  object or not; the values of the trees are in the form in which the fields give them back, so that
  it does not change them.
\<close>

record 'a mt_site =
  site_lib :: mt_lib
  site_model :: "string \<Rightarrow> 'a mt_model option"
  site_refuses :: "string \<Rightarrow> mt_row \<Rightarrow> pyerror option"
  site_full_clean :: "string \<Rightarrow> mt_row \<Rightarrow> bool"

definition mt_excluded_field_set :: "'a mt_model \<Rightarrow> string list" where
  "mt_excluded_field_set mm = [''id'', ''mt_hash'', ''mt_created_at''] @ mm_excluded mm"

definition mt_fields :: "'a mt_model \<Rightarrow> mt_field list" where
  "mt_fields mm = filter (\<lambda>f. fd_name f \<notin> set (mt_excluded_field_set mm)) (mm_fields mm)"

definition many_to_one_attr :: "field_kind \<Rightarrow> bool option" where
  "many_to_one_attr k =
     (case k of ForeignKey _ \<Rightarrow> Some True | ManyToManyField _ \<Rightarrow> Some False | _ \<Rightarrow> None)"

text \<open>
  The last test of the source compares \<open>f.many_to_many\<close> with itself, so only \<open>many_to_one\<close> counts.
  A reverse relation is refused with the same error as an unknown name.
\<close>

definition get_mt_field :: "'a mt_model \<Rightarrow> string \<Rightarrow> bool option \<Rightarrow> bool option \<Rightarrow> pyerror + mt_field" where
  "get_mt_field mm name many_to_one many_to_many =
     (if name \<in> set (mt_excluded_field_set mm) then Inl MTOError
      else
        case find (\<lambda>f. fd_name f = name) (mm_fields mm) of
          None \<Rightarrow> Inl MTOError
        | Some f \<Rightarrow>
            if many_to_one = Some True \<and> many_to_many \<noteq> None then Inl AssertionError
            else if many_to_many = Some True \<and> many_to_one \<noteq> None then Inl AssertionError
            else
              (let many_to_one' = (if many_to_many = Some True then Some False else many_to_one)
               in if many_to_one_attr (fd_kind f) \<noteq> many_to_one' then Inl MTOError else Inr f))"

text \<open>The value of a field that has not been set.\<close>

definition field_default :: "mt_field \<Rightarrow> stored" where
  "field_default f =
     (case fd_kind f of
        ForeignKey _ \<Rightarrow> SKey None
      | ManyToManyField _ \<Rightarrow> SKeys []
      | TextField \<Rightarrow> SValue (if fd_null f then TNone else TStr [])
      | _ \<Rightarrow> SValue TNone)"

fun kind_model :: "field_kind \<Rightarrow> string" where
  "kind_model (ForeignKey m) = m"
| "kind_model (ManyToManyField m) = m"
| "kind_model _ = []"

definition related_model :: "mt_field \<Rightarrow> string" where
  "related_model f = kind_model (fd_kind f)"

definition field_value :: "mt_row \<Rightarrow> mt_field \<Rightarrow> stored" where
  "field_value r f = (case dict_get (row_values r) (fd_name f) of None \<Rightarrow> field_default f | Some v \<Rightarrow> v)"

definition row_by_pk :: "string \<Rightarrow> nat \<Rightarrow> 'a mt_db_scheme \<Rightarrow> pyerror + mt_row" where
  "row_by_pk m pk db = get_one (\<lambda>r. row_pk r = pk) (tables db m)"

definition row_by_hash :: "string \<Rightarrow> string \<Rightarrow> 'a mt_db_scheme \<Rightarrow> pyerror + mt_row" where
  "row_by_hash m h db = get_one (\<lambda>r. row_hash r = h) (tables db m)"

definition insert_row :: "string \<Rightarrow> mt_row \<Rightarrow> 'a mt_db_scheme \<Rightarrow> 'a mt_db_scheme" where
  "insert_row m r db = tables_update (\<lambda>t. t(m := t m @ [r])) db"

subsection \<open>Hashing, serializing and comparing an object\<close>

fun tree_truthy :: "tree \<Rightarrow> bool" where
  "tree_truthy TNone = False"
| "tree_truthy (TBool b) = b"
| "tree_truthy (TInt i) = (i \<noteq> 0)"
| "tree_truthy (TStr s) = (s \<noteq> [])"
| "tree_truthy (TTime _) = True"
| "tree_truthy (TOther _) = True"
| "tree_truthy (TList xs) = (xs \<noteq> [])"
| "tree_truthy (TDict h items) = (h \<noteq> None \<or> items \<noteq> [])"

text \<open>\<open>hash(recursive=False)\<close>: related objects give their stored hash.\<close>

definition field_hash_value :: "'a mt_site \<Rightarrow> 'a mt_db_scheme \<Rightarrow> mt_field \<Rightarrow> stored \<Rightarrow> pyerror + tree" where
  "field_hash_value site db f v =
     (case (fd_kind f, v) of
        (ForeignKey m, SKey (Some pk)) \<Rightarrow>
          bind_result (row_by_pk m pk db) (\<lambda>r. Inr (TStr (row_hash r)))
      | (ForeignKey m, SKey None) \<Rightarrow> Inr TNone
      | (ManyToManyField m, SKeys pks) \<Rightarrow>
          bind_result (map_result (\<lambda>pk. row_by_pk m pk db) pks) (\<lambda>rs. Inr (TList (map (\<lambda>r. TStr (row_hash r)) rs)))
      | (JsonField, SValue t) \<Rightarrow>
          if tree_truthy t
          then bind_result (prepare_commit_tree (site_lib site) t) (\<lambda>t'. Inr (TStr (tree_hash t')))
          else Inr t
      | (_, SValue t) \<Rightarrow> Inr t
      | _ \<Rightarrow> Inl TypeError)"

fun add_row_fields :: "'a mt_site \<Rightarrow> 'a mt_db_scheme \<Rightarrow> mt_row \<Rightarrow> mt_field list \<Rightarrow> hasher \<Rightarrow> pyerror + hasher" where
  "add_row_fields site db r [] hs = Inr hs"
| "add_row_fields site db r (f # fs) hs =
     bind_result (field_hash_value site db f (field_value r f)) (\<lambda>v.
     bind_result (add_field (site_lib site) hs (fd_name f) v) (\<lambda>hs'. add_row_fields site db r fs hs'))"

definition object_hash :: "'a mt_site \<Rightarrow> 'a mt_model \<Rightarrow> mt_row \<Rightarrow> 'a mt_db_scheme \<Rightarrow> pyerror + string" where
  "object_hash site mm r db =
     bind_result (add_row_fields site db r (mt_fields mm) []) (\<lambda>hs. Inr (hexdigest (site_lib site) hs))"

text \<open>\<open>serialize\<close>, with the depth at which the interpreter gives up.\<close>

fun serialize :: "'a mt_site \<Rightarrow> nat \<Rightarrow> string \<Rightarrow> string list \<Rightarrow> nat \<Rightarrow> 'a mt_db_scheme \<Rightarrow> pyerror + tree"
  and serialize_fields :: "'a mt_site \<Rightarrow> nat \<Rightarrow> mt_row \<Rightarrow> mt_field list \<Rightarrow> 'a mt_db_scheme \<Rightarrow> pyerror + items"
  and serialize_value :: "'a mt_site \<Rightarrow> nat \<Rightarrow> mt_field \<Rightarrow> stored \<Rightarrow> 'a mt_db_scheme \<Rightarrow> pyerror + tree"
where
  "serialize site 0 m exclude pk db = Inl RecursionError"
| "serialize site (Suc n) m exclude pk db =
     (case site_model site m of
        None \<Rightarrow> Inl AttributeError
      | Some mm \<Rightarrow>
          bind_result (row_by_pk m pk db) (\<lambda>r.
          bind_result
            (serialize_fields site n r (filter (\<lambda>f. fd_name f \<notin> set exclude) (mt_fields mm)) db)
            (\<lambda>d. Inr (TDict None d))))"
| "serialize_fields site n r [] db = Inr []"
| "serialize_fields site n r (f # fs) db =
     bind_result (serialize_value site n f (field_value r f) db) (\<lambda>v.
     bind_result (serialize_fields site n r fs db) (\<lambda>d.
       Inr (if is_empty_value v then d else (fd_name f, v) # d)))"
| "serialize_value site n f v db =
     (case (fd_kind f, v) of
        (ForeignKey m, SKey (Some pk)) \<Rightarrow> serialize site n m [] pk db
      | (ForeignKey m, SKey None) \<Rightarrow> Inr TNone
      | (ManyToManyField m, SKeys pks) \<Rightarrow>
          bind_result (map_result (\<lambda>pk. serialize site n m [] pk db) pks) (\<lambda>ts. Inr (TList ts))
      | (_, SValue (TTime d)) \<Rightarrow> Inr (TStr (isoformat d))
      | (_, SValue (TOther s)) \<Rightarrow> Inl ValueError
      | (_, SValue (TList xs)) \<Rightarrow> if xs = [] then Inr (TList xs) else Inl ValueError
      | (_, SValue t) \<Rightarrow> Inr t
      | _ \<Rightarrow> Inl TypeError)"

text \<open>
  \<open>diff\<close> of two objects of one model: for each field what was added and what was removed.
\<close>

definition related_diff :: "'a mt_site \<Rightarrow> nat \<Rightarrow> string \<Rightarrow> nat list \<Rightarrow> nat list \<Rightarrow> 'a mt_db_scheme \<Rightarrow> pyerror + items" where
  "related_diff site n m pks mto_pks db =
     bind_result (map_result (\<lambda>pk. serialize site n m [] pk db) (filter (\<lambda>pk. pk \<notin> set mto_pks) pks)) (\<lambda>added.
     bind_result (map_result (\<lambda>pk. serialize site n m [] pk db) (filter (\<lambda>pk. pk \<notin> set pks) mto_pks)) (\<lambda>removed.
       Inr ((if added = [] then [] else [(''added'', TList added)]) @
            (if removed = [] then [] else [(''removed'', TList removed)]))))"

definition value_diff :: "tree \<Rightarrow> tree \<Rightarrow> items" where
  "value_diff v mto_v =
     (if tree_truthy mto_v then [(''removed'', mto_v)] else []) @
     (if tree_truthy v then [(''added'', v)] else [])"

definition key_value :: "'a mt_site \<Rightarrow> nat \<Rightarrow> string \<Rightarrow> nat option \<Rightarrow> 'a mt_db_scheme \<Rightarrow> pyerror + tree" where
  "key_value site n m k db = (case k of None \<Rightarrow> Inr TNone | Some pk \<Rightarrow> serialize site n m [] pk db)"

definition field_diff :: "'a mt_site \<Rightarrow> nat \<Rightarrow> mt_field \<Rightarrow> stored \<Rightarrow> stored \<Rightarrow> 'a mt_db_scheme \<Rightarrow> pyerror + items" where
  "field_diff site n f v mto_v db =
     (case (fd_kind f, v, mto_v) of
        (ManyToManyField m, SKeys pks, SKeys mto_pks) \<Rightarrow> related_diff site n m pks mto_pks db
      | (ForeignKey m, SKey k, SKey mto_k) \<Rightarrow>
          if k = mto_k then Inr []
          else bind_result (key_value site n m k db) (\<lambda>t.
               bind_result (key_value site n m mto_k db) (\<lambda>u. Inr (value_diff t u)))
      | (_, SValue t, SValue u) \<Rightarrow> Inr (if t = u then [] else value_diff t u)
      | _ \<Rightarrow> Inl TypeError)"

fun fields_diff :: "'a mt_site \<Rightarrow> nat \<Rightarrow> mt_row \<Rightarrow> mt_row \<Rightarrow> mt_field list \<Rightarrow> 'a mt_db_scheme \<Rightarrow>
    pyerror + (string \<times> items) list" where
  "fields_diff site n r mto [] db = Inr []"
| "fields_diff site n r mto (f # fs) db =
     bind_result (field_diff site n f (field_value r f) (field_value mto f) db) (\<lambda>d.
     bind_result (fields_diff site n r mto fs db) (\<lambda>ds.
       Inr (if d = [] then ds else (fd_name f, d) # ds)))"

definition object_diff :: "'a mt_site \<Rightarrow> nat \<Rightarrow> 'a mt_model \<Rightarrow> mt_row \<Rightarrow> mt_row \<Rightarrow> 'a mt_db_scheme \<Rightarrow>
    pyerror + (string \<times> items) list" where
  "object_diff site n mm r mto db =
     (if row_pk r = row_pk mto \<or> row_hash r = row_hash mto then Inr []
      else fields_diff site n r mto (mt_fields mm) db)"

subsection \<open>Committing a tree\<close>

text \<open>
  A new object with the values set by the loop. The many-to-many values are set after the row is
  written, in the same transaction.
\<close>

definition new_row :: "'a mt_model \<Rightarrow> nat \<Rightarrow> string \<Rightarrow> (string \<times> stored) list \<Rightarrow> mt_row" where
  "new_row mm pk h vals =
     \<lparr>row_pk = pk, row_hash = h,
      row_values = map (\<lambda>f. (fd_name f,
        case dict_get vals (fd_name f) of None \<Rightarrow> field_default f | Some v \<Rightarrow> v)) (mt_fields mm),
      row_extra = []\<rparr>"

definition set_keys :: "(string \<times> nat list) list \<Rightarrow> mt_row \<Rightarrow> mt_row" where
  "set_keys m2ms r = row_values_update (map (\<lambda>(k, v).
     (k, case dict_get m2ms k of None \<Rightarrow> v | Some pks \<Rightarrow> SKeys pks))) r"

definition null_violation :: "'a mt_model \<Rightarrow> mt_row \<Rightarrow> bool" where
  "null_violation mm r \<longleftrightarrow>
     list_ex (\<lambda>f. \<not> fd_null f \<and> (field_value r f = SValue TNone \<or> field_value r f = SKey None)) (mt_fields mm)"

text \<open>The body of the transaction: \<open>save\<close>, the many-to-many values, \<open>full_clean\<close>.\<close>

definition save_object :: "'a mt_site \<Rightarrow> nat option \<Rightarrow> string \<Rightarrow> 'a mt_model \<Rightarrow> string \<Rightarrow>
    (string \<times> stored) list \<Rightarrow> (string \<times> nat list) list \<Rightarrow> 'a mt_db_scheme \<Rightarrow> pyerror + mt_row \<times> 'a mt_db_scheme" where
  "save_object site kw m mm h vals m2ms db =
     bind_result (mm_save mm kw (new_row mm (fresh_pk (map row_pk (tables db m))) h vals) db) (\<lambda>(r, db1).
       case site_refuses site m r of
         Some e \<Rightarrow> Inl e
       | None \<Rightarrow>
           if null_violation mm r then Inl IntegrityError
           else if h \<in> row_hash ` set (tables db1 m) then Inl IntegrityError
           else
             (let r' = set_keys m2ms r in
              if site_full_clean site m r' then Inr (r', insert_row m r' db1) else Inl ValidationError))"

text \<open>
  The \<open>try\<close> statement of \<open>commit\<close>. After an integrity error the transaction is rolled back and the
  object looked up again; a mismatch of the hashes is raised after the transaction.
\<close>

definition commit_save :: "'a mt_site \<Rightarrow> nat option \<Rightarrow> string \<Rightarrow> 'a mt_model \<Rightarrow> string \<Rightarrow>
    (string \<times> stored) list \<Rightarrow> (string \<times> nat list) list \<Rightarrow> 'a mt_db_scheme \<Rightarrow>
    (pyerror + nat \<times> bool) \<times> 'a mt_db_scheme" where
  "commit_save site kw m mm h vals m2ms db =
     (case save_object site kw m mm h vals m2ms db of
        Inl e \<Rightarrow>
          if e = IntegrityError then
            (case row_by_hash m h db of
               Inr r \<Rightarrow> (Inr (row_pk r, False), db)
             | Inl e' \<Rightarrow> (Inl (if e' = DoesNotExist then e else e'), db))
          else (Inl e, db)
      | Inr (r, db') \<Rightarrow>
          (case object_hash site mm r db' of
             Inl e \<Rightarrow> (Inl e, db')
           | Inr h' \<Rightarrow> if h' = h then (Inr (row_pk r, True), db') else (Inl MTOError, db')))"

text \<open>The number of nodes of a tree bounds the recursion.\<close>

fun tree_size :: "tree \<Rightarrow> nat" and items_size :: "items \<Rightarrow> nat" and list_size :: "tree list \<Rightarrow> nat" where
  "tree_size (TDict h items) = Suc (Suc (items_size items))"
| "tree_size (TList vs) = Suc (list_size vs)"
| "tree_size _ = 1"
| "items_size [] = 0"
| "items_size ((k, v) # r) = Suc (tree_size v + items_size r)"
| "list_size [] = 0"
| "list_size (v # r) = Suc (tree_size v + list_size r)"

lemma prepare_size:
  "prepare_commit_tree lib t = Inr t' \<Longrightarrow> tree_size t' \<le> tree_size t"
  "prepare_items lib hs items = Inr (items', hs') \<Longrightarrow> items_size items' \<le> items_size items"
  "prepare_value lib v = Inr (v', hv) \<Longrightarrow> tree_size v' \<le> tree_size v"
  "prepare_list lib hl vs = Inr (vs', hl') \<Longrightarrow> list_size vs' \<le> list_size vs"
proof (induction lib t and lib hs items and lib v and lib hl vs
    arbitrary: t' and items' hs' and v' hv and vs' hl'
    rule: prepare_commit_tree_prepare_items_prepare_value_prepare_list.induct)
  case (1 lib t)
  then show ?case
    by (cases t) (auto simp: prepare_commit_tree.simps bind_result_Inr split: if_splits)
next
  case (3 lib hs k v r)
  then show ?case by (fastforce simp: bind_result_Inr split: if_splits)
next
  case (4 lib v)
  then show ?case by (cases v) (auto simp: prepare_value.simps bind_result_Inr)
next
  case (6 lib hl s r)
  then show ?case by (fastforce simp: bind_result_Inr split: if_splits)
qed auto

text \<open>
  \<open>commit\<close>: the items of the prepared tree are set in turn, the related objects committed as they
  are met. What has been committed stays when a later item raises an error.
\<close>

function commit :: "'a mt_site \<Rightarrow> nat option \<Rightarrow> string \<Rightarrow> tree \<Rightarrow> 'a mt_db_scheme \<Rightarrow>
      (pyerror + nat \<times> bool) \<times> 'a mt_db_scheme"
  and commit_items :: "'a mt_site \<Rightarrow> 'a mt_model \<Rightarrow> items \<Rightarrow> (string \<times> stored) list \<Rightarrow>
      (string \<times> nat list) list \<Rightarrow> 'a mt_db_scheme \<Rightarrow>
      (pyerror + (string \<times> stored) list \<times> (string \<times> nat list) list) \<times> 'a mt_db_scheme"
  and commit_list :: "'a mt_site \<Rightarrow> string \<Rightarrow> tree list \<Rightarrow> 'a mt_db_scheme \<Rightarrow>
      (pyerror + nat list) \<times> 'a mt_db_scheme"
where
  "commit site kw m tree db =
     (case site_model site m of
        None \<Rightarrow> (Inl AttributeError, db)
      | Some mm \<Rightarrow>
          (case prepare_commit_tree (site_lib site) tree of
             Inl e \<Rightarrow> (Inl e, db)
           | Inr (TDict (Some h) items) \<Rightarrow>
               (case row_by_hash m h db of
                  Inr r \<Rightarrow> (Inr (row_pk r, False), db)
                | Inl e \<Rightarrow>
                    if e = DoesNotExist then
                      (case commit_items site mm items [] [] db of
                         (Inl e', db1) \<Rightarrow> (Inl e', db1)
                       | (Inr (vals, m2ms), db1) \<Rightarrow> commit_save site kw m mm h vals m2ms db1)
                    else (Inl e, db))
           | Inr _ \<Rightarrow> (Inl (KeyError ''mt_hash''), db)))"
| "commit_items site mm [] vals m2ms db = (Inr (vals, m2ms), db)"
| "commit_items site mm ((k, v) # r) vals m2ms db =
     (case v of
        TDict h items \<Rightarrow>
          (case get_mt_field mm k (Some True) None of
             Inr f \<Rightarrow>
               (case commit site None (related_model f) v db of
                  (Inl e, db1) \<Rightarrow> (Inl e, db1)
                | (Inr (pk, created), db1) \<Rightarrow>
                    commit_items site mm r (dict_set k (SKey (Some pk)) vals) m2ms db1)
           | Inl e \<Rightarrow>
               if e = MTOError then
                 (case get_mt_field mm k None None of
                    Inl e' \<Rightarrow> (Inl e', db)
                  | Inr f \<Rightarrow>
                      if fd_kind f = JsonField then
                        (case cleanup_commit_tree v of
                           Inl e' \<Rightarrow> (Inl e', db)
                         | Inr t \<Rightarrow> commit_items site mm r (dict_set k (SValue t) vals) m2ms db)
                      else (Inl MTOError, db))
               else (Inl e, db))
      | TList vs \<Rightarrow>
          (case get_mt_field mm k None (Some True) of
             Inl e \<Rightarrow> (Inl e, db)
           | Inr f \<Rightarrow>
               (case commit_list site (related_model f) vs db of
                  (Inl e, db1) \<Rightarrow> (Inl e, db1)
                | (Inr pks, db1) \<Rightarrow> commit_items site mm r vals (m2ms @ [(k, pks)]) db1))
      | _ \<Rightarrow>
          (case get_mt_field mm k None None of
             Inl e \<Rightarrow> (Inl e, db)
           | Inr f \<Rightarrow> commit_items site mm r (dict_set k (SValue v) vals) m2ms db))"
| "commit_list site m [] db = (Inr [], db)"
| "commit_list site m (v # r) db =
     (case commit site None m v db of
        (Inl e, db1) \<Rightarrow> (Inl e, db1)
      | (Inr (pk, created), db1) \<Rightarrow>
          (case commit_list site m r db1 of
             (Inl e, db2) \<Rightarrow> (Inl e, db2)
           | (Inr pks, db2) \<Rightarrow> (Inr (pk # pks), db2)))"
  by pat_completeness auto
termination
  by (relation "measure (\<lambda>x. case x of
       Inl (site, kw, m, t, db) \<Rightarrow> tree_size t
     | Inr (Inl (site, mm, items, vals, m2ms, db)) \<Rightarrow> Suc (items_size items)
     | Inr (Inr (site, m, vs, db)) \<Rightarrow> list_size vs)")
     (auto dest!: prepare_size(1))

declare commit.simps [simp del] commit_items.simps [simp del] commit_list.simps [simp del]

end
