(* ===== verification/MtCommit.thy ===== *)
theory MtCommit imports MtStore begin

text \<open>
  What \<open>MTObjectManager.commit\<close> of \<open>zentral/utils/mt_models.py\<close> guarantees: the commit as a relation,
  the invariants of the tables, the round trip through \<open>serialize\<close> and the trees it fails on.
\<close>

subsection \<open>The commit as a relation\<close>

text \<open>
  One rule for each way a commit can go, as the functions above give it; the properties of the
  commit are shown by induction on these rules.
\<close>

fun is_node :: "tree \<Rightarrow> bool" where
  "is_node (TDict h items) = True"
| "is_node (TList vs) = True"
| "is_node _ = False"

inductive commits :: "'a mt_site \<Rightarrow> nat option \<Rightarrow> string \<Rightarrow> tree \<Rightarrow> 'a mt_db_scheme \<Rightarrow>
      pyerror + nat \<times> bool \<Rightarrow> 'a mt_db_scheme \<Rightarrow> bool"
  and commits_items :: "'a mt_site \<Rightarrow> 'a mt_model \<Rightarrow> items \<Rightarrow> (string \<times> stored) list \<Rightarrow>
      (string \<times> nat list) list \<Rightarrow> 'a mt_db_scheme \<Rightarrow>
      pyerror + (string \<times> stored) list \<times> (string \<times> nat list) list \<Rightarrow> 'a mt_db_scheme \<Rightarrow> bool"
  and commits_list :: "'a mt_site \<Rightarrow> string \<Rightarrow> tree list \<Rightarrow> 'a mt_db_scheme \<Rightarrow>
      pyerror + nat list \<Rightarrow> 'a mt_db_scheme \<Rightarrow> bool"
  for site :: "'a mt_site"
where
  no_manager: "site_model site m = None \<Longrightarrow> commits site kw m t db (Inl AttributeError) db"
| unprepared: "prepare_commit_tree (site_lib site) t = Inl e \<Longrightarrow> commits site kw m t db (Inl e) db"
| found: "site_model site m = Some mm \<Longrightarrow> prepare_commit_tree (site_lib site) t = Inr (TDict (Some h) items) \<Longrightarrow>
    row_by_hash m h db = Inr r \<Longrightarrow> commits site kw m t db (Inr (row_pk r, False)) db"
| ambiguous: "row_by_hash m h db = Inl e \<Longrightarrow> e \<noteq> DoesNotExist \<Longrightarrow> commits site kw m t db (Inl e) db"
| items_fail: "site_model site m = Some mm \<Longrightarrow> prepare_commit_tree (site_lib site) t = Inr (TDict (Some h) items) \<Longrightarrow>
    row_by_hash m h db = Inl DoesNotExist \<Longrightarrow> commits_items site mm items [] [] db (Inl e) db1 \<Longrightarrow>
    commits site kw m t db (Inl e) db1"
| saved: "site_model site m = Some mm \<Longrightarrow> prepare_commit_tree (site_lib site) t = Inr (TDict (Some h) items) \<Longrightarrow>
    row_by_hash m h db = Inl DoesNotExist \<Longrightarrow> commits_items site mm items [] [] db (Inr (vals, m2ms)) db1 \<Longrightarrow>
    commit_save site kw m mm h vals m2ms db1 = (res, db2) \<Longrightarrow> commits site kw m t db res db2"
| items_done: "commits_items site mm [] vals m2ms db (Inr (vals, m2ms)) db"
| value_refused: "\<not> is_node v \<Longrightarrow> get_mt_field mm k None None = Inl e \<Longrightarrow>
    commits_items site mm ((k, v) # r) vals m2ms db (Inl e) db"
| value_set: "\<not> is_node v \<Longrightarrow> get_mt_field mm k None None = Inr f \<Longrightarrow>
    commits_items site mm r (dict_set k (SValue v) vals) m2ms db res db' \<Longrightarrow>
    commits_items site mm ((k, v) # r) vals m2ms db res db'"
| dict_refused: "get_mt_field mm k (Some True) None = Inl e \<Longrightarrow> e \<noteq> MTOError \<Longrightarrow>
    commits_items site mm ((k, TDict h items) # r) vals m2ms db (Inl e) db"
| json_unknown: "get_mt_field mm k (Some True) None = Inl MTOError \<Longrightarrow> get_mt_field mm k None None = Inl e \<Longrightarrow>
    commits_items site mm ((k, TDict h items) # r) vals m2ms db (Inl e) db"
| json_refused: "get_mt_field mm k (Some True) None = Inl MTOError \<Longrightarrow> get_mt_field mm k None None = Inr f \<Longrightarrow>
    fd_kind f \<noteq> JsonField \<Longrightarrow> commits_items site mm ((k, TDict h items) # r) vals m2ms db (Inl MTOError) db"
| json_unclean: "get_mt_field mm k (Some True) None = Inl MTOError \<Longrightarrow> get_mt_field mm k None None = Inr f \<Longrightarrow>
    cleanup_commit_tree (TDict h items) = Inl e \<Longrightarrow>
    commits_items site mm ((k, TDict h items) # r) vals m2ms db (Inl e) db"
| json_set: "get_mt_field mm k (Some True) None = Inl MTOError \<Longrightarrow> get_mt_field mm k None None = Inr f \<Longrightarrow>
    fd_kind f = JsonField \<Longrightarrow> cleanup_commit_tree (TDict h items) = Inr t \<Longrightarrow>
    commits_items site mm r (dict_set k (SValue t) vals) m2ms db res db' \<Longrightarrow>
    commits_items site mm ((k, TDict h items) # r) vals m2ms db res db'"
| key_fail: "get_mt_field mm k (Some True) None = Inr f \<Longrightarrow>
    commits site None (related_model f) (TDict h items) db (Inl e) db1 \<Longrightarrow>
    commits_items site mm ((k, TDict h items) # r) vals m2ms db (Inl e) db1"
| key_set: "get_mt_field mm k (Some True) None = Inr f \<Longrightarrow>
    commits site None (related_model f) (TDict h items) db (Inr (pk, created)) db1 \<Longrightarrow>
    commits_items site mm r (dict_set k (SKey (Some pk)) vals) m2ms db1 res db2 \<Longrightarrow>
    commits_items site mm ((k, TDict h items) # r) vals m2ms db res db2"
| list_refused: "get_mt_field mm k None (Some True) = Inl e \<Longrightarrow>
    commits_items site mm ((k, TList vs) # r) vals m2ms db (Inl e) db"
| keys_fail: "get_mt_field mm k None (Some True) = Inr f \<Longrightarrow>
    commits_list site (related_model f) vs db (Inl e) db1 \<Longrightarrow>
    commits_items site mm ((k, TList vs) # r) vals m2ms db (Inl e) db1"
| keys_set: "get_mt_field mm k None (Some True) = Inr f \<Longrightarrow>
    commits_list site (related_model f) vs db (Inr pks) db1 \<Longrightarrow>
    commits_items site mm r vals (m2ms @ [(k, pks)]) db1 res db2 \<Longrightarrow>
    commits_items site mm ((k, TList vs) # r) vals m2ms db res db2"
| list_done: "commits_list site m [] db (Inr []) db"
| element_fail: "commits site None m v db (Inl e) db1 \<Longrightarrow> commits_list site m (v # r) db (Inl e) db1"
| rest_fail: "commits site None m v db (Inr (pk, created)) db1 \<Longrightarrow> commits_list site m r db1 (Inl e) db2 \<Longrightarrow>
    commits_list site m (v # r) db (Inl e) db2"
| element_set: "commits site None m v db (Inr (pk, created)) db1 \<Longrightarrow> commits_list site m r db1 (Inr pks) db2 \<Longrightarrow>
    commits_list site m (v # r) db (Inr (pk # pks)) db2"

lemma commit_commits:
  "\<And>res db'. commit site kw m t db = (res, db') \<Longrightarrow> commits site kw m t db res db'"
  "\<And>res db'. commit_items site mm items vals m2ms db = (res, db') \<Longrightarrow>
     commits_items site mm items vals m2ms db res db'"
  "\<And>res db'. commit_list site m vs db = (res, db') \<Longrightarrow> commits_list site m vs db res db'"
proof (induction site kw m t db and site mm items vals m2ms db and site m vs db
    rule: commit_commit_items_commit_list.induct)
  case (1 site kw m t db)
  have ih: "commits_items site mm items [] [] db res1 db1"
    if "site_model site m = Some mm" "prepare_commit_tree (site_lib site) t = Inr (TDict (Some h) items)"
      "row_by_hash m h db = Inl DoesNotExist" "commit_items site mm items [] [] db = (res1, db1)"
    for mm h items res1 db1
    using 1(1) that by blast
  show ?case
    using 1(2) by (auto simp: commit.simps split: option.splits sum.splits prod.splits if_splits tree.splits
        intro: commits_commits_items_commits_list.intros ih dest: prepared_is_dict)
next
  case (3 site mm k v r vals m2ms db)
  have keys: "commits_items site mm ((k, TList vs) # r) vals m2ms db res1 db2"
    if "v = TList vs" "get_mt_field mm k None (Some True) = Inr f"
      "commit_list site (related_model f) vs db = (Inr pks, db1)"
      "commit_items site mm r vals (m2ms @ [(k, pks)]) db1 = (res1, db2)" for vs f pks db1 res1 db2
    using keys_set [OF that(2) 3(7) [OF that(1,2,3)] 3(8) [OF that(1,2) that(3) [symmetric] refl that(4)]] .
  have key: "commits_items site mm ((k, TDict h items) # r) vals m2ms db res1 db2"
    if "v = TDict h items" "get_mt_field mm k (Some True) None = Inr f"
      "commit site None (related_model f) v db = (Inr (pk, created), db1)"
      "commit_items site mm r (dict_set k (SKey (Some pk)) vals) m2ms db1 = (res1, db2)"
    for h items f pk created db1 res1 db2
    using key_set [OF that(2) 3(10) [OF that(1-3), unfolded that(1)]
        3(11) [OF that(1,2) that(3) [symmetric] refl refl that(4)]] .
  show ?case
    using 3(1-7,9,10,12)
    by (cases v) (auto simp: commit_items.simps simp del: cleanup_commit_tree.simps
        split: sum.splits prod.splits if_splits
        intro: commits_commits_items_commits_list.intros keys key)
next
  case (5 site m v r db)
  have rest: "commits_list site m r db1 res1 db2"
    if "commit site None m v db = (Inr (pk, created), db1)" "commit_list site m r db1 = (res1, db2)"
    for pk created db1 res1 db2
    by (rule 5(2) [OF that(1) [symmetric] refl refl that(2)])
  show ?case
    using 5(1,3) by (auto simp: commit_list.simps split: sum.splits prod.splits
        intro: commits_commits_items_commits_list.intros rest)
qed (auto simp: commit_items.simps commit_list.simps intro: commits_commits_items_commits_list.intros)

subsection \<open>What a commit does to the tables\<close>

text \<open>
  The interface of the models: what a \<open>save\<close> method does before the row is written leaves the
  tables and the hashed part of the row as they are.
\<close>

locale mt_saves =
  fixes site :: "'a mt_site"
  assumes save_frame: "site_model site m = Some mm \<Longrightarrow> mm_save mm kw r db = Inr (r', db') \<Longrightarrow>
    tables db' = tables db \<and> row_pk r' = row_pk r \<and> row_hash r' = row_hash r \<and> row_values r' = row_values r"
begin

lemma save_object_Inr:
  assumes "site_model site m = Some mm" "save_object site kw m mm h vals m2ms db = Inr (r, db')"
  shows "tables db' = (tables db)(m := tables db m @ [r])" and "row_hash r = h"
    and "row_pk r = fresh_pk (map row_pk (tables db m))" and "h \<notin> row_hash ` set (tables db m)"
    and "row_values r = row_values (set_keys m2ms (new_row mm (fresh_pk (map row_pk (tables db m))) h vals))"
  using assms save_frame [OF assms(1)]
  by (fastforce simp: save_object_def bind_result_Inr insert_row_def set_keys_def new_row_def Let_def
      split: option.splits if_splits)+

end

definition extends :: "'a mt_db_scheme \<Rightarrow> 'a mt_db_scheme \<Rightarrow> bool" where
  "extends db db' \<longleftrightarrow> (\<forall>m. prefix (tables db m) (tables db' m))"

definition unique_keys :: "'a mt_db_scheme \<Rightarrow> bool" where
  "unique_keys db \<longleftrightarrow> (\<forall>m. distinct (map row_pk (tables db m)) \<and> distinct (map row_hash (tables db m)))"

lemma extends_refl: "extends db db"
  by (simp add: extends_def)

lemma extends_trans: "extends a b \<Longrightarrow> extends b c \<Longrightarrow> extends a c"
  by (auto simp: extends_def intro: prefix_order.trans)

lemma extends_rows: "extends db db' \<Longrightarrow> set (tables db m) \<subseteq> set (tables db' m)"
  by (auto simp: extends_def dest: set_mono_prefix)

subsection \<open>Invariants\<close>

text \<open>
  A relation between the databases before and after holds of every commit when it is
  reflexive, transitive, and holds of a row written; for a commit that returns, when it holds of a
  row whose hash has been checked.
\<close>

lemma commits_relation:
  assumes refl: "\<And>db. R db db" and trans: "\<And>a b c. R a b \<Longrightarrow> R b c \<Longrightarrow> R a c"
    and save: "\<And>kw m mm h vals m2ms db r db'. site_model site m = Some mm \<Longrightarrow>
      save_object site kw m mm h vals m2ms db = Inr (r, db') \<Longrightarrow> R db db'"
  shows "commits site kw m t db res db' \<Longrightarrow> R db db'"
    and "commits_items site mm items vals m2ms db resi db' \<Longrightarrow> R db db'"
    and "commits_list site m vs db resl db' \<Longrightarrow> R db db'"
proof (induction rule: commits_commits_items_commits_list.inducts)
  case (saved m mm t h items db vals m2ms db1 kw res db2)
  have "R db1 db2"
    using saved save [of m mm]
    by (auto simp: commit_save_def refl split: sum.splits prod.splits if_splits)
  with saved trans show ?case by blast
qed (use refl trans in blast)+

lemma commits_relation_checked:
  assumes refl: "\<And>db. R db db" and trans: "\<And>a b c. R a b \<Longrightarrow> R b c \<Longrightarrow> R a c"
    and save: "\<And>kw m mm h vals m2ms db r db'. site_model site m = Some mm \<Longrightarrow>
      save_object site kw m mm h vals m2ms db = Inr (r, db') \<Longrightarrow> object_hash site mm r db' = Inr h \<Longrightarrow> R db db'"
  shows "commits site kw m t db res db' \<Longrightarrow> \<not> isl res \<Longrightarrow> R db db'"
    and "commits_items site mm items vals m2ms db resi db' \<Longrightarrow> \<not> isl resi \<Longrightarrow> R db db'"
    and "commits_list site m vs db resl db' \<Longrightarrow> \<not> isl resl \<Longrightarrow> R db db'"
proof (induction rule: commits_commits_items_commits_list.inducts)
  case (saved m mm t h items db vals m2ms db1 kw res db2)
  have "R db1 db2"
    using saved save [of m mm]
    by (auto simp: commit_save_def refl split: sum.splits prod.splits if_splits)
  moreover have "R db db1" using saved by simp
  ultimately show ?case using trans by blast
qed (simp_all add: refl, (blast intro: trans)+)

text \<open>A row found is still found, with the same hash, after rows have been added.\<close>

lemma row_by_pk_extends:
  assumes "row_by_pk m pk db = Inr r" "extends db db'" "unique_keys db'"
  shows "row_by_pk m pk db' = Inr r"
proof -
  from assms(1) have r: "r \<in> set (tables db m)" "row_pk r = pk"
    by (auto simp: row_by_pk_def dest: get_one_Inr)
  with extends_rows [OF assms(2)] have "r \<in> set (tables db' m)" by blast
  with assms(3) r(2) get_one_pk [of row_pk "tables db' m" r] show ?thesis
    by (simp add: row_by_pk_def unique_keys_def)
qed

lemma map_result_mono:
  "map_result f xs = Inr ys \<Longrightarrow> (\<And>x y. f x = Inr y \<Longrightarrow> g x = Inr y) \<Longrightarrow> map_result g xs = Inr ys"
  by (induction xs arbitrary: ys) (auto simp: bind_result_Inr)

lemma field_hash_value_extends:
  assumes "field_hash_value site db f v = Inr t" "extends db db'" "unique_keys db'"
  shows "field_hash_value site db' f v = Inr t"
proof -
  have "map_result (\<lambda>pk. row_by_pk m pk db') pks = Inr rs"
    if "map_result (\<lambda>pk. row_by_pk m pk db) pks = Inr rs" for m pks rs
    using that row_by_pk_extends [OF _ assms(2,3)] by (rule map_result_mono)
  with assms row_by_pk_extends [OF _ assms(2,3)] show ?thesis
    by (fastforce simp: field_hash_value_def bind_result_Inr
        split: field_kind.splits stored.splits option.splits if_splits)
qed

lemma add_row_fields_extends:
  "add_row_fields site db r fs hs = Inr hs' \<Longrightarrow> extends db db' \<Longrightarrow> unique_keys db' \<Longrightarrow>
   add_row_fields site db' r fs hs = Inr hs'"
  by (induction fs arbitrary: hs) (auto simp: bind_result_Inr dest: field_hash_value_extends)

lemma object_hash_extends:
  "object_hash site mm r db = Inr h \<Longrightarrow> extends db db' \<Longrightarrow> unique_keys db' \<Longrightarrow>
   object_hash site mm r db' = Inr h"
  by (auto simp: object_hash_def bind_result_Inr dest: add_row_fields_extends)

text \<open>Every stored hash is the hash of the stored object.\<close>

definition consistent :: "'a mt_site \<Rightarrow> 'a mt_db_scheme \<Rightarrow> bool" where
  "consistent site db \<longleftrightarrow>
     (\<forall>m mm r. site_model site m = Some mm \<longrightarrow> r \<in> set (tables db m) \<longrightarrow>
        object_hash site mm r db = Inr (row_hash r))"

context mt_saves begin

lemma save_extends:
  assumes "site_model site m = Some mm" "save_object site kw m mm h vals m2ms db = Inr (r, db')"
  shows "extends db db' \<and> (unique_keys db \<longrightarrow> unique_keys db')"
  using save_object_Inr [OF assms] fresh_pk_new [of "map row_pk (tables db m)"]
  by (auto simp: extends_def unique_keys_def)

lemma commits_extends: "commits site kw m t db res db' \<Longrightarrow> extends db db' \<and> (unique_keys db \<longrightarrow> unique_keys db')"
  by (rule commits_relation(1) [where R = "\<lambda>db db'. extends db db' \<and> (unique_keys db \<longrightarrow> unique_keys db')"])
     (auto simp: extends_refl intro: extends_trans dest: save_extends)

lemma commits_items_extends:
  "commits_items site mm items vals m2ms db res db' \<Longrightarrow> extends db db' \<and> (unique_keys db \<longrightarrow> unique_keys db')"
  by (rule commits_relation(2) [where R = "\<lambda>db db'. extends db db' \<and> (unique_keys db \<longrightarrow> unique_keys db')"])
     (auto simp: extends_refl intro: extends_trans dest: save_extends)

lemma commits_list_extends:
  "commits_list site m vs db res db' \<Longrightarrow> extends db db' \<and> (unique_keys db \<longrightarrow> unique_keys db')"
  by (rule commits_relation(3) [where R = "\<lambda>db db'. extends db db' \<and> (unique_keys db \<longrightarrow> unique_keys db')"])
     (auto simp: extends_refl intro: extends_trans dest: save_extends)

lemma save_consistent:
  assumes m: "site_model site m = Some mm" and s: "save_object site kw m mm h vals m2ms db = Inr (r, db')"
    and h: "object_hash site mm r db' = Inr h" and u: "unique_keys db" and c: "consistent site db"
  shows "consistent site db'"
proof -
  from save_extends [OF m s] u have e: "extends db db'" "unique_keys db'" by auto
  have "object_hash site mm1 q db' = Inr (row_hash q)"
    if "site_model site m1 = Some mm1" "q \<in> set (tables db' m1)" for m1 mm1 q
  proof (cases "q \<in> set (tables db m1)")
    case True
    with c that(1) have "object_hash site mm1 q db = Inr (row_hash q)" by (simp add: consistent_def)
    with e show ?thesis by (blast intro: object_hash_extends)
  next
    case False
    with that save_object_Inr [OF m s] have "m1 = m" "q = r" by (auto split: if_splits)
    with h that(1) m save_object_Inr(2) [OF m s] show ?thesis by simp
  qed
  then show ?thesis by (auto simp: consistent_def)
qed

lemma commits_consistent:
  assumes "commits site kw m t db (Inr x) db'" "unique_keys db" "consistent site db"
  shows "consistent site db'"
proof -
  let ?R = "\<lambda>db db'. (unique_keys db \<longrightarrow> unique_keys db') \<and>
    (unique_keys db \<longrightarrow> consistent site db \<longrightarrow> consistent site db')"
  have save: "?R db db'" if "site_model site m = Some mm"
    "save_object site kw m mm h vals m2ms db = Inr (r, db')" "object_hash site mm r db' = Inr h"
    for kw m mm h vals m2ms db r db'
    using save_extends [OF that(1,2)] save_consistent [OF that] by blast
  have "?R db db'"
    by (rule commits_relation_checked(1) [where R = ?R, OF _ _ save assms(1)]) auto
  with assms(2,3) show ?thesis by blast
qed

text \<open>The object a commit returns has the hash of the tree.\<close>

lemma commits_row:
  assumes c: "commits site kw m t db (Inr (pk, created)) db'"
  shows "\<exists>mm h items r. site_model site m = Some mm \<and>
    prepare_commit_tree (site_lib site) t = Inr (TDict (Some h) items) \<and>
    r \<in> set (tables db' m) \<and> row_pk r = pk \<and> row_hash r = h"
  using c
proof (cases rule: commits.cases)
  case (found mm h items r)
  then show ?thesis by (auto simp: row_by_hash_def dest: get_one_Inr)
next
  case (saved mm h items vals m2ms db1)
  show ?thesis
  proof (cases "save_object site kw m mm h vals m2ms db1")
    case (Inl e)
    with saved show ?thesis
      by (auto simp: commit_save_def row_by_hash_def split: sum.splits if_splits dest: get_one_Inr)
  next
    case (Inr rd)
    obtain r db2 where rd: "rd = (r, db2)" by fastforce
    with saved Inr have "db2 = db'" "row_pk r = pk"
      by (auto simp: commit_save_def split: sum.splits if_splits)
    with save_object_Inr [OF saved(1) Inr [unfolded rd]] saved(1,2) show ?thesis by auto
  qed
qed

text \<open>Committing the tree again finds the object and writes nothing.\<close>

lemma commit_found:
  assumes c: "commit site kw m t db = (Inr (pk, created), db')" and u: "unique_keys db"
    and same: "tables db2 = tables db'"
  shows "commit site kw' m t db2 = (Inr (pk, False), db2)"
proof -
  from commit_commits(1) [OF c] have cs: "commits site kw m t db (Inr (pk, created)) db'" .
  from commits_row [OF cs] obtain mm h items r where r: "site_model site m = Some mm"
    "prepare_commit_tree (site_lib site) t = Inr (TDict (Some h) items)"
    "r \<in> set (tables db' m)" "row_pk r = pk" "row_hash r = h" by blast
  have "unique_keys db'" using commits_extends [OF cs] u by blast
  with r(3,5) have "row_by_hash m h db2 = Inr r"
    using get_one_pk [of row_hash "tables db' m" r] by (simp add: row_by_hash_def unique_keys_def same)
  with r show ?thesis by (simp add: commit.simps)
qed

lemma commits_again:
  "commit site kw m t db = (Inr (pk, created), db') \<Longrightarrow> unique_keys db \<Longrightarrow>
   commit site kw' m t db' = (Inr (pk, False), db')"
  using commit_found by simp

end

end
