(* ===== verification/MtRoundtrip.thy ===== *)
theory MtRoundtrip imports MtCommit begin

text \<open>
  What becomes of a commit tree that fits the models of \<open>zentral/utils/mt_models.py\<close>: its commit
  raises no error of its own, and \<open>serialize\<close> gives the tree back.
\<close>

subsection \<open>Trees that fit a model\<close>

definition field_of :: "'a mt_model \<Rightarrow> string \<Rightarrow> mt_field option" where
  "field_of mm k = find (\<lambda>f. fd_name f = k) (mt_fields mm)"

text \<open>A field without a default needs an item.\<close>

definition required_given :: "'a mt_model \<Rightarrow> items \<Rightarrow> bool" where
  "required_given mm items \<longleftrightarrow>
     list_all (\<lambda>f. fd_null f \<or> many_to_one_attr (fd_kind f) = Some False \<or>
       fd_name f \<in> fst ` set (present_items items)) (mt_fields mm)"

lemma many_to_one_attr_iff:
  "many_to_one_attr k = Some True \<longleftrightarrow> (\<exists>m. k = ForeignKey m)"
  "many_to_one_attr k = Some False \<longleftrightarrow> (\<exists>m. k = ManyToManyField m)"
  by (cases k; simp add: many_to_one_attr_def)+

fun is_dict :: "tree \<Rightarrow> bool" where
  "is_dict (TDict h items) = True"
| "is_dict _ = False"

fun is_scalar :: "tree \<Rightarrow> bool" where
  "is_scalar (TBool _) = True"
| "is_scalar (TInt _) = True"
| "is_scalar (TStr _) = True"
| "is_scalar (TTime _) = True"
| "is_scalar _ = False"

text \<open>
  A tree without hashes whose items are those of the fields of the model: a dictionary for a
  foreign key, a list of dictionaries for a many-to-many field, a dictionary that does not vanish
  for a JSON field, a value for any other.
\<close>

fun fits :: "'a mt_site \<Rightarrow> string \<Rightarrow> tree \<Rightarrow> bool"
  and fits_items :: "'a mt_site \<Rightarrow> 'a mt_model \<Rightarrow> items \<Rightarrow> bool"
  and fits_value :: "'a mt_site \<Rightarrow> mt_field \<Rightarrow> tree \<Rightarrow> bool"
  and fits_list :: "'a mt_site \<Rightarrow> string \<Rightarrow> tree list \<Rightarrow> bool"
where
  "fits site m t =
     (case site_model site m of
        None \<Rightarrow> False
      | Some mm \<Rightarrow>
          (case t of
             TDict h items \<Rightarrow> h = None \<and> distinct (map fst items) \<and> fits_items site mm items \<and>
               required_given mm items
           | _ \<Rightarrow> False))"
| "fits_items site mm [] = True"
| "fits_items site mm ((k, v) # r) =
     ((is_empty_value v \<or> (case field_of mm k of None \<Rightarrow> False | Some f \<Rightarrow> fits_value site f v)) \<and>
      fits_items site mm r)"
| "fits_value site f v =
     (case fd_kind f of
        ForeignKey m \<Rightarrow> fits site m v
      | ManyToManyField m \<Rightarrow> (case v of TList vs \<Rightarrow> fits_list site m vs | _ \<Rightarrow> False)
      | JsonField \<Rightarrow> is_dict v \<and> solid v \<and> \<not> vanishes v
      | _ \<Rightarrow> is_scalar v)"
| "fits_list site m [] = True"
| "fits_list site m (v # r) = (fits site m v \<and> fits_list site m r)"

text \<open>The hash \<open>prepare_commit_tree\<close> gives a tree.\<close>

definition commit_hash :: "mt_lib \<Rightarrow> tree \<Rightarrow> string" where
  "commit_hash lib t = (case prepare_commit_tree lib t of Inl _ \<Rightarrow> [] | Inr t' \<Rightarrow> tree_hash t')"

definition naive_value :: "mt_lib \<Rightarrow> tree \<Rightarrow> tree" where
  "naive_value lib v = (case v of TTime d \<Rightarrow> TTime (naive lib d) | _ \<Rightarrow> v)"

declare fits.simps [simp del] fits_value.simps [simp del]

lemma fits_iff: "fits site m t \<longleftrightarrow> (\<exists>items mm. t = TDict None items \<and> site_model site m = Some mm \<and>
    distinct (map fst items) \<and> fits_items site mm items \<and> required_given mm items)"
  by (cases t) (auto simp: fits.simps split: option.splits)

lemma fits_items_iff: "fits_items site mm items \<longleftrightarrow>
    (\<forall>kv \<in> set (present_items items). \<exists>f. field_of mm (fst kv) = Some f \<and> fits_value site f (snd kv))"
  by (induction items) (auto split: option.splits)

lemma fits_list_iff: "fits_list site m vs \<longleftrightarrow> (\<forall>v \<in> set vs. fits site m v)"
  by (induction vs) auto

lemma fits_value_cases:
  assumes "fits_value site f v"
  obtains (key) m h items where "fd_kind f = ForeignKey m" "v = TDict h items" "fits site m v"
  | (keys) m vs where "fd_kind f = ManyToManyField m" "v = TList vs" "fits_list site m vs"
  | (json) h items where "fd_kind f = JsonField" "v = TDict h items" "solid v" "\<not> vanishes v"
  | (plain) "fd_kind f \<in> {TextField, ValueField}" "is_scalar v"
  using assms by (cases v) (auto simp: fits_value.simps fits_iff split: field_kind.splits)

lemma field_of_name: "field_of mm k = Some f \<Longrightarrow> fd_name f = k \<and> f \<in> set (mt_fields mm)"
  by (auto simp: field_of_def find_Some_iff)

lemma field_of_find:
  assumes "field_of mm k = Some f"
  shows "k \<notin> set (mt_excluded_field_set mm)" "find (\<lambda>f. fd_name f = k) (mm_fields mm) = Some f"
proof -
  show k: "k \<notin> set (mt_excluded_field_set mm)"
    using field_of_name [OF assms] by (auto simp: mt_fields_def)
  have "find (\<lambda>f. fd_name f = k) (filter (\<lambda>f. fd_name f \<notin> set (mt_excluded_field_set mm)) fs) =
        find (\<lambda>f. fd_name f = k) fs" for fs :: "mt_field list"
    using k by (induction fs) auto
  with assms show "find (\<lambda>f. fd_name f = k) (mm_fields mm) = Some f"
    by (simp add: field_of_def mt_fields_def)
qed

lemma get_mt_field_of:
  assumes "field_of mm k = Some f"
  shows "get_mt_field mm k (Some True) None =
      (if many_to_one_attr (fd_kind f) = Some True then Inr f else Inl MTOError)"
    and "get_mt_field mm k None (Some True) =
      (if many_to_one_attr (fd_kind f) = Some False then Inr f else Inl MTOError)"
    and "get_mt_field mm k None None =
      (if many_to_one_attr (fd_kind f) = None then Inr f else Inl MTOError)"
  using field_of_find [OF assms] by (simp_all add: get_mt_field_def)

lemma scalar_not_node: "is_scalar v \<Longrightarrow> \<not> is_node v \<and> \<not> is_empty_value v"
  by (cases v) auto

lemma prepare_scalar: "is_scalar v \<Longrightarrow> prepare_value lib v = Inr (naive_value lib v, naive_value lib v)"
  by (cases v) (auto simp: prepare_value.simps naive_value_def)

lemma naive_value_scalar: "is_scalar v \<Longrightarrow> is_scalar (naive_value lib v)"
  by (cases v) (auto simp: naive_value_def)

subsection \<open>The commit of a tree that fits\<close>

text \<open>An object of the tables that a tree stands for: it has the hash of the tree.\<close>

definition object_of :: "(string \<Rightarrow> 'a mt_db_scheme \<Rightarrow> nat \<Rightarrow> tree \<Rightarrow> bool) \<Rightarrow> mt_lib \<Rightarrow> 'a mt_db_scheme \<Rightarrow>
    string \<Rightarrow> nat \<Rightarrow> tree \<Rightarrow> bool" where
  "object_of K lib db m pk t \<longleftrightarrow>
     (\<exists>r \<in> set (tables db m). row_pk r = pk \<and> row_hash r = commit_hash lib t) \<and> K m db pk t"

text \<open>What the loop has set for an item.\<close>

definition item_stored :: "(string \<Rightarrow> 'a mt_db_scheme \<Rightarrow> nat \<Rightarrow> tree \<Rightarrow> bool) \<Rightarrow> mt_lib \<Rightarrow> 'a mt_model \<Rightarrow>
    'a mt_db_scheme \<Rightarrow> (string \<times> stored) list \<Rightarrow> (string \<times> nat list) list \<Rightarrow> string \<times> tree \<Rightarrow> bool" where
  "item_stored K lib mm db vals m2ms kv \<longleftrightarrow>
     (\<exists>f. field_of mm (fst kv) = Some f \<and>
       (case fd_kind f of
          ForeignKey m \<Rightarrow> dict_get m2ms (fst kv) = None \<and>
            (\<exists>pk. dict_get vals (fst kv) = Some (SKey (Some pk)) \<and> object_of K lib db m pk (snd kv))
        | ManyToManyField m \<Rightarrow>
            (\<exists>pks ts. dict_get m2ms (fst kv) = Some pks \<and> snd kv = TList ts \<and>
               list_all2 (object_of K lib db m) pks ts)
        | JsonField \<Rightarrow> dict_get m2ms (fst kv) = None \<and> dict_get vals (fst kv) = Some (SValue (clean lib (snd kv)))
        | _ \<Rightarrow> dict_get m2ms (fst kv) = None \<and> dict_get vals (fst kv) = Some (SValue (naive_value lib (snd kv)))))"

text \<open>The errors that are not those of the commit itself.\<close>

definition site_error :: "'a mt_site \<Rightarrow> pyerror \<Rightarrow> bool" where
  "site_error site e \<longleftrightarrow> e = IntegrityError \<or> e = ValidationError \<or>
     (\<exists>m r. site_refuses site m r = Some e) \<or>
     (\<exists>m mm kw r db. site_model site m = Some mm \<and> mm_save mm kw r db = Inl e)"

text \<open>
  The laws of the library functions and of the models: a naive time is naive, a digest has forty
  characters, and the fields of a model have different names.
\<close>

locale mt_laws = mt_saves site for site :: "'a mt_site" +
  assumes naive_law: "makes_naive (site_lib site)"
    and sha1_length: "length (sha1 (site_lib site) x) = 40"
    and field_names: "site_model site m = Some mm \<Longrightarrow>
      distinct (map fd_name (mt_fields mm)) \<and> [] \<notin> fd_name ` set (mt_fields mm)"
begin

abbreviation lib where "lib \<equiv> site_lib site"

lemma prepared_hash:
  assumes "prepare_commit_tree lib t = Inr t'" "solid t \<or> fits site m t"
  shows "\<exists>items. t' = TDict (Some (commit_hash lib t)) items \<and> length (commit_hash lib t) = 40 \<and>
    given_hash (Some (commit_hash lib t))"
proof -
  obtain items where t: "t = TDict None items"
    using assms prepare_is_dict [OF assms(1)] by (auto simp: fits_iff)
  with assms(1) obtain ns where t': "t' = TDict (Some (hexdigest lib (added_fields ns))) (left_items ns)"
    by (auto simp: prepare_dict_iff)
  have l: "length (hexdigest lib hs) = 40" for hs by (simp add: hexdigest_def sha1_length)
  then have "hexdigest lib hs \<noteq> []" for hs by (metis list.size(3) zero_neq_numeral)
  with l t' assms(1) show ?thesis by (simp add: commit_hash_def given_hash_def)
qed

lemma prepared_again:
  "prepare_commit_tree lib t = Inr t' \<Longrightarrow> fits site m t \<Longrightarrow> prepare_commit_tree lib t' = Inr t'"
  using prepared_hash by (metis prepare_given)

end

subsection \<open>The hash of what has been stored\<close>

definition stored_value :: "(string \<times> stored) list \<Rightarrow> (string \<times> nat list) list \<Rightarrow> mt_field \<Rightarrow> stored" where
  "stored_value vals m2ms f =
     (case dict_get m2ms (fd_name f) of
        Some pks \<Rightarrow> SKeys pks
      | None \<Rightarrow> (case dict_get vals (fd_name f) of None \<Rightarrow> field_default f | Some v \<Rightarrow> v))"

lemma map_of_named:
  "distinct (map fd_name fs) \<Longrightarrow> f \<in> set fs \<Longrightarrow> map_of (map (\<lambda>f. (fd_name f, g f)) fs) (fd_name f) = Some (g f)"
  by (induction fs) (auto simp: image_iff)

lemma field_value_stored:
  assumes "distinct (map fd_name (mt_fields mm))" "f \<in> set (mt_fields mm)"
    and "row_values r = row_values (set_keys m2ms (new_row mm pk h vals))"
  shows "field_value r f = stored_value vals m2ms f"
proof -
  let ?v = "\<lambda>f. case dict_get vals (fd_name f) of None \<Rightarrow> field_default f | Some v \<Rightarrow> v"
  have rv: "row_values r = map (\<lambda>f. (fd_name f, case dict_get m2ms (fd_name f) of None \<Rightarrow> ?v f | Some pks \<Rightarrow> SKeys pks))
      (mt_fields mm)"
    by (simp add: assms(3) set_keys_def new_row_def comp_def)
  show ?thesis
    unfolding field_value_def rv map_of_named [OF assms(1,2)] stored_value_def by (simp split: option.splits)
qed

context mt_laws begin

lemma object_of_row:
  assumes "object_of K lib db m pk t" "unique_keys db"
  shows "\<exists>r. row_by_pk m pk db = Inr r \<and> row_hash r = commit_hash lib t"
proof -
  from assms(1) obtain r where "r \<in> set (tables db m)" "row_pk r = pk" "row_hash r = commit_hash lib t"
    by (auto simp: object_of_def)
  with assms(2) get_one_pk [of row_pk "tables db m" r] show ?thesis
    by (auto simp: row_by_pk_def unique_keys_def)
qed

lemma objects_of_rows:
  assumes "list_all2 (object_of K lib db m) pks ts" "unique_keys db"
  shows "\<exists>rs. map_result (\<lambda>pk. row_by_pk m pk db) pks = Inr rs \<and> map row_hash rs = map (commit_hash lib) ts"
  using assms(1)
proof (induction pks ts rule: list_all2_induct)
  case (Cons pk pks t ts)
  from object_of_row [OF Cons.hyps(1) assms(2)] Cons.IH show ?case by auto
qed simp

lemma prepared_list_hashes:
  assumes "list_all2 (\<lambda>v v'. prepare_commit_tree lib v = Inr v') vs vs'"
  shows "map tree_hash vs' = map (commit_hash lib) vs"
  using assms by (induction rule: list_all2_induct) (auto simp: commit_hash_def)

lemma stored_field_hash:
  assumes s: "item_stored K lib mm db vals m2ms kv" and f: "field_of mm (fst kv) = Some f"
    and v: "fits_value site f (snd kv)" and e: "\<not> is_empty_value (snd kv)"
    and p: "item_prepared lib kv n" and u: "unique_keys db"
  shows "\<exists>hv. field_hash_value site db f (stored_value vals m2ms f) = Inr hv \<and> \<not> is_empty_value hv \<and>
    field_text lib hv = Inr (snd (snd n))"
proof -
  have name: "fd_name f = fst kv" using field_of_name [OF f] by simp
  from p obtain v' hv where pv: "prepare_value lib (snd kv) = Inr (v', hv)" and ft: "field_text lib hv = Inr (snd (snd n))"
    by (auto simp: item_prepared_def)
  from v show ?thesis
  proof (cases rule: fits_value_cases)
    case (key m h items)
    with s f name obtain pk where st: "stored_value vals m2ms f = SKey (Some pk)" "object_of K lib db m pk (snd kv)"
      by (auto simp: item_stored_def stored_value_def)
    from object_of_row [OF st(2) u] obtain r where r: "row_by_pk m pk db = Inr r"
      "row_hash r = commit_hash lib (snd kv)" by blast
    from pv key(2) have "hv = TStr (commit_hash lib (snd kv))"
      by (auto simp: prepare_value.simps bind_result_Inr commit_hash_def)
    with st r key(1) ft show ?thesis by (auto simp: field_hash_value_def)
  next
    case (keys m vs)
    with s f name obtain pks where st: "stored_value vals m2ms f = SKeys pks" "list_all2 (object_of K lib db m) pks vs"
      by (auto simp: item_stored_def stored_value_def)
    from objects_of_rows [OF st(2) u] obtain rs where rs: "map_result (\<lambda>pk. row_by_pk m pk db) pks = Inr rs"
      "map row_hash rs = map (commit_hash lib) vs" by blast
    from pv keys(2) obtain vs' where vs': "list_all2 (\<lambda>v v'. prepare_commit_tree lib v = Inr v') vs vs'"
      and hv: "hv = TList (map TStr (map tree_hash vs'))"
      by (auto simp: prepare_value.simps bind_result_Inr prepare_list_iff)
    have "map (\<lambda>r. TStr (row_hash r)) rs = map TStr (map tree_hash vs')"
      unfolding prepared_list_hashes [OF vs'] rs(2) [symmetric] by simp
    moreover have "\<not> is_empty_value hv"
      using vs' hv keys(2) e by (cases vs) (auto simp: list_all2_Cons1)
    ultimately show ?thesis using st(1) rs(1) hv ft keys(1) by (simp add: field_hash_value_def)
  next
    case (json h items)
    with s f name have st: "stored_value vals m2ms f = SValue (clean lib (snd kv))"
      by (auto simp: item_stored_def stored_value_def)
    from pv json(2) have pt: "prepare_commit_tree lib (snd kv) = Inr v'" and hv: "hv = TStr (tree_hash v')"
      by (auto simp: prepare_value.simps bind_result_Inr)
    have "prepare_commit_tree lib (clean lib (snd kv)) = Inr v'"
      using cleanup_prepared(1) [OF naive_law pt json(3)] by blast
    moreover have "tree_truthy (clean lib (snd kv))"
      using json(2,4) by (simp add: clean_items_present)
    ultimately show ?thesis using st json(1) ft hv by (simp add: field_hash_value_def)
  next
    case plain
    with s f name have st: "stored_value vals m2ms f = SValue (naive_value lib (snd kv))"
      by (auto simp: item_stored_def stored_value_def)
    have "hv = naive_value lib (snd kv)" using pv prepare_scalar [OF plain(2), of lib] by auto
    with st plain ft scalar_not_node [OF naive_value_scalar [OF plain(2), of lib]] show ?thesis
      by (auto simp: field_hash_value_def)
  qed
qed

lemma add_row_fields_stored:
  assumes "\<And>f. f \<in> set fs \<Longrightarrow> \<exists>hv. field_hash_value site db f (field_value r f) = Inr hv \<and>
      (case dict_get A (fd_name f) of
         None \<Rightarrow> is_empty_value hv
       | Some fv \<Rightarrow> \<not> is_empty_value hv \<and> field_text lib hv = Inr fv)"
    and "distinct (map fd_name fs)" "[] \<notin> fd_name ` set fs" "fst ` set hs \<inter> fd_name ` set fs = {}"
  shows "add_row_fields site db r fs hs =
    Inr (hs @ List.map_filter (\<lambda>f. map_option (Pair (fd_name f)) (dict_get A (fd_name f))) fs)"
  using assms
proof (induction fs arbitrary: hs)
  case (Cons f fs)
  from Cons.prems(1) [of f] obtain hv where hv: "field_hash_value site db f (field_value r f) = Inr hv"
    "case dict_get A (fd_name f) of None \<Rightarrow> is_empty_value hv
       | Some fv \<Rightarrow> \<not> is_empty_value hv \<and> field_text lib hv = Inr fv" by auto
  have n: "fd_name f \<noteq> []" "fd_name f \<notin> fst ` set hs" using Cons.prems(3,4) by auto
  show ?case
  proof (cases "dict_get A (fd_name f)")
    case None
    have "add_row_fields site db r fs hs =
      Inr (hs @ List.map_filter (\<lambda>f. map_option (Pair (fd_name f)) (dict_get A (fd_name f))) fs)"
      using Cons.prems by (intro Cons.IH) auto
    with None hv n show ?thesis by (simp add: add_field_def map_filter_simps)
  next
    case (Some fv)
    have "add_row_fields site db r fs (hs @ [(fd_name f, fv)]) =
      Inr ((hs @ [(fd_name f, fv)]) @ List.map_filter (\<lambda>f. map_option (Pair (fd_name f)) (dict_get A (fd_name f))) fs)"
      using Cons.prems by (intro Cons.IH) auto
    with Some hv n show ?thesis by (simp add: add_field_def map_filter_simps)
  qed
qed (simp add: map_filter_simps)

text \<open>The fields of the row, in the order of the model, are the fields of the tree.\<close>

lemma mset_lookups:
  assumes "distinct ns" "distinct (map fst A)" "fst ` set A \<subseteq> set ns"
  shows "mset (List.map_filter (\<lambda>k. map_option (Pair k) (dict_get A k)) ns) = mset A"
proof -
  let ?L = "List.map_filter (\<lambda>k. map_option (Pair k) (dict_get A k)) ns"
  have s: "set (List.map_filter (\<lambda>k. map_option (Pair k) (dict_get A k)) ks) =
      {(k, v). k \<in> set ks \<and> dict_get A k = Some v}" for ks
    by (induction ks) (auto simp: map_filter_simps split: option.splits)
  have d: "distinct ks \<Longrightarrow> distinct (List.map_filter (\<lambda>k. map_option (Pair k) (dict_get A k)) ks)" for ks
    by (induction ks) (auto simp: map_filter_simps s split: option.splits)
  have "set ?L = set A"
    unfolding s using assms(2,3) by (force simp: map_of_eq_Some_iff)
  moreover have "distinct A" using assms(2) by (simp add: distinct_map)
  ultimately show ?thesis using d [OF assms(1)] by (simp add: set_eq_iff_mset_eq_distinct)
qed

lemma stored_hash:
  assumes mm: "site_model site m = Some mm" and t: "t = TDict None items" and fit: "fits site m t"
    and pr: "prepare_commit_tree lib t = Inr t'" and u: "unique_keys db"
    and st: "\<And>kv. kv \<in> set (present_items items) \<Longrightarrow> item_stored K lib mm db vals m2ms kv"
    and none: "\<And>k. k \<notin> fst ` set (present_items items) \<Longrightarrow> dict_get vals k = None \<and> dict_get m2ms k = None"
    and r: "row_values r = row_values (set_keys m2ms (new_row mm pk h vals))"
  shows "object_hash site mm r db = Inr (commit_hash lib t)"
proof -
  from pr t obtain ns where ns: "list_all2 (item_prepared lib) (present_items items) ns" "distinct (map fst ns)"
    and t': "t' = TDict (Some (hexdigest lib (added_fields ns))) (left_items ns)"
    by (auto simp: prepare_dict_iff)
  let ?A = "added_fields ns"
  have fi: "fits_items site mm items" and req: "required_given mm items" using fit t mm by (auto simp: fits_iff)
  have names: "distinct (map fd_name (mt_fields mm))" "[] \<notin> fd_name ` set (mt_fields mm)"
    using field_names [OF mm] by auto
  have keys: "map fst ?A = map fst (present_items items)"
    using ns(1) by (induction rule: list_all2_induct) (auto simp: item_prepared_def)
  have dA: "distinct (map fst ?A)" using ns(2) by (simp add: comp_def)
  have keyset: "fst ` set ?A = fst ` set (present_items items)"
    using arg_cong [OF keys, of set] by (simp only: set_map)
  have field: "\<exists>hv. field_hash_value site db f (field_value r f) = Inr hv \<and>
      (case dict_get ?A (fd_name f) of
         None \<Rightarrow> is_empty_value hv
       | Some fv \<Rightarrow> \<not> is_empty_value hv \<and> field_text lib hv = Inr fv)"
    if f: "f \<in> set (mt_fields mm)" for f
  proof (cases "fd_name f \<in> fst ` set (present_items items)")
    case False
    then have "dict_get ?A (fd_name f) = None"
      by (simp only: map_of_eq_None_iff keyset not_False_eq_True)
    moreover have "fd_null f \<or> (\<exists>m. fd_kind f = ManyToManyField m)"
      using req f False by (auto simp: required_given_def list_all_iff many_to_one_attr_iff)
    moreover have "field_value r f = field_default f"
      using none [OF False] by (simp add: field_value_stored [OF names(1) f r] stored_value_def)
    ultimately show ?thesis
      by (cases "fd_kind f") (auto simp: field_default_def field_hash_value_def)
  next
    case True
    then obtain kv where kv: "kv \<in> set (present_items items)" "fst kv = fd_name f" by auto
    then obtain i where i: "i < length (present_items items)" "present_items items ! i = kv"
      by (metis in_set_conv_nth)
    let ?n = "ns ! i"
    have p: "item_prepared lib kv ?n" using ns(1) i by (metis list_all2_nthD)
    have "?n \<in> set ns" using i ns(1) by (metis list_all2_lengthD nth_mem)
    then have "(fst ?n, snd (snd ?n)) \<in> set ?A" by (auto intro: rev_image_eqI)
    then have "dict_get ?A (fd_name f) = Some (snd (snd ?n))"
      using p kv(2) by (intro map_of_is_SomeI [OF dA]) (simp add: item_prepared_def)
    moreover obtain f' where f': "field_of mm (fst kv) = Some f'" "fits_value site f' (snd kv)"
      using fi kv(1) unfolding fits_items_iff by blast
    moreover have "f' = f"
      using field_of_name [OF f'(1)] kv(2) f by (intro distinct_map_eqD [OF names(1)]) simp_all
    ultimately show ?thesis
      using stored_field_hash [OF st [OF kv(1)] f' _ p u] kv(1)
      by (simp add: field_value_stored [OF names(1) f r])
  qed
  let ?L = "List.map_filter (\<lambda>f. map_option (Pair (fd_name f)) (dict_get ?A (fd_name f))) (mt_fields mm)"
  have "add_row_fields site db r (mt_fields mm) [] = Inr ([] @ ?L)"
    using names by (intro add_row_fields_stored field) auto
  then have oh: "object_hash site mm r db = Inr (hexdigest lib ?L)"
    by (simp add: object_hash_def)
  have "?L = List.map_filter (\<lambda>k. map_option (Pair k) (dict_get ?A k)) (map fd_name (mt_fields mm))"
    by (simp add: List.map_filter_def filter_map comp_def)
  moreover have "fst ` set ?A \<subseteq> set (map fd_name (mt_fields mm))"
  proof -
    have "fst kv \<in> set (map fd_name (mt_fields mm))" if "kv \<in> set (present_items items)" for kv
    proof -
      from fi that obtain f where "field_of mm (fst kv) = Some f" unfolding fits_items_iff by blast
      from field_of_name [OF this] show ?thesis by (auto intro: rev_image_eqI)
    qed
    then show ?thesis unfolding keyset by blast
  qed
  ultimately have "mset ?L = mset ?A" using mset_lookups [OF names(1) dA] by simp
  then have "mset (byte_fields ?A) = mset (byte_fields ?L)" unfolding byte_fields_def mset_map by simp
  from message_perm [OF this dA] have "hexdigest lib ?L = hexdigest lib ?A" by (simp add: hexdigest_def)
  with oh t' pr show ?thesis by (simp add: commit_hash_def)
qed

end

subsection \<open>The induction over a commit\<close>

text \<open>
  A set of trees with their models that has the trees of the related objects of each of them.
\<close>

definition item_ok :: "(string \<times> tree) set \<Rightarrow> 'a mt_site \<Rightarrow> 'a mt_model \<Rightarrow> string \<times> tree \<Rightarrow> bool" where
  "item_ok P site mm kv \<longleftrightarrow> \<not> is_empty_value (snd kv) \<and>
     (\<exists>f. field_of mm (fst kv) = Some f \<and> fits_value site f (snd kv) \<and>
       (\<forall>m. fd_kind f = ForeignKey m \<longrightarrow> (m, snd kv) \<in> P) \<and>
       (\<forall>m ts. fd_kind f = ManyToManyField m \<longrightarrow> snd kv = TList ts \<longrightarrow> (\<forall>t \<in> set ts. (m, t) \<in> P)))"

definition parts_closed :: "'a mt_site \<Rightarrow> (string \<times> tree) set \<Rightarrow> bool" where
  "parts_closed site P \<longleftrightarrow>
     (\<forall>m items mm. (m, TDict None items) \<in> P \<longrightarrow> site_model site m = Some mm \<longrightarrow>
        fits_items site mm items \<longrightarrow> (\<forall>kv \<in> set (present_items items). item_ok P site mm kv))"

lemma row_by_hash_unique:
  assumes "unique_keys db" "row_by_hash m h db = Inl e"
  shows "e = DoesNotExist"
proof -
  have "distinct (map row_hash (tables db m))" using assms(1) by (simp add: unique_keys_def)
  then have "row_by_hash m h db \<noteq> Inl MultipleObjectsReturned"
    unfolding row_by_hash_def
    by (intro unique_on_get [where c = "\<lambda>_. True" and key = row_hash]) (auto simp: unique_on_def)
  with assms(2) show ?thesis by (auto simp: row_by_hash_def get_one_def split: list.splits)
qed

lemma object_of_extends:
  assumes "object_of K lib db m pk t" "extends db db'" "K m db pk t \<Longrightarrow> K m db' pk t"
  shows "object_of K lib db' m pk t"
  using assms extends_rows [OF assms(2), of m] by (auto simp: object_of_def)

lemma item_stored_mono:
  assumes "item_stored K lib mm db vals m2ms kv" "extends db db'"
    and "\<And>m pk t. K m db pk t \<Longrightarrow> K m db' pk t"
    and "dict_get vals' (fst kv) = dict_get vals (fst kv)" "dict_get m2ms' (fst kv) = dict_get m2ms (fst kv)"
  shows "item_stored K lib mm db' vals' m2ms' kv"
proof -
  have o: "object_of K lib db m pk t \<Longrightarrow> object_of K lib db' m pk t" for m pk t
    using object_of_extends [OF _ assms(2)] assms(3) by blast
  have l: "list_all2 (object_of K lib db m) pks ts \<Longrightarrow> list_all2 (object_of K lib db' m) pks ts" for m pks ts
    using o by (auto elim: list_all2_mono)
  from assms(1) obtain f where "field_of mm (fst kv) = Some f" by (auto simp: item_stored_def)
  with assms(1,4,5) o l show ?thesis
    by (cases "fd_kind f") (auto simp: item_stored_def)
qed

context mt_laws begin

lemma prepared_item_cases:
  assumes "item_ok P site mm kv" "item_prepared lib kv n"
  obtains (key) f m where "field_of mm (fst kv) = Some f" "fd_kind f = ForeignKey m" "fits site m (snd kv)"
      "(m, snd kv) \<in> P" "prepare_commit_tree lib (snd kv) = Inr (fst (snd n))" "is_dict (fst (snd n))"
  | (keys) f m ts vs where "field_of mm (fst kv) = Some f" "fd_kind f = ManyToManyField m" "snd kv = TList ts"
      "fst (snd n) = TList vs" "list_all2 (\<lambda>t v. prepare_commit_tree lib t = Inr v) ts vs"
      "\<forall>t \<in> set ts. fits site m t \<and> (m, t) \<in> P"
  | (json) f where "field_of mm (fst kv) = Some f" "fd_kind f = JsonField" "is_dict (fst (snd n))"
      "cleanup_commit_tree (fst (snd n)) = Inr (clean lib (snd kv))"
  | (plain) f where "field_of mm (fst kv) = Some f" "fd_kind f \<in> {TextField, ValueField}"
      "fst (snd n) = naive_value lib (snd kv)" "\<not> is_node (fst (snd n))"
proof -
  from assms(1) obtain f where f: "field_of mm (fst kv) = Some f" and fv: "fits_value site f (snd kv)"
    and P: "\<And>m. fd_kind f = ForeignKey m \<Longrightarrow> (m, snd kv) \<in> P"
      "\<And>m ts. fd_kind f = ManyToManyField m \<Longrightarrow> snd kv = TList ts \<Longrightarrow> \<forall>t \<in> set ts. (m, t) \<in> P"
    by (auto simp: item_ok_def)
  from assms(2) obtain hv where pv: "prepare_value lib (snd kv) = Inr (fst (snd n), hv)"
    by (auto simp: item_prepared_def)
  from fv show ?thesis
  proof (cases rule: fits_value_cases)
    case (key m h items)
    with pv have p: "prepare_commit_tree lib (snd kv) = Inr (fst (snd n))"
      by (auto simp: prepare_value.simps bind_result_Inr)
    then have "is_dict (fst (snd n))" by (auto dest: prepared_is_dict)
    with that(1) [OF f key(1,3) P(1) [OF key(1)] p] show ?thesis by blast
  next
    case (keys m ts)
    with pv obtain vs where vs: "TList vs = fst (snd n)" "list_all2 (\<lambda>t v. prepare_commit_tree lib t = Inr v) ts vs"
      by (auto simp: prepare_value.simps bind_result_Inr prepare_list_iff)
    with that(2) [OF f keys(1,2) vs(1) [symmetric] vs(2)] keys(3) P(2) [OF keys(1,2)] show ?thesis by (auto simp: fits_list_iff)
  next
    case (json h items)
    with pv have p: "prepare_commit_tree lib (snd kv) = Inr (fst (snd n))"
      by (auto simp: prepare_value.simps bind_result_Inr)
    then have "is_dict (fst (snd n))" by (auto dest: prepared_is_dict)
    with that(3) [OF f json(1)] cleanup_prepared(1) [OF naive_law p json(3)] show ?thesis by blast
  next
    case plain
    with pv prepare_scalar [OF plain(2), of lib] have e: "fst (snd n) = naive_value lib (snd kv)" by auto
    with that(4) [OF f plain(1) e] scalar_not_node [OF naive_value_scalar [OF plain(2), of lib]]
    show ?thesis by auto
  qed
qed

end

text \<open>What is shown of the commit of a tree, of the items of a tree and of a list of trees.\<close>

locale commit_induction = mt_laws site for site :: "'a mt_site" +
  fixes P :: "(string \<times> tree) set"
    and Inv :: "'a mt_db_scheme \<Rightarrow> bool"
    and K :: "string \<Rightarrow> 'a mt_db_scheme \<Rightarrow> nat \<Rightarrow> tree \<Rightarrow> bool"
  assumes closed: "parts_closed site P"
    and K_extends: "K m db pk t \<Longrightarrow> extends db db' \<Longrightarrow> unique_keys db' \<Longrightarrow> K m db' pk t"
    and K_found: "Inv db \<Longrightarrow> unique_keys db \<Longrightarrow> (m, t) \<in> P \<Longrightarrow> fits site m t \<Longrightarrow>
      r \<in> set (tables db m) \<Longrightarrow> row_hash r = commit_hash lib t \<Longrightarrow> K m db (row_pk r) t"
    and K_saved: "Inv db \<Longrightarrow> unique_keys db \<Longrightarrow> (m, TDict None items) \<in> P \<Longrightarrow> site_model site m = Some mm \<Longrightarrow>
      fits site m (TDict None items) \<Longrightarrow>
      (\<And>kv. kv \<in> set (present_items items) \<Longrightarrow> item_stored K lib mm db vals m2ms kv) \<Longrightarrow>
      (\<And>k. k \<notin> fst ` set (present_items items) \<Longrightarrow> dict_get vals k = None \<and> dict_get m2ms k = None) \<Longrightarrow>
      save_object site kw m mm (commit_hash lib (TDict None items)) vals m2ms db = Inr (r, db') \<Longrightarrow>
      Inv db' \<and> K m db' (row_pk r) (TDict None items)"
begin

definition commit_post :: "string \<Rightarrow> tree \<Rightarrow> pyerror + nat \<times> bool \<Rightarrow> 'a mt_db_scheme \<Rightarrow> bool" where
  "commit_post m t res db' \<longleftrightarrow> Inv db' \<and>
     (case res of Inl e \<Rightarrow> site_error site e | Inr (pk, created) \<Rightarrow> object_of K lib db' m pk t)"

definition items_post :: "'a mt_model \<Rightarrow> items \<Rightarrow> (string \<times> stored) list \<Rightarrow> (string \<times> nat list) list \<Rightarrow>
    pyerror + (string \<times> stored) list \<times> (string \<times> nat list) list \<Rightarrow> 'a mt_db_scheme \<Rightarrow> bool" where
  "items_post mm raws vals m2ms res db' \<longleftrightarrow> Inv db' \<and>
     (case res of
        Inl e \<Rightarrow> site_error site e
      | Inr (vals', m2ms') \<Rightarrow> (\<forall>kv \<in> set raws. item_stored K lib mm db' vals' m2ms' kv) \<and>
          (\<forall>k. k \<notin> fst ` set raws \<longrightarrow> dict_get vals' k = dict_get vals k \<and> dict_get m2ms' k = dict_get m2ms k))"

definition list_post :: "string \<Rightarrow> tree list \<Rightarrow> pyerror + nat list \<Rightarrow> 'a mt_db_scheme \<Rightarrow> bool" where
  "list_post m ts res db' \<longleftrightarrow> Inv db' \<and>
     (case res of Inl e \<Rightarrow> site_error site e | Inr pks \<Rightarrow> list_all2 (object_of K lib db' m) pks ts)"

definition items_pre :: "'a mt_model \<Rightarrow> items \<Rightarrow> items \<Rightarrow> (string \<times> stored) list \<Rightarrow> (string \<times> nat list) list \<Rightarrow>
    'a mt_db_scheme \<Rightarrow> bool" where
  "items_pre mm raws its vals m2ms db \<longleftrightarrow>
     (\<exists>ns. list_all2 (item_prepared lib) raws ns \<and> its = left_items ns) \<and> distinct (map fst raws) \<and>
     (\<forall>kv \<in> set raws. item_ok P site mm kv \<and> dict_get vals (fst kv) = None \<and> dict_get m2ms (fst kv) = None) \<and>
     Inv db \<and> unique_keys db"

lemma item_stored_extends:
  assumes "item_stored K lib mm db vals m2ms kv" "extends db db'" "unique_keys db'"
    and "dict_get vals' (fst kv) = dict_get vals (fst kv)" "dict_get m2ms' (fst kv) = dict_get m2ms (fst kv)"
  shows "item_stored K lib mm db' vals' m2ms' kv"
  using K_extends [OF _ assms(2,3)] assms(4,5) by (rule item_stored_mono [OF assms(1,2)])

lemma items_pre_Cons:
  assumes "items_pre mm raws ((k, v') # r) vals m2ms db"
  obtains kv raws' n where "raws = kv # raws'" "fst kv = k" "fst (snd n) = v'" "item_ok P site mm kv"
    "item_prepared lib kv n" "k \<notin> fst ` set raws'" "dict_get vals k = None" "dict_get m2ms k = None"
    "Inv db" "unique_keys db"
    "\<forall>vals1 m2ms1 db1. (\<forall>j. j \<noteq> k \<longrightarrow> dict_get vals1 j = dict_get vals j \<and> dict_get m2ms1 j = dict_get m2ms j) \<longrightarrow>
       Inv db1 \<longrightarrow> unique_keys db1 \<longrightarrow> items_pre mm raws' r vals1 m2ms1 db1"
proof -
  from assms obtain ns where ns: "list_all2 (item_prepared lib) raws ns" "(k, v') # r = left_items ns"
    by (auto simp: items_pre_def)
  then obtain n ns' where n: "ns = n # ns'" "fst n = k" "fst (snd n) = v'" "r = left_items ns'"
    by (cases ns) auto
  with ns(1) obtain kv raws' where raws: "raws = kv # raws'" "item_prepared lib kv n"
    "list_all2 (item_prepared lib) raws' ns'" by (auto simp: list_all2_Cons2)
  have k: "fst kv = k" using raws(2) n(2) by (simp add: item_prepared_def)
  have kn: "k \<notin> fst ` set raws'" using assms raws(1) k by (simp add: items_pre_def)
  have rest: "items_pre mm raws' r vals1 m2ms1 db1"
    if "\<forall>j. j \<noteq> k \<longrightarrow> dict_get vals1 j = dict_get vals j \<and> dict_get m2ms1 j = dict_get m2ms j"
      "Inv db1" "unique_keys db1" for vals1 m2ms1 db1
  proof -
    have nk: "fst kv' \<noteq> k" if "kv' \<in> set raws'" for kv'
      using kn imageI [OF that, of fst] by metis
    have old: "item_ok P site mm kv' \<and> dict_get vals (fst kv') = None \<and> dict_get m2ms (fst kv') = None"
      if "kv' \<in> set raws'" for kv'
      using assms raws(1) that by (simp add: items_pre_def)
    have "item_ok P site mm kv' \<and> dict_get vals1 (fst kv') = None \<and> dict_get m2ms1 (fst kv') = None"
      if "kv' \<in> set raws'" for kv'
      using old [OF that] nk [OF that] \<open>\<forall>j. j \<noteq> k \<longrightarrow> _\<close> by simp
    with raws(1,3) n(4) that(2,3) assms show ?thesis by (auto simp: items_pre_def)
  qed
  have "item_ok P site mm kv" "dict_get vals k = None" "dict_get m2ms k = None" "Inv db" "unique_keys db"
    using assms raws(1) k by (auto simp: items_pre_def)
  with rest show ?thesis
    by (intro that [OF raws(1) k n(3) _ raws(2) kn]) simp_all
qed

lemma items_post_Cons:
  assumes "items_post mm raws' vals1 m2ms1 res db'" "k \<notin> fst ` set raws'" "fst kv = k"
    and "item_stored K lib mm db1 vals1 m2ms1 kv" "extends db1 db'" "unique_keys db'"
    and "\<And>j. j \<noteq> k \<Longrightarrow> dict_get vals1 j = dict_get vals j \<and> dict_get m2ms1 j = dict_get m2ms j"
  shows "items_post mm (kv # raws') vals m2ms res db'"
proof (cases res)
  case (Inl e)
  with assms(1) show ?thesis by (simp add: items_post_def)
next
  case (Inr vm)
  obtain vals' m2ms' where vm: "vm = (vals', m2ms')" by fastforce
  with Inr assms(1) have p: "Inv db'" "\<forall>kv \<in> set raws'. item_stored K lib mm db' vals' m2ms' kv"
    "\<forall>k. k \<notin> fst ` set raws' \<longrightarrow> dict_get vals' k = dict_get vals1 k \<and> dict_get m2ms' k = dict_get m2ms1 k"
    by (auto simp: items_post_def)
  have "item_stored K lib mm db' vals' m2ms' kv"
    using p(3) assms(2,3) by (intro item_stored_extends [OF assms(4-6)]) auto
  with p assms(3,7) Inr vm show ?thesis by (auto simp: items_post_def)
qed

lemma root_items_pre:
  assumes "(m, TDict None items) \<in> P" "site_model site m = Some mm" "fits site m (TDict None items)"
    and "prepare_commit_tree lib (TDict None items) = Inr (TDict (Some h) its)" "Inv db" "unique_keys db"
  shows "items_pre mm (present_items items) its [] [] db" and "h = commit_hash lib (TDict None items)"
proof -
  from assms(4) obtain ns where ns: "list_all2 (item_prepared lib) (present_items items) ns"
    "distinct (map fst ns)" "its = left_items ns" by (auto simp: prepare_dict_iff)
  have "map fst ns = map fst (present_items items)"
    using ns(1) by (induction rule: list_all2_induct) (auto simp: item_prepared_def)
  with ns(2) have "distinct (map fst (present_items items))" by simp
  moreover have "fits_items site mm items" using assms(2,3) by (auto simp: fits_iff)
  then have "\<forall>kv \<in> set (present_items items). item_ok P site mm kv"
    using closed assms(1,2) unfolding parts_closed_def by blast
  ultimately show "items_pre mm (present_items items) its [] [] db"
    using ns assms(5,6) unfolding items_pre_def by auto
  show "h = commit_hash lib (TDict None items)" using assms(4) by (simp add: commit_hash_def)
qed

lemma found_post:
  assumes "row_by_hash m (commit_hash lib t) db = Inr r" "Inv db" "unique_keys db" "(m, t) \<in> P" "fits site m t"
  shows "commit_post m t (Inr (row_pk r, created)) db"
proof -
  from assms(1) have r: "r \<in> set (tables db m)" "row_hash r = commit_hash lib t"
    by (auto simp: row_by_hash_def dest: get_one_Inr)
  with K_found [OF assms(2-5) r] assms(2) show ?thesis by (auto simp: commit_post_def object_of_def)
qed

lemma save_object_error:
  "site_model site m = Some mm \<Longrightarrow> save_object site kw m mm h vals m2ms db = Inl e \<Longrightarrow> site_error site e"
  by (auto simp: save_object_def bind_result_def site_error_def Let_def split: sum.splits option.splits if_splits)

lemma commit_save_post:
  assumes "(m, t) \<in> P" "t = TDict None items" "site_model site m = Some mm" "fits site m t"
    and pr: "prepare_commit_tree lib t = Inr s" and I: "Inv db" and u: "unique_keys db"
    and st: "\<And>kv. kv \<in> set (present_items items) \<Longrightarrow> item_stored K lib mm db vals m2ms kv"
    and none: "\<And>k. k \<notin> fst ` set (present_items items) \<Longrightarrow> dict_get vals k = None \<and> dict_get m2ms k = None"
    and c: "commit_save site kw m mm (commit_hash lib t) vals m2ms db = (res, db')"
  shows "commit_post m t res db'"
proof (cases "save_object site kw m mm (commit_hash lib t) vals m2ms db")
  case (Inl e)
  show ?thesis
  proof (cases "e = IntegrityError")
    case True
    with row_by_hash_unique [OF u] c Inl True found_post [OF _ I u assms(1,4)] I show ?thesis
      by (auto simp: commit_save_def commit_post_def site_error_def split: sum.splits)
  next
    case False
    with c Inl I save_object_error [OF assms(3) Inl] show ?thesis
      by (auto simp: commit_save_def commit_post_def)
  qed
next
  case (Inr rd)
  obtain r db2 where rd: "rd = (r, db2)" by fastforce
  note sv = Inr [unfolded rd]
  from save_extends [OF assms(3) sv] u have e: "extends db db2" "unique_keys db2" by auto
  have st2: "item_stored K lib mm db2 vals m2ms kv" if "kv \<in> set (present_items items)" for kv
    by (rule item_stored_extends [OF st [OF that] e refl refl])
  have "object_hash site mm r db2 = Inr (commit_hash lib t)"
  proof (rule stored_hash [OF assms(3,2,4) pr e(2)])
    show "row_values r = row_values (set_keys m2ms (new_row mm (fresh_pk (map row_pk (tables db m)))
        (commit_hash lib t) vals))" by (rule save_object_Inr(5) [OF assms(3) sv])
  qed (fact st2 none)+
  moreover have "Inv db2 \<and> K m db2 (row_pk r) t"
    using K_saved [OF I u, of m items mm vals m2ms kw r db2] assms(1-4) st none sv by blast
  moreover have "r \<in> set (tables db2 m)" "row_hash r = commit_hash lib t"
    using save_object_Inr(1,2) [OF assms(3) sv] by simp_all
  ultimately show ?thesis
    using c sv by (auto simp: commit_save_def commit_post_def object_of_def)
qed

text \<open>The loop accepts every item of a tree that fits.\<close>

lemma item_accepted:
  assumes "item_ok P site mm kv" "item_prepared lib kv n" "fst kv = k" "fst (snd n) = v"
  shows "\<not> is_node v \<Longrightarrow> \<exists>f. get_mt_field mm k None None = Inr f \<and> field_of mm k = Some f \<and>
      fd_kind f \<in> {TextField, ValueField} \<and> v = naive_value lib (snd kv)"
    and "is_dict v \<Longrightarrow> get_mt_field mm k (Some True) None = Inr f \<Longrightarrow> field_of mm k = Some f \<and>
      (\<exists>m. fd_kind f = ForeignKey m \<and> fits site m (snd kv) \<and> (m, snd kv) \<in> P \<and>
        prepare_commit_tree lib (snd kv) = Inr v)"
    and "is_dict v \<Longrightarrow> get_mt_field mm k (Some True) None = Inl e \<Longrightarrow> e = MTOError \<and>
      (\<exists>f. get_mt_field mm k None None = Inr f \<and> field_of mm k = Some f \<and> fd_kind f = JsonField \<and>
        cleanup_commit_tree v = Inr (clean lib (snd kv)))"
    and "v = TList vs \<Longrightarrow> \<exists>f m ts. get_mt_field mm k None (Some True) = Inr f \<and> field_of mm k = Some f \<and>
      fd_kind f = ManyToManyField m \<and> snd kv = TList ts \<and>
      list_all2 (\<lambda>t v. prepare_commit_tree lib t = Inr v) ts vs \<and> (\<forall>t \<in> set ts. fits site m t \<and> (m, t) \<in> P)"
proof -
  from assms(1,2)
  have "(\<not> is_node v \<longrightarrow> (\<exists>f. get_mt_field mm k None None = Inr f \<and> field_of mm k = Some f \<and>
      fd_kind f \<in> {TextField, ValueField} \<and> v = naive_value lib (snd kv))) \<and>
    (is_dict v \<longrightarrow> (\<exists>f m. get_mt_field mm k (Some True) None = Inr f \<and> field_of mm k = Some f \<and>
        fd_kind f = ForeignKey m \<and> fits site m (snd kv) \<and> (m, snd kv) \<in> P \<and> prepare_commit_tree lib (snd kv) = Inr v) \<or>
      (\<exists>f. get_mt_field mm k (Some True) None = Inl MTOError \<and> get_mt_field mm k None None = Inr f \<and>
        field_of mm k = Some f \<and> fd_kind f = JsonField \<and> cleanup_commit_tree v = Inr (clean lib (snd kv)))) \<and>
    (\<forall>vs. v = TList vs \<longrightarrow> (\<exists>f m ts. get_mt_field mm k None (Some True) = Inr f \<and> field_of mm k = Some f \<and>
      fd_kind f = ManyToManyField m \<and> snd kv = TList ts \<and>
      list_all2 (\<lambda>t v. prepare_commit_tree lib t = Inr v) ts vs \<and> (\<forall>t \<in> set ts. fits site m t \<and> (m, t) \<in> P)))"
  proof (cases rule: prepared_item_cases)
    case (key f m)
    with assms(3,4) show ?thesis
      by (cases v) (auto simp: get_mt_field_of many_to_one_attr_def)
  next
    case (keys f m ts vs)
    with assms(3,4) show ?thesis by (auto simp: get_mt_field_of many_to_one_attr_def)
  next
    case (json f)
    with assms(3,4) show ?thesis
      by (cases v) (auto simp: get_mt_field_of many_to_one_attr_def simp del: cleanup_commit_tree.simps)
  next
    case (plain f)
    with assms(3,4) show ?thesis
      by (cases v) (auto simp: get_mt_field_of many_to_one_attr_def)
  qed
  then show "\<not> is_node v \<Longrightarrow> \<exists>f. get_mt_field mm k None None = Inr f \<and> field_of mm k = Some f \<and>
      fd_kind f \<in> {TextField, ValueField} \<and> v = naive_value lib (snd kv)"
    and "is_dict v \<Longrightarrow> get_mt_field mm k (Some True) None = Inr f \<Longrightarrow> field_of mm k = Some f \<and>
      (\<exists>m. fd_kind f = ForeignKey m \<and> fits site m (snd kv) \<and> (m, snd kv) \<in> P \<and>
        prepare_commit_tree lib (snd kv) = Inr v)"
    and "is_dict v \<Longrightarrow> get_mt_field mm k (Some True) None = Inl e \<Longrightarrow> e = MTOError \<and>
      (\<exists>f. get_mt_field mm k None None = Inr f \<and> field_of mm k = Some f \<and> fd_kind f = JsonField \<and>
        cleanup_commit_tree v = Inr (clean lib (snd kv)))"
    and "v = TList vs \<Longrightarrow> \<exists>f m ts. get_mt_field mm k None (Some True) = Inr f \<and> field_of mm k = Some f \<and>
      fd_kind f = ManyToManyField m \<and> snd kv = TList ts \<and>
      list_all2 (\<lambda>t v. prepare_commit_tree lib t = Inr v) ts vs \<and> (\<forall>t \<in> set ts. fits site m t \<and> (m, t) \<in> P)"
    by (force, force, force, blast)
qed

lemma items_head:
  assumes "items_pre mm raws ((k, v) # r) vals m2ms db"
  shows "\<not> is_node v \<Longrightarrow> \<exists>f. get_mt_field mm k None None = Inr f"
    and "v = TDict h items \<Longrightarrow> get_mt_field mm k (Some True) None = Inl e \<Longrightarrow> e = MTOError \<and>
      (\<exists>f t. get_mt_field mm k None None = Inr f \<and> fd_kind f = JsonField \<and> cleanup_commit_tree v = Inr t)"
    and "v = TDict h items \<Longrightarrow> get_mt_field mm k (Some True) None = Inr f \<Longrightarrow>
      \<exists>t. fits site (related_model f) t \<and> (related_model f, t) \<in> P \<and> prepare_commit_tree lib t = Inr v"
    and "v = TList vs \<Longrightarrow> \<exists>f ts. get_mt_field mm k None (Some True) = Inr f \<and>
      list_all2 (\<lambda>t v. prepare_commit_tree lib t = Inr v) ts vs \<and>
      (\<forall>t \<in> set ts. fits site (related_model f) t \<and> (related_model f, t) \<in> P)"
proof -
  from assms obtain kv n where i: "item_ok P site mm kv" "item_prepared lib kv n" "fst kv = k" "fst (snd n) = v"
    by (rule items_pre_Cons)
  note a = item_accepted [OF i]
  show "\<not> is_node v \<Longrightarrow> \<exists>f. get_mt_field mm k None None = Inr f" using a(1) by blast
  show "v = TDict h items \<Longrightarrow> get_mt_field mm k (Some True) None = Inl e \<Longrightarrow> e = MTOError \<and>
      (\<exists>f t. get_mt_field mm k None None = Inr f \<and> fd_kind f = JsonField \<and> cleanup_commit_tree v = Inr t)"
    using a(3) by (metis is_dict.simps(1))
  show "v = TDict h items \<Longrightarrow> get_mt_field mm k (Some True) None = Inr f \<Longrightarrow>
      \<exists>t. fits site (related_model f) t \<and> (related_model f, t) \<in> P \<and> prepare_commit_tree lib t = Inr v"
    using a(2) by (metis is_dict.simps(1) kind_model.simps(1) related_model_def)
  show "v = TList vs \<Longrightarrow> \<exists>f ts. get_mt_field mm k None (Some True) = Inr f \<and>
      list_all2 (\<lambda>t v. prepare_commit_tree lib t = Inr v) ts vs \<and>
      (\<forall>t \<in> set ts. fits site (related_model f) t \<and> (related_model f, t) \<in> P)"
    using a(4) by (metis kind_model.simps(2) related_model_def)
qed

lemma items_step:
  assumes "items_pre mm raws ((k, v) # r) vals m2ms db"
    and e: "\<And>j. j \<noteq> k \<Longrightarrow> dict_get vals1 j = dict_get vals j \<and> dict_get m2ms1 j = dict_get m2ms j"
    and db1: "Inv db1" "unique_keys db1"
    and post: "\<forall>raws'. items_pre mm raws' r vals1 m2ms1 db1 \<longrightarrow> items_post mm raws' vals1 m2ms1 res db'"
    and x: "extends db1 db'" "unique_keys db'"
    and st: "\<And>kv n. item_ok P site mm kv \<Longrightarrow> item_prepared lib kv n \<Longrightarrow> fst kv = k \<Longrightarrow> fst (snd n) = v \<Longrightarrow>
      dict_get vals k = None \<Longrightarrow> dict_get m2ms k = None \<Longrightarrow> item_stored K lib mm db1 vals1 m2ms1 kv"
  shows "items_post mm raws vals m2ms res db'"
proof -
  from assms(1) obtain kv raws' n where i: "raws = kv # raws'" "fst kv = k" "fst (snd n) = v" "item_ok P site mm kv"
    "item_prepared lib kv n" "k \<notin> fst ` set raws'" "dict_get vals k = None" "dict_get m2ms k = None"
    and rest: "\<forall>vals1 m2ms1 db1. (\<forall>j. j \<noteq> k \<longrightarrow> dict_get vals1 j = dict_get vals j \<and> dict_get m2ms1 j = dict_get m2ms j) \<longrightarrow>
       Inv db1 \<longrightarrow> unique_keys db1 \<longrightarrow> items_pre mm raws' r vals1 m2ms1 db1"
    by (rule items_pre_Cons)
  have "items_pre mm raws' r vals1 m2ms1 db1" using rest e db1 by blast
  with post have p: "items_post mm raws' vals1 m2ms1 res db'" by blast
  from st [OF i(4,5,2,3,7,8)] show ?thesis
    unfolding i(1) by (rule items_post_Cons [OF p i(6,2) _ x e])
qed

lemma items_pre_db: "items_pre mm raws its vals m2ms db \<Longrightarrow> Inv db \<and> unique_keys db"
  by (simp add: items_pre_def)

text \<open>The three parts of the induction, on the rules of the commit.\<close>

lemma commits_post:
  "commits site kw m s db res db' \<Longrightarrow>
     \<forall>t s'. (m, t) \<in> P \<longrightarrow> fits site m t \<longrightarrow> prepare_commit_tree lib t = Inr s' \<longrightarrow>
       prepare_commit_tree lib s = Inr s' \<longrightarrow> Inv db \<longrightarrow> unique_keys db \<longrightarrow> commit_post m t res db'"
  "commits_items site mm its vals m2ms db resi db' \<Longrightarrow>
     \<forall>raws. items_pre mm raws its vals m2ms db \<longrightarrow> items_post mm raws vals m2ms resi db'"
  "commits_list site m vs db resl db' \<Longrightarrow>
     \<forall>ts. list_all2 (\<lambda>t v. prepare_commit_tree lib t = Inr v) ts vs \<longrightarrow>
       (\<forall>t \<in> set ts. fits site m t \<and> (m, t) \<in> P) \<longrightarrow> Inv db \<longrightarrow> unique_keys db \<longrightarrow> list_post m ts resl db'"
proof (induction rule: commits_commits_items_commits_list.inducts)
  case (no_manager m kw s db)
  then show ?case by (auto simp: fits_iff)
next
  case (unprepared s e kw m db)
  then show ?case by simp
next
  case (found m mm s h items db r kw)
  then show ?case
    by (auto simp: commit_hash_def intro: found_post)
next
  case (ambiguous m h db e s kw)
  then show ?case using row_by_hash_unique by blast
next
  case (items_fail m mm s h its db e db1 kw)
  show ?case
  proof (intro allI impI)
    fix t s' assume a: "(m, t) \<in> P" "fits site m t" "prepare_commit_tree lib t = Inr s'"
      "prepare_commit_tree lib s = Inr s'" "Inv db" "unique_keys db"
    obtain items where t: "t = TDict None items" using a(2) by (auto simp: fits_iff)
    have "items_pre mm (present_items items) its [] [] db"
      using a items_fail t by (intro root_items_pre(1) [of m items mm h]) simp_all
    with items_fail have "items_post mm (present_items items) [] [] (Inl e) db1" by blast
    then show "commit_post m t (Inl e) db1" by (simp add: items_post_def commit_post_def)
  qed
next
  case (saved m mm s h its db vals m2ms db1 kw res db2)
  show ?case
  proof (intro allI impI)
    fix t s' assume a: "(m, t) \<in> P" "fits site m t" "prepare_commit_tree lib t = Inr s'"
      "prepare_commit_tree lib s = Inr s'" "Inv db" "unique_keys db"
    obtain items where t: "t = TDict None items" using a(2) by (auto simp: fits_iff)
    have pr: "prepare_commit_tree lib (TDict None items) = Inr (TDict (Some h) its)" using a saved t by simp
    note r = root_items_pre [OF a(1) [unfolded t] saved(1) a(2) [unfolded t] pr a(5,6)]
    have "items_post mm (present_items items) [] [] (Inr (vals, m2ms)) db1" using r(1) saved by blast
    then have p: "Inv db1" "\<And>kv. kv \<in> set (present_items items) \<Longrightarrow> item_stored K lib mm db1 vals m2ms kv"
      "\<And>k. k \<notin> fst ` set (present_items items) \<Longrightarrow> dict_get vals k = None \<and> dict_get m2ms k = None"
      by (auto simp: items_post_def)
    have u: "unique_keys db1" using commits_items_extends saved a(6) by blast
    have c: "commit_save site kw m mm (commit_hash lib t) vals m2ms db1 = (res, db2)"
      using saved r(2) t by simp
    show "commit_post m t res db2"
      by (rule commit_save_post [OF a(1) t saved(1) a(2,3) p(1) u p(2,3) c])
  qed
next
  case (items_done mm vals m2ms db)
  then show ?case by (auto simp: items_pre_def items_post_def)
next
  case (value_refused v mm k e r vals m2ms db)
  then show ?case using items_head(1) by fastforce
next
  case (value_set v mm k f r vals m2ms db res db')
  show ?case
  proof (intro allI impI)
    fix raws assume pre: "items_pre mm raws ((k, v) # r) vals m2ms db"
    have x: "extends db db'" "unique_keys db'" using commits_items_extends value_set items_pre_db [OF pre] by blast+
    show "items_post mm raws vals m2ms res db'"
    proof (rule items_step [OF pre _ _ _ _ x])
      show "\<forall>raws'. items_pre mm raws' r (dict_set k (SValue v) vals) m2ms db \<longrightarrow>
          items_post mm raws' (dict_set k (SValue v) vals) m2ms res db'" using value_set by blast
      fix kv n assume i: "item_ok P site mm kv" "item_prepared lib kv n" "fst kv = k" "fst (snd n) = v"
        "dict_get m2ms k = None"
      with item_accepted(1) [OF i(1-4)] value_set show "item_stored K lib mm db (dict_set k (SValue v) vals) m2ms kv"
        by (auto simp: item_stored_def dict_get_set)
    qed (use items_pre_db [OF pre] in \<open>auto simp: dict_get_set\<close>)
  qed
next
  case (dict_refused mm k e h items r vals m2ms db)
  then show ?case using items_head(2) by fastforce
next
  case (json_unknown mm k e h items r vals m2ms db)
  then show ?case using items_head(2) by fastforce
next
  case (json_refused mm k f h items r vals m2ms db)
  then show ?case using items_head(2) by fastforce
next
  case (json_unclean mm k f h items e r vals m2ms db)
  then show ?case using items_head(2) by fastforce
next
  case (json_set mm k f h items t r vals m2ms db res db')
  show ?case
  proof (intro allI impI)
    fix raws assume pre: "items_pre mm raws ((k, TDict h items) # r) vals m2ms db"
    have x: "extends db db'" "unique_keys db'" using commits_items_extends json_set items_pre_db [OF pre] by blast+
    show "items_post mm raws vals m2ms res db'"
    proof (rule items_step [OF pre _ _ _ _ x])
      show "\<forall>raws'. items_pre mm raws' r (dict_set k (SValue t) vals) m2ms db \<longrightarrow>
          items_post mm raws' (dict_set k (SValue t) vals) m2ms res db'" using json_set by blast
      fix kv n assume i: "item_ok P site mm kv" "item_prepared lib kv n" "fst kv = k" "fst (snd n) = TDict h items"
        "dict_get m2ms k = None"
      from item_accepted(3) [OF i(1-4)] json_set(1,4) obtain f where "field_of mm k = Some f" "fd_kind f = JsonField"
        "t = clean lib (snd kv)" by auto
      with i show "item_stored K lib mm db (dict_set k (SValue t) vals) m2ms kv"
        by (auto simp: item_stored_def dict_get_set)
    qed (use items_pre_db [OF pre] in \<open>auto simp: dict_get_set\<close>)
  qed
next
  case (key_fail mm k f h items db e db1 r vals m2ms)
  show ?case
  proof (intro allI impI)
    fix raws assume pre: "items_pre mm raws ((k, TDict h items) # r) vals m2ms db"
    from items_head(3) [OF pre refl] key_fail(1) obtain t where t: "fits site (related_model f) t"
      "(related_model f, t) \<in> P" "prepare_commit_tree lib t = Inr (TDict h items)" by blast
    have "commit_post (related_model f) t (Inl e) db1"
      using key_fail(3) t prepared_again [OF t(3,1)] items_pre_db [OF pre] by blast
    then show "items_post mm raws vals m2ms (Inl e) db1" by (simp add: commit_post_def items_post_def)
  qed
next
  case (key_set mm k f h items db pk created db1 r vals m2ms res db2)
  show ?case
  proof (intro allI impI)
    fix raws assume pre: "items_pre mm raws ((k, TDict h items) # r) vals m2ms db"
    from items_head(3) [OF pre refl] key_set(1) obtain t where t: "fits site (related_model f) t"
      "(related_model f, t) \<in> P" "prepare_commit_tree lib t = Inr (TDict h items)" by blast
    have "commit_post (related_model f) t (Inr (pk, created)) db1"
      using key_set(3) t prepared_again [OF t(3,1)] items_pre_db [OF pre] by blast
    then have I: "Inv db1" by (simp add: commit_post_def)
    have u: "unique_keys db1" using commits_extends key_set items_pre_db [OF pre] by blast
    have x: "extends db1 db2" "unique_keys db2" using commits_items_extends key_set u by blast+
    let ?vals = "dict_set k (SKey (Some pk)) vals"
    show "items_post mm raws vals m2ms res db2"
    proof (rule items_step [OF pre _ I u _ x])
      show "\<forall>raws'. items_pre mm raws' r ?vals m2ms db1 \<longrightarrow> items_post mm raws' ?vals m2ms res db2"
        using key_set by blast
      fix kv n assume i: "item_ok P site mm kv" "item_prepared lib kv n" "fst kv = k" "fst (snd n) = TDict h items"
        "dict_get m2ms k = None"
      from item_accepted(2) [OF i(1-4)] key_set(1) obtain m where m: "field_of mm k = Some f"
        "fd_kind f = ForeignKey m" "fits site m (snd kv)" "(m, snd kv) \<in> P"
        "prepare_commit_tree lib (snd kv) = Inr (TDict h items)" by auto
      then have "related_model f = m" by (simp add: related_model_def)
      then have "commit_post m (snd kv) (Inr (pk, created)) db1"
        using key_set(3) m prepared_again [OF m(5,3)] items_pre_db [OF pre] by blast
      with m i show "item_stored K lib mm db1 ?vals m2ms kv"
        by (auto simp: item_stored_def dict_get_set commit_post_def)
    qed (simp add: dict_get_set)
  qed
next
  case (list_refused mm k e vs r vals m2ms db)
  then show ?case using items_head(4) by fastforce
next
  case (keys_fail mm k f vs db e db1 r vals m2ms)
  show ?case
  proof (intro allI impI)
    fix raws assume pre: "items_pre mm raws ((k, TList vs) # r) vals m2ms db"
    from items_head(4) [OF pre refl] keys_fail(1) obtain ts where
      "list_all2 (\<lambda>t v. prepare_commit_tree lib t = Inr v) ts vs"
      "\<forall>t \<in> set ts. fits site (related_model f) t \<and> (related_model f, t) \<in> P" by auto
    then have "list_post (related_model f) ts (Inl e) db1"
      using keys_fail(3) items_pre_db [OF pre] by blast
    then show "items_post mm raws vals m2ms (Inl e) db1" by (simp add: list_post_def items_post_def)
  qed
next
  case (keys_set mm k f vs db pks db1 r vals m2ms res db2)
  show ?case
  proof (intro allI impI)
    fix raws assume pre: "items_pre mm raws ((k, TList vs) # r) vals m2ms db"
    from items_head(4) [OF pre refl] keys_set(1) obtain ts where
      "list_all2 (\<lambda>t v. prepare_commit_tree lib t = Inr v) ts vs"
      "\<forall>t \<in> set ts. fits site (related_model f) t \<and> (related_model f, t) \<in> P" by auto
    then have "list_post (related_model f) ts (Inr pks) db1"
      using keys_set(3) items_pre_db [OF pre] by blast
    then have I: "Inv db1" by (simp add: list_post_def)
    have u: "unique_keys db1" using commits_list_extends keys_set items_pre_db [OF pre] by blast
    have x: "extends db1 db2" "unique_keys db2" using commits_items_extends keys_set u by blast+
    let ?m2ms = "m2ms @ [(k, pks)]"
    show "items_post mm raws vals m2ms res db2"
    proof (rule items_step [OF pre _ I u _ x])
      show "\<forall>raws'. items_pre mm raws' r vals ?m2ms db1 \<longrightarrow> items_post mm raws' vals ?m2ms res db2"
        using keys_set by blast
      fix kv n assume i: "item_ok P site mm kv" "item_prepared lib kv n" "fst kv = k" "fst (snd n) = TList vs"
        "dict_get m2ms k = None"
      from item_accepted(4) [OF i(1-4) refl] keys_set(1) obtain m us where m: "field_of mm k = Some f"
        "fd_kind f = ManyToManyField m" "snd kv = TList us"
        "list_all2 (\<lambda>t v. prepare_commit_tree lib t = Inr v) us vs" "\<forall>t \<in> set us. fits site m t \<and> (m, t) \<in> P"
        by auto
      then have "related_model f = m" by (simp add: related_model_def)
      then have "list_post m us (Inr pks) db1"
        using keys_set(3) m items_pre_db [OF pre] by blast
      with m i show "item_stored K lib mm db1 vals ?m2ms kv"
        by (auto simp: item_stored_def list_post_def map_add_def)
    qed (auto simp: map_add_def split: option.splits)
  qed
next
  case (element_fail m v db e db1 r)
  show ?case
  proof (intro allI impI)
    fix ts assume a: "list_all2 (\<lambda>t v. prepare_commit_tree lib t = Inr v) ts (v # r)"
      "\<forall>t \<in> set ts. fits site m t \<and> (m, t) \<in> P" "Inv db" "unique_keys db"
    then obtain t ts' where t: "ts = t # ts'" "prepare_commit_tree lib t = Inr v" by (auto simp: list_all2_Cons2)
    then have "commit_post m t (Inl e) db1"
      using element_fail(2) a prepared_again [OF t(2)] by auto
    then show "list_post m ts (Inl e) db1" by (simp add: commit_post_def list_post_def)
  qed
next
  case (rest_fail m v db pk created db1 r e db2)
  show ?case
  proof (intro allI impI)
    fix ts assume a: "list_all2 (\<lambda>t v. prepare_commit_tree lib t = Inr v) ts (v # r)"
      "\<forall>t \<in> set ts. fits site m t \<and> (m, t) \<in> P" "Inv db" "unique_keys db"
    then obtain t ts' where t: "ts = t # ts'" "prepare_commit_tree lib t = Inr v"
      "list_all2 (\<lambda>t v. prepare_commit_tree lib t = Inr v) ts' r" by (auto simp: list_all2_Cons2)
    then have "commit_post m t (Inr (pk, created)) db1"
      using rest_fail(2) a prepared_again [OF t(2)] by auto
    then have "Inv db1" "unique_keys db1"
      using commits_extends [OF rest_fail(1)] a(4) by (auto simp: commit_post_def)
    then have "list_post m ts' (Inl e) db2" using rest_fail(4) t a(2) by auto
    then show "list_post m ts (Inl e) db2" by (simp add: list_post_def)
  qed
next
  case (element_set m v db pk created db1 r pks db2)
  show ?case
  proof (intro allI impI)
    fix ts assume a: "list_all2 (\<lambda>t v. prepare_commit_tree lib t = Inr v) ts (v # r)"
      "\<forall>t \<in> set ts. fits site m t \<and> (m, t) \<in> P" "Inv db" "unique_keys db"
    then obtain t ts' where t: "ts = t # ts'" "prepare_commit_tree lib t = Inr v"
      "list_all2 (\<lambda>t v. prepare_commit_tree lib t = Inr v) ts' r" by (auto simp: list_all2_Cons2)
    then have p: "commit_post m t (Inr (pk, created)) db1"
      using element_set(2) a prepared_again [OF t(2)] by auto
    then have u: "Inv db1" "unique_keys db1"
      using commits_extends [OF element_set(1)] a(4) by (auto simp: commit_post_def)
    then have l: "list_post m ts' (Inr pks) db2" using element_set(4) t a(2) by auto
    have x: "extends db1 db2" "unique_keys db2" using commits_list_extends [OF element_set(3)] u(2) by blast+
    have "object_of K lib db2 m pk t"
    proof (rule object_of_extends [OF _ x(1)])
      show "object_of K lib db1 m pk t" using p by (simp add: commit_post_def)
      show "K m db1 pk t \<Longrightarrow> K m db2 pk t" by (rule K_extends [OF _ x])
    qed
    with l t(1) show "list_post m ts (Inr (pk # pks)) db2" by (simp add: list_post_def)
  qed
next
  case (list_done m db)
  then show ?case by (auto simp: list_post_def)
qed

end

text \<open>
  Without any further condition: the errors of the commit of a tree that fits are those of the
  \<open>save\<close> methods, of the checks and of the database.
\<close>

sublocale mt_laws \<subseteq> any: commit_induction site UNIV "\<lambda>_. True" "\<lambda>_ _ _ _. True"
  by unfold_locales (auto simp: parts_closed_def item_ok_def fits_items_iff)

context mt_laws begin

lemma commit_errors:
  assumes "fits site m t" "prepare_commit_tree lib t = Inr s" "unique_keys db"
    and "commit site kw m t db = (res, db')"
  shows "case res of Inl e \<Rightarrow> site_error site e
    | Inr (pk, created) \<Rightarrow> \<exists>r \<in> set (tables db' m). row_pk r = pk \<and> row_hash r = commit_hash lib t"
  using any.commits_post(1) [OF commit_commits(1) [OF assms(4)]] assms(1-3)
  by (auto simp: any.commit_post_def object_of_def split: sum.splits prod.splits)

end

subsection \<open>The round trip through serialize\<close>

text \<open>
  The tree that \<open>serialize\<close> gives for a tree that fits: no empty values and no hashes, the items
  in the order of the fields of the model, times in the ISO format.
\<close>

definition in_field_order :: "mt_field list \<Rightarrow> items \<Rightarrow> items" where
  "in_field_order fs items =
     List.map_filter (\<lambda>f. case dict_get items (fd_name f) of
        None \<Rightarrow> None
      | Some v \<Rightarrow> if is_empty_value v then None else Some (fd_name f, v)) fs"

fun normal :: "'a mt_site \<Rightarrow> string \<Rightarrow> tree \<Rightarrow> tree"
  and normal_items :: "'a mt_site \<Rightarrow> 'a mt_model \<Rightarrow> items \<Rightarrow> items"
  and normal_value :: "'a mt_site \<Rightarrow> mt_field \<Rightarrow> tree \<Rightarrow> tree"
  and normal_list :: "'a mt_site \<Rightarrow> string \<Rightarrow> tree list \<Rightarrow> tree list"
where
  "normal site m t =
     (case site_model site m of
        None \<Rightarrow> t
      | Some mm \<Rightarrow>
          (case t of
             TDict h items \<Rightarrow> TDict None (in_field_order (mt_fields mm) (normal_items site mm items))
           | _ \<Rightarrow> t))"
| "normal_items site mm [] = []"
| "normal_items site mm ((k, v) # r) =
     (if is_empty_value v then normal_items site mm r
      else (k, case field_of mm k of None \<Rightarrow> v | Some f \<Rightarrow> normal_value site f v) # normal_items site mm r)"
| "normal_value site f v =
     (case fd_kind f of
        ForeignKey m \<Rightarrow> normal site m v
      | ManyToManyField m \<Rightarrow> (case v of TList vs \<Rightarrow> TList (normal_list site m vs) | _ \<Rightarrow> v)
      | JsonField \<Rightarrow> clean (site_lib site) v
      | _ \<Rightarrow> (case v of TTime d \<Rightarrow> TStr (isoformat (naive (site_lib site) d)) | _ \<Rightarrow> v))"
| "normal_list site m [] = []"
| "normal_list site m (v # r) = normal site m v # normal_list site m r"

declare normal.simps [simp del] normal_value.simps [simp del]

lemma normal_list_map: "normal_list site m vs = map (normal site m) vs"
  by (induction vs) simp_all

text \<open>From some depth on, \<open>serialize\<close> gives the tree.\<close>

definition shows_tree :: "'a mt_site \<Rightarrow> string \<Rightarrow> 'a mt_db_scheme \<Rightarrow> nat \<Rightarrow> tree \<Rightarrow> bool" where
  "shows_tree site m db pk u \<longleftrightarrow> (\<exists>n. \<forall>k \<ge> n. serialize site k m [] pk db = Inr u)"

lemma serialize_extends:
  "serialize site n m ex pk db = Inr u \<Longrightarrow> extends db db' \<Longrightarrow> unique_keys db' \<Longrightarrow>
     serialize site n m ex pk db' = Inr u"
  "serialize_fields site n r fs db = Inr d \<Longrightarrow> extends db db' \<Longrightarrow> unique_keys db' \<Longrightarrow>
     serialize_fields site n r fs db' = Inr d"
  "serialize_value site n f v db = Inr w \<Longrightarrow> extends db db' \<Longrightarrow> unique_keys db' \<Longrightarrow>
     serialize_value site n f v db' = Inr w"
proof (induction site n m ex pk db and site n r fs db and site n f v db
    arbitrary: u and d and w rule: serialize_serialize_fields_serialize_value.induct)
  case (2 site n m ex pk db)
  then show ?case by (auto simp: bind_result_Inr split: option.splits dest: row_by_pk_extends)
next
  case (4 site n r f fs db)
  then show ?case by (fastforce simp: bind_result_Inr simp del: serialize_value.simps)
next
  case (5 site n f v db)
  have key: "serialize site n m [] pk db = Inr t \<Longrightarrow> serialize site n m [] pk db' = Inr t"
    if "fd_kind f = ForeignKey m" "v = SKey (Some pk)" for m pk t
    using 5(1) [of "fd_kind f" v m "Some pk" pk] 5(4,5) that by simp
  have list: "map_result (\<lambda>pk. serialize site n m [] pk db) pks = Inr ts \<Longrightarrow>
      map_result (\<lambda>pk. serialize site n m [] pk db') pks = Inr ts"
    if "fd_kind f = ManyToManyField m" "v = SKeys pks" for m pks ts
    by (erule map_result_mono) (use 5(2) [of "fd_kind f" v m pks] 5(4,5) that in simp)
  have dep: "serialize_value site n f v db' = serialize_value site n f v db"
    if "\<forall>m. fd_kind f \<noteq> ForeignKey m" "\<forall>m. fd_kind f \<noteq> ManyToManyField m"
    using that by (cases "fd_kind f") simp_all
  show ?case
  proof (cases "fd_kind f")
    case (ForeignKey m)
    with 5(3) key show ?thesis by (auto split: stored.splits option.splits tree.splits if_splits)
  next
    case (ManyToManyField m)
    with 5(3) list show ?thesis by (fastforce simp: bind_result_Inr split: stored.splits tree.splits if_splits)
  qed (use 5(3) dep in simp_all)
qed auto

lemma shows_tree_extends:
  "shows_tree site m db pk u \<Longrightarrow> extends db db' \<Longrightarrow> unique_keys db' \<Longrightarrow> shows_tree site m db' pk u"
  unfolding shows_tree_def using serialize_extends(1) by blast

declare serialize_value.simps [simp del]

text \<open>Each field gives its value from some depth on, so all of them do.\<close>

lemma serialize_fields_shows:
  assumes "\<And>f. f \<in> set fs \<Longrightarrow> \<exists>w n. (\<forall>k \<ge> n. serialize_value site k f (field_value r f) db = Inr w) \<and>
      (case dict_get A (fd_name f) of None \<Rightarrow> is_empty_value w | Some v \<Rightarrow> w = v)"
  shows "\<exists>n. \<forall>k \<ge> n. serialize_fields site k r fs db = Inr (in_field_order fs A)"
  using assms
proof (induction fs)
  case (Cons f fs)
  from Cons.IH Cons.prems obtain n1 where n1: "\<forall>k \<ge> n1. serialize_fields site k r fs db = Inr (in_field_order fs A)"
    by auto
  from Cons.prems [of f] obtain w n2 where w: "\<forall>k \<ge> n2. serialize_value site k f (field_value r f) db = Inr w"
    "case dict_get A (fd_name f) of None \<Rightarrow> is_empty_value w | Some v \<Rightarrow> w = v" by auto
  have "in_field_order (f # fs) A =
      (if is_empty_value w then in_field_order fs A else (fd_name f, w) # in_field_order fs A)"
    using w(2) by (auto simp: in_field_order_def map_filter_simps split: option.splits)
  with n1 w(1) show ?case by (intro exI [of _ "max n1 n2"]) simp
qed (simp add: in_field_order_def map_filter_simps)

text \<open>A tree and the trees of its related objects, each with its model.\<close>

fun parts :: "'a mt_site \<Rightarrow> string \<Rightarrow> tree \<Rightarrow> (string \<times> tree) list"
  and parts_items :: "'a mt_site \<Rightarrow> 'a mt_model \<Rightarrow> items \<Rightarrow> (string \<times> tree) list"
  and parts_value :: "'a mt_site \<Rightarrow> mt_field \<Rightarrow> tree \<Rightarrow> (string \<times> tree) list"
  and parts_list :: "'a mt_site \<Rightarrow> string \<Rightarrow> tree list \<Rightarrow> (string \<times> tree) list"
where
  "parts site m t = (m, t) #
     (case site_model site m of
        None \<Rightarrow> []
      | Some mm \<Rightarrow> (case t of TDict h items \<Rightarrow> parts_items site mm items | _ \<Rightarrow> []))"
| "parts_items site mm [] = []"
| "parts_items site mm ((k, v) # r) =
     (case field_of mm k of None \<Rightarrow> [] | Some f \<Rightarrow> parts_value site f v) @ parts_items site mm r"
| "parts_value site f v =
     (case fd_kind f of
        ForeignKey m \<Rightarrow> parts site m v
      | ManyToManyField m \<Rightarrow> (case v of TList vs \<Rightarrow> parts_list site m vs | _ \<Rightarrow> [])
      | _ \<Rightarrow> [])"
| "parts_list site m [] = []"
| "parts_list site m (v # r) = parts site m v @ parts_list site m r"

declare parts.simps [simp del] parts_value.simps [simp del]

lemma parts_iff: "x \<in> set (parts site m t) \<longleftrightarrow> x = (m, t) \<or>
    (\<exists>mm h items. site_model site m = Some mm \<and> t = TDict h items \<and> x \<in> set (parts_items site mm items))"
  by (cases "site_model site m"; cases t) (simp_all add: parts.simps)

lemma parts_trans:
  "(m', t') \<in> set (parts site m t) \<Longrightarrow> set (parts site m' t') \<subseteq> set (parts site m t)"
  "(m', t') \<in> set (parts_items site mm items) \<Longrightarrow> set (parts site m' t') \<subseteq> set (parts_items site mm items)"
  "(m', t') \<in> set (parts_value site f v) \<Longrightarrow> set (parts site m' t') \<subseteq> set (parts_value site f v)"
  "(m', t') \<in> set (parts_list site m vs) \<Longrightarrow> set (parts site m' t') \<subseteq> set (parts_list site m vs)"
proof (induction site m t and site mm items and site f v and site m vs
    rule: parts_parts_items_parts_value_parts_list.induct)
  case (1 site m t)
  show ?case
  proof (cases "(m', t') = (m, t)")
    case False
    with 1(2) obtain mm h items where i: "site_model site m = Some mm" "t = TDict h items"
      "(m', t') \<in> set (parts_items site mm items)"
      unfolding parts_iff [of _ site m t] by blast
    have "set (parts_items site mm items) \<subseteq> set (parts site m t)"
      using i(1) unfolding i(2) by (auto simp: parts_iff [of _ site m "TDict h items"])
    with 1(1) [OF i] show ?thesis by blast
  qed simp
next
  case (3 site mm k v r)
  then show ?case by (cases "field_of mm k") auto
next
  case (4 site f v)
  then show ?case by (cases "fd_kind f"; cases v) (auto simp: parts_value.simps)
qed auto

lemma parts_items_member:
  "kv \<in> set items \<Longrightarrow> field_of mm (fst kv) = Some f \<Longrightarrow>
   set (parts_value site f (snd kv)) \<subseteq> set (parts_items site mm items)"
  by (induction items) auto

lemma parts_list_member: "t \<in> set vs \<Longrightarrow> set (parts site m t) \<subseteq> set (parts_list site m vs)"
  by (induction vs) auto

lemma parts_self: "(m, t) \<in> set (parts site m t)"
  by (simp add: parts.simps)

lemma parts_closed_parts: "parts_closed site (set (parts site m t))"
proof -
  have "item_ok (set (parts site m t)) site mm kv"
    if a: "(m', TDict None items) \<in> set (parts site m t)" "site_model site m' = Some mm"
      "fits_items site mm items" "kv \<in> set (present_items items)" for m' items mm kv
  proof -
    from a(3,4) obtain f where f: "field_of mm (fst kv) = Some f" "fits_value site f (snd kv)"
      unfolding fits_items_iff by blast
    have "set (parts_items site mm items) \<subseteq> set (parts site m' (TDict None items))"
      using a(2) by (auto simp: parts.simps)
    then have sub: "set (parts_value site f (snd kv)) \<subseteq> set (parts site m t)"
      using parts_trans(1) [OF a(1)] parts_items_member [of kv items mm f site] a(4) f(1) by auto
    show ?thesis
      unfolding item_ok_def
    proof (intro conjI exI [of _ f] allI impI ballI)
      show "\<not> is_empty_value (snd kv)" using a(4) by simp
      show "(q, snd kv) \<in> set (parts site m t)" if "fd_kind f = ForeignKey q" for q
        using sub parts_self [of q "snd kv" site] that by (auto simp: parts_value.simps)
      show "(q, u) \<in> set (parts site m t)"
        if "fd_kind f = ManyToManyField q" "snd kv = TList ts" "u \<in> set ts" for q ts u
        using sub parts_self [of q u site] parts_list_member [OF that(3), of site q] that
        by (auto simp: parts_value.simps)
    qed (use f in simp_all)
  qed
  then show ?thesis unfolding parts_closed_def by blast
qed

text \<open>
  A set of trees among which the hashes do not collide: those of one model with the same hash are
  serialized the same way. Digests alone do not give this, the message of a tree has no separators.
\<close>

definition collision_free :: "'a mt_site \<Rightarrow> (string \<times> tree) set \<Rightarrow> bool" where
  "collision_free site P \<longleftrightarrow>
     (\<forall>m t u. (m, t) \<in> P \<longrightarrow> (m, u) \<in> P \<longrightarrow> fits site m t \<longrightarrow> fits site m u \<longrightarrow>
        commit_hash (site_lib site) t = commit_hash (site_lib site) u \<longrightarrow> normal site m t = normal site m u)"

text \<open>The tables are faithful to the trees: a row with the hash of a tree serializes to the tree.\<close>

definition faithful :: "'a mt_site \<Rightarrow> (string \<times> tree) set \<Rightarrow> 'a mt_db_scheme \<Rightarrow> bool" where
  "faithful site P db \<longleftrightarrow>
     (\<forall>m t r. (m, t) \<in> P \<longrightarrow> fits site m t \<longrightarrow> r \<in> set (tables db m) \<longrightarrow>
        row_hash r = commit_hash (site_lib site) t \<longrightarrow> shows_tree site m db (row_pk r) (normal site m t))"

lemma shows_all:
  assumes "list_all2 (\<lambda>pk t. shows_tree site m db pk (g t)) pks ts"
  shows "\<exists>n. \<forall>k \<ge> n. map_result (\<lambda>pk. serialize site k m [] pk db) pks = Inr (map g ts)"
  using assms
proof (induction pks ts rule: list_all2_induct)
  case (Cons pk pks t ts)
  then obtain n1 n2 where "\<forall>k \<ge> n1. serialize site k m [] pk db = Inr (g t)"
    "\<forall>k \<ge> n2. map_result (\<lambda>pk. serialize site k m [] pk db) pks = Inr (map g ts)"
    by (auto simp: shows_tree_def)
  then show ?case by (intro exI [of _ "max n1 n2"]) simp
qed simp

abbreviation normal_shown :: "'a mt_site \<Rightarrow> string \<Rightarrow> 'a mt_db_scheme \<Rightarrow> nat \<Rightarrow> tree \<Rightarrow> bool" where
  "normal_shown site m db pk t \<equiv> shows_tree site m db pk (normal site m t)"

context mt_laws begin

lemma stored_value_shows:
  assumes s: "item_stored (normal_shown site) lib mm db vals m2ms kv" and f: "field_of mm (fst kv) = Some f"
    and v: "fits_value site f (snd kv)"
  shows "\<exists>n. \<forall>k \<ge> n. serialize_value site k f (stored_value vals m2ms f) db = Inr (normal_value site f (snd kv))"
proof -
  have name: "fd_name f = fst kv" using field_of_name [OF f] by simp
  from v show ?thesis
  proof (cases rule: fits_value_cases)
    case (key m h items)
    with s f name obtain pk where st: "stored_value vals m2ms f = SKey (Some pk)"
      "shows_tree site m db pk (normal site m (snd kv))"
      by (auto simp: item_stored_def stored_value_def object_of_def)
    from st(2) obtain n where "\<forall>k \<ge> n. serialize site k m [] pk db = Inr (normal site m (snd kv))"
      by (auto simp: shows_tree_def)
    with st(1) key(1) show ?thesis
      by (intro exI [of _ n]) (simp add: serialize_value.simps normal_value.simps)
  next
    case (keys m vs)
    with s f name obtain pks where st: "stored_value vals m2ms f = SKeys pks"
      "list_all2 (object_of (normal_shown site) lib db m) pks vs"
      by (auto simp: item_stored_def stored_value_def)
    then have "list_all2 (\<lambda>pk t. shows_tree site m db pk (normal site m t)) pks vs"
      by (auto simp: object_of_def elim: list_all2_mono)
    from shows_all [OF this] obtain n where
      "\<forall>k \<ge> n. map_result (\<lambda>pk. serialize site k m [] pk db) pks = Inr (map (normal site m) vs)" by blast
    with st(1) keys show ?thesis
      by (intro exI [of _ n]) (simp add: serialize_value.simps normal_value.simps normal_list_map)
  next
    case (json h items)
    with s f name show ?thesis
      by (auto simp: item_stored_def stored_value_def serialize_value.simps normal_value.simps)
  next
    case plain
    with s f name show ?thesis
      by (cases "snd kv") (auto simp: item_stored_def stored_value_def serialize_value.simps normal_value.simps naive_value_def)
  qed
qed

lemma normal_items_map: "normal_items site mm items =
    map (\<lambda>kv. (fst kv, case field_of mm (fst kv) of None \<Rightarrow> snd kv | Some f \<Rightarrow> normal_value site f (snd kv)))
      (present_items items)"
  by (induction items) (auto split: option.splits)

lemma normal_items_get:
  "distinct (map fst (present_items items)) \<Longrightarrow> kv \<in> set (present_items items) \<Longrightarrow> field_of mm (fst kv) = Some f \<Longrightarrow>
   dict_get (normal_items site mm items) (fst kv) = Some (normal_value site f (snd kv))"
  unfolding normal_items_map by (rule map_of_is_SomeI) (auto simp: comp_def intro: rev_image_eqI)

lemma normal_items_none:
  "k \<notin> fst ` set (present_items items) \<Longrightarrow> dict_get (normal_items site mm items) k = None"
  unfolding normal_items_map map_of_eq_None_iff by (simp add: image_image)

lemma new_row_shows:
  assumes mm: "site_model site m = Some mm" and fit: "fits site m (TDict None items)"
    and d: "distinct (map fst (present_items items))"
    and st: "\<And>kv. kv \<in> set (present_items items) \<Longrightarrow> item_stored (normal_shown site) lib mm db vals m2ms kv"
    and none: "\<And>k. k \<notin> fst ` set (present_items items) \<Longrightarrow> dict_get vals k = None \<and> dict_get m2ms k = None"
    and r: "row_values r = row_values (set_keys m2ms (new_row mm pk h vals))"
    and row: "row_by_pk m (row_pk r) db = Inr r"
  shows "shows_tree site m db (row_pk r) (normal site m (TDict None items))"
proof -
  have fi: "fits_items site mm items" and req: "required_given mm items" using fit mm by (auto simp: fits_iff)
  have names: "distinct (map fd_name (mt_fields mm))" using field_names [OF mm] by simp
  let ?A = "normal_items site mm items"
  have field: "\<exists>w n. (\<forall>k \<ge> n. serialize_value site k f (field_value r f) db = Inr w) \<and>
      (case dict_get ?A (fd_name f) of None \<Rightarrow> is_empty_value w | Some v \<Rightarrow> w = v)"
    if f: "f \<in> set (mt_fields mm)" for f
  proof (cases "fd_name f \<in> fst ` set (present_items items)")
    case False
    have "fd_null f \<or> (\<exists>m. fd_kind f = ManyToManyField m)"
      using req f False by (auto simp: required_given_def list_all_iff many_to_one_attr_iff)
    moreover have "field_value r f = field_default f"
      using none [OF False] by (simp add: field_value_stored [OF names f r] stored_value_def)
    ultimately show ?thesis
      using normal_items_none [OF False]
      by (cases "fd_kind f") (auto simp: field_default_def serialize_value.simps)
  next
    case True
    then obtain kv where kv: "kv \<in> set (present_items items)" "fst kv = fd_name f" by auto
    with fi obtain f' where f': "field_of mm (fst kv) = Some f'" "fits_value site f' (snd kv)"
      unfolding fits_items_iff by blast
    have "f' = f"
      using field_of_name [OF f'(1)] kv(2) f by (intro distinct_map_eqD [OF names]) simp_all
    with stored_value_shows [OF st [OF kv(1)] f'] normal_items_get [OF d kv(1) f'(1)] kv(2)
    show ?thesis by (simp add: field_value_stored [OF names f r])
  qed
  from serialize_fields_shows [of "mt_fields mm" site r db ?A, OF field] obtain n where
    n: "\<forall>k \<ge> n. serialize_fields site k r (mt_fields mm) db = Inr (in_field_order (mt_fields mm) ?A)" by auto
  have "serialize site k m [] (row_pk r) db = Inr (normal site m (TDict None items))" if "Suc n \<le> k" for k
  proof -
    from that obtain j where "k = Suc j" "n \<le> j" by (cases k) auto
    with n mm row show ?thesis by (simp add: normal.simps)
  qed
  then show ?thesis unfolding shows_tree_def by blast
qed

lemma trees_induction:
  assumes closed_trees: "parts_closed site P" and no_collision: "collision_free site P"
  shows "commit_induction site P (faithful site P) (normal_shown site)"
proof unfold_locales
  fix db :: "'a mt_db_scheme" and db' m mm items vals m2ms kw r
  assume a: "faithful site P db" "unique_keys db" "(m, TDict None items) \<in> P" "site_model site m = Some mm"
    "fits site m (TDict None items)"
    "\<And>kv. kv \<in> set (present_items items) \<Longrightarrow> item_stored (normal_shown site) lib mm db vals m2ms kv"
    "\<And>k. k \<notin> fst ` set (present_items items) \<Longrightarrow> dict_get vals k = None \<and> dict_get m2ms k = None"
    "save_object site kw m mm (commit_hash lib (TDict None items)) vals m2ms db = Inr (r, db')"
  let ?t = "TDict None items"
  from save_extends [OF a(4,8)] a(2) have x: "extends db db'" "unique_keys db'" by auto
  note sv = save_object_Inr [OF a(4,8)]
  have st: "item_stored (normal_shown site) lib mm db' vals m2ms kv" if "kv \<in> set (present_items items)" for kv
    by (rule item_stored_mono [OF a(6) [OF that] x(1) shows_tree_extends [OF _ x] refl refl])
  have row: "row_by_pk m (row_pk r) db' = Inr r"
  proof -
    have d: "distinct (map row_pk (tables db' m))" using x(2) unfolding unique_keys_def by blast
    have r: "r \<in> set (tables db' m)" using sv(1) by simp
    from get_one_pk [OF d r] show ?thesis by (simp add: row_by_pk_def)
  qed
  have new: "normal_shown site m db' (row_pk r) ?t"
  proof (rule new_row_shows [OF a(4,5) _ _ _ sv(5) row])
    show "distinct (map fst (present_items items))"
      using a(5) by (auto simp: fits_iff distinct_map intro: inj_on_subset)
  qed (fact st a(7))+
  have "shows_tree site m1 db' (row_pk q) (normal site m1 u)"
    if u: "(m1, u) \<in> P" "fits site m1 u" "q \<in> set (tables db' m1)" "row_hash q = commit_hash lib u" for m1 u q
  proof (cases "q \<in> set (tables db m1)")
    case True
    with u a(1) have "shows_tree site m1 db (row_pk q) (normal site m1 u)" by (simp add: faithful_def)
    from shows_tree_extends [OF this x] show ?thesis .
  next
    case False
    with u(3) sv(1) have e: "m1 = m" "q = r" by (auto split: if_splits)
    have "commit_hash lib u = commit_hash lib ?t" using u(4) e(2) sv(2) by simp
    with no_collision [unfolded collision_free_def, rule_format, of m u ?t] u(1,2) e(1) a(3,5)
    have "normal site m u = normal site m ?t" by simp
    with new e show ?thesis by simp
  qed
  with new show "faithful site P db' \<and> normal_shown site m db' (row_pk r) ?t" by (simp add: faithful_def)
qed (use closed_trees in \<open>auto simp: faithful_def intro: shows_tree_extends\<close>)

lemma commit_serialize:
  assumes "parts_closed site P" "collision_free site P"
    and "(m, t) \<in> P" "fits site m t" "prepare_commit_tree lib t = Inr s" "unique_keys db" "faithful site P db"
    and "commit site kw m t db = (Inr (pk, created), db')"
  shows "shows_tree site m db' pk (normal site m t)" and "faithful site P db'"
proof -
  have i: "commit_induction site P (faithful site P) (normal_shown site)"
    using assms(1,2) by (rule trees_induction)
  have "commit_induction.commit_post site (faithful site P) (normal_shown site) m t (Inr (pk, created)) db'"
    using commit_induction.commits_post(1) [OF i commit_commits(1) [OF assms(8)]] assms(3-7) by blast
  then show "shows_tree site m db' pk (normal site m t)" "faithful site P db'"
    by (auto simp: commit_induction.commit_post_def [OF i] object_of_def)
qed

text \<open>For the trees of one commit.\<close>

lemma commit_roundtrip:
  assumes "fits site m t" "prepare_commit_tree lib t = Inr s" "unique_keys db"
    and "collision_free site (set (parts site m t))" "faithful site (set (parts site m t)) db"
    and "commit site kw m t db = (Inr (pk, created), db')"
  shows "shows_tree site m db' pk (normal site m t)"
  using commit_serialize(1) [OF parts_closed_parts assms(4) _ assms(1-3,5,6)] by (simp add: parts.simps)

end

end
