(* ===== verification/Sha1.thy ===== *)
theory Sha1 imports Main "HOL-Library.Word" begin

unbundle bit_operations_syntax

text \<open>
  \<open>hashlib.sha1(...).hexdigest()\<close> of the standard library, which \<open>zentral/utils/mt_models.py\<close> calls:
  the secure hash algorithm of FIPS 180 on 32-bit words, with its digest in hexadecimal digits.
  A string is its bytes.
\<close>

definition byte_word :: "char \<Rightarrow> 32 word" where
  "byte_word c = word_of_nat (of_char c)"

text \<open>Big-endian words, and the eight bytes of the length in bits.\<close>

fun be_words :: "string \<Rightarrow> 32 word list" where
  "be_words (a # b # c # d # r) =
     (push_bit 24 (byte_word a) OR push_bit 16 (byte_word b) OR push_bit 8 (byte_word c) OR byte_word d) # be_words r"
| "be_words _ = []"

definition length_bytes :: "nat \<Rightarrow> string" where
  "length_bytes n = map (\<lambda>i. char_of (n div 256 ^ i mod 256)) [7, 6, 5, 4, 3, 2, 1, 0]"

definition padded :: "string \<Rightarrow> string" where
  "padded s =
     s @ CHR 0x80 # replicate ((119 - length s mod 64) mod 64) (char_of (0::nat)) @ length_bytes (8 * length s)"

fun blocks :: "nat \<Rightarrow> 32 word list \<Rightarrow> 32 word list list" where
  "blocks 0 ws = []"
| "blocks (Suc n) ws = take 16 ws # blocks n (drop 16 ws)"

fun schedule :: "nat \<Rightarrow> 32 word list \<Rightarrow> 32 word list" where
  "schedule 0 ws = ws"
| "schedule (Suc n) ws =
     (let t = length ws in
      schedule n (ws @ [word_rotl 1 (ws ! (t - 3) XOR ws ! (t - 8) XOR ws ! (t - 14) XOR ws ! (t - 16))]))"

type_synonym chaining = "32 word \<times> 32 word \<times> 32 word \<times> 32 word \<times> 32 word"

definition round_function :: "nat \<Rightarrow> 32 word \<Rightarrow> 32 word \<Rightarrow> 32 word \<Rightarrow> 32 word" where
  "round_function t b c d =
     (if t < 20 then (b AND c) OR (NOT b AND d)
      else if t < 40 then b XOR c XOR d
      else if t < 60 then (b AND c) OR (b AND d) OR (c AND d)
      else b XOR c XOR d)"

definition round_constant :: "nat \<Rightarrow> 32 word" where
  "round_constant t =
     (if t < 20 then 0x5A827999 else if t < 40 then 0x6ED9EBA1 else if t < 60 then 0x8F1BBCDC else 0xCA62C1D6)"

fun rounds :: "nat \<Rightarrow> 32 word list \<Rightarrow> chaining \<Rightarrow> chaining" where
  "rounds t [] h = h"
| "rounds t (w # ws) (a, b, c, d, e) =
     rounds (Suc t) ws
       (word_rotl 5 a + round_function t b c d + e + w + round_constant t, a, word_rotl 30 b, c, d)"

definition compress :: "chaining \<Rightarrow> 32 word list \<Rightarrow> chaining" where
  "compress h block =
     (case (h, rounds 0 (schedule 64 block) h) of
        ((a, b, c, d, e), (a', b', c', d', e')) \<Rightarrow> (a + a', b + b', c + c', d + d', e + e'))"

definition initial_hash :: chaining where
  "initial_hash = (0x67452301, 0xEFCDAB89, 0x98BADCFE, 0x10325476, 0xC3D2E1F0)"

definition hex_digit :: "nat \<Rightarrow> char" where
  "hex_digit n = char_of (if n < 10 then 48 + n else 87 + n)"

definition hex_word :: "32 word \<Rightarrow> string" where
  "hex_word w = map (\<lambda>i. hex_digit (unat w div 16 ^ i mod 16)) [7, 6, 5, 4, 3, 2, 1, 0]"

definition sha1_digest :: "string \<Rightarrow> chaining" where
  "sha1_digest s =
     (let p = padded s in foldl compress initial_hash (blocks (length p div 64) (be_words p)))"

definition sha1_hexdigest :: "string \<Rightarrow> string" where
  "sha1_hexdigest s =
     (case sha1_digest s of (a, b, c, d, e) \<Rightarrow> hex_word a @ hex_word b @ hex_word c @ hex_word d @ hex_word e)"

text \<open>A digest has forty digits, and the padding makes whole blocks.\<close>

lemma length_sha1_hexdigest: "length (sha1_hexdigest s) = 40"
  by (simp add: sha1_hexdigest_def hex_word_def split: prod.splits)

lemma padded_whole_blocks: "length (padded s) mod 64 = 0"
proof -
  have l: "length (padded s) = length s + 1 + (119 - length s mod 64) mod 64 + 8"
    by (simp add: padded_def length_bytes_def)
  define q r where qr: "q = length s div 64" "r = length s mod 64"
  then have s: "length s = 64 * q + r" "r < 64" by simp_all
  have "(119 - r) mod 64 = (if r \<le> 55 then 55 - r else 119 - r)"
  proof (cases "r \<le> 55")
    case True
    then have "119 - r = (55 - r) + 64" by simp
    then show ?thesis using True by (simp only: mod_add_self2) simp
  qed (use s(2) in simp)
  then have "length (padded s) = (if r \<le> 55 then 64 * (q + 1) else 64 * (q + 2))"
    using l s by (simp add: qr(2) [symmetric])
  then show ?thesis by simp
qed

end
