(* ===== verification/InventoryModels.thy ===== *)
theory InventoryModels imports MtRoundtrip Sha1 begin

text \<open>
  \<open>zentral/contrib/inventory/models.py\<close>, the models of the commit trees: their fields, and the
  \<open>save\<close> methods of the groups and of the business units. The time zone is UTC, as in
  \<open>server/settings.py\<close>.
\<close>

subsection \<open>Times in UTC\<close>

text \<open>The day number of a date of the Gregorian calendar, and the date of a day number.\<close>

definition day_number :: "int \<Rightarrow> int \<Rightarrow> int \<Rightarrow> int" where
  "day_number y m d =
     (let y' = (if m \<le> 2 then y - 1 else y);
          era = y' div 400; yoe = y' mod 400;
          doy = (153 * (if m > 2 then m - 3 else m + 9) + 2) div 5 + d - 1
      in era * 146097 + yoe * 365 + yoe div 4 - yoe div 100 + doy)"

definition date_of_day :: "int \<Rightarrow> int \<times> int \<times> int" where
  "date_of_day z =
     (let era = z div 146097; doe = z mod 146097;
          yoe = (doe - doe div 1460 + doe div 36524 - doe div 146096) div 365;
          doy = doe - (365 * yoe + yoe div 4 - yoe div 100);
          mp = (5 * doy + 2) div 153;
          d = doy - (153 * mp + 2) div 5 + 1;
          m = (if mp < 10 then mp + 3 else mp - 9);
          y = yoe + era * 400
      in (if m \<le> 2 then y + 1 else y, m, d))"

definition make_naive_utc :: "datetime \<Rightarrow> datetime" where
  "make_naive_utc t =
     (let minutes = day_number (int (dt_year t)) (int (dt_month t)) (int (dt_day t)) * 1440 +
            int (dt_hour t) * 60 + int (dt_minute t) - (case dt_utcoffset t of None \<Rightarrow> 0 | Some off \<Rightarrow> off)
      in case date_of_day (minutes div 1440) of (y, m, d) \<Rightarrow>
        t\<lparr>dt_year := nat y, dt_month := nat m, dt_day := nat d, dt_hour := nat (minutes mod 1440 div 60),
          dt_minute := nat (minutes mod 60), dt_utcoffset := None\<rparr>)"

definition zentral_lib :: mt_lib where
  "zentral_lib = \<lparr>sha1 = sha1_hexdigest, make_naive = make_naive_utc\<rparr>"

lemma zentral_lib_laws: "makes_naive zentral_lib" "length (sha1 zentral_lib x) = 40"
  by (auto simp: makes_naive_def zentral_lib_def make_naive_utc_def is_aware_def Let_def
      length_sha1_hexdigest split: prod.splits)

subsection \<open>Fields\<close>

text \<open>Text fields default to the empty string, unless they can be null.\<close>

abbreviation text_field :: "string \<Rightarrow> mt_field" where
  "text_field n \<equiv> \<lparr>fd_name = n, fd_kind = TextField, fd_null = False\<rparr>"

abbreviation null_text :: "string \<Rightarrow> mt_field" where
  "null_text n \<equiv> \<lparr>fd_name = n, fd_kind = TextField, fd_null = True\<rparr>"

abbreviation value_field :: "string \<Rightarrow> mt_field" where
  "value_field n \<equiv> \<lparr>fd_name = n, fd_kind = ValueField, fd_null = False\<rparr>"

abbreviation null_value :: "string \<Rightarrow> mt_field" where
  "null_value n \<equiv> \<lparr>fd_name = n, fd_kind = ValueField, fd_null = True\<rparr>"

abbreviation null_json :: "string \<Rightarrow> mt_field" where
  "null_json n \<equiv> \<lparr>fd_name = n, fd_kind = JsonField, fd_null = True\<rparr>"

abbreviation key_field :: "string \<Rightarrow> string \<Rightarrow> mt_field" where
  "key_field n m \<equiv> \<lparr>fd_name = n, fd_kind = ForeignKey m, fd_null = False\<rparr>"

abbreviation null_key :: "string \<Rightarrow> string \<Rightarrow> mt_field" where
  "null_key n m \<equiv> \<lparr>fd_name = n, fd_kind = ForeignKey m, fd_null = True\<rparr>"

abbreviation keys_field :: "string \<Rightarrow> string \<Rightarrow> mt_field" where
  "keys_field n m \<equiv> \<lparr>fd_name = n, fd_kind = ManyToManyField m, fd_null = False\<rparr>"

definition Source_fields :: "mt_field list" where
  "Source_fields = [text_field ''module'', text_field ''name'', null_json ''config'']"

definition Link_fields :: "mt_field list" where
  "Link_fields = [text_field ''anchor_text'', text_field ''url'']"

definition AbstractMachineGroup_fields :: "mt_field list" where
  "AbstractMachineGroup_fields =
     [key_field ''source'' ''Source'', text_field ''reference'', text_field ''key'', text_field ''name'',
      keys_field ''links'' ''Link'']"

definition OSVersion_fields :: "mt_field list" where
  "OSVersion_fields =
     [null_text ''name'', value_field ''major'', null_value ''minor'', null_value ''patch'', null_text ''build'']"

definition SystemInfo_fields :: "mt_field list" where
  "SystemInfo_fields =
     [null_text ''computer_name'', null_text ''hostname'', null_text ''hardware_model'', null_text ''hardware_serial'',
      null_text ''cpu_type'', null_text ''cpu_subtype'', null_text ''cpu_brand'', null_value ''cpu_physical_cores'',
      null_value ''cpu_logical_cores'', null_value ''physical_memory'']"

definition Disk_fields :: "mt_field list" where
  "Disk_fields = [text_field ''name'', value_field ''size'']"

definition NetworkInterface_fields :: "mt_field list" where
  "NetworkInterface_fields =
     [text_field ''interface'', text_field ''mac'', value_field ''address'', null_value ''mask'', null_value ''broadcast'']"

definition OSXApp_fields :: "mt_field list" where
  "OSXApp_fields =
     [null_text ''bundle_id'', null_text ''bundle_name'', null_text ''bundle_display_name'', null_text ''bundle_version'',
      null_text ''bundle_version_str'']"

definition Certificate_fields :: "mt_field list" where
  "Certificate_fields =
     [null_text ''common_name'', null_text ''organization'', null_text ''organizational_unit'', null_text ''domain'',
      null_text ''sha_1'', null_text ''sha_256'', null_value ''valid_from'', null_value ''valid_until'',
      null_key ''signed_by'' ''Certificate'']"

definition OSXAppInstance_fields :: "mt_field list" where
  "OSXAppInstance_fields =
     [key_field ''app'' ''OSXApp'', null_text ''bundle_path'', null_text ''path'', null_text ''sha_1'',
      null_text ''sha_256'', null_text ''type'', null_key ''signed_by'' ''Certificate'']"

definition DebPackage_fields :: "mt_field list" where
  "DebPackage_fields =
     [null_text ''name'', null_text ''version'', null_text ''source'', null_value ''size'', null_text ''arch'',
      null_text ''revision'', null_text ''status'', null_text ''maintainer'', null_text ''section'', null_text ''priority'']"

definition Program_fields :: "mt_field list" where
  "Program_fields =
     [null_text ''name'', null_text ''version'', null_text ''language'', null_text ''publisher'',
      null_text ''identifying_number'']"

definition ProgramInstance_fields :: "mt_field list" where
  "ProgramInstance_fields =
     [key_field ''program'' ''Program'', null_text ''install_location'', null_text ''install_source'',
      null_text ''uninstall_string'', null_value ''install_date'']"

definition TeamViewer_fields :: "mt_field list" where
  "TeamViewer_fields = [text_field ''teamviewer_id'', null_text ''release'', null_value ''unattended'']"

definition PuppetTrustedFacts_fields :: "mt_field list" where
  "PuppetTrustedFacts_fields = [text_field ''authenticated'', null_json ''extensions'', text_field ''certname'']"

definition PuppetCoreFacts_fields :: "mt_field list" where
  "PuppetCoreFacts_fields =
     [null_text ''aio_agent_version'', null_text ''augeas_version'', null_text ''client_version'',
      null_text ''facter_version'', null_text ''ruby_sitedir'', null_text ''ruby_version'', null_text ''ruby_platform'']"

definition PuppetNode_fields :: "mt_field list" where
  "PuppetNode_fields =
     [text_field ''environment'', null_key ''trusted_facts'' ''PuppetTrustedFacts'',
      null_key ''core_facts'' ''PuppetCoreFacts'', null_json ''extra_facts'']"

definition PrincipalUserSource_fields :: "mt_field list" where
  "PrincipalUserSource_fields = [text_field ''type'', null_json ''properties'']"

definition PrincipalUser_fields :: "mt_field list" where
  "PrincipalUser_fields =
     [key_field ''source'' ''PrincipalUserSource'', text_field ''unique_id'', text_field ''principal_name'',
      null_text ''display_name'']"

definition MachineSnapshot_fields :: "mt_field list" where
  "MachineSnapshot_fields =
     [key_field ''source'' ''Source'', null_text ''reference'', text_field ''serial_number'', null_text ''imei'',
      null_text ''meid'', keys_field ''links'' ''Link'', null_key ''business_unit'' ''BusinessUnit'',
      keys_field ''groups'' ''MachineGroup'', null_key ''os_version'' ''OSVersion'', null_text ''platform'',
      null_key ''system_info'' ''SystemInfo'', null_text ''type'', keys_field ''disks'' ''Disk'',
      keys_field ''network_interfaces'' ''NetworkInterface'', keys_field ''osx_app_instances'' ''OSXAppInstance'',
      keys_field ''deb_packages'' ''DebPackage'', keys_field ''program_instances'' ''ProgramInstance'',
      null_key ''teamviewer'' ''TeamViewer'', null_key ''puppet_node'' ''PuppetNode'',
      null_key ''principal_user'' ''PrincipalUser'', keys_field ''certificates'' ''Certificate'',
      null_value ''public_ip_address'']"

subsection \<open>The tables of the inventory\<close>

record meta_business_unit =
  mbu_pk :: nat
  mbu_name :: string

record machine_snapshot_commit =
  msc_pk :: nat
  msc_serial_number :: string
  msc_source :: nat
  msc_version :: nat
  msc_machine_snapshot :: nat
  msc_parent :: "nat option"
  msc_last_seen :: "datetime option"
  msc_system_uptime :: "int option"

record current_machine_snapshot =
  cms_serial_number :: string
  cms_source :: nat
  cms_machine_snapshot :: nat

record inventory_db = mt_db +
  meta_business_units :: "meta_business_unit list"
  machine_snapshot_commits :: "machine_snapshot_commit list"
  current_machine_snapshots :: "current_machine_snapshot list"

subsection \<open>Groups and business units\<close>

definition save_plain :: "nat option \<Rightarrow> mt_row \<Rightarrow> 'a mt_db_scheme \<Rightarrow> pyerror + mt_row \<times> 'a mt_db_scheme" where
  "save_plain kw r db = (if kw = None then Inr (r, db) else Inl TypeError)"

definition Source_model :: "'a mt_model" where
  "Source_model = \<lparr>mm_fields = Source_fields, mm_excluded = [], mm_save = save_plain\<rparr>"

text \<open>The models that the serialization of a source needs.\<close>

definition source_site :: "mt_lib \<Rightarrow> 'a mt_site" where
  "source_site lib =
     \<lparr>site_lib = lib, site_model = [''Source'' \<mapsto> Source_model], site_refuses = \<lambda>_ _. None,
      site_full_clean = \<lambda>_ _. True\<rparr>"

definition generate_key :: "mt_lib \<Rightarrow> mt_row \<Rightarrow> 'a mt_db_scheme \<Rightarrow> pyerror + string" where
  "generate_key lib r db =
     (case dict_get (row_values r) ''source'' of
        Some (SKey (Some pk)) \<Rightarrow>
          bind_result (serialize (source_site lib) 1 ''Source'' [] pk db) (\<lambda>source.
            case source of
              TDict h d \<Rightarrow>
                if dict_get d ''name'' = None then Inl (KeyError ''name'')
                else
                  bind_result
                    (prepare_commit_tree lib (TDict None
                       [(''source'', TDict None (dict_del ''name'' d)),
                        (''reference'', case dict_get (row_values r) ''reference'' of Some (SValue t) \<Rightarrow> t | _ \<Rightarrow> TNone)]))
                    (\<lambda>data. Inr (tree_hash data))
            | _ \<Rightarrow> Inl AttributeError)
      | _ \<Rightarrow> Inl DoesNotExist)"

definition save_group :: "mt_lib \<Rightarrow> nat option \<Rightarrow> mt_row \<Rightarrow> 'a mt_db_scheme \<Rightarrow> pyerror + mt_row \<times> 'a mt_db_scheme" where
  "save_group lib kw r db =
     bind_result (generate_key lib r db) (\<lambda>key. Inr (r\<lparr>row_extra := [(''key'', SValue (TStr key))]\<rparr>, db))"

text \<open>The text column of a value.\<close>

definition column_text :: "tree \<Rightarrow> string" where
  "column_text t =
     (case t of TStr s \<Rightarrow> s | TInt i \<Rightarrow> int_str i | TBool b \<Rightarrow> py_bool_str b | TTime d \<Rightarrow> isoformat d | _ \<Rightarrow> [])"

definition row_text :: "string \<Rightarrow> mt_row \<Rightarrow> string" where
  "row_text k r = (case dict_get (row_values r) k of Some (SValue t) \<Rightarrow> column_text t | _ \<Rightarrow> [])"

definition row_key :: "mt_row \<Rightarrow> string option" where
  "row_key r = (case dict_get (row_extra r) ''key'' of Some (SValue (TStr k)) \<Rightarrow> Some k | _ \<Rightarrow> None)"

definition row_mbu :: "mt_row \<Rightarrow> nat option" where
  "row_mbu r = (case dict_get (row_extra r) ''meta_business_unit'' of Some (SKey k) \<Rightarrow> k | _ \<Rightarrow> None)"

text \<open>The first unit, by name, among those of the business units with the key.\<close>

definition get_or_create_with_bu_key_and_name :: "string \<Rightarrow> string \<Rightarrow> inventory_db \<Rightarrow> nat \<times> inventory_db" where
  "get_or_create_with_bu_key_and_name key name db =
     (let bus = filter (\<lambda>bu. row_key bu = Some key) (tables db ''BusinessUnit'');
          mbus = filter (\<lambda>mbu. Some (mbu_pk mbu) \<in> row_mbu ` set bus) (meta_business_units db)
      in case sort_key (\<lambda>mbu. str_key (mbu_name mbu)) mbus of
           mbu # _ \<Rightarrow> (mbu_pk mbu, db)
         | [] \<Rightarrow>
             (let mbu = \<lparr>mbu_pk = fresh_pk (map mbu_pk (meta_business_units db)), mbu_name = name\<rparr>
              in (mbu_pk mbu, db\<lparr>meta_business_units := meta_business_units db @ [mbu]\<rparr>)))"

definition save_business_unit :: "mt_lib \<Rightarrow> nat option \<Rightarrow> mt_row \<Rightarrow> inventory_db \<Rightarrow> pyerror + mt_row \<times> inventory_db" where
  "save_business_unit lib kw r db =
     bind_result (generate_key lib r db) (\<lambda>key.
       let (mbu, db1) =
             (case kw of
                Some mbu \<Rightarrow> (mbu, db)
              | None \<Rightarrow> get_or_create_with_bu_key_and_name key (row_text ''name'' r) db)
       in Inr (r\<lparr>row_extra := [(''key'', SValue (TStr key)), (''meta_business_unit'', SKey (Some mbu))]\<rparr>, db1))"

subsection \<open>The models\<close>

definition plain_model :: "mt_field list \<Rightarrow> 'a mt_model" where
  "plain_model fs = \<lparr>mm_fields = fs, mm_excluded = [], mm_save = save_plain\<rparr>"

definition BusinessUnit_model :: "mt_lib \<Rightarrow> unit inventory_db_ext mt_model" where
  "BusinessUnit_model lib =
     \<lparr>mm_fields = AbstractMachineGroup_fields @ [key_field ''meta_business_unit'' ''MetaBusinessUnit''],
      mm_excluded = [''key'', ''meta_business_unit''], mm_save = save_business_unit lib\<rparr>"

definition MachineGroup_model :: "mt_lib \<Rightarrow> unit inventory_db_ext mt_model" where
  "MachineGroup_model lib =
     \<lparr>mm_fields = AbstractMachineGroup_fields @ [keys_field ''machine_links'' ''Link''],
      mm_excluded = [''key''], mm_save = save_group lib\<rparr>"

definition inventory_models :: "mt_lib \<Rightarrow> (string \<times> unit inventory_db_ext mt_model) list" where
  "inventory_models lib =
     [(''Source'', Source_model), (''Link'', plain_model Link_fields),
      (''BusinessUnit'', BusinessUnit_model lib), (''MachineGroup'', MachineGroup_model lib),
      (''OSVersion'', plain_model OSVersion_fields), (''SystemInfo'', plain_model SystemInfo_fields),
      (''Disk'', plain_model Disk_fields), (''NetworkInterface'', plain_model NetworkInterface_fields),
      (''OSXApp'', plain_model OSXApp_fields), (''Certificate'', plain_model Certificate_fields),
      (''OSXAppInstance'', plain_model OSXAppInstance_fields), (''DebPackage'', plain_model DebPackage_fields),
      (''Program'', plain_model Program_fields), (''ProgramInstance'', plain_model ProgramInstance_fields),
      (''TeamViewer'', plain_model TeamViewer_fields), (''PuppetTrustedFacts'', plain_model PuppetTrustedFacts_fields),
      (''PuppetCoreFacts'', plain_model PuppetCoreFacts_fields), (''PuppetNode'', plain_model PuppetNode_fields),
      (''PrincipalUserSource'', plain_model PrincipalUserSource_fields),
      (''PrincipalUser'', plain_model PrincipalUser_fields), (''MachineSnapshot'', plain_model MachineSnapshot_fields)]"

text \<open>
  The checks of the framework and of the database, beyond those of the model of the store, are
  parameters.
\<close>

definition inventory_site :: "mt_lib \<Rightarrow> (string \<Rightarrow> mt_row \<Rightarrow> pyerror option) \<Rightarrow> (string \<Rightarrow> mt_row \<Rightarrow> bool) \<Rightarrow>
    unit inventory_db_ext mt_site" where
  "inventory_site lib refuses cleans =
     \<lparr>site_lib = lib, site_model = map_of (inventory_models lib), site_refuses = refuses, site_full_clean = cleans\<rparr>"

lemma get_or_create_frame: "tables (snd (get_or_create_with_bu_key_and_name key name db)) = tables db"
  by (simp add: get_or_create_with_bu_key_and_name_def Let_def split: list.splits)

lemma save_business_unit_frame:
  assumes "save_business_unit lib kw r db = Inr (r', db')"
  shows "tables db' = tables db \<and> row_pk r' = row_pk r \<and> row_hash r' = row_hash r \<and> row_values r' = row_values r"
proof -
  obtain key where key: "generate_key lib r db = Inr key"
    using assms by (cases "generate_key lib r db") (simp_all add: save_business_unit_def)
  define p where "p = (case kw of Some mbu \<Rightarrow> (mbu, db)
    | None \<Rightarrow> get_or_create_with_bu_key_and_name key (row_text ''name'' r) db)"
  have frame: "tables (snd p) = tables db"
    unfolding p_def by (cases kw) (simp_all add: get_or_create_frame)
  have "(r', db') = (r\<lparr>row_extra := [(''key'', SValue (TStr key)), (''meta_business_unit'', SKey (Some (fst p)))]\<rparr>, snd p)"
    using assms by (simp add: save_business_unit_def key p_def case_prod_beta)
  then show ?thesis using frame by simp
qed

lemma inventory_saves:
  "list_all (\<lambda>p. mm_save (snd p) \<in> {save_plain, save_group lib, save_business_unit lib}) (inventory_models lib)"
  by (simp add: inventory_models_def Source_model_def plain_model_def BusinessUnit_model_def MachineGroup_model_def)

lemma inventory_model_save:
  assumes "(m, mm) \<in> set (inventory_models lib)" "mm_save mm kw r db = Inr (r', db')"
  shows "tables db' = tables db \<and> row_pk r' = row_pk r \<and> row_hash r' = row_hash r \<and> row_values r' = row_values r"
proof -
  have "mm_save mm \<in> {save_plain, save_group lib, save_business_unit lib}"
    using inventory_saves [of lib] assms(1) unfolding list_all_iff by fastforce
  then consider "mm_save mm = save_plain" | "mm_save mm = save_group lib" | "mm_save mm = save_business_unit lib"
    by blast
  then show ?thesis
  proof cases
    case 3
    with assms(2) show ?thesis by (simp add: save_business_unit_frame)
  qed (use assms(2) in \<open>auto simp: save_plain_def save_group_def bind_result_Inr split: if_splits\<close>)
qed

definition well_named :: "'a mt_model \<Rightarrow> bool" where
  "well_named mm \<longleftrightarrow> distinct (map fd_name (mt_fields mm)) \<and> list_all (\<lambda>f. fd_name f \<noteq> []) (mt_fields mm)"

lemma inventory_field_names: "list_all (\<lambda>p. well_named (snd p)) (inventory_models lib)"
  by (simp add: inventory_models_def well_named_def Source_model_def plain_model_def BusinessUnit_model_def MachineGroup_model_def
      mt_fields_def mt_excluded_field_set_def Source_fields_def Link_fields_def AbstractMachineGroup_fields_def
      OSVersion_fields_def SystemInfo_fields_def Disk_fields_def NetworkInterface_fields_def OSXApp_fields_def
      Certificate_fields_def OSXAppInstance_fields_def DebPackage_fields_def Program_fields_def
      ProgramInstance_fields_def TeamViewer_fields_def PuppetTrustedFacts_fields_def PuppetCoreFacts_fields_def
      PuppetNode_fields_def PrincipalUserSource_fields_def PrincipalUser_fields_def MachineSnapshot_fields_def)

lemma inventory_model_fields:
  assumes "(m, mm) \<in> set (inventory_models lib)"
  shows "distinct (map fd_name (mt_fields mm)) \<and> [] \<notin> fd_name ` set (mt_fields mm)"
proof -
  have "well_named mm"
    using inventory_field_names [of lib] assms unfolding list_all_iff by fastforce
  then show ?thesis unfolding well_named_def list_all_iff by force
qed

interpretation inventory: mt_saves "inventory_site lib refuses cleans" for lib refuses cleans
  by unfold_locales (use inventory_model_save in \<open>auto simp: inventory_site_def dest!: map_of_SomeD\<close>)

lemma inventory_laws:
  assumes "makes_naive lib" "\<And>x. length (sha1 lib x) = 40"
  shows "mt_laws (inventory_site lib refuses cleans)"
proof (intro mt_laws.intro mt_laws_axioms.intro)
  show "mt_saves (inventory_site lib refuses cleans)" by unfold_locales
  fix m mm
  assume "site_model (inventory_site lib refuses cleans) m = Some mm"
  then have "(m, mm) \<in> set (inventory_models lib)" by (simp add: inventory_site_def map_of_SomeD)
  then show "distinct (map fd_name (mt_fields mm)) \<and> [] \<notin> fd_name ` set (mt_fields mm)"
    by (rule inventory_model_fields)
qed (use assms in \<open>simp_all add: inventory_site_def\<close>)

interpretation zentral: mt_laws "inventory_site zentral_lib refuses cleans" for refuses cleans
  by (rule inventory_laws [OF zentral_lib_laws])

end
