(* ===== verification/MtTypes.thy ===== *)
theory MtTypes imports MtRoundtrip begin

text \<open>
  The typing of the tables: every row has the fields of its model, each with a value of its kind,
  and the keys are keys of rows. Every commit keeps it, the ones that raise an error too.
\<close>

definition row_keys :: "string \<Rightarrow> 'a mt_db_scheme \<Rightarrow> nat set" where
  "row_keys m db = row_pk ` set (tables db m)"

fun typed_value :: "'a mt_db_scheme \<Rightarrow> field_kind \<Rightarrow> stored \<Rightarrow> bool" where
  "typed_value db (ForeignKey m) (SKey k) = (case k of None \<Rightarrow> True | Some pk \<Rightarrow> pk \<in> row_keys m db)"
| "typed_value db (ManyToManyField m) (SKeys pks) = (set pks \<subseteq> row_keys m db)"
| "typed_value db JsonField (SValue t) = True"
| "typed_value db TextField (SValue t) = (\<not> is_node t)"
| "typed_value db ValueField (SValue t) = (\<not> is_node t)"
| "typed_value db _ _ = False"

definition row_typed :: "'a mt_model \<Rightarrow> 'a mt_db_scheme \<Rightarrow> mt_row \<Rightarrow> bool" where
  "row_typed mm db r \<longleftrightarrow>
     map fst (row_values r) = map fd_name (mt_fields mm) \<and>
     (\<forall>f \<in> set (mt_fields mm). typed_value db (fd_kind f) (field_value r f) \<and>
        (fd_null f \<or> field_value r f \<noteq> SValue TNone \<and> field_value r f \<noteq> SKey None))"

definition well_typed :: "'a mt_site \<Rightarrow> 'a mt_db_scheme \<Rightarrow> bool" where
  "well_typed site db \<longleftrightarrow>
     (\<forall>m mm r. site_model site m = Some mm \<longrightarrow> r \<in> set (tables db m) \<longrightarrow> row_typed mm db r)"

lemma row_keys_extends: "extends db db' \<Longrightarrow> row_keys m db \<subseteq> row_keys m db'"
  unfolding row_keys_def using extends_rows by (intro image_mono)

lemma typed_value_extends: "typed_value db k v \<Longrightarrow> extends db db' \<Longrightarrow> typed_value db' k v"
  by (cases "(db, k, v)" rule: typed_value.cases)
     (auto split: option.splits dest: subsetD [OF row_keys_extends])

lemma row_typed_extends: "row_typed mm db r \<Longrightarrow> extends db db' \<Longrightarrow> row_typed mm db' r"
  by (auto simp: row_typed_def intro: typed_value_extends)

text \<open>The values that a commit has set so far.\<close>

definition values_typed :: "'a mt_model \<Rightarrow> 'a mt_db_scheme \<Rightarrow> (string \<times> stored) list \<Rightarrow> (string \<times> nat list) list \<Rightarrow> bool" where
  "values_typed mm db vals m2ms \<longleftrightarrow>
     (\<forall>f \<in> set (mt_fields mm).
        (\<forall>v. dict_get vals (fd_name f) = Some v \<longrightarrow>
           many_to_one_attr (fd_kind f) \<noteq> Some False \<and> typed_value db (fd_kind f) v) \<and>
        (\<forall>pks. dict_get m2ms (fd_name f) = Some pks \<longrightarrow> typed_value db (fd_kind f) (SKeys pks)))"

lemma values_typed_extends: "values_typed mm db vals m2ms \<Longrightarrow> extends db db' \<Longrightarrow> values_typed mm db' vals m2ms"
  unfolding values_typed_def using typed_value_extends by blast

lemma get_mt_field_kind:
  assumes "get_mt_field mm k o1 o2 = Inr f"
  shows "f \<in> set (mt_fields mm)" and "fd_name f = k"
    and "many_to_one_attr (fd_kind f) = (if o2 = Some True then Some False else o1)"
proof -
  have e: "find (\<lambda>f. fd_name f = k) (mm_fields mm) = Some f" "k \<notin> set (mt_excluded_field_set mm)"
    using assms by (auto simp: get_mt_field_def Let_def split: if_splits option.splits)
  then show "f \<in> set (mt_fields mm)" "fd_name f = k"
    by (auto simp: mt_fields_def find_Some_iff)
  show "many_to_one_attr (fd_kind f) = (if o2 = Some True then Some False else o1)"
    using assms by (auto simp: get_mt_field_def Let_def split: if_splits option.splits)
qed

lemma default_typed: "typed_value db (fd_kind f) (field_default f)"
  by (cases "fd_kind f") (auto simp: field_default_def)

lemma typed_keys: "typed_value db k (SKeys pks) \<longleftrightarrow> (\<exists>m. k = ManyToManyField m \<and> set pks \<subseteq> row_keys m db)"
  by (cases k) simp_all

context mt_laws begin

lemma field_unique:
  "site_model site m = Some mm \<Longrightarrow> f \<in> set (mt_fields mm) \<Longrightarrow> g \<in> set (mt_fields mm) \<Longrightarrow> fd_name f = fd_name g \<Longrightarrow> f = g"
  using field_names [of m mm] by (auto simp: distinct_map inj_on_def)

lemma values_typed_set:
  assumes "site_model site m = Some mm" "values_typed mm db vals m2ms" "f \<in> set (mt_fields mm)" "fd_name f = k"
    and "many_to_one_attr (fd_kind f) \<noteq> Some False" "typed_value db (fd_kind f) v"
  shows "values_typed mm db (dict_set k v vals) m2ms"
  unfolding values_typed_def
proof (intro ballI)
  fix g assume g: "g \<in> set (mt_fields mm)"
  with assms(2) have old: "(\<forall>v. dict_get vals (fd_name g) = Some v \<longrightarrow>
      many_to_one_attr (fd_kind g) \<noteq> Some False \<and> typed_value db (fd_kind g) v) \<and>
    (\<forall>pks. dict_get m2ms (fd_name g) = Some pks \<longrightarrow> typed_value db (fd_kind g) (SKeys pks))"
    unfolding values_typed_def by blast
  show "(\<forall>w. dict_get (dict_set k v vals) (fd_name g) = Some w \<longrightarrow>
      many_to_one_attr (fd_kind g) \<noteq> Some False \<and> typed_value db (fd_kind g) w) \<and>
    (\<forall>pks. dict_get m2ms (fd_name g) = Some pks \<longrightarrow> typed_value db (fd_kind g) (SKeys pks))"
  proof (cases "fd_name g = k")
    case True
    with field_unique [OF assms(1,3) g] assms(4) have "g = f" by simp
    with assms(4-6) old show ?thesis by (simp add: dict_get_set)
  next
    case False
    with old show ?thesis by (simp add: dict_get_set)
  qed
qed

lemma values_typed_keys:
  assumes "site_model site m = Some mm" "values_typed mm db vals m2ms" "f \<in> set (mt_fields mm)" "fd_name f = k"
    and "typed_value db (fd_kind f) (SKeys pks)"
  shows "values_typed mm db vals (m2ms @ [(k, pks)])"
  unfolding values_typed_def
proof (intro ballI conjI allI impI)
  fix g qks assume g: "g \<in> set (mt_fields mm)" and q: "dict_get (m2ms @ [(k, pks)]) (fd_name g) = Some qks"
  show "typed_value db (fd_kind g) (SKeys qks)"
  proof (cases "dict_get m2ms (fd_name g)")
    case None
    with q have "fd_name g = k" "qks = pks" by (auto simp: map_add_def split: if_splits)
    with field_unique [OF assms(1,3) g] assms(4,5) show ?thesis by simp
  next
    case (Some a)
    have "dict_get (m2ms @ [(k, pks)]) (fd_name g) = Some a" using Some by (induction m2ms) (auto split: if_splits)
    with q Some g assms(2) show ?thesis unfolding values_typed_def by simp
  qed
qed (use assms(2) in \<open>auto simp: values_typed_def\<close>)

lemma save_well_typed:
  assumes m: "site_model site m = Some mm" and s: "save_object site kw m mm h vals m2ms db = Inr (r, db')"
    and w: "well_typed site db" and v: "values_typed mm db vals m2ms"
  shows "well_typed site db'"
proof -
  note sv = save_object_Inr [OF m s]
  have ext: "extends db db'" using save_extends [OF m s] by blast
  have names: "distinct (map fd_name (mt_fields mm))" using field_names [OF m] by simp
  obtain r0 db0 where r0: "mm_save mm kw (new_row mm (fresh_pk (map row_pk (tables db m))) h vals) db = Inr (r0, db0)"
    and nn: "\<not> null_violation mm r0"
    using s by (auto simp: save_object_def bind_result_Inr Let_def split: option.splits if_splits)
  have rv0: "row_values r0 = row_values (new_row mm (fresh_pk (map row_pk (tables db m))) h vals)"
    using save_frame [OF m r0] by simp
  have r0_value: "field_value r0 f = stored_value vals [] f" if "f \<in> set (mt_fields mm)" for f
    by (rule field_value_stored [OF names that]) (simp add: rv0 set_keys_def new_row_def)
  have row: "row_typed mm db' r"
    unfolding row_typed_def
  proof (intro conjI ballI)
    show "map fst (row_values r) = map fd_name (mt_fields mm)"
      unfolding sv(5) by (simp add: set_keys_def new_row_def comp_def case_prod_beta)
    fix f assume f: "f \<in> set (mt_fields mm)"
    have fv: "field_value r f = stored_value vals m2ms f" by (rule field_value_stored [OF names f sv(5)])
    have t: "typed_value db (fd_kind f) (stored_value vals m2ms f)"
      using v f default_typed unfolding values_typed_def stored_value_def by (auto split: option.splits)
    then show "typed_value db' (fd_kind f) (field_value r f)" unfolding fv using ext by (rule typed_value_extends)
    show "fd_null f \<or> field_value r f \<noteq> SValue TNone \<and> field_value r f \<noteq> SKey None"
    proof (cases "dict_get m2ms (fd_name f)")
      case None
      then have "field_value r f = field_value r0 f" unfolding fv r0_value [OF f] by (simp add: stored_value_def)
      with nn f show ?thesis by (auto simp: null_violation_def list_ex_iff)
    qed (simp add: fv stored_value_def)
  qed
  have "row_typed mm1 db' q" if "site_model site m1 = Some mm1" "q \<in> set (tables db' m1)" for m1 mm1 q
  proof (cases "q \<in> set (tables db m1)")
    case True
    with w that(1) have "row_typed mm1 db q" by (simp add: well_typed_def)
    then show ?thesis using ext by (rule row_typed_extends)
  next
    case False
    with that(2) sv(1) have "m1 = m" "q = r" by (auto split: if_splits)
    with row that(1) m show ?thesis by simp
  qed
  then show ?thesis unfolding well_typed_def by blast
qed

lemma commit_save_well_typed:
  assumes "site_model site m = Some mm" "commit_save site kw m mm h vals m2ms db = (res, db')"
    and "well_typed site db" "values_typed mm db vals m2ms"
  shows "well_typed site db'"
proof (cases "save_object site kw m mm h vals m2ms db")
  case (Inl e)
  with assms(2,3) show ?thesis by (auto simp: commit_save_def split: if_splits sum.splits)
next
  case (Inr rd)
  obtain r db1 where rd: "rd = (r, db1)" by fastforce
  with Inr assms(2) have "db' = db1" by (auto simp: commit_save_def split: if_splits sum.splits)
  with save_well_typed [OF assms(1) _ assms(3,4)] Inr rd show ?thesis by blast
qed

lemma returned_key: "commits site kw m t db (Inr (pk, created)) db' \<Longrightarrow> pk \<in> row_keys m db'"
  using commits_row unfolding row_keys_def by blast

lemma commits_well_typed:
  "commits site kw m t db res db' \<Longrightarrow> well_typed site db \<longrightarrow> well_typed site db'"
  "commits_items site mm items vals m2ms db resi db' \<Longrightarrow>
     (\<exists>m. site_model site m = Some mm) \<longrightarrow> well_typed site db \<longrightarrow> values_typed mm db vals m2ms \<longrightarrow>
     well_typed site db' \<and> (\<forall>vals' m2ms'. resi = Inr (vals', m2ms') \<longrightarrow> values_typed mm db' vals' m2ms')"
  "commits_list site m vs db resl db' \<Longrightarrow> well_typed site db \<longrightarrow>
     well_typed site db' \<and> (\<forall>pks. resl = Inr pks \<longrightarrow> set pks \<subseteq> row_keys m db')"
proof (induction rule: commits_commits_items_commits_list.inducts)
  case (items_fail m mm t h items db e db1 kw)
  then show ?case by (auto simp: values_typed_def)
next
  case (saved m mm t h items db vals m2ms db1 kw res db2)
  show ?case
  proof
    assume "well_typed site db"
    with saved(1,4) have "well_typed site db1" "values_typed mm db1 vals m2ms"
      by (auto simp: values_typed_def)
    with saved(1,5) show "well_typed site db2" by (blast intro: commit_save_well_typed)
  qed
next
  case (value_set v mm k f r vals m2ms db res db')
  show ?case
  proof (intro impI)
    assume a: "\<exists>m. site_model site m = Some mm" "well_typed site db" "values_typed mm db vals m2ms"
    have g: "get_mt_field mm k None None = Inr f" "\<not> is_node v" using value_set by simp_all
    note f = get_mt_field_kind [OF g(1)]
    from f(3) g(2) have t: "typed_value db (fd_kind f) (SValue v)"
      by (cases "fd_kind f") (auto simp: many_to_one_attr_def)
    have "many_to_one_attr (fd_kind f) \<noteq> Some False" using f(3) by simp
    with a f(1,2) t have "values_typed mm db (dict_set k (SValue v) vals) m2ms" by (blast intro: values_typed_set)
    with value_set a show "well_typed site db' \<and> (\<forall>vals' m2ms'. res = Inr (vals', m2ms') \<longrightarrow> values_typed mm db' vals' m2ms')"
      by blast
  qed
next
  case (json_set mm k f h items t r vals m2ms db res db')
  show ?case
  proof (intro impI)
    assume a: "\<exists>m. site_model site m = Some mm" "well_typed site db" "values_typed mm db vals m2ms"
    have g: "get_mt_field mm k None None = Inr f" "fd_kind f = JsonField" using json_set by simp_all
    note f = get_mt_field_kind [OF g(1)]
    have "many_to_one_attr (fd_kind f) \<noteq> Some False" using f(3) by simp
    moreover have "typed_value db (fd_kind f) (SValue t)" using g(2) by simp
    ultimately have "values_typed mm db (dict_set k (SValue t) vals) m2ms"
      using a f(1,2) by (blast intro: values_typed_set)
    with json_set a show "well_typed site db' \<and> (\<forall>vals' m2ms'. res = Inr (vals', m2ms') \<longrightarrow> values_typed mm db' vals' m2ms')"
      by blast
  qed
next
  case (key_set mm k f h items db pk created db1 r vals m2ms res db2)
  show ?case
  proof (intro impI)
    assume a: "\<exists>m. site_model site m = Some mm" "well_typed site db" "values_typed mm db vals m2ms"
    have g: "get_mt_field mm k (Some True) None = Inr f"
      and c: "commits site None (related_model f) (TDict h items) db (Inr (pk, created)) db1" using key_set by simp_all
    note f = get_mt_field_kind [OF g]
    from f(3) obtain m where m: "fd_kind f = ForeignKey m" by (auto simp: many_to_one_attr_iff)
    have "extends db db1" using commits_extends [OF c] by blast
    with a(3) have v1: "values_typed mm db1 vals m2ms" by (rule values_typed_extends)
    have "typed_value db1 (fd_kind f) (SKey (Some pk))"
      using returned_key [OF c] m by (simp add: related_model_def)
    moreover have "many_to_one_attr (fd_kind f) \<noteq> Some False" using f(3) by simp
    ultimately have "values_typed mm db1 (dict_set k (SKey (Some pk)) vals) m2ms"
      using a(1) v1 f(1,2) by (blast intro: values_typed_set)
    with key_set a show "well_typed site db2 \<and> (\<forall>vals' m2ms'. res = Inr (vals', m2ms') \<longrightarrow> values_typed mm db2 vals' m2ms')"
      by blast
  qed
next
  case (keys_set mm k f vs db pks db1 r vals m2ms res db2)
  show ?case
  proof (intro impI)
    assume a: "\<exists>m. site_model site m = Some mm" "well_typed site db" "values_typed mm db vals m2ms"
    have g: "get_mt_field mm k None (Some True) = Inr f"
      and c: "commits_list site (related_model f) vs db (Inr pks) db1" using keys_set by simp_all
    note f = get_mt_field_kind [OF g]
    from f(3) obtain m where m: "fd_kind f = ManyToManyField m" by (auto simp: many_to_one_attr_iff)
    have "extends db db1" using commits_list_extends [OF c] by blast
    with a(3) have v1: "values_typed mm db1 vals m2ms" by (rule values_typed_extends)
    from keys_set a(2) m have "typed_value db1 (fd_kind f) (SKeys pks)" by (simp add: related_model_def)
    with a(1) v1 f(1,2) have "values_typed mm db1 vals (m2ms @ [(k, pks)])" by (blast intro: values_typed_keys)
    with keys_set a show "well_typed site db2 \<and> (\<forall>vals' m2ms'. res = Inr (vals', m2ms') \<longrightarrow> values_typed mm db2 vals' m2ms')"
      by blast
  qed
next
  case (element_set m v db pk created db1 r pks db2)
  then have "commits site None m v db (Inr (pk, created)) db1" "commits_list site m r db1 (Inr pks) db2" by simp_all
  then have "pk \<in> row_keys m db2"
    using returned_key row_keys_extends commits_list_extends by blast
  with element_set show ?case by auto
qed auto

lemma commit_well_typed:
  "well_typed site db \<Longrightarrow> commit site kw m t db = (res, db') \<Longrightarrow> well_typed site db'"
  using commits_well_typed(1) [OF commit_commits(1)] by blast

end

end
