(* ===== verification/Snapshots.thy ===== *)
theory Snapshots imports InventoryModels MtTypes InventoryConf Events begin

text \<open>
  \<open>zentral/contrib/inventory/models.py\<close>, the history of the snapshots of a machine:
  \<open>commit_machine_snapshot_tree\<close> and \<open>update_diff\<close>, and the events that
  \<open>zentral/contrib/inventory/utils.py\<close> makes of a commit.
\<close>

subsection \<open>The tree of a snapshot\<close>

text \<open>A tree as the values the platform and the type are read from. Times and other objects are opaque.\<close>

fun plain_value :: "tree \<Rightarrow> pyval" and plain_items :: "items \<Rightarrow> dict" and plain_list :: "tree list \<Rightarrow> pyval list" where
  "plain_value TNone = PNone"
| "plain_value (TBool b) = PBool b"
| "plain_value (TInt i) = PInt i"
| "plain_value (TStr s) = PStr s"
| "plain_value (TTime d) = PTime 0"
| "plain_value (TOther s) = PTime 0"
| "plain_value (TList vs) = PList (plain_list vs)"
| "plain_value (TDict h items) =
     PDict ((case h of None \<Rightarrow> [] | Some s \<Rightarrow> [(''mt_hash'', PStr s)]) @ plain_items items)"
| "plain_items [] = []"
| "plain_items ((k, v) # r) = (k, plain_value v) # plain_items r"
| "plain_list [] = []"
| "plain_list (v # r) = plain_value v # plain_list r"

text \<open>\<open>tree.pop(k, None)\<close>.\<close>

definition pop_item :: "string \<Rightarrow> items \<Rightarrow> tree \<times> items" where
  "pop_item k items = ((case dict_get items k of None \<Rightarrow> TNone | Some v \<Rightarrow> v), dict_del k items)"

definition naive_last_seen :: "mt_lib \<Rightarrow> datetime \<Rightarrow> tree \<Rightarrow> pyerror + datetime" where
  "naive_last_seen lib now v =
     (case (if tree_truthy v then v else TTime now) of
        TTime d \<Rightarrow> Inr (naive lib d)
      | _ \<Rightarrow> Inl AttributeError)"

definition set_platform_and_type :: "items \<Rightarrow> pyerror + items" where
  "set_platform_and_type items =
     bind_result (ms_tree_platform (plain_items items)) (\<lambda>p.
       let items1 = (case p of None \<Rightarrow> items | Some p \<Rightarrow> dict_set ''platform'' (TStr (ms_platform_str p)) items)
       in bind_result (ms_tree_type (plain_items items1)) (\<lambda>ty.
            Inr (case ty of None \<Rightarrow> items1 | Some t \<Rightarrow> dict_set ''type'' (TStr (ms_type_str t)) items1)))"

subsection \<open>A new version\<close>

text \<open>The column of a positive integer, with the check of the database.\<close>

definition uptime_column :: "tree \<Rightarrow> pyerror + int option" where
  "uptime_column v =
     bind_result
       (case v of
          TNone \<Rightarrow> Inr None
        | TBool b \<Rightarrow> Inr (Some (of_bool b))
        | TInt i \<Rightarrow> Inr (Some i)
        | TStr s \<Rightarrow> (case parse_int s of Some i \<Rightarrow> Inr (Some i) | None \<Rightarrow> Inl ValueError)
        | _ \<Rightarrow> Inl TypeError)
       (\<lambda>i. case i of
          None \<Rightarrow> Inr None
        | Some n \<Rightarrow>
            if n < -2147483648 \<or> 2147483647 < n then Inl DataError
            else if n < 0 then Inl IntegrityError
            else Inr (Some n))"

definition same_uptime :: "int option \<Rightarrow> tree \<Rightarrow> bool" where
  "same_uptime u v =
     (case (u, v) of
        (None, TNone) \<Rightarrow> True
      | (Some i, TInt j) \<Rightarrow> i = j
      | (Some i, TBool b) \<Rightarrow> i = of_bool b
      | _ \<Rightarrow> False)"

abbreviation history_key :: "machine_snapshot_commit \<Rightarrow> string \<times> nat" where
  "history_key c \<equiv> (msc_serial_number c, msc_source c)"

text \<open>The commits of a machine and a source, and the last of them.\<close>

definition history :: "string \<times> nat \<Rightarrow> inventory_db \<Rightarrow> machine_snapshot_commit list" where
  "history k db = filter (\<lambda>c. history_key c = k) (machine_snapshot_commits db)"

definition last_commit :: "string \<times> nat \<Rightarrow> inventory_db \<Rightarrow> machine_snapshot_commit option" where
  "last_commit k db =
     (case sort_key (\<lambda>c. - int (msc_version c)) (history k db) of [] \<Rightarrow> None | c # _ \<Rightarrow> Some c)"

text \<open>The version and the parent of the new commit, when there is something new.\<close>

definition new_version :: "machine_snapshot_commit option \<Rightarrow> nat \<Rightarrow> datetime \<Rightarrow> tree \<Rightarrow> (nat \<times> nat option) option" where
  "new_version previous snapshot seen uptime =
     (case previous of
        None \<Rightarrow> Some (1, None)
      | Some c \<Rightarrow>
          if msc_machine_snapshot c \<noteq> snapshot \<or> msc_last_seen c \<noteq> Some seen \<or> \<not> same_uptime (msc_system_uptime c) uptime
          then Some (msc_version c + 1, Some (msc_pk c))
          else None)"

definition create_commit :: "string \<times> nat \<Rightarrow> nat \<times> nat option \<Rightarrow> nat \<Rightarrow> datetime \<Rightarrow> tree \<Rightarrow> inventory_db \<Rightarrow>
    pyerror + machine_snapshot_commit \<times> inventory_db" where
  "create_commit k v snapshot seen uptime db =
     bind_result (uptime_column uptime) (\<lambda>u.
       let c = \<lparr>msc_pk = fresh_pk (map msc_pk (machine_snapshot_commits db)),
                msc_serial_number = fst k, msc_source = snd k, msc_version = fst v,
                msc_machine_snapshot = snapshot, msc_parent = snd v, msc_last_seen = Some seen,
                msc_system_uptime = u\<rparr>
       in if fst v \<in> msc_version ` set (history k db) then Inl IntegrityError
          else Inr (c, db\<lparr>machine_snapshot_commits := machine_snapshot_commits db @ [c]\<rparr>))"

abbreviation current_key :: "current_machine_snapshot \<Rightarrow> string \<times> nat" where
  "current_key r \<equiv> (cms_serial_number r, cms_source r)"

definition new_current :: "string \<times> nat \<Rightarrow> nat \<Rightarrow> current_machine_snapshot" where
  "new_current k snapshot =
     \<lparr>cms_serial_number = fst k, cms_source = snd k, cms_machine_snapshot = snapshot\<rparr>"

definition set_current :: "nat \<Rightarrow> current_machine_snapshot \<Rightarrow> current_machine_snapshot" where
  "set_current snapshot r = r\<lparr>cms_machine_snapshot := snapshot\<rparr>"

definition update_current :: "string \<times> nat \<Rightarrow> nat \<Rightarrow> inventory_db \<Rightarrow> inventory_db" where
  "update_current k snapshot db =
     db\<lparr>current_machine_snapshots :=
          upsert current_key new_current set_current k snapshot (current_machine_snapshots db)\<rparr>"

interpretation current_snapshots: upsert_table current_key new_current set_current
  by unfold_locales (simp_all add: new_current_def set_current_def)

text \<open>
  The \<open>try\<close> statement: the transaction that writes what has been decided, and after an integrity
  error the look at the commit that is in the way.
\<close>

definition write_commit :: "string \<times> nat \<Rightarrow> (nat \<times> nat option) option \<Rightarrow> nat \<Rightarrow> datetime \<Rightarrow> tree \<Rightarrow> inventory_db \<Rightarrow>
    (pyerror + machine_snapshot_commit option) \<times> inventory_db" where
  "write_commit k new snapshot seen uptime db =
     (case new of
        None \<Rightarrow> (Inr None, update_current k snapshot db)
      | Some v \<Rightarrow>
          (case create_commit k v snapshot seen uptime db of
             Inr (c, db1) \<Rightarrow> (Inr (Some c), update_current k snapshot db1)
           | Inl e \<Rightarrow>
               if e = IntegrityError then
                 (case get_one (\<lambda>c. history_key c = k \<and> msc_version c = fst v) (machine_snapshot_commits db) of
                    Inl e' \<Rightarrow> (Inl e', db)
                  | Inr c \<Rightarrow> (if msc_machine_snapshot c = snapshot then Inr None else Inl MTOError, db))
               else (Inl e, db)))"

text \<open>The machine and the source of a snapshot.\<close>

definition snapshot_key :: "mt_row \<Rightarrow> pyerror + string \<times> nat" where
  "snapshot_key r =
     (case dict_get (row_values r) ''source'' of
        Some (SKey (Some source)) \<Rightarrow> Inr (row_text ''serial_number'' r, source)
      | _ \<Rightarrow> Inl DoesNotExist)"

text \<open>
  \<open>commit_machine_snapshot_tree\<close>, with the time of the call. What the other transactions do
  between the reading of the last commit and the writing of the new one is \<open>others\<close>.
\<close>

definition commit_machine_snapshot_tree :: "unit inventory_db_ext mt_site \<Rightarrow> datetime \<Rightarrow>
    (inventory_db \<Rightarrow> inventory_db) \<Rightarrow> tree \<Rightarrow> inventory_db \<Rightarrow>
    (pyerror + machine_snapshot_commit option \<times> nat) \<times> inventory_db" where
  "commit_machine_snapshot_tree site now others tree db =
     (case tree of
        TDict h items \<Rightarrow>
          (let (last_seen, items1) = pop_item ''last_seen'' items in
           case naive_last_seen (site_lib site) now last_seen of
             Inl e \<Rightarrow> (Inl e, db)
           | Inr seen \<Rightarrow>
               (let (uptime, items2) = pop_item ''system_uptime'' items1 in
                case set_platform_and_type items2 of
                  Inl e \<Rightarrow> (Inl e, db)
                | Inr items3 \<Rightarrow>
                    (case commit site None ''MachineSnapshot'' (TDict h items3) db of
                       (Inl e, db1) \<Rightarrow> (Inl e, db1)
                     | (Inr (snapshot, created), db1) \<Rightarrow>
                         (case bind_result (row_by_pk ''MachineSnapshot'' snapshot db1) snapshot_key of
                            Inl e \<Rightarrow> (Inl e, db1)
                          | Inr k \<Rightarrow>
                              (case write_commit k (new_version (last_commit k db1) snapshot seen uptime) snapshot
                                      seen uptime (others db1) of
                                 (Inl e, db2) \<Rightarrow> (Inl e, db2)
                               | (Inr c, db2) \<Rightarrow> (Inr (c, snapshot), db2))))))
      | _ \<Rightarrow> (Inl AttributeError, db))"

subsection \<open>What changed\<close>

definition last_seen_diff :: "datetime option \<Rightarrow> datetime option \<Rightarrow> items" where
  "last_seen_diff parent_seen seen =
     (if parent_seen = seen then []
      else (case parent_seen of None \<Rightarrow> [] | Some d \<Rightarrow> [(''removed'', TTime d)]) @
           (case seen of None \<Rightarrow> [] | Some d \<Rightarrow> [(''added'', TTime d)]))"

definition update_diff :: "unit inventory_db_ext mt_site \<Rightarrow> nat \<Rightarrow> machine_snapshot_commit \<Rightarrow> inventory_db \<Rightarrow>
    pyerror + (string \<times> items) list option" where
  "update_diff site n c db =
     (case msc_parent c of
        None \<Rightarrow> Inr None
      | Some parent_pk \<Rightarrow>
          bind_result (get_one (\<lambda>p. msc_pk p = parent_pk) (machine_snapshot_commits db)) (\<lambda>parent.
          case site_model site ''MachineSnapshot'' of
            None \<Rightarrow> Inl AttributeError
          | Some mm \<Rightarrow>
              bind_result (row_by_pk ''MachineSnapshot'' (msc_machine_snapshot c) db) (\<lambda>r.
              bind_result (row_by_pk ''MachineSnapshot'' (msc_machine_snapshot parent) db) (\<lambda>mto.
              bind_result (object_diff site n mm r mto db) (\<lambda>diff.
                Inr (Some (case last_seen_diff (msc_last_seen parent) (msc_last_seen c) of
                             [] \<Rightarrow> diff
                           | d \<Rightarrow> dict_set ''last_seen'' d diff)))))))"

subsection \<open>The events of a commit\<close>

type_synonym inventory_event = "string \<times> datetime option \<times> tree"

definition m2m_diff_attrs :: "string list" where
  "m2m_diff_attrs = [''certificates'', ''deb_packages'', ''disks'', ''groups'', ''links'', ''network_interfaces'',
     ''osx_app_instances'', ''program_instances'']"

definition fk_diff_attrs :: "string list" where
  "fk_diff_attrs = [''business_unit'', ''os_version'', ''system_info'', ''teamviewer'', ''puppet_node'', ''principal_user'']"

definition diff_actions :: "(string \<times> string) list" where
  "diff_actions = [(''added'', ''add''), (''removed'', ''remove'')]"

definition diff_items :: "(string \<times> items) list \<Rightarrow> string \<Rightarrow> items" where
  "diff_items diff k = (case dict_get diff k of None \<Rightarrow> [] | Some d \<Rightarrow> d)"

definition machine_event :: "string \<Rightarrow> string \<Rightarrow> tree \<Rightarrow> tree \<Rightarrow> inventory_event" where
  "machine_event action attr source obj =
     (action @ ''_machine_'' @ attr, None, TDict None [(attr, obj), (''source'', source)])"

fun listed :: "tree option \<Rightarrow> tree list" where
  "listed (Some (TList vs)) = vs"
| "listed _ = []"

definition m2m_events :: "tree \<Rightarrow> (string \<times> items) list \<Rightarrow> string \<Rightarrow> inventory_event list" where
  "m2m_events source diff attr =
     concat (map (\<lambda>(diff_action, event_action).
       map (machine_event event_action (butlast attr) source) (listed (dict_get (diff_items diff attr) diff_action)))
       diff_actions)"

definition fk_events :: "tree \<Rightarrow> (string \<times> items) list \<Rightarrow> string \<Rightarrow> inventory_event list" where
  "fk_events source diff attr =
     concat (map (\<lambda>(diff_action, event_action).
       case dict_get (diff_items diff attr) diff_action of
         Some (TDict h items) \<Rightarrow>
           if tree_truthy (TDict h items) then [machine_event event_action attr source (TDict h items)] else []
       | _ \<Rightarrow> [])
       diff_actions)"

definition heartbeat :: "tree \<Rightarrow> datetime option \<Rightarrow> inventory_event" where
  "heartbeat source seen = (''inventory_heartbeat'', seen, TDict None [(''source'', source)])"

definition heartbeat_events :: "tree \<Rightarrow> (string \<times> items) list \<Rightarrow> inventory_event list" where
  "heartbeat_events source diff =
     (case dict_get (diff_items diff ''last_seen'') ''added'' of
        Some (TTime d) \<Rightarrow> [heartbeat source (Some d)]
      | _ \<Rightarrow> [])"

definition add_machine_exclude :: "string list" where
  "add_machine_exclude = [''deb_packages'', ''disks'', ''network_interfaces'', ''osx_app_instance'', ''program_instances'']"

definition inventory_events_from_machine_snapshot_commit ::
  "unit inventory_db_ext mt_site \<Rightarrow> nat \<Rightarrow> machine_snapshot_commit \<Rightarrow> inventory_db \<Rightarrow> pyerror + inventory_event list" where
  "inventory_events_from_machine_snapshot_commit site n c db =
     bind_result (serialize site n ''Source'' [] (msc_source c) db) (\<lambda>source.
     bind_result (update_diff site n c db) (\<lambda>diff.
       case diff of
         None \<Rightarrow>
           bind_result (serialize site n ''MachineSnapshot'' [] (msc_machine_snapshot c) db) (\<lambda>_.
           bind_result (serialize site n ''MachineSnapshot'' add_machine_exclude (msc_machine_snapshot c) db) (\<lambda>payload.
             Inr [(''add_machine'', None, payload), heartbeat source (msc_last_seen c)]))
       | Some diff \<Rightarrow>
           Inr (concat (map (m2m_events source diff) m2m_diff_attrs) @
                concat (map (fk_events source diff) fk_diff_attrs) @
                heartbeat_events source diff)))"

subsection \<open>The chain of versions\<close>

text \<open>
  The versions of a machine and a source are 1, 2, 3, in the order of the creation, each the child of
  the one before.
\<close>

definition chain :: "machine_snapshot_commit list \<Rightarrow> bool" where
  "chain cs \<longleftrightarrow>
     map msc_version cs = [1..<Suc (length cs)] \<and>
     (\<forall>i < length cs. msc_parent (cs ! i) = (if i = 0 then None else Some (msc_pk (cs ! (i - 1)))))"

definition chained :: "inventory_db \<Rightarrow> bool" where
  "chained db \<longleftrightarrow> (\<forall>k. chain (history k db))"

lemma chained_history: "chained db \<Longrightarrow> chain (history k db)"
  unfolding chained_def by blast

text \<open>What other transactions may do to the history: add commits.\<close>

definition only_adds :: "inventory_db \<Rightarrow> inventory_db \<Rightarrow> bool" where
  "only_adds db db' \<longleftrightarrow> (\<forall>k. prefix (history k db) (history k db'))"

lemma chain_append:
  assumes "chain cs" "msc_version c = Suc (length cs)"
    and "msc_parent c = (if cs = [] then None else Some (msc_pk (last cs)))"
  shows "chain (cs @ [c])"
  unfolding chain_def
proof (intro conjI allI impI)
  show "map msc_version (cs @ [c]) = [1..<Suc (length (cs @ [c]))]"
    using assms(1,2) by (simp add: chain_def)
  fix i assume i: "i < length (cs @ [c])"
  show "msc_parent ((cs @ [c]) ! i) = (if i = 0 then None else Some (msc_pk ((cs @ [c]) ! (i - 1))))"
  proof (cases "i < length cs")
    case True
    then have "i - 1 < length cs" by simp
    with True assms(1) show ?thesis unfolding chain_def by (auto simp: nth_append)
  next
    case False
    then have "i = length cs" using i by simp
    then show ?thesis using assms(3) by (auto simp: nth_append last_conv_nth)
  qed
qed

lemma chain_versions: "chain cs \<Longrightarrow> i < length cs \<Longrightarrow> msc_version (cs ! i) = Suc i"
proof -
  assume "chain cs" "i < length cs"
  then have "map msc_version cs ! i = [1..<Suc (length cs)] ! i" by (simp add: chain_def del: upt_Suc)
  with \<open>i < length cs\<close> show ?thesis by (simp del: upt_Suc)
qed

lemma chain_version_set: "chain cs \<Longrightarrow> msc_version ` set cs = {1..length cs}"
proof -
  assume "chain cs"
  then have "msc_version ` set cs = set [1..<Suc (length cs)]"
    unfolding chain_def by (metis list.set_map)
  then show ?thesis by (simp add: atLeastLessThanSuc_atLeastAtMost del: upt_Suc)
qed

lemma chained_last:
  assumes "chain (history k db)"
  shows "last_commit k db = (if history k db = [] then None else Some (last (history k db)))"
proof (cases "history k db = []")
  case False
  let ?f = "\<lambda>c. - int (msc_version c)" and ?h = "history k db"
  obtain c cs where s: "sort_key ?f ?h = c # cs"
    using False by (cases "sort_key ?f ?h") (auto dest: arg_cong [of _ _ length])
  have c: "c \<in> set ?h" using arg_cong [OF s, of set] by simp
  have "sorted (map ?f (c # cs))" unfolding s [symmetric] by simp
  then have "\<forall>d \<in> set (c # cs). ?f c \<le> ?f d" by simp
  then have least: "\<forall>d \<in> set ?h. ?f c \<le> ?f d" unfolding s [symmetric] by simp
  obtain i where i: "i < length ?h" "c = ?h ! i" using c by (auto simp: in_set_conv_nth)
  have "last ?h \<in> set ?h" using False by simp
  with least have "msc_version (last ?h) \<le> msc_version c" by force
  then have "length ?h \<le> Suc i"
    using chain_versions [OF assms, of i] chain_versions [OF assms, of "length ?h - 1"] i False
    by (simp add: last_conv_nth)
  with i have "i = length ?h - 1" by simp
  with i False have "c = last ?h" by (simp add: last_conv_nth)
  with s False show ?thesis by (simp add: last_commit_def)
qed (simp add: last_commit_def)

lemma history_create:
  assumes "create_commit k v snapshot seen uptime db = Inr (c, db')"
  shows "history j db' = (if j = k then history k db @ [c] else history j db)"
    and "fst v \<notin> msc_version ` set (history k db)"
    and "msc_version c = fst v" and "msc_parent c = snd v" and "msc_machine_snapshot c = snapshot"
    and "msc_last_seen c = Some seen" and "uptime_column uptime = Inr (msc_system_uptime c)"
    and "current_machine_snapshots db' = current_machine_snapshots db"
    and "tables db' = tables db"
  using assms by (auto simp: create_commit_def bind_result_Inr Let_def history_def split: if_splits)

lemma history_update_current [simp]: "history j (update_current k s db) = history j db"
  by (simp add: update_current_def history_def)

lemma write_commit_history:
  assumes "write_commit k new snapshot seen uptime db = (res, db')"
  shows "(\<forall>j. history j db' = history j db) \<or>
    (\<exists>v c db1. new = Some v \<and> res = Inr (Some c) \<and> create_commit k v snapshot seen uptime db = Inr (c, db1) \<and>
       db' = update_current k snapshot db1)"
proof (cases new)
  case None
  with assms show ?thesis by (auto simp: write_commit_def)
next
  case (Some v)
  show ?thesis
  proof (cases "create_commit k v snapshot seen uptime db")
    case (Inl e)
    with Some assms have "db' = db" by (auto simp: write_commit_def split: if_splits sum.splits)
    then show ?thesis by simp
  next
    case (Inr x)
    with Some assms show ?thesis by (cases x) (auto simp: write_commit_def)
  qed
qed

lemma new_version_next:
  assumes "chained db" "new_version (last_commit k db) snapshot seen uptime = Some v"
  shows "v = (Suc (length (history k db)), if history k db = [] then None else Some (msc_pk (last (history k db))))"
proof (cases "history k db = []")
  case False
  then have "msc_version (last (history k db)) = length (history k db)"
    using chain_versions [OF chained_history [OF assms(1)], of "length (history k db) - 1" k]
    by (simp add: last_conv_nth)
  with assms(2) False show ?thesis
    by (auto simp: new_version_def chained_last [OF chained_history [OF assms(1)]] split: if_splits)
qed (use assms(2) in \<open>simp add: new_version_def chained_last [OF chained_history [OF assms(1)]]\<close>)

text \<open>Without other transactions the new version is free.\<close>

lemma new_version_free:
  assumes "chained db" "new_version (last_commit k db) snapshot seen uptime = Some v"
  shows "get_one (\<lambda>c. history_key c = k \<and> msc_version c = fst v) (machine_snapshot_commits db) \<noteq> Inr q"
proof
  assume "get_one (\<lambda>c. history_key c = k \<and> msc_version c = fst v) (machine_snapshot_commits db) = Inr q"
  then have "q \<in> set (history k db)" "msc_version q = fst v"
    by (auto simp: history_def dest!: get_one_Inr)
  then have "fst v \<in> {1..length (history k db)}"
    unfolding chain_version_set [OF chained_history [OF assms(1)], symmetric] by (metis imageI)
  with new_version_next [OF assms] show False by simp
qed

text \<open>The race is safe for the chain: a version that another transaction has taken is not written again.\<close>

lemma write_commit_chained:
  assumes w: "write_commit k (new_version (last_commit k db) snapshot seen uptime) snapshot seen uptime db1 = (res, db2)"
    and c: "chained db" "chained db1" and a: "only_adds db db1"
  shows "chained db2"
  using write_commit_history [OF w]
proof (elim disjE exE conjE)
  assume "\<forall>j. history j db2 = history j db1"
  with chained_history [OF c(2)] show ?thesis unfolding chained_def by simp
next
  fix v d db3
  assume v: "new_version (last_commit k db) snapshot seen uptime = Some v"
    and cr: "create_commit k v snapshot seen uptime db1 = Inr (d, db3)" and db2: "db2 = update_current k snapshot db3"
  let ?h = "history k db" and ?h1 = "history k db1"
  note h = history_create [OF cr]
  have ch: "chain ?h" "chain ?h1" using c unfolding chained_def by blast+
  note v_eq = new_version_next [OF c(1) v]
  have "Suc (length ?h) \<notin> {1..length ?h1}"
    using h(2) v_eq chain_version_set [OF ch(2)] by simp
  moreover have p: "prefix ?h ?h1" using a unfolding only_adds_def by blast
  ultimately have "length ?h1 = length ?h" using prefix_length_le [OF p] by auto
  with p have eq: "?h1 = ?h" by (auto simp: prefix_def)
  have new: "chain (?h1 @ [d])"
    by (rule chain_append) (use ch(2) h(3,4) v_eq eq in auto)
  have "chain (history j db2)" for j
    unfolding db2 history_update_current h(1) using new chained_history [OF c(2)] by simp
  then show ?thesis unfolding chained_def by blast
qed

text \<open>The commit of the snapshot leaves the history alone.\<close>

definition same_history :: "inventory_db \<Rightarrow> inventory_db \<Rightarrow> bool" where
  "same_history db db' \<longleftrightarrow>
     machine_snapshot_commits db' = machine_snapshot_commits db \<and>
     current_machine_snapshots db' = current_machine_snapshots db"

lemma same_history_history: "same_history db db' \<Longrightarrow> history k db' = history k db"
  by (simp add: same_history_def history_def)

lemma same_history_chained: "same_history db db' \<Longrightarrow> chained db' = chained db"
  by (simp add: chained_def same_history_history)

lemma same_history_trans: "same_history a b \<Longrightarrow> same_history b c \<Longrightarrow> same_history a c"
  by (simp add: same_history_def)

lemma get_or_create_same_history: "same_history db (snd (get_or_create_with_bu_key_and_name key name db))"
  by (simp add: get_or_create_with_bu_key_and_name_def Let_def same_history_def split: list.splits)

lemma save_business_unit_same_history:
  assumes "save_business_unit lib kw r db = Inr (r', db')"
  shows "same_history db db'"
proof -
  obtain key where key: "generate_key lib r db = Inr key"
    using assms by (cases "generate_key lib r db") (simp_all add: save_business_unit_def)
  define p where "p = (case kw of Some mbu \<Rightarrow> (mbu, db)
    | None \<Rightarrow> get_or_create_with_bu_key_and_name key (row_text ''name'' r) db)"
  have frame: "same_history db (snd p)"
    unfolding p_def using get_or_create_same_history by (cases kw) (simp_all add: same_history_def)
  have "db' = snd p"
    using assms by (simp add: save_business_unit_def key p_def case_prod_beta)
  with frame show ?thesis by simp
qed

lemma inventory_model_same_history:
  assumes "(m, mm) \<in> set (inventory_models lib)" "mm_save mm kw r db = Inr (r', db')"
  shows "same_history db db'"
proof -
  have "mm_save mm \<in> {save_plain, save_group lib, save_business_unit lib}"
    using inventory_saves [of lib] assms(1) unfolding list_all_iff by fastforce
  then consider "mm_save mm = save_plain" | "mm_save mm = save_group lib" | "mm_save mm = save_business_unit lib"
    by blast
  then show ?thesis
  proof cases
    case 3
    with assms(2) show ?thesis by (simp add: save_business_unit_same_history)
  qed (use assms(2) in \<open>auto simp: save_plain_def save_group_def bind_result_Inr same_history_def split: if_splits\<close>)
qed

lemma inventory_save_same_history:
  assumes "site_model (inventory_site lib refuses cleans) m = Some mm"
    and "save_object (inventory_site lib refuses cleans) kw m mm h vals m2ms db = Inr (r, db')"
  shows "same_history db db'"
proof -
  have mm: "(m, mm) \<in> set (inventory_models lib)" using assms(1) by (simp add: inventory_site_def map_of_SomeD)
  obtain r0 db0 q where s: "mm_save mm kw (new_row mm (fresh_pk (map row_pk (tables db m))) h vals) db = Inr (r0, db0)"
    and d: "db' = insert_row m q db0"
    using assms(2) by (auto simp: save_object_def bind_result_Inr Let_def split: option.splits if_splits)
  have "same_history db0 db'" unfolding d by (simp add: insert_row_def same_history_def)
  with inventory_model_same_history [OF mm s] show ?thesis by (rule same_history_trans)
qed

lemma commit_same_history:
  assumes "commit (inventory_site lib refuses cleans) kw m t db = (res, db')"
  shows "same_history db db'"
  by (rule commits_relation(1) [where R = same_history, OF _ _ _ commit_commits(1) [OF assms]])
     (auto simp: same_history_def [of x x for x] intro: same_history_trans inventory_save_same_history)

text \<open>The ways \<open>commit_machine_snapshot_tree\<close> can go.\<close>

lemma commit_machine_snapshot_tree_cases:
  assumes "commit_machine_snapshot_tree site now others tree db = (res, db')"
  obtains (early) e where "res = Inl e" "db' = db"
  | (failed) h items e where "commit site None ''MachineSnapshot'' (TDict h items) db = (Inl e, db')" "res = Inl e"
  | (unkeyed) h items x e where "commit site None ''MachineSnapshot'' (TDict h items) db = (Inr x, db')" "res = Inl e"
  | (written) h items uptime items2 items3 seen snapshot created db1 k wres where
      "tree = TDict h items"
      "naive_last_seen (site_lib site) now (fst (pop_item ''last_seen'' items)) = Inr seen"
      "pop_item ''system_uptime'' (snd (pop_item ''last_seen'' items)) = (uptime, items2)"
      "set_platform_and_type items2 = Inr items3"
      "commit site None ''MachineSnapshot'' (TDict h items3) db = (Inr (snapshot, created), db1)"
      "bind_result (row_by_pk ''MachineSnapshot'' snapshot db1) snapshot_key = Inr k"
      "write_commit k (new_version (last_commit k db1) snapshot seen uptime) snapshot seen uptime (others db1) = (wres, db')"
      "res = (case wres of Inl e \<Rightarrow> Inl e | Inr c \<Rightarrow> Inr (c, snapshot))"
proof (cases tree)
  case (TDict h items)
  obtain ls items1 where p1: "pop_item ''last_seen'' items = (ls, items1)" by fastforce
  obtain uptime items2 where p2: "pop_item ''system_uptime'' items1 = (uptime, items2)" by fastforce
  show thesis
  proof (cases "naive_last_seen (site_lib site) now ls")
    case (Inl e)
    with assms TDict p1 have "db' = db" "res = Inl e" by (auto simp: commit_machine_snapshot_tree_def)
    with early show thesis by blast
  next
    case seen: (Inr seen)
    show thesis
    proof (cases "set_platform_and_type items2")
      case (Inl e)
      with assms TDict p1 p2 seen have "db' = db" "res = Inl e" by (auto simp: commit_machine_snapshot_tree_def)
      with early show thesis by blast
    next
      case set3: (Inr items3)
      obtain cres db1 where c: "commit site None ''MachineSnapshot'' (TDict h items3) db = (cres, db1)" by fastforce
      show thesis
      proof (cases cres)
        case (Inl e)
        with assms TDict p1 p2 seen set3 c have "db' = db1" "res = Inl e"
          by (simp_all add: commit_machine_snapshot_tree_def)
        with c Inl failed show thesis by blast
      next
        case cr: (Inr x)
        obtain snapshot created where x: "x = (snapshot, created)" by fastforce
        show thesis
        proof (cases "bind_result (row_by_pk ''MachineSnapshot'' snapshot db1) snapshot_key")
          case (Inl e)
          with assms TDict p1 p2 seen set3 c cr x have "db' = db1" "res = Inl e"
            by (simp_all add: commit_machine_snapshot_tree_def)
          with c cr unkeyed show thesis by blast
        next
          case k: (Inr k)
          obtain wres db2 where w: "write_commit k (new_version (last_commit k db1) snapshot seen uptime) snapshot
              seen uptime (others db1) = (wres, db2)" by fastforce
          with assms TDict p1 p2 seen set3 c cr x k have "db' = db2"
            "res = (case wres of Inl e \<Rightarrow> Inl e | Inr c \<Rightarrow> Inr (c, snapshot))"
            by (cases wres; simp add: commit_machine_snapshot_tree_def)+
          with TDict p1 p2 seen set3 c cr x k w written [of h items seen uptime items2 items3 snapshot created db1 k wres]
          show thesis by simp
        qed
      qed
    qed
  qed
qed (rule early; use assms in \<open>auto simp: commit_machine_snapshot_tree_def\<close>)+

lemma tree_commits_chained:
  assumes c: "chained db"
    and run: "commit_machine_snapshot_tree (inventory_site lib refuses cleans) now others tree db = (res, db')"
    and others: "\<And>d. chained d \<Longrightarrow> chained (others d) \<and> only_adds d (others d)"
  shows "chained db'"
  using run
proof (cases rule: commit_machine_snapshot_tree_cases)
  case (written h items uptime items2 items3 seen snapshot created db1 k wres)
  have c1: "chained db1"
    using c same_history_chained [OF commit_same_history [OF written(5)]] by simp
  from write_commit_chained [OF written(7) c1] others [OF c1] show ?thesis by blast
qed (use c same_history_chained [OF commit_same_history] in auto)

subsection \<open>The current snapshot\<close>

definition currents :: "string \<times> nat \<Rightarrow> inventory_db \<Rightarrow> nat list" where
  "currents k db = map cms_machine_snapshot (filter (\<lambda>r. current_key r = k) (current_machine_snapshots db))"

text \<open>The current snapshot of a machine and a source is the one of its last commit.\<close>

definition current_ok :: "inventory_db \<Rightarrow> bool" where
  "current_ok db \<longleftrightarrow>
     (\<forall>k. currents k db = (if history k db = [] then [] else [msc_machine_snapshot (last (history k db))]))"

lemma current_okD:
  "current_ok db \<Longrightarrow> currents k db = (if history k db = [] then [] else [msc_machine_snapshot (last (history k db))])"
  unfolding current_ok_def by blast

lemma currents_other: "j \<noteq> k \<Longrightarrow> currents j (update_current k s db) = currents j db"
  unfolding currents_def update_current_def by (simp add: current_snapshots.upsert_other)

lemma filter_upsert_current:
  "filter (\<lambda>r. current_key r = k) (upsert current_key new_current set_current k s rows) =
     (case filter (\<lambda>r. current_key r = k) rows of [] \<Rightarrow> [new_current k s] | r # rs \<Rightarrow> set_current s r # rs)"
  by (induction rows) (auto simp: new_current_def set_current_def split: list.splits)

lemma currents_update: "currents k (update_current k s db) = (case currents k db of [] \<Rightarrow> [s] | _ # ss \<Rightarrow> s # ss)"
  unfolding currents_def update_current_def
  by (simp add: filter_upsert_current new_current_def set_current_def split: list.splits)

lemma write_commit_current:
  assumes w: "write_commit k (new_version (last_commit k db) snapshot seen uptime) snapshot seen uptime db = (res, db')"
    and c: "chained db" and o: "current_ok db"
  shows "current_ok db' \<and> (\<forall>x. res = Inr x \<longrightarrow> currents k db' = [snapshot])"
proof (cases "new_version (last_commit k db) snapshot seen uptime")
  case None
  let ?h = "history k db"
  have l: "last_commit k db = (if ?h = [] then None else Some (last ?h))"
    by (rule chained_last [OF chained_history [OF c]])
  from None have h: "?h \<noteq> []" "msc_machine_snapshot (last ?h) = snapshot"
    unfolding l by (auto simp: new_version_def split: if_splits)
  have "res = Inr None" "db' = update_current k snapshot db" using w None by (simp_all add: write_commit_def)
  moreover have cur: "currents k db = [snapshot]" using current_okD [OF o, of k] h by simp
  moreover have "currents j (update_current k snapshot db) = currents j db" for j
    using cur by (cases "j = k") (simp_all add: currents_other currents_update)
  ultimately show ?thesis using current_okD [OF o] by (simp add: current_ok_def)
next
  case (Some v)
  show ?thesis
  proof (cases "create_commit k v snapshot seen uptime db")
    case (Inl e)
    with Some w have d: "db' = db" by (auto simp: write_commit_def split: if_splits sum.splits)
    have "res \<noteq> Inr x" for x
      using w Some Inl new_version_free [OF c Some] by (auto simp: write_commit_def split: if_splits sum.splits)
    with d o show ?thesis by blast
  next
    case (Inr x)
    obtain d db1 where x: "x = (d, db1)" by fastforce
    note h = history_create [OF Inr [unfolded x]]
    have w': "res = Inr (Some d)" "db' = update_current k snapshot db1"
      using w Some Inr x by (simp_all add: write_commit_def)
    have same: "currents j db1 = currents j db" for j using h(8) by (simp add: currents_def)
    have cur: "currents k db' = [snapshot]"
      unfolding w'(2) currents_update same using current_okD [OF o, of k] by simp
    have "currents j db' = (if history j db' = [] then [] else [msc_machine_snapshot (last (history j db'))])" for j
    proof (cases "j = k")
      case True
      with cur h(1,5) show ?thesis by (simp add: w'(2))
    next
      case False
      with current_okD [OF o, of j] h(1) show ?thesis by (simp add: w'(2) currents_other same)
    qed
    with cur show ?thesis unfolding current_ok_def by blast
  qed
qed

lemma same_history_current: "same_history db db' \<Longrightarrow> current_ok db' = current_ok db"
  by (simp add: current_ok_def same_history_history currents_def) (simp add: same_history_def)

lemma tree_commits_current:
  assumes c: "chained db" and o: "current_ok db"
    and run: "commit_machine_snapshot_tree (inventory_site lib refuses cleans) now (\<lambda>d. d) tree db = (res, db')"
  shows "current_ok db'"
  using run
proof (cases rule: commit_machine_snapshot_tree_cases)
  case (written h items uptime items2 items3 seen snapshot created db1 k wres)
  have "chained db1" "current_ok db1"
    using c o same_history_chained same_history_current commit_same_history [OF written(5)] by simp_all
  from write_commit_current [OF written(7) this] show ?thesis by blast
qed (use o same_history_current [OF commit_same_history] in auto)

text \<open>
  The reading of the last commit and the writing are not one step: a transaction that has read that
  its snapshot is the last one moves the current snapshot back after another has written a new one.
\<close>

lemma write_commit_stale:
  assumes c: "current_ok db" and h: "history k db \<noteq> []" "msc_machine_snapshot (last (history k db)) \<noteq> snapshot"
  shows "\<not> current_ok (snd (write_commit k None snapshot seen uptime db))"
proof
  assume "current_ok (snd (write_commit k None snapshot seen uptime db))"
  then have "current_ok (update_current k snapshot db)" by (simp add: write_commit_def)
  from current_okD [OF this, of k] current_okD [OF c, of k] h show False
    by (simp add: currents_update)
qed

subsection \<open>The same tree again\<close>

lemma update_current_same: "currents k db = [s] \<Longrightarrow> update_current k s db = db"
proof -
  assume c: "currents k db = [s]"
  have "upsert current_key new_current set_current k s rows = rows"
    if "map cms_machine_snapshot (filter (\<lambda>r. current_key r = k) rows) = [s]" for rows
    using that by (induction rows) (auto simp: set_current_def split: if_splits)
  with c show ?thesis by (simp add: update_current_def currents_def)
qed

lemma uptime_same:
  assumes "uptime_column uptime = Inr u" "\<And>s. uptime \<noteq> TStr s"
  shows "same_uptime u uptime"
  using assms by (cases uptime) (auto simp: uptime_column_def same_uptime_def bind_result_Inr split: if_splits option.splits)

lemma write_commit_again:
  assumes w: "write_commit k (new_version (last_commit k db) snapshot seen uptime) snapshot seen uptime db = (Inr c, db')"
    and c: "chained db" and u: "\<And>s. uptime \<noteq> TStr s"
  shows "new_version (last_commit k db') snapshot seen uptime = None"
proof (cases "new_version (last_commit k db) snapshot seen uptime")
  case None
  with w have "db' = update_current k snapshot db" by (simp add: write_commit_def)
  then have "last_commit k db' = last_commit k db" by (simp add: last_commit_def)
  with None show ?thesis by simp
next
  case (Some v)
  from write_commit_history [OF w] Some obtain d db1 where
    cr: "create_commit k v snapshot seen uptime db = Inr (d, db1)" and d: "db' = update_current k snapshot db1"
  proof (elim disjE exE conjE)
    assume eq: "\<forall>j. history j db' = history j db"
    show thesis
    proof (cases "create_commit k v snapshot seen uptime db")
      case (Inl e)
      with w Some new_version_free [OF c Some] have False
        by (auto simp: write_commit_def split: if_splits sum.splits)
      then show thesis ..
    next
      case (Inr x)
      with w Some that show thesis by (cases x) (simp add: write_commit_def)
    qed
  qed auto
  note h = history_create [OF cr]
  have "chained db'" using write_commit_chained [OF w c c] by (simp add: only_adds_def)
  then have "last_commit k db' = Some d"
    using chained_last [OF chained_history [of db' k]] h(1) by (simp add: d)
  then show ?thesis using h(5-7) uptime_same [OF h(7) u] by (simp add: new_version_def)
qed

lemma row_by_pk_tables: "tables db2 = tables db1 \<Longrightarrow> row_by_pk m pk db2 = row_by_pk m pk db1"
  by (simp add: row_by_pk_def)

lemma update_current_tables [simp]: "tables (update_current k s db) = tables db"
  by (simp add: update_current_def)

lemma write_commit_tables:
  assumes "write_commit k new snapshot seen uptime db = (res, db')"
  shows "tables db' = tables db"
proof (cases new)
  case None
  with assms have "db' = update_current k snapshot db" by (simp add: write_commit_def)
  then show ?thesis by simp
next
  case (Some v)
  show ?thesis
  proof (cases "create_commit k v snapshot seen uptime db")
    case (Inl e)
    with Some assms have "db' = db" by (auto simp: write_commit_def split: if_splits sum.splits)
    then show ?thesis by simp
  next
    case (Inr x)
    obtain d db1 where x: "x = (d, db1)" by fastforce
    with Some assms Inr have "db' = update_current k snapshot db1" by (simp add: write_commit_def)
    with history_create(9) [OF Inr [unfolded x]] show ?thesis by simp
  qed
qed

lemma tree_committed_again:
  assumes run: "commit_machine_snapshot_tree (inventory_site lib refuses cleans) now (\<lambda>d. d) (TDict h items) db =
      (Inr (c, snapshot), db')"
    and db: "unique_keys db" "chained db" "current_ok db"
    and seen: "dict_get items ''last_seen'' = Some (TTime d)"
    and uptime: "\<And>s. dict_get items ''system_uptime'' \<noteq> Some (TStr s)"
  shows "commit_machine_snapshot_tree (inventory_site lib refuses cleans) now' (\<lambda>d. d) (TDict h items) db' =
      (Inr (None, snapshot), db')"
  using run
proof (cases rule: commit_machine_snapshot_tree_cases)
  case (written h' items' uptime items2 items3 seen' snapshot' created db1 k wres)
  let ?site = "inventory_site lib refuses cleans"
  have e: "h' = h" "items' = items" using written(1) by simp_all
  obtain c' where wres: "wres = Inr c'" "snapshot' = snapshot" using written(8) by (cases wres) auto
  note w = written(7) [unfolded wres]
  note c1 = commit_same_history [OF written(5)]
  have ok: "chained db1" "current_ok db1"
    using db(2,3) same_history_chained [OF c1] same_history_current [OF c1] by simp_all
  have up: "uptime \<noteq> TStr s" for s
    using written(3) uptime [of s] e(2) by (auto simp: pop_item_def delete_conv' split: option.splits)
  have tabs: "tables db' = tables db1" by (rule write_commit_tables [OF w])
  have again: "commit ?site None ''MachineSnapshot'' (TDict h items3) db' = (Inr (snapshot, False), db')"
    using inventory.commit_found [OF written(5) db(1) tabs] e wres by simp
  have key: "bind_result (row_by_pk ''MachineSnapshot'' snapshot db') snapshot_key = Inr k"
    using written(6) wres row_by_pk_tables [OF tabs] by simp
  have none: "new_version (last_commit k db') snapshot seen' uptime = None"
    by (rule write_commit_again [OF w ok(1) up])
  have "currents k db' = [snapshot]" using write_commit_current [OF w ok] by simp
  then have same: "update_current k snapshot db' = db'" by (rule update_current_same)
  have p1: "pop_item ''last_seen'' items = (TTime d, dict_del ''last_seen'' items)"
    using seen by (simp add: pop_item_def)
  have seen'': "naive_last_seen (site_lib ?site) now' (TTime d) = Inr seen'"
    using written(2) unfolding e p1 by (simp add: naive_last_seen_def)
  show ?thesis
    using written(3,4) unfolding e p1
    by (simp add: commit_machine_snapshot_tree_def p1 seen'' again key none write_commit_def same)
qed auto

subsection \<open>The events of a commit\<close>

text \<open>The classes of the events of the inventory.\<close>

definition machine_event_attrs :: "string list" where
  "machine_event_attrs =
     [''link'', ''business_unit'', ''group'', ''os_version'', ''system_info'', ''disk'', ''network_interface'',
      ''osx_app_instance'', ''deb_package'', ''program_instance'', ''teamviewer'', ''puppet_node'',
      ''principal_user'', ''certificate'']"

definition inventory_event_class :: "string \<Rightarrow> string list \<Rightarrow> event_class" where
  "inventory_event_class t tags = \<lparr>event_type = t, namespace = Some ''inventory'', class_tags = tags\<rparr>"

definition InventoryHeartbeat :: event_class where
  "InventoryHeartbeat = inventory_event_class ''inventory_heartbeat'' [''heartbeat'', ''machine'']"

definition AddMachine :: event_class where
  "AddMachine = inventory_event_class ''add_machine'' [''machine'']"

definition inventory_event_classes :: "event_class list" where
  "inventory_event_classes =
     [InventoryHeartbeat, AddMachine] @
     concat (map (\<lambda>attr. map (\<lambda>action.
       inventory_event_class (action @ ''_machine_'' @ attr) [''machine'', ''machine_update'']) [''add'', ''remove''])
       machine_event_attrs)"

definition base_event_class :: event_class where
  "base_event_class = \<lparr>event_type = ''base'', namespace = None, class_tags = []\<rparr>"

definition event_cls_from_type :: "event_class list \<Rightarrow> string \<Rightarrow> event_class" where
  "event_cls_from_type classes t =
     (case find (\<lambda>c. event_type c = t) classes of Some c \<Rightarrow> c | None \<Rightarrow> base_event_class)"

text \<open>A time as the number of microseconds.\<close>

definition time_number :: "datetime \<Rightarrow> int" where
  "time_number d =
     (((day_number (int (dt_year d)) (int (dt_month d)) (int (dt_day d)) * 24 + int (dt_hour d)) * 60 +
        int (dt_minute d)) * 60 + int (dt_second d)) * 1000000 + int (dt_microsecond d)"

fun payload_dict :: "tree \<Rightarrow> dict" where
  "payload_dict (TDict h items) = plain_items items"
| "payload_dict _ = []"

definition post_inventory_events :: "event_class list \<Rightarrow> string \<Rightarrow> datetime \<Rightarrow> string \<Rightarrow> inventory_event list \<Rightarrow> event list" where
  "post_inventory_events classes new_uuid now msn events =
     map (\<lambda>(index, t, created_at, data).
       \<lparr>ev_class = event_cls_from_type classes t,
        ev_metadata = (metadata_new new_uuid (time_number (case created_at of None \<Rightarrow> now | Some d \<Rightarrow> d)))
          \<lparr>md_machine_serial_number := Some msn, md_index := int index\<rparr>,
        ev_payload = payload_dict data, ev_linked_objects = []\<rparr>)
     (enumerate 0 events)"

text \<open>
  \<open>commit_machine_snapshot_and_trigger_events\<close>: the key of the snapshot, the events posted, and
  whether a dead letter has been written. An error of the commit is not raised; one in the making of
  the events is.
\<close>

definition commit_machine_snapshot_and_trigger_events :: "unit inventory_db_ext mt_site \<Rightarrow> nat \<Rightarrow> event_class list \<Rightarrow>
    string \<Rightarrow> datetime \<Rightarrow> (inventory_db \<Rightarrow> inventory_db) \<Rightarrow> tree \<Rightarrow> inventory_db \<Rightarrow>
    (pyerror + nat option \<times> event list \<times> bool) \<times> inventory_db" where
  "commit_machine_snapshot_and_trigger_events site n classes new_uuid now others tree db =
     (case commit_machine_snapshot_tree site now others tree db of
        (Inl e, db') \<Rightarrow> (Inr (None, [], True), db')
      | (Inr (None, snapshot), db') \<Rightarrow> (Inr (Some snapshot, [], False), db')
      | (Inr (Some c, snapshot), db') \<Rightarrow>
          (bind_result (inventory_events_from_machine_snapshot_commit site n c db') (\<lambda>events.
             Inr (Some snapshot, post_inventory_events classes new_uuid now (msc_serial_number c) events, False)), db'))"

lemma registered_machine_event:
  assumes "action \<in> {''add'', ''remove''}" "attr \<in> set machine_event_attrs"
  shows "action @ ''_machine_'' @ attr \<in> event_type ` set inventory_event_classes"
proof -
  let ?c = "inventory_event_class (action @ ''_machine_'' @ attr) [''machine'', ''machine_update'']"
  have "?c \<in> set inventory_event_classes" using assms unfolding inventory_event_classes_def by auto
  moreover have "event_type ?c = action @ ''_machine_'' @ attr" by (simp add: inventory_event_class_def)
  ultimately show ?thesis by (metis imageI)
qed

lemma registered_other_events:
  "''inventory_heartbeat'' \<in> event_type ` set inventory_event_classes"
  "''add_machine'' \<in> event_type ` set inventory_event_classes"
  by (simp_all add: inventory_event_classes_def InventoryHeartbeat_def AddMachine_def inventory_event_class_def)

lemma m2m_attrs: "attr \<in> set m2m_diff_attrs \<Longrightarrow> butlast attr \<in> set machine_event_attrs"
  by (auto simp: m2m_diff_attrs_def machine_event_attrs_def)

lemma fk_attrs: "attr \<in> set fk_diff_attrs \<Longrightarrow> attr \<in> set machine_event_attrs"
  by (auto simp: fk_diff_attrs_def machine_event_attrs_def)

lemma machine_event_types:
  "e \<in> set (m2m_events source diff attr) \<Longrightarrow> \<exists>action \<in> {''add'', ''remove''}. fst e = action @ ''_machine_'' @ butlast attr"
  "e \<in> set (fk_events source diff attr) \<Longrightarrow> \<exists>action \<in> {''add'', ''remove''}. fst e = action @ ''_machine_'' @ attr"
  by (auto simp: m2m_events_def fk_events_def diff_actions_def machine_event_def split: option.splits tree.splits if_splits)

lemma inventory_event_types:
  assumes "inventory_events_from_machine_snapshot_commit site n c db = Inr events" "e \<in> set events"
  shows "fst e \<in> event_type ` set inventory_event_classes"
proof -
  obtain source diff where s: "serialize site n ''Source'' [] (msc_source c) db = Inr source"
    and d: "update_diff site n c db = Inr diff"
    using assms(1) by (auto simp: inventory_events_from_machine_snapshot_commit_def bind_result_Inr)
  show ?thesis
  proof (cases diff)
    case None
    with assms s d have "fst e \<in> {''inventory_heartbeat'', ''add_machine''}"
      by (auto simp: inventory_events_from_machine_snapshot_commit_def bind_result_Inr heartbeat_def)
    then show ?thesis using registered_other_events by auto
  next
    case (Some ds)
    with assms s d consider attr where "attr \<in> set m2m_diff_attrs" "e \<in> set (m2m_events source ds attr)"
      | attr where "attr \<in> set fk_diff_attrs" "e \<in> set (fk_events source ds attr)"
      | "e \<in> set (heartbeat_events source ds)"
      by (auto simp: inventory_events_from_machine_snapshot_commit_def)
    then show ?thesis
    proof cases
      case 1
      from machine_event_types(1) [OF 1(2)] registered_machine_event [OF _ m2m_attrs [OF 1(1)]] show ?thesis by metis
    next
      case 2
      from machine_event_types(2) [OF 2(2)] registered_machine_event [OF _ fk_attrs [OF 2(1)]] show ?thesis by metis
    next
      case 3
      then have "fst e = ''inventory_heartbeat''"
        by (auto simp: heartbeat_events_def heartbeat_def split: option.splits tree.splits)
      then show ?thesis using registered_other_events by simp
    qed
  qed
qed

lemma inventory_class_shape:
  "c \<in> set inventory_event_classes \<Longrightarrow> namespace c = Some ''inventory'' \<and> ''machine'' \<in> set (class_tags c)"
  by (auto simp: inventory_event_classes_def InventoryHeartbeat_def AddMachine_def inventory_event_class_def)

lemma event_class_found:
  assumes "distinct (map event_type classes)" "set inventory_event_classes \<subseteq> set classes"
    and "t \<in> event_type ` set inventory_event_classes"
  shows "event_cls_from_type classes t \<in> set inventory_event_classes \<and> event_type (event_cls_from_type classes t) = t"
proof -
  obtain c where c: "c \<in> set inventory_event_classes" "event_type c = t" using assms(3) by blast
  then obtain d where d: "find (\<lambda>c. event_type c = t) classes = Some d"
    using assms(2) by (metis (mono_tags, lifting) find_None_iff not_Some_eq subsetD)
  then have "d \<in> set classes" "event_type d = t" by (auto simp: find_Some_iff)
  with c assms(1,2) have "d = c" by (metis distinct_map inj_onD subsetD)
  with c d show ?thesis by (simp add: event_cls_from_type_def)
qed

text \<open>Every posted event has its own class, with the serial number of the machine and the next index.\<close>

lemma posted_events:
  assumes "inventory_events_from_machine_snapshot_commit site n c db = Inr events"
    and "distinct (map event_type classes)" "set inventory_event_classes \<subseteq> set classes"
  shows "map (\<lambda>e. event_type (ev_class e)) (post_inventory_events classes u now msn events) = map fst events"
    and "map (\<lambda>e. md_index (ev_metadata e)) (post_inventory_events classes u now msn events) = [0..int (length events) - 1]"
    and "\<And>e. e \<in> set (post_inventory_events classes u now msn events) \<Longrightarrow>
      metadata_namespace (ev_class e) = ''inventory'' \<and> ''machine'' \<in> set (all_tags (ev_class e) (ev_metadata e)) \<and>
      md_machine_serial_number (ev_metadata e) = Some msn"
proof -
  have f: "event_cls_from_type classes (fst e) \<in> set inventory_event_classes \<and>
      event_type (event_cls_from_type classes (fst e)) = fst e" if "e \<in> set events" for e
    using event_class_found [OF assms(2,3) inventory_event_types [OF assms(1) that]] .
  have "map (\<lambda>x. event_type (event_cls_from_type classes (fst (snd x)))) (enumerate k xs) = map fst xs"
    if "set xs \<subseteq> set events" for k xs
    using that f by (induction xs arbitrary: k) auto
  from this [of events 0] show "map (\<lambda>e. event_type (ev_class e)) (post_inventory_events classes u now msn events) = map fst events"
    by (simp add: post_inventory_events_def comp_def case_prod_beta)
  have "map (\<lambda>x. int (fst x)) (enumerate k xs) = [int k..int k + int (length xs) - 1]" for k and xs :: "inventory_event list"
  proof (induction xs arbitrary: k)
    case (Cons x xs)
    from Cons [of "Suc k"] show ?case by (simp add: upto_rec1 algebra_simps)
  qed simp
  from this [of 0 events] show "map (\<lambda>e. md_index (ev_metadata e)) (post_inventory_events classes u now msn events) =
      [0..int (length events) - 1]"
    by (simp add: post_inventory_events_def comp_def case_prod_beta)
  fix e assume "e \<in> set (post_inventory_events classes u now msn events)"
  then obtain i x where x: "(i, x) \<in> set (enumerate 0 events)"
    and e: "ev_class e = event_cls_from_type classes (fst x)" "md_machine_serial_number (ev_metadata e) = Some msn"
    by (auto simp: post_inventory_events_def)
  have "x \<in> set events" using x by (auto simp: in_set_enumerate_eq)
  from f [OF this] inventory_class_shape e
  show "metadata_namespace (ev_class e) = ''inventory'' \<and> ''machine'' \<in> set (all_tags (ev_class e) (ev_metadata e)) \<and>
      md_machine_serial_number (ev_metadata e) = Some msn"
    by (auto simp: metadata_namespace_def all_tags_def)
qed

text \<open>Every object added to or removed from the snapshot has its event.\<close>

definition keys_of :: "mt_row \<Rightarrow> string \<Rightarrow> nat list" where
  "keys_of r attr = (case dict_get (row_values r) attr of Some (SKeys pks) \<Rightarrow> pks | _ \<Rightarrow> [])"

lemma fields_diff_get:
  assumes "fields_diff site n r mto fs db = Inr ds" "distinct (map fd_name fs)" "f \<in> set fs"
  shows "\<exists>d. field_diff site n f (field_value r f) (field_value mto f) db = Inr d \<and>
    dict_get ds (fd_name f) = (if d = [] then None else Some d)"
  using assms
proof (induction fs arbitrary: ds)
  case (Cons g fs)
  from Cons.prems(1) obtain dg ds1 where g: "field_diff site n g (field_value r g) (field_value mto g) db = Inr dg"
    "fields_diff site n r mto fs db = Inr ds1" "ds = (if dg = [] then ds1 else (fd_name g, dg) # ds1)"
    by (auto simp: bind_result_Inr)
  have keys: "x \<in> set es \<Longrightarrow> fst x \<in> set (map fd_name hs)" if "fields_diff site n r mto hs db = Inr es" for hs es x
    using that by (induction hs arbitrary: es) (fastforce simp: bind_result_Inr split: if_splits)+
  show ?case
  proof (cases "f = g")
    case True
    have "dict_get ds1 (fd_name g) = None"
      using keys [OF g(2)] Cons.prems(2) unfolding map_of_eq_None_iff by fastforce
    with g True show ?thesis by simp
  next
    case False
    then have f: "f \<in> set fs" using Cons.prems(3) by simp
    then have "fd_name f \<noteq> fd_name g" using Cons.prems(2) by (metis distinct.simps(2) image_eqI list.set_map list.simps(9))
    with Cons.IH [OF g(2) _ f] Cons.prems(2) g(3) show ?thesis by auto
  qed
qed simp

abbreviation snapshot_model :: "unit inventory_db_ext mt_model" where
  "snapshot_model \<equiv> plain_model MachineSnapshot_fields"

lemma m2m_fields:
  "list_all (\<lambda>attr. attr \<noteq> ''last_seen'' \<and>
     (\<exists>f \<in> set (mt_fields snapshot_model). fd_name f = attr \<and> many_to_one_attr (fd_kind f) = Some False))
     m2m_diff_attrs"
  by (simp add: m2m_diff_attrs_def mt_fields_def mt_excluded_field_set_def plain_model_def MachineSnapshot_fields_def
      many_to_one_attr_def)

lemma machine_snapshot_model:
  "site_model (inventory_site lib refuses cleans) ''MachineSnapshot'' = Some snapshot_model"
  by (simp add: inventory_site_def inventory_models_def)

lemma machine_snapshot_names: "distinct (map fd_name (mt_fields snapshot_model))"
proof -
  have "(''MachineSnapshot'', snapshot_model) \<in> set (inventory_models zentral_lib)"
    by (simp add: inventory_models_def)
  from inventory_model_fields [OF this] show ?thesis by simp
qed

lemma related_diff_listed:
  assumes "related_diff site n m pks qks db = Inr d"
  shows "map_result (\<lambda>pk. serialize site n m [] pk db) (filter (\<lambda>pk. pk \<notin> set qks) pks) = Inr (listed (dict_get d ''added''))"
    and "map_result (\<lambda>pk. serialize site n m [] pk db) (filter (\<lambda>pk. pk \<notin> set pks) qks) = Inr (listed (dict_get d ''removed''))"
  using assms by (auto simp: related_diff_def bind_result_Inr)

lemma typed_row_keys:
  assumes "row_typed mm db r" "f \<in> set (mt_fields mm)" "fd_kind f = ManyToManyField m"
  shows "field_value r f = SKeys (keys_of r (fd_name f))"
proof -
  have "fd_name f \<in> fst ` set (row_values r)"
    using assms(1,2) unfolding row_typed_def by (metis imageI list.set_map)
  then obtain v where v: "dict_get (row_values r) (fd_name f) = Some v"
    using map_of_eq_None_iff [of "row_values r" "fd_name f"] by (cases "dict_get (row_values r) (fd_name f)") auto
  then have "field_value r f = v" by (simp add: field_value_def)
  moreover have "typed_value db (ManyToManyField m) (field_value r f)"
    using assms unfolding row_typed_def by metis
  ultimately show ?thesis using v by (cases v) (auto simp: keys_of_def)
qed

lemma m2m_diff:
  assumes u: "update_diff (inventory_site lib refuses cleans) n c db = Inr (Some ds)"
    and parent: "msc_parent c = Some p" "get_one (\<lambda>q. msc_pk q = p) (machine_snapshot_commits db) = Inr parent"
    and rows: "row_by_pk ''MachineSnapshot'' (msc_machine_snapshot c) db = Inr r"
      "row_by_pk ''MachineSnapshot'' (msc_machine_snapshot parent) db = Inr mto"
      "row_pk r \<noteq> row_pk mto" "row_hash r \<noteq> row_hash mto"
    and typed: "well_typed (inventory_site lib refuses cleans) db"
    and attr: "attr \<in> set m2m_diff_attrs"
  shows "\<exists>m. map_result (\<lambda>pk. serialize (inventory_site lib refuses cleans) n m [] pk db)
        (filter (\<lambda>pk. pk \<notin> set (keys_of mto attr)) (keys_of r attr)) =
        Inr (listed (dict_get (diff_items ds attr) ''added'')) \<and>
      map_result (\<lambda>pk. serialize (inventory_site lib refuses cleans) n m [] pk db)
        (filter (\<lambda>pk. pk \<notin> set (keys_of r attr)) (keys_of mto attr)) =
        Inr (listed (dict_get (diff_items ds attr) ''removed''))"
proof -
  let ?site = "inventory_site lib refuses cleans"
  from m2m_fields attr obtain f m where f: "f \<in> set (mt_fields snapshot_model)" "fd_name f = attr"
    and m: "fd_kind f = ManyToManyField m" and ls: "attr \<noteq> ''last_seen''"
    unfolding list_all_iff many_to_one_attr_iff by blast
  have typed_row: "row_typed snapshot_model db q" if "row_by_pk ''MachineSnapshot'' pk db = Inr q" for pk q
    using that typed machine_snapshot_model [of lib refuses cleans] unfolding well_typed_def row_by_pk_def
    by (blast dest: get_one_Inr)
  obtain diff where d: "fields_diff ?site n r mto (mt_fields snapshot_model) db = Inr diff"
    and ds: "ds = (case last_seen_diff (msc_last_seen parent) (msc_last_seen c) of
               [] \<Rightarrow> diff | d \<Rightarrow> dict_set ''last_seen'' d diff)"
    using u parent rows by (auto simp: update_diff_def machine_snapshot_model bind_result_Inr object_diff_def)
  have get: "dict_get ds attr = dict_get diff attr"
    unfolding ds using ls by (auto simp: dict_get_set split: list.splits)
  from fields_diff_get [OF d machine_snapshot_names f(1)] obtain e where
    e: "field_diff ?site n f (field_value r f) (field_value mto f) db = Inr e"
      "dict_get diff attr = (if e = [] then None else Some e)" unfolding f(2) by blast
  have "related_diff ?site n m (keys_of r attr) (keys_of mto attr) db = Inr e"
    using e(1) typed_row_keys [OF typed_row [OF rows(1)] f(1) m] typed_row_keys [OF typed_row [OF rows(2)] f(1) m] m f(2)
    by (simp add: field_diff_def)
  moreover have "diff_items ds attr = e" using get e(2) by (simp add: diff_items_def)
  ultimately show ?thesis using related_diff_listed by blast
qed

lemma m2m_attrs_distinct: "distinct (map butlast m2m_diff_attrs)" "set (map butlast m2m_diff_attrs) \<inter> set fk_diff_attrs = {}"
  by (simp_all add: m2m_diff_attrs_def fk_diff_attrs_def)

lemma m2m_attrs_inj:
  "attr \<in> set m2m_diff_attrs \<Longrightarrow> attr' \<in> set m2m_diff_attrs \<Longrightarrow> butlast attr = butlast attr' \<Longrightarrow> attr = attr'"
  using m2m_attrs_distinct(1) by (metis distinct_map inj_onD)

lemma m2m_fk_attrs: "attr \<in> set m2m_diff_attrs \<Longrightarrow> attr' \<in> set fk_diff_attrs \<Longrightarrow> butlast attr \<noteq> attr'"
  using m2m_attrs_distinct(2) by (metis disjoint_iff image_eqI list.set_map)

lemma machine_event_type_inj:
  assumes "a \<in> {''add'', ''remove''}" "b \<in> {''add'', ''remove''}" "a @ ''_machine_'' @ x = b @ ''_machine_'' @ y"
  shows "a = b \<and> x = y"
  using assms by auto

lemma m2m_events_of_type:
  assumes "(da, a) \<in> set diff_actions"
  shows "{e \<in> set (m2m_events source ds attr). fst e = a @ ''_machine_'' @ butlast attr} =
    machine_event a (butlast attr) source ` set (listed (dict_get (diff_items ds attr) da))"
  using assms by (auto simp: m2m_events_def diff_actions_def machine_event_def)

lemma update_events_of_type:
  assumes "attr \<in> set m2m_diff_attrs" "(da, a) \<in> set diff_actions"
  shows "{e \<in> set (concat (map (m2m_events source ds) m2m_diff_attrs) @ concat (map (fk_events source ds) fk_diff_attrs) @
        heartbeat_events source ds). fst e = a @ ''_machine_'' @ butlast attr} =
    machine_event a (butlast attr) source ` set (listed (dict_get (diff_items ds attr) da))"
proof -
  have a: "a \<in> {''add'', ''remove''}" using assms(2) by (auto simp: diff_actions_def)
  have m: "attr' = attr" if e: "e \<in> set (m2m_events source ds attr')" "attr' \<in> set m2m_diff_attrs"
    and t: "fst e = a @ ''_machine_'' @ butlast attr" for e attr'
  proof -
    obtain b where b: "b \<in> {''add'', ''remove''}" "fst e = b @ ''_machine_'' @ butlast attr'"
      using machine_event_types(1) [OF e(1)] by blast
    have "butlast attr' = butlast attr" using machine_event_type_inj [OF b(1) a] b(2) t by metis
    with m2m_attrs_inj [OF e(2) assms(1)] show ?thesis by simp
  qed
  have f: False if e: "e \<in> set (fk_events source ds attr')" "attr' \<in> set fk_diff_attrs"
    and t: "fst e = a @ ''_machine_'' @ butlast attr" for e attr'
  proof -
    obtain b where b: "b \<in> {''add'', ''remove''}" "fst e = b @ ''_machine_'' @ attr'"
      using machine_event_types(2) [OF e(1)] by blast
    have "attr' = butlast attr" using machine_event_type_inj [OF b(1) a] b(2) t by metis
    with m2m_fk_attrs [OF assms(1) e(2)] show False by simp
  qed
  have h: False if "e \<in> set (heartbeat_events source ds)" "fst e = a @ ''_machine_'' @ butlast attr" for e
    using that a by (auto simp: heartbeat_events_def heartbeat_def split: option.splits tree.splits)
  have "{e \<in> set (concat (map (m2m_events source ds) m2m_diff_attrs) @ concat (map (fk_events source ds) fk_diff_attrs) @
        heartbeat_events source ds). fst e = a @ ''_machine_'' @ butlast attr} =
    {e \<in> set (m2m_events source ds attr). fst e = a @ ''_machine_'' @ butlast attr}" (is "?A = ?B")
  proof (intro equalityI subsetI)
    fix e assume e: "e \<in> ?A"
    then have t: "fst e = a @ ''_machine_'' @ butlast attr" by simp
    from e consider attr' where "attr' \<in> set m2m_diff_attrs" "e \<in> set (m2m_events source ds attr')"
      | attr' where "attr' \<in> set fk_diff_attrs" "e \<in> set (fk_events source ds attr')"
      | "e \<in> set (heartbeat_events source ds)" by auto
    then show "e \<in> ?B" using m f h t by cases blast+
  qed (use assms(1) in auto)
  then show ?thesis unfolding m2m_events_of_type [OF assms(2)] .
qed

end
