(* ===== verification/InventoryCommits.thy ===== *)
theory InventoryCommits imports Snapshots begin

text \<open>
  What the commits of the inventory guarantee: the properties of \<open>commit\<close>
  (\<open>zentral/utils/mt_models.py\<close>) on the models of \<open>zentral/contrib/inventory/models.py\<close>, and those of
  the history of the snapshots, with their instances on sample trees.
\<close>

subsection \<open>Samples\<close>

text \<open>
  The laws of the library hold of \<open>zentral_lib\<close> (\<open>zentral_lib_laws\<close>). The samples are evaluated with
  digests that are the first forty characters of the message.
\<close>

definition sample_lib :: mt_lib where
  "sample_lib = \<lparr>sha1 = (\<lambda>s. take 40 (s @ replicate 40 (CHR ''0''))), make_naive = make_naive_utc\<rparr>"

lemma sample_lib_laws: "makes_naive sample_lib" "length (sha1 sample_lib x) = 40"
  using zentral_lib_laws(1) by (simp_all add: sample_lib_def zentral_lib_def makes_naive_def naive_def)

abbreviation sample_site :: "unit inventory_db_ext mt_site" where
  "sample_site \<equiv> inventory_site sample_lib (\<lambda>_ _. None) (\<lambda>_ _. True)"

definition empty_db :: inventory_db where
  "empty_db = \<lparr>tables = (\<lambda>_. []), meta_business_units = [], machine_snapshot_commits = [],
     current_machine_snapshots = []\<rparr>"

definition sample_link :: "string \<Rightarrow> tree" where
  "sample_link u = TDict None [(''anchor_text'', TStr ''t''), (''url'', TStr u)]"

definition sample_source :: tree where
  "sample_source = TDict None [(''module'', TStr ''m''), (''name'', TStr ''n'')]"

definition sample_seen :: "nat \<Rightarrow> datetime" where
  "sample_seen s = \<lparr>dt_year = 2021, dt_month = 5, dt_day = 6, dt_hour = 7, dt_minute = 8, dt_second = s,
     dt_microsecond = 0, dt_utcoffset = None\<rparr>"

definition sample_snapshot :: "string \<Rightarrow> items" where
  "sample_snapshot u =
     [(''serial_number'', TStr ''S''), (''source'', sample_source), (''links'', TList [sample_link u])]"

definition sample_tree :: "string \<Rightarrow> nat \<Rightarrow> items" where
  "sample_tree u s = sample_snapshot u @ [(''last_seen'', TTime (sample_seen s))]"

lemma empty_db_ok: "unique_keys empty_db" "consistent site empty_db" "well_typed site empty_db" "chained empty_db"
  "current_ok empty_db" "faithful site P empty_db"
  by (simp_all add: empty_db_def unique_keys_def consistent_def well_typed_def chained_def chain_def history_def
      current_ok_def currents_def faithful_def)

definition sample_run :: "(pyerror + machine_snapshot_commit option \<times> nat) \<times> inventory_db" where
  "sample_run = commit_machine_snapshot_tree sample_site (sample_seen 0) (\<lambda>d. d) (TDict None (sample_tree ''a'' 1)) empty_db"

lemma sample_run_result: "map_sum id snd (fst sample_run) = Inr 1"
  by code_simp

definition sample_prepared :: tree where
  "sample_prepared = (case prepare_commit_tree sample_lib (TDict None (sample_snapshot ''a'')) of Inr t \<Rightarrow> t | Inl _ \<Rightarrow> TNone)"

lemma sample_prepared: "prepare_commit_tree sample_lib (TDict None (sample_snapshot ''a'')) = Inr sample_prepared"
  by code_simp

lemma sample_fits: "fits sample_site ''MachineSnapshot'' (TDict None (sample_snapshot ''a''))"
  by code_simp

lemma sample_commit:
  "fst (commit sample_site None ''MachineSnapshot'' (TDict None (sample_snapshot ''a'')) empty_db) = Inr (1, True)"
  by code_simp

abbreviation sample_committed :: inventory_db where
  "sample_committed \<equiv> snd (commit sample_site None ''MachineSnapshot'' (TDict None (sample_snapshot ''a'')) empty_db)"

lemma sample_commit_pair:
  "commit sample_site None ''MachineSnapshot'' (TDict None (sample_snapshot ''a'')) empty_db =
     (Inr (1, True), sample_committed)"
  by (rule prod_eqI) (simp_all add: sample_commit)

subsection \<open>The objects of a commit\<close>

lemma site_lib_inventory [simp]: "site_lib (inventory_site lib refuses cleans) = lib"
  by (simp add: inventory_site_def)







text \<open>
  C13: Whatever a commit does, it leaves the tables well typed. Every row has the fields of its model,
  each with a value of its kind; a field that cannot be empty is not, and a key is the key of a row.
  This holds when the commit raises an error too.
\<close>

theorem inventory_well_typed:
  assumes "makes_naive lib" "\<And>x. length (sha1 lib x) = 40"
    and "well_typed (inventory_site lib refuses cleans) db"
    and "commit (inventory_site lib refuses cleans) kw m t db = (res, db')"
  shows "well_typed (inventory_site lib refuses cleans) db'"
  by (rule mt_laws.commit_well_typed [OF inventory_laws [OF assms(1,2)] assms(3,4)])

theorem inventory_well_typed_witness: "well_typed sample_site sample_committed"
  by (rule inventory_well_typed [OF sample_lib_laws empty_db_ok(3) sample_commit_pair])


text \<open>
  C23: The stored hashes are right. Where every stored hash is the hash of its object, it still is
  after a commit that returns, for the object and all its related ones.
\<close>

theorem inventory_hashes_right:
  assumes "unique_keys db" "consistent (inventory_site lib refuses cleans) db"
    and "commit (inventory_site lib refuses cleans) kw m t db = (Inr x, db')"
  shows "unique_keys db' \<and> consistent (inventory_site lib refuses cleans) db'"
  using inventory.commits_consistent [OF commit_commits(1) [OF assms(3)] assms(1,2)]
    inventory.commits_extends [OF commit_commits(1) [OF assms(3)]] assms(1) by blast

theorem inventory_hashes_right_witness: "unique_keys sample_committed \<and> consistent sample_site sample_committed"
  by (rule inventory_hashes_right [OF empty_db_ok(1,2) sample_commit_pair])


text \<open>
  C25: The order of a tree does not matter. Two trees that differ in the order of their items, of the
  elements of their lists and by empty values, at any depth, are committed to the same object: after
  one of them, the commit of the other changes nothing.
\<close>

theorem reordered_tree_same_object:
  assumes "same_tree t u" "unique_keys db"
    and "commit (inventory_site lib refuses cleans) kw m t db = (Inr (pk, created), db')"
  shows "commit (inventory_site lib refuses cleans) kw m u db' = (Inr (pk, False), db')"
proof -
  let ?site = "inventory_site lib refuses cleans"
  have cs: "commits ?site kw m t db (Inr (pk, created)) db'" using commit_commits(1) [OF assms(3)] .
  from inventory.commits_row [OF cs] obtain mm h items r where r: "site_model ?site m = Some mm"
    "prepare_commit_tree lib t = Inr (TDict (Some h) items)"
    "r \<in> set (tables db' m)" "row_pk r = pk" "row_hash r = h"
    unfolding site_lib_inventory by blast
  from same_tree_hash [OF assms(1) r(2)] obtain u' where u': "prepare_commit_tree lib u = Inr u'" "tree_hash u' = h"
    by auto
  with prepared_is_dict [OF u'(1)] obtain items' where u'': "prepare_commit_tree lib u = Inr (TDict (Some h) items')"
    by auto
  have "unique_keys db'" using inventory.commits_extends [OF cs] assms(2) by blast
  with r(3,5) have "row_by_hash m h db' = Inr r"
    using get_one_pk [of row_hash "tables db' m" r] by (simp add: row_by_hash_def unique_keys_def)
  with r u'' show ?thesis by (simp add: commit.simps)
qed

theorem reordered_tree_same_object_witness:
  "commit sample_site None ''MachineSnapshot''
     (TDict None [(''source'', sample_source), (''type'', TNone), (''links'', TList [sample_link ''a'']),
        (''serial_number'', TStr ''S'')]) sample_committed = (Inr (1, False), sample_committed)"
proof (rule reordered_tree_same_object [OF _ empty_db_ok(1) sample_commit_pair])
  let ?us = "[(''source'', sample_source), (''type'', TNone), (''links'', TList [sample_link ''a'']), (''serial_number'', TStr ''S'')]"
  show "same_tree (TDict None (sample_snapshot ''a'')) (TDict None ?us)"
  proof (rule same_dict [where us = "sample_snapshot ''a''"])
    show "mset (present_items ?us) = mset (sample_snapshot ''a'')"
      by (simp add: sample_snapshot_def sample_source_def)
    show "list_all2 (\<lambda>kv kw. fst kv = fst kw \<and> same_tree (snd kv) (snd kw)) (present_items (sample_snapshot ''a'')) (sample_snapshot ''a'')"
      by (simp add: sample_snapshot_def sample_source_def same_refl)
  qed (simp add: sample_snapshot_def)
qed


text \<open>The message of a tree has no separators.\<close>

definition host_tree :: "string \<Rightarrow> tree" where
  "host_tree s = TDict None [(''computer_name'', TStr s)]"

definition named_host_tree :: "string \<Rightarrow> string \<Rightarrow> tree" where
  "named_host_tree s t = TDict None [(''computer_name'', TStr s), (''hostname'', TStr t)]"

lemma computer_name_first: "str_key ''computer_name'' \<le> str_key ''hostname''"
  by code_simp

lemma named_host_message:
  "prepare_commit_tree lib (named_host_tree s t) =
     Inr (TDict (Some (sha1 lib (''computer_name'' @ s @ ''hostname'' @ t)))
       [(''computer_name'', TStr s), (''hostname'', TStr t)])"
  if "s \<noteq> []" "t \<noteq> []" for s t
  using that computer_name_first
  by (simp add: named_host_tree_def prepare_commit_tree.simps prepare_value.simps add_field_def given_hash_def
      start_fields_def field_text_def hexdigest_def message_def field_bytes_def)

lemma host_message:
  "prepare_commit_tree lib (host_tree s) =
     Inr (TDict (Some (sha1 lib (''computer_name'' @ s))) [(''computer_name'', TStr s)])"
  if "s \<noteq> []" for s
  using that
  by (simp add: host_tree_def prepare_commit_tree.simps prepare_value.simps add_field_def given_hash_def
      start_fields_def field_text_def hexdigest_def message_def field_bytes_def)

text \<open>
  C40: Two different trees can be one object. The hash of a tree is made of the names and the values
  of its fields without separators, so a computer name that contains the word hostname gives the same
  hash as a computer name and a host name. Once one has been committed, a commit of the other returns
  the first object, for every digest function.
\<close>

theorem unseparated_trees_collide:
  assumes "s \<noteq> []" "t \<noteq> []" "unique_keys db"
    and "commit (inventory_site lib refuses cleans) kw ''SystemInfo'' (named_host_tree s t) db = (Inr (pk, created), db')"
  shows "commit (inventory_site lib refuses cleans) kw ''SystemInfo'' (host_tree (s @ ''hostname'' @ t)) db' =
    (Inr (pk, False), db')"
proof -
  let ?site = "inventory_site lib refuses cleans" and ?h = "sha1 lib (''computer_name'' @ s @ ''hostname'' @ t)"
  have cs: "commits ?site kw ''SystemInfo'' (named_host_tree s t) db (Inr (pk, created)) db'"
    using commit_commits(1) [OF assms(4)] .
  from inventory.commits_row [OF cs] obtain mm h items r where r: "site_model ?site ''SystemInfo'' = Some mm"
    "prepare_commit_tree lib (named_host_tree s t) = Inr (TDict (Some h) items)"
    "r \<in> set (tables db' ''SystemInfo'')" "row_pk r = pk" "row_hash r = h"
    unfolding site_lib_inventory by blast
  have h: "h = ?h" using r(2) named_host_message [OF assms(1,2)] by simp
  have "unique_keys db'" using inventory.commits_extends [OF cs] assms(3) by blast
  with r(3,5) have found: "row_by_hash ''SystemInfo'' h db' = Inr r"
    using get_one_pk [of row_hash "tables db' ''SystemInfo''" r] by (simp add: row_by_hash_def unique_keys_def)
  have "prepare_commit_tree lib (host_tree (s @ ''hostname'' @ t)) =
      Inr (TDict (Some h) [(''computer_name'', TStr (s @ ''hostname'' @ t))])"
    using host_message [of "s @ ''hostname'' @ t"] assms(1) h by simp
  with found r(1,4) show ?thesis by (simp add: commit.simps)
qed

lemma sample_host_commit:
  "fst (commit sample_site None ''SystemInfo'' (named_host_tree ''a'' ''b'') empty_db) = Inr (1, True)"
  by code_simp

theorem unseparated_trees_collide_witness:
  "commit sample_site None ''SystemInfo'' (host_tree ''ahostnameb'')
      (snd (commit sample_site None ''SystemInfo'' (named_host_tree ''a'' ''b'') empty_db)) =
    (Inr (1, False), snd (commit sample_site None ''SystemInfo'' (named_host_tree ''a'' ''b'') empty_db))"
  using unseparated_trees_collide [of "''a''" "''b''" empty_db sample_lib "\<lambda>_ _. None" "\<lambda>_ _. True" None 1 True
      "snd (commit sample_site None ''SystemInfo'' (named_host_tree ''a'' ''b'') empty_db)"]
    empty_db_ok(1) sample_host_commit by (simp add: prod_eq_iff)

text \<open>
  A required text left out and a JSON value made of empty values are not hashed the same way in the
  tree and in the object: the object is written, then the commit raises, and the same tree is found
  the next time.
\<close>

definition unnamed_link :: tree where
  "unnamed_link = TDict None [(''url'', TStr ''u'')]"

definition blank_config_source :: tree where
  "blank_config_source = TDict None [(''module'', TStr ''m''), (''name'', TStr ''n''),
     (''config'', TDict None [(''host'', TNone)])]"

lemma mismatch_after_write:
  "fst (commit sample_site None ''Link'' unnamed_link empty_db) = Inl MTOError"
  "fst (commit sample_site None ''Link'' unnamed_link (snd (commit sample_site None ''Link'' unnamed_link empty_db))) =
     Inr (1, False)"
  "fst (commit sample_site None ''Source'' blank_config_source empty_db) = Inl MTOError"
  "fst (commit sample_site None ''Source'' blank_config_source
     (snd (commit sample_site None ''Source'' blank_config_source empty_db))) = Inr (1, False)"
  by code_simp+

subsection \<open>The history of the snapshots\<close>

text \<open>
  C10: The commits of a machine form one chain, whatever runs at the same time. Its versions for a
  source are 1, 2, 3, in the order of their creation, and each has the one before as its parent, if
  this was so before and the other transactions only add commits to such chains: two commits that
  race for a version do not break it.
\<close>

theorem snapshot_versions_chained:
  assumes "chained db"
    and "commit_machine_snapshot_tree (inventory_site lib refuses cleans) now others tree db = (res, db')"
    and "\<And>d. chained d \<Longrightarrow> chained (others d) \<and> only_adds d (others d)"
  shows "chained db'"
  using tree_commits_chained [OF assms(1,2)] assms(3) by blast

abbreviation sample_db :: inventory_db where
  "sample_db \<equiv> snd sample_run"

abbreviation sample_other :: "inventory_db \<Rightarrow> inventory_db" where
  "sample_other d \<equiv> snd (commit_machine_snapshot_tree sample_site (sample_seen 0) (\<lambda>d. d) (TDict None (sample_tree ''b'' 2)) d)"

lemma others_only_add:
  assumes c: "chained d"
    and run: "commit_machine_snapshot_tree (inventory_site lib refuses cleans) now (\<lambda>d. d) tree d = (res, d')"
  shows "only_adds d d'"
  using run
proof (cases rule: commit_machine_snapshot_tree_cases)
  case (written h items uptime items2 items3 seen snapshot created db1 k wres)
  have same: "history j db1 = history j d" for j
    using same_history_history [OF commit_same_history [OF written(5)]] .
  from write_commit_history [OF written(7)] show ?thesis
    by (auto simp: only_adds_def same history_create(1))
qed (use same_history_history [OF commit_same_history] in \<open>auto simp: only_adds_def\<close>)

lemma sample_other_adds: "chained d \<Longrightarrow> chained (sample_other d) \<and> only_adds d (sample_other d)"
proof -
  assume c: "chained d"
  obtain res d' where run: "commit_machine_snapshot_tree sample_site (sample_seen 0) (\<lambda>d. d) (TDict None (sample_tree ''b'' 2)) d = (res, d')"
    by fastforce
  have "chained d'" by (rule tree_commits_chained [OF c run]) (simp add: only_adds_def)
  with others_only_add [OF c run] run show ?thesis by simp
qed

theorem snapshot_versions_chained_witness:
  "chained (snd (commit_machine_snapshot_tree sample_site (sample_seen 0) sample_other
     (TDict None (sample_tree ''a'' 1)) empty_db))"
  by (rule snapshot_versions_chained [OF empty_db_ok(4) prod.collapse [symmetric]]) (rule sample_other_adds)

text \<open>
  C22: The current snapshot of a machine is the one of its last commit. One transaction at a time,
  committing any tree keeps, for every machine and source, exactly one current snapshot, that of the
  last commit in the chain, and none for a machine without a commit.
\<close>

theorem current_snapshot_is_last:
  assumes "chained db" "current_ok db"
    and "commit_machine_snapshot_tree (inventory_site lib refuses cleans) now (\<lambda>d. d) tree db = (res, db')"
  shows "chained db' \<and> current_ok db' \<and>
    (\<forall>k. currents k db' = (case last_commit k db' of None \<Rightarrow> [] | Some c \<Rightarrow> [msc_machine_snapshot c]))"
proof -
  have c: "chained db'" by (rule tree_commits_chained [OF assms(1,3)]) (simp add: only_adds_def)
  have o: "current_ok db'" by (rule tree_commits_current [OF assms])
  have "currents k db' = (case last_commit k db' of None \<Rightarrow> [] | Some c \<Rightarrow> [msc_machine_snapshot c])" for k
    unfolding chained_last [OF chained_history [OF c]] current_okD [OF o] by simp
  with c o show ?thesis by blast
qed

theorem current_snapshot_is_last_witness:
  "chained sample_db \<and> current_ok sample_db \<and>
    (\<forall>k. currents k sample_db = (case last_commit k sample_db of None \<Rightarrow> [] | Some c \<Rightarrow> [msc_machine_snapshot c]))"
  unfolding sample_run_def
  by (rule current_snapshot_is_last [OF empty_db_ok(4,5) prod.collapse [symmetric]])

text \<open>
  The same tree again is no news. After a tree with a time stamp has been committed, committing it
  again, at any later time, gives the same snapshot, makes no new version and changes nothing, if its
  uptime is not a text; a text is never equal to the number stored for it.
\<close>

theorem same_snapshot_again:
  assumes "unique_keys db" "chained db" "current_ok db"
    and "commit_machine_snapshot_tree (inventory_site lib refuses cleans) now (\<lambda>d. d) (TDict h items) db =
      (Inr (c, snapshot), db')"
    and "dict_get items ''last_seen'' = Some (TTime d)" "\<forall>s. dict_get items ''system_uptime'' \<noteq> Some (TStr s)"
  shows "commit_machine_snapshot_tree (inventory_site lib refuses cleans) now' (\<lambda>d. d) (TDict h items) db' =
      (Inr (None, snapshot), db')"
  by (rule tree_committed_again [OF assms(4,1-3,5)]) (use assms(6) in blast)

lemma sample_run_pair: "\<exists>c. sample_run = (Inr (c, 1), sample_db)"
proof -
  obtain c n where "fst sample_run = Inr (c, n)" using sample_run_result by (cases "fst sample_run") auto
  with sample_run_result show ?thesis by (metis map_sum.simps(2) old.sum.inject(2) prod.collapse snd_conv)
qed

theorem same_snapshot_again_witness:
  "commit_machine_snapshot_tree sample_site (sample_seen 9) (\<lambda>d. d) (TDict None (sample_tree ''a'' 1)) sample_db =
     (Inr (None, 1), sample_db)"
proof -
  from sample_run_pair obtain c where "sample_run = (Inr (c, 1), sample_db)" by blast
  then show ?thesis
    unfolding sample_run_def
    by (rule same_snapshot_again [OF empty_db_ok(1,4,5)]) (simp_all add: sample_tree_def sample_snapshot_def)
qed

lemma string_uptime_again:
  "(let run = commit_machine_snapshot_tree sample_site (sample_seen 0) (\<lambda>d. d)
        (TDict None ((''system_uptime'', TStr ''12'') # sample_tree ''a'' 1));
      msc_count = (\<lambda>d. length (machine_snapshot_commits d))
    in msc_count (snd (run empty_db)) = 1 \<and> msc_count (snd (run (snd (run empty_db)))) = 2)"
  by code_simp

subsection \<open>The events\<close>

lemma tree_commits_well_typed:
  assumes "makes_naive lib" "\<And>x. length (sha1 lib x) = 40" "well_typed (inventory_site lib refuses cleans) db"
    and run: "commit_machine_snapshot_tree (inventory_site lib refuses cleans) now (\<lambda>d. d) tree db = (res, db')"
  shows "well_typed (inventory_site lib refuses cleans) db'"
proof -
  have same: "well_typed (inventory_site lib refuses cleans) d2" if "tables d2 = tables d1"
    "well_typed (inventory_site lib refuses cleans) d1" for d1 d2 :: inventory_db
  proof -
    have keys: "row_keys m d2 = row_keys m d1" for m using that(1) by (simp add: row_keys_def)
    have "typed_value d1 k v \<Longrightarrow> typed_value d2 k v" for k v
      by (cases "(d1, k, v)" rule: typed_value.cases) (auto simp: keys split: option.splits)
    with that show ?thesis by (simp add: well_typed_def row_typed_def)
  qed
  show ?thesis
    using run
  proof (cases rule: commit_machine_snapshot_tree_cases)
    case (written h items uptime items2 items3 seen snapshot created db1 k wres)
    from mt_laws.commit_well_typed [OF inventory_laws [OF assms(1,2)] assms(3) written(5)]
    show ?thesis using same write_commit_tables [OF written(7)] by blast
  qed (use assms(3) mt_laws.commit_well_typed [OF inventory_laws [OF assms(1,2)] assms(3)] in auto)
qed


definition sample_update :: "(pyerror + machine_snapshot_commit option \<times> nat) \<times> inventory_db" where
  "sample_update = commit_machine_snapshot_tree sample_site (sample_seen 0) (\<lambda>d. d) (TDict None (sample_tree ''b'' 2)) sample_db"

lemma sample_db_typed: "well_typed sample_site (snd sample_update)"
proof -
  have "well_typed sample_site sample_db"
    unfolding sample_run_def
    by (rule tree_commits_well_typed [OF sample_lib_laws empty_db_ok(3) prod.collapse [symmetric]])
  then show ?thesis
    unfolding sample_update_def by (rule tree_commits_well_typed [OF sample_lib_laws _ prod.collapse [symmetric]])
qed

definition sample_commit1 :: machine_snapshot_commit where
  "sample_commit1 = \<lparr>msc_pk = 1, msc_serial_number = ''S'', msc_source = 1, msc_version = 1, msc_machine_snapshot = 1,
     msc_parent = None, msc_last_seen = Some (sample_seen 1), msc_system_uptime = None\<rparr>"

definition sample_commit2 :: machine_snapshot_commit where
  "sample_commit2 = \<lparr>msc_pk = 2, msc_serial_number = ''S'', msc_source = 1, msc_version = 2, msc_machine_snapshot = 2,
     msc_parent = Some 1, msc_last_seen = Some (sample_seen 2), msc_system_uptime = None\<rparr>"

definition sample_events :: "inventory_event list" where
  "sample_events =
     [machine_event ''add'' ''link'' sample_source (sample_link ''b''),
      machine_event ''remove'' ''link'' sample_source (sample_link ''a''),
      heartbeat sample_source (Some (sample_seen 2))]"

lemma sample_update_commits: "machine_snapshot_commits (snd sample_update) = [sample_commit1, sample_commit2]"
  by code_simp

lemma sample_update_rows:
  "case (row_by_pk ''MachineSnapshot'' 2 (snd sample_update), row_by_pk ''MachineSnapshot'' 1 (snd sample_update)) of
     (Inr r, Inr mto) \<Rightarrow> row_pk r \<noteq> row_pk mto \<and> row_hash r \<noteq> row_hash mto \<and>
       keys_of r ''links'' = [2] \<and> keys_of mto ''links'' = [1]
   | _ \<Rightarrow> False"
  by code_simp

lemma sample_update_events:
  "inventory_events_from_machine_snapshot_commit sample_site 5 sample_commit2 (snd sample_update) = Inr sample_events"
  by code_simp


end
