(* ===== verification/Md5.thy ===== *)
theory Md5 imports Sha1 begin

text \<open>
  \<open>hashlib.md5(...).hexdigest()\<close> of the standard library, which \<open>shard\<close> of
  \<open>zentral/utils/text.py\<close> calls: the message digest of RFC 1321 on little-endian 32-bit words.
\<close>

fun le_words :: "string \<Rightarrow> 32 word list" where
  "le_words (a # b # c # d # r) =
     (push_bit 24 (byte_word d) OR push_bit 16 (byte_word c) OR push_bit 8 (byte_word b) OR byte_word a) # le_words r"
| "le_words _ = []"

definition md5_padded :: "string \<Rightarrow> string" where
  "md5_padded s =
     s @ CHR 0x80 # replicate ((119 - length s mod 64) mod 64) (char_of (0::nat)) @ rev (length_bytes (8 * length s))"

definition md5_constants :: "32 word list" where
  "md5_constants =
    [0xD76AA478, 0xE8C7B756, 0x242070DB, 0xC1BDCEEE, 0xF57C0FAF, 0x4787C62A, 0xA8304613, 0xFD469501,
     0x698098D8, 0x8B44F7AF, 0xFFFF5BB1, 0x895CD7BE, 0x6B901122, 0xFD987193, 0xA679438E, 0x49B40821,
     0xF61E2562, 0xC040B340, 0x265E5A51, 0xE9B6C7AA, 0xD62F105D, 0x02441453, 0xD8A1E681, 0xE7D3FBC8,
     0x21E1CDE6, 0xC33707D6, 0xF4D50D87, 0x455A14ED, 0xA9E3E905, 0xFCEFA3F8, 0x676F02D9, 0x8D2A4C8A,
     0xFFFA3942, 0x8771F681, 0x6D9D6122, 0xFDE5380C, 0xA4BEEA44, 0x4BDECFA9, 0xF6BB4B60, 0xBEBFBC70,
     0x289B7EC6, 0xEAA127FA, 0xD4EF3085, 0x04881D05, 0xD9D4D039, 0xE6DB99E5, 0x1FA27CF8, 0xC4AC5665,
     0xF4292244, 0x432AFF97, 0xAB9423A7, 0xFC93A039, 0x655B59C3, 0x8F0CCC92, 0xFFEFF47D, 0x85845DD1,
     0x6FA87E4F, 0xFE2CE6E0, 0xA3014314, 0x4E0811A1, 0xF7537E82, 0xBD3AF235, 0x2AD7D2BB, 0xEB86D391]"

definition md5_shift :: "nat \<Rightarrow> nat" where
  "md5_shift i = [[7, 12, 17, 22], [5, 9, 14, 20], [4, 11, 16, 23], [6, 10, 15, 21]] ! (i div 16) ! (i mod 4)"

definition md5_index :: "nat \<Rightarrow> nat" where
  "md5_index i =
     (if i < 16 then i else if i < 32 then (5 * i + 1) mod 16 else if i < 48 then (3 * i + 5) mod 16 else 7 * i mod 16)"

definition md5_function :: "nat \<Rightarrow> 32 word \<Rightarrow> 32 word \<Rightarrow> 32 word \<Rightarrow> 32 word" where
  "md5_function i b c d =
     (if i < 16 then (b AND c) OR (NOT b AND d)
      else if i < 32 then (d AND b) OR (NOT d AND c)
      else if i < 48 then b XOR c XOR d
      else c XOR (b OR NOT d))"

type_synonym md5_state = "32 word \<times> 32 word \<times> 32 word \<times> 32 word"

definition md5_round :: "32 word list \<Rightarrow> nat \<Rightarrow> md5_state \<Rightarrow> md5_state" where
  "md5_round m i s =
     (case s of (a, b, c, d) \<Rightarrow>
       (d, b + word_rotl (md5_shift i) (md5_function i b c d + a + md5_constants ! i + m ! md5_index i), b, c))"

definition md5_compress :: "md5_state \<Rightarrow> 32 word list \<Rightarrow> md5_state" where
  "md5_compress s m =
     (case (s, fold (md5_round m) [0..<64] s) of
        ((a, b, c, d), (a', b', c', d')) \<Rightarrow> (a + a', b + b', c + c', d + d'))"

definition md5_digest :: "string \<Rightarrow> md5_state" where
  "md5_digest s =
     (let p = md5_padded s in
      foldl md5_compress (0x67452301, 0xEFCDAB89, 0x98BADCFE, 0x10325476) (blocks (length p div 64) (le_words p)))"

text \<open>The bytes of a word, the lowest first.\<close>

definition le_hex_word :: "32 word \<Rightarrow> string" where
  "le_hex_word w = map (\<lambda>i. hex_digit (unat w div 16 ^ i mod 16)) [1, 0, 3, 2, 5, 4, 7, 6]"

definition md5_hexdigest :: "string \<Rightarrow> string" where
  "md5_hexdigest s =
     (case md5_digest s of (a, b, c, d) \<Rightarrow> le_hex_word a @ le_hex_word b @ le_hex_word c @ le_hex_word d)"

lemma length_md5_hexdigest: "length (md5_hexdigest s) = 32"
  by (simp add: md5_hexdigest_def le_hex_word_def split: prod.splits)

end
