(* ===== verification/OsqueryModels.thy ===== *)
theory OsqueryModels imports Requests MachineIds Md5 begin

text \<open>
  \<open>zentral/contrib/osquery/models.py\<close>: the queries, the packs and the configurations, what is
  serialized of them for the agents, the keys the agents send back, and the choice of the
  distributed queries of a machine. \<open>zentral/contrib/osquery/specs\<close>: the flags. \<open>shard\<close> is the one
  of \<open>zentral/utils/text.py\<close>.
\<close>

subsection \<open>Platforms\<close>

datatype osquery_platform = DARWIN | FREEBSD | OSQUERY_LINUX | POSIX | OSQUERY_WINDOWS

fun platform_value :: "osquery_platform \<Rightarrow> string \<times> nat" where
  "platform_value DARWIN = (''darwin'', 0x10)"
| "platform_value FREEBSD = (''freebsd'', 0x20)"
| "platform_value OSQUERY_LINUX = (''linux'', 0x08)"
| "platform_value POSIX = (''posix'', 0x01)"
| "platform_value OSQUERY_WINDOWS = (''windows'', 0x02)"

definition osquery_platforms :: "osquery_platform list" where
  "osquery_platforms = [DARWIN, FREEBSD, OSQUERY_LINUX, POSIX, OSQUERY_WINDOWS]"

definition osquery_platform_choices :: "(string \<times> string) list" where
  "osquery_platform_choices = map (\<lambda>i. (fst (platform_value i), fst (platform_value i))) osquery_platforms"

definition accepted_platforms :: "string set" where
  "accepted_platforms = set (map (\<lambda>i. fst (platform_value i)) osquery_platforms)"

definition platforms_from_mask :: "nat \<Rightarrow> string list" where
  "platforms_from_mask m =
     map (\<lambda>i. fst (platform_value i)) (filter (\<lambda>i. snd (platform_value i) AND m \<noteq> 0) osquery_platforms)"

subsection \<open>Queries and packs\<close>

text \<open>A row of the pack queries is taken with the query its key names.\<close>

record query =
  q_pk :: nat
  q_name :: string
  q_sql :: string
  q_platforms :: "string list"
  q_minimum_osquery_version :: "string option"
  q_description :: string
  q_value :: string
  q_version :: nat

record pack_query =
  pq_pk :: nat
  pq_pack :: nat
  pq_query :: query
  pq_slug :: string
  pq_interval :: int
  pq_log_removed_actions :: bool
  pq_snapshot_mode :: bool
  pq_shard :: "int option"
  pq_can_be_denylisted :: bool

record pack =
  pk_pk :: nat
  pk_name :: string
  pk_slug :: string
  pk_discovery_queries :: "string list"
  pk_shard :: "int option"

definition query_platform :: "query \<Rightarrow> pyval option" where
  "query_platform q =
     (if q_platforms q = [] then None else Some (PStr (join_with '','' (q_platforms q))))"

definition query_minimum_version :: "query \<Rightarrow> pyval option" where
  "query_minimum_version q =
     (if truthy_str (q_minimum_osquery_version q) then Some (opt_str (q_minimum_osquery_version q)) else None)"

definition query_serialize :: "query \<Rightarrow> dict" where
  "query_serialize q =
     present
       [(''query'', Some (PStr (q_sql q))),
        (''platform'', query_platform q),
        (''version'', query_minimum_version q)]"

text \<open>The version of the query gives way to the minimum version of osquery: they have the same key.\<close>

definition query_serialize_for_event :: "query \<Rightarrow> dict" where
  "query_serialize_for_event q =
     (let text = (\<lambda>k s d. if s = [] then d else dict_set k (PStr s) d);
          item = (\<lambda>k v d. case v of None \<Rightarrow> d | Some w \<Rightarrow> dict_set k w d);
          d = [(''sql'', PStr (q_sql q)), (''version'', PInt (int (q_version q)))]
      in text ''value'' (q_value q) (text ''description'' (q_description q)
           (item ''version'' (query_minimum_version q) (item ''platform'' (query_platform q) d))))"

definition DELIMITER :: char where
  "DELIMITER = CHR 0x2F"

definition configuration_key :: "pack \<Rightarrow> string" where
  "configuration_key p = pk_slug p @ [DELIMITER] @ nat_str (pk_pk p)"

definition pack_key :: "pack_query \<Rightarrow> string" where
  "pack_key pq =
     pq_slug pq @ [DELIMITER] @ nat_str (q_pk (pq_query pq)) @ [DELIMITER] @ nat_str (q_version (pq_query pq))"

text \<open>\<open>if self.shard and self.shard != 100\<close>.\<close>

definition partial_shard :: "int option \<Rightarrow> pyval option" where
  "partial_shard s = (case s of None \<Rightarrow> None | Some n \<Rightarrow> if n = 0 \<or> n = 100 then None else Some (PInt n))"

definition pack_query_serialize :: "pack_query \<Rightarrow> dict" where
  "pack_query_serialize pq =
     query_serialize (pq_query pq) @
     present
       [(''interval'', Some (PInt (pq_interval pq))),
        (''removed'', if pq_log_removed_actions pq then None else Some (PBool False)),
        (''snapshot'', if pq_snapshot_mode pq then Some (PBool True) else None),
        (''shard'', partial_shard (pq_shard pq)),
        (''denylist'', if pq_can_be_denylisted pq then None else Some (PBool False))]"

definition pack_queries_of :: "pack \<Rightarrow> pack_query list \<Rightarrow> pack_query list" where
  "pack_queries_of p pqs = filter (\<lambda>pq. pq_pack pq = pk_pk p) pqs"

definition pack_serialize :: "pack_query list \<Rightarrow> pack \<Rightarrow> dict" where
  "pack_serialize pqs p =
     present
       [(''queries'', Some (PDict (dict_update []
           (map (\<lambda>pq. (pack_key pq, PDict (pack_query_serialize pq))) (pack_queries_of p pqs))))),
        (''discovery'', if pk_discovery_queries p = [] then None
                        else Some (PList (map PStr (pk_discovery_queries p)))),
        (''shard'', partial_shard (pk_shard p))]"

definition pack_serialize_for_event :: "bool \<Rightarrow> pack \<Rightarrow> dict" where
  "pack_serialize_for_event short p =
     [(''pk'', PInt (int (pk_pk p))), (''slug'', PStr (pk_slug p))] @
     (if short then []
      else present
        [(''name'', Some (PStr (pk_name p))),
         (''discovery_queries'', if pk_discovery_queries p = [] then None
                                 else Some (PList (map PStr (pk_discovery_queries p)))),
         (''shard'', case pk_shard p of None \<Rightarrow> None | Some n \<Rightarrow> if n = 0 then None else Some (PInt n))])"

definition pack_query_serialize_for_event :: "pack \<Rightarrow> pack_query \<Rightarrow> dict" where
  "pack_query_serialize_for_event p pq =
     present
       [(''pk'', Some (PInt (int (pq_pk pq)))),
        (''slug'', Some (PStr (pq_slug pq))),
        (''pack'', Some (PDict (pack_serialize_for_event True p))),
        (''query'', Some (PDict (query_serialize_for_event (pq_query pq)))),
        (''interval'', Some (PInt (pq_interval pq))),
        (''log_removed_actions'', Some (PBool (pq_log_removed_actions pq))),
        (''snapshot_mode'', Some (PBool (pq_snapshot_mode pq))),
        (''can_be_denylisted'', Some (PBool (pq_can_be_denylisted pq))),
        (''shard'', partial_shard (pq_shard pq))]"

text \<open>The keys \<open>pack__pk\<close> and \<open>query__pk\<close> are \<open>None\<close> when the key does not parse.\<close>

definition config_key_pks :: "string \<Rightarrow> (int \<times> int) option" where
  "config_key_pks key =
     (case split_on DELIMITER key of
        [_, pack_pk, _, query_pk, _] \<Rightarrow>
          (case (parse_int pack_pk, parse_int query_pk) of
             (Some p, Some q) \<Rightarrow> Some (p, q)
           | _ \<Rightarrow> None)
      | _ \<Rightarrow> None)"

definition get_with_config_key :: "pyval \<Rightarrow> pack_query list \<Rightarrow> pyerror + pack_query" where
  "get_with_config_key key pqs =
     (case key of
        PStr k \<Rightarrow>
          (case config_key_pks k of
             None \<Rightarrow> Inl ValueError
           | Some (p, q) \<Rightarrow> get_one (\<lambda>pq. int (pq_pack pq) = p \<and> int (q_pk (pq_query pq)) = q) pqs)
      | _ \<Rightarrow> Inl ValueError)"

text \<open>\<open>OsqueryResultEvent.get_linked_objects_keys\<close>, of the name of a result.\<close>

definition result_linked_objects_keys :: "dict \<Rightarrow> (string \<times> pyval list list) list" where
  "result_linked_objects_keys payload =
     (case dict_get payload ''name'' of
        Some (PStr name) \<Rightarrow>
          (case split_on DELIMITER name of
             [start, _, pack_pk, _, query_pk, _] \<Rightarrow>
               (case (parse_int pack_pk, parse_int query_pk) of
                  (Some p, Some q) \<Rightarrow>
                    if start = ''pack'' then [(''osquery_pack'', [[PInt p]]), (''osquery_query'', [[PInt q]])] else []
                | _ \<Rightarrow> [])
           | _ \<Rightarrow> [])
      | _ \<Rightarrow> [])"

text \<open>\<open>OsqueryRequestEvent.get_linked_objects_keys\<close>: the parts of the payload are dictionaries.\<close>

definition payload_part :: "dict \<Rightarrow> string \<Rightarrow> dict" where
  "payload_part d k = (case dict_get d k of Some (PDict e) \<Rightarrow> e | _ \<Rightarrow> [])"

definition request_linked_objects_keys :: "dict \<Rightarrow> (string \<times> pyval list list) list" where
  "request_linked_objects_keys payload =
     (let enrollment = payload_part payload ''enrollment'';
          key = (\<lambda>n d. case dict_get d ''pk'' of Some pk \<Rightarrow> if truthy pk then [(n, [[pk]])] else [] | None \<Rightarrow> [])
      in key ''osquery_enrollment'' enrollment @
         key ''osquery_configuration'' (payload_part enrollment ''configuration''))"

subsection \<open>Flags\<close>

text \<open>
  \<open>_iter_flags\<close>: the flags of a file, with whether they take a value. A line without a space
  cannot be unpacked.
\<close>

definition flag_line :: "string \<Rightarrow> pyerror + (string \<times> bool)" where
  "flag_line line =
     (let l = drop 2 line; flag = takeWhile (\<lambda>c. c \<noteq> CHR '' '') l; rest = drop (length flag + 1) l in
      if flag = l then Inl ValueError else Inr (flag, prefix ''VALUE'' rest \<or> prefix ''PATH'' rest))"

definition iter_flags :: "string list \<Rightarrow> pyerror + (string \<times> bool) list" where
  "iter_flags ls = map_result flag_line (filter (prefix ''--'') ls)"

definition get_cli_only_flags :: "string list \<Rightarrow> pyerror + (string \<times> bool) list" where
  "get_cli_only_flags ls = bind_result (iter_flags ls) (\<lambda>fs. Inr (dict_update [] fs))"

record file_category =
  fc_slug :: string
  fc_file_paths :: "string list"
  fc_exclude_paths :: "string list"
  fc_file_paths_queries :: "string list"
  fc_access_monitoring :: bool

record atc =
  atc_table_name :: string
  atc_query :: string
  atc_path :: string
  atc_columns :: "string list"
  atc_platforms :: "string list"

record configuration_pack =
  cp_pack :: pack
  cp_tags :: "nat list"

record configuration =
  cf_pk :: nat
  cf_name :: string
  cf_inventory :: bool
  cf_inventory_apps :: bool
  cf_inventory_interval :: int
  cf_options :: dict
  cf_file_categories :: "file_category list"
  cf_atcs :: "atc list"
  cf_packs :: "configuration_pack list"

text \<open>The addresses of the server: its name, and the paths the framework makes of the names of the views.\<close>

record server_urls =
  su_fqdn :: string
  su_reverse :: "string \<Rightarrow> string"

definition default_flags :: "server_urls \<Rightarrow> dict" where
  "default_flags urls =
     [(''tls_hostname'', PStr (su_fqdn urls)),
      (''config_plugin'', PStr ''tls''),
      (''config_tls_endpoint'', PStr (su_reverse urls ''osquery:config'')),
      (''config_refresh'', PInt 1200),
      (''disable_distributed'', PBool False),
      (''distributed_plugin'', PStr ''tls''),
      (''distributed_interval'', PInt 60),
      (''distributed_tls_read_endpoint'', PStr (su_reverse urls ''osquery:distributed_read'')),
      (''distributed_tls_write_endpoint'', PStr (su_reverse urls ''osquery:distributed_write'')),
      (''disable_enrollment'', PBool False),
      (''enroll_tls_endpoint'', PStr (su_reverse urls ''osquery:enroll'')),
      (''logger_plugin'', PStr ''tls''),
      (''logger_tls_endpoint'', PStr (su_reverse urls ''osquery:log'')),
      (''logger_tls_period'', PInt 60),
      (''logger_tls_compress'', PBool True)]"

definition carver_flags :: "server_urls \<Rightarrow> dict" where
  "carver_flags urls =
     [(''carver_disable_function'', PBool False),
      (''disable_carver'', PBool False),
      (''carver_continue_endpoint'', PStr (su_reverse urls ''osquery:carver_continue'')),
      (''carver_start_endpoint'', PStr (su_reverse urls ''osquery:carver_start'')),
      (''carver_compression'', PBool False)]"

definition wants_carver :: "dict \<Rightarrow> bool" where
  "wants_carver flags \<longleftrightarrow>
     \<not> truthy (dict_get_default flags ''disable_carver'' (PBool True)) \<or>
     \<not> truthy (dict_get_default flags ''carver_disable_function'' (PBool True))"

definition get_all_flags :: "server_urls \<Rightarrow> configuration \<Rightarrow> dict" where
  "get_all_flags urls c =
     (let flags = dict_update (default_flags urls) (cf_options c);
          flags' = (if wants_carver flags then dict_update flags (carver_flags urls) else flags)
      in dict_set ''pack_delimiter'' (PStr [DELIMITER]) flags')"

definition serialize_options :: "server_urls \<Rightarrow> (string \<times> bool) list \<Rightarrow> configuration \<Rightarrow> dict" where
  "serialize_options urls cli_only_flags c =
     filter (\<lambda>(k, v). k \<notin> set (map fst cli_only_flags)) (get_all_flags urls c)"

text \<open>The text of a list or of a dictionary is a parameter.\<close>

definition flag_text :: "(pyval \<Rightarrow> string) \<Rightarrow> pyval \<Rightarrow> string" where
  "flag_text repr v =
     (case v of
        PBool b \<Rightarrow> if b then ''true'' else ''false''
      | PStr s \<Rightarrow> s
      | PInt i \<Rightarrow> int_str i
      | PNone \<Rightarrow> ''None''
      | _ \<Rightarrow> repr v)"

definition get_serialized_flags :: "(pyval \<Rightarrow> string) \<Rightarrow> server_urls \<Rightarrow> configuration \<Rightarrow> string list" where
  "get_serialized_flags repr urls c =
     map (\<lambda>(k, v). ''--'' @ k @ ''='' @ flag_text repr v) (get_all_flags urls c)"

subsection \<open>Machines and distributed queries\<close>

record enrolled_machine =
  om_pk :: nat
  om_enrollment :: nat
  om_serial_number :: string
  om_node_key :: string
  om_osquery_version :: "string option"
  om_platform_mask :: nat

definition version_tuple :: "string option \<Rightarrow> pyerror + int list" where
  "version_tuple v =
     (case v of
        None \<Rightarrow> Inr [0, 0, 0]
      | Some s \<Rightarrow>
          if s = [] then Inr [0, 0, 0]
          else map_result (\<lambda>w. case parse_int w of None \<Rightarrow> Inl ValueError | Some i \<Rightarrow> Inr i) (split_on CHR ''.'' s))"

record distributed_query =
  dq_pk :: nat
  dq_sql :: string
  dq_platforms :: "string list"
  dq_minimum_osquery_version :: "string option"
  dq_valid_from :: int
  dq_valid_until :: "int option"
  dq_serial_numbers :: "string list"
  dq_tags :: "nat list"
  dq_shard :: int

record distributed_query_machine =
  dqm_pk :: nat
  dqm_query :: nat
  dqm_serial_number :: string
  dqm_status :: "int option"
  dqm_error_message :: "string option"

definition is_active :: "int \<Rightarrow> distributed_query \<Rightarrow> bool" where
  "is_active now dq \<longleftrightarrow>
     \<not> dq_valid_from dq > now \<and> (case dq_valid_until dq of None \<Rightarrow> True | Some t \<Rightarrow> \<not> t < now)"

text \<open>The condition of \<open>active()\<close>, in the database.\<close>

definition active :: "int \<Rightarrow> distributed_query list \<Rightarrow> distributed_query list" where
  "active now dqs =
     filter (\<lambda>dq. dq_valid_from dq \<le> now)
       (filter (\<lambda>dq. case dq_valid_until dq of None \<Rightarrow> True | Some t \<Rightarrow> now \<le> t) dqs)"

text \<open>\<open>shard(key, salt)\<close>: the digest of the key and the salt, as a number, modulo 100.\<close>

definition shard :: "(string \<Rightarrow> string) \<Rightarrow> string \<Rightarrow> nat \<Rightarrow> int" where
  "shard md5 key salt = hex_number (md5 (key @ nat_str salt)) mod 100"

definition queries_for_machine ::
  "int \<Rightarrow> enrolled_machine \<Rightarrow> nat list \<Rightarrow> distributed_query_machine list \<Rightarrow> distributed_query list \<Rightarrow>
   distributed_query list" where
  "queries_for_machine now m tags dqms dqs =
     (let sn = om_serial_number m; platforms = platforms_from_mask (om_platform_mask m) in
      sort_key dq_pk
        (filter (\<lambda>dq. \<not> list_ex (\<lambda>dqm. dqm_query dqm = dq_pk dq \<and> dqm_serial_number dqm = sn) dqms)
        (filter (\<lambda>dq. dq_tags dq = [] \<or> list_ex (\<lambda>t. t \<in> set tags) (dq_tags dq))
        (filter (\<lambda>dq. dq_serial_numbers dq = [] \<or> sn \<in> set (dq_serial_numbers dq))
        (filter (\<lambda>dq. dq_platforms dq = [] \<or> list_ex (\<lambda>p. p \<in> set platforms) (dq_platforms dq))
           (active now dqs))))))"

text \<open>
  The loop of the generator, which stops when \<open>n\<close> queries have been taken: the versions of the
  queries after the last one are not looked at.
\<close>

fun take_queries ::
  "(string \<Rightarrow> string) \<Rightarrow> enrolled_machine \<Rightarrow> nat \<Rightarrow> distributed_query list \<Rightarrow> pyerror + distributed_query list" where
  "take_queries md5 m n [] = Inr []"
| "take_queries md5 m n (dq # r) =
     (if n = 0 then Inr []
      else
        bind_result (version_tuple (dq_minimum_osquery_version dq)) (\<lambda>minimum.
        bind_result (version_tuple (om_osquery_version m)) (\<lambda>version.
          if version < minimum then take_queries md5 m n r
          else if dq_shard dq = 100 \<or> shard md5 (om_serial_number m) (dq_pk dq) \<le> dq_shard dq
          then bind_result (take_queries md5 m (n - 1) r) (\<lambda>dqs. Inr (dq # dqs))
          else take_queries md5 m n r)))"

definition iter_queries_for_enrolled_machine ::
  "(string \<Rightarrow> string) \<Rightarrow> int \<Rightarrow> nat \<Rightarrow> enrolled_machine \<Rightarrow> nat list \<Rightarrow> distributed_query_machine list \<Rightarrow>
   distributed_query list \<Rightarrow> pyerror + distributed_query list" where
  "iter_queries_for_enrolled_machine md5 now n m tags dqms dqs =
     take_queries md5 m n (queries_for_machine now m tags dqms dqs)"

subsection \<open>File carving\<close>

record file_carving_session =
  fs_id :: string
  fs_distributed_query :: "nat option"
  fs_pack_query :: "nat option"
  fs_serial_number :: string
  fs_carve_guid :: string
  fs_carve_size :: int
  fs_block_size :: int
  fs_block_count :: int
  fs_archive :: "string option"

record file_carving_block =
  fb_session :: string
  fb_block_id :: int
  fb_file :: string
  fb_data :: string

definition session_str :: "file_carving_session \<Rightarrow> string" where
  "session_str s = fs_id s @ ''_'' @ fs_serial_number s"

definition get_archive_name :: "file_carving_session \<Rightarrow> string" where
  "get_archive_name s = session_str s @ ''.tar''"

definition file_carving_session_dir_path :: "file_carving_session \<Rightarrow> string" where
  "file_carving_session_dir_path s =
     (let present_pk = (\<lambda>k. case k of None \<Rightarrow> None | Some n \<Rightarrow> if n = (0::nat) then None else Some n);
          subpath = (case present_pk (fs_distributed_query s) of
             Some n \<Rightarrow> ''runs/'' @ nat_str n
           | None \<Rightarrow> (case present_pk (fs_pack_query s) of
               Some n \<Rightarrow> ''scheduled/'' @ nat_str n
             | None \<Rightarrow> ''orphans''))
      in ''osquery/file_carvings/'' @ subpath @ ''/'' @ session_str s)"

definition file_carving_session_archive_path :: "file_carving_session \<Rightarrow> string" where
  "file_carving_session_archive_path s = file_carving_session_dir_path s @ ''/archive.tar''"

definition file_carving_block_path :: "file_carving_session \<Rightarrow> int \<Rightarrow> string" where
  "file_carving_block_path s block_id = file_carving_session_dir_path s @ ''/'' @ int_str block_id"

end
