(* ===== verification/OsqueryConf.thy ===== *)
theory OsqueryConf imports OsqueryModels InventoryConf begin

text \<open>
  \<open>zentral/contrib/osquery/conf.py\<close>: the inventory queries of a machine, and the configuration
  sent to its agent.
\<close>

subsection \<open>Queries\<close>

text \<open>The texts of the queries are written with back quotes for their single quotes.\<close>

definition sql :: "string \<Rightarrow> string" where
  "sql s = map (\<lambda>c. if c = CHR 0x60 then CHR 0x27 else c) s"

definition INVENTORY_QUERY_NAME :: string where
  "INVENTORY_QUERY_NAME = ''ztl-inv''"

definition INVENTORY_QUERIES :: "(string \<times> string) list" where
  "INVENTORY_QUERIES =
     [(''os_version'', sql (''select `os_version` as table_name, name, major, minor, '' @
       ''patch, build from os_version;'')),
      (''system_info'', sql (''select `system_info` as table_name, '' @
       ''computer_name, hostname, hardware_model, hardware_serial, '' @
       ''cpu_type, cpu_subtype, cpu_brand, cpu_physical_cores, '' @
       ''cpu_logical_cores, physical_memory from system_info;'')),
      (''uptime'', sql (''select `uptime` as table_name, total_seconds from uptime;'')),
      (''network_interface'', sql (''select `network_interface` as table_name, '' @
       ''id.interface, id.mac, '' @
       ''ia.address, ia.mask, ia.broadcast '' @
       ''from interface_details as id, interface_addresses as ia '' @
       ''where ia.interface = id.interface and ia.broadcast > ``;''))]"

definition DEB_PACKAGE_QUERY :: string where
  "DEB_PACKAGE_QUERY = sql (''select `deb_packages` as table_name, * from deb_packages;'')"

definition LINUX_DISK_QUERY :: string where
  "LINUX_DISK_QUERY = sql (''select `disks` as table_name, '' @
       ''bd.name, bd.block_size * bd.size as size '' @
       ''from block_devices as bd '' @
       ''left join usb_devices as ud on (replace(bd.model, ` `, `_`) = ud.model) '' @
       ''where bd.parent = `` and bd.type = `` '' @
       ''and bd.name not like `/dev/dm-%` and bd.name not like `/dev/loop%` and bd.name not like `/dev/md%` '' @
       ''and ud.usb_address is null;'')"

definition MACOS_DISK_QUERY :: string where
  "MACOS_DISK_QUERY = sql (''select `disks` as table_name, '' @
       ''name, block_size * size as size '' @
       ''from block_devices '' @
       ''where type not in (`USB`, `Virtual Interface`) and label <> `AppleAPFSMedia` and parent = ``;'')"

definition WINDOWS_DISK_QUERY :: string where
  "WINDOWS_DISK_QUERY = sql (''select `disks` as table_name, '' @
       ''name, disk_size as size '' @
       ''from disk_info '' @
       ''where type not in (`USB`, `1394`);'')"

definition OSX_APP_INSTANCE_QUERY :: string where
  "OSX_APP_INSTANCE_QUERY = sql (''select `apps` as table_name, '' @
       ''bundle_identifier as bundle_id, bundle_name, '' @
       ''bundle_version, bundle_short_version as bundle_version_str, '' @
       ''path as bundle_path '' @
       ''from apps;'')"

definition WIN_PROGRAM_QUERY :: string where
  "WIN_PROGRAM_QUERY = sql (''select `programs` as table_name, * from programs;'')"

definition MACOS_PRINCIPAL_USER_QUERY :: string where
  "MACOS_PRINCIPAL_USER_QUERY = sql (''SELECT `company_portal` AS table_name,'' @
       ''directory, key, value '' @
       ''FROM ('' @
       ''  SELECT directory'' @
       ''  FROM users'' @
       ''  WHERE directory LIKE `/Users/%`'' @
       '') u, plist p '' @
       ''WHERE (p.path = u.directory || `/Library/Application Support/com.microsoft.CompanyPortal.usercontext.info`);'')"

definition CERTIFICATES_QUERY :: string where
  "CERTIFICATES_QUERY = sql (''SELECT `certificates` AS table_name, * '' @
       ''FROM certificates '' @
       ''WHERE path = `/Library/Keychains/System.keychain` '' @
       ''AND ca = `0` AND ('' @
       ''issuer LIKE `/DC=net/DC=windows/CN=MS-Organization-Access/OU=%` OR '' @
       ''issuer = `/CN=Microsoft Intune MDM Device CA` OR '' @
       ''issuer LIKE `%JSS%`'' @
       '');'')"

definition DECORATORS :: pyval where
  "DECORATORS =
     PDict [(''load'', PList [PStr ''SELECT hardware_serial as serial_number FROM system_info'',
                              PStr ''SELECT version FROM osquery_info''])]"

text \<open>What the configuration needs of the machine: its platform, its kind of packages, its tags.\<close>

record machine_facts =
  mf_serial_number :: string
  mf_platform :: "string option"
  mf_has_deb_packages :: bool
  mf_tags :: "nat list"

definition get_inventory_queries_for_machine :: "machine_facts \<Rightarrow> bool \<Rightarrow> (string \<times> string) list" where
  "get_inventory_queries_for_machine m include_apps =
     (let is = (\<lambda>p. mf_platform m = Some (ms_platform_str p)) in
      INVENTORY_QUERIES @
      (if include_apps then
         (if is MACOS then [(''apps'', OSX_APP_INSTANCE_QUERY)]
          else if is WINDOWS then [(''programs'', WIN_PROGRAM_QUERY)]
          else if mf_has_deb_packages m then [(''deb_packages'', DEB_PACKAGE_QUERY)] else [])
       else []) @
      (if is LINUX then [(''disks'', LINUX_DISK_QUERY)] else []) @
      (if is MACOS then [(''disks'', MACOS_DISK_QUERY), (''company_portal'', MACOS_PRINCIPAL_USER_QUERY)] else []) @
      (if is MACOS \<or> is WINDOWS then [(''certificates'', CERTIFICATES_QUERY)] else []) @
      (if is WINDOWS then [(''disks'', WINDOWS_DISK_QUERY)] else []))"

definition get_inventory_query_for_machine :: "machine_facts \<Rightarrow> bool \<Rightarrow> string" where
  "get_inventory_query_for_machine m include_apps =
     concat (map snd (get_inventory_queries_for_machine m include_apps))"

subsection \<open>The configuration of a machine\<close>

text \<open>\<open>conf.setdefault(section, {})[key] = v\<close> and \<open>conf.setdefault(section, []).append(v)\<close>.\<close>

definition set_in_section :: "string \<Rightarrow> string \<Rightarrow> pyval \<Rightarrow> dict \<Rightarrow> dict" where
  "set_in_section section_name key v conf =
     dict_set section_name
       (PDict (dict_set key v (case dict_get conf section_name of Some (PDict d) \<Rightarrow> d | _ \<Rightarrow> []))) conf"

definition append_to_section :: "string \<Rightarrow> pyval \<Rightarrow> dict \<Rightarrow> dict" where
  "append_to_section section_name v conf =
     dict_set section_name
       (PList ((case dict_get conf section_name of Some (PList vs) \<Rightarrow> vs | _ \<Rightarrow> []) @ [v])) conf"

definition text_list :: "string list \<Rightarrow> pyval" where
  "text_list ss = PList (map PStr ss)"

definition inventory_schedule :: "machine_facts \<Rightarrow> configuration \<Rightarrow> pyval" where
  "inventory_schedule m c =
     PDict [(''query'', PStr (get_inventory_query_for_machine m (cf_inventory_apps c))),
            (''interval'', PInt (cf_inventory_interval c)),
            (''snapshot'', PBool True)]"

definition add_file_category :: "file_category \<Rightarrow> dict \<Rightarrow> dict" where
  "add_file_category fc conf =
     (let key = fc_slug fc;
          add = (\<lambda>section_name ss conf. if ss = [] then conf else set_in_section section_name key (text_list ss) conf);
          conf' = add ''file_paths_query'' (fc_file_paths_queries fc)
            (add ''exclude_paths'' (fc_exclude_paths fc) (add ''file_paths'' (fc_file_paths fc) conf))
      in if fc_access_monitoring fc then append_to_section ''file_accesses'' (PStr key) conf' else conf')"

definition add_atc :: "atc \<Rightarrow> dict \<Rightarrow> dict" where
  "add_atc a conf =
     set_in_section ''auto_table_construction'' (atc_table_name a)
       (PDict [(''query'', PStr (atc_query a)), (''path'', PStr (atc_path a)), (''columns'', text_list (atc_columns a)),
               (''platform'', PStr (if join_with '','' (atc_platforms a) = [] then ''all''
                                    else join_with '','' (atc_platforms a)))]) conf"

definition machine_packs :: "machine_facts \<Rightarrow> configuration \<Rightarrow> pack list" where
  "machine_packs m c =
     map cp_pack (filter (\<lambda>cp. cp_tags cp = [] \<or> list_ex (\<lambda>t. t \<in> set (mf_tags m)) (cp_tags cp)) (cf_packs c))"

definition add_pack :: "pack_query list \<Rightarrow> pack \<Rightarrow> dict \<Rightarrow> dict" where
  "add_pack pqs p conf = set_in_section ''packs'' (configuration_key p) (PDict (pack_serialize pqs p)) conf"

definition build_osquery_conf ::
  "server_urls \<Rightarrow> (string \<times> bool) list \<Rightarrow> pack_query list \<Rightarrow> machine_facts \<Rightarrow> configuration \<Rightarrow> dict" where
  "build_osquery_conf urls cli_only_flags pqs m c =
     (let conf = [(''decorators'', DECORATORS), (''options'', PDict (serialize_options urls cli_only_flags c))];
          conf1 = (if cf_inventory c
                   then set_in_section ''schedule'' INVENTORY_QUERY_NAME (inventory_schedule m c) conf else conf);
          conf2 = fold add_file_category (cf_file_categories c) conf1;
          conf3 = fold add_atc (cf_atcs c) conf2
      in fold (add_pack pqs) (machine_packs m c) conf3)"

end
