(* ===== verification/OsqueryTrees.thy ===== *)
theory OsqueryTrees imports Snapshots Certificates begin

text \<open>
  \<open>zentral/contrib/osquery/views/utils.py\<close>: the tree of a machine snapshot made of the rows of the
  inventory query of osquery, or of the details of the host in the enrollment.
\<close>

subsection \<open>Values\<close>

text \<open>
  A JSON value as a tree; a dictionary with a text under \<open>mt_hash\<close> has it apart. Numbers with a
  fraction are left out.
\<close>

fun tree_of :: "pyval \<Rightarrow> tree" and items_of :: "dict \<Rightarrow> items" and trees_of :: "pyval list \<Rightarrow> tree list" where
  "tree_of PNone = TNone"
| "tree_of (PBool b) = TBool b"
| "tree_of (PInt i) = TInt i"
| "tree_of (PStr s) = TStr s"
| "tree_of (PTime t) = TOther []"
| "tree_of (PList vs) = TList (trees_of vs)"
| "tree_of (PDict d) =
     (case dict_get d ''mt_hash'' of
        Some (PStr h) \<Rightarrow> TDict (Some h) (dict_del ''mt_hash'' (items_of d))
      | _ \<Rightarrow> TDict None (items_of d))"
| "items_of [] = []"
| "items_of ((k, v) # r) = (k, tree_of v) # items_of r"
| "trees_of [] = []"
| "trees_of (v # r) = tree_of v # trees_of r"

text \<open>\<open>==\<close>: the order of the items of a dictionary does not matter, and \<open>True == 1\<close>.\<close>

fun tree_eq :: "tree \<Rightarrow> tree \<Rightarrow> bool" and items_in :: "items \<Rightarrow> items \<Rightarrow> bool" and trees_eq :: "tree list \<Rightarrow> tree list \<Rightarrow> bool" where
  "tree_eq TNone v = (v = TNone)"
| "tree_eq (TBool b) v = (case v of TBool c \<Rightarrow> b = c | TInt i \<Rightarrow> i = of_bool b | _ \<Rightarrow> False)"
| "tree_eq (TInt i) v = (case v of TInt j \<Rightarrow> i = j | TBool c \<Rightarrow> i = of_bool c | _ \<Rightarrow> False)"
| "tree_eq (TStr s) v = (v = TStr s)"
| "tree_eq (TTime d) v = (v = TTime d)"
| "tree_eq (TOther s) v = (v = TOther s)"
| "tree_eq (TList vs) v = (case v of TList ws \<Rightarrow> trees_eq vs ws | _ \<Rightarrow> False)"
| "tree_eq (TDict h items) v =
     (case v of TDict h' items' \<Rightarrow> h = h' \<and> length items = length items' \<and> items_in items items' | _ \<Rightarrow> False)"
| "items_in [] items' = True"
| "items_in ((k, v) # r) items' =
     ((case dict_get items' k of None \<Rightarrow> False | Some w \<Rightarrow> tree_eq v w) \<and> items_in r items')"
| "trees_eq [] ws = (ws = [])"
| "trees_eq (v # r) ws = (case ws of [] \<Rightarrow> False | w # ws' \<Rightarrow> tree_eq v w \<and> trees_eq r ws')"

text \<open>A row, with its hash apart.\<close>

type_synonym row = "string option \<times> items"

definition dict_tree :: "row \<Rightarrow> tree" where
  "dict_tree r = TDict (fst r) (snd r)"

definition is_empty_row :: "row \<Rightarrow> bool" where
  "is_empty_row r \<longleftrightarrow> fst r = None \<and> snd r = []"

definition clean_text :: "string \<Rightarrow> string" where
  "clean_text s = strip (filter (\<lambda>c. c \<noteq> CHR 0x00) s)"

definition clean_value :: "tree \<Rightarrow> tree" where
  "clean_value v = (case v of TStr s \<Rightarrow> TStr (clean_text s) | _ \<Rightarrow> v)"

definition clean_dict :: "string list option \<Rightarrow> row \<Rightarrow> row" where
  "clean_dict keys_to_keep r =
     (let kept = (\<lambda>k. case keys_to_keep of None \<Rightarrow> True | Some ks \<Rightarrow> ks = [] \<or> k \<in> set ks) in
      (case fst r of
         None \<Rightarrow> None
       | Some h \<Rightarrow> if kept ''mt_hash'' \<and> clean_text h \<noteq> [] then Some (clean_text h) else None,
       filter (\<lambda>(k, v). v \<noteq> TNone \<and> v \<noteq> TStr [])
         (map (\<lambda>(k, v). (k, clean_value v)) (filter (\<lambda>(k, v). kept k) (snd r)))))"

text \<open>\<open>t.pop(k)\<close>, \<open>t.pop(k, None)\<close> and \<open>t.get(k)\<close>.\<close>

definition row_pop :: "string \<Rightarrow> row \<Rightarrow> pyerror + tree \<times> row" where
  "row_pop k r = (case dict_get (snd r) k of None \<Rightarrow> Inl (KeyError k) | Some v \<Rightarrow> Inr (v, (fst r, dict_del k (snd r))))"

definition row_get :: "string \<Rightarrow> row \<Rightarrow> tree" where
  "row_get k r = (case dict_get (snd r) k of None \<Rightarrow> TNone | Some v \<Rightarrow> v)"

definition row_item :: "string \<Rightarrow> row \<Rightarrow> pyerror + tree" where
  "row_item k r = (case dict_get (snd r) k of None \<Rightarrow> Inl (KeyError k) | Some v \<Rightarrow> Inr v)"

text \<open>\<open>int(v)\<close>.\<close>

definition int_of :: "tree \<Rightarrow> pyerror + int" where
  "int_of v =
     (case v of
        TInt i \<Rightarrow> Inr i
      | TBool b \<Rightarrow> Inr (of_bool b)
      | TStr s \<Rightarrow> (case parse_int s of Some i \<Rightarrow> Inr i | None \<Rightarrow> Inl ValueError)
      | _ \<Rightarrow> Inl TypeError)"

subsection \<open>Times\<close>

definition day_of_epoch :: int where
  "day_of_epoch = day_number 1970 1 1"

definition utc_datetime :: "int \<Rightarrow> int \<Rightarrow> pyerror + datetime" where
  "utc_datetime day seconds =
     (case date_of_day day of (y, m, d) \<Rightarrow>
        if 1 \<le> y \<and> y \<le> 9999
        then Inr \<lparr>dt_year = nat y, dt_month = nat m, dt_day = nat d, dt_hour = nat (seconds div 3600),
                  dt_minute = nat (seconds mod 3600 div 60), dt_second = nat (seconds mod 60),
                  dt_microsecond = 0, dt_utcoffset = None\<rparr>
        else Inl ValueError)"

definition utcfromtimestamp :: "int \<Rightarrow> pyerror + datetime" where
  "utcfromtimestamp n = utc_datetime (day_of_epoch + n div 86400) (n mod 86400)"

text \<open>
  \<open>datetime.strptime(s, "%Y%m%d")\<close>: four digits, then the first of the months that leaves a day, the
  days and the months tried in the order of their expressions.
\<close>

definition leap :: "int \<Rightarrow> bool" where
  "leap y \<longleftrightarrow> 4 dvd y \<and> (\<not> 100 dvd y \<or> 400 dvd y)"

definition days_in_month :: "int \<Rightarrow> int \<Rightarrow> int" where
  "days_in_month y m =
     (if m = 2 then (if leap y then 29 else 28) else if m \<in> {4, 6, 9, 11} then 30 else 31)"

definition digit_in :: "nat \<Rightarrow> nat \<Rightarrow> char \<Rightarrow> bool" where
  "digit_in lo hi c \<longleftrightarrow> 48 + lo \<le> (of_char c :: nat) \<and> (of_char c :: nat) \<le> 48 + hi"

definition month_matches :: "string \<Rightarrow> (string \<times> string) list" where
  "month_matches s =
     (case s of
        a # b # r \<Rightarrow>
          (if a = CHR ''1'' \<and> digit_in 0 2 b \<or> a = CHR ''0'' \<and> digit_in 1 9 b then [([a, b], r)] else []) @
          (if digit_in 1 9 a then [([a], b # r)] else [])
      | [a] \<Rightarrow> if digit_in 1 9 a then [([a], [])] else []
      | [] \<Rightarrow> [])"

definition day_match :: "string \<Rightarrow> (string \<times> string) option" where
  "day_match s =
     (case s of
        a # b # r \<Rightarrow>
          if a = CHR ''3'' \<and> digit_in 0 1 b \<or> digit_in 1 2 a \<and> is_digit b \<or> a = CHR ''0'' \<and> digit_in 1 9 b
          then Some ([a, b], r)
          else if digit_in 1 9 a then Some ([a], b # r)
          else if a = CHR '' '' \<and> digit_in 1 9 b then Some ([b], r) else None
      | [a] \<Rightarrow> if digit_in 1 9 a then Some ([a], []) else None
      | [] \<Rightarrow> None)"

definition strptime_date :: "string \<Rightarrow> pyerror + datetime" where
  "strptime_date s =
     (let year = take 4 s in
      if length year < 4 \<or> \<not> list_all is_digit year then Inl ValueError
      else
        (case List.map_filter (\<lambda>(m, r). map_option (\<lambda>(d, rest). (m, d, rest)) (day_match r)) (month_matches (drop 4 s)) of
           [] \<Rightarrow> Inl ValueError
         | (m, d, rest) # _ \<Rightarrow>
             (let y = int (digits_value 0 year); mo = int (digits_value 0 m); da = int (digits_value 0 d) in
              if rest \<noteq> [] \<or> y < 1 \<or> days_in_month y mo < da then Inl ValueError
              else utc_datetime (day_number y mo da) 0)))"

subsection \<open>The parts of the tree\<close>

definition os_version_keys :: "string list" where
  "os_version_keys = [''name'', ''major'', ''minor'', ''patch'', ''build'']"

definition system_info_keys :: "string list" where
  "system_info_keys =
     [''computer_name'', ''hostname'', ''hardware_model'', ''hardware_serial'', ''cpu_type'', ''cpu_subtype'',
      ''cpu_brand'', ''cpu_physical_cores'', ''cpu_logical_cores'', ''physical_memory'']"

definition set_part :: "string \<Rightarrow> row \<Rightarrow> items \<Rightarrow> items" where
  "set_part k part tree = (if is_empty_row part then tree else dict_set k (dict_tree part) tree)"

definition update_os_version :: "items \<Rightarrow> row \<Rightarrow> items" where
  "update_os_version tree t = set_part ''os_version'' (clean_dict (Some os_version_keys) t) tree"

definition update_system_info :: "items \<Rightarrow> row \<Rightarrow> items" where
  "update_system_info tree t = set_part ''system_info'' (clean_dict (Some system_info_keys) t) tree"

definition update_system_uptime :: "items \<Rightarrow> row \<Rightarrow> items" where
  "update_system_uptime tree t =
     (case bind_result (row_item ''total_seconds'' t) int_of of
        Inl _ \<Rightarrow> tree
      | Inr n \<Rightarrow> if 0 < n then dict_set ''system_uptime'' (TInt n) tree else tree)"

text \<open>\<open>if x not in xs: xs.append(x)\<close>, for an object that is not empty.\<close>

definition append_new :: "row \<Rightarrow> tree list \<Rightarrow> tree list" where
  "append_new r xs =
     (if is_empty_row r \<or> list_ex (\<lambda>x. tree_eq x (dict_tree r)) xs then xs else xs @ [dict_tree r])"

definition collect_disk :: "tree list \<Rightarrow> row \<Rightarrow> tree list" where
  "collect_disk disks t = append_new (clean_dict None t) disks"

definition collect_network_interface :: "tree list \<Rightarrow> row \<Rightarrow> tree list" where
  "collect_network_interface network_interfaces t = append_new (clean_dict None t) network_interfaces"

definition deb_package_keys :: "string list" where
  "deb_package_keys =
     [''name'', ''version'', ''source'', ''size'', ''arch'', ''revision'', ''status'', ''maintainer'', ''section'', ''priority'']"

definition collect_deb_package :: "tree list \<Rightarrow> row \<Rightarrow> tree list" where
  "collect_deb_package deb_packages t =
     append_new (clean_dict None (None, map (\<lambda>k. (k, row_get k t)) deb_package_keys)) deb_packages"

definition collect_osx_app_instance :: "tree list \<Rightarrow> row \<Rightarrow> pyerror + tree list" where
  "collect_osx_app_instance osx_app_instances t =
     bind_result (row_pop ''bundle_path'' t) (\<lambda>(bundle_path, t').
       let osx_app = clean_dict None t' in
       Inr (if is_empty_row osx_app \<or> \<not> tree_truthy bundle_path then osx_app_instances
            else append_new (None, [(''app'', dict_tree osx_app), (''bundle_path'', bundle_path)]) osx_app_instances))"

definition program_keys :: "string list" where
  "program_keys = [''name'', ''version'', ''language'', ''publisher'', ''identifying_number'']"

definition program_install_date :: "row \<Rightarrow> pyerror + row" where
  "program_install_date program_instance =
     (let install_date = row_get ''install_date'' program_instance;
          rest = (fst program_instance, dict_del ''install_date'' (snd program_instance)) in
      if \<not> tree_truthy install_date then Inr rest
      else
        (case install_date of
           TStr s \<Rightarrow>
             (case strptime_date s of
                Inr d \<Rightarrow> Inr (fst rest, snd rest @ [(''install_date'', TTime d)])
              | Inl _ \<Rightarrow> Inr rest)
         | _ \<Rightarrow> Inl TypeError))"

definition collect_program_instance :: "tree list \<Rightarrow> row \<Rightarrow> pyerror + tree list" where
  "collect_program_instance program_instances t =
     (let program = clean_dict None (None, map (\<lambda>k. (k, row_get k t)) program_keys);
          rest = (fst t, filter (\<lambda>(k, v). k \<notin> set program_keys) (snd t)) in
      bind_result (program_install_date (clean_dict None rest)) (\<lambda>program_instance.
        Inr (if is_empty_row program \<or> is_empty_row program_instance then program_instances
             else append_new (fst program_instance, dict_set ''program'' (dict_tree program) (snd program_instance))
                    program_instances)))"

text \<open>The principal user and its source, which is the dictionary under \<open>source\<close>.\<close>

definition sub_items :: "string \<Rightarrow> items \<Rightarrow> items" where
  "sub_items k items = (case dict_get items k of Some (TDict h sub) \<Rightarrow> sub | _ \<Rightarrow> [])"

definition default_pu_source :: items where
  "default_pu_source = [(''type'', TStr ''COMPANY_PORTAL'')]"

definition collect_principal_user :: "items \<Rightarrow> row \<Rightarrow> items" where
  "collect_principal_user principal_user t =
     (let pu = (if dict_get principal_user ''source'' = None
                then dict_set ''source'' (TDict None default_pu_source) principal_user else principal_user);
          key = row_get ''key'' t;
          value = row_get ''value'' t;
          pu_key = (if key = TStr ''aadUniqueId'' then Some ''unique_id''
                    else if key = TStr ''aadUserId'' then Some ''principal_name'' else None);
          pu_src_prop_key = (if key = TStr ''version'' then Some ''version''
                    else if key = TStr ''aadAuthorityUrl'' \<and> tree_truthy value then Some ''azure_ad_authority_url''
                    else None)
      in if \<not> tree_truthy value then pu
         else
           (case pu_key of
              Some k \<Rightarrow> dict_set k value pu
            | None \<Rightarrow>
                (case pu_src_prop_key of
                   None \<Rightarrow> pu
                 | Some k \<Rightarrow>
                     (let src = sub_items ''source'' pu in
                      dict_set ''source''
                        (TDict None (dict_set ''properties'' (TDict None (dict_set k value (sub_items ''properties'' src))) src)) pu))))"

definition get_dn_value_from_dn_d :: "(string \<times> string list) list \<Rightarrow> string \<Rightarrow> tree" where
  "get_dn_value_from_dn_d dn_d attr =
     (case dict_get dn_d attr of Some (v # vs) \<Rightarrow> TStr (last (v # vs)) | _ \<Rightarrow> TNone)"

definition get_domain_from_dn_d :: "(string \<times> string list) list \<Rightarrow> tree" where
  "get_domain_from_dn_d dn_d =
     (case dict_get dn_d ''DC'' of Some (v # vs) \<Rightarrow> TStr (join_with ''.'' (rev (v # vs))) | _ \<Rightarrow> TNone)"

definition dn_items :: "(string \<times> string list) list \<Rightarrow> items" where
  "dn_items dn_d =
     [(''common_name'', get_dn_value_from_dn_d dn_d ''CN''),
      (''organization'', get_dn_value_from_dn_d dn_d ''O''),
      (''organizational_unit'', get_dn_value_from_dn_d dn_d ''OU''),
      (''domain'', get_domain_from_dn_d dn_d)]"

definition text_dn :: "tree \<Rightarrow> pyerror + (string \<times> string list) list" where
  "text_dn v = (case v of TStr s \<Rightarrow> Inr (parse_text_dn s) | _ \<Rightarrow> Inl TypeError)"

definition row_time :: "string \<Rightarrow> row \<Rightarrow> pyerror + tree" where
  "row_time k t =
     bind_result (row_item k t) (\<lambda>v. bind_result (int_of v) (\<lambda>n. bind_result (utcfromtimestamp n) (\<lambda>d. Inr (TTime d))))"

definition certificate_tree :: "row \<Rightarrow> pyerror + tree" where
  "certificate_tree t =
     bind_result (bind_result (row_item ''subject'' t) text_dn) (\<lambda>subject_d.
     bind_result (bind_result (row_item ''issuer'' t) text_dn) (\<lambda>issuer_d.
     bind_result (row_item ''sha1'' t) (\<lambda>sha_1.
     bind_result (row_time ''not_valid_before'' t) (\<lambda>valid_from.
     bind_result (row_time ''not_valid_after'' t) (\<lambda>valid_until.
       Inr (TDict None
         (dn_items subject_d @
          [(''sha_1'', sha_1), (''valid_from'', valid_from), (''valid_until'', valid_until),
           (''signed_by'', TDict None (dn_items issuer_d))])))))))"

definition collect_certificate :: "tree list \<Rightarrow> row \<Rightarrow> pyerror + tree list" where
  "collect_certificate certificates t = bind_result (certificate_tree t) (\<lambda>c. Inr (certificates @ [c]))"

subsection \<open>The tree\<close>

record collected =
  co_tree :: items
  co_deb_packages :: "tree list"
  co_disks :: "tree list"
  co_network_interfaces :: "tree list"
  co_osx_app_instances :: "tree list"
  co_program_instances :: "tree list"
  co_principal_user :: items
  co_certificates :: "tree list"

definition collect_table :: "tree \<Rightarrow> row \<Rightarrow> collected \<Rightarrow> pyerror + collected" where
  "collect_table table_name t co =
     (if table_name = TStr ''os_version'' then Inr (co\<lparr>co_tree := update_os_version (co_tree co) t\<rparr>)
      else if table_name = TStr ''system_info'' then Inr (co\<lparr>co_tree := update_system_info (co_tree co) t\<rparr>)
      else if table_name = TStr ''uptime'' then Inr (co\<lparr>co_tree := update_system_uptime (co_tree co) t\<rparr>)
      else if table_name = TStr ''disks'' then Inr (co\<lparr>co_disks := collect_disk (co_disks co) t\<rparr>)
      else if table_name = TStr ''network_interface''
        then Inr (co\<lparr>co_network_interfaces := collect_network_interface (co_network_interfaces co) t\<rparr>)
      else if table_name = TStr ''deb_packages''
        then Inr (co\<lparr>co_deb_packages := collect_deb_package (co_deb_packages co) t\<rparr>)
      else if table_name = TStr ''apps''
        then bind_result (collect_osx_app_instance (co_osx_app_instances co) t) (\<lambda>xs. Inr (co\<lparr>co_osx_app_instances := xs\<rparr>))
      else if table_name = TStr ''company_portal''
        then Inr (co\<lparr>co_principal_user := collect_principal_user (co_principal_user co) t\<rparr>)
      else if table_name = TStr ''certificates''
        then bind_result (collect_certificate (co_certificates co) t) (\<lambda>xs. Inr (co\<lparr>co_certificates := xs\<rparr>))
      else if table_name = TStr ''programs''
        then bind_result (collect_program_instance (co_program_instances co) t) (\<lambda>xs. Inr (co\<lparr>co_program_instances := xs\<rparr>))
      else Inr co)"

definition collect_row :: "tree \<Rightarrow> collected \<Rightarrow> pyerror + collected" where
  "collect_row v co =
     (case v of
        TDict h items \<Rightarrow> bind_result (row_pop ''table_name'' (h, items)) (\<lambda>(table_name, t). collect_table table_name t co)
      | TList _ \<Rightarrow> Inl TypeError
      | _ \<Rightarrow> Inl AttributeError)"

fun collect_rows :: "tree list \<Rightarrow> collected \<Rightarrow> pyerror + collected" where
  "collect_rows [] co = Inr co"
| "collect_rows (v # vs) co = bind_result (collect_row v co) (collect_rows vs)"

definition nothing_collected :: "items \<Rightarrow> collected" where
  "nothing_collected tree =
     \<lparr>co_tree = tree, co_deb_packages = [], co_disks = [], co_network_interfaces = [], co_osx_app_instances = [],
      co_program_instances = [], co_principal_user = [], co_certificates = []\<rparr>"

definition set_list :: "string \<Rightarrow> tree list \<Rightarrow> items \<Rightarrow> items" where
  "set_list k xs tree = (if xs = [] then tree else dict_set k (TList xs) tree)"

definition collected_tree :: "collected \<Rightarrow> items" where
  "collected_tree co =
     set_list ''certificates'' (co_certificates co)
       ((\<lambda>tree. if co_principal_user co = [] then tree
                else dict_set ''principal_user'' (TDict None (co_principal_user co)) tree)
       (set_list ''program_instances'' (co_program_instances co)
       (set_list ''osx_app_instances'' (co_osx_app_instances co)
       (set_list ''network_interfaces'' (co_network_interfaces co)
       (set_list ''disks'' (co_disks co)
       (set_list ''deb_packages'' (co_deb_packages co) (co_tree co)))))))"

text \<open>The rows: a list, or another value that is not empty, whose items are no dictionaries.\<close>

definition update_tree_with_inventory_query_snapshot :: "items \<Rightarrow> tree \<Rightarrow> pyerror + items" where
  "update_tree_with_inventory_query_snapshot tree snapshot =
     (case snapshot of
        TList rows \<Rightarrow> bind_result (collect_rows rows (nothing_collected tree)) (\<lambda>co. Inr (collected_tree co))
      | TStr _ \<Rightarrow> Inl AttributeError
      | TDict h items \<Rightarrow> Inl AttributeError
      | _ \<Rightarrow> Inl TypeError)"

text \<open>A part of the details of the host that is not empty has to be a dictionary.\<close>

definition host_part :: "(items \<Rightarrow> row \<Rightarrow> items) \<Rightarrow> string \<Rightarrow> items \<Rightarrow> items \<Rightarrow> pyerror + items" where
  "host_part update k details tree =
     (case dict_get details k of
        None \<Rightarrow> Inr tree
      | Some v \<Rightarrow>
          if \<not> tree_truthy v then Inr tree
          else (case v of TDict h items \<Rightarrow> Inr (update tree (h, items)) | _ \<Rightarrow> Inl AttributeError))"

definition update_tree_with_enrollment_host_details :: "items \<Rightarrow> tree \<Rightarrow> pyerror + items" where
  "update_tree_with_enrollment_host_details tree host_details =
     (if \<not> tree_truthy host_details then Inr tree
      else
        (case host_details of
           TDict h details \<Rightarrow>
             bind_result (host_part update_os_version ''os_version'' details tree) (\<lambda>tree1.
               host_part update_system_info ''system_info'' details tree1)
         | _ \<Rightarrow> Inl AttributeError))"

end
