(* ===== verification/MetaMachines.thy ===== *)
theory MetaMachines imports Snapshots begin

text \<open>
  \<open>MetaMachine\<close> of \<open>zentral/contrib/inventory/models.py\<close>: what is known of a machine from its
  current snapshots, its tags, and the information that is put in its events and read by the
  filters of the probes.
\<close>

subsection \<open>Tags\<close>

record taxonomy =
  tx_pk :: nat
  tx_meta_business_unit :: "nat option"
  tx_name :: string

record tag =
  tag_pk :: nat
  tag_taxonomy :: "nat option"
  tag_meta_business_unit :: "nat option"
  tag_name :: string
  tag_slug :: string

record tag_db =
  td_taxonomies :: "taxonomy list"
  td_tags :: "tag list"
  td_machine_tags :: "(string \<times> nat) list"
  td_meta_business_unit_tags :: "(nat \<times> nat) list"

definition mbu_str :: "inventory_db \<Rightarrow> nat \<Rightarrow> string" where
  "mbu_str db pk = (case get_one (\<lambda>m. mbu_pk m = pk) (meta_business_units db) of Inr m \<Rightarrow> mbu_name m | Inl _ \<Rightarrow> [])"

definition taxonomy_str :: "inventory_db \<Rightarrow> taxonomy \<Rightarrow> string" where
  "taxonomy_str db tx =
     (case tx_meta_business_unit tx of
        Some pk \<Rightarrow> mbu_str db pk @ ''/'' @ tx_name tx
      | None \<Rightarrow> tx_name tx)"

definition tag_str :: "inventory_db \<Rightarrow> tag_db \<Rightarrow> tag \<Rightarrow> string" where
  "tag_str db td t =
     (case Option.bind (tag_taxonomy t) (\<lambda>pk. find (\<lambda>tx. tx_pk tx = pk) (td_taxonomies td)) of
        Some tx \<Rightarrow> taxonomy_str db tx @ '': '' @ tag_name t
      | None \<Rightarrow>
          (case tag_meta_business_unit t of
             Some pk \<Rightarrow> mbu_str db pk @ ''/'' @ tag_name t
           | None \<Rightarrow> tag_name t))"

text \<open>
  The order \<open>(t.meta_business_unit is None, str(t).upper())\<close>: the tags of a business unit first.
\<close>

definition sort_tags :: "inventory_db \<Rightarrow> tag_db \<Rightarrow> ('a \<Rightarrow> tag) \<Rightarrow> 'a list \<Rightarrow> 'a list" where
  "sort_tags db td f xs =
     (let by_name = sort_key (\<lambda>x. str_key (upper (tag_str db td (f x)))) in
      by_name (filter (\<lambda>x. tag_meta_business_unit (f x) \<noteq> None) xs) @
      by_name (filter (\<lambda>x. tag_meta_business_unit (f x) = None) xs))"

definition available_for_meta_business_unit :: "nat \<Rightarrow> tag_db \<Rightarrow> tag list" where
  "available_for_meta_business_unit mbu td =
     filter (\<lambda>t. tag_meta_business_unit t = Some mbu \<or> tag_meta_business_unit t = None) (td_tags td)"

subsection \<open>Rows\<close>

text \<open>A text column, the row a key names, and the value of a column in a JSON object of the database.\<close>

definition text_of :: "mt_row \<Rightarrow> string \<Rightarrow> string option" where
  "text_of r k = (case dict_get (row_values r) k of Some (SValue (TStr s)) \<Rightarrow> Some s | _ \<Rightarrow> None)"

definition related_row :: "string \<Rightarrow> mt_row \<Rightarrow> string \<Rightarrow> inventory_db \<Rightarrow> mt_row option" where
  "related_row m r k db =
     (case dict_get (row_values r) k of
        Some (SKey (Some pk)) \<Rightarrow> (case row_by_pk m pk db of Inr q \<Rightarrow> Some q | Inl _ \<Rightarrow> None)
      | _ \<Rightarrow> None)"

definition json_column :: "mt_row \<Rightarrow> string \<Rightarrow> pyval" where
  "json_column r k = (case dict_get (row_values r) k of Some (SValue t) \<Rightarrow> plain_value t | _ \<Rightarrow> PNone)"

subsection \<open>The snapshots of a machine\<close>

definition is_current :: "inventory_db \<Rightarrow> mt_row \<Rightarrow> bool" where
  "is_current db ms \<longleftrightarrow> list_ex (\<lambda>c. cms_machine_snapshot c = row_pk ms) (current_machine_snapshots db)"

definition mm_snapshots :: "inventory_db \<Rightarrow> string \<Rightarrow> mt_row list" where
  "mm_snapshots db serial_number =
     filter (\<lambda>ms. text_of ms ''serial_number'' = Some serial_number)
       (filter (is_current db) (tables db ''MachineSnapshot''))"

definition mm_computer_name :: "inventory_db \<Rightarrow> string \<Rightarrow> string option" where
  "mm_computer_name db serial_number =
     (case List.map_filter (\<lambda>ms. case related_row ''SystemInfo'' ms ''system_info'' db of
             None \<Rightarrow> None
           | Some si \<Rightarrow> if truthy_str (text_of si ''computer_name'') then text_of si ''computer_name'' else None)
         (mm_snapshots db serial_number) of
        [] \<Rightarrow> None | n # _ \<Rightarrow> Some n)"

definition get_machine_str :: "inventory_db \<Rightarrow> mt_row \<Rightarrow> string" where
  "get_machine_str db ms =
     (case related_row ''SystemInfo'' ms ''system_info'' db of
        None \<Rightarrow> row_text ''serial_number'' ms
      | Some si \<Rightarrow>
          if truthy_str (text_of si ''computer_name'') then the (text_of si ''computer_name'')
          else if truthy_str (text_of si ''hostname'') then the (text_of si ''hostname'')
          else row_text ''serial_number'' ms)"

definition source_name :: "inventory_db \<Rightarrow> mt_row \<Rightarrow> string" where
  "source_name db r = (case related_row ''Source'' r ''source'' db of None \<Rightarrow> [] | Some s \<Rightarrow> row_text ''name'' s)"

definition source_module :: "inventory_db \<Rightarrow> mt_row \<Rightarrow> string" where
  "source_module db r = (case related_row ''Source'' r ''source'' db of None \<Rightarrow> [] | Some s \<Rightarrow> row_text ''module'' s)"

definition names_with_sources :: "inventory_db \<Rightarrow> string \<Rightarrow> (string \<times> string list) list" where
  "names_with_sources db serial_number =
     fold (\<lambda>ms. group_append (get_machine_str db ms) (source_name db ms)) (mm_snapshots db serial_number) []"

text \<open>\<open>Counter(xs).most_common(1)[0][0]\<close>: the first of the values that come most often.\<close>

definition more_common :: "'a list \<Rightarrow> 'a \<Rightarrow> 'a \<Rightarrow> 'a" where
  "more_common xs best y = (if count_list xs best < count_list xs y then y else best)"

definition most_common :: "'a list \<Rightarrow> 'a option" where
  "most_common xs =
     (case xs of
        [] \<Rightarrow> None
      | x # r \<Rightarrow> Some (foldl (more_common xs) x r))"

lemma more_common_foldl:
  "foldl (more_common xs) a ys \<in> insert a (set ys) \<and>
   (\<forall>y \<in> insert a (set ys). count_list xs y \<le> count_list xs (foldl (more_common xs) a ys))"
proof (induction ys arbitrary: a)
  case (Cons y ys)
  from Cons.IH [of "more_common xs a y"] show ?case by (auto simp: more_common_def split: if_splits)
qed simp

lemma most_common_max:
  assumes "most_common xs = Some x"
  shows "x \<in> set xs" "y \<in> set xs \<Longrightarrow> count_list xs y \<le> count_list xs x"
  using assms more_common_foldl [of xs "hd xs" "tl xs"] by (cases xs; fastforce simp: most_common_def)+

lemma most_common_distinct:
  assumes "distinct (x # xs)"
  shows "most_common (x # xs) = Some x"
proof -
  have one: "count_list zs y = 1" if "distinct zs" "y \<in> set zs" for zs :: "'a list" and y
    using that by (induction zs) auto
  note count = one [OF assms]
  have "foldl (more_common (x # xs)) x ys = x" if "set ys \<subseteq> set xs" for ys
    using that
  proof (induction ys rule: rev_induct)
    case (snoc y ys)
    then have "y \<in> set (x # xs)" "x \<in> set (x # xs)" by simp_all
    from count [OF this(1)] count [OF this(2)]
    have "more_common (x # xs) x y = x" unfolding more_common_def by presburger
    with snoc show ?case by simp
  qed simp
  then show ?thesis by (simp add: most_common_def)
qed

definition truthy_texts :: "string \<Rightarrow> mt_row list \<Rightarrow> string list" where
  "truthy_texts k rows =
     List.map_filter (\<lambda>r. if truthy_str (text_of r k) then text_of r k else None) rows"

definition mm_platform :: "inventory_db \<Rightarrow> string \<Rightarrow> string option" where
  "mm_platform db serial_number = most_common (truthy_texts ''platform'' (mm_snapshots db serial_number))"

definition mm_type :: "inventory_db \<Rightarrow> string \<Rightarrow> string option" where
  "mm_type db serial_number = most_common (truthy_texts ''type'' (mm_snapshots db serial_number))"

definition mm_has_deb_packages :: "inventory_db \<Rightarrow> string \<Rightarrow> bool" where
  "mm_has_deb_packages db serial_number =
     list_ex (\<lambda>ms. has_deb_packages (map_option (\<lambda>v. text_of v ''name'')
         (related_row ''OSVersion'' ms ''os_version'' db))) (mm_snapshots db serial_number)"

definition snapshots_with :: "string \<Rightarrow> inventory_db \<Rightarrow> string \<Rightarrow> mt_row list" where
  "snapshots_with k db serial_number =
     filter (\<lambda>ms. case dict_get (row_values ms) k of Some (SKeys pks) \<Rightarrow> pks \<noteq> [] | _ \<Rightarrow> False)
       (mm_snapshots db serial_number)"

subsection \<open>Business units\<close>

definition is_api_enrollment_business_unit :: "inventory_db \<Rightarrow> mt_row \<Rightarrow> bool" where
  "is_api_enrollment_business_unit db bu \<longleftrightarrow> source_module db bu = ''zentral.contrib.inventory''"

definition mm_business_units :: "bool \<Rightarrow> inventory_db \<Rightarrow> string \<Rightarrow> mt_row list" where
  "mm_business_units include_api_enrollment db serial_number =
     filter (\<lambda>bu. include_api_enrollment \<or> \<not> is_api_enrollment_business_unit db bu)
       (List.map_filter (\<lambda>ms. related_row ''BusinessUnit'' ms ''business_unit'' db) (mm_snapshots db serial_number))"

definition mm_meta_business_units :: "inventory_db \<Rightarrow> string \<Rightarrow> nat list" where
  "mm_meta_business_units db serial_number =
     remdups (List.map_filter row_mbu (mm_business_units True db serial_number))"

definition api_enrollment_business_units :: "inventory_db \<Rightarrow> nat \<Rightarrow> mt_row list" where
  "api_enrollment_business_units db mbu =
     sort_key (\<lambda>bu. - int (row_pk bu))
       (filter (\<lambda>bu. row_mbu bu = Some mbu \<and> is_api_enrollment_business_unit db bu) (tables db ''BusinessUnit''))"

definition get_api_enrollment_business_unit :: "inventory_db \<Rightarrow> nat \<Rightarrow> mt_row option" where
  "get_api_enrollment_business_unit db mbu =
     (case api_enrollment_business_units db mbu of [] \<Rightarrow> None | bu # _ \<Rightarrow> Some bu)"

definition bu_current :: "inventory_db \<Rightarrow> mt_row \<Rightarrow> bool" where
  "bu_current db bu \<longleftrightarrow>
     list_ex (\<lambda>ms. is_current db ms \<and> dict_get (row_values ms) ''business_unit'' = Some (SKey (Some (row_pk bu))))
       (tables db ''MachineSnapshot'')"

definition get_current_business_units :: "inventory_db \<Rightarrow> nat \<Rightarrow> mt_row list" where
  "get_current_business_units db mbu =
     filter (\<lambda>bu. bu_current db bu \<and> \<not> is_api_enrollment_business_unit db bu \<and> row_mbu bu = Some mbu)
       (tables db ''BusinessUnit'')"

definition can_be_detached :: "inventory_db \<Rightarrow> mt_row \<Rightarrow> bool" where
  "can_be_detached db bu \<longleftrightarrow>
     \<not> is_api_enrollment_business_unit db bu \<and>
     (case row_mbu bu of None \<Rightarrow> False | Some mbu \<Rightarrow> length (get_current_business_units db mbu) > 1)"

definition set_meta_business_unit :: "nat \<Rightarrow> mt_row \<Rightarrow> mt_row" where
  "set_meta_business_unit mbu bu = bu\<lparr>row_extra := dict_set ''meta_business_unit'' (SKey (Some mbu)) (row_extra bu)\<rparr>"

text \<open>The unit of the business unit after the call, and the tables.\<close>

definition detach :: "mt_row \<Rightarrow> inventory_db \<Rightarrow> nat option \<times> inventory_db" where
  "detach bu db =
     (if \<not> can_be_detached db bu then (row_mbu bu, db)
      else
        (let mbu = \<lparr>mbu_pk = fresh_pk (map mbu_pk (meta_business_units db)), mbu_name = row_text ''name'' bu\<rparr>
         in (Some (mbu_pk mbu),
             db\<lparr>meta_business_units := meta_business_units db @ [mbu],
                tables := (tables db)(''BusinessUnit'' :=
                  update_where (\<lambda>r. row_pk r = row_pk bu) (set_meta_business_unit (mbu_pk mbu))
                    (tables db ''BusinessUnit''))\<rparr>)))"

subsection \<open>The tags of a machine\<close>

definition tags_by_pk :: "tag_db \<Rightarrow> nat list \<Rightarrow> tag list" where
  "tags_by_pk td pks = List.map_filter (\<lambda>pk. find (\<lambda>t. tag_pk t = pk) (td_tags td)) pks"

definition machine_tag_pks :: "tag_db \<Rightarrow> string \<Rightarrow> nat list" where
  "machine_tag_pks td serial_number = map snd (filter (\<lambda>mt. fst mt = serial_number) (td_machine_tags td))"

definition mbu_tag_pks :: "tag_db \<Rightarrow> nat list \<Rightarrow> nat list" where
  "mbu_tag_pks td mbus = map snd (filter (\<lambda>mt. fst mt \<in> set mbus) (td_meta_business_unit_tags td))"

definition tags_with_types :: "inventory_db \<Rightarrow> tag_db \<Rightarrow> string \<Rightarrow> (string \<times> tag) list" where
  "tags_with_types db td serial_number =
     sort_tags db td snd
       (map (Pair ''machine'') (tags_by_pk td (machine_tag_pks td serial_number)) @
        map (Pair ''meta_business_unit'')
          (tags_by_pk td (mbu_tag_pks td (mm_meta_business_units db serial_number))))"

definition mm_tags :: "inventory_db \<Rightarrow> tag_db \<Rightarrow> string \<Rightarrow> tag list" where
  "mm_tags db td serial_number =
     sort_tags db td id (remdups (map snd (tags_with_types db td serial_number)))"

definition available_tags :: "inventory_db \<Rightarrow> tag_db \<Rightarrow> string \<Rightarrow> tag list" where
  "available_tags db td serial_number =
     sort_tags db td id
       (filter (\<lambda>t. t \<notin> set (mm_tags db td serial_number))
         (remdups (concat (map (\<lambda>mbu. available_for_meta_business_unit mbu td) (mm_meta_business_units db serial_number)))))"

text \<open>The rows joined to the current snapshots of the serial number, in the queries written in SQL.\<close>

definition current_rows :: "inventory_db \<Rightarrow> string \<Rightarrow> mt_row list" where
  "current_rows db serial_number =
     concat (map (\<lambda>c. filter (\<lambda>ms. row_pk ms = cms_machine_snapshot c) (tables db ''MachineSnapshot''))
       (filter (\<lambda>c. cms_serial_number c = serial_number) (current_machine_snapshots db)))"

definition current_units :: "inventory_db \<Rightarrow> string \<Rightarrow> mt_row list" where
  "current_units db serial_number =
     List.map_filter (\<lambda>ms. related_row ''BusinessUnit'' ms ''business_unit'' db) (current_rows db serial_number)"

definition sql_tag_pks :: "inventory_db \<Rightarrow> tag_db \<Rightarrow> string \<Rightarrow> nat list" where
  "sql_tag_pks db td serial_number =
     remdups (machine_tag_pks td serial_number @
       mbu_tag_pks td (List.map_filter row_mbu (current_units db serial_number)))"

definition tag_names :: "inventory_db \<Rightarrow> tag_db \<Rightarrow> string \<Rightarrow> string list" where
  "tag_names db td serial_number =
     sort_key (\<lambda>n. str_key (lower n))
       (map tag_name (filter (\<lambda>t. tag_pk t \<in> set (sql_tag_pks db td serial_number)) (td_tags td)))"

definition mm_archive :: "string \<Rightarrow> inventory_db \<Rightarrow> inventory_db" where
  "mm_archive serial_number db =
     db\<lparr>current_machine_snapshots :=
          delete_where (\<lambda>c. cms_serial_number c = serial_number) (current_machine_snapshots db)\<rparr>"

definition has_recent_source_snapshot :: "inventory_db \<Rightarrow> datetime \<Rightarrow> string \<Rightarrow> string \<Rightarrow> bool" where
  "has_recent_source_snapshot db since module serial_number \<longleftrightarrow>
     list_ex (\<lambda>c. cms_serial_number c = serial_number \<and>
        (case row_by_pk ''Source'' (cms_source c) db of Inr s \<Rightarrow> row_text ''module'' s = module | Inl _ \<Rightarrow> False) \<and>
        list_ex (\<lambda>k. msc_machine_snapshot k = cms_machine_snapshot c \<and>
            (case msc_last_seen k of None \<Rightarrow> False | Some t \<Rightarrow> time_number since < time_number t))
          (machine_snapshot_commits db))
       (current_machine_snapshots db)"

subsection \<open>Taxonomies\<close>

text \<open>\<open>Tag.objects.get_or_create(taxonomy=..., name=...)\<close>: names and slugs are unique.\<close>

definition get_or_create_tag :: "(string \<Rightarrow> string) \<Rightarrow> nat \<Rightarrow> string \<Rightarrow> tag_db \<Rightarrow> pyerror + tag \<times> tag_db" where
  "get_or_create_tag slugify tx name td =
     (case find (\<lambda>t. tag_taxonomy t = Some tx \<and> tag_name t = name) (td_tags td) of
        Some t \<Rightarrow> Inr (t, td)
      | None \<Rightarrow>
          if list_ex (\<lambda>t. tag_name t = name \<or> tag_slug t = slugify name) (td_tags td) then Inl IntegrityError
          else
            (let t = \<lparr>tag_pk = fresh_pk (map tag_pk (td_tags td)), tag_taxonomy = Some tx,
                      tag_meta_business_unit = None, tag_name = name, tag_slug = slugify name\<rparr>
             in Inr (t, td\<lparr>td_tags := td_tags td @ [t]\<rparr>)))"

definition add_machine_tag :: "string \<Rightarrow> nat \<Rightarrow> tag_db \<Rightarrow> tag_db" where
  "add_machine_tag serial_number pk td =
     (if (serial_number, pk) \<in> set (td_machine_tags td) then td
      else td\<lparr>td_machine_tags := td_machine_tags td @ [(serial_number, pk)]\<rparr>)"

text \<open>The names of the tags a machine has in a taxonomy.\<close>

definition taxonomy_names :: "string \<Rightarrow> nat \<Rightarrow> tag_db \<Rightarrow> string list" where
  "taxonomy_names serial_number tx td =
     map tag_name (filter (\<lambda>t. tag_taxonomy t = Some tx \<and> (serial_number, tag_pk t) \<in> set (td_machine_tags td))
       (td_tags td))"

definition delete_taxonomy_tags :: "string \<Rightarrow> nat \<Rightarrow> string list \<Rightarrow> tag_db \<Rightarrow> tag_db" where
  "delete_taxonomy_tags serial_number tx names td =
     td\<lparr>td_machine_tags := delete_where (\<lambda>mt. fst mt = serial_number \<and>
          list_ex (\<lambda>t. tag_pk t = snd mt \<and> tag_taxonomy t = Some tx \<and> tag_name t \<in> set names) (td_tags td))
        (td_machine_tags td)\<rparr>"

definition add_taxonomy_tag :: "(string \<Rightarrow> string) \<Rightarrow> string \<Rightarrow> nat \<Rightarrow> string \<Rightarrow> tag_db \<Rightarrow> tag_db" where
  "add_taxonomy_tag slugify serial_number tx name td =
     (case get_or_create_tag slugify tx name td of
        Inl _ \<Rightarrow> td
      | Inr (t, td') \<Rightarrow> add_machine_tag serial_number (tag_pk t) td')"

definition update_taxonomy_tags :: "(string \<Rightarrow> string) \<Rightarrow> string \<Rightarrow> nat \<Rightarrow> string list \<Rightarrow> tag_db \<Rightarrow> tag_db" where
  "update_taxonomy_tags slugify serial_number tx names td =
     (let existing = taxonomy_names serial_number tx td;
          td' = delete_taxonomy_tags serial_number tx (filter (\<lambda>n. n \<notin> set names) existing) td
      in fold (add_taxonomy_tag slugify serial_number tx) (filter (\<lambda>n. n \<notin> set existing) (remdups names)) td')"

end
