(* ===== verification/UrlSerials.thy ===== *)
theory UrlSerials imports Prelude begin

text \<open>
  \<open>MetaMachine.make_urlsafe_serial_number\<close> and \<open>from_urlsafe_serial_number\<close> of
  \<open>zentral/contrib/inventory/models.py\<close>, with the quoting and the base 64 digits of the standard library.
\<close>

subsection \<open>Serial numbers in addresses\<close>

text \<open>\<open>urllib.parse.quote(s, safe="")\<close>, of the bytes of a text.\<close>

definition unreserved :: "char \<Rightarrow> bool" where
  "unreserved c \<longleftrightarrow>
     (let n = (of_char c :: nat) in
      48 \<le> n \<and> n \<le> 57 \<or> 65 \<le> n \<and> n \<le> 90 \<or> 97 \<le> n \<and> n \<le> 122 \<or> c \<in> set ''_.-~'')"

definition upper_hex :: "nat \<Rightarrow> char" where
  "upper_hex n = char_of (if n < 10 then 48 + n else 55 + n)"

definition url_quote :: "string \<Rightarrow> string" where
  "url_quote s =
     concat (map (\<lambda>c. if unreserved c then [c]
                       else [CHR ''%'', upper_hex (of_char c div 16), upper_hex (of_char c mod 16)]) s)"

text \<open>\<open>base64.urlsafe_b64encode\<close>.\<close>

definition base64_char :: "nat \<Rightarrow> char" where
  "base64_char v =
     (if v < 26 then char_of (65 + v) else if v < 52 then char_of (71 + v)
      else if v < 62 then char_of (v - 4) else if v = 62 then CHR ''-'' else CHR ''_'')"

fun urlsafe_b64encode :: "string \<Rightarrow> string" where
  "urlsafe_b64encode [] = []"
| "urlsafe_b64encode [a] =
     (let x = of_char a in [base64_char (x div 4), base64_char (x mod 4 * 16), CHR ''='', CHR ''=''])"
| "urlsafe_b64encode [a, b] =
     (let x = of_char a; y = of_char b in
      [base64_char (x div 4), base64_char (x mod 4 * 16 + y div 16), base64_char (y mod 16 * 4), CHR ''=''])"
| "urlsafe_b64encode (a # b # c # r) =
     (let x = of_char a; y = of_char b; z = of_char c in
      base64_char (x div 4) # base64_char (x mod 4 * 16 + y div 16) # base64_char (y mod 16 * 4 + z div 64) #
      base64_char (z mod 64) # urlsafe_b64encode r)"

text \<open>
  \<open>base64.b64decode\<close> and \<open>base64.urlsafe_b64decode\<close>, which has two more characters: characters out of the alphabet are passed over, a padding ends the
  text, and one that stops in a group is an error.
\<close>

definition base64_value :: "string \<Rightarrow> char \<Rightarrow> nat option" where
  "base64_value others c =
     (let n = of_char c in
      if 65 \<le> n \<and> n \<le> 90 then Some (n - 65)
      else if 97 \<le> n \<and> n \<le> 122 then Some (n - 71)
      else if 48 \<le> n \<and> n \<le> 57 then Some (n + 4)
      else if c = CHR ''+'' \<or> others \<noteq> [] \<and> c = hd others then Some 62
      else if c = CHR 0x2F \<or> others \<noteq> [] \<and> c = last others then Some 63 else None)"

fun b64decode_loop :: "string \<Rightarrow> nat \<Rightarrow> nat \<Rightarrow> nat \<Rightarrow> string \<Rightarrow> string option" where
  "b64decode_loop others quad left pads [] = (if quad = 0 then Some [] else None)"
| "b64decode_loop others quad left pads (c # s) =
     (if c = CHR ''='' then
        (if 2 \<le> quad \<and> 4 \<le> quad + pads + 1 then Some []
         else b64decode_loop others quad left (if 2 \<le> quad then pads + 1 else pads) s)
      else
        (case base64_value others c of
           None \<Rightarrow> b64decode_loop others quad left pads s
         | Some v \<Rightarrow>
             if quad = 0 then b64decode_loop others 1 v 0 s
             else if quad = 1 then map_option (Cons (char_of (left * 4 + v div 16))) (b64decode_loop others 2 (v mod 16) 0 s)
             else if quad = 2 then map_option (Cons (char_of (left * 16 + v div 4))) (b64decode_loop others 3 (v mod 4) 0 s)
             else map_option (Cons (char_of (left * 64 + v))) (b64decode_loop others 0 0 0 s)))"

definition b64decode :: "string \<Rightarrow> string option" where
  "b64decode s = b64decode_loop [] 0 0 0 s"

definition urlsafe_b64decode :: "string \<Rightarrow> string option" where
  "urlsafe_b64decode s = b64decode_loop ''-_'' 0 0 0 s"

definition make_urlsafe_serial_number :: "string \<Rightarrow> string" where
  "make_urlsafe_serial_number serial_number =
     (if prefix ''.'' serial_number \<or> url_quote serial_number \<noteq> serial_number
      then CHR ''.'' # rev (dropWhile (\<lambda>c. c = CHR ''='') (rev (urlsafe_b64encode serial_number)))
      else serial_number)"

text \<open>The serial number of the machine; \<open>None\<close> is the error of the decoder.\<close>

definition from_urlsafe_serial_number :: "string \<Rightarrow> string option" where
  "from_urlsafe_serial_number urlsafe =
     (if prefix ''.'' urlsafe
      then (let s = tl urlsafe in
            urlsafe_b64decode (s @ replicate (nat ((- int (length s)) mod 4)) CHR ''=''))
      else Some urlsafe)"

lemma base64_char_code:
  assumes "v < 64"
  shows "(of_char (base64_char v) :: nat) =
    (if v < 26 then 65 + v else if v < 52 then 71 + v else if v < 62 then v - 4 else if v = 62 then 45 else 95)"
  using assms by (simp add: base64_char_def)

lemma base64_char_range:
  assumes "v < 64"
  shows "base64_value ''-_'' (base64_char v) = Some v" and "base64_char v \<noteq> CHR ''=''" and "unreserved (base64_char v)"
proof -
  note c = base64_char_code [OF assms]
  have eq: "base64_char v = d \<longleftrightarrow> (of_char (base64_char v) :: nat) = of_char d" for d
    by (metis char_of_char)
  have mem: "base64_char v \<in> set ''_.-~'' \<longleftrightarrow> (of_char (base64_char v) :: nat) \<in> {95, 46, 45, 126}"
    by (simp add: eq)
  show "base64_char v \<noteq> CHR ''=''" using assms by (auto simp: eq c split: if_splits)
  show "base64_value ''-_'' (base64_char v) = Some v"
    using assms unfolding base64_value_def Let_def eq c by simp presburger
  show "unreserved (base64_char v)"
    using assms unfolding unreserved_def Let_def mem c by simp presburger
qed

text \<open>The digits without the padding.\<close>

fun base64_body :: "string \<Rightarrow> string" where
  "base64_body [] = []"
| "base64_body [a] = take 2 (urlsafe_b64encode [a])"
| "base64_body [a, b] = take 3 (urlsafe_b64encode [a, b])"
| "base64_body (a # b # c # r) = take 4 (urlsafe_b64encode (a # b # c # r)) @ base64_body r"

lemma char_lt: "(of_char c :: nat) < 256"
  by (simp add: nat_of_char_less_256)

lemma sextet_split:
  fixes q r k :: nat
  assumes "r < k"
  shows "(q * k + r) div k = q" "(q * k + r) mod k = r"
  using assms by simp_all

lemma sextets:
  fixes x y z :: nat
  assumes "x < 256" "y < 256" "z < 256"
  shows "x div 4 < 64" "x mod 4 * 16 < 64" "x mod 4 * 16 + y div 16 < 64" "y mod 16 * 4 < 64"
    "y mod 16 * 4 + z div 64 < 64" "z mod 64 < 64"
    "(x mod 4 * 16 + y div 16) div 16 = x mod 4" "(x mod 4 * 16 + y div 16) mod 16 = y div 16"
    "(y mod 16 * 4 + z div 64) div 4 = y mod 16" "(y mod 16 * 4 + z div 64) mod 4 = z div 64"
proof -
  have y: "y div 16 < 16" and z: "z div 64 < 4" using assms by simp_all
  show "(x mod 4 * 16 + y div 16) div 16 = x mod 4" "(x mod 4 * 16 + y div 16) mod 16 = y div 16"
    "(y mod 16 * 4 + z div 64) div 4 = y mod 16" "(y mod 16 * 4 + z div 64) mod 4 = z div 64"
    using sextet_split [OF y] sextet_split [OF z] by blast+
  have m: "x mod 4 < 4" "y mod 16 < 16" by simp_all
  show "x div 4 < 64" "x mod 4 * 16 < 64" "x mod 4 * 16 + y div 16 < 64" "y mod 16 * 4 < 64"
    "y mod 16 * 4 + z div 64 < 64" "z mod 64 < 64"
    using assms(1) m y z by linarith+
qed

lemma base64_digits:
  "list_all (\<lambda>c. unreserved c \<and> c \<noteq> CHR ''='') (base64_body s)"
proof (induction s rule: base64_body.induct)
  case (2 a)
  show ?case using sextets [OF char_lt [of a] char_lt [of a] char_lt [of a]]
    by (simp add: Let_def base64_char_range numeral_2_eq_2)
next
  case (3 a b)
  show ?case using sextets [OF char_lt [of a] char_lt [of b] char_lt [of b]]
    by (simp add: Let_def base64_char_range numeral_3_eq_3)
next
  case (4 a b c r)
  then show ?case using sextets [OF char_lt [of a] char_lt [of b] char_lt [of c]]
    by (simp add: Let_def base64_char_range)
qed simp

lemma base64_padding:
  "urlsafe_b64encode s = base64_body s @ replicate (nat ((- int (length (base64_body s))) mod 4)) CHR ''=''"
proof (induction s rule: base64_body.induct)
  case (4 a b c r)
  have "length (base64_body (a # b # c # r)) = 4 + length (base64_body r)" by (simp add: Let_def)
  then have "(- int (length (base64_body (a # b # c # r)))) mod 4 = (- int (length (base64_body r))) mod 4"
    by presburger
  then show ?case using 4 by (simp add: Let_def)
qed (simp_all add: Let_def numeral_2_eq_2 numeral_3_eq_3)

lemma decode_digit:
  assumes "v < 64"
  shows "b64decode_loop ''-_'' 0 left pads (base64_char v # s) = b64decode_loop ''-_'' 1 v 0 s"
    "b64decode_loop ''-_'' 1 left pads (base64_char v # s) =
      map_option (Cons (char_of (left * 4 + v div 16))) (b64decode_loop ''-_'' 2 (v mod 16) 0 s)"
    "b64decode_loop ''-_'' 2 left pads (base64_char v # s) =
      map_option (Cons (char_of (left * 16 + v div 4))) (b64decode_loop ''-_'' 3 (v mod 4) 0 s)"
    "b64decode_loop ''-_'' 3 left pads (base64_char v # s) =
      map_option (Cons (char_of (left * 64 + v))) (b64decode_loop ''-_'' 0 0 0 s)"
  by (simp_all only: b64decode_loop.simps base64_char_range [OF assms] if_False if_True option.case) simp_all

lemma decode_padding:
  "b64decode_loop ''-_'' 2 left 0 (CHR ''='' # CHR ''='' # s) = Some []"
  "b64decode_loop ''-_'' 3 left 0 (CHR ''='' # s) = Some []"
  "b64decode_loop ''-_'' 0 left 0 [] = Some []"
  by simp_all

lemma base64_roundtrip: "b64decode_loop ''-_'' 0 0 0 (urlsafe_b64encode s) = Some s"
proof (induction s rule: urlsafe_b64encode.induct)
  case 1
  show ?case by (simp only: urlsafe_b64encode.simps decode_padding)
next
  case (2 a)
  define x where d: "x = (of_char a :: nat)"
  note f = sextets [OF char_lt [of a] char_lt [of a] char_lt [of a], folded d]
  have "x div 4 * 4 + x mod 4 * 16 div 16 = x" by simp
  moreover have "char_of x = a" by (simp add: d)
  ultimately show ?case
    unfolding urlsafe_b64encode.simps Let_def d [symmetric] decode_digit [OF f(1)] decode_digit [OF f(2)] decode_padding
    by (simp only: option.map)
next
  case (3 a b)
  define x y where d: "x = (of_char a :: nat)" "y = (of_char b :: nat)"
  note f = sextets [OF char_lt [of a] char_lt [of b] char_lt [of b], folded d]
  have "x div 4 * 4 + x mod 4 = x" "y div 16 * 16 + y mod 16 * 4 div 4 = y" by simp_all
  moreover have "char_of x = a" "char_of y = b" by (simp_all add: d)
  ultimately show ?case
    unfolding urlsafe_b64encode.simps Let_def d [symmetric] decode_digit [OF f(1)] decode_digit [OF f(3)]
      decode_digit [OF f(4)] decode_padding f(7,8)
    by (simp only: option.map)
next
  case (4 a b c r)
  define x y z where d: "x = (of_char a :: nat)" "y = (of_char b :: nat)" "z = (of_char c :: nat)"
  note f = sextets [OF char_lt [of a] char_lt [of b] char_lt [of c], folded d]
  have "x div 4 * 4 + x mod 4 = x" "y div 16 * 16 + y mod 16 = y" "z div 64 * 64 + z mod 64 = z"
    by (rule div_mult_mod_eq)+
  moreover have "char_of x = a" "char_of y = b" "char_of z = c" by (simp_all add: d)
  ultimately show ?case
    unfolding urlsafe_b64encode.simps Let_def d [symmetric] decode_digit [OF f(1)] decode_digit [OF f(3)]
      decode_digit [OF f(5)] decode_digit [OF f(6)] f(7-10)
    by (simp only: 4 option.map)
qed

lemma rstrip_replicate:
  assumes "x \<notin> set s"
  shows "rev (dropWhile (\<lambda>c. c = x) (rev (s @ replicate n x))) = s"
proof -
  have "dropWhile (\<lambda>c. c = x) (replicate n x @ t) = dropWhile (\<lambda>c. c = x) t" for t by (induction n) simp_all
  moreover have "dropWhile (\<lambda>c. c = x) (rev s) = rev s" using assms by (cases "rev s") (auto dest: arg_cong [of _ _ set])
  ultimately show ?thesis by simp
qed


text \<open>
  The serial number in the address of a machine is the machine's. It is read back from the
  address whatever its characters are, empty or not, and the address has only characters that need
  no quoting.
\<close>

theorem urlsafe_serial_number_roundtrip:
  "from_urlsafe_serial_number (make_urlsafe_serial_number s) = Some s \<and>
   list_all unreserved (make_urlsafe_serial_number s)"
proof (cases "prefix ''.'' s \<or> url_quote s \<noteq> s")
  case True
  let ?body = "base64_body s"
  have d: "list_all unreserved ?body" "CHR ''='' \<notin> set ?body"
    using base64_digits [of s] by (auto simp: list_all_iff)
  have "rev (dropWhile (\<lambda>c. c = CHR ''='') (rev (urlsafe_b64encode s))) = ?body"
    using rstrip_replicate [OF d(2)] base64_padding [of s] by metis
  then have m: "make_urlsafe_serial_number s = CHR ''.'' # ?body"
    using True by (simp add: make_urlsafe_serial_number_def)
  have "from_urlsafe_serial_number (CHR ''.'' # ?body) = urlsafe_b64decode (urlsafe_b64encode s)"
    unfolding base64_padding [of s] by (simp add: from_urlsafe_serial_number_def Let_def)
  moreover have "unreserved CHR ''.''" by code_simp
  ultimately show ?thesis using m d(1) by (simp add: urlsafe_b64decode_def base64_roundtrip)
next
  case False
  then have m: "make_urlsafe_serial_number s = s" "url_quote s = s" "\<not> prefix ''.'' s"
    by (simp_all add: make_urlsafe_serial_number_def)
  have "list_all unreserved s" if "url_quote s = s" for s
    using that
  proof (induction s)
    case (Cons c s)
    have len: "length (url_quote t) \<ge> length t" for t by (induction t) (simp_all add: url_quote_def)
    show ?case
    proof (cases "unreserved c")
      case True
      then show ?thesis using Cons by (simp add: url_quote_def)
    next
      case False
      then have "length (url_quote (c # s)) = 3 + length (url_quote s)" by (simp add: url_quote_def)
      then show ?thesis using Cons.prems len [of s] by simp
    qed
  qed simp
  then show ?thesis using m by (simp add: from_urlsafe_serial_number_def)
qed

end
