(* ===== verification/OsqueryViews.thy ===== *)
theory OsqueryViews imports OsqueryConf OsqueryTrees MetaMachines UrlSerials Requests begin

text \<open>
  The API of the osquery agents: \<open>zentral/contrib/osquery/views/api.py\<close>, with the functions that
  post the events in \<open>zentral/contrib/osquery/events/__init__.py\<close> and the archive of a file carving
  session in \<open>zentral/contrib/osquery/tasks.py\<close>. A request is one transaction: when it raises, the
  tables are rolled back and the events posted are kept.
\<close>

subsection \<open>State\<close>

record query_result =
  qr_query :: nat
  qr_serial_number :: string
  qr_row :: pyval

text \<open>
  The tables, the tasks that start when the transaction is committed, and the trees written as dead
  letters, by requests that do not raise afterwards.
\<close>

record osquery_db =
  od_enrollment_db :: enrollment_db
  od_enrollment_configurations :: "(nat \<times> nat) list"
  od_configurations :: "configuration list"
  od_pack_queries :: "pack_query list"
  od_machines :: "enrolled_machine list"
  od_tags :: tag_db
  od_queries :: "distributed_query list"
  od_query_machines :: "distributed_query_machine list"
  od_results :: "query_result list"
  od_sessions :: "file_carving_session list"
  od_blocks :: "file_carving_block list"
  od_inventory :: inventory_db
  od_tasks :: "string list"
  od_dead_letters :: "tree list"

record osquery_state =
  os_db :: osquery_db
  os_events :: "event list"

text \<open>
  The clock and the random values of a request, the parsers of other libraries, the site of the
  inventory with the fuel of its serialization and the classes of its events, what other
  transactions do during a commit, the addresses of the server, and the flags of the command line.
\<close>

record osquery_env =
  oe_now :: datetime
  oe_uuid :: "nat \<Rightarrow> string"
  oe_random :: string
  oe_md5 :: "string \<Rightarrow> string"
  oe_valid_ip :: "string \<Rightarrow> bool"
  oe_json_loads :: "string \<Rightarrow> pyerror + pyval"
  oe_gunzip :: "string \<Rightarrow> pyerror + string"
  oe_site :: "unit inventory_db_ext mt_site"
  oe_fuel :: nat
  oe_classes :: "event_class list"
  oe_others :: "inventory_db \<Rightarrow> inventory_db"
  oe_urls :: server_urls
  oe_cli_only_flags :: "(string \<times> bool) list"

datatype osquery_view =
    Enroll | Config | StartFileCarving | ContinueFileCarving | DistributedRead | DistributedWrite | Log

record osquery_request =
  or_data :: pyval
  or_user_agent :: string
  or_ip :: string

definition now_number :: "osquery_env \<Rightarrow> int" where
  "now_number env = time_number (oe_now env)"

subsection \<open>Events\<close>

definition osquery_event_class :: "string \<Rightarrow> string list \<Rightarrow> event_class" where
  "osquery_event_class t tags = \<lparr>event_type = t, namespace = None, class_tags = tags\<rparr>"

definition OsqueryEnrollmentEvent :: event_class where
  "OsqueryEnrollmentEvent = osquery_event_class ''osquery_enrollment'' [''osquery'']"

definition OsqueryRequestEvent :: event_class where
  "OsqueryRequestEvent = osquery_event_class ''osquery_request'' [''osquery'', ''heartbeat'']"

definition OsqueryResultEvent :: event_class where
  "OsqueryResultEvent = osquery_event_class ''osquery_result'' [''osquery'']"

definition OsqueryFileCarvingEvent :: event_class where
  "OsqueryFileCarvingEvent = osquery_event_class ''osquery_file_carving'' [''osquery'']"

definition OsqueryStatusEvent :: event_class where
  "OsqueryStatusEvent = osquery_event_class ''osquery_status'' [''osquery'']"

definition MachineConflictEvent :: event_class where
  "MachineConflictEvent = osquery_event_class ''zentral_machine_conflict'' [''zentral'']"

definition osquery_events :: "event_class \<Rightarrow> osquery_env \<Rightarrow> nat \<Rightarrow> string \<Rightarrow> osquery_request \<Rightarrow> dict list \<Rightarrow> event list" where
  "osquery_events c env i msn rq payloads =
     build_from_machine_request_payloads c (oe_uuid env i) (now_number env) (Some msn)
       (Some (or_user_agent rq)) (Some (or_ip rq)) payloads None None"

definition post_request_event :: "osquery_env \<Rightarrow> string \<Rightarrow> osquery_request \<Rightarrow> string \<Rightarrow> nat \<Rightarrow> configuration \<Rightarrow> event list" where
  "post_request_event env msn rq request_type enrollment_pk c =
     osquery_events OsqueryRequestEvent env 1 msn rq
       [[(''request_type'', PStr request_type),
         (''enrollment'', PDict
            [(''pk'', PInt (int enrollment_pk)),
             (''configuration'', PDict [(''pk'', PInt (int (cf_pk c))), (''name'', PStr (cf_name c))])])]]"

text \<open>The time of a record of the log: \<open>None\<close> when it cannot be read, which is logged.\<close>

definition get_osquery_log_record_created_at :: "dict \<Rightarrow> int option" where
  "get_osquery_log_record_created_at payload =
     (case dict_get payload ''unixTime'' of
        None \<Rightarrow> None
      | Some v \<Rightarrow>
          (case bind_result (int_of (tree_of v)) utcfromtimestamp of
             Inr d \<Rightarrow> Some (time_number d)
           | Inl _ \<Rightarrow> None))"

definition post_events_from_osquery_log ::
  "event_class \<Rightarrow> osquery_env \<Rightarrow> string \<Rightarrow> osquery_request \<Rightarrow> dict list \<Rightarrow> event list" where
  "post_events_from_osquery_log c env msn rq records =
     (let payloads = map (filter (\<lambda>(k, v). k \<notin> {''decorations'', ''numerics'', ''calendarTime'', ''hostIdentifier''})) records in
      map (\<lambda>e. e\<lparr>ev_payload := dict_del ''unixTime'' (ev_payload e)\<rparr>)
        (build_from_machine_request_payloads c (oe_uuid env 2) (now_number env) (Some msn)
           (Some (or_user_agent rq)) (Some (or_ip rq)) payloads (Some get_osquery_log_record_created_at) None))"

definition post_machine_conflict_event ::
  "osquery_env \<Rightarrow> osquery_request \<Rightarrow> string \<Rightarrow> string \<Rightarrow> dict \<Rightarrow> event" where
  "post_machine_conflict_event env rq reported enrolled machine_info =
     \<lparr>ev_class = MachineConflictEvent,
      ev_metadata = (metadata_new (oe_uuid env 3) (now_number env))
        \<lparr>md_machine_serial_number := Some reported,
         md_request := (if or_user_agent rq \<noteq> [] \<or> or_ip rq \<noteq> []
           then Some \<lparr>user_agent = PStr (or_user_agent rq), ip = PStr (or_ip rq), geo = None, user = None\<rparr> else None)\<rparr>,
      ev_payload = [(''module'', PStr ''zentral.contrib.osquery''), (''reported_machine_info'', PDict machine_info),
                    (''enrollment_serial_number'', PStr enrolled)],
      ev_linked_objects = []\<rparr>"

subsection \<open>Reading the request\<close>

definition osquery_json_data :: "osquery_env \<Rightarrow> http_post \<Rightarrow> pyerror + pyval" where
  "osquery_json_data env rq =
     (case bind_result
        (if dict_get (hp_meta rq) ''HTTP_CONTENT_ENCODING'' = Some ''gzip''
         then oe_gunzip env (hp_body rq) else Inr (hp_body rq)) (oe_json_loads env) of
        Inl ValueError \<Rightarrow> Inl (SuspiciousOperation ''Could not read JSON data'')
      | r \<Rightarrow> r)"

text \<open>\<open>v[k]\<close> and \<open>v.get(k, default)\<close>.\<close>

definition json_item :: "string \<Rightarrow> pyval \<Rightarrow> pyerror + pyval" where
  "json_item k v = (case v of PDict d \<Rightarrow> request_item d k | _ \<Rightarrow> Inl TypeError)"

definition json_get :: "string \<Rightarrow> pyval \<Rightarrow> pyval \<Rightarrow> pyerror + pyval" where
  "json_get k d0 v = (case v of PDict d \<Rightarrow> Inr (dict_get_default d k d0) | _ \<Rightarrow> Inl AttributeError)"

definition json_int :: "pyval \<Rightarrow> pyerror + int" where
  "json_int v = int_of (tree_of v)"

text \<open>\<open>except (KeyError, AttributeError)\<close> around a text that is stripped.\<close>

definition host_detail :: "string \<Rightarrow> pyval \<Rightarrow> pyerror + string option" where
  "host_detail k data =
     (case bind_result (bind_result (bind_result (json_item ''host_details'' data) (json_item ''system_info'')) (json_item k))
             (\<lambda>v. case v of PStr s \<Rightarrow> Inr (strip s) | _ \<Rightarrow> Inl AttributeError) of
        Inr s \<Rightarrow> Inr (Some s)
      | Inl (KeyError _) \<Rightarrow> Inr None
      | Inl AttributeError \<Rightarrow> Inr None
      | Inl e \<Rightarrow> Inl e)"

definition get_serial_number :: "pyval \<Rightarrow> pyerror + string" where
  "get_serial_number data =
     bind_result (host_detail ''hardware_serial'' data) (\<lambda>s.
     bind_result (case s of Some t \<Rightarrow> Inr (PStr t) | None \<Rightarrow> json_get ''host_identifier'' PNone data) (\<lambda>v.
       if \<not> truthy v then Inl (SuspiciousOperation ''Missing serial number'') else text_column v))"

definition get_enroll_secret :: "pyval \<Rightarrow> pyerror + string" where
  "get_enroll_secret data =
     bind_result (json_get ''enroll_secret'' PNone data) (\<lambda>v.
       if \<not> truthy v then Inl (SuspiciousOperation ''Missing enroll_secret key'') else text_column v)"

definition get_node_key :: "pyval \<Rightarrow> pyerror + string" where
  "get_node_key data =
     bind_result (json_get ''node_key'' PNone data) (\<lambda>v.
       if \<not> truthy v then Inl (SuspiciousOperation ''Missing node_key'') else text_column v)"

subsection \<open>Columns\<close>

definition int_range :: "int \<Rightarrow> int \<Rightarrow> pyerror + int" where
  "int_range bound i = (if - bound \<le> i \<and> i < bound then Inr i else Inl DataError)"

definition platform_mask_column :: "int \<Rightarrow> pyerror + nat" where
  "platform_mask_column i =
     bind_result (int_range (2 ^ 15) i) (\<lambda>j. if j < 0 then Inl IntegrityError else Inr (nat j))"

definition osquery_version_column :: "pyval \<Rightarrow> pyerror + string option" where
  "osquery_version_column v =
     (if v = PNone then Inr None
      else bind_result (text_column v) (\<lambda>s. if 14 < length s then Inl DataError else Inr (Some s)))"

subsection \<open>Snapshots\<close>

definition osquery_source :: tree where
  "osquery_source = TDict None [(''module'', TStr ''zentral.contrib.osquery''), (''name'', TStr ''osquery'')]"

definition base_tree :: "osquery_env \<Rightarrow> osquery_request \<Rightarrow> string \<Rightarrow> string \<Rightarrow> enrollment_secret \<Rightarrow> inventory_db \<Rightarrow> pyerror + items" where
  "base_tree env rq serial_number node_key es idb =
     (let tree = [(''source'', osquery_source), (''serial_number'', TStr serial_number), (''reference'', TStr node_key),
                  (''public_ip_address'', TStr (or_ip rq))] in
      case get_api_enrollment_business_unit idb (es_meta_business_unit es) of
        None \<Rightarrow> Inr tree
      | Some bu \<Rightarrow>
          bind_result (serialize (oe_site env) (oe_fuel env) ''BusinessUnit'' [] (row_pk bu) idb) (\<lambda>t.
            Inr (tree @ [(''business_unit'', t)])))"

definition commit_tree :: "osquery_env \<Rightarrow> items \<Rightarrow> osquery_db \<Rightarrow> osquery_db posted" where
  "commit_tree env tree db =
     (case commit_machine_snapshot_and_trigger_events (oe_site env) (oe_fuel env) (oe_classes env) (oe_uuid env 4)
             (oe_now env) (oe_others env) (TDict None tree) (od_inventory db) of
        (Inl e, idb) \<Rightarrow> (Inl e, [])
      | (Inr (snapshot, evs, dead), idb) \<Rightarrow>
          (Inr (db\<lparr>od_inventory := idb,
                   od_dead_letters := od_dead_letters db @ (if dead then [TDict None tree] else [])\<rparr>), evs))"

definition has_snapshot :: "string \<Rightarrow> string \<Rightarrow> inventory_db \<Rightarrow> bool" where
  "has_snapshot serial_number node_key idb \<longleftrightarrow>
     list_ex (\<lambda>ms. source_module idb ms = ''zentral.contrib.osquery'' \<and> source_name idb ms = ''osquery'' \<and>
        text_of ms ''serial_number'' = Some serial_number \<and> text_of ms ''reference'' = Some node_key)
       (tables idb ''MachineSnapshot'')"

subsection \<open>Enrollment\<close>

record machine_update =
  mu_node_key :: string
  mu_platform_mask :: "nat option"
  mu_osquery_version :: "string option option"

definition enrolled_machine_key :: "enrolled_machine \<Rightarrow> nat \<times> string" where
  "enrolled_machine_key m = (om_enrollment m, om_serial_number m)"

definition set_enrolled_machine :: "machine_update \<Rightarrow> enrolled_machine \<Rightarrow> enrolled_machine" where
  "set_enrolled_machine mu m =
     m\<lparr>om_node_key := mu_node_key mu,
       om_platform_mask := (case mu_platform_mask mu of None \<Rightarrow> om_platform_mask m | Some p \<Rightarrow> p),
       om_osquery_version := (case mu_osquery_version mu of None \<Rightarrow> om_osquery_version m | Some v \<Rightarrow> v)\<rparr>"

definition new_enrolled_machine :: "nat \<times> string \<Rightarrow> nat \<times> machine_update \<Rightarrow> enrolled_machine" where
  "new_enrolled_machine k d =
     set_enrolled_machine (snd d)
       \<lparr>om_pk = fst d, om_enrollment = fst k, om_serial_number = snd k, om_node_key = [], om_osquery_version = None,
        om_platform_mask = 0\<rparr>"

abbreviation upsert_enrolled_machine ::
  "nat \<times> string \<Rightarrow> nat \<times> machine_update \<Rightarrow> enrolled_machine list \<Rightarrow> enrolled_machine list" where
  "upsert_enrolled_machine \<equiv> upsert enrolled_machine_key new_enrolled_machine (\<lambda>d. set_enrolled_machine (snd d))"

interpretation osquery_machines: upsert_table enrolled_machine_key new_enrolled_machine "\<lambda>d. set_enrolled_machine (snd d)"
  by unfold_locales (simp_all add: enrolled_machine_key_def new_enrolled_machine_def set_enrolled_machine_def)

text \<open>A value that is missing or of another type is logged and left out; one the column refuses is an error.\<close>

definition enrolled_platform_mask :: "pyval \<Rightarrow> pyerror + nat option" where
  "enrolled_platform_mask data =
     (case bind_result (json_item ''platform_type'' data) json_int of
        Inr i \<Rightarrow> bind_result (platform_mask_column i) (\<lambda>n. Inr (Some n))
      | Inl _ \<Rightarrow> Inr None)"

definition enrolled_osquery_version :: "pyval \<Rightarrow> pyerror + string option option" where
  "enrolled_osquery_version data =
     (case bind_result (bind_result (json_item ''host_details'' data) (json_item ''osquery_info'')) (json_item ''version'') of
        Inr v \<Rightarrow> bind_result (osquery_version_column v) (\<lambda>s. Inr (Some s))
      | Inl (KeyError _) \<Rightarrow> Inr None
      | Inl e \<Rightarrow> Inl e)"

definition enroll_machine_update :: "osquery_env \<Rightarrow> pyval \<Rightarrow> pyerror + machine_update" where
  "enroll_machine_update env data =
     bind_result (enrolled_platform_mask data) (\<lambda>platform_mask.
     bind_result (enrolled_osquery_version data) (\<lambda>version.
       Inr \<lparr>mu_node_key = oe_random env, mu_platform_mask = platform_mask, mu_osquery_version = version\<rparr>))"

text \<open>The row written, and the tables without the other rows of the machine; two rows with a node key violate its constraint.\<close>

definition enrolled_row :: "nat \<Rightarrow> string \<Rightarrow> osquery_db \<Rightarrow> enrolled_machine" where
  "enrolled_row en serial_number db = hd (filter (\<lambda>m. enrolled_machine_key m = (en, serial_number)) (od_machines db))"

definition update_or_create_enrolled_machine ::
  "nat \<Rightarrow> string \<Rightarrow> machine_update \<Rightarrow> osquery_db \<Rightarrow> pyerror + osquery_db" where
  "update_or_create_enrolled_machine en serial_number mu db =
     (let rows = upsert_enrolled_machine (en, serial_number) (fresh_pk (map om_pk (od_machines db)), mu) (od_machines db) in
      if distinct (map om_node_key rows) then Inr (db\<lparr>od_machines := rows\<rparr>) else Inl IntegrityError)"

definition other_enrolled_machine :: "enrolled_machine \<Rightarrow> enrolled_machine \<Rightarrow> bool" where
  "other_enrolled_machine m r \<longleftrightarrow> om_pk r \<noteq> om_pk m \<and> om_serial_number r = om_serial_number m"

definition enroll_tags :: "string \<Rightarrow> nat list \<Rightarrow> osquery_db \<Rightarrow> osquery_db" where
  "enroll_tags serial_number tags db = db\<lparr>od_tags := fold (add_machine_tag serial_number) tags (od_tags db)\<rparr>"

definition enroll_snapshot ::
  "osquery_env \<Rightarrow> osquery_request \<Rightarrow> enrollment_secret \<Rightarrow> enrolled_machine \<Rightarrow> osquery_db \<Rightarrow> osquery_db posted" where
  "enroll_snapshot env rq es m db =
     (let idb = od_inventory db in
      if has_snapshot (om_serial_number m) (om_node_key m) idb then quiet (Inr db)
      else
        bind_posted (quiet (base_tree env rq (om_serial_number m) (om_node_key m) es idb)) (\<lambda>tree.
        bind_posted (quiet (json_get ''host_details'' PNone (or_data rq))) (\<lambda>host_details.
        bind_posted (quiet (update_tree_with_enrollment_host_details tree (tree_of host_details))) (\<lambda>tree'.
          commit_tree env tree' db))))"

definition enroll_do_post ::
  "osquery_env \<Rightarrow> osquery_request \<Rightarrow> enrollment \<Rightarrow> enrollment_secret \<Rightarrow> string \<Rightarrow> osquery_db \<Rightarrow> (pyval \<times> osquery_db) posted" where
  "enroll_do_post env rq en es serial_number db =
     bind_posted (quiet (enroll_machine_update env (or_data rq))) (\<lambda>mu.
     bind_posted (quiet (update_or_create_enrolled_machine (enr_pk en) serial_number mu db)) (\<lambda>db1.
       (let m = enrolled_row (enr_pk en) serial_number db1;
            db2 = enroll_tags serial_number (map fst (es_tags es)) db1;
            action = (if list_ex (other_enrolled_machine m) (od_machines db2) then ''re-enrollment'' else ''enrollment'');
            db3 = db2\<lparr>od_machines := delete_where (other_enrolled_machine m) (od_machines db2)\<rparr>
        in
        bind_posted (enroll_snapshot env rq es m db3) (\<lambda>db4.
          (Inr (PDict [(''node_key'', PStr (om_node_key m))], db4),
           osquery_events OsqueryEnrollmentEvent env 5 serial_number rq [[(''action'', PStr action)]])))))"

definition mbu_serialize :: "inventory_db \<Rightarrow> nat \<Rightarrow> dict" where
  "mbu_serialize idb pk = [(''name'', PStr (mbu_str idb pk)), (''pk'', PInt (int pk))]"

text \<open>The secret of the request, and its enrollment.\<close>

definition enroll_authenticate ::
  "osquery_env \<Rightarrow> osquery_request \<Rightarrow> osquery_db \<Rightarrow> ((string \<times> enrollment \<times> enrollment_secret) \<times> osquery_db) posted" where
  "enroll_authenticate env rq db =
     bind_posted (quiet (get_serial_number (or_data rq))) (\<lambda>serial_number.
     bind_posted (quiet (get_enroll_secret (or_data rq))) (\<lambda>secret.
     bind_posted (quiet (host_detail ''uuid'' (or_data rq))) (\<lambda>uuid.
     bind_posted
       (verified (verify_enrollment_secret (now_number env) (oe_uuid env 0) (mbu_serialize (od_inventory db))
          ''osquery_enrollment'' secret (or_user_agent rq) (or_ip rq) (Some serial_number) uuid None (\<lambda>_ _. True)
          (od_enrollment_db db))) (\<lambda>edb.
     bind_posted (quiet (get_one (\<lambda>es. es_secret es = secret) (enrollment_secrets edb))) (\<lambda>es.
     bind_posted (quiet (enrollment_of ''osquery_enrollment'' es edb)) (\<lambda>en.
       quiet (Inr ((serial_number, en, es), db\<lparr>od_enrollment_db := edb\<rparr>))))))))"

subsection \<open>The machine of a request\<close>

record loaded_osquery_machine =
  lo_machine :: enrolled_machine
  lo_secret :: enrollment_secret
  lo_configuration :: configuration

definition load_osquery_machine :: "osquery_db \<Rightarrow> enrolled_machine \<Rightarrow> pyerror + loaded_osquery_machine" where
  "load_osquery_machine db m =
     bind_result (get_one (\<lambda>en. enr_model en = ''osquery_enrollment'' \<and> enr_pk en = om_enrollment m)
         (enrollments (od_enrollment_db db))) (\<lambda>en.
     bind_result (get_one (\<lambda>es. es_pk es = enr_secret en) (enrollment_secrets (od_enrollment_db db))) (\<lambda>es.
     bind_result
       (case dict_get (od_enrollment_configurations db) (enr_pk en) of
          None \<Rightarrow> Inl DoesNotExist
        | Some pk \<Rightarrow> get_one (\<lambda>c. cf_pk c = pk) (od_configurations db)) (\<lambda>c.
       Inr \<lparr>lo_machine = m, lo_secret = es, lo_configuration = c\<rparr>)))"

definition node_authenticate :: "osquery_request \<Rightarrow> osquery_db \<Rightarrow> pyerror + loaded_osquery_machine" where
  "node_authenticate rq db =
     bind_result (get_node_key (or_data rq)) (\<lambda>node_key.
       case get_one (\<lambda>m. om_node_key m = node_key) (od_machines db) of
         Inl DoesNotExist \<Rightarrow> Inl (PermissionDenied ''Wrong node_key'')
       | Inl e \<Rightarrow> Inl e
       | Inr m \<Rightarrow> load_osquery_machine db m)"

text \<open>The id of a session: a text that is no UUID is refused by the column, a number is the value of one.\<close>

definition uuid_column :: "pyval \<Rightarrow> pyerror + string" where
  "uuid_column v =
     (case v of
        PStr s \<Rightarrow> (case parse_uuid s of None \<Rightarrow> Inl ValidationError | Some u \<Rightarrow> Inr u)
      | PInt i \<Rightarrow> if 0 \<le> i \<and> i < 2 ^ 128 then Inr (uuid_text (hex_text 32 i)) else Inl ValidationError
      | PBool b \<Rightarrow> Inr (uuid_text (hex_text 32 (of_bool b)))
      | PNone \<Rightarrow> Inl (PermissionDenied ''Unknown session_id'')
      | _ \<Rightarrow> Inl ValidationError)"

definition session_authenticate ::
  "osquery_request \<Rightarrow> osquery_db \<Rightarrow> pyerror + file_carving_session \<times> loaded_osquery_machine" where
  "session_authenticate rq db =
     bind_result
       (case json_item ''session_id'' (or_data rq) of
          Inl (KeyError _) \<Rightarrow> Inl (SuspiciousOperation ''Missing session_id'')
        | r \<Rightarrow> r) (\<lambda>v.
     bind_result (uuid_column v) (\<lambda>session_id.
     bind_result
       (case get_one (\<lambda>s. fs_id s = session_id) (od_sessions db) of
          Inl DoesNotExist \<Rightarrow> Inl (PermissionDenied ''Unknown session_id'')
        | r \<Rightarrow> r) (\<lambda>s.
       case sort_key (\<lambda>m. - int (om_pk m)) (filter (\<lambda>m. om_serial_number m = fs_serial_number s) (od_machines db)) of
         [] \<Rightarrow> Inl (PermissionDenied ''Unknown machine'')
       | m # _ \<Rightarrow> bind_result (load_osquery_machine db m) (\<lambda>lo. Inr (s, lo)))))"

definition machine_facts_of :: "osquery_db \<Rightarrow> string \<Rightarrow> machine_facts" where
  "machine_facts_of db serial_number =
     \<lparr>mf_serial_number = serial_number,
      mf_platform = mm_platform (od_inventory db) serial_number,
      mf_has_deb_packages = mm_has_deb_packages (od_inventory db) serial_number,
      mf_tags = map tag_pk (mm_tags (od_inventory db) (od_tags db) serial_number)\<rparr>"

subsection \<open>Configuration\<close>

definition config_do_node_post :: "osquery_env \<Rightarrow> loaded_osquery_machine \<Rightarrow> osquery_db \<Rightarrow> dict" where
  "config_do_node_post env lo db =
     build_osquery_conf (oe_urls env) (oe_cli_only_flags env) (od_pack_queries db)
       (machine_facts_of db (om_serial_number (lo_machine lo))) (lo_configuration lo)"

subsection \<open>File carving\<close>

text \<open>The distributed query or the pack query of a session.\<close>

definition carving_origin :: "pyval \<Rightarrow> osquery_db \<Rightarrow> pyerror + nat option \<times> nat option" where
  "carving_origin request_id db =
     (case json_int request_id of
        Inr pk \<Rightarrow>
          (case get_one (\<lambda>dqm. int (dqm_pk dqm) = pk) (od_query_machines db) of
             Inl DoesNotExist \<Rightarrow> Inl Http404
           | Inl e \<Rightarrow> Inl e
           | Inr dqm \<Rightarrow> Inr (Some (dqm_query dqm), None))
      | Inl ValueError \<Rightarrow>
          (case get_with_config_key request_id (od_pack_queries db) of
             Inl ValueError \<Rightarrow> Inl (SuspiciousOperation ''Unknown request_id format'')
           | Inl DoesNotExist \<Rightarrow> Inl Http404
           | Inl e \<Rightarrow> Inl e
           | Inr pq \<Rightarrow> Inr (None, Some (pq_pk pq)))
      | Inl e \<Rightarrow> Inl e)"

definition carving_int :: "int \<Rightarrow> string \<Rightarrow> pyval \<Rightarrow> pyerror + int" where
  "carving_int bound k data = bind_result (bind_result (json_item k data) json_int) (int_range bound)"

definition start_file_carving ::
  "osquery_env \<Rightarrow> osquery_request \<Rightarrow> string \<Rightarrow> osquery_db \<Rightarrow> pyerror + file_carving_session \<times> osquery_db" where
  "start_file_carving env rq serial_number db =
     bind_result (json_get ''request_id'' PNone (or_data rq)) (\<lambda>request_id.
       if \<not> truthy request_id then Inl (SuspiciousOperation ''Missing request_id'')
       else
         bind_result (carving_origin request_id db) (\<lambda>(distributed_query, pack_query).
         bind_result (bind_result (json_item ''carve_id'' (or_data rq)) text_column) (\<lambda>carve_guid.
         bind_result (carving_int (2 ^ 63) ''carve_size'' (or_data rq)) (\<lambda>carve_size.
         bind_result (carving_int (2 ^ 31) ''block_size'' (or_data rq)) (\<lambda>block_size.
         bind_result (carving_int (2 ^ 31) ''block_count'' (or_data rq)) (\<lambda>block_count.
           (let s = \<lparr>fs_id = oe_uuid env 6, fs_distributed_query = distributed_query, fs_pack_query = pack_query,
                     fs_serial_number = serial_number, fs_carve_guid = carve_guid, fs_carve_size = carve_size,
                     fs_block_size = block_size, fs_block_count = block_count, fs_archive = None\<rparr>
            in if fs_id s \<in> set (map fs_id (od_sessions db)) then Inl IntegrityError
               else Inr (s, db\<lparr>od_sessions := od_sessions db @ [s]\<rparr>))))))))"

definition start_file_carving_do_node_post ::
  "osquery_env \<Rightarrow> osquery_request \<Rightarrow> string \<Rightarrow> osquery_db \<Rightarrow> (pyval \<times> osquery_db) posted" where
  "start_file_carving_do_node_post env rq serial_number db =
     bind_posted (quiet (start_file_carving env rq serial_number db)) (\<lambda>(s, db').
       (Inr (PDict [(''session_id'', PStr (fs_id s))], db'),
        osquery_events OsqueryFileCarvingEvent env 7 serial_number rq
          [[(''action'', PStr ''start''), (''session_id'', PStr (fs_id s))]]))"

definition block_id_of :: "pyval \<Rightarrow> pyerror + int" where
  "block_id_of data =
     (case bind_result (json_item ''block_id'' data) json_int of
        Inl (KeyError _) \<Rightarrow> Inl (SuspiciousOperation ''Missing block_id'')
      | Inl ValueError \<Rightarrow> Inl (SuspiciousOperation ''Invalid block_id'')
      | r \<Rightarrow> r)"

definition block_data_of :: "pyval \<Rightarrow> pyerror + string" where
  "block_data_of data =
     (case json_item ''data'' data of
        Inl (KeyError _) \<Rightarrow> Inl (SuspiciousOperation ''Missing block data'')
      | Inr (PStr s) \<Rightarrow>
          (case b64decode s of None \<Rightarrow> Inl (SuspiciousOperation ''Could not read block data'') | Some d \<Rightarrow> Inr d)
      | _ \<Rightarrow> Inl (SuspiciousOperation ''Could not read block data''))"

definition session_blocks :: "file_carving_session \<Rightarrow> osquery_db \<Rightarrow> file_carving_block list" where
  "session_blocks s db = filter (\<lambda>b. fb_session b = fs_id s) (od_blocks db)"

definition add_block :: "file_carving_session \<Rightarrow> int \<Rightarrow> string \<Rightarrow> osquery_db \<Rightarrow> pyerror + osquery_db" where
  "add_block s block_id block_data db =
     bind_result (int_range (2 ^ 31) block_id) (\<lambda>_.
       if list_ex (\<lambda>b. fb_block_id b = block_id) (session_blocks s db) then Inl IntegrityError
       else Inr (db\<lparr>od_blocks := od_blocks db @
              [\<lparr>fb_session = fs_id s, fb_block_id = block_id, fb_file = file_carving_block_path s block_id,
                fb_data = block_data\<rparr>]\<rparr>))"

definition session_finished :: "file_carving_session \<Rightarrow> osquery_db \<Rightarrow> bool" where
  "session_finished s db \<longleftrightarrow> int (length (session_blocks s db)) = fs_block_count s"

definition continue_file_carving_do_node_post ::
  "osquery_env \<Rightarrow> osquery_request \<Rightarrow> file_carving_session \<Rightarrow> osquery_db \<Rightarrow> (pyval \<times> osquery_db) posted" where
  "continue_file_carving_do_node_post env rq s db =
     bind_posted (quiet (block_id_of (or_data rq))) (\<lambda>block_id.
     bind_posted (quiet (block_data_of (or_data rq))) (\<lambda>block_data.
     bind_posted (quiet (add_block s block_id block_data db)) (\<lambda>db'.
       (Inr (PDict [], if session_finished s db' then db'\<lparr>od_tasks := od_tasks db' @ [fs_id s]\<rparr> else db'),
        osquery_events OsqueryFileCarvingEvent env 7 (fs_serial_number s) rq
          [[(''action'', PStr ''continue''), (''block_id'', PInt block_id),
            (''session_finished'', PBool (session_finished s db')), (''session_id'', PStr (fs_id s))]]))))"

text \<open>
  The task that builds the archive, in the order of the blocks. The session has no method
  \<open>get_archive_url\<close>, so the task raises when it makes the event, after the archive is saved.
\<close>

definition build_file_carving_session_archive :: "string \<Rightarrow> osquery_db \<Rightarrow> (pyerror + unit) \<times> (string \<times> string) option \<times> osquery_db" where
  "build_file_carving_session_archive session_id db =
     (case get_one (\<lambda>s. fs_id s = session_id) (od_sessions db) of
        Inl e \<Rightarrow> (Inl e, None, db)
      | Inr s \<Rightarrow>
          if truthy_str (fs_archive s) then (Inr (), None, db)
          else
            (let path = file_carving_session_archive_path s;
                 content = concat (map fb_data (sort_key fb_block_id (session_blocks s db)))
             in (Inl AttributeError, Some (path, content),
                 db\<lparr>od_sessions := update_where (\<lambda>r. fs_id r = session_id) (\<lambda>r. r\<lparr>fs_archive := Some path\<rparr>) (od_sessions db)\<rparr>)))"

subsection \<open>Distributed queries\<close>

fun new_query_machines :: "nat list \<Rightarrow> string \<Rightarrow> distributed_query list \<Rightarrow> distributed_query_machine list" where
  "new_query_machines pks serial_number [] = []"
| "new_query_machines pks serial_number (dq # r) =
     (let pk = fresh_pk pks in
      \<lparr>dqm_pk = pk, dqm_query = dq_pk dq, dqm_serial_number = serial_number, dqm_status = None, dqm_error_message = None\<rparr>
        # new_query_machines (pk # pks) serial_number r)"

definition query_machine_key :: "distributed_query_machine \<Rightarrow> nat \<times> string" where
  "query_machine_key dqm = (dqm_query dqm, dqm_serial_number dqm)"

definition read_batch_size :: nat where
  "read_batch_size = 10"

definition distributed_read_do_node_post ::
  "osquery_env \<Rightarrow> loaded_osquery_machine \<Rightarrow> osquery_db \<Rightarrow> pyerror + pyval \<times> osquery_db" where
  "distributed_read_do_node_post env lo db =
     (let m = lo_machine lo; sn = om_serial_number m in
      bind_result (iter_queries_for_enrolled_machine (oe_md5 env) (now_number env) read_batch_size m
          (mf_tags (machine_facts_of db sn)) (od_query_machines db) (od_queries db)) (\<lambda>dqs.
        let dqms = new_query_machines (map dqm_pk (od_query_machines db)) sn dqs;
            rows = od_query_machines db @ dqms in
        if \<not> distinct (map query_machine_key rows) then Inl IntegrityError
        else Inr (PDict [(''queries'', PDict (zip (map (\<lambda>dqm. nat_str (dqm_pk dqm)) dqms) (map (PStr \<circ> dq_sql) dqs)))],
                  db\<lparr>od_query_machines := rows\<rparr>)))"

text \<open>A parameter of \<open>DistributedWriteView\<close>: a dictionary.\<close>

definition json_dict :: "string \<Rightarrow> pyval \<Rightarrow> pyerror + dict" where
  "json_dict k data =
     bind_result (json_get k (PDict []) data) (\<lambda>v. case v of PDict d \<Rightarrow> Inr d | _ \<Rightarrow> Inl AttributeError)"

definition query_machine_pks :: "string list \<Rightarrow> pyerror + int list" where
  "query_machine_pks ks = map_result (\<lambda>k. case parse_int k of None \<Rightarrow> Inl ValueError | Some i \<Rightarrow> Inr i) ks"

definition write_status :: "dict \<Rightarrow> dict \<Rightarrow> distributed_query_machine \<Rightarrow> pyerror + distributed_query_machine" where
  "write_status statuses messages dqm =
     (let k = nat_str (dqm_pk dqm); status = dict_get_default statuses k PNone; message = dict_get_default messages k PNone in
      bind_result (int_column (if status = PNone then PInt 999 else status)) (\<lambda>st.
      bind_result (if message = PNone then Inr None else bind_result (text_column message) (\<lambda>s. Inr (Some s))) (\<lambda>msg.
        Inr (dqm\<lparr>dqm_status := st, dqm_error_message := msg\<rparr>))))"

fun remove_null_character :: "pyval \<Rightarrow> pyval" and remove_null_items :: "dict \<Rightarrow> dict" and
    remove_null_list :: "pyval list \<Rightarrow> pyval list" where
  "remove_null_character (PStr s) = PStr (filter (\<lambda>c. c \<noteq> CHR 0x00) s)"
| "remove_null_character (PDict d) = PDict (remove_null_items d)"
| "remove_null_character (PList vs) = PList (remove_null_list vs)"
| "remove_null_character v = v"
| "remove_null_items [] = []"
| "remove_null_items ((k, v) # r) = (k, remove_null_character v) # remove_null_items r"
| "remove_null_list [] = []"
| "remove_null_list (v # r) = remove_null_character v # remove_null_list r"

text \<open>What a \<open>for\<close> loop takes of a value.\<close>

definition iterated :: "pyval \<Rightarrow> pyerror + pyval list" where
  "iterated v =
     (case v of
        PList vs \<Rightarrow> Inr vs
      | PDict d \<Rightarrow> Inr (map (PStr \<circ> fst) d)
      | PStr s \<Rightarrow> Inr (map (\<lambda>c. PStr [c]) s)
      | _ \<Rightarrow> Inl TypeError)"

definition query_results :: "string \<Rightarrow> dict \<Rightarrow> distributed_query_machine \<Rightarrow> pyerror + query_result list" where
  "query_results serial_number results dqm =
     bind_result (iterated (dict_get_default results (nat_str (dqm_pk dqm)) (PList []))) (\<lambda>rows.
       Inr (map (\<lambda>row. \<lparr>qr_query = dqm_query dqm, qr_serial_number = serial_number, qr_row = remove_null_character row\<rparr>) rows))"

definition distributed_write_do_node_post ::
  "osquery_request \<Rightarrow> string \<Rightarrow> osquery_db \<Rightarrow> pyerror + pyval \<times> osquery_db" where
  "distributed_write_do_node_post rq serial_number db =
     bind_result (json_dict ''queries'' (or_data rq)) (\<lambda>results.
     bind_result (json_dict ''statuses'' (or_data rq)) (\<lambda>statuses.
     bind_result (json_dict ''messages'' (or_data rq)) (\<lambda>messages.
       (let ks = remdups (map fst results @ map fst statuses @ map fst messages) in
        if ks = [] then Inr (PDict [], db)
        else
          bind_result (query_machine_pks ks) (\<lambda>pks.
            let dqms = filter (\<lambda>dqm. int (dqm_pk dqm) \<in> set pks) (od_query_machines db) in
            bind_result (map_result (write_status statuses messages) dqms) (\<lambda>dqms'.
            bind_result (map_result (query_results serial_number results) dqms) (\<lambda>rs.
              Inr (PDict [],
                   db\<lparr>od_query_machines :=
                        map (\<lambda>dqm. case find (\<lambda>d. dqm_pk d = dqm_pk dqm) dqms' of None \<Rightarrow> dqm | Some d \<Rightarrow> d) (od_query_machines db),
                      od_results := od_results db @ concat rs\<rparr>))))))))"

subsection \<open>Logs\<close>

text \<open>\<open>records.sort(key=...)\<close>: the times have to be comparable, when there are two.\<close>

definition sort_records :: "dict list \<Rightarrow> pyerror + dict list" where
  "sort_records records =
     (let key = (\<lambda>r. dict_get_default r ''unixTime'' (PInt 0)); keys = map key records in
      if length records < 2 then Inr records
      else if list_all (\<lambda>v. case v of PInt _ \<Rightarrow> True | PBool _ \<Rightarrow> True | _ \<Rightarrow> False) keys
        then Inr (sort_key (\<lambda>r. case key r of PInt i \<Rightarrow> i | PBool b \<Rightarrow> of_bool b | _ \<Rightarrow> 0) records)
      else if list_all (\<lambda>v. case v of PStr _ \<Rightarrow> True | _ \<Rightarrow> False) keys
        then Inr (sort_key (\<lambda>r. case key r of PStr s \<Rightarrow> str_key s | _ \<Rightarrow> []) records)
      else Inl TypeError)"

definition record_dict :: "pyval \<Rightarrow> pyerror + dict" where
  "record_dict v = (case v of PDict d \<Rightarrow> Inr d | _ \<Rightarrow> Inl AttributeError)"

text \<open>
  What is returned for a machine that reports another serial number is not used by the caller. The
  name of a machine that is not a text is compared with the serial number as any value.
\<close>

definition process_decorations ::
  "osquery_env \<Rightarrow> osquery_request \<Rightarrow> enrolled_machine \<Rightarrow> dict list \<Rightarrow> osquery_db \<Rightarrow> (pyval \<times> osquery_db) posted" where
  "process_decorations env rq m records db =
     bind_posted (quiet (record_dict (dict_get_default (last records) ''decorations'' (PDict [])))) (\<lambda>decorations.
       (let reported = dict_get_default decorations ''serial_number'' PNone;
            version = dict_get_default decorations ''version'' PNone in
        if truthy reported \<and> reported \<noteq> PStr (om_serial_number m)
        then bind_posted (quiet (text_column reported)) (\<lambda>sn.
               (Inr (PDict [(''node_invalid'', PBool True)], db),
                [post_machine_conflict_event env rq sn (om_serial_number m) decorations]))
        else if truthy version \<and> opt_str (om_osquery_version m) \<noteq> version
        then bind_posted (quiet (osquery_version_column version)) (\<lambda>v.
               quiet (Inr (PNone, db\<lparr>od_machines := update_where (\<lambda>r. om_pk r = om_pk m)
                  (\<lambda>r. r\<lparr>om_osquery_version := v\<rparr>) (od_machines db)\<rparr>)))
        else quiet (Inr (PNone, db))))"

definition last_inventory_snapshot :: "dict list \<Rightarrow> pyval" where
  "last_inventory_snapshot records =
     (case filter (\<lambda>r. dict_get r ''name'' = Some (PStr INVENTORY_QUERY_NAME)) records of
        [] \<Rightarrow> PNone
      | r # rs \<Rightarrow> dict_get_default (last (r # rs)) ''snapshot'' PNone)"

definition other_results :: "dict list \<Rightarrow> dict list" where
  "other_results records = filter (\<lambda>r. dict_get r ''name'' \<noteq> Some (PStr INVENTORY_QUERY_NAME)) records"

definition commit_inventory_snapshot ::
  "osquery_env \<Rightarrow> osquery_request \<Rightarrow> loaded_osquery_machine \<Rightarrow> pyval \<Rightarrow> osquery_db \<Rightarrow> osquery_db posted" where
  "commit_inventory_snapshot env rq lo snapshot db =
     (let m = lo_machine lo in
      bind_posted (quiet (base_tree env rq (om_serial_number m) (om_node_key m) (lo_secret lo) (od_inventory db))) (\<lambda>tree.
      bind_posted (quiet (update_tree_with_inventory_query_snapshot tree (tree_of snapshot))) (\<lambda>tree'.
        commit_tree env tree' db)))"

definition log_result ::
  "osquery_env \<Rightarrow> osquery_request \<Rightarrow> loaded_osquery_machine \<Rightarrow> dict list \<Rightarrow> osquery_db \<Rightarrow> osquery_db posted" where
  "log_result env rq lo records db =
     (let snapshot = last_inventory_snapshot records in
      bind_posted (if truthy snapshot then commit_inventory_snapshot env rq lo snapshot db else quiet (Inr db)) (\<lambda>db'.
        (Inr db', post_events_from_osquery_log OsqueryResultEvent env (om_serial_number (lo_machine lo)) rq (other_results records))))"

text \<open>\<open>self.data.pop("data", [])\<close>: the type of the log is another item.\<close>

definition log_do_node_post ::
  "osquery_env \<Rightarrow> osquery_request \<Rightarrow> loaded_osquery_machine \<Rightarrow> osquery_db \<Rightarrow> (pyval \<times> osquery_db) posted" where
  "log_do_node_post env rq lo db =
     bind_posted (quiet (json_get ''data'' (PList []) (or_data rq))) (\<lambda>v.
       if \<not> truthy v then quiet (Inr (PDict [], db))
       else
         bind_posted (quiet (case v of PList vs \<Rightarrow> map_result record_dict vs | _ \<Rightarrow> Inl AttributeError)) (\<lambda>rs.
         bind_posted (quiet (sort_records rs)) (\<lambda>records.
         bind_posted (process_decorations env rq (lo_machine lo) records db) (\<lambda>(_, db1).
         bind_posted (quiet (json_get ''log_type'' PNone (or_data rq))) (\<lambda>log_type.
         bind_posted
           (if log_type = PStr ''result'' then log_result env rq lo records db1
            else if log_type = PStr ''status''
              then (Inr db1, post_events_from_osquery_log OsqueryStatusEvent env (om_serial_number (lo_machine lo)) rq records)
            else quiet (Inr db1)) (\<lambda>db2.
           quiet (Inr (PDict [], db2))))))))"

subsection \<open>A request\<close>

fun view_request_type :: "osquery_view \<Rightarrow> string" where
  "view_request_type Config = ''config''"
| "view_request_type StartFileCarving = ''start_file_carving''"
| "view_request_type ContinueFileCarving = ''continue_file_carving''"
| "view_request_type DistributedRead = ''distributed_read''"
| "view_request_type DistributedWrite = ''distributed_write''"
| "view_request_type Log = ''log''"
| "view_request_type Enroll = []"

definition do_node_post ::
  "osquery_env \<Rightarrow> osquery_view \<Rightarrow> osquery_request \<Rightarrow> file_carving_session option \<Rightarrow> loaded_osquery_machine \<Rightarrow> osquery_db \<Rightarrow>
   (pyval \<times> osquery_db) posted" where
  "do_node_post env view rq s lo db =
     (let sn = om_serial_number (lo_machine lo) in
      case view of
        Config \<Rightarrow> quiet (Inr (PDict (config_do_node_post env lo db), db))
      | StartFileCarving \<Rightarrow> start_file_carving_do_node_post env rq sn db
      | ContinueFileCarving \<Rightarrow>
          (case s of None \<Rightarrow> quiet (Inl DoesNotExist) | Some fcs \<Rightarrow> continue_file_carving_do_node_post env rq fcs db)
      | DistributedRead \<Rightarrow> quiet (distributed_read_do_node_post env lo db)
      | DistributedWrite \<Rightarrow> quiet (distributed_write_do_node_post rq sn db)
      | _ \<Rightarrow> log_do_node_post env rq lo db)"

text \<open>\<open>BaseNodeView\<close>: the session of a file carving stands for the key of the node.\<close>

definition base_node_post :: "osquery_env \<Rightarrow> osquery_view \<Rightarrow> osquery_request \<Rightarrow> osquery_db \<Rightarrow> (pyval \<times> osquery_db) posted" where
  "base_node_post env view rq db =
     bind_posted
       (quiet (if view = ContinueFileCarving
               then bind_result (session_authenticate rq db) (\<lambda>(s, lo). Inr (Some s, lo))
               else bind_result (node_authenticate rq db) (\<lambda>lo. Inr (None, lo)))) (\<lambda>(s, lo).
     bind_posted
       (Inr (), post_request_event env (om_serial_number (lo_machine lo)) rq (view_request_type view)
          (om_enrollment (lo_machine lo)) (lo_configuration lo)) (\<lambda>_.
       do_node_post env view rq s lo db))"

definition enroll_post :: "osquery_env \<Rightarrow> osquery_request \<Rightarrow> osquery_db \<Rightarrow> (pyval \<times> osquery_db) posted" where
  "enroll_post env rq db =
     bind_posted (enroll_authenticate env rq db) (\<lambda>((serial_number, en, es), db').
       enroll_do_post env rq en es serial_number db')"

definition osquery_post :: "osquery_env \<Rightarrow> osquery_view \<Rightarrow> http_post \<Rightarrow> osquery_state \<Rightarrow> (pyerror + pyval) \<times> osquery_state" where
  "osquery_post env view rq st =
     (case osquery_json_data env rq of
        Inl e \<Rightarrow> (Inl e, st)
      | Inr data \<Rightarrow>
          (case user_agent_and_ip_address_from_request (oe_valid_ip env) (hp_meta rq) of
             (ua, ip_addr) \<Rightarrow>
               (let r = \<lparr>or_data = data, or_user_agent = ua, or_ip = ip_addr\<rparr> in
                case (if view = Enroll then enroll_post env r (os_db st) else base_node_post env view r (os_db st)) of
                  (Inl e, evs) \<Rightarrow> (Inl e, st\<lparr>os_events := os_events st @ evs\<rparr>)
                | (Inr (response, db), evs) \<Rightarrow> (Inr response, \<lparr>os_db = db, os_events = os_events st @ evs\<rparr>))))"

end
