(* ===== verification/OsqueryQueries.thy ===== *)
theory OsqueryQueries imports OsqueryModels begin

text \<open>
  The distributed queries a machine is given: \<open>iter_queries_for_enrolled_machine\<close> against what a
  query asks of a machine, and the share of the machines that \<open>shard\<close> selects.
\<close>

subsection \<open>What a query asks of a machine\<close>

definition version_reached :: "enrolled_machine \<Rightarrow> distributed_query \<Rightarrow> bool" where
  "version_reached m dq \<longleftrightarrow>
     (case (version_tuple (dq_minimum_osquery_version dq), version_tuple (om_osquery_version m)) of
        (Inr minimum, Inr version) \<Rightarrow> minimum \<le> version
      | _ \<Rightarrow> False)"

definition in_shard :: "(string \<Rightarrow> string) \<Rightarrow> enrolled_machine \<Rightarrow> distributed_query \<Rightarrow> bool" where
  "in_shard md5 m dq \<longleftrightarrow> dq_shard dq = 100 \<or> shard md5 (om_serial_number m) (dq_pk dq) \<le> dq_shard dq"

definition already_given :: "enrolled_machine \<Rightarrow> distributed_query_machine list \<Rightarrow> distributed_query \<Rightarrow> bool" where
  "already_given m dqms dq \<longleftrightarrow> (\<exists>dqm \<in> set dqms. dqm_query dqm = dq_pk dq \<and> dqm_serial_number dqm = om_serial_number m)"

definition targets :: "enrolled_machine \<Rightarrow> nat list \<Rightarrow> distributed_query \<Rightarrow> bool" where
  "targets m tags dq \<longleftrightarrow>
     (dq_platforms dq = [] \<or> set (dq_platforms dq) \<inter> set (platforms_from_mask (om_platform_mask m)) \<noteq> {}) \<and>
     (dq_serial_numbers dq = [] \<or> om_serial_number m \<in> set (dq_serial_numbers dq)) \<and>
     (dq_tags dq = [] \<or> set (dq_tags dq) \<inter> set tags \<noteq> {})"

definition eligible ::
  "(string \<Rightarrow> string) \<Rightarrow> int \<Rightarrow> enrolled_machine \<Rightarrow> nat list \<Rightarrow> distributed_query_machine list \<Rightarrow> distributed_query \<Rightarrow> bool" where
  "eligible md5 now m tags dqms dq \<longleftrightarrow>
     is_active now dq \<and> targets m tags dq \<and> \<not> already_given m dqms dq \<and> version_reached m dq \<and> in_shard md5 m dq"

lemma list_ex_inter: "list_ex (\<lambda>x. x \<in> set ys) xs \<longleftrightarrow> set xs \<inter> set ys \<noteq> {}"
  by (auto simp: list_ex_iff)

lemma active_is_active: "active now dqs = filter (is_active now) dqs"
  by (auto simp: active_def is_active_def not_less split: option.splits intro!: filter_cong)

lemma queries_for_machine_filter:
  "queries_for_machine now m tags dqms dqs =
   filter (\<lambda>dq. is_active now dq \<and> targets m tags dq \<and> \<not> already_given m dqms dq) (sort_key dq_pk dqs)"
proof -
  have eq: "(((is_active now dq \<and> (dq_platforms dq = [] \<or> list_ex (\<lambda>p. p \<in> set (platforms_from_mask (om_platform_mask m))) (dq_platforms dq))) \<and>
       (dq_serial_numbers dq = [] \<or> om_serial_number m \<in> set (dq_serial_numbers dq))) \<and>
       (dq_tags dq = [] \<or> list_ex (\<lambda>t. t \<in> set tags) (dq_tags dq))) \<and>
       \<not> list_ex (\<lambda>dqm. dqm_query dqm = dq_pk dq \<and> dqm_serial_number dqm = om_serial_number m) dqms \<longleftrightarrow>
     is_active now dq \<and> targets m tags dq \<and> \<not> already_given m dqms dq" for dq
    unfolding targets_def already_given_def list_ex_inter by (auto simp: list_ex_iff)
  show ?thesis
    unfolding queries_for_machine_def Let_def active_is_active filter_filter filter_sort [symmetric]
    by (rule filter_cong [OF refl], subst eq [symmetric], fast)
qed

definition versions_parse :: "enrolled_machine \<Rightarrow> distributed_query list \<Rightarrow> bool" where
  "versions_parse m dqs \<longleftrightarrow>
     \<not> isl (version_tuple (om_osquery_version m)) \<and>
     list_all (\<lambda>dq. \<not> isl (version_tuple (dq_minimum_osquery_version dq))) dqs"

lemma take_queries_take:
  "versions_parse m dqs \<Longrightarrow>
   take_queries md5 m n dqs = Inr (take n (filter (\<lambda>dq. version_reached m dq \<and> in_shard md5 m dq) dqs))"
proof (induction dqs arbitrary: n)
  case (Cons dq dqs)
  have IH: "take_queries md5 m k dqs = Inr (take k (filter (\<lambda>dq. version_reached m dq \<and> in_shard md5 m dq) dqs))" for k
    using Cons by (simp add: versions_parse_def)
  from Cons.prems obtain minimum version where
    "version_tuple (dq_minimum_osquery_version dq) = Inr minimum" "version_tuple (om_osquery_version m) = Inr version"
    by (auto simp: versions_parse_def isl_def split: sum.splits) (metis sum.exhaust)
  then show ?case
    by (cases n) (auto simp: IH version_reached_def in_shard_def not_less)
qed simp

lemma take_queries_Cons:
  "take_queries md5 m n (dq # r) =
     (if n = 0 then Inr []
      else
        bind_result (version_tuple (dq_minimum_osquery_version dq)) (\<lambda>minimum.
        bind_result (version_tuple (om_osquery_version m)) (\<lambda>version.
          if version < minimum then take_queries md5 m n r
          else if in_shard md5 m dq then bind_result (take_queries md5 m (n - 1) r) (\<lambda>dqs. Inr (dq # dqs))
          else take_queries md5 m n r)))"
  by (simp add: in_shard_def)

text \<open>
  C24: A machine is given exactly the queries it should have. When the versions are numbers with dots,
  \<open>iter_queries_for_enrolled_machine\<close> yields the first \<open>n\<close>, by primary key, of the queries that are
  active, name the platform, the serial number and the tags of the machine or none at all, have
  not been given to it, do not ask for a later osquery, and whose shard the machine is in: none of
  these is left out, and no other is added.
\<close>

theorem distributed_queries_exact:
  assumes "versions_parse m dqs"
  shows "iter_queries_for_enrolled_machine md5 now n m tags dqms dqs =
     Inr (take n (filter (eligible md5 now m tags dqms) (sort_key dq_pk dqs)))"
proof -
  have "versions_parse m (queries_for_machine now m tags dqms dqs)"
    using assms by (auto simp: versions_parse_def queries_for_machine_filter list_all_iff)
  then show ?thesis
    by (simp add: iter_queries_for_enrolled_machine_def take_queries_take queries_for_machine_filter
        eligible_def conj_ac cong: filter_cong)
qed

subsection \<open>Shards\<close>

lemma shard_less: "0 \<le> shard md5 key salt \<and> shard md5 key salt < 100"
  by (simp add: shard_def)

lemma take_queries_cong:
  "list_all2 (\<lambda>a b. dq_pk a = dq_pk b \<and> dq_minimum_osquery_version a = dq_minimum_osquery_version b \<and>
       in_shard md5 m a = in_shard md5 m b) as bs \<Longrightarrow>
   map_sum (\<lambda>e. e) (map dq_pk) (take_queries md5 m n as) = map_sum (\<lambda>e. e) (map dq_pk) (take_queries md5 m n bs)"
proof (induction as bs arbitrary: n rule: list_all2_induct)
  case (Cons a as b bs)
  have sum: "map_sum (\<lambda>e. e) (map dq_pk) (take_queries md5 m k as) = map_sum (\<lambda>e. e) (map dq_pk) (take_queries md5 m k bs)" for k
    by (rule Cons.IH)
  have head: "map_sum (\<lambda>e. e) (map dq_pk) (bind_result (take_queries md5 m k as) (\<lambda>dqs. Inr (a # dqs))) =
      map_sum (\<lambda>e. e) (map dq_pk) (bind_result (take_queries md5 m k bs) (\<lambda>dqs. Inr (b # dqs)))" for k
    using sum [of k] Cons.hyps by (cases "take_queries md5 m k as"; cases "take_queries md5 m k bs") auto
  show ?case
    using Cons.hyps sum head
    by (cases "version_tuple (dq_minimum_osquery_version b)"; cases "version_tuple (om_osquery_version m)")
       (simp_all add: take_queries_Cons del: take_queries.simps)
qed simp

lemma insort_shard:
  "insort_key dq_pk (dq\<lparr>dq_shard := s\<rparr>) (map (\<lambda>dq. dq\<lparr>dq_shard := s\<rparr>) dqs) =
   map (\<lambda>dq. dq\<lparr>dq_shard := s\<rparr>) (insort_key dq_pk dq dqs)"
  by (induction dqs) simp_all

lemma sort_shard:
  "sort_key dq_pk (map (\<lambda>dq. dq\<lparr>dq_shard := s\<rparr>) dqs) = map (\<lambda>dq. dq\<lparr>dq_shard := s\<rparr>) (sort_key dq_pk dqs)"
  by (induction dqs) (simp_all add: insort_shard)


subsection \<open>A witness\<close>

definition sample_query :: "nat \<Rightarrow> distributed_query" where
  "sample_query pk =
     \<lparr>dq_pk = pk, dq_sql = ''select * from users;'', dq_platforms = [''darwin''], dq_minimum_osquery_version = Some ''4.5.1'',
      dq_valid_from = 100, dq_valid_until = None, dq_serial_numbers = [], dq_tags = [], dq_shard = 100\<rparr>"

definition sample_osquery_machine :: enrolled_machine where
  "sample_osquery_machine =
     \<lparr>om_pk = 1, om_enrollment = 1, om_serial_number = ''C02'', om_node_key = ''key'', om_osquery_version = Some ''4.10.0'',
      om_platform_mask = 0x15\<rparr>"

lemma sample_versions_parse: "versions_parse sample_osquery_machine [sample_query 7, sample_query 5]"
  by code_simp

theorem distributed_queries_exact_witness:
  "iter_queries_for_enrolled_machine (md5_hexdigest) 200 1 sample_osquery_machine [] []
     [sample_query 7, sample_query 5] =
   Inr (take 1 (filter (eligible md5_hexdigest 200 sample_osquery_machine [] []) (sort_key dq_pk [sample_query 7, sample_query 5])))"
  by (rule distributed_queries_exact [OF sample_versions_parse])

end
