(* ===== verification/OsqueryRuns.thy ===== *)
theory OsqueryRuns imports OsqueryViews OsqueryQueries begin

text \<open>
  Any sequence of requests of the agents, of archive tasks and of changes of the administrators: the
  invariant of the tables of osquery, and what it gives for the machines, the distributed queries
  and the file carvings.
\<close>

subsection \<open>The invariant\<close>

text \<open>The constraints of the tables, and the tasks of the sessions that have their blocks.\<close>

definition block_key :: "file_carving_block \<Rightarrow> string \<times> int" where
  "block_key b = (fb_session b, fb_block_id b)"

definition block_number :: "string \<Rightarrow> file_carving_block list \<Rightarrow> int" where
  "block_number session_id bs = int (length (filter (\<lambda>b. fb_session b = session_id) bs))"

definition machines_ok :: "enrolled_machine list \<Rightarrow> bool" where
  "machines_ok ms \<longleftrightarrow> distinct (map om_pk ms) \<and> distinct (map om_node_key ms) \<and> distinct (map om_serial_number ms)"

definition query_machines_ok :: "distributed_query_machine list \<Rightarrow> bool" where
  "query_machines_ok dqms \<longleftrightarrow> distinct (map dqm_pk dqms) \<and> distinct (map query_machine_key dqms)"

definition carving_ok :: "file_carving_session list \<Rightarrow> file_carving_block list \<Rightarrow> string list \<Rightarrow> bool" where
  "carving_ok ss bs tasks \<longleftrightarrow>
     distinct (map fs_id ss) \<and> distinct (map block_key bs) \<and> fb_session ` set bs \<subseteq> fs_id ` set ss \<and>
     distinct tasks \<and> set tasks \<subseteq> fs_id ` set ss \<and>
     (\<forall>s \<in> set ss. fs_id s \<in> set tasks \<longleftrightarrow> 1 \<le> fs_block_count s \<and> fs_block_count s \<le> block_number (fs_id s) bs)"

definition osquery_ok :: "osquery_db \<Rightarrow> bool" where
  "osquery_ok db \<longleftrightarrow>
     machines_ok (od_machines db) \<and> distinct (map dq_pk (od_queries db)) \<and> query_machines_ok (od_query_machines db) \<and>
     carving_ok (od_sessions db) (od_blocks db) (od_tasks db)"

subsection \<open>What the operations change\<close>

text \<open>The tables of the queries and of the carvings: a commit of a snapshot changes none of them.\<close>

definition agent_tables where
  "agent_tables db = (od_queries db, od_query_machines db, od_sessions db, od_blocks db, od_tasks db, od_results db)"

definition same_tables :: "osquery_db \<Rightarrow> osquery_db \<Rightarrow> bool" where
  "same_tables db db' \<longleftrightarrow> agent_tables db' = agent_tables db \<and> od_machines db' = od_machines db"

lemma same_tables_refl [simp]: "same_tables db db"
  by (simp add: same_tables_def)

lemma commit_tree_frame:
  "commit_tree env t db = (Inr db', evs) \<Longrightarrow> same_tables db db'"
  by (auto simp: commit_tree_def same_tables_def agent_tables_def split: prod.splits sum.splits)

lemma enroll_snapshot_frame:
  "enroll_snapshot env rq es m db = (Inr db', evs) \<Longrightarrow> same_tables db db'"
  by (auto simp: enroll_snapshot_def Let_def bind_posted_Inr quiet_Inr split: if_splits dest: commit_tree_frame)

lemma commit_inventory_frame:
  "commit_inventory_snapshot env rq lo v db = (Inr db', evs) \<Longrightarrow> same_tables db db'"
  by (auto simp: commit_inventory_snapshot_def Let_def bind_posted_Inr quiet_Inr dest: commit_tree_frame)

lemma log_result_frame:
  "log_result env rq lo records db = (Inr db', evs) \<Longrightarrow> same_tables db db'"
  by (auto simp: log_result_def Let_def bind_posted_Inr quiet_Inr split: if_splits dest: commit_inventory_frame)

text \<open>The version of the machine, from the decorations of the last record.\<close>

definition set_version :: "enrolled_machine \<Rightarrow> string option \<Rightarrow> enrolled_machine list \<Rightarrow> enrolled_machine list" where
  "set_version m v ms = update_where (\<lambda>r. om_pk r = om_pk m) (\<lambda>r. r\<lparr>om_osquery_version := v\<rparr>) ms"

definition version_step :: "enrolled_machine \<Rightarrow> osquery_db \<Rightarrow> osquery_db \<Rightarrow> bool" where
  "version_step m db db' \<longleftrightarrow>
     agent_tables db' = agent_tables db \<and>
     (od_machines db' = od_machines db \<or> (\<exists>v. od_machines db' = set_version m v (od_machines db)))"

lemma process_decorations_frame:
  "process_decorations env rq m records db = (Inr (x, db'), evs) \<Longrightarrow> version_step m db db'"
  by (auto simp: process_decorations_def Let_def bind_posted_Inr quiet_Inr set_version_def version_step_def
        agent_tables_def split: if_splits)

lemma set_version_same [simp]:
  "map om_pk (set_version m v ms) = map om_pk ms"
  "map om_node_key (set_version m v ms) = map om_node_key ms"
  "map om_serial_number (set_version m v ms) = map om_serial_number ms"
  by (auto simp: set_version_def update_where_def)

lemma version_step_same: "version_step m db db1 \<Longrightarrow> same_tables db1 db2 \<Longrightarrow> version_step m db db2"
  by (simp add: version_step_def same_tables_def)

lemma log_frame:
  assumes "log_do_node_post env rq lo db = (Inr (x, db'), evs)"
  shows "version_step (lo_machine lo) db db'"
proof -
  from assms obtain v evs0 where
    v: "(if \<not> truthy v then quiet (Inr (PDict [], db)) else
         bind_posted (quiet (case v of PList vs \<Rightarrow> map_result record_dict vs | _ \<Rightarrow> Inl AttributeError)) (\<lambda>rs.
         bind_posted (quiet (sort_records rs)) (\<lambda>records.
         bind_posted (process_decorations env rq (lo_machine lo) records db) (\<lambda>(_, db1).
         bind_posted (quiet (json_get ''log_type'' PNone (or_data rq))) (\<lambda>log_type.
         bind_posted
           (if log_type = PStr ''result'' then log_result env rq lo records db1
            else if log_type = PStr ''status''
              then (Inr db1, post_events_from_osquery_log OsqueryStatusEvent env (om_serial_number (lo_machine lo)) rq records)
            else quiet (Inr db1)) (\<lambda>db2.
           quiet (Inr (PDict [], db2)))))))) = (Inr (x, db'), evs0)"
    unfolding log_do_node_post_def by (subst (asm) bind_posted_Inr) blast
  show ?thesis
  proof (cases "truthy v")
    case False
    with v show ?thesis by (simp add: quiet_Inr version_step_def)
  next
    case True
    with v obtain records y db1 evs1 log_type evs2 where
      d: "process_decorations env rq (lo_machine lo) records db = (Inr (y, db1), evs1)"
      and r: "(if log_type = PStr ''result'' then log_result env rq lo records db1
            else if log_type = PStr ''status''
              then (Inr db1, post_events_from_osquery_log OsqueryStatusEvent env (om_serial_number (lo_machine lo)) rq records)
            else quiet (Inr db1)) = (Inr db', evs2)"
      by (simp only: bind_posted_Inr quiet_Inr if_True if_False not_True_eq_False split_paired_Ex prod.case Inr_inject
           prod.inject simp_thms) blast
    from r have "same_tables db1 db'"
      by (auto simp: quiet_Inr split: if_splits dest: log_result_frame)
    with process_decorations_frame [OF d] show ?thesis by (rule version_step_same)
  qed
qed

subsection \<open>Machines\<close>

abbreviation serials :: "enrolled_machine list \<Rightarrow> string list" where
  "serials \<equiv> map om_serial_number"

lemma set_machine_fields [simp]:
  "om_pk (set_enrolled_machine mu r) = om_pk r"
  "om_enrollment (set_enrolled_machine mu r) = om_enrollment r"
  "om_serial_number (set_enrolled_machine mu r) = om_serial_number r"
  "om_node_key (set_enrolled_machine mu r) = mu_node_key mu"
  by (simp_all add: set_enrolled_machine_def)

lemma new_machine_fields [simp]:
  "om_pk (new_enrolled_machine k d) = fst d"
  "om_enrollment (new_enrolled_machine k d) = fst k"
  "om_serial_number (new_enrolled_machine k d) = snd k"
  "om_node_key (new_enrolled_machine k d) = mu_node_key (snd d)"
  by (simp_all add: new_enrolled_machine_def)

lemma upsert_machine_pks:
  "distinct (map om_pk ms) \<Longrightarrow> fst d \<notin> set (map om_pk ms) \<Longrightarrow> distinct (map om_pk (upsert_enrolled_machine k d ms))"
proof (induction ms)
  case (Cons r ms)
  have "om_pk ` set (upsert_enrolled_machine k d ms) \<subseteq> insert (fst d) (om_pk ` set ms)"
    by (induction ms) auto
  with Cons show ?case by auto
qed simp

lemma upsert_machine_others:
  "filter (\<lambda>r. om_serial_number r \<noteq> snd k) (upsert_enrolled_machine k d ms) = filter (\<lambda>r. om_serial_number r \<noteq> snd k) ms"
  by (induction ms) (auto simp: enrolled_machine_key_def)

lemma upsert_machine_row:
  "\<exists>r. r \<in> set (upsert_enrolled_machine k d ms) \<and> enrolled_machine_key r = k"
  using osquery_machines.keys_upsert [of k d ms] by force

text \<open>The row that \<open>update_or_create\<close> writes has the new node key; the first with the key of the machine.\<close>

lemma upsert_machine_head:
  "hd (filter (\<lambda>m. enrolled_machine_key m = k) (upsert_enrolled_machine k d ms)) =
     (case filter (\<lambda>m. enrolled_machine_key m = k) ms of
        [] \<Rightarrow> new_enrolled_machine k d
      | r # rs \<Rightarrow> set_enrolled_machine (snd d) r)"
  by (induction ms) (auto simp: enrolled_machine_key_def)

definition enrolled_rows :: "nat \<times> string \<Rightarrow> nat \<times> machine_update \<Rightarrow> enrolled_machine list \<Rightarrow> enrolled_machine list" where
  "enrolled_rows k d ms =
     (let rows = upsert_enrolled_machine k d ms; m = hd (filter (\<lambda>m. enrolled_machine_key m = k) rows)
      in delete_where (other_enrolled_machine m) rows)"

lemma distinct_map_delete: "distinct (map f xs) \<Longrightarrow> distinct (map f (delete_where p xs))"
  by (simp add: delete_where_def distinct_map_filter)

lemma distinct_singleton: "distinct xs \<Longrightarrow> set xs = {x} \<Longrightarrow> xs = [x]"
  by (cases xs; cases "tl xs") auto

lemma enrolled_rows_facts:
  assumes ok: "machines_ok ms" and pk: "fst d \<notin> set (map om_pk ms)"
    and keys: "distinct (map om_node_key (upsert_enrolled_machine k d ms))"
  defines "m \<equiv> hd (filter (\<lambda>m. enrolled_machine_key m = k) (upsert_enrolled_machine k d ms))"
  shows "machines_ok (enrolled_rows k d ms) \<and> m \<in> set (enrolled_rows k d ms) \<and>
     om_serial_number m = snd k \<and> om_node_key m = mu_node_key (snd d) \<and>
     filter (\<lambda>r. om_serial_number r = snd k) (enrolled_rows k d ms) = [m] \<and>
     filter (\<lambda>r. om_serial_number r \<noteq> snd k) (enrolled_rows k d ms) = filter (\<lambda>r. om_serial_number r \<noteq> snd k) ms"
proof -
  let ?rows = "upsert_enrolled_machine k d ms"
  have ne: "filter (\<lambda>m. enrolled_machine_key m = k) ?rows \<noteq> []"
    using upsert_machine_row [of k d ms] by (auto simp: filter_empty_conv)
  then have "m \<in> set (filter (\<lambda>m. enrolled_machine_key m = k) ?rows)" unfolding m_def by (rule hd_in_set)
  then have m: "m \<in> set ?rows" "enrolled_machine_key m = k" by auto
  then have sn: "om_serial_number m = snd k" by (auto simp: enrolled_machine_key_def)
  have nk: "om_node_key m = mu_node_key (snd d)"
    unfolding m_def upsert_machine_head by (simp split: list.splits)
  have pks: "distinct (map om_pk ?rows)" using ok pk by (intro upsert_machine_pks) (simp_all add: machines_ok_def)
  have rows: "enrolled_rows k d ms = delete_where (other_enrolled_machine m) ?rows"
    by (simp add: enrolled_rows_def Let_def m_def)
  have m_in: "m \<in> set (enrolled_rows k d ms)"
    using m by (simp add: rows set_delete_where other_enrolled_machine_def)
  have eq_m: "r = m" if "r \<in> set (enrolled_rows k d ms)" "om_serial_number r = snd k" for r
  proof -
    from that have "r \<in> set ?rows" "om_pk r = om_pk m"
      by (auto simp: rows set_delete_where other_enrolled_machine_def sn)
    with m(1) pks show ?thesis by (auto dest: distinct_map_eqD)
  qed
  have dist: "distinct (enrolled_rows k d ms)"
    using pks by (simp add: rows delete_where_def distinct_map)
  have one: "filter (\<lambda>r. om_serial_number r = snd k) (enrolled_rows k d ms) = [m]"
  proof -
    let ?f = "filter (\<lambda>r. om_serial_number r = snd k) (enrolled_rows k d ms)"
    have "r = m" if "r \<in> set ?f" for r using that eq_m [of r] by (simp only: set_filter mem_Collect_eq)
    moreover have "m \<in> set ?f" using m_in sn by (simp only: set_filter mem_Collect_eq)
    ultimately have "set ?f = {m}" by blast
    moreover have "distinct ?f" using dist by simp
    ultimately show ?thesis by (intro distinct_singleton)
  qed
  have others: "filter (\<lambda>r. om_serial_number r \<noteq> snd k) (enrolled_rows k d ms) = filter (\<lambda>r. om_serial_number r \<noteq> snd k) ms"
  proof -
    have "filter (\<lambda>r. om_serial_number r \<noteq> snd k) (enrolled_rows k d ms) = filter (\<lambda>r. om_serial_number r \<noteq> snd k) ?rows"
      unfolding rows delete_where_def filter_filter by (rule filter_cong) (auto simp: other_enrolled_machine_def sn)
    then show ?thesis by (simp add: upsert_machine_others)
  qed
  have old: "r \<in> set ms" if "r \<in> set (enrolled_rows k d ms)" "om_serial_number r \<noteq> snd k" for r
  proof -
    have "r \<in> set (filter (\<lambda>r. om_serial_number r \<noteq> snd k) (enrolled_rows k d ms))" using that by simp
    then show ?thesis by (simp add: others)
  qed
  have "inj_on om_serial_number (set (enrolled_rows k d ms))"
  proof (rule inj_onI)
    fix a b assume a: "a \<in> set (enrolled_rows k d ms)" and b: "b \<in> set (enrolled_rows k d ms)"
      and eq: "om_serial_number a = om_serial_number b"
    show "a = b"
    proof (cases "om_serial_number a = snd k")
      case True
      with eq_m a b eq show ?thesis by metis
    next
      case False
      with old a b eq have "a \<in> set ms" "b \<in> set ms" by metis+
      with ok eq show ?thesis by (auto simp: machines_ok_def dest: distinct_map_eqD)
    qed
  qed
  with dist have "distinct (serials (enrolled_rows k d ms))" by (simp add: distinct_map)
  moreover have "distinct (map om_pk (enrolled_rows k d ms))" "distinct (map om_node_key (enrolled_rows k d ms))"
    using pks keys by (simp_all only: rows distinct_map_delete)
  ultimately have "machines_ok (enrolled_rows k d ms)" by (simp add: machines_ok_def)
  with m_in sn nk one others show ?thesis by simp
qed

lemma enroll_do_post_frame:
  assumes "enroll_do_post env rq en es sn db = (Inr (v, db'), evs)"
  shows "\<exists>d. mu_node_key (snd d) = oe_random env \<and> fst d \<notin> set (map om_pk (od_machines db)) \<and>
     distinct (map om_node_key (upsert_enrolled_machine (enr_pk en, sn) d (od_machines db))) \<and>
     od_machines db' = enrolled_rows (enr_pk en, sn) d (od_machines db) \<and>
     v = PDict [(''node_key'', PStr (om_node_key
       (hd (filter (\<lambda>m. enrolled_machine_key m = (enr_pk en, sn)) (upsert_enrolled_machine (enr_pk en, sn) d (od_machines db))))))] \<and>
     agent_tables db' = agent_tables db"
proof -
  from assms obtain mu db1 evs1 where
    mu: "enroll_machine_update env (or_data rq) = Inr mu"
    and u: "update_or_create_enrolled_machine (enr_pk en) sn mu db = Inr db1"
    and r: "(let m = enrolled_row (enr_pk en) sn db1;
            db2 = enroll_tags sn (map fst (es_tags es)) db1;
            action = (if list_ex (other_enrolled_machine m) (od_machines db2) then ''re-enrollment'' else ''enrollment'');
            db3 = db2\<lparr>od_machines := delete_where (other_enrolled_machine m) (od_machines db2)\<rparr>
        in
        bind_posted (enroll_snapshot env rq es m db3) (\<lambda>db4.
          (Inr (PDict [(''node_key'', PStr (om_node_key m))], db4),
           osquery_events OsqueryEnrollmentEvent env 5 sn rq [[(''action'', PStr action)]]))) = (Inr (v, db'), evs1)"
    unfolding enroll_do_post_def bind_posted_Inr quiet_Inr by blast
  define d where "d = (fresh_pk (map om_pk (od_machines db)), mu)"
  have key: "mu_node_key mu = oe_random env"
    using mu by (auto simp: enroll_machine_update_def bind_result_Inr)
  from u have rows: "db1 = db\<lparr>od_machines := upsert_enrolled_machine (enr_pk en, sn) d (od_machines db)\<rparr>"
    and dist: "distinct (map om_node_key (upsert_enrolled_machine (enr_pk en, sn) d (od_machines db)))"
    by (auto simp: update_or_create_enrolled_machine_def Let_def d_def split: if_splits)
  let ?m = "enrolled_row (enr_pk en) sn db1"
  from r obtain db3 evs2 where
    db3: "db3 = (enroll_tags sn (map fst (es_tags es)) db1)
      \<lparr>od_machines := delete_where (other_enrolled_machine ?m) (od_machines db1)\<rparr>"
    and s: "enroll_snapshot env rq es ?m db3 = (Inr db', evs2)"
    and v: "v = PDict [(''node_key'', PStr (om_node_key ?m))]"
    by (auto simp: Let_def bind_posted_Inr enroll_tags_def)
  from enroll_snapshot_frame [OF s] have "agent_tables db' = agent_tables db3" "od_machines db' = od_machines db3"
    by (simp_all add: same_tables_def)
  moreover have "agent_tables db3 = agent_tables db" by (simp add: db3 enroll_tags_def rows agent_tables_def)
  moreover have "?m = hd (filter (\<lambda>m. enrolled_machine_key m = (enr_pk en, sn)) (upsert_enrolled_machine (enr_pk en, sn) d (od_machines db)))"
    by (simp add: enrolled_row_def rows)
  ultimately show ?thesis
    using dist v key fresh_pk_new [of "map om_pk (od_machines db)"]
    by (intro exI [of _ d]) (simp add: db3 enrolled_rows_def Let_def rows d_def)
qed

lemma enroll_authenticate_frame:
  "enroll_authenticate env rq db = (Inr ((sn, en, es), db'), evs) \<Longrightarrow>
   same_tables db db' \<and> get_serial_number (or_data rq) = Inr sn"
  by (auto simp: enroll_authenticate_def bind_posted_Inr quiet_Inr same_tables_def agent_tables_def)

subsection \<open>Distributed queries\<close>

lemma new_query_machines_facts:
  "map query_machine_key (new_query_machines pks sn dqs) = map (\<lambda>dq. (dq_pk dq, sn)) dqs"
  "distinct (map dqm_pk (new_query_machines pks sn dqs))"
  "set (map dqm_pk (new_query_machines pks sn dqs)) \<inter> set pks = {}"
proof -
  show "map query_machine_key (new_query_machines pks sn dqs) = map (\<lambda>dq. (dq_pk dq, sn)) dqs"
    by (induction dqs arbitrary: pks) (simp_all add: Let_def query_machine_key_def)
  have "distinct (map dqm_pk (new_query_machines pks sn dqs)) \<and>
     (\<forall>dqm \<in> set (new_query_machines pks sn dqs). dqm_pk dqm \<notin> set pks)"
  proof (induction dqs arbitrary: pks)
    case (Cons dq dqs)
    from Cons [of "fresh_pk pks # pks"] fresh_pk_new [of pks] show ?case
      by (auto simp: Let_def)
  qed simp
  then show "distinct (map dqm_pk (new_query_machines pks sn dqs))"
    "set (map dqm_pk (new_query_machines pks sn dqs)) \<inter> set pks = {}" by auto
qed

lemma take_queries_subset: "take_queries md5 m n dqs = Inr r \<Longrightarrow> set r \<subseteq> set dqs \<and> (distinct (map f dqs) \<longrightarrow> distinct (map f r))"
proof (induction dqs arbitrary: n r)
  case (Cons dq dqs)
  have "r = [] \<or> take_queries md5 m n dqs = Inr r \<or>
      (\<exists>rs. take_queries md5 m (n - 1) dqs = Inr rs \<and> r = dq # rs)"
    using Cons.prems by (auto simp: bind_result_Inr split: if_splits)
  then consider "r = []" | "take_queries md5 m n dqs = Inr r" |
    rs where "take_queries md5 m (n - 1) dqs = Inr rs" "r = dq # rs" by blast
  then show ?case
  proof cases
    case 3
    with Cons.IH [of "n - 1" rs] show ?thesis by auto
  qed (use Cons.IH [of n r] in auto)
qed simp

lemma read_queries:
  assumes "iter_queries_for_enrolled_machine md5 now n m tags dqms dqs = Inr r" "distinct (map dq_pk dqs)"
  shows "distinct (map dq_pk r) \<and> set r \<subseteq> set dqs \<and> (\<forall>dq \<in> set r. \<not> already_given m dqms dq)"
proof -
  have "set (sort_key dq_pk dqs) = set dqs" "distinct (map dq_pk (sort_key dq_pk dqs))"
    using assms(2) by (simp_all add: distinct_map)
  then show ?thesis
    using take_queries_subset [of md5 m n "queries_for_machine now m tags dqms dqs" r dq_pk] assms
    by (auto simp: iter_queries_for_enrolled_machine_def queries_for_machine_filter distinct_map_filter)
qed

lemma already_given_key:
  "already_given m dqms dq \<longleftrightarrow> (dq_pk dq, om_serial_number m) \<in> set (map query_machine_key dqms)"
  unfolding already_given_def query_machine_key_def set_map image_iff by (intro bex_cong refl) auto

text \<open>The rows a machine gets for the queries are new: the constraint of the table never refuses them.\<close>

lemma new_query_machines_ok:
  assumes "query_machines_ok dqms" "distinct (map dq_pk dqs)"
    and "iter_queries_for_enrolled_machine md5 now n m tags dqms dqs = Inr r"
  shows "query_machines_ok (dqms @ new_query_machines (map dqm_pk dqms) (om_serial_number m) r)"
proof -
  from read_queries [OF assms(3,2)]
  have r: "distinct (map dq_pk r)" "\<forall>dq \<in> set r. (dq_pk dq, om_serial_number m) \<notin> set (map query_machine_key dqms)"
    by (simp_all add: already_given_key)
  from r(1) have "distinct (map (\<lambda>dq. (dq_pk dq, om_serial_number m)) r)"
    by (simp add: distinct_map inj_on_def)
  with r(2) assms(1) new_query_machines_facts [of "map dqm_pk dqms" "om_serial_number m" r] show ?thesis
    by (auto simp: query_machines_ok_def simp del: map_map)
qed

lemma distributed_read_rows:
  assumes "osquery_ok db" and "distributed_read_do_node_post env lo db = r"
  defines "m \<equiv> lo_machine lo"
  shows "(\<exists>e. r = Inl e \<and> iter_queries_for_enrolled_machine (oe_md5 env) (now_number env) read_batch_size m
      (mf_tags (machine_facts_of db (om_serial_number m))) (od_query_machines db) (od_queries db) = Inl e) \<or>
    (\<exists>dqs. iter_queries_for_enrolled_machine (oe_md5 env) (now_number env) read_batch_size m
      (mf_tags (machine_facts_of db (om_serial_number m))) (od_query_machines db) (od_queries db) = Inr dqs \<and>
     (let dqms = new_query_machines (map dqm_pk (od_query_machines db)) (om_serial_number m) dqs
      in r = Inr (PDict [(''queries'', PDict (zip (map (\<lambda>dqm. nat_str (dqm_pk dqm)) dqms) (map (PStr \<circ> dq_sql) dqs)))],
                  db\<lparr>od_query_machines := od_query_machines db @ dqms\<rparr>) \<and>
         query_machines_ok (od_query_machines db @ dqms)))"
proof (cases "iter_queries_for_enrolled_machine (oe_md5 env) (now_number env) read_batch_size m
      (mf_tags (machine_facts_of db (om_serial_number m))) (od_query_machines db) (od_queries db)")
  case (Inl e)
  then show ?thesis using assms(2) by (simp add: distributed_read_do_node_post_def Let_def m_def)
next
  case (Inr dqs)
  have ok: "query_machines_ok (od_query_machines db @ new_query_machines (map dqm_pk (od_query_machines db)) (om_serial_number m) dqs)"
    by (rule new_query_machines_ok [OF _ _ Inr]) (use assms(1) in \<open>simp_all add: osquery_ok_def\<close>)
  then have "distinct (map query_machine_key (od_query_machines db @ new_query_machines (map dqm_pk (od_query_machines db)) (om_serial_number m) dqs))"
    by (simp only: query_machines_ok_def)
  with Inr ok assms(2) show ?thesis
    by (simp add: distributed_read_do_node_post_def Let_def m_def del: map_append)
qed

lemma write_status_same:
  "write_status ss ms dqm = Inr d \<Longrightarrow> dqm_pk d = dqm_pk dqm \<and> query_machine_key d = query_machine_key dqm"
  by (auto simp: write_status_def Let_def bind_result_Inr query_machine_key_def)

lemma map_result_Inr_set:
  "map_result f xs = Inr ys \<Longrightarrow> y \<in> set ys \<Longrightarrow> \<exists>x \<in> set xs. f x = Inr y"
  by (induction xs arbitrary: ys) (auto simp: bind_result_Inr split: sum.splits)

lemma distributed_write_frame:
  assumes "distributed_write_do_node_post rq sn db = Inr (v, db')" and "distinct (map dqm_pk (od_query_machines db))"
  shows "map dqm_pk (od_query_machines db') = map dqm_pk (od_query_machines db) \<and>
     map query_machine_key (od_query_machines db') = map query_machine_key (od_query_machines db) \<and>
     od_machines db' = od_machines db \<and> od_queries db' = od_queries db \<and> od_sessions db' = od_sessions db \<and>
     od_blocks db' = od_blocks db \<and> od_tasks db' = od_tasks db \<and> v = PDict []"
proof -
  have found: "dqm_pk (case find (\<lambda>d. dqm_pk d = dqm_pk dqm) ds of None \<Rightarrow> dqm | Some d \<Rightarrow> d) = dqm_pk dqm \<and>
      query_machine_key (case find (\<lambda>d. dqm_pk d = dqm_pk dqm) ds of None \<Rightarrow> dqm | Some d \<Rightarrow> d) = query_machine_key dqm"
    if ds: "map_result (write_status ss ms) (filter p (od_query_machines db)) = Inr ds" and dqm: "dqm \<in> set (od_query_machines db)"
    for ss ms p ds dqm
  proof (cases "find (\<lambda>d. dqm_pk d = dqm_pk dqm) ds")
    case (Some d)
    then have d: "d \<in> set ds" "dqm_pk d = dqm_pk dqm" by (auto simp: find_Some_iff)
    with map_result_Inr_set [OF ds d(1)] obtain x where x: "x \<in> set (od_query_machines db)" "write_status ss ms x = Inr d"
      by auto
    from write_status_same [OF x(2)] d(2) have "dqm_pk x = dqm_pk dqm" by simp
    with x(1) dqm assms(2) have "x = dqm" by (metis distinct_map_eqD)
    with write_status_same [OF x(2)] Some show ?thesis by simp
  qed simp
  show ?thesis
    using assms(1) found
    by (auto simp: distributed_write_do_node_post_def bind_result_Inr Let_def split: if_splits)
qed

subsection \<open>File carvings\<close>

lemma carving_ok_start:
  assumes "carving_ok ss bs tasks" "fs_id s \<notin> fs_id ` set ss"
  shows "carving_ok (ss @ [s]) bs tasks"
proof -
  have "fb_session b \<noteq> fs_id s" if "b \<in> set bs" for b
  proof -
    have "fb_session b \<in> fs_id ` set ss" using assms(1) that unfolding carving_ok_def by blast
    with assms(2) show ?thesis by auto
  qed
  then have "block_number (fs_id s) bs = 0" by (simp add: block_number_def filter_empty_conv)
  with assms show ?thesis by (auto simp: carving_ok_def)
qed

text \<open>A new block makes its session complete exactly when it is the last one.\<close>

lemma carving_ok_block:
  assumes ok: "carving_ok ss bs tasks" and s: "s \<in> set ss" and b: "fb_session b = fs_id s" "block_key b \<notin> block_key ` set bs"
  shows "carving_ok ss (bs @ [b]) (if block_number (fs_id s) (bs @ [b]) = fs_block_count s then tasks @ [fs_id s] else tasks)"
proof -
  let ?n = "block_number (fs_id s) bs"
  have n: "block_number (fs_id s) (bs @ [b]) = ?n + 1" using b(1) by (simp add: block_number_def)
  have other: "block_number (fs_id r) (bs @ [b]) = block_number (fs_id r) bs" if "r \<in> set ss" "r \<noteq> s" for r
  proof -
    have "fs_id r \<noteq> fs_id s" using ok s that by (auto simp: carving_ok_def dest: distinct_map_eqD)
    with b(1) show ?thesis by (simp add: block_number_def)
  qed
  have pos: "0 \<le> ?n" by (simp add: block_number_def)
  have new: "fs_id s \<notin> set tasks" if "?n + 1 = fs_block_count s"
    using ok s that by (auto simp: carving_ok_def)
  have "fs_id r \<in> set (if ?n + 1 = fs_block_count s then tasks @ [fs_id s] else tasks) \<longleftrightarrow>
     1 \<le> fs_block_count r \<and> fs_block_count r \<le> block_number (fs_id r) (bs @ [b])" if r: "r \<in> set ss" for r
  proof (cases "r = s")
    case True
    have "fs_id s \<in> set tasks \<longleftrightarrow> 1 \<le> fs_block_count s \<and> fs_block_count s \<le> ?n" using ok s by (simp add: carving_ok_def)
    with True n pos show ?thesis by auto
  next
    case False
    have "fs_id r \<noteq> fs_id s" using ok s r False by (auto simp: carving_ok_def dest: distinct_map_eqD)
    with ok r other [OF r False] show ?thesis by (auto simp: carving_ok_def)
  qed
  then show ?thesis using ok s b new by (auto simp: carving_ok_def n)
qed

lemma start_frame:
  assumes "start_file_carving_do_node_post env rq sn db = (Inr (v, db'), evs)" "osquery_ok db"
  shows "osquery_ok db' \<and> od_query_machines db' = od_query_machines db"
  using assms
  by (auto simp: start_file_carving_do_node_post_def start_file_carving_def bind_posted_Inr quiet_Inr bind_result_Inr Let_def
      osquery_ok_def split: if_splits intro!: carving_ok_start)

lemma add_block_frame:
  assumes "add_block s i d db = Inr db'"
  shows "\<exists>b. db' = db\<lparr>od_blocks := od_blocks db @ [b]\<rparr> \<and> fb_session b = fs_id s \<and> fb_block_id b = i \<and>
     block_key b \<notin> block_key ` set (od_blocks db)"
proof -
  let ?b = "\<lparr>fb_session = fs_id s, fb_block_id = i, fb_file = file_carving_block_path s i, fb_data = d\<rparr>"
  from assms have "db' = db\<lparr>od_blocks := od_blocks db @ [?b]\<rparr>"
    and new: "\<forall>b \<in> set (od_blocks db). fb_session b = fs_id s \<longrightarrow> fb_block_id b \<noteq> i"
    by (auto simp: add_block_def bind_result_Inr session_blocks_def list_ex_iff split: if_splits)
  moreover from new have "block_key ?b \<notin> block_key ` set (od_blocks db)" by (auto simp: block_key_def)
  ultimately show ?thesis by (intro exI [of _ ?b]) simp
qed

lemma continue_frame:
  assumes c: "continue_file_carving_do_node_post env rq s db = (Inr (v, db'), evs)" and ok: "osquery_ok db"
    and s: "s \<in> set (od_sessions db)"
  shows "osquery_ok db' \<and> od_query_machines db' = od_query_machines db"
proof -
  from c obtain i d db1 where a: "add_block s i d db = Inr db1"
    and db': "db' = (if session_finished s db1 then db1\<lparr>od_tasks := od_tasks db1 @ [fs_id s]\<rparr> else db1)"
    by (auto simp: continue_file_carving_do_node_post_def bind_posted_Inr quiet_Inr)
  from add_block_frame [OF a] obtain b where
    db1: "db1 = db\<lparr>od_blocks := od_blocks db @ [b]\<rparr>" and b: "fb_session b = fs_id s" "block_key b \<notin> block_key ` set (od_blocks db)"
    by blast
  have fin: "session_finished s db1 \<longleftrightarrow> block_number (fs_id s) (od_blocks db @ [b]) = fs_block_count s"
    by (simp add: session_finished_def session_blocks_def block_number_def db1)
  have "carving_ok (od_sessions db) (od_blocks db @ [b])
      (if block_number (fs_id s) (od_blocks db @ [b]) = fs_block_count s then od_tasks db @ [fs_id s] else od_tasks db)"
    using ok s b by (intro carving_ok_block) (simp_all add: osquery_ok_def)
  then have "osquery_ok db'" using ok unfolding db' fin by (auto simp: osquery_ok_def db1 split: if_splits)
  then show ?thesis unfolding db' by (simp add: db1)
qed

lemma archive_frame:
  assumes "build_file_carving_session_archive session_id db = (r, f, db')"
  shows "osquery_ok db' = osquery_ok db \<and> od_query_machines db' = od_query_machines db"
proof -
  have "carving_ok (update_where p (\<lambda>r. r\<lparr>fs_archive := a\<rparr>) ss) bs tasks = carving_ok ss bs tasks" for p a ss bs tasks
  proof -
    let ?u = "update_where p (\<lambda>r. r\<lparr>fs_archive := a\<rparr>) ss"
    have ids: "map fs_id ?u = map fs_id ss" and counts: "map (\<lambda>s. (fs_id s, fs_block_count s)) ?u = map (\<lambda>s. (fs_id s, fs_block_count s)) ss"
      by (auto simp: update_where_def)
    have all: "(\<forall>s \<in> set xs. P (fs_id s) (fs_block_count s)) \<longleftrightarrow> (\<forall>x \<in> set (map (\<lambda>s. (fs_id s, fs_block_count s)) xs). P (fst x) (snd x))" for P xs
      by simp
    have "fs_id ` set ?u = fs_id ` set ss" using ids by (metis set_map)
    then show ?thesis
      unfolding carving_ok_def ids
      by (subst (1 2) all [of _ "\<lambda>i n. i \<in> set tasks \<longleftrightarrow> 1 \<le> n \<and> n \<le> block_number i bs"]) (simp only: counts)
  qed
  with assms show ?thesis
    by (auto simp: build_file_carving_session_archive_def osquery_ok_def Let_def split: sum.splits if_splits)
qed

subsection \<open>Requests\<close>

lemma load_osquery_machine_same: "load_osquery_machine db m = Inr lo \<Longrightarrow> lo_machine lo = m"
  by (auto simp: load_osquery_machine_def bind_result_Inr)

text \<open>The machine of a request is in the table, with the key or of the session that the request names.\<close>

definition authenticated :: "pyval \<Rightarrow> osquery_db \<Rightarrow> file_carving_session option \<Rightarrow> enrolled_machine \<Rightarrow> bool" where
  "authenticated data db s m \<longleftrightarrow>
     m \<in> set (od_machines db) \<and>
     (case s of
        None \<Rightarrow> get_node_key data = Inr (om_node_key m)
      | Some fcs \<Rightarrow> fcs \<in> set (od_sessions db) \<and> om_serial_number m = fs_serial_number fcs \<and>
          bind_result (json_item ''session_id'' data) uuid_column = Inr (fs_id fcs))"

lemma rescued_Inr:
  "(case r of Inl DoesNotExist \<Rightarrow> Inl e | Inl e' \<Rightarrow> Inl e' | Inr x \<Rightarrow> f x) = Inr y \<longleftrightarrow> (\<exists>x. r = Inr x \<and> f x = Inr y)"
proof (cases r)
  case (Inl a)
  then show ?thesis by (cases a) simp_all
qed simp

lemma rescued_key_Inr:
  "(case r of Inl (KeyError k) \<Rightarrow> Inl e | Inl e' \<Rightarrow> Inl e' | Inr x \<Rightarrow> Inr x) = Inr y \<longleftrightarrow> r = Inr y"
proof (cases r)
  case (Inl a)
  then show ?thesis by (cases a) simp_all
qed simp

lemma head_Inr: "(case xs of [] \<Rightarrow> Inl e | x # r \<Rightarrow> f x) = Inr y \<longleftrightarrow> (\<exists>x r. xs = x # r \<and> f x = Inr y)"
  by (cases xs) simp_all

lemma node_authenticated:
  assumes "node_authenticate rq db = Inr lo"
  shows "authenticated (or_data rq) db None (lo_machine lo)"
proof -
  from assms obtain k m where k: "get_node_key (or_data rq) = Inr k" and m: "get_one (\<lambda>m. om_node_key m = k) (od_machines db) = Inr m"
    and lo: "load_osquery_machine db m = Inr lo"
    unfolding node_authenticate_def bind_result_Inr rescued_Inr by blast
  from get_one_Inr [OF m] k load_osquery_machine_same [OF lo] show ?thesis by (simp add: authenticated_def)
qed

lemma sort_head_in:
  assumes "sort_key f xs = x # r"
  shows "x \<in> set xs"
proof -
  have "x \<in> set (sort_key f xs)" by (simp add: assms)
  then show ?thesis by simp
qed

lemma session_authenticated:
  assumes "session_authenticate rq db = Inr (s, lo)"
  shows "authenticated (or_data rq) db (Some s) (lo_machine lo)"
proof -
  from assms obtain v i m ms where v: "json_item ''session_id'' (or_data rq) = Inr v" and i: "uuid_column v = Inr i"
    and s: "get_one (\<lambda>s. fs_id s = i) (od_sessions db) = Inr s"
    and m: "sort_key (\<lambda>m. - int (om_pk m)) (filter (\<lambda>m. om_serial_number m = fs_serial_number s) (od_machines db)) = m # ms"
    and lo: "load_osquery_machine db m = Inr lo"
    unfolding session_authenticate_def bind_result_Inr rescued_Inr rescued_key_Inr head_Inr by auto
  from sort_head_in [OF m] get_one_Inr [OF s] v i load_osquery_machine_same [OF lo] show ?thesis
    by (simp add: authenticated_def)
qed

lemma base_node_post_cases:
  assumes "base_node_post env view rq db = (Inr (v, db'), evs)"
  shows "\<exists>s lo evs'. authenticated (or_data rq) db s (lo_machine lo) \<and> (s = None \<longleftrightarrow> view \<noteq> ContinueFileCarving) \<and>
     do_node_post env view rq s lo db = (Inr (v, db'), evs')"
proof -
  from assms obtain s lo evs1 evs2 where
    a: "(if view = ContinueFileCarving then bind_result (session_authenticate rq db) (\<lambda>(s, lo). Inr (Some s, lo))
         else bind_result (node_authenticate rq db) (\<lambda>lo. Inr (None, lo))) = Inr (s, lo)"
    and d: "do_node_post env view rq s lo db = (Inr (v, db'), evs2)"
    unfolding base_node_post_def by (subst (asm) bind_posted_Inr) (auto simp: quiet_Inr bind_posted_Inr)
  from a have "authenticated (or_data rq) db s (lo_machine lo) \<and> (s = None \<longleftrightarrow> view \<noteq> ContinueFileCarving)"
    by (auto simp: bind_result_Inr split: if_splits dest: node_authenticated session_authenticated)
  with d show ?thesis by blast
qed

lemma osquery_post_cases:
  assumes "osquery_post env view rq st = (r, st')"
  shows "(isl r \<and> os_db st' = os_db st) \<or>
     (\<exists>q v evs. r = Inr v \<and>
        (if view = Enroll then enroll_post env q (os_db st) else base_node_post env view q (os_db st)) = (Inr (v, os_db st'), evs) \<and>
        osquery_json_data env rq = Inr (or_data q))"
proof (cases "osquery_json_data env rq")
  case (Inr data)
  obtain ua addr where u: "user_agent_and_ip_address_from_request (oe_valid_ip env) (hp_meta rq) = (ua, addr)" by fastforce
  let ?q = "\<lparr>or_data = data, or_user_agent = ua, or_ip = addr\<rparr>"
  let ?p = "if view = Enroll then enroll_post env ?q (os_db st) else base_node_post env view ?q (os_db st)"
  obtain x evs where p: "?p = (x, evs)" by fastforce
  have d: "or_data ?q = data" by simp
  show ?thesis
  proof (cases x)
    case (Inl e)
    with assms \<open>osquery_json_data env rq = Inr data\<close> u p have "isl r" "os_db st' = os_db st"
      by (auto simp: osquery_post_def Let_def)
    then show ?thesis by simp
  next
    case (Inr y)
    obtain v db where y: "y = (v, db)" by fastforce
    from assms \<open>osquery_json_data env rq = Inr data\<close> u p Inr y have "r = Inr v" "os_db st' = db"
      by (auto simp: osquery_post_def Let_def)
    with p Inr y d \<open>osquery_json_data env rq = Inr data\<close> show ?thesis by metis
  qed
next
  case (Inl e)
  with assms have "r = Inl e" "os_db st' = os_db st" by (auto simp: osquery_post_def)
  then show ?thesis by simp
qed

lemma enroll_post_facts:
  assumes e: "enroll_post env q db = (Inr (v, db'), evs)" and ok: "osquery_ok db"
  shows "osquery_ok db' \<and> od_query_machines db' = od_query_machines db \<and>
    (\<exists>sn m. get_serial_number (or_data q) = Inr sn \<and> v = PDict [(''node_key'', PStr (om_node_key m))] \<and>
       om_node_key m = oe_random env \<and>
       filter (\<lambda>r. om_serial_number r = sn) (od_machines db') = [m] \<and>
       filter (\<lambda>r. om_serial_number r \<noteq> sn) (od_machines db') = filter (\<lambda>r. om_serial_number r \<noteq> sn) (od_machines db))"
proof -
  from e obtain sn en es db1 evs1 evs2 where a: "enroll_authenticate env q db = (Inr ((sn, en, es), db1), evs1)"
    and p: "enroll_do_post env q en es sn db1 = (Inr (v, db'), evs2)"
    by (auto simp: enroll_post_def bind_posted_Inr)
  from enroll_authenticate_frame [OF a] have same: "agent_tables db1 = agent_tables db" "od_machines db1 = od_machines db"
    and sn: "get_serial_number (or_data q) = Inr sn"
    by (simp_all add: same_tables_def)
  from enroll_do_post_frame [OF p] obtain d where d: "mu_node_key (snd d) = oe_random env" "fst d \<notin> set (map om_pk (od_machines db1))"
      "distinct (map om_node_key (upsert_enrolled_machine (enr_pk en, sn) d (od_machines db1)))"
      "od_machines db' = enrolled_rows (enr_pk en, sn) d (od_machines db1)" "agent_tables db' = agent_tables db1"
    and v: "v = PDict [(''node_key'', PStr (om_node_key (hd (filter (\<lambda>m. enrolled_machine_key m = (enr_pk en, sn))
       (upsert_enrolled_machine (enr_pk en, sn) d (od_machines db1))))))]"
    by blast
  let ?m = "hd (filter (\<lambda>m. enrolled_machine_key m = (enr_pk en, sn)) (upsert_enrolled_machine (enr_pk en, sn) d (od_machines db1)))"
  have "machines_ok (od_machines db1)" using ok same by (simp add: osquery_ok_def)
  from enrolled_rows_facts [OF this d(2,3)]
  have m: "machines_ok (od_machines db')" "om_node_key ?m = oe_random env"
     "filter (\<lambda>r. om_serial_number r = sn) (od_machines db') = [?m]"
     "filter (\<lambda>r. om_serial_number r \<noteq> sn) (od_machines db') = filter (\<lambda>r. om_serial_number r \<noteq> sn) (od_machines db)"
    unfolding d(4) same(2) [symmetric] by (simp_all add: d(1))
  from d(5) same(1) have "agent_tables db' = agent_tables db" by simp
  with m(1) ok have "osquery_ok db'" "od_query_machines db' = od_query_machines db"
    by (simp_all add: osquery_ok_def agent_tables_def)
  with m sn v show ?thesis by blast
qed

lemma version_step_ok:
  assumes "version_step m db db'" "osquery_ok db"
  shows "osquery_ok db' \<and> od_query_machines db' = od_query_machines db"
  using assms by (auto simp: version_step_def osquery_ok_def machines_ok_def agent_tables_def)

text \<open>What the agent of a machine has been given, from the primary keys of the answer.\<close>

definition given_queries :: "osquery_view \<Rightarrow> pyerror + pyval \<Rightarrow> osquery_db \<Rightarrow> (nat \<times> string) list" where
  "given_queries view r db =
     (case (view, r) of
        (DistributedRead, Inr (PDict d)) \<Rightarrow>
          (case dict_get d ''queries'' of
             Some (PDict qs) \<Rightarrow>
               concat (map (\<lambda>(k, sql_text). map query_machine_key (filter (\<lambda>dqm. nat_str (dqm_pk dqm) = k) (od_query_machines db))) qs)
           | _ \<Rightarrow> [])
      | _ \<Rightarrow> [])"

lemma given_queries_other: "view \<noteq> DistributedRead \<Longrightarrow> given_queries view r db = []"
  by (auto simp: given_queries_def split: osquery_view.splits)

lemma given_new_rows:
  assumes pks: "distinct (map dqm_pk (old @ dqms))" and len: "length qs = length dqms"
    and rows: "od_query_machines db = old @ dqms"
  shows "given_queries DistributedRead (Inr (PDict [(''queries'', PDict (zip (map (\<lambda>dqm. nat_str (dqm_pk dqm)) dqms) qs))])) db =
     map query_machine_key dqms"
proof -
  let ?rows = "\<lambda>k. map query_machine_key (filter (\<lambda>dqm. nat_str (dqm_pk dqm) = k) (od_query_machines db))"
  have one: "?rows (nat_str (dqm_pk dqm)) = [query_machine_key dqm]" if "dqm \<in> set dqms" for dqm
  proof -
    have "get_one (\<lambda>r. dqm_pk r = dqm_pk dqm) (od_query_machines db) = Inr dqm"
      unfolding rows using that by (intro get_one_pk [OF pks]) simp
    from get_one_Inr [OF this] show ?thesis by simp
  qed
  have all: "length ys = length xs \<Longrightarrow> set xs \<subseteq> set dqms \<Longrightarrow>
     concat (map (\<lambda>(k, sql_text). ?rows k) (zip (map (\<lambda>dqm. nat_str (dqm_pk dqm)) xs) ys)) = map query_machine_key xs" for xs ys
  proof (induction ys xs rule: list_induct2)
    case (Cons y ys x xs)
    with one [of x] show ?case by (simp del: nat_str_inject)
  qed simp
  from all [OF len order_refl] show ?thesis by (simp add: given_queries_def del: nat_str_inject)
qed

subsection \<open>Runs\<close>

text \<open>
  A run, with the distributed queries given to the agents: requests, archive tasks, and changes of
  the administrators, who leave alone the tables the agents write. Two queries have two primary keys.
\<close>

inductive osquery_run :: "(nat \<times> string) list \<Rightarrow> osquery_state \<Rightarrow> osquery_state \<Rightarrow> bool" where
  run_start: "osquery_run [] st st"
| run_request: "osquery_run given st st1 \<Longrightarrow> osquery_post env view rq st1 = (r, st2) \<Longrightarrow>
    osquery_run (given @ given_queries view r (os_db st2)) st st2"
| run_archive: "osquery_run given st st1 \<Longrightarrow>
    build_file_carving_session_archive session_id (os_db st1) = (r, f, db2) \<Longrightarrow>
    osquery_run given st (st1\<lparr>os_db := db2\<rparr>)"
| run_administration: "osquery_run given st st1 \<Longrightarrow> distinct (map dq_pk dqs) \<Longrightarrow>
    osquery_run given st (st1\<lparr>os_db := (os_db st1)\<lparr>od_queries := dqs, od_pack_queries := pqs, od_configurations := cs,
       od_enrollment_db := edb, od_enrollment_configurations := ecs, od_tags := tags, od_inventory := idb\<rparr>\<rparr>)"

definition given_keys :: "osquery_db \<Rightarrow> (nat \<times> string) list" where
  "given_keys db = map query_machine_key (od_query_machines db)"

lemma node_post_step:
  assumes b: "base_node_post env view q db = (Inr (v, db'), evs)" and ok: "osquery_ok db" and ne: "view \<noteq> Enroll"
  shows "osquery_ok db' \<and> given_keys db' = given_keys db @ given_queries view (Inr v) db'"
proof -
  from base_node_post_cases [OF b] obtain s lo evs' where a: "authenticated (or_data q) db s (lo_machine lo)"
    and s: "s = None \<longleftrightarrow> view \<noteq> ContinueFileCarving" and d: "do_node_post env view q s lo db = (Inr (v, db'), evs')"
    by blast
  show ?thesis
  proof (cases view)
    case Enroll
    with ne show ?thesis by simp
  next
    case Config
    with d ok show ?thesis by (simp add: do_node_post_def quiet_Inr given_queries_other given_keys_def)
  next
    case StartFileCarving
    with d have "start_file_carving_do_node_post env q (om_serial_number (lo_machine lo)) db = (Inr (v, db'), evs')"
      by (simp add: do_node_post_def)
    from start_frame [OF this ok] StartFileCarving show ?thesis by (simp add: given_queries_other given_keys_def)
  next
    case ContinueFileCarving
    with s obtain fcs where fcs: "s = Some fcs" by auto
    with a have "fcs \<in> set (od_sessions db)" by (simp add: authenticated_def)
    moreover from d fcs ContinueFileCarving have "continue_file_carving_do_node_post env q fcs db = (Inr (v, db'), evs')"
      by (simp add: do_node_post_def)
    ultimately show ?thesis
      using continue_frame [OF _ ok] ContinueFileCarving by (metis append_Nil2 given_keys_def given_queries_other osquery_view.distinct(31))
  next
    case DistributedRead
    with d have r: "distributed_read_do_node_post env lo db = Inr (v, db')" by (simp add: do_node_post_def quiet_Inr)
    from distributed_read_rows [OF ok r] obtain dqs dqms where
      dqms: "dqms = new_query_machines (map dqm_pk (od_query_machines db)) (om_serial_number (lo_machine lo)) dqs"
      and v: "v = PDict [(''queries'', PDict (zip (map (\<lambda>dqm. nat_str (dqm_pk dqm)) dqms) (map (PStr \<circ> dq_sql) dqs)))]"
      and db': "db' = db\<lparr>od_query_machines := od_query_machines db @ dqms\<rparr>"
      and rows: "query_machines_ok (od_query_machines db @ dqms)"
      by (auto simp: Let_def)
    have "length dqms = length dqs"
      using new_query_machines_facts(1) [of "map dqm_pk (od_query_machines db)" "om_serial_number (lo_machine lo)" dqs]
      by (metis dqms length_map)
    then have "given_queries view (Inr v) db' = map query_machine_key dqms"
      using rows unfolding DistributedRead v
      by (intro given_new_rows [of "od_query_machines db"]) (simp_all add: query_machines_ok_def db')
    with rows ok db' show ?thesis by (simp add: osquery_ok_def given_keys_def)
  next
    case DistributedWrite
    with d have "distributed_write_do_node_post q (om_serial_number (lo_machine lo)) db = Inr (v, db')"
      by (simp add: do_node_post_def quiet_Inr)
    from distributed_write_frame [OF this] ok DistributedWrite show ?thesis
      by (simp add: osquery_ok_def query_machines_ok_def given_keys_def given_queries_other)
  next
    case Log
    with d have "log_do_node_post env q lo db = (Inr (v, db'), evs')" by (simp add: do_node_post_def)
    from version_step_ok [OF log_frame [OF this] ok] Log show ?thesis by (simp add: given_queries_other given_keys_def)
  qed
qed

lemma request_step:
  assumes "osquery_post env view rq st = (r, st')" "osquery_ok (os_db st)"
  shows "osquery_ok (os_db st') \<and> given_keys (os_db st') = given_keys (os_db st) @ given_queries view r (os_db st')"
  using osquery_post_cases [OF assms(1)]
proof
  assume "isl r \<and> os_db st' = os_db st"
  moreover from this have "given_queries view r (os_db st') = []" by (cases r; cases view) (simp_all add: given_queries_def)
  ultimately show ?thesis using assms(2) by simp
next
  assume "\<exists>q v evs. r = Inr v \<and>
        (if view = Enroll then enroll_post env q (os_db st) else base_node_post env view q (os_db st)) = (Inr (v, os_db st'), evs) \<and>
        osquery_json_data env rq = Inr (or_data q)"
  then obtain q v evs where r: "r = Inr v" and
    p: "(if view = Enroll then enroll_post env q (os_db st) else base_node_post env view q (os_db st)) = (Inr (v, os_db st'), evs)"
    by blast
  show ?thesis
  proof (cases "view = Enroll")
    case True
    with p have "enroll_post env q (os_db st) = (Inr (v, os_db st'), evs)" by simp
    from enroll_post_facts [OF this assms(2)] True show ?thesis by (simp add: given_queries_other given_keys_def)
  next
    case False
    with p have "base_node_post env view q (os_db st) = (Inr (v, os_db st'), evs)" by simp
    from node_post_step [OF this assms(2) False] r show ?thesis by simp
  qed
qed

lemma run_step:
  assumes "osquery_run given st st'" "osquery_ok (os_db st)"
  shows "osquery_ok (os_db st') \<and> given_keys (os_db st') = given_keys (os_db st) @ given"
  using assms
proof (induction rule: osquery_run.induct)
  case (run_request given st st1 env view rq r st2)
  then show ?case using request_step [OF run_request(2)] by simp
next
  case (run_archive given st st1 session_id r f db2)
  then show ?case using archive_frame [OF run_archive(2)] by (simp add: given_keys_def)
next
  case (run_administration given st st1 dqs pqs cs edb ecs tags idb)
  then show ?case by (simp add: osquery_ok_def given_keys_def)
qed simp

end
