(* ===== verification/OsqueryKeys.thy ===== *)
theory OsqueryKeys imports OsqueryConf begin

text \<open>
  The keys of the packs and of their queries: what \<open>build_osquery_conf\<close> gives a machine is found
  again by the names the machine sends back with its results and its file carvings.
\<close>

subsection \<open>Reading a configuration\<close>

text \<open>\<open>conf[k1][k2]...\<close>\<close>

fun dict_at :: "pyval \<Rightarrow> string list \<Rightarrow> pyval option" where
  "dict_at v [] = Some v"
| "dict_at (PDict d) (k # ks) = (case dict_get d k of None \<Rightarrow> None | Some v \<Rightarrow> dict_at v ks)"
| "dict_at _ (k # ks) = None"

lemma dict_at_Cons: "dict_at v (k # ks) = Some w \<longleftrightarrow> (\<exists>d u. v = PDict d \<and> dict_get d k = Some u \<and> dict_at u ks = Some w)"
  by (cases v) (auto split: option.splits)

lemma dict_update_get_in: "dict_get (dict_update d e) k = Some v \<Longrightarrow> dict_get d k = Some v \<or> (k, v) \<in> set e"
proof (induction d e rule: dict_update.induct)
  case (2 d j w e)
  from 2(1) 2(2) have "dict_get (dict_set j w d) k = Some v \<or> (k, v) \<in> set e" by simp
  then show ?case by (auto simp: dict_get_set split: if_splits)
qed simp

subsection \<open>The packs of a configuration\<close>

definition section_items :: "string \<Rightarrow> dict \<Rightarrow> dict" where
  "section_items s conf = (case dict_get conf s of Some (PDict d) \<Rightarrow> d | _ \<Rightarrow> [])"

lemma section_set [dict_simps]:
  "section_items s (set_in_section s k v conf) = dict_set k v (section_items s conf)"
  by (simp add: section_items_def set_in_section_def dict_get_set)

lemma other_section_set [dict_simps]:
  "s \<noteq> t \<Longrightarrow> dict_get (set_in_section t k v conf) s = dict_get conf s"
  "s \<noteq> t \<Longrightarrow> dict_get (append_to_section t v conf) s = dict_get conf s"
  by (simp_all add: set_in_section_def append_to_section_def dict_get_set)

lemma file_category_packs: "dict_get (add_file_category fc conf) ''packs'' = dict_get conf ''packs''"
  by (simp add: add_file_category_def Let_def dict_simps)

lemma file_categories_packs: "dict_get (fold add_file_category fcs conf) ''packs'' = dict_get conf ''packs''"
  by (induction fcs arbitrary: conf) (simp_all add: file_category_packs)

lemma atcs_packs: "dict_get (fold add_atc atcs conf) ''packs'' = dict_get conf ''packs''"
  by (induction atcs arbitrary: conf) (simp_all add: add_atc_def dict_simps)

lemma packs_get:
  "dict_get (section_items ''packs'' (fold (add_pack pqs) ps conf)) k = Some v \<Longrightarrow>
   dict_get (section_items ''packs'' conf) k = Some v \<or>
   (\<exists>p \<in> set ps. k = configuration_key p \<and> v = PDict (pack_serialize pqs p))"
proof (induction ps arbitrary: conf)
  case (Cons p ps)
  from Cons.IH [of "add_pack pqs p conf"] Cons.prems
  have "dict_get (section_items ''packs'' (add_pack pqs p conf)) k = Some v \<or>
        (\<exists>q \<in> set ps. k = configuration_key q \<and> v = PDict (pack_serialize pqs q))" by simp
  then show ?case by (auto simp: add_pack_def dict_simps split: if_splits)
qed simp

lemma conf_packs:
  assumes "dict_get (section_items ''packs'' (build_osquery_conf urls flags pqs m c)) k = Some v"
  shows "\<exists>p \<in> set (machine_packs m c). k = configuration_key p \<and> v = PDict (pack_serialize pqs p)"
proof -
  define conf where "conf = fold add_atc (cf_atcs c) (fold add_file_category (cf_file_categories c)
     (if cf_inventory c
      then set_in_section ''schedule'' INVENTORY_QUERY_NAME (inventory_schedule m c)
        [(''decorators'', DECORATORS), (''options'', PDict (serialize_options urls flags c))]
      else [(''decorators'', DECORATORS), (''options'', PDict (serialize_options urls flags c))]))"
  have "dict_get conf ''packs'' = None"
    by (simp add: conf_def atcs_packs file_categories_packs dict_simps)
  then have "section_items ''packs'' conf = []" by (simp add: section_items_def)
  moreover have "build_osquery_conf urls flags pqs m c = fold (add_pack pqs) (machine_packs m c) conf"
    by (simp add: build_osquery_conf_def conf_def Let_def)
  ultimately show ?thesis using packs_get [of pqs "machine_packs m c" conf k v] assms by simp
qed

lemma pack_queries_get:
  "dict_at (PDict (pack_serialize pqs p)) [''queries'', j] = Some v \<Longrightarrow>
   \<exists>pq \<in> set pqs. pq_pack pq = pk_pk p \<and> j = pack_key pq \<and> v = PDict (pack_query_serialize pq)"
  using dict_update_get_in [of "[]" "map (\<lambda>pq. (pack_key pq, PDict (pack_query_serialize pq))) (pack_queries_of p pqs)" j v]
  by (auto simp: pack_serialize_def pack_queries_of_def split: option.splits)

lemma conf_pack_query:
  assumes "dict_at (PDict (build_osquery_conf urls flags pqs m c)) [''packs'', k, ''queries'', j] = Some v"
  shows "\<exists>p \<in> set (machine_packs m c). \<exists>pq \<in> set pqs. pq_pack pq = pk_pk p \<and>
     k = configuration_key p \<and> j = pack_key pq \<and> v = PDict (pack_query_serialize pq)"
proof -
  let ?conf = "build_osquery_conf urls flags pqs m c"
  from assms obtain d u where "dict_get ?conf ''packs'' = Some (PDict d)" "dict_get d k = Some u"
    and q: "dict_at u [''queries'', j] = Some v"
    by (auto simp: dict_at_Cons simp del: dict_at.simps)
  then have "dict_get (section_items ''packs'' ?conf) k = Some u" by (simp add: section_items_def)
  then obtain p where p: "p \<in> set (machine_packs m c)" "k = configuration_key p" "u = PDict (pack_serialize pqs p)"
    using conf_packs by blast
  with q pack_queries_get [of pqs p j v] show ?thesis by blast
qed

subsection \<open>The keys\<close>

lemma delimiter_not_digit [simp]: "DELIMITER \<notin> set (nat_str n)"
  by (rule nat_str_no_char) (simp add: DELIMITER_def is_digit_def)

lemma config_key_parts:
  assumes "DELIMITER \<notin> set (pk_slug p)" "DELIMITER \<notin> set (pq_slug pq)"
  shows "split_on DELIMITER (configuration_key p @ DELIMITER # pack_key pq) =
     [pk_slug p, nat_str (pk_pk p), pq_slug pq, nat_str (q_pk (pq_query pq)), nat_str (q_version (pq_query pq))]"
  using assms by (simp add: configuration_key_def pack_key_def split_on_append split_on_no_sep)

lemma config_key_found:
  assumes "distinct (map (q_pk \<circ> pq_query) pqs)" "pq \<in> set pqs"
  shows "get_one (\<lambda>r. int (pq_pack r) = int (pq_pack pq) \<and> int (q_pk (pq_query r)) = int (q_pk (pq_query pq))) pqs = Inr pq"
proof -
  have same: "r = pq" if "r \<in> set pqs" "q_pk (pq_query r) = q_pk (pq_query pq)" for r
    using distinct_map_eqD [OF assms(1) that(1) assms(2)] that(2) by simp
  have "get_one (\<lambda>r. int (pq_pack r) = int (pq_pack pq) \<and> int (q_pk (pq_query r)) = int (q_pk (pq_query pq))) pqs
      = get_one (\<lambda>r. (q_pk \<circ> pq_query) r = (q_pk \<circ> pq_query) pq) pqs"
    by (rule get_one_cong) (use same in auto)
  then show ?thesis using get_one_pk [OF assms] by simp
qed

definition no_delimiter :: "string \<Rightarrow> bool" where
  "no_delimiter s \<longleftrightarrow> DELIMITER \<notin> set s"

text \<open>
  C26: Every query of a pack that a configuration gives a machine is found again by its name. If the
  slugs have no delimiter, as slugs of the framework have none, and a query is in one pack query at
  most, then for every entry \<open>conf["packs"][k]["queries"][j]\<close> of the configuration that
  \<open>build_osquery_conf\<close> makes, \<open>get_with_config_key\<close> finds with \<open>k/j\<close> the one pack query the entry
  serializes, and an event for the result named \<open>pack/k/j\<close> is linked to its pack and to its query.
\<close>

theorem pack_query_key_roundtrip:
  assumes "distinct (map (q_pk \<circ> pq_query) pqs)"
    and "\<forall>pq \<in> set pqs. no_delimiter (pq_slug pq)"
    and "\<forall>cp \<in> set (cf_packs c). no_delimiter (pk_slug (cp_pack cp))"
    and "dict_at (PDict (build_osquery_conf urls flags pqs m c)) [''packs'', k, ''queries'', j] = Some v"
  shows "\<exists>pq \<in> set pqs. v = PDict (pack_query_serialize pq) \<and>
     get_with_config_key (PStr (k @ [DELIMITER] @ j)) pqs = Inr pq \<and>
     result_linked_objects_keys [(''name'', PStr (''pack'' @ [DELIMITER] @ k @ [DELIMITER] @ j))] =
       [(''osquery_pack'', [[PInt (int (pq_pack pq))]]), (''osquery_query'', [[PInt (int (q_pk (pq_query pq)))]])]"
proof -
  from conf_pack_query [OF assms(4)] obtain p pq where
    p: "p \<in> set (machine_packs m c)" and pq: "pq \<in> set pqs" "pq_pack pq = pk_pk p"
    and k: "k = configuration_key p" and j: "j = pack_key pq" and v: "v = PDict (pack_query_serialize pq)"
    by blast
  have slugs: "DELIMITER \<notin> set (pk_slug p)" "DELIMITER \<notin> set (pq_slug pq)"
    using assms(2,3) p pq(1) by (auto simp: machine_packs_def no_delimiter_def)
  note parts = config_key_parts [OF slugs]
  have "get_with_config_key (PStr (k @ [DELIMITER] @ j)) pqs = Inr pq"
    using config_key_found [OF assms(1) pq(1)] by (simp add: get_with_config_key_def config_key_pks_def parts k j pq(2))
  moreover have "DELIMITER \<notin> set ''pack''" by (simp add: DELIMITER_def)
  then have "split_on DELIMITER (''pack'' @ DELIMITER # k @ DELIMITER # j) = ''pack'' # split_on DELIMITER (k @ DELIMITER # j)"
    by (rule split_on_append)
  then have "result_linked_objects_keys [(''name'', PStr (''pack'' @ [DELIMITER] @ k @ [DELIMITER] @ j))] =
       [(''osquery_pack'', [[PInt (int (pq_pack pq))]]), (''osquery_query'', [[PInt (int (q_pk (pq_query pq)))]])]"
    by (simp add: result_linked_objects_keys_def parts k j pq(2) del: split_on.simps)
  ultimately show ?thesis using pq(1) v by blast
qed

definition sample_pack_queries :: "pack_query list" where
  "sample_pack_queries =
     [\<lparr>pq_pk = 1, pq_pack = 3,
       pq_query = \<lparr>q_pk = 12, q_name = ''Users'', q_sql = ''select * from users;'', q_platforms = [''darwin''],
                  q_minimum_osquery_version = None, q_description = [], q_value = [], q_version = 4\<rparr>,
       pq_slug = ''users'', pq_interval = 3600, pq_log_removed_actions = True, pq_snapshot_mode = False,
       pq_shard = None, pq_can_be_denylisted = True\<rparr>]"

definition sample_configuration :: configuration where
  "sample_configuration =
     \<lparr>cf_pk = 1, cf_name = ''Default'', cf_inventory = True, cf_inventory_apps = False, cf_inventory_interval = 86400,
      cf_options = [], cf_file_categories = [], cf_atcs = [],
      cf_packs = [\<lparr>cp_pack = \<lparr>pk_pk = 3, pk_name = ''Audit'', pk_slug = ''audit'', pk_discovery_queries = [], pk_shard = None\<rparr>,
                   cp_tags = []\<rparr>]\<rparr>"

definition sample_machine_facts :: machine_facts where
  "sample_machine_facts =
     \<lparr>mf_serial_number = ''C02'', mf_platform = Some ''MACOS'', mf_has_deb_packages = False, mf_tags = []\<rparr>"

definition sample_urls :: server_urls where
  "sample_urls = \<lparr>su_fqdn = ''zentral'', su_reverse = (\<lambda>name. name)\<rparr>"

lemma sample_conf_query:
  "dict_at (PDict (build_osquery_conf sample_urls [] sample_pack_queries sample_machine_facts sample_configuration))
     [''packs'', ''audit/3'', ''queries'', ''users/12/4''] =
   Some (PDict (pack_query_serialize (hd sample_pack_queries)))"
  by code_simp

theorem pack_query_key_roundtrip_witness:
  "\<exists>pq \<in> set sample_pack_queries. PDict (pack_query_serialize (hd sample_pack_queries)) = PDict (pack_query_serialize pq) \<and>
     get_with_config_key (PStr (''audit/3'' @ [DELIMITER] @ ''users/12/4'')) sample_pack_queries = Inr pq \<and>
     result_linked_objects_keys [(''name'', PStr (''pack'' @ [DELIMITER] @ ''audit/3'' @ [DELIMITER] @ ''users/12/4''))] =
       [(''osquery_pack'', [[PInt (int (pq_pack pq))]]), (''osquery_query'', [[PInt (int (q_pk (pq_query pq)))]])]"
  by (rule pack_query_key_roundtrip [OF _ _ _ sample_conf_query]; code_simp)

end
