(* ===== verification/OsqueryProps.thy ===== *)
theory OsqueryProps imports OsqueryRuns OsqueryKeys begin

text \<open>
  What the invariant of the runs gives for the agents of osquery, and what the API does not verify.
  The witnesses run the requests of one enrolled machine.
\<close>

subsection \<open>An installation\<close>

definition empty_inventory :: inventory_db where
  "empty_inventory = \<lparr>tables = (\<lambda>_. []), meta_business_units = [], machine_snapshot_commits = [],
     current_machine_snapshots = []\<rparr>"

text \<open>Digests that the witnesses can evaluate: the first forty characters of the message.\<close>

definition osquery_lib :: mt_lib where
  "osquery_lib = \<lparr>sha1 = (\<lambda>s. take 40 (s @ replicate 40 (CHR ''0''))), make_naive = make_naive_utc\<rparr>"

definition sample_env :: "pyval \<Rightarrow> osquery_env" where
  "sample_env data =
     \<lparr>oe_now = \<lparr>dt_year = 2021, dt_month = 7, dt_day = 1, dt_hour = 8, dt_minute = 0, dt_second = 0, dt_microsecond = 0,
                dt_utcoffset = None\<rparr>,
      oe_uuid = (\<lambda>i. nat_str i), oe_random = ''new'', oe_md5 = (\<lambda>s. ''0f''), oe_valid_ip = (\<lambda>s. True),
      oe_json_loads = (\<lambda>s. Inr data), oe_gunzip = (\<lambda>s. Inl ValueError),
      oe_site = inventory_site osquery_lib (\<lambda>_ _. None) (\<lambda>_ _. True), oe_fuel = 10, oe_classes = [],
      oe_others = (\<lambda>d. d), oe_urls = sample_urls, oe_cli_only_flags = []\<rparr>"

definition osquery_http :: http_post where
  "osquery_http = \<lparr>hp_meta = [(''HTTP_USER_AGENT'', ''osquery/4.10.0''), (''REMOTE_ADDR'', ''10.0.0.1'')], hp_body = []\<rparr>"

definition osquery_secret :: enrollment_secret where
  "osquery_secret =
     \<lparr>es_pk = 1, es_secret = ''secret'', es_meta_business_unit = 1, es_tags = [], es_serial_numbers = None, es_udids = None,
      es_quota = None, es_request_count = 1, es_revoked_at = None, es_expired_at = None, es_created_at = 0\<rparr>"

definition second_osquery_machine :: enrolled_machine where
  "second_osquery_machine =
     \<lparr>om_pk = 2, om_enrollment = 1, om_serial_number = ''D03'', om_node_key = ''other'', om_osquery_version = None,
      om_platform_mask = 0\<rparr>"

definition sample_osquery_db :: osquery_db where
  "sample_osquery_db =
     \<lparr>od_enrollment_db = \<lparr>enrollment_secrets = [osquery_secret], enrollment_requests = [],
        enrollments = [\<lparr>enr_pk = 1, enr_model = ''osquery_enrollment'', enr_secret = 1, enr_version = 1,
          enr_distributor = None, enr_created_at = 0\<rparr>]\<rparr>,
      od_enrollment_configurations = [(1, 1)], od_configurations = [sample_configuration],
      od_pack_queries = sample_pack_queries, od_machines = [sample_osquery_machine, second_osquery_machine],
      od_tags = \<lparr>td_taxonomies = [], td_tags = [], td_machine_tags = [], td_meta_business_unit_tags = []\<rparr>,
      od_queries = [sample_query 7, sample_query 5],
      od_query_machines = [\<lparr>dqm_pk = 1, dqm_query = 7, dqm_serial_number = ''D03'', dqm_status = None, dqm_error_message = None\<rparr>],
      od_results = [],
      od_sessions = [\<lparr>fs_id = ''a'', fs_distributed_query = Some 7, fs_pack_query = None, fs_serial_number = ''C02'',
        fs_carve_guid = ''g'', fs_carve_size = 3, fs_block_size = 2, fs_block_count = 2, fs_archive = None\<rparr>],
      od_blocks = [\<lparr>fb_session = ''a'', fb_block_id = 0, fb_file = ''f'', fb_data = ''xy''\<rparr>],
      od_inventory = empty_inventory, od_tasks = [], od_dead_letters = []\<rparr>"

definition sample_osquery_state :: osquery_state where
  "sample_osquery_state = \<lparr>os_db = sample_osquery_db, os_events = []\<rparr>"

lemma sample_osquery_ok: "osquery_ok (os_db sample_osquery_state)"
  by code_simp

definition read_data :: pyval where
  "read_data = PDict [(''node_key'', PStr ''key'')]"

definition sample_read :: "(pyerror + pyval) \<times> osquery_state" where
  "sample_read = osquery_post (sample_env read_data) DistributedRead osquery_http sample_osquery_state"

subsection \<open>Distributed queries and file carvings\<close>


lemma sample_read_given: "given_queries DistributedRead (fst sample_read) (os_db (snd sample_read)) = [(5, ''C02''), (7, ''C02'')]"
  by code_simp

lemma sample_read_run: "osquery_run [(5, ''C02''), (7, ''C02'')] sample_osquery_state (snd sample_read)"
proof -
  have "osquery_post (sample_env read_data) DistributedRead osquery_http sample_osquery_state = (fst sample_read, snd sample_read)"
    by (simp add: sample_read_def)
  from run_request [OF run_start this] show ?thesis by (simp add: sample_read_given)
qed


text \<open>
  C7: The archive of a file carving is built once, when the last block is there. In any run, a task
  is scheduled at most once for a session, and it is scheduled exactly for the sessions that have at
  least as many blocks as they announced and announced at least one; no block of a session is
  stored twice.
\<close>

theorem carving_archived_once:
  assumes "osquery_run given st st'" and "osquery_ok (os_db st)"
  shows "distinct (od_tasks (os_db st')) \<and>
     (\<forall>s \<in> set (od_sessions (os_db st')). fs_id s \<in> set (od_tasks (os_db st')) \<longleftrightarrow>
        1 \<le> fs_block_count s \<and> fs_block_count s \<le> int (length (session_blocks s (os_db st')))) \<and>
     distinct (map block_key (od_blocks (os_db st')))"
  using run_step [OF assms] by (simp add: osquery_ok_def carving_ok_def block_number_def session_blocks_def)

definition sample_session_id :: string where
  "sample_session_id = ''9f1c1c5e-0d0e-4b5b-8b9a-6a1f0c2d3e4f''"

definition carving_state :: osquery_state where
  "carving_state = \<lparr>os_db = sample_osquery_db
     \<lparr>od_sessions := map (\<lambda>s. s\<lparr>fs_id := sample_session_id\<rparr>) (od_sessions sample_osquery_db),
      od_blocks := map (\<lambda>b. b\<lparr>fb_session := sample_session_id\<rparr>) (od_blocks sample_osquery_db)\<rparr>, os_events = []\<rparr>"

definition sample_block :: "(pyerror + pyval) \<times> osquery_state" where
  "sample_block = osquery_post
     (sample_env (PDict [(''session_id'', PStr sample_session_id), (''block_id'', PStr ''1''), (''data'', PStr ''eg=='')]))
     ContinueFileCarving osquery_http carving_state"

lemma carving_state_ok: "osquery_ok (os_db carving_state)"
  by code_simp

lemma sample_block_tasks: "od_tasks (os_db (snd sample_block)) = [sample_session_id]"
  by code_simp

lemma sample_block_run: "osquery_run [] carving_state (snd sample_block)"
  using run_request [OF run_start, of _ ContinueFileCarving osquery_http carving_state "fst sample_block" "snd sample_block"]
  by (simp add: given_queries_other sample_block_def)

theorem carving_archived_once_witness:
  "distinct [sample_session_id] \<and>
   list_all (\<lambda>s. (fs_id s \<in> set [sample_session_id]) = (1 \<le> fs_block_count s \<and>
      fs_block_count s \<le> int (length (session_blocks s (os_db (snd sample_block)))))) (od_sessions (os_db (snd sample_block))) \<and>
   distinct (map block_key (od_blocks (os_db (snd sample_block))))"
  unfolding list_all_iff
  by (rule carving_archived_once [OF sample_block_run carving_state_ok, unfolded sample_block_tasks])

subsection \<open>Enrollments and authentication\<close>

text \<open>
  C12: An enrollment leaves one enrolled machine of the serial number. When \<open>EnrollView\<close> answers, the
  answer is the node key of the only machine of the table with the reported serial number, the key
  is the one drawn for this request, and the machines of the other serial numbers are as before:
  the machine that enrolled before, with this enrollment or with another, is not in the table with
  its old key any more.
\<close>

theorem enrollment_replaces_machine:
  assumes "osquery_post env Enroll rq st = (Inr v, st')" and "osquery_ok (os_db st)"
  shows "\<exists>data sn m. osquery_json_data env rq = Inr data \<and> get_serial_number data = Inr sn \<and>
     v = PDict [(''node_key'', PStr (om_node_key m))] \<and> om_node_key m = oe_random env \<and>
     filter (\<lambda>r. om_serial_number r = sn) (od_machines (os_db st')) = [m] \<and>
     filter (\<lambda>r. om_serial_number r \<noteq> sn) (od_machines (os_db st')) =
       filter (\<lambda>r. om_serial_number r \<noteq> sn) (od_machines (os_db st))"
proof -
  from osquery_post_cases [OF assms(1)] obtain q evs where
    p: "enroll_post env q (os_db st) = (Inr (v, os_db st'), evs)" and data: "osquery_json_data env rq = Inr (or_data q)"
    by auto
  from enroll_post_facts [OF p assms(2)] data show ?thesis by blast
qed

definition enroll_data :: pyval where
  "enroll_data = PDict
     [(''enroll_secret'', PStr ''secret''), (''platform_type'', PStr ''21''),
      (''host_details'', PDict
         [(''system_info'', PDict [(''hardware_serial'', PStr ''C02''), (''uuid'', PStr ''u'')]),
          (''osquery_info'', PDict [(''version'', PStr ''4.10.0'')]), (''os_version'', PDict []), (''platform_info'', PDict [])])]"

definition sample_enroll :: "(pyerror + pyval) \<times> osquery_state" where
  "sample_enroll = osquery_post (sample_env enroll_data) Enroll osquery_http sample_osquery_state"

lemma sample_enroll_answer: "fst sample_enroll = Inr (PDict [(''node_key'', PStr ''new'')])"
  by code_simp

theorem enrollment_replaces_machine_witness:
  "\<exists>data sn m. osquery_json_data (sample_env enroll_data) osquery_http = Inr data \<and> get_serial_number data = Inr sn \<and>
     PDict [(''node_key'', PStr ''new'')] = PDict [(''node_key'', PStr (om_node_key m))] \<and>
     om_node_key m = oe_random (sample_env enroll_data) \<and>
     filter (\<lambda>r. om_serial_number r = sn) (od_machines (os_db (snd sample_enroll))) = [m] \<and>
     filter (\<lambda>r. om_serial_number r \<noteq> sn) (od_machines (os_db (snd sample_enroll))) =
       filter (\<lambda>r. om_serial_number r \<noteq> sn) (od_machines (os_db sample_osquery_state))"
proof (rule enrollment_replaces_machine [OF _ sample_osquery_ok])
  show "osquery_post (sample_env enroll_data) Enroll osquery_http sample_osquery_state =
      (Inr (PDict [(''node_key'', PStr ''new'')]), snd sample_enroll)"
    using sample_enroll_answer by (simp add: sample_enroll_def prod_eq_iff)
qed

text \<open>
  C16: Only an enrolled machine is heard. If any request other than an enrollment changes a table or
  posts an event, then it names the node key of a machine of the table or, to continue a file
  carving, a session of the table whose serial number is the one of an enrolled machine; any other
  request leaves everything as it was.
\<close>

theorem node_requests_authenticated:
  assumes "osquery_post env view rq st = (r, st')" and "view \<noteq> Enroll" and "st' \<noteq> st"
  shows "\<exists>data s m. osquery_json_data env rq = Inr data \<and> authenticated data (os_db st) s m \<and>
     (s = None \<longleftrightarrow> view \<noteq> ContinueFileCarving)"
proof (cases "osquery_json_data env rq")
  case (Inl e)
  with assms(1,3) show ?thesis by (simp add: osquery_post_def)
next
  case (Inr data)
  obtain ua addr where u: "user_agent_and_ip_address_from_request (oe_valid_ip env) (hp_meta rq) = (ua, addr)" by fastforce
  let ?q = "\<lparr>or_data = data, or_user_agent = ua, or_ip = addr\<rparr>"
  let ?a = "if view = ContinueFileCarving then bind_result (session_authenticate ?q (os_db st)) (\<lambda>(s, lo). Inr (Some s, lo))
            else bind_result (node_authenticate ?q (os_db st)) (\<lambda>lo. Inr (None, lo))"
  show ?thesis
  proof (cases ?a)
    case (Inl e)
    then have "base_node_post env view ?q (os_db st) = (Inl e, [])"
      by (simp add: base_node_post_def bind_posted_def quiet_def)
    with assms Inr u show ?thesis by (auto simp: osquery_post_def Let_def)
  next
    case (Inr x)
    obtain s lo where x: "x = (s, lo)" by fastforce
    with Inr have "authenticated (or_data ?q) (os_db st) s (lo_machine lo) \<and> (s = None \<longleftrightarrow> view \<noteq> ContinueFileCarving)"
      by (auto simp: bind_result_Inr simp del: osquery_request.simps split: if_splits
          dest: node_authenticated session_authenticated)
    then have "\<exists>s m. authenticated data (os_db st) s m \<and> (s = None \<longleftrightarrow> view \<noteq> ContinueFileCarving)"
      by (intro exI [of _ s] exI [of _ "lo_machine lo"]) simp
    with \<open>osquery_json_data env rq = Inr data\<close> show ?thesis by blast
  qed
qed

lemma sample_read_changes: "snd sample_read \<noteq> sample_osquery_state"
proof -
  have "given_keys (os_db (snd sample_read)) \<noteq> given_keys (os_db sample_osquery_state)" by code_simp
  then show ?thesis by auto
qed

theorem node_requests_authenticated_witness:
  "\<exists>data s m. osquery_json_data (sample_env read_data) osquery_http = Inr data \<and>
     authenticated data (os_db sample_osquery_state) s m \<and> (s = None \<longleftrightarrow> DistributedRead \<noteq> ContinueFileCarving)"
  by (rule node_requests_authenticated [where r = "fst sample_read", OF _ _ sample_read_changes]) (simp_all add: sample_read_def)

subsection \<open>What is not verified\<close>

definition write_data :: "distributed_query_machine \<Rightarrow> pyval \<Rightarrow> pyval" where
  "write_data dqm row =
     (let k = nat_str (dqm_pk dqm) in
      PDict [(''queries'', PDict [(k, PList [row])]), (''statuses'', PDict [(k, PInt 0)])])"



text \<open>The logs of one record.\<close>

definition log_data :: "dict \<Rightarrow> pyval" where
  "log_data r = PDict [(''log_type'', PStr ''status''), (''data'', PList [PDict r])]"

text \<open>
  The logs of another machine are accepted. When the last record of the status logs reports a serial number
  other than the one that is enrolled, \<open>process_decorations\<close> posts a conflict and makes an answer that says the node is
  invalid, and that answer is dropped: the agent is told that all is well, and the records become
  events of the enrolled serial number.
\<close>

theorem conflicting_log_accepted:
  assumes "or_data rq = log_data r" and "dict_get r ''decorations'' = Some (PDict decorations)"
    and "dict_get decorations ''serial_number'' = Some (PStr reported)" and "reported \<noteq> []"
    and "reported \<noteq> om_serial_number (lo_machine lo)"
  shows "log_do_node_post env rq lo db =
     (Inr (PDict [], db),
      post_machine_conflict_event env rq reported (om_serial_number (lo_machine lo)) decorations #
      post_events_from_osquery_log OsqueryStatusEvent env (om_serial_number (lo_machine lo)) rq [r]) \<and>
     list_all (\<lambda>e. md_machine_serial_number (ev_metadata e) = Some (om_serial_number (lo_machine lo)))
       (post_events_from_osquery_log OsqueryStatusEvent env (om_serial_number (lo_machine lo)) rq [r])"
proof -
  have d: "process_decorations env rq (lo_machine lo) [r] db =
     (Inr (PDict [(''node_invalid'', PBool True)], db),
      [post_machine_conflict_event env rq reported (om_serial_number (lo_machine lo)) decorations])"
    using assms(2-5)
    by (simp add: process_decorations_def bind_posted_def quiet_def record_dict_def dict_get_default_def Let_def text_column_def)
  have "log_do_node_post env rq lo db =
     (Inr (PDict [], db),
      post_machine_conflict_event env rq reported (om_serial_number (lo_machine lo)) decorations #
      post_events_from_osquery_log OsqueryStatusEvent env (om_serial_number (lo_machine lo)) rq [r])"
    unfolding log_do_node_post_def assms(1)
    by (simp add: log_data_def json_get_def dict_get_default_def bind_posted_def quiet_def record_dict_def sort_records_def d)
  moreover have "list_all (\<lambda>e. md_machine_serial_number (ev_metadata e) = Some (om_serial_number (lo_machine lo)))
       (post_events_from_osquery_log OsqueryStatusEvent env (om_serial_number (lo_machine lo)) rq [r])"
    by (simp add: post_events_from_osquery_log_def Let_def build_from_machine_request_payloads_def)
  ultimately show ?thesis by simp
qed

definition sample_loaded :: loaded_osquery_machine where
  "sample_loaded =
     \<lparr>lo_machine = sample_osquery_machine, lo_secret = osquery_secret, lo_configuration = sample_configuration\<rparr>"

definition sample_record :: dict where
  "sample_record =
     [(''message'', PStr ''started''), (''unixTime'', PStr ''1625126400''),
      (''decorations'', PDict [(''serial_number'', PStr ''D03'')])]"

theorem conflicting_log_accepted_witness:
  "\<forall>env. \<forall>rq. log_do_node_post env (rq\<lparr>or_data := log_data sample_record\<rparr>) sample_loaded sample_osquery_db =
     (Inr (PDict [], sample_osquery_db),
      post_machine_conflict_event env (rq\<lparr>or_data := log_data sample_record\<rparr>) ''D03'' (om_serial_number (lo_machine sample_loaded))
        [(''serial_number'', PStr ''D03'')] #
      post_events_from_osquery_log OsqueryStatusEvent env (om_serial_number (lo_machine sample_loaded))
        (rq\<lparr>or_data := log_data sample_record\<rparr>) [sample_record]) \<and>
     list_all (\<lambda>e. md_machine_serial_number (ev_metadata e) = Some (om_serial_number (lo_machine sample_loaded)))
       (post_events_from_osquery_log OsqueryStatusEvent env (om_serial_number (lo_machine sample_loaded))
        (rq\<lparr>or_data := log_data sample_record\<rparr>) [sample_record])"
  by (intro allI, rule conflicting_log_accepted)
     (simp_all add: sample_record_def sample_loaded_def sample_osquery_machine_def)

end
