(* ===== verification/MachineInfo.thy ===== *)
theory MachineInfo imports MetaMachines begin

text \<open>
  The information of a machine for its events (\<open>MetaMachine\<close> of
  \<open>zentral/contrib/inventory/models.py\<close>): the rows of the one query, the values the inventory
  filters of the probes read, and the dictionary written in the metadata of the events.
\<close>

subsection \<open>The query\<close>

text \<open>
  A row has the name of a source or null, a key, and a JSON value, whose keys are in the order the
  database keeps them. \<open>union\<close> leaves no duplicates; the rows are in the order of the query.
\<close>

type_synonym info_row = "string option \<times> string \<times> pyval"

definition json_text :: "string option \<Rightarrow> pyval" where
  "json_text = opt_str"

definition host_names_rows :: "inventory_db \<Rightarrow> mt_row \<Rightarrow> info_row list" where
  "host_names_rows db ms =
     (case related_row ''SystemInfo'' ms ''system_info'' db of
        None \<Rightarrow> []
      | Some si \<Rightarrow>
          if text_of si ''computer_name'' = None \<and> text_of si ''hostname'' = None then []
          else [(Some (source_name db ms), ''system_info'',
                 PDict [(''hostname'', json_text (text_of si ''hostname'')),
                        (''computer_name'', json_text (text_of si ''computer_name''))])])"

definition short_key :: "mt_row \<Rightarrow> pyval" where
  "short_key r = json_text (map_option (take 8) (row_key r))"

definition group_value :: "mt_row \<Rightarrow> pyval" where
  "group_value g = PDict [(''key'', short_key g), (''name'', json_column g ''name''), (''reference'', json_column g ''reference'')]"

definition business_unit_rows :: "inventory_db \<Rightarrow> mt_row \<Rightarrow> info_row list" where
  "business_unit_rows db bu =
     (if is_api_enrollment_business_unit db bu then []
      else [(Some (source_name db bu), ''business_unit'', group_value bu)])"

definition os_version_rows :: "inventory_db \<Rightarrow> mt_row \<Rightarrow> info_row list" where
  "os_version_rows db ms =
     (case related_row ''OSVersion'' ms ''os_version'' db of
        None \<Rightarrow> []
      | Some v \<Rightarrow> [(Some (source_name db ms), ''os_version'',
          PDict (map (\<lambda>k. (k, json_column v k)) [''name'', ''build'', ''major'', ''minor'', ''patch'']))])"

text \<open>\<open>jsonb_agg(distinct ...)\<close>: the values in their order, or null when there is none.\<close>

definition distinct_texts :: "string \<Rightarrow> mt_row list \<Rightarrow> string list" where
  "distinct_texts k rows = sort_key str_key (remdups (List.map_filter (\<lambda>r. text_of r k) rows))"

definition distinct_row :: "string \<Rightarrow> string \<Rightarrow> mt_row list \<Rightarrow> info_row" where
  "distinct_row key k rows =
     (None, key, case distinct_texts k rows of [] \<Rightarrow> PNone | s # ss \<Rightarrow> PList (map PStr (s # ss)))"

definition group_rows :: "inventory_db \<Rightarrow> mt_row \<Rightarrow> info_row list" where
  "group_rows db ms =
     (case dict_get (row_values ms) ''groups'' of
        Some (SKeys pks) \<Rightarrow>
          map (\<lambda>g. (Some (source_name db ms), ''groups'', group_value g))
            (filter (\<lambda>g. row_pk g \<in> set pks) (tables db ''MachineGroup''))
      | _ \<Rightarrow> [])"

definition principal_user_rows :: "inventory_db \<Rightarrow> mt_row \<Rightarrow> info_row list" where
  "principal_user_rows db ms =
     (case related_row ''PrincipalUser'' ms ''principal_user'' db of
        None \<Rightarrow> []
      | Some pu \<Rightarrow> [(Some (source_name db ms), ''principal_user'',
          PDict [(''id'', PInt (int (row_pk pu))), (''unique_id'', json_column pu ''unique_id''),
                 (''principal_name'', json_column pu ''principal_name'')])])"

definition named_value :: "nat \<Rightarrow> string \<Rightarrow> pyval" where
  "named_value pk n = PDict [(''id'', PInt (int pk)), (''name'', PStr n)]"

definition tag_rows :: "inventory_db \<Rightarrow> tag_db \<Rightarrow> string \<Rightarrow> info_row list" where
  "tag_rows db td serial_number =
     map (\<lambda>t. (None, ''tags'', named_value (tag_pk t) (tag_name t)))
       (filter (\<lambda>t. tag_pk t \<in> set (sql_tag_pks db td serial_number)) (td_tags td))"

definition mbu_rows :: "inventory_db \<Rightarrow> string \<Rightarrow> info_row list" where
  "mbu_rows db serial_number =
     map (\<lambda>m. (None, ''meta_business_units'', named_value (mbu_pk m) (mbu_name m)))
       (filter (\<lambda>m. Some (mbu_pk m) \<in> set (map row_mbu (current_units db serial_number))) (meta_business_units db))"

definition raw_info_for_event ::
  "bool \<Rightarrow> bool \<Rightarrow> inventory_db \<Rightarrow> tag_db \<Rightarrow> string \<Rightarrow> info_row list" where
  "raw_info_for_event include_groups include_principal_user db td serial_number =
     (let ms = current_rows db serial_number in
      remdups
        (concat (map (host_names_rows db) ms) @
         concat (map (business_unit_rows db) (current_units db serial_number)) @
         tag_rows db td serial_number @
         concat (map (os_version_rows db) ms) @
         [distinct_row ''platforms'' ''platform'' ms, distinct_row ''types'' ''type'' ms] @
         mbu_rows db serial_number @
         (if include_groups then concat (map (group_rows db) ms) else []) @
         (if include_principal_user then concat (map (principal_user_rows db) ms) else [])))"

subsection \<open>The values of the inventory filters\<close>

text \<open>\<open>Counter(agg).most_common(1)[0][0]\<close>, of a list that is not empty.\<close>

definition most_common_item :: "pyval \<Rightarrow> pyval option" where
  "most_common_item agg = (case agg of PList vs \<Rightarrow> most_common vs | _ \<Rightarrow> None)"

definition agg_item :: "pyval \<Rightarrow> string \<Rightarrow> pyval" where
  "agg_item agg k = (case agg of PDict d \<Rightarrow> dict_get_default d k PNone | _ \<Rightarrow> PNone)"

record probe_values =
  pv_platform :: "pyval option"
  pv_type :: "pyval option"
  pv_meta_business_units :: "pyval list"
  pv_tags :: "pyval list"

definition probe_value_step :: "info_row \<Rightarrow> probe_values \<Rightarrow> probe_values" where
  "probe_value_step row pv =
     (case row of (src, key, agg) \<Rightarrow>
       if \<not> truthy agg then pv
       else if key = ''platforms'' then pv\<lparr>pv_platform := most_common_item agg\<rparr>
       else if key = ''types'' then pv\<lparr>pv_type := most_common_item agg\<rparr>
       else if key = ''meta_business_units''
         then pv\<lparr>pv_meta_business_units := List.insert (agg_item agg ''id'') (pv_meta_business_units pv)\<rparr>
       else if key = ''tags'' then pv\<lparr>pv_tags := List.insert (agg_item agg ''id'') (pv_tags pv)\<rparr>
       else pv)"

definition get_probe_filtering_values :: "info_row list \<Rightarrow> probe_values" where
  "get_probe_filtering_values rows =
     fold probe_value_step rows \<lparr>pv_platform = None, pv_type = None, pv_meta_business_units = [], pv_tags = []\<rparr>"

text \<open>\<open>cached_probe_filtering_values\<close> and \<open>cached_serialized_info_for_event\<close>: for a minute.\<close>

definition cached_for_a_minute :: "int \<Rightarrow> string \<Rightarrow> 'a \<Rightarrow> (string \<times> int \<times> 'a) list \<Rightarrow> 'a \<times> (string \<times> int \<times> 'a) list" where
  "cached_for_a_minute now key fresh cache =
     (case dict_get cache key of
        Some (expires, v) \<Rightarrow> if now < expires then (v, cache) else (fresh, dict_set key (now + 60, fresh) cache)
      | None \<Rightarrow> (fresh, dict_set key (now + 60, fresh) cache))"

subsection \<open>The dictionary of the events\<close>

definition value_str :: "pyval \<Rightarrow> string" where
  "value_str v = (case v of PInt i \<Rightarrow> int_str i | PStr s \<Rightarrow> s | PBool b \<Rightarrow> py_bool_str b | _ \<Rightarrow> [])"

definition os_version_str :: "pyval \<Rightarrow> string" where
  "os_version_str agg =
     (let build = agg_item agg ''build'';
          numbers = filter (\<lambda>v. v \<noteq> PNone) (map (agg_item agg) [''major'', ''minor'', ''patch''])
      in join_with '' '' (filter (\<lambda>s. s \<noteq> [])
           [value_str (agg_item agg ''name''), join_with ''.'' (map value_str numbers),
            if truthy build then ''('' @ value_str build @ '')'' else []]))"

text \<open>What a row writes in the dictionary of its source, or in the one of the machine.\<close>

definition info_item :: "string \<Rightarrow> pyval \<Rightarrow> dict \<Rightarrow> pyerror + dict" where
  "info_item key agg d =
     (if key = ''system_info'' then
        Inr (dict_set ''name'' (if truthy (agg_item agg ''computer_name'') then agg_item agg ''computer_name''
                               else agg_item agg ''hostname'') d)
      else if key = ''os_version'' then
        Inr (if os_version_str agg = [] then d else dict_set key (PStr (os_version_str agg)) d)
      else if key = ''types'' \<or> key = ''platforms'' then
        Inr (case most_common_item agg of None \<Rightarrow> d | Some v \<Rightarrow> dict_set (butlast key) v d)
      else if key = ''principal_user'' then Inr (dict_set key agg d)
      else
        (case dict_get d key of
           None \<Rightarrow> Inr (dict_set key (PList [agg]) d)
         | Some (PList vs) \<Rightarrow> Inr (dict_set key (PList (vs @ [agg])) d)
         | Some _ \<Rightarrow> Inl AttributeError))"

text \<open>The slug of a source may be the name of another item, which is then no dictionary.\<close>

definition info_step :: "(string \<Rightarrow> string) \<Rightarrow> info_row \<Rightarrow> dict \<Rightarrow> pyerror + dict" where
  "info_step slugify row machine_d =
     (case row of (src, key, agg) \<Rightarrow>
       if \<not> truthy agg then Inr machine_d
       else if truthy_str src then
         (let slug = slugify (the src) in
          case (case dict_get machine_d slug of None \<Rightarrow> PDict [] | Some v \<Rightarrow> v) of
            PDict d \<Rightarrow> bind_result (info_item key agg d) (\<lambda>d'. Inr (dict_set slug (PDict d') machine_d))
          | _ \<Rightarrow> Inl (if key \<in> {''system_info'', ''os_version'', ''types'', ''platforms'', ''principal_user''}
                      then TypeError else AttributeError))
       else info_item key agg machine_d)"

fun get_serialized_info_for_event :: "(string \<Rightarrow> string) \<Rightarrow> info_row list \<Rightarrow> dict \<Rightarrow> pyerror + dict" where
  "get_serialized_info_for_event slugify [] d = Inr d"
| "get_serialized_info_for_event slugify (row # rows) d =
     bind_result (info_step slugify row d) (get_serialized_info_for_event slugify rows)"

subsection \<open>The two readings of the inventory\<close>

text \<open>The current snapshots of a serial number are snapshots of this serial number.\<close>

definition currents_refer :: "inventory_db \<Rightarrow> bool" where
  "currents_refer db \<longleftrightarrow>
     (\<forall>c \<in> set (current_machine_snapshots db). \<forall>ms \<in> set (tables db ''MachineSnapshot'').
        row_pk ms = cms_machine_snapshot c \<longrightarrow> text_of ms ''serial_number'' = Some (cms_serial_number c))"

lemma current_rows_snapshots:
  assumes "currents_refer db"
  shows "set (current_rows db sn) = set (mm_snapshots db sn)"
proof (intro set_eqI iffI)
  fix ms assume "ms \<in> set (current_rows db sn)"
  then obtain c where "c \<in> set (current_machine_snapshots db)" "cms_serial_number c = sn"
    "ms \<in> set (tables db ''MachineSnapshot'')" "row_pk ms = cms_machine_snapshot c"
    by (auto simp: current_rows_def)
  then show "ms \<in> set (mm_snapshots db sn)"
    using assms by (auto simp: currents_refer_def mm_snapshots_def is_current_def list_ex_iff)
next
  fix ms assume "ms \<in> set (mm_snapshots db sn)"
  then obtain c where "c \<in> set (current_machine_snapshots db)" "ms \<in> set (tables db ''MachineSnapshot'')"
    "row_pk ms = cms_machine_snapshot c" "text_of ms ''serial_number'' = Some sn"
    by (auto simp: mm_snapshots_def is_current_def list_ex_iff)
  with assms show "ms \<in> set (current_rows db sn)"
    by (auto simp: currents_refer_def current_rows_def)
qed

lemma map_filter_set: "set (List.map_filter f xs) = {y. \<exists>x \<in> set xs. f x = Some y}"
  by (induction xs) (auto simp: List.map_filter_simps split: option.splits)

lemma current_units_set:
  "currents_refer db \<Longrightarrow> set (current_units db sn) = set (mm_business_units True db sn)"
  by (simp add: current_units_def mm_business_units_def map_filter_set current_rows_snapshots)

lemma sort_tags_set [simp]: "set (sort_tags db td f xs) = set xs"
  by (auto simp: sort_tags_def Let_def)

lemma find_pk:
  assumes "distinct (map pk xs)"
  shows "find (\<lambda>x. pk x = k) xs = Some y \<longleftrightarrow> y \<in> set xs \<and> pk y = k"
  using assms by (induction xs) (auto simp: find_Some_iff rev_image_eqI)

text \<open>What the loop has at its end.\<close>

lemma probe_values_fold:
  fixes rows :: "info_row list"
  shows "set (pv_meta_business_units (fold probe_value_step rows pv)) =
      set (pv_meta_business_units pv) \<union>
      {agg_item agg ''id'' |src agg. (src, ''meta_business_units'', agg) \<in> set rows \<and> truthy agg}"
    and "set (pv_tags (fold probe_value_step rows pv)) =
      set (pv_tags pv) \<union> {agg_item agg ''id'' |src agg. (src, ''tags'', agg) \<in> set rows \<and> truthy agg}"
    and "pv_platform (fold probe_value_step rows pv) = Some p \<Longrightarrow>
      pv_platform pv = Some p \<or> (\<exists>src agg. (src, ''platforms'', agg) \<in> set rows \<and> most_common_item agg = Some p)"
proof (induction rows arbitrary: pv)
  case (Cons row rows)
  obtain src key agg where row: "row = (src, key, agg)" by (cases row)
  {
    case 1
    show ?case by (simp add: Cons(1)) (auto simp: row probe_value_step_def)
  next
    case 2
    show ?case by (simp add: Cons(2)) (auto simp: row probe_value_step_def)
  next
    case 3
    then have "pv_platform (probe_value_step row pv) = Some p \<or>
        (\<exists>src agg. (src, ''platforms'', agg) \<in> set rows \<and> most_common_item agg = Some p)"
      using Cons(3) by simp
    then show ?case by (auto simp: row probe_value_step_def split: if_splits)
  }
qed simp_all

lemma info_keys:
  "list_all (\<lambda>r. fst (snd r) = ''system_info'') (host_names_rows db ms)"
  "list_all (\<lambda>r. fst (snd r) = ''business_unit'') (business_unit_rows db bu)"
  "list_all (\<lambda>r. fst (snd r) = ''os_version'') (os_version_rows db ms)"
  "list_all (\<lambda>r. fst (snd r) = ''groups'') (group_rows db ms)"
  "list_all (\<lambda>r. fst (snd r) = ''principal_user'') (principal_user_rows db ms)"
  by (auto simp: host_names_rows_def business_unit_rows_def os_version_rows_def group_rows_def
      principal_user_rows_def list_all_iff split: option.splits stored.splits)

lemma no_key: "list_all (\<lambda>r. fst (snd r) = k) rows \<Longrightarrow> k \<noteq> j \<Longrightarrow> (src, j, agg) \<notin> set rows"
  by (induction rows) auto

lemmas other_keys = info_keys(1) [THEN no_key] info_keys(2) [THEN no_key] info_keys(3) [THEN no_key]
  info_keys(4) [THEN no_key] info_keys(5) [THEN no_key]

lemma raw_rows:
  "(src, ''tags'', agg) \<in> set (raw_info_for_event g pu db td sn) \<longleftrightarrow> (src, ''tags'', agg) \<in> set (tag_rows db td sn)"
  "(src, ''meta_business_units'', agg) \<in> set (raw_info_for_event g pu db td sn) \<longleftrightarrow>
     (src, ''meta_business_units'', agg) \<in> set (mbu_rows db sn)"
  "(src, ''platforms'', agg) \<in> set (raw_info_for_event g pu db td sn) \<longleftrightarrow>
     (src, ''platforms'', agg) = distinct_row ''platforms'' ''platform'' (current_rows db sn)"
  by (auto simp: raw_info_for_event_def Let_def other_keys tag_rows_def mbu_rows_def distinct_row_def)

lemma named_value_id [simp]: "agg_item (named_value pk n) ''id'' = PInt (int pk)" "truthy (named_value pk n)"
  by (simp_all add: named_value_def agg_item_def dict_get_default_def)

lemma named_rows:
  "(src, ''tags'', agg) \<in> set (tag_rows db td sn) \<longleftrightarrow>
     src = None \<and> (\<exists>t \<in> set (td_tags td). tag_pk t \<in> set (sql_tag_pks db td sn) \<and> agg = named_value (tag_pk t) (tag_name t))"
  "(src, ''meta_business_units'', agg) \<in> set (mbu_rows db sn) \<longleftrightarrow>
     src = None \<and> (\<exists>m \<in> set (meta_business_units db). Some (mbu_pk m) \<in> row_mbu ` set (current_units db sn) \<and>
       agg = named_value (mbu_pk m) (mbu_name m))"
  by (auto simp: tag_rows_def mbu_rows_def)

lemma probe_tags:
  assumes "currents_refer db" "distinct (map tag_pk (td_tags td))"
  shows "set (pv_tags (get_probe_filtering_values (raw_info_for_event g pu db td sn))) =
    (\<lambda>t. PInt (int (tag_pk t))) ` set (mm_tags db td sn)"
proof -
  have pks: "set (sql_tag_pks db td sn) =
      set (machine_tag_pks td sn) \<union> set (mbu_tag_pks td (mm_meta_business_units db sn))"
    by (simp add: sql_tag_pks_def mbu_tag_pks_def mm_meta_business_units_def map_filter_set current_units_set [OF assms(1)])
  have "set (mm_tags db td sn) = {t \<in> set (td_tags td). tag_pk t \<in> set (sql_tag_pks db td sn)}"
    unfolding pks by (auto simp: mm_tags_def tags_with_types_def tags_by_pk_def map_filter_set find_pk [OF assms(2)]
        image_Un image_image)
  moreover have "set (pv_tags (get_probe_filtering_values (raw_info_for_event g pu db td sn))) =
      {agg_item agg ''id'' |src agg. (src, ''tags'', agg) \<in> set (tag_rows db td sn) \<and> truthy agg}"
    by (simp add: get_probe_filtering_values_def probe_values_fold(2) raw_rows)
  moreover have "\<dots> = {PInt (int (tag_pk t)) |t. t \<in> set (td_tags td) \<and> tag_pk t \<in> set (sql_tag_pks db td sn)}"
    unfolding named_rows by auto (metis named_value_id)
  ultimately show ?thesis by auto
qed

lemma probe_mbus:
  assumes "currents_refer db"
    and "\<And>bu pk. bu \<in> set (mm_business_units True db sn) \<Longrightarrow> row_mbu bu = Some pk \<Longrightarrow> pk \<in> mbu_pk ` set (meta_business_units db)"
  shows "set (pv_meta_business_units (get_probe_filtering_values (raw_info_for_event g pu db td sn))) =
    (\<lambda>pk. PInt (int pk)) ` set (mm_meta_business_units db sn)"
proof -
  have "set (pv_meta_business_units (get_probe_filtering_values (raw_info_for_event g pu db td sn))) =
      {agg_item agg ''id'' |src agg. (src, ''meta_business_units'', agg) \<in> set (mbu_rows db sn) \<and> truthy agg}"
    by (simp add: get_probe_filtering_values_def probe_values_fold(1) raw_rows)
  also have "\<dots> = {PInt (int (mbu_pk m)) |m. m \<in> set (meta_business_units db) \<and>
      Some (mbu_pk m) \<in> row_mbu ` set (mm_business_units True db sn)}"
    unfolding named_rows current_units_set [OF assms(1)] by auto (metis imageI named_value_id)
  also have "\<dots> = (\<lambda>pk. PInt (int pk)) ` {pk. Some pk \<in> row_mbu ` set (mm_business_units True db sn)}" (is "?A = ?B")
  proof
    show "?A \<subseteq> ?B" by blast
    show "?B \<subseteq> ?A"
    proof (rule image_subsetI)
      fix pk assume "pk \<in> {pk. Some pk \<in> row_mbu ` set (mm_business_units True db sn)}"
      then obtain bu where bu: "bu \<in> set (mm_business_units True db sn)" "Some pk = row_mbu bu" by (elim CollectE imageE)
      from assms(2) [OF bu(1) bu(2) [symmetric]] obtain m where "m \<in> set (meta_business_units db)" "pk = mbu_pk m" by (rule imageE)
      with bu show "PInt (int pk) \<in> ?A" by blast
    qed
  qed
  also have "{pk. Some pk \<in> row_mbu ` set (mm_business_units True db sn)} = set (mm_meta_business_units db sn)"
    by (auto simp: mm_meta_business_units_def map_filter_set image_iff eq_commute)
  finally show ?thesis .
qed

definition platform_texts :: "inventory_db \<Rightarrow> string \<Rightarrow> string list" where
  "platform_texts db serial_number = List.map_filter (\<lambda>ms. text_of ms ''platform'') (mm_snapshots db serial_number)"

lemma probe_platform:
  assumes "currents_refer db"
    and "pv_platform (get_probe_filtering_values (raw_info_for_event g pu db td sn)) = Some p"
  shows "\<exists>s \<in> set (platform_texts db sn). p = PStr s \<and> (\<forall>t \<in> set (platform_texts db sn). str_key s \<le> str_key t)"
proof -
  let ?ts = "distinct_texts ''platform'' (current_rows db sn)"
  have set: "set ?ts = set (platform_texts db sn)"
    by (simp add: distinct_texts_def platform_texts_def map_filter_set current_rows_snapshots [OF assms(1)])
  obtain src agg where "(src, ''platforms'', agg) = distinct_row ''platforms'' ''platform'' (current_rows db sn)"
    and mc: "most_common_item agg = Some p"
    using assms(2) probe_values_fold(3) unfolding get_probe_filtering_values_def
    by (metis (no_types, lifting) option.distinct(1) probe_values.select_convs(1) raw_rows(3))
  then obtain s ss where ts: "?ts = s # ss" and agg: "agg = PList (map PStr (s # ss))"
    by (cases ?ts) (auto simp: distinct_row_def most_common_item_def)
  have "distinct ?ts" "sorted (map str_key ?ts)" by (simp_all add: distinct_texts_def)
  then have d: "distinct (PStr s # map PStr ss)" and least: "\<forall>t \<in> set ?ts. str_key s \<le> str_key t"
    unfolding ts by (auto simp: distinct_map inj_on_def)
  have "p = PStr s"
    using mc most_common_distinct [OF d] by (simp add: agg most_common_item_def)
  with least set ts show ?thesis by auto
qed


text \<open>A machine with three sources, two of which report macOS.\<close>

definition sample_ms :: "nat \<Rightarrow> string \<Rightarrow> mt_row" where
  "sample_ms pk platform =
     \<lparr>row_pk = pk, row_hash = nat_str pk,
      row_values = [(''serial_number'', SValue (TStr ''S'')), (''platform'', SValue (TStr platform)),
        (''business_unit'', SKey (Some 1))], row_extra = []\<rparr>"

definition three_sources :: inventory_db where
  "three_sources =
     \<lparr>tables = (\<lambda>_. [])
        (''MachineSnapshot'' := [sample_ms 1 ''MACOS'', sample_ms 2 ''LINUX'', sample_ms 3 ''MACOS''],
         ''BusinessUnit'' := [\<lparr>row_pk = 1, row_hash = [], row_values = [(''name'', SValue (TStr ''B''))],
            row_extra = [(''meta_business_unit'', SKey (Some 7))]\<rparr>]),
      meta_business_units = [\<lparr>mbu_pk = 7, mbu_name = ''M''\<rparr>], machine_snapshot_commits = [],
      current_machine_snapshots = map (\<lambda>k. \<lparr>cms_serial_number = ''S'', cms_source = k, cms_machine_snapshot = k\<rparr>) [1, 2, 3]\<rparr>"

definition two_tags :: tag_db where
  "two_tags =
     \<lparr>td_taxonomies = [],
      td_tags = map (\<lambda>k. \<lparr>tag_pk = k, tag_taxonomy = None, tag_meta_business_unit = None, tag_name = nat_str k,
         tag_slug = nat_str k\<rparr>) [1, 2, 3],
      td_machine_tags = [(''S'', 2)], td_meta_business_unit_tags = [(7, 3)]\<rparr>"

abbreviation three_sources_values :: probe_values where
  "three_sources_values \<equiv> get_probe_filtering_values (raw_info_for_event True True three_sources two_tags ''S'')"


end
