(* ===== verification/TaxonomyTags.thy ===== *)
theory TaxonomyTags imports MetaMachines begin

text \<open>
  What \<open>MetaMachine.update_taxonomy_tags\<close> (\<open>zentral/contrib/inventory/models.py\<close>) leaves of the tags
  of a machine.
\<close>

text \<open>Primary keys and names are unique, and the tag of a machine exists.\<close>

definition tag_db_ok :: "tag_db \<Rightarrow> bool" where
  "tag_db_ok td \<longleftrightarrow>
     distinct (map tag_pk (td_tags td)) \<and> distinct (map tag_name (td_tags td)) \<and>
     (\<forall>mt \<in> set (td_machine_tags td). snd mt \<in> set (map tag_pk (td_tags td)))"

definition has_taxonomy_tag :: "string \<Rightarrow> nat \<Rightarrow> tag_db \<Rightarrow> string \<Rightarrow> bool" where
  "has_taxonomy_tag sn tx td n \<longleftrightarrow>
     (\<exists>t \<in> set (td_tags td). tag_taxonomy t = Some tx \<and> tag_name t = n \<and> (sn, tag_pk t) \<in> set (td_machine_tags td))"

lemma taxonomy_names_iff: "n \<in> set (taxonomy_names sn tx td) \<longleftrightarrow> has_taxonomy_tag sn tx td n"
  by (auto simp: taxonomy_names_def has_taxonomy_tag_def)

text \<open>A name for which no tag can be made: it is the name or has the slug of another one.\<close>

definition blocked :: "(string \<Rightarrow> string) \<Rightarrow> nat \<Rightarrow> tag_db \<Rightarrow> string \<Rightarrow> bool" where
  "blocked slugify tx td n \<longleftrightarrow> get_or_create_tag slugify tx n td = Inl IntegrityError"

lemma blocked_iff:
  "blocked slugify tx td n \<longleftrightarrow>
     (\<forall>t \<in> set (td_tags td). \<not> (tag_taxonomy t = Some tx \<and> tag_name t = n)) \<and>
     (\<exists>t \<in> set (td_tags td). tag_name t = n \<or> tag_slug t = slugify n)"
  by (auto simp: blocked_def get_or_create_tag_def find_None_iff find_Some_iff list_ex_iff Let_def
      split: option.splits)

lemma get_or_create_tag_cases:
  "blocked slugify tx td n \<or>
   (\<exists>t td'. get_or_create_tag slugify tx n td = Inr (t, td') \<and> tag_taxonomy t = Some tx \<and> tag_name t = n \<and>
      td_machine_tags td' = td_machine_tags td \<and>
      (t \<in> set (td_tags td) \<and> td' = td \<or>
       td_tags td' = td_tags td @ [t] \<and> tag_pk t \<notin> set (map tag_pk (td_tags td)) \<and>
       n \<notin> set (map tag_name (td_tags td))))"
proof (cases "find (\<lambda>t. tag_taxonomy t = Some tx \<and> tag_name t = n) (td_tags td)")
  case None
  then show ?thesis
    using fresh_pk_new [of "map tag_pk (td_tags td)"]
    by (auto simp: blocked_def get_or_create_tag_def Let_def list_ex_iff)
next
  case (Some t)
  then have "t \<in> set (td_tags td) \<and> tag_taxonomy t = Some tx \<and> tag_name t = n" by (auto simp: find_Some_iff)
  moreover have "get_or_create_tag slugify tx n td = Inr (t, td)" by (simp add: get_or_create_tag_def Some)
  ultimately show ?thesis by blast
qed

text \<open>One name.\<close>

lemma add_taxonomy_tag_step:
  assumes "tag_db_ok td" and td'_def: "td' = add_taxonomy_tag slugify sn tx n td"
  shows "tag_db_ok td'"
    and "\<exists>new. td_tags td' = td_tags td @ new \<and> (\<forall>t \<in> set new. tag_taxonomy t = Some tx \<and> tag_name t = n)"
    and "blocked slugify tx td n \<and> td' = td \<or>
      (\<exists>t \<in> set (td_tags td'). tag_taxonomy t = Some tx \<and> tag_name t = n \<and>
         set (td_machine_tags td') = insert (sn, tag_pk t) (set (td_machine_tags td)))"
proof -
  have "tag_db_ok td' \<and>
    (\<exists>new. td_tags td' = td_tags td @ new \<and> (\<forall>t \<in> set new. tag_taxonomy t = Some tx \<and> tag_name t = n)) \<and>
    (blocked slugify tx td n \<and> td' = td \<or>
      (\<exists>t \<in> set (td_tags td'). tag_taxonomy t = Some tx \<and> tag_name t = n \<and>
         set (td_machine_tags td') = insert (sn, tag_pk t) (set (td_machine_tags td))))"
    using get_or_create_tag_cases [of slugify tx td n]
  proof (elim disjE exE conjE)
    assume "blocked slugify tx td n"
    then show ?thesis using assms(1) by (simp add: td'_def add_taxonomy_tag_def blocked_def)
  next
    fix t td1
    assume g: "get_or_create_tag slugify tx n td = Inr (t, td1)" "tag_taxonomy t = Some tx" "tag_name t = n"
      "t \<in> set (td_tags td)" "td1 = td"
    have td': "td' = add_machine_tag sn (tag_pk t) td" by (simp add: td'_def add_taxonomy_tag_def g(1) g(5))
    have tags: "td_tags td' = td_tags td" "set (td_machine_tags td') = insert (sn, tag_pk t) (set (td_machine_tags td))"
      by (auto simp: td' add_machine_tag_def)
    have "tag_db_ok td'" using assms(1) g(4) unfolding tag_db_ok_def tags by auto
    then show ?thesis using g(2-4) tags by (intro conjI disjI2) auto
  next
    fix t td1
    assume g: "get_or_create_tag slugify tx n td = Inr (t, td1)" "tag_taxonomy t = Some tx" "tag_name t = n"
      "td_tags td1 = td_tags td @ [t]" "tag_pk t \<notin> set (map tag_pk (td_tags td))" "n \<notin> set (map tag_name (td_tags td))"
      "td_machine_tags td1 = td_machine_tags td"
    have td': "td' = add_machine_tag sn (tag_pk t) td1" by (simp add: td'_def add_taxonomy_tag_def g(1))
    have tags: "td_tags td' = td_tags td @ [t]" "set (td_machine_tags td') = insert (sn, tag_pk t) (set (td_machine_tags td))"
      by (auto simp: td' add_machine_tag_def g(4,7))
    have "tag_db_ok td'" using assms(1) g(3,5,6) unfolding tag_db_ok_def tags by auto
    then show ?thesis using g(2,3) tags by (intro conjI disjI2) auto
  qed
  then show "tag_db_ok td'"
    and "\<exists>new. td_tags td' = td_tags td @ new \<and> (\<forall>t \<in> set new. tag_taxonomy t = Some tx \<and> tag_name t = n)"
    and "blocked slugify tx td n \<and> td' = td \<or>
      (\<exists>t \<in> set (td_tags td'). tag_taxonomy t = Some tx \<and> tag_name t = n \<and>
         set (td_machine_tags td') = insert (sn, tag_pk t) (set (td_machine_tags td)))"
    by blast+
qed

text \<open>Every name of a list: the ones that could not be added are blocked at the end.\<close>

lemma add_taxonomy_tags:
  assumes "tag_db_ok td" "distinct ns"
  shows "tag_db_ok (fold (add_taxonomy_tag slugify sn tx) ns td) \<and>
    (\<exists>new. td_tags (fold (add_taxonomy_tag slugify sn tx) ns td) = td_tags td @ new \<and>
       (\<forall>t \<in> set new. tag_taxonomy t = Some tx \<and> tag_name t \<in> set ns)) \<and>
    (\<forall>n. has_taxonomy_tag sn tx td n \<longrightarrow> has_taxonomy_tag sn tx (fold (add_taxonomy_tag slugify sn tx) ns td) n) \<and>
    (\<forall>n \<in> set ns. has_taxonomy_tag sn tx (fold (add_taxonomy_tag slugify sn tx) ns td) n \<or>
       blocked slugify tx (fold (add_taxonomy_tag slugify sn tx) ns td) n) \<and>
    (\<forall>mt. mt \<in> set (td_machine_tags (fold (add_taxonomy_tag slugify sn tx) ns td)) \<longleftrightarrow>
       mt \<in> set (td_machine_tags td) \<or>
       (fst mt = sn \<and> mt \<in> set (td_machine_tags (fold (add_taxonomy_tag slugify sn tx) ns td)) \<and>
        (\<exists>t \<in> set (td_tags (fold (add_taxonomy_tag slugify sn tx) ns td)).
           tag_taxonomy t = Some tx \<and> tag_name t \<in> set ns \<and> tag_pk t = snd mt)))"
  using assms
proof (induction ns arbitrary: td)
  case (Cons n ns)
  let ?td1 = "add_taxonomy_tag slugify sn tx n td"
  let ?td2 = "fold (add_taxonomy_tag slugify sn tx) ns ?td1"
  note s = add_taxonomy_tag_step [OF Cons.prems(1) refl, where slugify = slugify and sn = sn and tx = tx and n = n]
  from Cons.IH [OF s(1)] Cons.prems(2)
  have IH: "tag_db_ok ?td2" "\<forall>n. has_taxonomy_tag sn tx ?td1 n \<longrightarrow> has_taxonomy_tag sn tx ?td2 n"
    "\<forall>n \<in> set ns. has_taxonomy_tag sn tx ?td2 n \<or> blocked slugify tx ?td2 n"
    "\<forall>mt. mt \<in> set (td_machine_tags ?td2) \<longleftrightarrow> mt \<in> set (td_machine_tags ?td1) \<or>
       (fst mt = sn \<and> mt \<in> set (td_machine_tags ?td2) \<and>
        (\<exists>t \<in> set (td_tags ?td2). tag_taxonomy t = Some tx \<and> tag_name t \<in> set ns \<and> tag_pk t = snd mt))"
    and IHnew: "\<exists>new. td_tags ?td2 = td_tags ?td1 @ new \<and>
       (\<forall>t \<in> set new. tag_taxonomy t = Some tx \<and> tag_name t \<in> set ns)"
    by (simp_all del: fold_simps)
  obtain new1 where new1: "td_tags ?td1 = td_tags td @ new1" "\<forall>t \<in> set new1. tag_taxonomy t = Some tx \<and> tag_name t = n"
    using s(2) by blast
  obtain new2 where new2: "td_tags ?td2 = td_tags ?td1 @ new2"
    "\<forall>t \<in> set new2. tag_taxonomy t = Some tx \<and> tag_name t \<in> set ns" using IHnew by blast
  have sub: "set (td_tags ?td1) \<subseteq> set (td_tags ?td2)" using new2(1) by simp
  have up: "has_taxonomy_tag sn tx ?td2 m" if "has_taxonomy_tag sn tx td m" for m
  proof -
    have "set (td_machine_tags td) \<subseteq> set (td_machine_tags ?td1)" "set (td_tags td) \<subseteq> set (td_tags ?td1)"
      using s(3) new1(1) by auto
    with that have "has_taxonomy_tag sn tx ?td1 m" unfolding has_taxonomy_tag_def by blast
    then show ?thesis using IH(2) by blast
  qed
  have n: "has_taxonomy_tag sn tx ?td2 n \<or> blocked slugify tx ?td2 n"
    using s(3)
  proof (elim disjE conjE bexE)
    assume b: "blocked slugify tx td n" "?td1 = td"
    have "\<forall>t \<in> set new2. tag_name t \<noteq> n" using new2(2) Cons.prems(2) by auto
    with b have "blocked slugify tx ?td2 n" unfolding blocked_iff new2(1) by auto
    then show ?thesis ..
  next
    fix t assume "t \<in> set (td_tags ?td1)" "tag_taxonomy t = Some tx" "tag_name t = n"
      "set (td_machine_tags ?td1) = insert (sn, tag_pk t) (set (td_machine_tags td))"
    then have "has_taxonomy_tag sn tx ?td1 n" unfolding has_taxonomy_tag_def by blast
    then show ?thesis using IH(2) by blast
  qed
  have mt: "mt \<in> set (td_machine_tags ?td1) \<longleftrightarrow> mt \<in> set (td_machine_tags td) \<or>
      (fst mt = sn \<and> mt \<in> set (td_machine_tags ?td1) \<and>
       (\<exists>t \<in> set (td_tags ?td2). tag_taxonomy t = Some tx \<and> tag_name t = n \<and> tag_pk t = snd mt))" for mt
    using s(3) sub by auto
  show ?case
    unfolding fold_simps(2)
  proof (intro conjI)
    show "\<exists>new. td_tags ?td2 = td_tags td @ new \<and>
        (\<forall>t \<in> set new. tag_taxonomy t = Some tx \<and> tag_name t \<in> set (n # ns))"
      using new1 new2 by (intro exI [of _ "new1 @ new2"]) auto
    show "\<forall>n' \<in> set (n # ns). has_taxonomy_tag sn tx ?td2 n' \<or> blocked slugify tx ?td2 n'"
      using n IH(3) by simp
    show "\<forall>mt. mt \<in> set (td_machine_tags ?td2) \<longleftrightarrow> mt \<in> set (td_machine_tags td) \<or>
       (fst mt = sn \<and> mt \<in> set (td_machine_tags ?td2) \<and>
        (\<exists>t \<in> set (td_tags ?td2). tag_taxonomy t = Some tx \<and> tag_name t \<in> set (n # ns) \<and> tag_pk t = snd mt))"
      using mt IH(4) by (metis list.set_intros(1,2))
  qed (use IH(1) up in blast)+
qed simp

text \<open>The deletion, which leaves the tags that are wanted.\<close>

lemma delete_taxonomy_tags_ok:
  assumes "tag_db_ok td"
  shows "tag_db_ok (delete_taxonomy_tags sn tx ns td)"
    and "has_taxonomy_tag sn tx (delete_taxonomy_tags sn tx ns td) n \<longleftrightarrow> has_taxonomy_tag sn tx td n \<and> n \<notin> set ns"
proof -
  show "tag_db_ok (delete_taxonomy_tags sn tx ns td)"
    using assms by (auto simp: tag_db_ok_def delete_taxonomy_tags_def delete_where_def)
  have same: "t = u" if "t \<in> set (td_tags td)" "u \<in> set (td_tags td)" "tag_pk t = tag_pk u" for t u
    using assms that by (intro distinct_map_eqD [of tag_pk]) (simp_all add: tag_db_ok_def)
  show "has_taxonomy_tag sn tx (delete_taxonomy_tags sn tx ns td) n \<longleftrightarrow> has_taxonomy_tag sn tx td n \<and> n \<notin> set ns"
    using same by (auto simp: has_taxonomy_tag_def delete_taxonomy_tags_def set_delete_where list_ex_iff)
qed


definition sample_tags :: tag_db where
  "sample_tags =
     \<lparr>td_taxonomies = [],
      td_tags = map (\<lambda>(k, tx, n). \<lparr>tag_pk = k, tag_taxonomy = tx, tag_meta_business_unit = None, tag_name = n,
         tag_slug = n\<rparr>) [(1, Some 1, ''a''), (2, None, ''b''), (3, Some 2, ''c'')],
      td_machine_tags = [(''S'', 1), (''S'', 3), (''T'', 1)], td_meta_business_unit_tags = []\<rparr>"


end
