(* ===== verification/MunkiNames.thy ===== *)
theory MunkiNames imports Prelude begin

text \<open>
  The names that munki uses for what Monolith serves, which carry the model and the primary keys of
  an object: \<open>build_munki_name\<close> and \<open>parse_munki_name\<close> of \<open>zentral/contrib/monolith/models.py\<close>. The
  transliteration to ASCII is a parameter.
\<close>

subsection \<open>Texts\<close>

definition is_word_char :: "char \<Rightarrow> bool" where
  "is_word_char c \<longleftrightarrow>
     (let n = of_char c :: nat in
      is_digit c \<or> c = CHR ''_'' \<or> (65 \<le> n \<and> n \<le> 90) \<or> (97 \<le> n \<and> n \<le> 122))"

definition is_separator :: "char \<Rightarrow> bool" where
  "is_separator c \<longleftrightarrow> is_space c \<or> c \<in> set ''._-''"

text \<open>\<open>re.sub(sep+, r, s)\<close> for a class of characters, with whether the last one was of the class.\<close>

fun sub_runs :: "(char \<Rightarrow> bool) \<Rightarrow> char \<Rightarrow> bool \<Rightarrow> string \<Rightarrow> string" where
  "sub_runs p r in_run [] = []"
| "sub_runs p r in_run (c # s) =
     (if p c then (if in_run then sub_runs p r True s else r # sub_runs p r True s)
      else c # sub_runs p r False s)"

definition strip_char :: "char \<Rightarrow> string \<Rightarrow> string" where
  "strip_char c s = rev (dropWhile (\<lambda>x. x = c) (rev (dropWhile (\<lambda>x. x = c) s)))"

text \<open>\<open>s.split(c, n)\<close>: at most \<open>n\<close> splits.\<close>

fun split_max :: "char \<Rightarrow> nat \<Rightarrow> string \<Rightarrow> string list" where
  "split_max c 0 s = [s]"
| "split_max c (Suc n) s =
     (let w = takeWhile (\<lambda>x. x \<noteq> c) s in
      if w = s then [s] else w # split_max c n (drop (length w + 1) s))"

definition replace_char :: "char \<Rightarrow> char \<Rightarrow> string \<Rightarrow> string" where
  "replace_char a b s = map (\<lambda>c. if c = a then b else c) s"

subsection \<open>Names\<close>

datatype munki_key = MunkiKey int | MunkiKeys "int list"

fun key_text :: "munki_key \<Rightarrow> string" where
  "key_text (MunkiKey k) = int_str k"
| "key_text (MunkiKeys ks) = join_with ''-'' (map int_str ks)"

definition meaningful_name :: "(string \<Rightarrow> string) \<Rightarrow> string \<Rightarrow> string" where
  "meaningful_name to_ascii name =
     (let kept = strip (filter (\<lambda>c. is_word_char c \<or> is_separator c) (to_ascii name))
      in strip_char (CHR ''-'') (sub_runs is_separator (CHR ''-'') False kept))"

definition build_munki_name :: "(string \<Rightarrow> string) \<Rightarrow> string \<Rightarrow> munki_key \<Rightarrow> string \<Rightarrow> string option \<Rightarrow> string" where
  "build_munki_name to_ascii model key name ext =
     (let n = meaningful_name to_ascii name in
      join_with ''.''
        ([replace_char (CHR ''_'') (CHR ''-'') model, key_text key, if n = [] then ''-'' else n] @
         (case ext of
            None \<Rightarrow> []
          | Some e \<Rightarrow> if e = [] then [] else [filter (\<lambda>c. c \<noteq> CHR ''.'') e])))"

definition parse_key :: "string \<Rightarrow> munki_key option" where
  "parse_key key =
     (if CHR ''-'' \<in> set key
      then map_option MunkiKeys (those (map parse_int (split_on CHR ''-'' key)))
      else map_option MunkiKey (parse_int key))"

text \<open>\<open>None\<close> is \<open>MunkiNameError\<close>.\<close>

definition parse_munki_name :: "string \<Rightarrow> (string \<times> munki_key) option" where
  "parse_munki_name name =
     (case split_max CHR ''.'' 2 name of
        [model, key, _] \<Rightarrow> map_option (Pair (replace_char (CHR ''-'') (CHR ''_'') model)) (parse_key key)
      | _ \<Rightarrow> None)"

subsection \<open>The round trip\<close>

lemma replace_back:
  assumes "CHR ''-'' \<notin> set s"
  shows "replace_char (CHR ''-'') (CHR ''_'') (replace_char (CHR ''_'') (CHR ''-'') s) = s"
  using assms by (induction s) (auto simp: replace_char_def)

lemma replace_char_dot: "CHR ''.'' \<notin> set s \<Longrightarrow> CHR ''.'' \<notin> set (replace_char (CHR ''_'') (CHR ''-'') s)"
  by (auto simp: replace_char_def)

lemma split_max_cut:
  assumes "c \<notin> set w"
  shows "split_max c (Suc n) (w @ c # s) = w # split_max c n s"
proof -
  have "takeWhile (\<lambda>x. x \<noteq> c) (w @ c # s) = w" using assms by (induction w) auto
  then show ?thesis by (simp add: Let_def)
qed

definition natural_key :: "munki_key \<Rightarrow> bool" where
  "natural_key key \<longleftrightarrow> (case key of MunkiKey k \<Rightarrow> 0 \<le> k | MunkiKeys ks \<Rightarrow> 2 \<le> length ks \<and> list_all (\<lambda>k. 0 \<le> k) ks)"

lemma int_str_natural: "0 \<le> k \<Longrightarrow> int_str k = nat_str (nat k)"
  by (simp add: int_str_def)

lemma int_str_no_char: "0 \<le> k \<Longrightarrow> \<not> is_digit c \<Longrightarrow> c \<notin> set (int_str k)"
  by (simp add: int_str_natural nat_str_no_char)

lemma not_digits: "\<not> is_digit (CHR ''-'')" "\<not> is_digit (CHR ''.'')"
  by (simp_all add: is_digit_def)

lemma parse_int_str: "0 \<le> k \<Longrightarrow> parse_int (int_str k) = Some k"
  by (simp add: int_str_natural)

lemma join_dash_char: "c \<noteq> CHR ''-'' \<Longrightarrow> \<forall>w \<in> set ws. c \<notin> set w \<Longrightarrow> c \<notin> set (join_with ''-'' ws)"
  by (induction "''-''" ws rule: join_with.induct) auto

lemma join_dash_has: "2 \<le> length ws \<Longrightarrow> CHR ''-'' \<in> set (join_with ''-'' ws)"
  by (cases ws; cases "tl ws") auto

lemma those_map_parse: "list_all (\<lambda>k. 0 \<le> k) ks \<Longrightarrow> those (map parse_int (map int_str ks)) = Some ks"
  by (induction ks) (simp_all add: parse_int_str)

lemma key_text_dot: "natural_key key \<Longrightarrow> CHR ''.'' \<notin> set (key_text key)"
proof (cases key)
  case (MunkiKeys ks)
  assume "natural_key key"
  with MunkiKeys have "\<forall>w \<in> set (map int_str ks). CHR ''.'' \<notin> set w"
    by (auto simp: natural_key_def list_all_iff int_str_no_char not_digits)
  with MunkiKeys show ?thesis by (simp add: join_dash_char)
qed (simp add: natural_key_def int_str_no_char not_digits)

lemma parse_key_text: "natural_key key \<Longrightarrow> parse_key (key_text key) = Some key"
proof (cases key)
  case (MunkiKey k)
  assume "natural_key key"
  with MunkiKey have "0 \<le> k" by (simp add: natural_key_def)
  then have "CHR ''-'' \<notin> set (int_str k)" by (simp add: int_str_no_char not_digits)
  with MunkiKey \<open>0 \<le> k\<close> show ?thesis by (simp add: parse_key_def parse_int_str)
next
  case (MunkiKeys ks)
  assume "natural_key key"
  with MunkiKeys have ks: "2 \<le> length ks" "list_all (\<lambda>k. 0 \<le> k) ks" by (simp_all add: natural_key_def)
  have "\<forall>w \<in> set (map int_str ks). CHR ''-'' \<notin> set w"
    using ks(2) by (auto simp: list_all_iff int_str_no_char not_digits)
  then have "split_on CHR ''-'' (join_with ''-'' (map int_str ks)) = map int_str ks"
    using ks(1) by (intro split_on_join) auto
  moreover have "CHR ''-'' \<in> set (join_with ''-'' (map int_str ks))" using ks(1) by (intro join_dash_has) simp
  ultimately show ?thesis using MunkiKeys ks(2) by (simp add: parse_key_def those_map_parse del: map_map)
qed

text \<open>
  C27: A munki name leads back to its object. Whatever the display name, the transliteration and the
  extension of the file, \<open>parse_munki_name\<close> reads from the name that \<open>build_munki_name\<close> makes the
  model and the primary keys it was made from, if the name of the model has neither a dash nor a
  dot and the key is a primary key or a list of at least two of them.
\<close>

theorem munki_name_roundtrip:
  assumes "natural_key key" and "CHR ''-'' \<notin> set model" and "CHR ''.'' \<notin> set model"
  shows "parse_munki_name (build_munki_name to_ascii model key name ext) = Some (model, key)"
proof -
  define n where "n = (let n = meaningful_name to_ascii name in if n = [] then ''-'' else n)"
  define rest where "rest = (case ext of None \<Rightarrow> n | Some e \<Rightarrow> if e = [] then n else n @ ''.'' @ filter (\<lambda>c. c \<noteq> CHR ''.'') e)"
  have "build_munki_name to_ascii model key name ext =
     replace_char (CHR ''_'') (CHR ''-'') model @ CHR ''.'' # key_text key @ CHR ''.'' # rest"
    by (simp add: build_munki_name_def n_def rest_def Let_def split: option.splits)
  moreover have "split_max CHR ''.'' 2 (replace_char (CHR ''_'') (CHR ''-'') model @ CHR ''.'' # key_text key @ CHR ''.'' # rest)
     = [replace_char (CHR ''_'') (CHR ''-'') model, key_text key, rest]"
    using split_max_cut [OF replace_char_dot [OF assms(3)], of 1] split_max_cut [OF key_text_dot [OF assms(1)], of 0 rest]
    by (simp add: numeral_2_eq_2 del: split_max.simps(2))
  ultimately show ?thesis
    by (simp add: parse_munki_name_def parse_key_text assms(1) replace_back [OF assms(2)])
qed

theorem munki_name_roundtrip_witness:
  "parse_munki_name (build_munki_name (\<lambda>s. s) ''sub_manifest_attachment'' (MunkiKeys [3, 14]) ''Caf . e_1'' (Some ''.pkg'')) =
     Some (''sub_manifest_attachment'', MunkiKeys [3, 14]) \<and>
   build_munki_name (\<lambda>s. s) ''sub_manifest_attachment'' (MunkiKeys [3, 14]) ''Caf . e_1'' (Some ''.pkg'') =
     ''sub-manifest-attachment.3-14.Caf-e-1.pkg''"
proof
  show "parse_munki_name (build_munki_name (\<lambda>s. s) ''sub_manifest_attachment'' (MunkiKeys [3, 14]) ''Caf . e_1'' (Some ''.pkg'')) =
     Some (''sub_manifest_attachment'', MunkiKeys [3, 14])"
    by (rule munki_name_roundtrip) (simp_all add: natural_key_def)
  show "build_munki_name (\<lambda>s. s) ''sub_manifest_attachment'' (MunkiKeys [3, 14]) ''Caf . e_1'' (Some ''.pkg'') =
     ''sub-manifest-attachment.3-14.Caf-e-1.pkg''"
    by code_simp
qed

end
