(* ===== verification/MonolithModels.thy ===== *)
theory MonolithModels imports MunkiNames Requests "HOL-Library.Product_Lexorder" begin

text \<open>
  \<open>zentral/contrib/monolith/models.py\<close>: the packages, catalogs, sub manifests and manifests of munki,
  and what is made of them for a machine with its tags: its manifest, its sub manifests, its catalog,
  and the packages it can download. A served property list is the value it encodes.
\<close>

subsection \<open>Tables\<close>

record catalog =
  ca_pk :: nat
  ca_name :: string
  ca_priority :: nat
  ca_archived_at :: "int option"

text \<open>The names of the packages, and their categories.\<close>

record pkg_name =
  pn_pk :: nat
  pn_name :: string

record pkg_info =
  pi_pk :: nat
  pi_name :: nat
  pi_version :: string
  pi_catalogs :: "nat list"
  pi_category :: "nat option"
  pi_requires :: "nat list"
  pi_update_for :: "nat list"
  pi_data :: dict
  pi_archived_at :: "int option"

record sub_manifest =
  sm_pk :: nat
  sm_meta_business_unit :: "nat option"
  sm_name :: string

text \<open>A condition is given with the rows it applies to: its predicate.\<close>

record sub_manifest_pkg_info =
  smp_pk :: nat
  smp_sub_manifest :: nat
  smp_key :: string
  smp_pkg_info_name :: nat
  smp_featured_item :: bool
  smp_condition :: "string option"

datatype attachment_type = ConfigurationProfile | PackageAttachment | ScriptAttachment

fun attachment_type_str :: "attachment_type \<Rightarrow> string" where
  "attachment_type_str ConfigurationProfile = ''configuration_profile''"
| "attachment_type_str PackageAttachment = ''package''"
| "attachment_type_str ScriptAttachment = ''script''"

fun attachment_type_display :: "attachment_type \<Rightarrow> string" where
  "attachment_type_display ConfigurationProfile = ''configuration profile''"
| "attachment_type_display PackageAttachment = ''package''"
| "attachment_type_display ScriptAttachment = ''script''"

fun attachment_extension :: "attachment_type \<Rightarrow> string option" where
  "attachment_extension ConfigurationProfile = Some ''.mobileconfig''"
| "attachment_extension PackageAttachment = Some ''.pkg''"
| "attachment_extension ScriptAttachment = None"

record sub_manifest_attachment =
  sma_pk :: nat
  sma_sub_manifest :: nat
  sma_key :: string
  sma_type :: attachment_type
  sma_name :: string
  sma_featured_item :: bool
  sma_condition :: "string option"
  sma_version :: nat
  sma_file :: string
  sma_pkg_info :: dict
  sma_trashed_at :: "int option"

record manifest =
  man_pk :: nat
  man_meta_business_unit :: nat
  man_name :: string
  man_version :: nat

record manifest_catalog =
  mc_pk :: nat
  mc_manifest :: nat
  mc_catalog :: nat
  mc_tags :: "nat list"

record manifest_sub_manifest =
  msm_pk :: nat
  msm_manifest :: nat
  msm_sub_manifest :: nat
  msm_tags :: "nat list"

record enrollment_package =
  mep_pk :: nat
  mep_manifest :: nat
  mep_tags :: "nat list"
  mep_builder :: string
  mep_file :: string
  mep_pkg_info :: dict
  mep_version :: nat

record cache_server =
  cs_pk :: nat
  cs_name :: string
  cs_manifest :: nat
  cs_public_ip_address :: string
  cs_base_url :: string
  cs_updated_at :: int

record printer =
  prn_pk :: nat
  prn_manifest :: nat
  prn_tags :: "nat list"
  prn_name :: string
  prn_required_package :: "nat option"
  prn_pkg_info :: pyval
  prn_trashed_at :: "int option"

record monolith_tables =
  mo_catalogs :: "catalog list"
  mo_categories :: "pkg_name list"
  mo_pkg_info_names :: "pkg_name list"
  mo_pkg_infos :: "pkg_info list"
  mo_sub_manifests :: "sub_manifest list"
  mo_sub_manifest_pkg_infos :: "sub_manifest_pkg_info list"
  mo_attachments :: "sub_manifest_attachment list"
  mo_manifests :: "manifest list"
  mo_manifest_catalogs :: "manifest_catalog list"
  mo_manifest_sub_manifests :: "manifest_sub_manifest list"
  mo_enrollment_packages :: "enrollment_package list"
  mo_cache_servers :: "cache_server list"
  mo_printers :: "printer list"

text \<open>
  The configuration of the application: the packages installed by default, and the builders of the
  enrollment packages, each with the name of its class and what it requires.
\<close>

record enrollment_package_builder =
  epb_name :: string
  epb_requires :: "string list"

record monolith_conf =
  mcf_default_managed_installs :: "string list"
  mcf_builders :: "(string \<times> enrollment_package_builder) list"
  mcf_to_ascii :: "string \<Rightarrow> string"

text \<open>\<open>builder_cfg["requires"]\<close> of \<open>conf.py\<close>: nothing, a text or a list.\<close>

definition builder_requires :: "pyval option \<Rightarrow> pyerror + pyval list" where
  "builder_requires v =
     (case v of
        None \<Rightarrow> Inr []
      | Some w \<Rightarrow> if \<not> truthy w then Inr [] else case w of PStr s \<Rightarrow> Inr [PStr s] | PList vs \<Rightarrow> Inr vs | _ \<Rightarrow> Inl ValueError)"

text \<open>The name of a package: the foreign key always finds it.\<close>

definition pkg_name_of :: "monolith_tables \<Rightarrow> nat \<Rightarrow> string" where
  "pkg_name_of db pk = (case get_one (\<lambda>n. pn_pk n = pk) (mo_pkg_info_names db) of Inr n \<Rightarrow> pn_name n | Inl _ \<Rightarrow> [])"

definition pkg_info_key :: "monolith_tables \<Rightarrow> pkg_info \<Rightarrow> string \<times> string" where
  "pkg_info_key db p = (pkg_name_of db (pi_name p), pi_version p)"

definition active_pkg_infos :: "nat \<Rightarrow> monolith_tables \<Rightarrow> pkg_info list" where
  "active_pkg_infos name_pk db = filter (\<lambda>p. pi_name p = name_pk \<and> pi_archived_at p = None) (mo_pkg_infos db)"

definition active_catalogs :: "pkg_info \<Rightarrow> monolith_tables \<Rightarrow> catalog list" where
  "active_catalogs p db = filter (\<lambda>c. ca_pk c \<in> set (pi_catalogs p) \<and> ca_archived_at c = None) (mo_catalogs db)"

definition catalog_can_be_deleted :: "bool \<Rightarrow> catalog \<Rightarrow> monolith_tables \<Rightarrow> bool" where
  "catalog_can_be_deleted manual c db \<longleftrightarrow>
     manual \<and> \<not> list_ex (\<lambda>p. ca_pk c \<in> set (pi_catalogs p) \<and> pi_archived_at p = None) (mo_pkg_infos db) \<and>
     \<not> list_ex (\<lambda>mc. mc_catalog mc = ca_pk c) (mo_manifest_catalogs db)"

definition sub_manifest_can_be_deleted :: "sub_manifest \<Rightarrow> monolith_tables \<Rightarrow> bool" where
  "sub_manifest_can_be_deleted s db \<longleftrightarrow> \<not> list_ex (\<lambda>m. msm_sub_manifest m = sm_pk s) (mo_manifest_sub_manifests db)"

definition catalog_munki_name :: "monolith_conf \<Rightarrow> catalog \<Rightarrow> string" where
  "catalog_munki_name cf c = build_munki_name (mcf_to_ascii cf) ''catalog'' (MunkiKey (int (ca_pk c))) (ca_name c) None"

subsection \<open>Package infos\<close>

text \<open>\<open>os.path.splitext\<close> and \<open>os.path.basename\<close>.\<close>

definition basename :: "string \<Rightarrow> string" where
  "basename path = rev (takeWhile (\<lambda>c. c \<noteq> CHR ''/'') (rev path))"

definition splitext :: "string \<Rightarrow> string \<times> string" where
  "splitext path =
     (let file = basename path; dots = takeWhile (\<lambda>c. c = CHR ''.'') file; body = drop (length dots) file;
          ext = rev (takeWhile (\<lambda>c. c \<noteq> CHR ''.'') (rev body))
      in if CHR ''.'' \<in> set body
         then (take (length path - length ext - 1) path, CHR ''.'' # ext) else (path, []))"

definition item_location :: "monolith_conf \<Rightarrow> nat \<Rightarrow> string \<Rightarrow> dict \<Rightarrow> dict" where
  "item_location cf pk attr d =
     (case dict_get d attr of
        Some (PStr loc) \<Rightarrow>
          (if loc = [] then dict_del attr d
           else
             (let (root, ext) = splitext loc in
              dict_set attr (PStr (build_munki_name (mcf_to_ascii cf) ''repository_package'' (MunkiKey (int pk)) (basename root) (Some ext)))
                (dict_del attr d)))
      | _ \<Rightarrow> dict_del attr d)"

definition get_pkg_info :: "monolith_conf \<Rightarrow> pkg_info \<Rightarrow> dict" where
  "get_pkg_info cf p =
     item_location cf (pi_pk p) ''uninstaller_item_loc''
       (item_location cf (pi_pk p) ''installer_item_location'' (dict_del ''catalogs'' (pi_data p)))"

subsection \<open>Attachments\<close>

definition attachment_name :: "sub_manifest_attachment \<Rightarrow> string" where
  "attachment_name a =
     ''sub manifest '' @ nat_str (sma_sub_manifest a) @ '' '' @ attachment_type_display (sma_type a) @ '' '' @
     sub_runs (\<lambda>c. c = CHR ''-'') (CHR ''_'') False (sma_name a)"

definition can_be_downloaded :: "sub_manifest_attachment \<Rightarrow> bool" where
  "can_be_downloaded a \<longleftrightarrow> sma_type a \<in> {PackageAttachment, ConfigurationProfile}"

definition get_download_name :: "monolith_conf \<Rightarrow> sub_manifest_attachment \<Rightarrow> string" where
  "get_download_name cf a =
     build_munki_name (mcf_to_ascii cf) ''sub_manifest_attachment'' (MunkiKeys [int (sma_sub_manifest a), int (sma_pk a)])
       (sma_name a) (attachment_extension (sma_type a))"

definition attachment_pkg_info :: "monolith_conf \<Rightarrow> sub_manifest_attachment \<Rightarrow> dict" where
  "attachment_pkg_info cf a =
     (let d = dict_set ''name'' (PStr (attachment_name a)) (sma_pkg_info a) in
      if can_be_downloaded a then dict_set ''installer_item_location'' (PStr (get_download_name cf a)) d else d)"

text \<open>
  \<open>order_by('name', '-version').distinct('name')\<close> of a selection: for each name the row of the highest
  version, and the first in the table of those.
\<close>

fun first_by_name :: "sub_manifest_attachment list \<Rightarrow> sub_manifest_attachment list" where
  "first_by_name [] = []"
| "first_by_name (a # r) = a # filter (\<lambda>b. sma_name b \<noteq> sma_name a) (first_by_name r)"

definition newest :: "sub_manifest_attachment list \<Rightarrow> sub_manifest_attachment list" where
  "newest rows = first_by_name (sort_key (\<lambda>a. (str_key (sma_name a), - int (sma_version a))) rows)"

definition active_attachments :: "nat \<Rightarrow> monolith_tables \<Rightarrow> sub_manifest_attachment list" where
  "active_attachments sm db = newest (filter (\<lambda>a. sma_sub_manifest a = sm \<and> sma_trashed_at a = None) (mo_attachments db))"

definition trash_attachments :: "int \<Rightarrow> nat \<Rightarrow> string \<Rightarrow> monolith_tables \<Rightarrow> monolith_tables" where
  "trash_attachments now sm name db =
     db\<lparr>mo_attachments := update_where (\<lambda>a. sma_sub_manifest a = sm \<and> sma_name a = name)
          (\<lambda>a. a\<lparr>sma_trashed_at := Some now\<rparr>) (mo_attachments db)\<rparr>"

subsection \<open>Sub manifests\<close>

text \<open>A package or an attachment of a sub manifest.\<close>

datatype sub_manifest_object = PkgObject sub_manifest_pkg_info | AttachmentObject sub_manifest_attachment

fun smo_key :: "sub_manifest_object \<Rightarrow> string" where
  "smo_key (PkgObject s) = smp_key s"
| "smo_key (AttachmentObject a) = sma_key a"

fun smo_pk :: "sub_manifest_object \<Rightarrow> nat" where
  "smo_pk (PkgObject s) = smp_pk s"
| "smo_pk (AttachmentObject a) = sma_pk a"

fun smo_condition :: "sub_manifest_object \<Rightarrow> string option" where
  "smo_condition (PkgObject s) = smp_condition s"
| "smo_condition (AttachmentObject a) = sma_condition a"

fun smo_featured_item :: "sub_manifest_object \<Rightarrow> bool" where
  "smo_featured_item (PkgObject s) = smp_featured_item s"
| "smo_featured_item (AttachmentObject a) = sma_featured_item a"

fun smo_name :: "monolith_tables \<Rightarrow> sub_manifest_object \<Rightarrow> string" where
  "smo_name db (PkgObject s) = pkg_name_of db (smp_pkg_info_name s)"
| "smo_name db (AttachmentObject a) = attachment_name a"

text \<open>The text the objects of a key are sorted by, in \<open>pkg_info_dict\<close>.\<close>

fun smo_sort_name :: "monolith_tables \<Rightarrow> sub_manifest_object \<Rightarrow> string" where
  "smo_sort_name db (PkgObject s) = pkg_name_of db (smp_pkg_info_name s)"
| "smo_sort_name db (AttachmentObject a) = sma_name a"

definition sub_manifest_objects :: "monolith_tables \<Rightarrow> nat \<Rightarrow> sub_manifest_object list" where
  "sub_manifest_objects db sm =
     map PkgObject (sort_key (\<lambda>s. str_key (pkg_name_of db (smp_pkg_info_name s)))
       (filter (\<lambda>s. smp_sub_manifest s = sm) (mo_sub_manifest_pkg_infos db))) @
     map AttachmentObject (active_attachments sm db)"

definition pkg_info_dict :: "monolith_tables \<Rightarrow> nat \<Rightarrow> (string \<times> sub_manifest_object list) list" where
  "pkg_info_dict db sm =
     map (\<lambda>(k, os). (k, sort_key (\<lambda>s. (str_key (smo_sort_name db s), - int (smo_pk s))) os))
       (fold (\<lambda>s. group_append (smo_key s) s) (sub_manifest_objects db sm) [])"

text \<open>\<open>condition_d.setdefault(condition, {}).setdefault(key, []).append(name)\<close>.\<close>

fun nested_append :: "'c \<Rightarrow> 'k \<Rightarrow> 'v \<Rightarrow> ('c \<times> ('k \<times> 'v list) list) list \<Rightarrow> ('c \<times> ('k \<times> 'v list) list) list" where
  "nested_append c k v [] = [(c, [(k, [v])])]"
| "nested_append c k v ((d, g) # r) = (if d = c then (d, group_append k v g) # r else (d, g) # nested_append c k v r)"

definition conditions_of :: "monolith_tables \<Rightarrow> (string \<times> sub_manifest_object list) list \<Rightarrow> (string option \<times> (string \<times> string list) list) list" where
  "conditions_of db d =
     fold (\<lambda>(k, os). fold (\<lambda>s. nested_append (smo_condition s) k (smo_name db s)) os) d []"

definition featured_items :: "monolith_tables \<Rightarrow> (string \<times> sub_manifest_object list) list \<Rightarrow> string list" where
  "featured_items db d =
     remdups (concat (map (\<lambda>(k, os). map (smo_name db) (filter (\<lambda>s. k \<noteq> ''managed_uninstalls'' \<and> smo_featured_item s) os)) d))"

definition included_names :: "(string \<times> sub_manifest_object list) list \<Rightarrow> string list" where
  "included_names d =
     concat (map (\<lambda>(k, os). List.map_filter (\<lambda>s. case s of AttachmentObject a \<Rightarrow> Some (sma_name a) | _ \<Rightarrow> None) os) d)"

definition text_values :: "string list \<Rightarrow> pyval" where
  "text_values ss = PList (map PStr ss)"

text \<open>\<open>data.setdefault(k, []).extend(vs)\<close>.\<close>

definition extend_item :: "string \<Rightarrow> pyval list \<Rightarrow> dict \<Rightarrow> dict" where
  "extend_item k vs d = dict_set k (PList ((case dict_get d k of Some (PList ws) \<Rightarrow> ws | _ \<Rightarrow> []) @ vs)) d"

definition condition_item :: "string option \<times> (string \<times> string list) list \<Rightarrow> dict \<Rightarrow> dict" where
  "condition_item c d =
     (let items = map (\<lambda>(k, names). (k, text_values names)) (snd c) in
      case fst c of
        None \<Rightarrow> dict_update d items
      | Some p \<Rightarrow> extend_item ''conditional_items'' [PDict (dict_set ''condition'' (PStr p) items)] d)"

text \<open>The attachments that are not included are uninstalled; the set of their names has no order.\<close>

definition excluded_names :: "monolith_tables \<Rightarrow> nat \<Rightarrow> string list \<Rightarrow> string list" where
  "excluded_names db sm included =
     remdups (map attachment_name (filter (\<lambda>a. sma_sub_manifest a = sm \<and> sma_name a \<notin> set included) (mo_attachments db)))"

definition serialize_sub_manifest :: "monolith_tables \<Rightarrow> sub_manifest \<Rightarrow> dict" where
  "serialize_sub_manifest db sm =
     (let d = pkg_info_dict db (sm_pk sm); featured = featured_items db d;
          data = (if featured = [] then [] else [(''featured_items'', text_values (sort_key str_key featured))]);
          data' = fold condition_item (conditions_of db d) data
      in extend_item ''managed_uninstalls'' (map PStr (excluded_names db (sm_pk sm) (included_names d))) data')"

definition sub_manifest_munki_name :: "monolith_conf \<Rightarrow> sub_manifest \<Rightarrow> string" where
  "sub_manifest_munki_name cf sm =
     build_munki_name (mcf_to_ascii cf) ''sub_manifest'' (MunkiKey (int (sm_pk sm))) (sm_name sm) None"

subsection \<open>Manifests\<close>

definition bump_version :: "nat \<Rightarrow> monolith_tables \<Rightarrow> monolith_tables" where
  "bump_version pk db =
     db\<lparr>mo_manifests := update_where (\<lambda>m. man_pk m = pk) (\<lambda>m. m\<lparr>man_version := man_version m + 1\<rparr>) (mo_manifests db)\<rparr>"

text \<open>\<open>Q(tags__isnull=True) | Q(tags__in=tags)\<close>.\<close>

definition in_scope :: "nat list \<Rightarrow> nat list \<Rightarrow> bool" where
  "in_scope tags row_tags \<longleftrightarrow> row_tags = [] \<or> list_ex (\<lambda>t. t \<in> set tags) row_tags"

text \<open>The rows of the join with the tags, without \<open>distinct()\<close>: one for each of the tags, or one without a tag.\<close>

definition scope_rows :: "nat list \<Rightarrow> ('r \<Rightarrow> nat list) \<Rightarrow> 'r list \<Rightarrow> 'r list" where
  "scope_rows tags tags_of rows =
     concat (map (\<lambda>r. if tags_of r = [] then [r] else replicate (length (filter (\<lambda>t. t \<in> set tags) (tags_of r))) r) rows)"

definition catalog_of :: "monolith_tables \<Rightarrow> nat \<Rightarrow> catalog list" where
  "catalog_of db pk = filter (\<lambda>c. ca_pk c = pk) (mo_catalogs db)"

definition manifest_catalog_rows :: "monolith_tables \<Rightarrow> nat list \<Rightarrow> nat \<Rightarrow> manifest_catalog list" where
  "manifest_catalog_rows db tags man = filter (\<lambda>mc. mc_manifest mc = man \<and> in_scope tags (mc_tags mc)) (mo_manifest_catalogs db)"

text \<open>The catalogs of a manifest, by priority and name, the highest first.\<close>

definition manifest_catalogs :: "monolith_tables \<Rightarrow> nat list \<Rightarrow> nat \<Rightarrow> catalog list" where
  "manifest_catalogs db tags man =
     rev (sort_key (\<lambda>c. (ca_priority c, str_key (ca_name c)))
       (rev (concat (map (\<lambda>mc. catalog_of db (mc_catalog mc)) (manifest_catalog_rows db tags man)))))"

definition manifest_sub_manifest_rows :: "monolith_tables \<Rightarrow> nat list \<Rightarrow> nat \<Rightarrow> manifest_sub_manifest list" where
  "manifest_sub_manifest_rows db tags man =
     filter (\<lambda>m. msm_manifest m = man \<and> in_scope tags (msm_tags m)) (mo_manifest_sub_manifests db)"

definition sub_manifest_rows :: "monolith_tables \<Rightarrow> nat \<Rightarrow> sub_manifest list" where
  "sub_manifest_rows db pk = filter (\<lambda>s. sm_pk s = pk) (mo_sub_manifests db)"

definition manifest_sub_manifests :: "monolith_tables \<Rightarrow> nat list \<Rightarrow> nat \<Rightarrow> sub_manifest list" where
  "manifest_sub_manifests db tags man =
     concat (map (\<lambda>m. sub_manifest_rows db (msm_sub_manifest m)) (manifest_sub_manifest_rows db tags man))"

definition get_sub_manifest :: "monolith_tables \<Rightarrow> nat list \<Rightarrow> nat \<Rightarrow> int \<Rightarrow> pyerror + sub_manifest option" where
  "get_sub_manifest db tags man sm =
     (case get_one (\<lambda>m. int (msm_sub_manifest m) = sm) (manifest_sub_manifest_rows db tags man) of
        Inl DoesNotExist \<Rightarrow> Inr None
      | Inl e \<Rightarrow> Inl e
      | Inr m \<Rightarrow> Inr (find (\<lambda>s. sm_pk s = msm_sub_manifest m) (mo_sub_manifests db)))"

definition builder_name :: "monolith_conf \<Rightarrow> enrollment_package \<Rightarrow> pyerror + string" where
  "builder_name cf e = (case dict_get (mcf_builders cf) (mep_builder e) of None \<Rightarrow> Inl (KeyError (mep_builder e)) | Some b \<Rightarrow> Inr (epb_name b))"

text \<open>
  For each builder, of the packages whose tags are all tags of the machine, the first with the
  most tags. Tags are compared as sets.
\<close>

definition tag_count :: "enrollment_package \<Rightarrow> nat" where
  "tag_count e = card (set (mep_tags e))"

definition enrollment_package_step :: "nat list \<Rightarrow> enrollment_package \<Rightarrow> (string \<times> enrollment_package) list \<Rightarrow> (string \<times> enrollment_package) list" where
  "enrollment_package_step tags e d =
     (if set (mep_tags e) \<subseteq> set tags
      then case dict_get d (mep_builder e) of
             Some f \<Rightarrow> if tag_count f < tag_count e then dict_set (mep_builder e) e d else d
           | None \<Rightarrow> dict_set (mep_builder e) e d
      else d)"

definition manifest_enrollment_packages :: "monolith_conf \<Rightarrow> monolith_tables \<Rightarrow> nat list \<Rightarrow> nat \<Rightarrow> (string \<times> enrollment_package) list" where
  "manifest_enrollment_packages cf db tags man =
     fold (enrollment_package_step tags)
       (scope_rows tags mep_tags
         (sort_key mep_pk
           (filter (\<lambda>e. mep_manifest e = man \<and> mep_builder e \<in> set (map fst (mcf_builders cf))) (mo_enrollment_packages db)))) []"

definition printer_order :: "printer list \<Rightarrow> printer list" where
  "printer_order ps = sort_key (\<lambda>p. (str_key (prn_name p), prn_pk p)) ps"

definition manifest_printers :: "monolith_tables \<Rightarrow> nat list \<Rightarrow> nat \<Rightarrow> printer list" where
  "manifest_printers db tags man =
     printer_order (scope_rows tags prn_tags (filter (\<lambda>p. prn_manifest p = man \<and> prn_trashed_at p = None) (mo_printers db)))"

definition printer_pkg_info_name :: "printer \<Rightarrow> string" where
  "printer_pkg_info_name p = ''manifest '' @ nat_str (prn_manifest p) @ '' printer '' @ nat_str (prn_pk p)"

definition enrollment_package_pkg_info :: "monolith_conf \<Rightarrow> enrollment_package \<Rightarrow> pyerror + dict" where
  "enrollment_package_pkg_info cf e =
     bind_result (builder_name cf e) (\<lambda>n.
       Inr (dict_set ''installer_item_location''
         (PStr (build_munki_name (mcf_to_ascii cf) ''enrollment_pkg'' (MunkiKey (int (mep_pk e))) n (Some ''pkg''))) (mep_pkg_info e)))"

definition catalog_munki_name_of :: "monolith_conf \<Rightarrow> manifest \<Rightarrow> string" where
  "catalog_munki_name_of cf m =
     build_munki_name (mcf_to_ascii cf) ''manifest_catalog'' (MunkiKey (int (man_pk m))) (man_name m) None"

subsection \<open>The catalog of a manifest\<close>

definition catalog_pkg_infos :: "monolith_tables \<Rightarrow> nat list \<Rightarrow> nat \<Rightarrow> pkg_info list" where
  "catalog_pkg_infos db tags man =
     sort_key (\<lambda>p. (str_key (pkg_name_of db (pi_name p)), str_key (pi_version p)))
       (filter (\<lambda>p. pi_archived_at p = None \<and>
           list_ex (\<lambda>c. ca_pk c \<in> set (pi_catalogs p)) (manifest_catalogs db tags man)) (mo_pkg_infos db))"

text \<open>The newest attachments of the sub manifests, for each name.\<close>

definition catalog_attachments :: "monolith_tables \<Rightarrow> nat list \<Rightarrow> nat \<Rightarrow> sub_manifest_attachment list" where
  "catalog_attachments db tags man =
     newest (filter (\<lambda>a. sma_sub_manifest a \<in> set (map sm_pk (manifest_sub_manifests db tags man))) (mo_attachments db))"

definition catalog_enrollment_packages :: "monolith_conf \<Rightarrow> monolith_tables \<Rightarrow> nat list \<Rightarrow> nat \<Rightarrow> enrollment_package list" where
  "catalog_enrollment_packages cf db tags man =
     (let chosen = manifest_enrollment_packages cf db tags man in
      map snd chosen @
      filter (\<lambda>e. mep_manifest e = man \<and> mep_builder e \<notin> set (map fst chosen)) (mo_enrollment_packages db))"

definition serialize_catalog :: "monolith_conf \<Rightarrow> monolith_tables \<Rightarrow> nat list \<Rightarrow> nat \<Rightarrow> pyerror + pyval" where
  "serialize_catalog cf db tags man =
     bind_result (map_result (enrollment_package_pkg_info cf) (catalog_enrollment_packages cf db tags man)) (\<lambda>eps.
       Inr (PList
         (map (PDict \<circ> get_pkg_info cf) (catalog_pkg_infos db tags man) @
          map (PDict \<circ> attachment_pkg_info cf) (catalog_attachments db tags man) @
          map PDict eps @
          map prn_pkg_info (printer_order (filter (\<lambda>p. prn_manifest p = man) (mo_printers db))))))"

subsection \<open>The manifest\<close>

text \<open>The enrollment packages that are installed and uninstalled.\<close>

definition add_name :: "string \<Rightarrow> string list \<Rightarrow> string list" where
  "add_name n ns = (if n \<in> set ns then ns else ns @ [n])"

definition package_names_step ::
  "string list \<Rightarrow> string \<times> string \<Rightarrow> string list \<times> string list \<Rightarrow> string list \<times> string list" where
  "package_names_step chosen e acc =
     (if fst e \<in> set chosen then (add_name (snd e) (fst acc), snd acc) else (fst acc, add_name (snd e) (snd acc)))"

definition serialize_manifest :: "monolith_conf \<Rightarrow> monolith_tables \<Rightarrow> nat list \<Rightarrow> manifest \<Rightarrow> pyerror + pyval" where
  "serialize_manifest cf db tags m =
     (let chosen = map fst (manifest_enrollment_packages cf db tags (man_pk m)) in
      bind_result (map_result (\<lambda>e. bind_result (builder_name cf e) (\<lambda>n. Inr (mep_builder e, n)))
          (filter (\<lambda>e. mep_manifest e = man_pk m) (mo_enrollment_packages db))) (\<lambda>names.
        (case fold (package_names_step chosen) names (mcf_default_managed_installs cf, []) of
           (installs, uninstalls) \<Rightarrow>
             Inr (PDict
               ([(''catalogs'', text_values [catalog_munki_name_of cf m]),
                 (''included_manifests'', text_values (map (sub_manifest_munki_name cf) (manifest_sub_manifests db tags (man_pk m)))),
                 (''managed_installs'',
                    text_values (installs @ map printer_pkg_info_name (manifest_printers db tags (man_pk m))))] @
                (if uninstalls = [] then [] else [(''managed_uninstalls'', text_values uninstalls)]))))))"

subsection \<open>The packages of a manifest\<close>

text \<open>A step of the recursive queries: a package one of those found requires, or an update for one of them.\<close>

definition needed_by :: "pkg_info \<Rightarrow> pkg_info \<Rightarrow> bool" where
  "needed_by r p \<longleftrightarrow> pi_name p \<in> set (pi_requires r) \<or> pi_name r \<in> set (pi_update_for p)"

definition new_packages :: "pkg_info list \<Rightarrow> pkg_info list \<Rightarrow> pkg_info list" where
  "new_packages rows found = filter (\<lambda>p. p \<notin> set found \<and> list_ex (\<lambda>r. needed_by r p) found) rows"

lemma new_packages_fewer:
  assumes "new_packages rows found \<noteq> []"
  shows "length (filter (\<lambda>p. p \<notin> set (found @ new_packages rows found)) rows) < length (filter (\<lambda>p. p \<notin> set found) rows)"
proof -
  from assms obtain p where p: "p \<in> set (new_packages rows found)" by (cases "new_packages rows found") auto
  then have "p \<in> set (filter (\<lambda>p. p \<notin> set found) rows)" by (simp add: new_packages_def)
  then have "length (filter (\<lambda>p. p \<notin> set (new_packages rows found)) (filter (\<lambda>p. p \<notin> set found) rows))
      < length (filter (\<lambda>p. p \<notin> set found) rows)"
    by (rule length_filter_less) (simp add: p)
  then show ?thesis by simp
qed

function with_deps_and_updates :: "pkg_info list \<Rightarrow> pkg_info list \<Rightarrow> pkg_info list" where
  "with_deps_and_updates rows found =
     (let new = new_packages rows found in if new = [] then found else with_deps_and_updates rows (found @ new))"
  by pat_completeness auto

termination
  by (relation "measure (\<lambda>(rows, found). length (filter (\<lambda>p. p \<notin> set found) rows))")
     (simp, use new_packages_fewer in \<open>simp only: in_measure prod.case\<close>)

declare with_deps_and_updates.simps [simp del]

definition with_name :: "monolith_tables \<Rightarrow> (nat \<Rightarrow> bool) \<Rightarrow> pkg_info list" where
  "with_name db p = filter (\<lambda>r. p (pi_name r)) (mo_pkg_infos db)"

text \<open>What is in a catalog of the manifest, archived or not: the rows of the last join.\<close>

definition in_manifest_catalogs :: "monolith_tables \<Rightarrow> nat list \<Rightarrow> nat \<Rightarrow> pkg_info list \<Rightarrow> pkg_info list" where
  "in_manifest_catalogs db tags man ps =
     filter (\<lambda>p. list_ex (\<lambda>mc. mc_catalog mc \<in> set (pi_catalogs p)) (manifest_catalog_rows db tags man)) ps"

definition pkginfos_with_deps_and_updates :: "monolith_tables \<Rightarrow> nat list \<Rightarrow> nat \<Rightarrow> pkg_info list" where
  "pkginfos_with_deps_and_updates db tags man =
     (let sms = map msm_sub_manifest (manifest_sub_manifest_rows db tags man);
          names = map smp_pkg_info_name (filter (\<lambda>s. smp_sub_manifest s \<in> set sms) (mo_sub_manifest_pkg_infos db))
      in in_manifest_catalogs db tags man
           (with_deps_and_updates (mo_pkg_infos db) (with_name db (\<lambda>n. n \<in> set names))))"

text \<open>The query is made of the names between quotes: they have none themselves.\<close>

definition pkginfo_deps_and_updates :: "monolith_tables \<Rightarrow> nat list \<Rightarrow> nat \<Rightarrow> string list \<Rightarrow> pkg_info list" where
  "pkginfo_deps_and_updates db tags man names =
     in_manifest_catalogs db tags man
       (with_deps_and_updates (mo_pkg_infos db) (with_name db (\<lambda>n. pkg_name_of db n \<in> set names)))"

definition enrollment_package_requires :: "monolith_conf \<Rightarrow> enrollment_package \<Rightarrow> string list" where
  "enrollment_package_requires cf e = (case dict_get (mcf_builders cf) (mep_builder e) of None \<Rightarrow> [] | Some b \<Rightarrow> epb_requires b)"

definition enrollment_packages_pkginfo_deps :: "monolith_conf \<Rightarrow> monolith_tables \<Rightarrow> nat list \<Rightarrow> nat \<Rightarrow> pkg_info list" where
  "enrollment_packages_pkginfo_deps cf db tags man =
     pkginfo_deps_and_updates db tags man
       (concat (map (\<lambda>(b, e). enrollment_package_requires cf e) (manifest_enrollment_packages cf db tags man)))"

definition printers_pkginfo_deps :: "monolith_tables \<Rightarrow> nat list \<Rightarrow> nat \<Rightarrow> pkg_info list" where
  "printers_pkginfo_deps db tags man =
     pkginfo_deps_and_updates db tags man
       (List.map_filter (\<lambda>p. map_option (pkg_name_of db) (prn_required_package p)) (manifest_printers db tags man))"

definition default_managed_installs_deps :: "monolith_conf \<Rightarrow> monolith_tables \<Rightarrow> nat list \<Rightarrow> nat \<Rightarrow> pkg_info list" where
  "default_managed_installs_deps cf db tags man =
     pkginfo_deps_and_updates db tags man (mcf_default_managed_installs cf)"

definition manifest_packages :: "monolith_conf \<Rightarrow> monolith_tables \<Rightarrow> nat list \<Rightarrow> nat \<Rightarrow> pkg_info list" where
  "manifest_packages cf db tags man =
     pkginfos_with_deps_and_updates db tags man @ enrollment_packages_pkginfo_deps cf db tags man @
     printers_pkginfo_deps db tags man @ default_managed_installs_deps cf db tags man"

end
