(* ===== verification/MonolithRepo.thy ===== *)
theory MonolithRepo imports MonolithModels begin

text \<open>
  The import of the catalog of a munki repository:
  \<open>zentral/contrib/monolith/repository_backends/base.py\<close>. The catalog is the property list that munki
  makes of the repository, a list of package infos. An import that raises gives no tables: the endpoint
  that calls it is a transaction.
\<close>

subsection \<open>The repository\<close>

text \<open>\<open>rp_default_catalog_name\<close> is the configured one: it only counts for the manual management of the catalogs.\<close>

record repository =
  rp_manual_catalog_management :: bool
  rp_default_catalog :: string
  rp_module :: string
  rp_isoformat :: "int \<Rightarrow> string"

definition default_catalog_name :: "repository \<Rightarrow> string option" where
  "default_catalog_name rp = (if rp_manual_catalog_management rp then Some (strip (rp_default_catalog rp)) else None)"

definition repository_event :: "repository \<Rightarrow> dict" where
  "repository_event rp = [(''module'', PStr (rp_module rp))]"

text \<open>The tables with the payloads of the events so far.\<close>

record import_state =
  im_db :: monolith_tables
  im_payloads :: "dict list"

definition add_payload :: "dict \<Rightarrow> import_state \<Rightarrow> import_state" where
  "add_payload d st = st\<lparr>im_payloads := im_payloads st @ [d]\<rparr>"

definition object_payload :: "string \<Rightarrow> dict \<Rightarrow> string \<Rightarrow> dict" where
  "object_payload t d action = [(t, PDict d), (''type'', PStr t), (''action'', PStr action)]"

definition catalog_payload :: "catalog \<Rightarrow> string \<Rightarrow> dict" where
  "catalog_payload c action = object_payload ''catalog'' [(''name'', PStr (ca_name c)), (''id'', PInt (int (ca_pk c)))] action"

text \<open>\<open>for x in v\<close>, and the texts that are the names of catalogs or the values of a column.\<close>

definition iterate :: "pyval \<Rightarrow> pyerror + pyval list" where
  "iterate v =
     (case v of
        PList vs \<Rightarrow> Inr vs
      | PStr s \<Rightarrow> Inr (map (\<lambda>c. PStr [c]) s)
      | PDict d \<Rightarrow> Inr (map (PStr \<circ> fst) d)
      | _ \<Rightarrow> Inl TypeError)"

definition text_items :: "pyval \<Rightarrow> pyerror + string list" where
  "text_items v = bind_result (iterate v) (map_result (\<lambda>w. case w of PStr s \<Rightarrow> Inr s | _ \<Rightarrow> Inl AttributeError))"

definition name_items :: "pyval \<Rightarrow> pyerror + string list" where
  "name_items v = bind_result (iterate v) (map_result text_column)"

subsection \<open>Catalogs\<close>

definition create_catalog :: "string \<Rightarrow> monolith_tables \<Rightarrow> catalog \<times> monolith_tables" where
  "create_catalog name db =
     (let c = \<lparr>ca_pk = fresh_pk (map ca_pk (mo_catalogs db)), ca_name = name, ca_priority = 0, ca_archived_at = None\<rparr>
      in (c, db\<lparr>mo_catalogs := mo_catalogs db @ [c]\<rparr>))"

definition set_catalog_archived :: "int option \<Rightarrow> catalog \<Rightarrow> monolith_tables \<Rightarrow> monolith_tables" where
  "set_catalog_archived t c db =
     db\<lparr>mo_catalogs := update_where (\<lambda>r. ca_pk r = ca_pk c) (\<lambda>r. r\<lparr>ca_archived_at := t\<rparr>) (mo_catalogs db)\<rparr>"

definition import_catalog :: "string \<Rightarrow> import_state \<Rightarrow> pyerror + nat \<times> import_state" where
  "import_catalog name st =
     (let name' = strip name; db = im_db st in
      case get_one (\<lambda>c. ca_name c = name') (mo_catalogs db) of
        Inl DoesNotExist \<Rightarrow>
          (let (c, db') = create_catalog name' db in Inr (ca_pk c, add_payload (catalog_payload c ''added'') (st\<lparr>im_db := db'\<rparr>)))
      | Inl e \<Rightarrow> Inl e
      | Inr c \<Rightarrow>
          (if ca_archived_at c \<noteq> None
           then Inr (ca_pk c, add_payload (catalog_payload c ''unarchived'') (st\<lparr>im_db := set_catalog_archived None c db\<rparr>))
           else Inr (ca_pk c, st)))"

text \<open>A step for each of a list of values, in order.\<close>

fun import_all :: "('a \<Rightarrow> import_state \<Rightarrow> pyerror + 'b \<times> import_state) \<Rightarrow> 'a list \<Rightarrow> import_state \<Rightarrow> pyerror + 'b list \<times> import_state" where
  "import_all f [] st = Inr ([], st)"
| "import_all f (x # xs) st =
     bind_result (f x st) (\<lambda>(y, st1). bind_result (import_all f xs st1) (\<lambda>(ys, st2). Inr (y # ys, st2)))"

definition catalog_names :: "repository \<Rightarrow> dict \<Rightarrow> pyerror + string list" where
  "catalog_names rp data =
     (if truthy_str (default_catalog_name rp) then Inr [the (default_catalog_name rp)]
      else text_items (dict_get_default data ''catalogs'' (PList [])))"

definition import_pkg_info_data_catalogs :: "repository \<Rightarrow> dict \<Rightarrow> import_state \<Rightarrow> pyerror + nat list \<times> import_state" where
  "import_pkg_info_data_catalogs rp data st = bind_result (catalog_names rp data) (\<lambda>names. import_all import_catalog names st)"

subsection \<open>Names and categories\<close>

text \<open>\<open>get_or_create(name=...)\<close>: the primary key, the table, and whether the row is new.\<close>

definition get_or_create_name :: "string \<Rightarrow> pkg_name list \<Rightarrow> pyerror + nat \<times> pkg_name list \<times> bool" where
  "get_or_create_name name rows =
     (case get_one (\<lambda>n. pn_name n = name) rows of
        Inl DoesNotExist \<Rightarrow> (let pk = fresh_pk (map pn_pk rows) in Inr (pk, rows @ [\<lparr>pn_pk = pk, pn_name = name\<rparr>], True))
      | Inl e \<Rightarrow> Inl e
      | Inr n \<Rightarrow> Inr (pn_pk n, rows, False))"

definition import_name :: "string \<Rightarrow> import_state \<Rightarrow> pyerror + nat \<times> import_state" where
  "import_name name st =
     bind_result (get_or_create_name name (mo_pkg_info_names (im_db st))) (\<lambda>(pk, rows, created).
       Inr (pk, st\<lparr>im_db := (im_db st)\<lparr>mo_pkg_info_names := rows\<rparr>\<rparr>))"

definition import_category :: "pyval \<Rightarrow> import_state \<Rightarrow> pyerror + nat option \<times> import_state" where
  "import_category v st =
     (if \<not> truthy v then Inr (None, st)
      else
        bind_result (text_column v) (\<lambda>name.
        bind_result (get_or_create_name name (mo_categories (im_db st))) (\<lambda>(pk, rows, created).
          (let st' = st\<lparr>im_db := (im_db st)\<lparr>mo_categories := rows\<rparr>\<rparr> in
           Inr (Some pk,
                if created
                then add_payload (object_payload ''category'' [(''name'', PStr name), (''id'', PInt (int pk))] ''added'') st'
                else st')))))"

subsection \<open>Package infos\<close>

text \<open>The package info without time stamps: they become texts. Those inside of a value cannot be stored.\<close>

fun storable :: "pyval \<Rightarrow> bool" where
  "storable (PTime t) = False"
| "storable (PList vs) = list_all storable vs"
| "storable (PDict d) = list_all (\<lambda>(k, v). storable v) d"
| "storable v = True"

definition serialized_data :: "repository \<Rightarrow> dict \<Rightarrow> dict" where
  "serialized_data rp data = map (\<lambda>(k, v). (k, case v of PTime t \<Rightarrow> PStr (rp_isoformat rp t) | _ \<Rightarrow> v)) data"

text \<open>\<open>==\<close> of two values: the order of the keys of a dictionary does not matter.\<close>

fun same_json :: "pyval \<Rightarrow> pyval \<Rightarrow> bool" where
  "same_json (PBool b) (PInt i) = (i = (if b then 1 else 0))"
| "same_json (PInt i) (PBool b) = (i = (if b then 1 else 0))"
| "same_json (PList vs) (PList ws) = list_all2 same_json vs ws"
| "same_json (PDict d) (PDict e) =
     (length d = length e \<and> list_all (\<lambda>(k, v). case dict_get e k of None \<Rightarrow> False | Some w \<Rightarrow> same_json v w) d)"
| "same_json v w = (v = w)"

text \<open>What an entry of the catalog gives for a package info, once what it names is in the tables.\<close>

record pkg_info_values =
  pv_name :: nat
  pv_version :: string
  pv_catalogs :: "nat list"
  pv_category :: "nat option"
  pv_requires :: "nat list"
  pv_update_for :: "nat list"
  pv_data :: dict

definition create_pkg_info :: "pkg_info_values \<Rightarrow> monolith_tables \<Rightarrow> monolith_tables" where
  "create_pkg_info pv db =
     db\<lparr>mo_pkg_infos := mo_pkg_infos db @
          [\<lparr>pi_pk = fresh_pk (map pi_pk (mo_pkg_infos db)), pi_name = pv_name pv, pi_version = pv_version pv,
            pi_catalogs = remdups (pv_catalogs pv), pi_category = pv_category pv, pi_requires = remdups (pv_requires pv),
            pi_update_for = remdups (pv_update_for pv), pi_data = pv_data pv, pi_archived_at = None\<rparr>]\<rparr>"

text \<open>
  The values of a package info that is there: the catalogs stay when they are managed by hand. The
  column of the data keeps no order of the keys, so data that is the same can be written again.
\<close>

definition set_pkg_info :: "bool \<Rightarrow> pkg_info_values \<Rightarrow> pkg_info \<Rightarrow> pkg_info" where
  "set_pkg_info manual pv p =
     p\<lparr>pi_archived_at := None, pi_category := pv_category pv, pi_data := pv_data pv,
       pi_requires := (if set (pi_requires p) = set (pv_requires pv) then pi_requires p else remdups (pv_requires pv)),
       pi_update_for := (if set (pi_update_for p) = set (pv_update_for pv) then pi_update_for p else remdups (pv_update_for pv)),
       pi_catalogs := (if manual \<or> set (pi_catalogs p) = set (pv_catalogs pv) then pi_catalogs p else remdups (pv_catalogs pv))\<rparr>"

definition category_name :: "monolith_tables \<Rightarrow> nat \<Rightarrow> string" where
  "category_name db pk = (case get_one (\<lambda>n. pn_pk n = pk) (mo_categories db) of Inr n \<Rightarrow> pn_name n | Inl _ \<Rightarrow> [])"

definition catalog_name :: "monolith_tables \<Rightarrow> nat \<Rightarrow> string" where
  "catalog_name db pk = (case get_one (\<lambda>c. ca_pk c = pk) (mo_catalogs db) of Inr c \<Rightarrow> ca_name c | Inl _ \<Rightarrow> [])"

text \<open>What changed of a value, and of a set of related objects: the names removed give way to those added.\<close>

definition attribute_diff :: "string \<Rightarrow> pyval \<Rightarrow> pyval \<Rightarrow> dict" where
  "attribute_diff attr old new =
     (if same_json old new then []
      else [(attr, PDict ((if truthy old then [(''removed'', old)] else []) @ (if truthy new then [(''added'', new)] else [])))])"

definition related_names_diff :: "string \<Rightarrow> (nat \<Rightarrow> string) \<Rightarrow> nat list \<Rightarrow> nat list \<Rightarrow> dict" where
  "related_names_diff attr name_of old new =
     (let names = (\<lambda>pks. text_values (sort_key str_key (map name_of pks)));
          removed = filter (\<lambda>pk. pk \<notin> set new) (remdups old); added = filter (\<lambda>pk. pk \<notin> set old) (remdups new) in
      if set old = set new then []
      else [(attr, PDict (if added \<noteq> [] then [(''added'', names added)]
                          else if removed \<noteq> [] then [(''removed'', names removed)] else []))])"

definition pkg_info_diff :: "bool \<Rightarrow> monolith_tables \<Rightarrow> pkg_info_values \<Rightarrow> pkg_info \<Rightarrow> dict" where
  "pkg_info_diff manual db pv p =
     (let category = (\<lambda>c. case c of None \<Rightarrow> PNone | Some pk \<Rightarrow> PStr (category_name db pk)) in
      (if pi_category p = pv_category pv then [] else attribute_diff ''category'' (category (pi_category p)) (category (pv_category pv))) @
      attribute_diff ''data'' (PDict (pi_data p)) (PDict (pv_data pv)) @
      related_names_diff ''requires'' (pkg_name_of db) (pi_requires p) (pv_requires pv) @
      related_names_diff ''update_for'' (pkg_name_of db) (pi_update_for p) (pv_update_for pv) @
      (if manual then [] else related_names_diff ''catalogs'' (catalog_name db) (pi_catalogs p) (pv_catalogs pv)))"

definition pkg_info_payload :: "pyval \<Rightarrow> pyval \<Rightarrow> dict \<Rightarrow> string \<Rightarrow> dict" where
  "pkg_info_payload name version diff action =
     object_payload ''pkg_info''
       ([(''name'', name), (''version'', version)] @ (if diff = [] then [] else [(''diff'', PDict diff)])) action"

text \<open>The key of a package info, as the values of a catalog.\<close>

definition text_key :: "string \<times> string \<Rightarrow> pyval \<times> pyval" where
  "text_key k = (PStr (fst k), PStr (snd k))"

text \<open>
  A package info that is new, archived, or there: what is saved, the payload of the event, and the
  key. The key of one that is there has the texts of the database, that of a new one the values of
  the entry, which need not be texts.
\<close>

definition save_pkg_info ::
  "repository \<Rightarrow> pyval \<times> pyval \<Rightarrow> pyval \<times> pyval \<Rightarrow> pkg_info_values \<Rightarrow> import_state \<Rightarrow> pyerror + (pyval \<times> pyval) \<times> import_state" where
  "save_pkg_info rp entry new_key pv st =
     (let db = im_db st; manual = rp_manual_catalog_management rp; payload = pkg_info_payload (fst entry) (snd entry) in
      if \<not> storable (PDict (pv_data pv)) then Inl TypeError
      else
        case get_one (\<lambda>p. pi_name p = pv_name pv \<and> pi_version p = pv_version pv) (mo_pkg_infos db) of
          Inl DoesNotExist \<Rightarrow> Inr (new_key, add_payload (payload [] ''added'') (st\<lparr>im_db := create_pkg_info pv db\<rparr>))
        | Inl e \<Rightarrow> Inl e
        | Inr p \<Rightarrow>
            (let diff = pkg_info_diff manual db pv p; key = text_key (pkg_info_key db p);
                 st' = st\<lparr>im_db := db\<lparr>mo_pkg_infos := update_where (\<lambda>r. pi_pk r = pi_pk p) (set_pkg_info manual pv) (mo_pkg_infos db)\<rparr>\<rparr>
             in if pi_archived_at p \<noteq> None then Inr (key, add_payload (payload [] ''added'') st')
                else if diff \<noteq> [] then Inr (key, add_payload (payload diff ''updated'') st')
                else Inr (key, st')))"

text \<open>The catalogs of an entry, and its key if it has any.\<close>

definition import_pkg_info_data ::
  "repository \<Rightarrow> dict \<Rightarrow> import_state \<Rightarrow> pyerror + (nat list \<times> (pyval \<times> pyval) option) \<times> import_state" where
  "import_pkg_info_data rp data st =
     bind_result (request_item data ''name'') (\<lambda>name.
     bind_result (request_item data ''version'') (\<lambda>version.
     bind_result (import_pkg_info_data_catalogs rp data st) (\<lambda>(catalogs, st1).
       if catalogs = [] then Inr (([], None), st1)
       else
         bind_result (text_column name) (\<lambda>name_text.
         bind_result (import_name name_text st1) (\<lambda>(name_pk, st2).
         bind_result (import_category (dict_get_default data ''category'' PNone) st2) (\<lambda>(category, st3).
         bind_result (name_items (dict_get_default data ''requires'' (PList []))) (\<lambda>requires.
         bind_result (import_all import_name requires st3) (\<lambda>(requires_pks, st4).
         bind_result (name_items (dict_get_default data ''update_for'' (PList []))) (\<lambda>update_for.
         bind_result (import_all import_name update_for st4) (\<lambda>(update_for_pks, st5).
         bind_result (text_column version) (\<lambda>version_text.
         (let name_is_new = name_pk \<notin> set (map pn_pk (mo_pkg_info_names (im_db st1)));
              new_key = (if name_is_new then name else PStr name_text, version) in
         bind_result
           (save_pkg_info rp (name, version) new_key
              \<lparr>pv_name = name_pk, pv_version = version_text, pv_catalogs = catalogs, pv_category = category,
               pv_requires = requires_pks, pv_update_for = update_for_pks, pv_data = serialized_data rp data\<rparr> st5) (\<lambda>(key, st6).
           Inr ((catalogs, Some key), st6))))))))))))))"

subsection \<open>The catalog of the repository\<close>

definition archive_catalog :: "int \<Rightarrow> catalog \<Rightarrow> import_state \<Rightarrow> import_state" where
  "archive_catalog now c st =
     add_payload (catalog_payload c ''archived'') (st\<lparr>im_db := set_catalog_archived (Some now) c (im_db st)\<rparr>)"

definition archive_catalogs :: "int \<Rightarrow> nat list \<Rightarrow> import_state \<Rightarrow> import_state" where
  "archive_catalogs now found st =
     fold (archive_catalog now)
       (filter (\<lambda>c. ca_archived_at c = None \<and> ca_pk c \<notin> set found) (mo_catalogs (im_db st))) st"

definition archive_pkg_info :: "int \<Rightarrow> pkg_info \<Rightarrow> import_state \<Rightarrow> import_state" where
  "archive_pkg_info now p st =
     (let db = im_db st in
      add_payload (pkg_info_payload (PStr (pkg_name_of db (pi_name p))) (PStr (pi_version p)) [] ''archived'')
        (st\<lparr>im_db := db\<lparr>mo_pkg_infos := update_where (\<lambda>r. pi_pk r = pi_pk p) (\<lambda>r. r\<lparr>pi_archived_at := Some now\<rparr>) (mo_pkg_infos db)\<rparr>\<rparr>))"

definition archive_pkg_infos :: "int \<Rightarrow> (pyval \<times> pyval) list \<Rightarrow> import_state \<Rightarrow> import_state" where
  "archive_pkg_infos now found st =
     (let db = im_db st in
      fold (archive_pkg_info now)
        (filter (\<lambda>p. pi_archived_at p = None \<and> text_key (pkg_info_key db p) \<notin> set found) (mo_pkg_infos db)) st)"

definition bump_manifests :: "nat list \<Rightarrow> monolith_tables \<Rightarrow> monolith_tables" where
  "bump_manifests found db =
     fold (\<lambda>m. bump_version (man_pk m))
       (filter (\<lambda>m. list_ex (\<lambda>mc. mc_manifest mc = man_pk m \<and> mc_catalog mc \<in> set found) (mo_manifest_catalogs db))
         (mo_manifests db)) db"

text \<open>The tables after the import, and the payloads of the events with the repository.\<close>

definition sync_catalogs :: "repository \<Rightarrow> int \<Rightarrow> dict list \<Rightarrow> monolith_tables \<Rightarrow> pyerror + dict list \<times> monolith_tables" where
  "sync_catalogs rp now entries db =
     bind_result (import_all (import_pkg_info_data rp) entries \<lparr>im_db = db, im_payloads = []\<rparr>) (\<lambda>(found, st).
       (let found_catalogs = concat (map fst found); found_keys = List.map_filter snd found;
            st1 = (if rp_manual_catalog_management rp then st else archive_catalogs now found_catalogs st);
            st2 = archive_pkg_infos now found_keys st1
        in Inr (map (\<lambda>d. dict_set ''repository'' (PDict (repository_event rp)) d) (im_payloads st2),
                bump_manifests found_catalogs (im_db st2))))"

end
