(* ===== verification/MonolithSync.thy ===== *)
theory MonolithSync imports MonolithRepo begin

text \<open>
  What the import of the catalog of a munki repository leaves in the tables: the package infos of the
  catalog are active with the data of their last entry, the other ones are archived.
\<close>

subsection \<open>The tables\<close>

text \<open>The unique constraints of the tables, and the foreign key of the package infos to their names.\<close>

definition package_columns :: "pkg_info list \<Rightarrow> pkg_name list \<Rightarrow> bool" where
  "package_columns ps ns \<longleftrightarrow>
     distinct (map pi_pk ps) \<and> distinct (map (\<lambda>p. (pi_name p, pi_version p)) ps) \<and>
     distinct (map pn_pk ns) \<and> distinct (map pn_name ns) \<and> set (map pi_name ps) \<subseteq> set (map pn_pk ns)"

definition monolith_ok :: "monolith_tables \<Rightarrow> bool" where
  "monolith_ok db \<longleftrightarrow>
     package_columns (mo_pkg_infos db) (mo_pkg_info_names db) \<and> distinct (map pn_name (mo_categories db)) \<and>
     distinct (map ca_name (mo_catalogs db)) \<and> distinct (map ca_pk (mo_catalogs db))"

text \<open>What can be seen of the package infos: for a name and a version, whether it is active, and its data.\<close>

definition repository_view :: "monolith_tables \<Rightarrow> string \<times> string \<Rightarrow> (bool \<times> dict) option" where
  "repository_view db k =
     map_option (\<lambda>p. (pi_archived_at p = None, pi_data p)) (find (\<lambda>p. pkg_info_key db p = k) (mo_pkg_infos db))"

lemma pkg_name_of_row:
  assumes "monolith_ok db" and "r \<in> set (mo_pkg_info_names db)"
  shows "pkg_name_of db (pn_pk r) = pn_name r"
  using get_one_pk [of pn_pk "mo_pkg_info_names db" r] assms
  by (simp add: pkg_name_of_def monolith_ok_def package_columns_def)

lemma pkg_info_name_row:
  assumes "monolith_ok db" and "p \<in> set (mo_pkg_infos db)"
  obtains r where "r \<in> set (mo_pkg_info_names db)" and "pn_pk r = pi_name p"
    and "pkg_info_key db p = (pn_name r, pi_version p)"
proof -
  from assms have "pi_name p \<in> pn_pk ` set (mo_pkg_info_names db)"
    by (auto simp: monolith_ok_def package_columns_def)
  then obtain r where r: "r \<in> set (mo_pkg_info_names db)" "pi_name p = pn_pk r" by (rule imageE)
  with pkg_name_of_row [OF assms(1) r(1)] have "pkg_info_key db p = (pn_name r, pi_version p)"
    by (simp add: pkg_info_key_def)
  with r show ?thesis by (intro that [of r]) simp_all
qed

lemma pkg_info_key_iff:
  assumes "monolith_ok db" and "p \<in> set (mo_pkg_infos db)" and "r \<in> set (mo_pkg_info_names db)"
  shows "pkg_info_key db p = (pn_name r, v) \<longleftrightarrow> pi_name p = pn_pk r \<and> pi_version p = v"
proof -
  obtain s where s: "s \<in> set (mo_pkg_info_names db)" "pn_pk s = pi_name p" "pkg_info_key db p = (pn_name s, pi_version p)"
    using pkg_info_name_row [OF assms(1,2)] .
  have d: "distinct (map pn_pk (mo_pkg_info_names db))" "distinct (map pn_name (mo_pkg_info_names db))"
    using assms(1) by (simp_all add: monolith_ok_def package_columns_def)
  have "pn_name s = pn_name r \<longleftrightarrow> pn_pk s = pn_pk r"
    using distinct_map_eqD [OF d(1) s(1) assms(3)] distinct_map_eqD [OF d(2) s(1) assms(3)] by auto
  with s show ?thesis by simp
qed

lemma pkg_info_key_unique:
  assumes ok: "monolith_ok db" and p: "p \<in> set (mo_pkg_infos db)" and q: "q \<in> set (mo_pkg_infos db)"
    and k: "pkg_info_key db p = pkg_info_key db q"
  shows "p = q"
proof -
  obtain r where r: "r \<in> set (mo_pkg_info_names db)" "pn_pk r = pi_name q" "pkg_info_key db q = (pn_name r, pi_version q)"
    using pkg_info_name_row [OF ok q] .
  then have "pi_name p = pi_name q" "pi_version p = pi_version q"
    using pkg_info_key_iff [OF ok p r(1), of "pi_version q"] k r(2,3) by simp_all
  moreover have "distinct (map (\<lambda>p. (pi_name p, pi_version p)) (mo_pkg_infos db))"
    using ok by (simp add: monolith_ok_def package_columns_def)
  ultimately show ?thesis using distinct_map_eqD [of "\<lambda>p. (pi_name p, pi_version p)"] p q by blast
qed

lemma repository_view_row:
  assumes "monolith_ok db" and "p \<in> set (mo_pkg_infos db)"
  shows "repository_view db (pkg_info_key db p) = Some (pi_archived_at p = None, pi_data p)"
proof (cases "find (\<lambda>q. pkg_info_key db q = pkg_info_key db p) (mo_pkg_infos db)")
  case None
  with assms(2) show ?thesis by (auto simp: find_None_iff)
next
  case (Some q)
  then have "q \<in> set (mo_pkg_infos db)" "pkg_info_key db q = pkg_info_key db p"
    by (auto simp: find_Some_iff)
  then have "q = p" using pkg_info_key_unique assms by blast
  with Some show ?thesis by (simp add: repository_view_def)
qed

lemma repository_view_none:
  "repository_view db k = None \<longleftrightarrow> (\<forall>p \<in> set (mo_pkg_infos db). pkg_info_key db p \<noteq> k)"
  by (auto simp: repository_view_def find_None_iff)

text \<open>Two tables whose package infos are the same under a change of the rows have related views.\<close>

lemma repository_view_changed:
  assumes ok: "monolith_ok db" and ok': "monolith_ok db'"
    and rows: "mo_pkg_infos db' = map f (mo_pkg_infos db)"
    and key: "\<And>p. p \<in> set (mo_pkg_infos db) \<Longrightarrow> pkg_info_key db' (f p) = pkg_info_key db p"
    and val: "\<And>p. p \<in> set (mo_pkg_infos db) \<Longrightarrow>
      (pi_archived_at (f p) = None, pi_data (f p)) = g (pkg_info_key db p) (pi_archived_at p = None, pi_data p)"
  shows "repository_view db' k = map_option (g k) (repository_view db k)"
proof (cases "repository_view db k")
  case None
  then have "repository_view db' k = None" unfolding repository_view_none rows using key by auto
  with None show ?thesis by simp
next
  case (Some w)
  then obtain p where p: "p \<in> set (mo_pkg_infos db)" "pkg_info_key db p = k"
    using repository_view_none [of db k] by auto
  then have "f p \<in> set (mo_pkg_infos db')" by (simp add: rows)
  with repository_view_row [OF ok' this] key [OF p(1)] p(2) val [OF p(1)] repository_view_row [OF ok p(1)]
  show ?thesis by simp
qed

subsection \<open>Names, categories and catalogs\<close>

text \<open>Steps that add rows to the other tables.\<close>

definition grows :: "monolith_tables \<Rightarrow> monolith_tables \<Rightarrow> bool" where
  "grows db db' \<longleftrightarrow>
     monolith_ok db' \<and> mo_pkg_infos db' = mo_pkg_infos db \<and> (\<exists>new. mo_pkg_info_names db' = mo_pkg_info_names db @ new)"

lemma grows_refl: "monolith_ok db \<Longrightarrow> grows db db"
  by (simp add: grows_def)

lemma grows_trans [trans]: "grows a b \<Longrightarrow> grows b c \<Longrightarrow> grows a c"
  by (auto simp: grows_def)

lemma grows_names: "grows a b \<Longrightarrow> set (mo_pkg_info_names a) \<subseteq> set (mo_pkg_info_names b)"
  by (auto simp: grows_def)

lemma grows_key:
  assumes ok: "monolith_ok a" and g: "grows a b" and p: "p \<in> set (mo_pkg_infos a)"
  shows "pkg_info_key b p = pkg_info_key a p"
proof -
  obtain r where r: "r \<in> set (mo_pkg_info_names a)" "pn_pk r = pi_name p" "pkg_info_key a p = (pn_name r, pi_version p)"
    using pkg_info_name_row [OF ok p] .
  have "p \<in> set (mo_pkg_infos b)" "r \<in> set (mo_pkg_info_names b)" "monolith_ok b"
    using g p r(1) grows_names [OF g] by (auto simp: grows_def)
  with r show ?thesis by (simp add: pkg_info_key_iff)
qed

lemma grows_view:
  assumes "monolith_ok a" and "grows a b"
  shows "repository_view b = repository_view a"
proof
  fix k
  from assms(2) have "mo_pkg_infos b = mo_pkg_infos a" by (simp add: grows_def)
  moreover have "find (\<lambda>p. pkg_info_key b p = k) (mo_pkg_infos a) = find (\<lambda>p. pkg_info_key a p = k) (mo_pkg_infos a)"
    by (rule find_cong) (simp_all add: grows_key [OF assms])
  ultimately show "repository_view b k = repository_view a k" by (simp add: repository_view_def)
qed

lemma distinct_get_one:
  assumes "distinct (map f rows)"
  shows "get_one (\<lambda>r. f r = k) rows = Inl DoesNotExist \<and> k \<notin> f ` set rows \<or>
     (\<exists>r \<in> set rows. f r = k \<and> get_one (\<lambda>r. f r = k) rows = Inr r)"
proof (cases "k \<in> f ` set rows")
  case True
  then obtain r where "r \<in> set rows" "k = f r" by (rule imageE)
  with get_one_pk [OF assms] show ?thesis by blast
next
  case False
  then have "\<forall>r \<in> set rows. f r \<noteq> k" by blast
  with False show ?thesis by (simp add: get_one_none)
qed

lemma get_or_create_name_cases:
  assumes "distinct (map pn_name rows)"
  obtains r where "r \<in> set rows" and "pn_name r = n" and "get_or_create_name n rows = Inr (pn_pk r, rows, False)"
  | r where "pn_name r = n" and "n \<notin> pn_name ` set rows" and "pn_pk r \<notin> pn_pk ` set rows"
      and "get_or_create_name n rows = Inr (pn_pk r, rows @ [r], True)"
  using distinct_get_one [OF assms, of n]
proof
  assume a: "get_one (\<lambda>r. pn_name r = n) rows = Inl DoesNotExist \<and> n \<notin> pn_name ` set rows"
  have "fresh_pk (map pn_pk rows) \<notin> pn_pk ` set rows" using fresh_pk_new [of "map pn_pk rows"] by simp
  with a show ?thesis
    by (intro that(2) [of "\<lparr>pn_pk = fresh_pk (map pn_pk rows), pn_name = n\<rparr>"]) (simp_all add: get_or_create_name_def Let_def)
next
  assume "\<exists>r \<in> set rows. pn_name r = n \<and> get_one (\<lambda>r. pn_name r = n) rows = Inr r"
  then show ?thesis by (auto intro!: that(1) simp: get_or_create_name_def)
qed

lemma import_name_ok:
  assumes ok: "monolith_ok (im_db st)"
  shows "\<exists>r st'. import_name n st = Inr (pn_pk r, st') \<and> grows (im_db st) (im_db st') \<and>
     r \<in> set (mo_pkg_info_names (im_db st')) \<and> pn_name r = n"
proof -
  have d: "distinct (map pn_name (mo_pkg_info_names (im_db st)))"
    using ok by (simp add: monolith_ok_def package_columns_def)
  show ?thesis
  proof (rule get_or_create_name_cases [OF d, of n])
    fix r assume "r \<in> set (mo_pkg_info_names (im_db st))" "pn_name r = n"
      "get_or_create_name n (mo_pkg_info_names (im_db st)) = Inr (pn_pk r, mo_pkg_info_names (im_db st), False)"
    then show ?thesis using ok
      by (intro exI [of _ r] exI [of _ st]) (simp add: import_name_def grows_refl)
  next
    fix r assume r: "pn_name r = n" "n \<notin> pn_name ` set (mo_pkg_info_names (im_db st))"
      "pn_pk r \<notin> pn_pk ` set (mo_pkg_info_names (im_db st))"
      "get_or_create_name n (mo_pkg_info_names (im_db st)) = Inr (pn_pk r, mo_pkg_info_names (im_db st) @ [r], True)"
    let ?st = "st\<lparr>im_db := (im_db st)\<lparr>mo_pkg_info_names := mo_pkg_info_names (im_db st) @ [r]\<rparr>\<rparr>"
    have "monolith_ok (im_db ?st)" using ok r(1-3) by (auto simp: monolith_ok_def package_columns_def)
    with r show ?thesis
      by (intro exI [of _ r] exI [of _ ?st]) (simp add: import_name_def grows_def)
  qed
qed

lemma import_category_ok:
  assumes ok: "monolith_ok (im_db st)" and v: "truthy v \<Longrightarrow> \<exists>t. text_column v = Inr t"
  shows "\<exists>c st'. import_category v st = Inr (c, st') \<and> grows (im_db st) (im_db st')"
proof (cases "truthy v")
  case True
  with v obtain t where t: "text_column v = Inr t" by blast
  have d: "distinct (map pn_name (mo_categories (im_db st)))" using ok by (simp add: monolith_ok_def)
  show ?thesis
  proof (rule get_or_create_name_cases [OF d, of t])
    fix r assume "get_or_create_name t (mo_categories (im_db st)) = Inr (pn_pk r, mo_categories (im_db st), False)"
    with True t ok show ?thesis by (simp add: import_category_def grows_refl)
  next
    fix r assume r: "pn_name r = t" "t \<notin> pn_name ` set (mo_categories (im_db st))"
      "get_or_create_name t (mo_categories (im_db st)) = Inr (pn_pk r, mo_categories (im_db st) @ [r], True)"
    have "monolith_ok ((im_db st)\<lparr>mo_categories := mo_categories (im_db st) @ [r]\<rparr>)"
      using ok r(1,2) by (auto simp: monolith_ok_def)
    with True t r(3) show ?thesis by (simp add: import_category_def grows_def add_payload_def Let_def)
  qed
qed (use ok in \<open>simp add: import_category_def grows_refl\<close>)

lemma import_catalog_ok:
  assumes ok: "monolith_ok (im_db st)"
  shows "\<exists>pk st'. import_catalog n st = Inr (pk, st') \<and> grows (im_db st) (im_db st')"
proof -
  have d: "distinct (map ca_name (mo_catalogs (im_db st)))" "distinct (map ca_pk (mo_catalogs (im_db st)))"
    using ok by (simp_all add: monolith_ok_def)
  from distinct_get_one [OF d(1), of "strip n"] show ?thesis
  proof
    assume a: "get_one (\<lambda>r. ca_name r = strip n) (mo_catalogs (im_db st)) = Inl DoesNotExist \<and>
      strip n \<notin> ca_name ` set (mo_catalogs (im_db st))"
    have "monolith_ok (snd (create_catalog (strip n) (im_db st)))"
      using ok a fresh_pk_new [of "map ca_pk (mo_catalogs (im_db st))"] by (auto simp: monolith_ok_def create_catalog_def Let_def)
    with a show ?thesis by (simp add: import_catalog_def create_catalog_def grows_def add_payload_def Let_def)
  next
    assume "\<exists>r \<in> set (mo_catalogs (im_db st)). ca_name r = strip n \<and>
      get_one (\<lambda>r. ca_name r = strip n) (mo_catalogs (im_db st)) = Inr r"
    then obtain c where c: "get_one (\<lambda>r. ca_name r = strip n) (mo_catalogs (im_db st)) = Inr c" by blast
    have "map ca_name (mo_catalogs (set_catalog_archived None c (im_db st))) = map ca_name (mo_catalogs (im_db st))"
      "map ca_pk (mo_catalogs (set_catalog_archived None c (im_db st))) = map ca_pk (mo_catalogs (im_db st))"
      by (simp_all add: set_catalog_archived_def update_where_def)
    then have "monolith_ok (set_catalog_archived None c (im_db st))"
      using ok by (simp add: monolith_ok_def set_catalog_archived_def)
    with c ok show ?thesis
      by (simp add: import_catalog_def grows_def add_payload_def set_catalog_archived_def Let_def)
  qed
qed

lemma import_all_ok:
  assumes step: "\<And>x st. monolith_ok (im_db st) \<Longrightarrow> \<exists>y st'. f x st = Inr (y, st') \<and> grows (im_db st) (im_db st')"
    and ok: "monolith_ok (im_db st)"
  shows "\<exists>ys st'. import_all f xs st = Inr (ys, st') \<and> grows (im_db st) (im_db st') \<and> length ys = length xs"
  using ok
proof (induction xs arbitrary: st)
  case (Cons x xs)
  obtain y st1 where 1: "f x st = Inr (y, st1)" "grows (im_db st) (im_db st1)" using step [OF Cons.prems] by blast
  then have "monolith_ok (im_db st1)" by (simp add: grows_def)
  then obtain ys st2 where 2: "import_all f xs st1 = Inr (ys, st2)" "grows (im_db st1) (im_db st2)" "length ys = length xs"
    using Cons.IH by blast
  from 1 2 grows_trans [OF 1(2) 2(2)] show ?case by simp
qed (simp add: grows_refl)

lemma import_names_ok:
  "monolith_ok (im_db st) \<Longrightarrow> \<exists>ys st'. import_all import_name ns st = Inr (ys, st') \<and> grows (im_db st) (im_db st')"
  using import_all_ok [of import_name st ns] import_name_ok by blast

lemma import_catalogs_ok:
  assumes "monolith_ok (im_db st)" and "catalog_names rp data = Inr names"
  shows "\<exists>cs st'. import_pkg_info_data_catalogs rp data st = Inr (cs, st') \<and> grows (im_db st) (im_db st') \<and> (cs = [] \<longleftrightarrow> names = [])"
  using import_all_ok [where f = import_catalog and xs = names, OF import_catalog_ok assms(1)] assms(2)
  by (fastforce simp: import_pkg_info_data_catalogs_def)

subsection \<open>A package info is saved\<close>

lemma find_append: "find p (xs @ ys) = (case find p xs of None \<Rightarrow> find p ys | Some x \<Rightarrow> Some x)"
  by (induction xs) simp_all

lemma create_pkg_info_ok:
  assumes ok: "monolith_ok db" and r: "r \<in> set (mo_pkg_info_names db)" "pn_pk r = pv_name pv"
    and new: "\<forall>p \<in> set (mo_pkg_infos db). \<not> (pi_name p = pv_name pv \<and> pi_version p = pv_version pv)"
  shows "monolith_ok (create_pkg_info pv db)"
    and "repository_view (create_pkg_info pv db) = (repository_view db)((pn_name r, pv_version pv) \<mapsto> (True, pv_data pv))"
proof -
  have "fresh_pk (map pi_pk (mo_pkg_infos db)) \<notin> set (map pi_pk (mo_pkg_infos db))" by (rule fresh_pk_new)
  then show ok': "monolith_ok (create_pkg_info pv db)"
    using ok r(1) r(2) [symmetric] new by (auto simp: monolith_ok_def package_columns_def create_pkg_info_def)
  have key: "pkg_info_key (create_pkg_info pv db) p = pkg_info_key db p" for p
    by (simp add: pkg_info_key_def pkg_name_of_def create_pkg_info_def)
  have old: "pkg_info_key db p \<noteq> (pn_name r, pv_version pv)" if "p \<in> set (mo_pkg_infos db)" for p
    using pkg_info_key_iff [OF ok that r(1), of "pv_version pv"] new that r(2) by auto
  obtain q where q: "mo_pkg_infos (create_pkg_info pv db) = mo_pkg_infos db @ [q]" "pi_name q = pv_name pv"
    "pi_version q = pv_version pv" "pi_data q = pv_data pv" "pi_archived_at q = None"
    by (simp add: create_pkg_info_def)
  have qk: "pkg_info_key db q = (pn_name r, pv_version pv)"
    using pkg_name_of_row [OF ok r(1)] r(2) q(2,3) by (simp add: pkg_info_key_def)
  have none: "find (\<lambda>p. pkg_info_key db p = (pn_name r, pv_version pv)) (mo_pkg_infos db) = None"
    using old by (simp add: find_None_iff)
  show "repository_view (create_pkg_info pv db) = (repository_view db)((pn_name r, pv_version pv) \<mapsto> (True, pv_data pv))"
  proof
    fix k
    show "repository_view (create_pkg_info pv db) k = ((repository_view db)((pn_name r, pv_version pv) \<mapsto> (True, pv_data pv))) k"
      using none by (cases "k = (pn_name r, pv_version pv)")
        (simp_all add: repository_view_def key q(1,4,5) qk find_append split: option.split)
  qed
qed

text \<open>A change of rows that keeps their keys.\<close>

lemma same_columns_ok:
  assumes "monolith_ok db" and "\<And>p. pi_pk (f p) = pi_pk p \<and> pi_name (f p) = pi_name p \<and> pi_version (f p) = pi_version p"
  shows "monolith_ok (db\<lparr>mo_pkg_infos := map f (mo_pkg_infos db)\<rparr>)"
    and "pkg_info_key (db\<lparr>mo_pkg_infos := map f (mo_pkg_infos db)\<rparr>) (f p) = pkg_info_key db p"
  using assms by (simp_all add: monolith_ok_def package_columns_def pkg_info_key_def pkg_name_of_def o_def)

lemma set_pkg_info_columns:
  "pi_pk (set_pkg_info manual pv p) = pi_pk p" "pi_name (set_pkg_info manual pv p) = pi_name p"
  "pi_version (set_pkg_info manual pv p) = pi_version p" "pi_archived_at (set_pkg_info manual pv p) = None"
  "pi_data (set_pkg_info manual pv p) = pv_data pv"
  by (simp_all add: set_pkg_info_def)

lemma set_pkg_info_ok:
  fixes manual :: bool and pv :: pkg_info_values
  assumes ok: "monolith_ok db" and p: "p \<in> set (mo_pkg_infos db)"
  defines "db' \<equiv> db\<lparr>mo_pkg_infos := update_where (\<lambda>r. pi_pk r = pi_pk p) (set_pkg_info manual pv) (mo_pkg_infos db)\<rparr>"
  shows "monolith_ok db'" and "repository_view db' = (repository_view db)(pkg_info_key db p \<mapsto> (True, pv_data pv))"
proof -
  let ?f = "\<lambda>r. if pi_pk r = pi_pk p then set_pkg_info manual pv r else r"
  have db': "db' = db\<lparr>mo_pkg_infos := map ?f (mo_pkg_infos db)\<rparr>" by (simp add: db'_def update_where_def)
  have cols: "pi_pk (?f q) = pi_pk q \<and> pi_name (?f q) = pi_name q \<and> pi_version (?f q) = pi_version q" for q
    by (simp add: set_pkg_info_columns)
  show ok': "monolith_ok db'" unfolding db' by (rule same_columns_ok [OF ok cols])
  have "distinct (map pi_pk (mo_pkg_infos db))" using ok by (simp add: monolith_ok_def package_columns_def)
  then have one: "pi_pk q = pi_pk p \<longleftrightarrow> pkg_info_key db q = pkg_info_key db p" if "q \<in> set (mo_pkg_infos db)" for q
    using distinct_map_eqD [of pi_pk] pkg_info_key_unique [OF ok that p] that p by metis
  let ?g = "\<lambda>k w. if k = pkg_info_key db p then (True, pv_data pv) else w"
  have view: "repository_view db' k = map_option (?g k) (repository_view db k)" for k
  proof (rule repository_view_changed [OF ok ok'])
    show "mo_pkg_infos db' = map ?f (mo_pkg_infos db)" by (simp add: db')
    show "pkg_info_key db' (?f q) = pkg_info_key db q" for q unfolding db' by (rule same_columns_ok [OF ok cols])
    show "(pi_archived_at (?f q) = None, pi_data (?f q)) = ?g (pkg_info_key db q) (pi_archived_at q = None, pi_data q)"
      if "q \<in> set (mo_pkg_infos db)" for q
      using one [OF that] by (simp add: set_pkg_info_columns)
  qed
  show "repository_view db' = (repository_view db)(pkg_info_key db p \<mapsto> (True, pv_data pv))"
    using repository_view_row [OF ok p] by (intro ext) (simp add: view map_option.identity)
qed

lemma save_pkg_info_ok:
  assumes ok: "monolith_ok (im_db st)" and r: "r \<in> set (mo_pkg_info_names (im_db st))" "pn_pk r = pv_name pv"
    and d: "storable (PDict (pv_data pv))" and k: "new_key = text_key (pn_name r, pv_version pv)"
  shows "\<exists>st'. save_pkg_info rp entry new_key pv st = Inr (text_key (pn_name r, pv_version pv), st') \<and> monolith_ok (im_db st') \<and>
     repository_view (im_db st') = (repository_view (im_db st))((pn_name r, pv_version pv) \<mapsto> (True, pv_data pv))"
proof -
  let ?p = "\<lambda>p. (pi_name p, pi_version p) = (pv_name pv, pv_version pv)"
  have "distinct (map (\<lambda>p. (pi_name p, pi_version p)) (mo_pkg_infos (im_db st)))"
    using ok by (simp add: monolith_ok_def package_columns_def)
  from distinct_get_one [OF this, of "(pv_name pv, pv_version pv)"] show ?thesis
  proof
    assume a: "get_one ?p (mo_pkg_infos (im_db st)) = Inl DoesNotExist \<and>
      (pv_name pv, pv_version pv) \<notin> (\<lambda>p. (pi_name p, pi_version p)) ` set (mo_pkg_infos (im_db st))"
    then have "\<forall>p \<in> set (mo_pkg_infos (im_db st)). \<not> (pi_name p = pv_name pv \<and> pi_version p = pv_version pv)"
      by (auto simp: image_iff)
    from create_pkg_info_ok [OF ok r this] a d k show ?thesis
      by (simp add: save_pkg_info_def Let_def add_payload_def del: storable.simps)
  next
    assume "\<exists>p \<in> set (mo_pkg_infos (im_db st)). (pi_name p, pi_version p) = (pv_name pv, pv_version pv) \<and>
      get_one ?p (mo_pkg_infos (im_db st)) = Inr p"
    then obtain p where p: "p \<in> set (mo_pkg_infos (im_db st))" "pi_name p = pv_name pv" "pi_version p = pv_version pv"
      "get_one ?p (mo_pkg_infos (im_db st)) = Inr p" by blast
    then have "pkg_info_key (im_db st) p = (pn_name r, pv_version pv)"
      using pkg_info_key_iff [OF ok p(1) r(1)] r(2) by simp
    with set_pkg_info_ok [OF ok p(1), where manual = "rp_manual_catalog_management rp" and pv = pv] p(4) d show ?thesis
      by (simp add: save_pkg_info_def Let_def add_payload_def del: storable.simps)
  qed
qed

subsection \<open>The entries of the catalog\<close>

text \<open>An entry munki could have written: what it names is text, and its data can be stored.\<close>

definition fitting_entry :: "repository \<Rightarrow> dict \<Rightarrow> bool" where
  "fitting_entry rp e \<longleftrightarrow>
     (case (dict_get e ''name'', dict_get e ''version'') of (Some (PStr n), Some (PStr v)) \<Rightarrow> True | _ \<Rightarrow> False) \<and>
     \<not> isl (catalog_names rp e) \<and>
     \<not> (truthy (dict_get_default e ''category'' PNone) \<and> isl (text_column (dict_get_default e ''category'' PNone))) \<and>
     \<not> isl (name_items (dict_get_default e ''requires'' (PList []))) \<and>
     \<not> isl (name_items (dict_get_default e ''update_for'' (PList []))) \<and>
     storable (PDict (serialized_data rp e))"

definition entry_key :: "dict \<Rightarrow> string \<times> string" where
  "entry_key e =
     (case (dict_get e ''name'', dict_get e ''version'') of (Some (PStr n), Some (PStr v)) \<Rightarrow> (n, v) | _ \<Rightarrow> ([], []))"

definition entry_catalogs :: "repository \<Rightarrow> dict \<Rightarrow> string list" where
  "entry_catalogs rp e = (case catalog_names rp e of Inr names \<Rightarrow> names | Inl _ \<Rightarrow> [])"

text \<open>The keys of the entries with a catalog, and what an entry makes of the view.\<close>

definition catalog_keys :: "repository \<Rightarrow> dict list \<Rightarrow> (string \<times> string) list" where
  "catalog_keys rp es = map entry_key (filter (\<lambda>e. entry_catalogs rp e \<noteq> []) es)"

definition entry_update :: "repository \<Rightarrow> dict \<Rightarrow> (string \<times> string \<Rightarrow> (bool \<times> dict) option) \<Rightarrow> string \<times> string \<Rightarrow> (bool \<times> dict) option" where
  "entry_update rp e m = (if entry_catalogs rp e = [] then m else m(entry_key e \<mapsto> (True, serialized_data rp e)))"

lemma fitting_entryE:
  assumes "fitting_entry rp e"
  obtains n v cs rs us where "dict_get e ''name'' = Some (PStr n)" and "dict_get e ''version'' = Some (PStr v)"
    and "catalog_names rp e = Inr cs" and "name_items (dict_get_default e ''requires'' (PList [])) = Inr rs"
    and "name_items (dict_get_default e ''update_for'' (PList [])) = Inr us"
    and "truthy (dict_get_default e ''category'' PNone) \<Longrightarrow> \<exists>t. text_column (dict_get_default e ''category'' PNone) = Inr t"
    and "storable (PDict (serialized_data rp e))"
proof -
  from assms obtain n v where "dict_get e ''name'' = Some (PStr n)" "dict_get e ''version'' = Some (PStr v)"
    unfolding fitting_entry_def by (fastforce split: option.splits pyval.splits)
  moreover from assms obtain cs rs us where "catalog_names rp e = Inr cs"
    "name_items (dict_get_default e ''requires'' (PList [])) = Inr rs"
    "name_items (dict_get_default e ''update_for'' (PList [])) = Inr us"
    unfolding fitting_entry_def by (metis sum.collapse(2))
  moreover have "truthy (dict_get_default e ''category'' PNone) \<Longrightarrow> \<exists>t. text_column (dict_get_default e ''category'' PNone) = Inr t"
    using assms unfolding fitting_entry_def by (metis sum.collapse(2))
  moreover have "storable (PDict (serialized_data rp e))" using assms unfolding fitting_entry_def by blast
  ultimately show ?thesis by (rule that)
qed

lemma import_pkg_info_data_ok:
  assumes ok: "monolith_ok (im_db st)" and e: "fitting_entry rp e"
  shows "\<exists>cs st'. import_pkg_info_data rp e st =
       Inr ((cs, if entry_catalogs rp e = [] then None else Some (text_key (entry_key e))), st') \<and>
     monolith_ok (im_db st') \<and> repository_view (im_db st') = entry_update rp e (repository_view (im_db st))"
proof -
  obtain n v names rs us where d: "dict_get e ''name'' = Some (PStr n)" "dict_get e ''version'' = Some (PStr v)"
    "catalog_names rp e = Inr names" "name_items (dict_get_default e ''requires'' (PList [])) = Inr rs"
    "name_items (dict_get_default e ''update_for'' (PList [])) = Inr us"
    and cat: "truthy (dict_get_default e ''category'' PNone) \<Longrightarrow> \<exists>t. text_column (dict_get_default e ''category'' PNone) = Inr t"
    and st: "storable (PDict (serialized_data rp e))"
    using fitting_entryE [OF e] by blast
  have names: "entry_catalogs rp e = names" "entry_key e = (n, v)" by (simp_all add: entry_catalogs_def entry_key_def d)
  obtain cs st1 where 1: "import_pkg_info_data_catalogs rp e st = Inr (cs, st1)" "grows (im_db st) (im_db st1)" "cs = [] \<longleftrightarrow> names = []"
    using import_catalogs_ok [OF ok d(3)] by blast
  then have ok1: "monolith_ok (im_db st1)" by (simp add: grows_def)
  show ?thesis
  proof (cases "names = []")
    case True
    with 1 d(1,2) names ok1 grows_view [OF ok 1(2)] show ?thesis
      by (simp add: import_pkg_info_data_def request_item_def entry_update_def)
  next
    case False
    obtain r st2 where 2: "import_name n st1 = Inr (pn_pk r, st2)" "grows (im_db st1) (im_db st2)"
      "r \<in> set (mo_pkg_info_names (im_db st2))" "pn_name r = n"
      using import_name_ok [OF ok1] by blast
    then have ok2: "monolith_ok (im_db st2)" by (simp add: grows_def)
    obtain c st3 where 3: "import_category (dict_get_default e ''category'' PNone) st2 = Inr (c, st3)" "grows (im_db st2) (im_db st3)"
      using import_category_ok [OF ok2 cat] by blast
    then have ok3: "monolith_ok (im_db st3)" by (simp add: grows_def)
    obtain rpks st4 where 4: "import_all import_name rs st3 = Inr (rpks, st4)" "grows (im_db st3) (im_db st4)"
      using import_names_ok [OF ok3] by blast
    then have ok4: "monolith_ok (im_db st4)" by (simp add: grows_def)
    obtain upks st5 where 5: "import_all import_name us st4 = Inr (upks, st5)" "grows (im_db st4) (im_db st5)"
      using import_names_ok [OF ok4] by blast
    then have ok5: "monolith_ok (im_db st5)" by (simp add: grows_def)
    have g: "grows (im_db st2) (im_db st5)" using 3(2) 4(2) 5(2) grows_trans by blast
    have view: "repository_view (im_db st5) = repository_view (im_db st)"
      using grows_view [OF ok] 1(2) 2(2) g grows_trans by blast
    have r5: "r \<in> set (mo_pkg_info_names (im_db st5))" using 2(3) grows_names [OF g] by blast
    define pv where "pv = \<lparr>pv_name = pn_pk r, pv_version = v, pv_catalogs = cs, pv_category = c,
      pv_requires = rpks, pv_update_for = upks, pv_data = serialized_data rp e\<rparr>"
    obtain st6 where 6: "save_pkg_info rp (PStr n, PStr v) (text_key (n, v)) pv st5 = Inr (text_key (n, v), st6)"
      "monolith_ok (im_db st6)" "repository_view (im_db st6) = (repository_view (im_db st5))((n, v) \<mapsto> (True, serialized_data rp e))"
      using save_pkg_info_ok [OF ok5 r5, of pv "text_key (n, v)" rp "(PStr n, PStr v)"] 2(4) st by (auto simp: pv_def simp del: storable.simps)
    have "import_pkg_info_data rp e st = Inr ((cs, Some (text_key (n, v))), st6)"
      using 1(1,3) False 2(1) 3(1) 4(1) 5(1) 6(1) d
      by (simp add: import_pkg_info_data_def request_item_def text_column_def pv_def text_key_def Let_def)
    with 6 False view names show ?thesis by (simp add: entry_update_def)
  qed
qed

lemma import_entries_ok:
  assumes "monolith_ok (im_db st)" and "list_all (fitting_entry rp) es"
  shows "\<exists>found st'. import_all (import_pkg_info_data rp) es st = Inr (found, st') \<and>
     List.map_filter snd found = map text_key (catalog_keys rp es) \<and> monolith_ok (im_db st') \<and>
     repository_view (im_db st') = fold (entry_update rp) es (repository_view (im_db st))"
  using assms
proof (induction es arbitrary: st)
  case (Cons e es)
  then have "fitting_entry rp e" by simp
  from import_pkg_info_data_ok [OF Cons.prems(1) this]
  obtain cs st1 where 1: "import_pkg_info_data rp e st = Inr ((cs, if entry_catalogs rp e = [] then None else Some (text_key (entry_key e))), st1)"
    "monolith_ok (im_db st1)" "repository_view (im_db st1) = entry_update rp e (repository_view (im_db st))" by blast
  from Cons.IH [OF 1(2)] Cons.prems(2)
  obtain found st2 where "import_all (import_pkg_info_data rp) es st1 = Inr (found, st2)"
    "List.map_filter snd found = map text_key (catalog_keys rp es)" "monolith_ok (im_db st2)"
    "repository_view (im_db st2) = fold (entry_update rp) es (repository_view (im_db st1))" by auto
  with 1 show ?case by (simp add: List.map_filter_simps catalog_keys_def)
qed (simp add: List.map_filter_simps catalog_keys_def)

subsection \<open>What is gone is archived\<close>

text \<open>
  The view after the import: a package info of the catalog has the data of its last entry, and one
  that is not in it is archived as it was.
\<close>

definition catalog_view ::
  "repository \<Rightarrow> dict list \<Rightarrow> (string \<times> string \<Rightarrow> (bool \<times> dict) option) \<Rightarrow> string \<times> string \<Rightarrow> (bool \<times> dict) option" where
  "catalog_view rp es m k =
     (case find (\<lambda>e. entry_key e = k) (rev (filter (\<lambda>e. entry_catalogs rp e \<noteq> []) es)) of
        Some e \<Rightarrow> Some (True, serialized_data rp e)
      | None \<Rightarrow> map_option (\<lambda>(active, d). (False, d)) (m k))"

lemma fold_entry_update:
  "fold (entry_update rp) es m k =
     (case find (\<lambda>e. entry_key e = k) (rev (filter (\<lambda>e. entry_catalogs rp e \<noteq> []) es)) of
        Some e \<Rightarrow> Some (True, serialized_data rp e) | None \<Rightarrow> m k)"
  by (induction es rule: rev_induct) (simp_all add: entry_update_def)

lemma catalog_keys_find:
  "k \<in> set (catalog_keys rp es) \<longleftrightarrow> find (\<lambda>e. entry_key e = k) (rev (filter (\<lambda>e. entry_catalogs rp e \<noteq> []) es)) \<noteq> None"
  by (auto simp: catalog_keys_def find_None_iff image_iff)

lemma fold_archive_pkg_info:
  "im_db (fold (archive_pkg_info now) ps st) = (im_db st)\<lparr>mo_pkg_infos :=
     map (\<lambda>r. if pi_pk r \<in> pi_pk ` set ps then r\<lparr>pi_archived_at := Some now\<rparr> else r) (mo_pkg_infos (im_db st))\<rparr>"
  by (induction ps arbitrary: st)
    (auto simp: archive_pkg_info_def add_payload_def update_where_def Let_def)

lemma fold_archive_catalog:
  "im_db (fold (archive_catalog now) cs st) = (im_db st)\<lparr>mo_catalogs :=
     map (\<lambda>c. if ca_pk c \<in> ca_pk ` set cs then c\<lparr>ca_archived_at := Some now\<rparr> else c) (mo_catalogs (im_db st))\<rparr>"
  by (induction cs arbitrary: st)
    (auto simp: archive_catalog_def set_catalog_archived_def add_payload_def update_where_def)

text \<open>Changes of the catalogs that keep their columns, and of the manifests.\<close>

lemma other_tables:
  assumes "monolith_ok db" and "map ca_name cs = map ca_name (mo_catalogs db)" and "map ca_pk cs = map ca_pk (mo_catalogs db)"
  shows "monolith_ok (db\<lparr>mo_catalogs := cs\<rparr>)" and "repository_view (db\<lparr>mo_catalogs := cs\<rparr>) = repository_view db"
    and "monolith_ok (db\<lparr>mo_manifests := ms\<rparr>)" and "repository_view (db\<lparr>mo_manifests := ms\<rparr>) = repository_view db"
  using assms
  by (simp_all add: fun_eq_iff monolith_ok_def repository_view_def pkg_info_key_def pkg_name_of_def)

lemma archive_catalogs_ok:
  assumes "monolith_ok (im_db st)"
  shows "monolith_ok (im_db (archive_catalogs now found st))"
    and "repository_view (im_db (archive_catalogs now found st)) = repository_view (im_db st)"
  unfolding archive_catalogs_def fold_archive_catalog
  by (rule other_tables [OF assms]; simp add: o_def if_distrib)+

lemma bump_manifests_rows: "\<exists>ms. bump_manifests found db = db\<lparr>mo_manifests := ms\<rparr>"
proof -
  have "\<exists>ms. fold (\<lambda>m. bump_version (man_pk m)) xs d = d\<lparr>mo_manifests := ms\<rparr>" for xs and d :: monolith_tables
  proof (induction xs arbitrary: d)
    case Nil
    show ?case by (rule exI [of _ "mo_manifests d"]) simp
  next
    case (Cons x xs)
    then obtain ms where "fold (\<lambda>m. bump_version (man_pk m)) xs (bump_version (man_pk x) d) =
      (bump_version (man_pk x) d)\<lparr>mo_manifests := ms\<rparr>" by blast
    moreover have "(bump_version (man_pk x) d)\<lparr>mo_manifests := ms\<rparr> = d\<lparr>mo_manifests := ms\<rparr>"
      by (simp add: bump_version_def)
    ultimately have "fold (\<lambda>m. bump_version (man_pk m)) (x # xs) d = d\<lparr>mo_manifests := ms\<rparr>" by simp
    then show ?case by (rule exI)
  qed
  then show ?thesis by (simp add: bump_manifests_def)
qed

lemma bump_manifests_ok:
  assumes "monolith_ok db"
  shows "monolith_ok (bump_manifests found db) \<and> repository_view (bump_manifests found db) = repository_view db"
  using bump_manifests_rows [of found db] other_tables(3,4) [OF assms refl refl] by auto

lemma archive_pkg_infos_ok:
  assumes ok: "monolith_ok (im_db st)"
  shows "monolith_ok (im_db (archive_pkg_infos now (map text_key keys) st)) \<and>
     repository_view (im_db (archive_pkg_infos now (map text_key keys) st)) k =
       (if k \<in> set keys then repository_view (im_db st) k
        else map_option (\<lambda>(active, d). (False, d)) (repository_view (im_db st) k))"
proof -
  let ?db = "im_db st"
  let ?gone = "filter (\<lambda>p. pi_archived_at p = None \<and> text_key (pkg_info_key ?db p) \<notin> set (map text_key keys)) (mo_pkg_infos ?db)"
  let ?f = "\<lambda>r. if pi_pk r \<in> pi_pk ` set ?gone then r\<lparr>pi_archived_at := Some now\<rparr> else r"
  let ?db' = "?db\<lparr>mo_pkg_infos := map ?f (mo_pkg_infos ?db)\<rparr>"
  have db': "im_db (archive_pkg_infos now (map text_key keys) st) = ?db'"
    unfolding archive_pkg_infos_def Let_def by (rule fold_archive_pkg_info)
  have cols: "pi_pk (?f p) = pi_pk p \<and> pi_name (?f p) = pi_name p \<and> pi_version (?f p) = pi_version p" for p by simp
  have ok': "monolith_ok ?db'" by (rule same_columns_ok [OF ok cols])
  have keyed: "text_key j \<in> set (map text_key keys) \<longleftrightarrow> j \<in> set keys" for j
    by (auto simp: text_key_def prod_eq_iff)
  have gone: "pi_pk p \<in> pi_pk ` set ?gone \<longleftrightarrow> p \<in> set ?gone" if "p \<in> set (mo_pkg_infos ?db)" for p
  proof
    assume "pi_pk p \<in> pi_pk ` set ?gone"
    then obtain q where q: "q \<in> set ?gone" "pi_pk p = pi_pk q" by (rule imageE)
    moreover have "distinct (map pi_pk (mo_pkg_infos ?db))" using ok by (simp add: monolith_ok_def package_columns_def)
    ultimately have "p = q" using distinct_map_eqD [of pi_pk "mo_pkg_infos ?db" p q] that by simp
    with q show "p \<in> set ?gone" by simp
  qed simp
  let ?g = "\<lambda>k (w :: bool \<times> dict). if k \<in> set keys then w else (False, snd w)"
  have "repository_view ?db' k = map_option (?g k) (repository_view ?db k)"
  proof (rule repository_view_changed [OF ok ok'])
    show "mo_pkg_infos ?db' = map ?f (mo_pkg_infos ?db)" by simp
    show "pkg_info_key ?db' (?f p) = pkg_info_key ?db p" for p by (rule same_columns_ok [OF ok cols])
    show "(pi_archived_at (?f p) = None, pi_data (?f p)) = ?g (pkg_info_key ?db p) (pi_archived_at p = None, pi_data p)"
      if "p \<in> set (mo_pkg_infos ?db)" for p
      unfolding gone [OF that] using that by (simp add: keyed del: set_map)
  qed
  then show ?thesis unfolding db' using ok' by (simp add: case_prod_unfold map_option.identity)
qed

text \<open>
  C19: The import of the catalog of a repository leaves exactly the packages of the catalog. For
  tables that keep their constraints and entries that fit, whatever the catalogs are, managed by hand
  or not, the import returns; it keeps the constraints; a package info of the catalog, of an entry
  with at least one munki catalog, is active with the data of its last entry, whether it is new,
  archived or there; one that is not in the catalog any more is still there with its data, archived.
\<close>

theorem sync_catalogs_exact:
  assumes "monolith_ok db" and "list_all (fitting_entry rp) entries"
  shows "\<exists>events db'. sync_catalogs rp now entries db = Inr (events, db') \<and> monolith_ok db' \<and>
     repository_view db' = catalog_view rp entries (repository_view db)"
proof -
  from assms obtain found st where st: "import_all (import_pkg_info_data rp) entries \<lparr>im_db = db, im_payloads = []\<rparr> = Inr (found, st)"
    "List.map_filter snd found = map text_key (catalog_keys rp entries)" "monolith_ok (im_db st)"
    "repository_view (im_db st) = fold (entry_update rp) entries (repository_view db)"
    using import_entries_ok [of "\<lparr>im_db = db, im_payloads = []\<rparr>" rp entries] by auto
  define st1 where "st1 = (if rp_manual_catalog_management rp then st else archive_catalogs now (concat (map fst found)) st)"
  have 1: "monolith_ok (im_db st1)" "repository_view (im_db st1) = repository_view (im_db st)"
    using archive_catalogs_ok [OF st(3)] st(3) by (simp_all add: st1_def)
  define st2 where "st2 = archive_pkg_infos now (map text_key (catalog_keys rp entries)) st1"
  have "repository_view (im_db st2) k = catalog_view rp entries (repository_view db) k" for k
    using archive_pkg_infos_ok [OF 1(1), of now "catalog_keys rp entries" k]
    by (auto simp: st2_def 1(2) st(4) fold_entry_update catalog_keys_find catalog_view_def split: option.splits)
  then have 2: "monolith_ok (im_db st2)" "repository_view (im_db st2) = catalog_view rp entries (repository_view db)"
    using archive_pkg_infos_ok [OF 1(1)] by (auto simp: st2_def)
  from bump_manifests_ok [OF 2(1)] 2(2) show ?thesis
    by (simp add: sync_catalogs_def st(1,2) Let_def flip: st1_def st2_def)
qed

text \<open>
  A repository with a version of Firefox that is replaced by a newer one, which was archived before,
  and a package that comes in with another that it requires.
\<close>

definition sample_repository :: repository where
  "sample_repository = \<lparr>rp_manual_catalog_management = False, rp_default_catalog = [], rp_module = ''local'', rp_isoformat = \<lambda>t. ''2021''\<rparr>"

definition sample_package :: "nat \<Rightarrow> string \<Rightarrow> int option \<Rightarrow> pkg_info" where
  "sample_package pk version archived =
     \<lparr>pi_pk = pk, pi_name = 1, pi_version = version, pi_catalogs = [1], pi_category = None, pi_requires = [],
      pi_update_for = [], pi_data = [(''name'', PStr ''Firefox''), (''version'', PStr version)], pi_archived_at = archived\<rparr>"

definition sample_monolith :: monolith_tables where
  "sample_monolith =
     \<lparr>mo_catalogs = [\<lparr>ca_pk = 1, ca_name = ''production'', ca_priority = 0, ca_archived_at = None\<rparr>], mo_categories = [],
      mo_pkg_info_names = [\<lparr>pn_pk = 1, pn_name = ''Firefox''\<rparr>],
      mo_pkg_infos = [sample_package 1 ''78'' None, sample_package 2 ''90'' (Some 5)],
      mo_sub_manifests = [], mo_sub_manifest_pkg_infos = [], mo_attachments = [], mo_manifests = [], mo_manifest_catalogs = [],
      mo_manifest_sub_manifests = [], mo_enrollment_packages = [], mo_cache_servers = [], mo_printers = []\<rparr>"

definition sample_entries :: "dict list" where
  "sample_entries =
     [[(''name'', PStr ''Firefox''), (''version'', PStr ''90''), (''catalogs'', PList [PStr '' production ''])],
      [(''name'', PStr ''Plugin''), (''version'', PStr ''1''), (''catalogs'', PList [PStr ''testing'']),
       (''requires'', PList [PStr ''Firefox'', PStr ''Flash'']), (''creation_date'', PTime 3)],
      [(''name'', PStr ''Nowhere''), (''version'', PStr ''2''), (''catalogs'', PList [])]]"

theorem sync_catalogs_exact_witness:
  "\<exists>events db'. sync_catalogs sample_repository 9 sample_entries sample_monolith = Inr (events, db') \<and> monolith_ok db' \<and>
     map (map_option fst \<circ> repository_view db') [(''Firefox'', ''78''), (''Firefox'', ''90''), (''Plugin'', ''1''), (''Nowhere'', ''2'')] =
       [Some False, Some True, Some True, None]"
proof -
  have ok: "monolith_ok sample_monolith" and fits: "list_all (fitting_entry sample_repository) sample_entries" by code_simp+
  have "map (map_option fst \<circ> catalog_view sample_repository sample_entries (repository_view sample_monolith))
      [(''Firefox'', ''78''), (''Firefox'', ''90''), (''Plugin'', ''1''), (''Nowhere'', ''2'')] = [Some False, Some True, Some True, None]"
    by code_simp
  then show ?thesis using sync_catalogs_exact [OF ok fits, of 9] by auto
qed

end
