(* ===== verification/MonolithCatalogs.thy ===== *)
theory MonolithCatalogs imports MonolithSync begin

text \<open>
  What a machine can download, and what its catalog lacks: the recursive queries for the packages of a
  manifest find what can be reached from the packages asked for, and the attachments of a catalog are
  one for each name, though every sub manifest has its own.
\<close>

subsection \<open>The packages that are needed\<close>

text \<open>The packages needed for some packages: those, what they require, and the updates for them.\<close>

inductive needed_for :: "pkg_info list \<Rightarrow> (pkg_info \<Rightarrow> bool) \<Rightarrow> pkg_info \<Rightarrow> bool" for rows root where
  asked: "p \<in> set rows \<Longrightarrow> root p \<Longrightarrow> needed_for rows root p"
| required: "needed_for rows root r \<Longrightarrow> p \<in> set rows \<Longrightarrow> pi_name p \<in> set (pi_requires r) \<Longrightarrow> needed_for rows root p"
| update: "needed_for rows root r \<Longrightarrow> p \<in> set rows \<Longrightarrow> pi_name r \<in> set (pi_update_for p) \<Longrightarrow> needed_for rows root p"

lemma needed_step:
  assumes "needed_for rows root r" and "p \<in> set rows" and "needed_by r p"
  shows "needed_for rows root p"
  using assms by (auto simp: needed_by_def intro: required update)

lemma needed_for_disj: "needed_for rows (\<lambda>p. f p \<or> g p) p \<longleftrightarrow> needed_for rows f p \<or> needed_for rows g p"
proof
  show "needed_for rows (\<lambda>p. f p \<or> g p) p \<Longrightarrow> needed_for rows f p \<or> needed_for rows g p"
    by (induction rule: needed_for.induct) (blast intro: needed_for.intros)+
next
  have "needed_for rows h p \<Longrightarrow> (\<And>q. h q \<Longrightarrow> f q \<or> g q) \<Longrightarrow> needed_for rows (\<lambda>p. f p \<or> g p) p" for h
    by (induction rule: needed_for.induct) (blast intro: needed_for.intros)+
  then show "needed_for rows f p \<or> needed_for rows g p \<Longrightarrow> needed_for rows (\<lambda>p. f p \<or> g p) p" by blast
qed

lemma closure_step:
  "with_deps_and_updates rows found =
     (if new_packages rows found = [] then found else with_deps_and_updates rows (found @ new_packages rows found))"
  by (subst with_deps_and_updates.simps) (simp add: Let_def)

lemma closure_induct [case_names Step]:
  assumes "\<And>found. (new_packages rows found \<noteq> [] \<Longrightarrow> P (found @ new_packages rows found)) \<Longrightarrow> P found"
  shows "P found"
proof -
  have "rows' = rows \<Longrightarrow> P found'" for rows' found'
    by (induction rows' found' rule: with_deps_and_updates.induct) (rule assms, blast)
  then show ?thesis by blast
qed

lemma found_kept: "set found \<subseteq> set (with_deps_and_updates rows found)"
proof (induction found rule: closure_induct [where rows = rows])
  case (Step found)
  then show ?case by (cases "new_packages rows found = []") (simp_all add: closure_step [of rows found])
qed

lemma found_closed:
  assumes "p \<in> set rows" and "needed_by r p"
  shows "r \<in> set (with_deps_and_updates rows found) \<Longrightarrow> p \<in> set (with_deps_and_updates rows found)"
proof (induction found rule: closure_induct [where rows = rows])
  case (Step found)
  show ?case
  proof (cases "new_packages rows found = []")
    case True
    with assms Step.prems show ?thesis
      by (auto simp: closure_step [of rows found] new_packages_def filter_empty_conv list_ex_iff)
  next
    case False
    then have eq: "with_deps_and_updates rows found = with_deps_and_updates rows (found @ new_packages rows found)"
      by (simp add: closure_step [of rows found])
    show ?thesis unfolding eq by (rule Step.IH [OF False]) (use Step.prems eq in simp)
  qed
qed

lemma found_needed:
  assumes "p \<in> set (with_deps_and_updates rows found)" and "\<And>q. q \<in> set found \<Longrightarrow> needed_for rows root q"
  shows "needed_for rows root p"
  using assms
proof (induction found rule: closure_induct [where rows = rows])
  case (Step found)
  show ?case
  proof (cases "new_packages rows found = []")
    case True
    with Step.prems show ?thesis by (simp add: closure_step [of rows found])
  next
    case False
    have "needed_for rows root q" if "q \<in> set (found @ new_packages rows found)" for q
      using that Step.prems(2) by (auto simp: new_packages_def list_ex_iff intro: needed_step)
    moreover have "with_deps_and_updates rows found = with_deps_and_updates rows (found @ new_packages rows found)"
      using False by (simp add: closure_step [of rows found])
    ultimately show ?thesis using Step.IH [OF False] Step.prems(1) by simp
  qed
qed

lemma with_deps_and_updates_iff:
  assumes "set found = {p \<in> set rows. root p}"
  shows "p \<in> set (with_deps_and_updates rows found) \<longleftrightarrow> needed_for rows root p"
proof
  show "needed_for rows root p \<Longrightarrow> p \<in> set (with_deps_and_updates rows found)"
  proof (induction rule: needed_for.induct)
    case (asked p)
    with assms found_kept show ?case by blast
  qed (auto simp: needed_by_def intro: found_closed)
qed (rule found_needed, use assms in \<open>auto intro: asked\<close>)

lemma map_filter_member: "x \<in> set (List.map_filter f rows) \<longleftrightarrow> list_ex (\<lambda>r. f r = Some x) rows"
  by (induction rows) (auto simp: List.map_filter_simps split: option.splits)

text \<open>What a manifest asks for, for the machines with some tags.\<close>

definition asked_for :: "monolith_conf \<Rightarrow> monolith_tables \<Rightarrow> nat list \<Rightarrow> nat \<Rightarrow> pkg_info \<Rightarrow> bool" where
  "asked_for cf db tags man p \<longleftrightarrow>
     list_ex (\<lambda>s. smp_pkg_info_name s = pi_name p \<and>
       list_ex (\<lambda>m. msm_sub_manifest m = smp_sub_manifest s) (manifest_sub_manifest_rows db tags man)) (mo_sub_manifest_pkg_infos db) \<or>
     list_ex (\<lambda>(b, e). pkg_name_of db (pi_name p) \<in> set (enrollment_package_requires cf e)) (manifest_enrollment_packages cf db tags man) \<or>
     list_ex (\<lambda>r. map_option (pkg_name_of db) (prn_required_package r) = Some (pkg_name_of db (pi_name p))) (manifest_printers db tags man) \<or>
     pkg_name_of db (pi_name p) \<in> set (mcf_default_managed_installs cf)"

text \<open>
  C20: A machine can download exactly the packages it needs. The recursive queries of a manifest find,
  for some tags, the packages that are asked for by a sub manifest in their scope, by the enrollment
  package chosen for a builder, by a printer or by default, with everything these require and all
  the updates for them, over any number of steps; of those, the ones in a catalog of the manifest in
  the scope of the tags. The catalogs count at the end only: a step can lead through a package that
  is in none of them.
\<close>

theorem manifest_packages_exact:
  "p \<in> set (manifest_packages cf db tags man) \<longleftrightarrow>
     needed_for (mo_pkg_infos db) (asked_for cf db tags man) p \<and>
     list_ex (\<lambda>mc. mc_catalog mc \<in> set (pi_catalogs p)) (manifest_catalog_rows db tags man)"
proof -
  let ?rows = "mo_pkg_infos db"
  let ?sub = "\<lambda>p. list_ex (\<lambda>s. smp_pkg_info_name s = pi_name p \<and>
       list_ex (\<lambda>m. msm_sub_manifest m = smp_sub_manifest s) (manifest_sub_manifest_rows db tags man)) (mo_sub_manifest_pkg_infos db)"
  let ?ep = "\<lambda>p. list_ex (\<lambda>(b, e). pkg_name_of db (pi_name p) \<in> set (enrollment_package_requires cf e)) (manifest_enrollment_packages cf db tags man)"
  let ?pr = "\<lambda>p. list_ex (\<lambda>r. map_option (pkg_name_of db) (prn_required_package r) = Some (pkg_name_of db (pi_name p))) (manifest_printers db tags man)"
  let ?def = "\<lambda>p. pkg_name_of db (pi_name p) \<in> set (mcf_default_managed_installs cf)"
  let ?in = "\<lambda>p. list_ex (\<lambda>mc. mc_catalog mc \<in> set (pi_catalogs p)) (manifest_catalog_rows db tags man)"
  have split: "asked_for cf db tags man = (\<lambda>p. ?sub p \<or> ?ep p \<or> ?pr p \<or> ?def p)"
    by (simp add: fun_eq_iff asked_for_def)
  have named: "p \<in> set (pkginfo_deps_and_updates db tags man names) \<longleftrightarrow>
      needed_for ?rows (\<lambda>p. pkg_name_of db (pi_name p) \<in> set names) p \<and> ?in p" for names
    using with_deps_and_updates_iff [of "with_name db (\<lambda>n. pkg_name_of db n \<in> set names)" ?rows "\<lambda>p. pkg_name_of db (pi_name p) \<in> set names" p]
    by (auto simp: pkginfo_deps_and_updates_def in_manifest_catalogs_def with_name_def)
  define names where "names = map smp_pkg_info_name (filter (\<lambda>s. smp_sub_manifest s \<in>
        set (map msm_sub_manifest (manifest_sub_manifest_rows db tags man))) (mo_sub_manifest_pkg_infos db))"
  have sub: "?sub = (\<lambda>p. pi_name p \<in> set names)"
    by (intro ext) (simp add: names_def list_ex_iff image_iff, metis)
  have "p \<in> set (pkginfos_with_deps_and_updates db tags man) \<longleftrightarrow> needed_for ?rows ?sub p \<and> ?in p"
    using with_deps_and_updates_iff [of "with_name db (\<lambda>n. n \<in> set names)" ?rows "\<lambda>p. pi_name p \<in> set names" p]
    unfolding sub by (auto simp: pkginfos_with_deps_and_updates_def in_manifest_catalogs_def with_name_def names_def Let_def)
  moreover have "p \<in> set (enrollment_packages_pkginfo_deps cf db tags man) \<longleftrightarrow> needed_for ?rows ?ep p \<and> ?in p"
    unfolding enrollment_packages_pkginfo_deps_def named by (simp add: list_ex_iff case_prod_unfold)
  moreover have "p \<in> set (printers_pkginfo_deps db tags man) \<longleftrightarrow> needed_for ?rows ?pr p \<and> ?in p"
    unfolding printers_pkginfo_deps_def named map_filter_member ..
  moreover have "p \<in> set (default_managed_installs_deps cf db tags man) \<longleftrightarrow> needed_for ?rows ?def p \<and> ?in p"
    unfolding default_managed_installs_deps_def named ..
  ultimately show ?thesis
    unfolding split needed_for_disj manifest_packages_def by auto
qed

subsection \<open>The attachments of a catalog\<close>

lemma set_first_by_name: "set (first_by_name rows) \<subseteq> set rows"
  by (induction rows rule: first_by_name.induct) auto

lemma first_by_name_one: "a \<in> set (first_by_name rows) \<Longrightarrow> b \<in> set (first_by_name rows) \<Longrightarrow> sma_name a = sma_name b \<Longrightarrow> a = b"
  by (induction rows rule: first_by_name.induct) auto

lemma first_by_name_has: "a \<in> set rows \<Longrightarrow> \<exists>b \<in> set (first_by_name rows). sma_name b = sma_name a"
proof (induction rows rule: first_by_name.induct)
  case (2 c r)
  show ?case
  proof (cases "sma_name c = sma_name a")
    case False
    with 2 obtain b where "b \<in> set (first_by_name r)" "sma_name b = sma_name a" by auto
    with False show ?thesis by (intro bexI [of _ b]) simp_all
  qed simp
qed simp

lemma first_by_name_least:
  assumes "sorted (map f rows)" and "a \<in> set (first_by_name rows)" and "b \<in> set rows" and "sma_name b = sma_name a"
  shows "f a \<le> f b"
  using assms
proof (induction rows rule: first_by_name.induct)
  case (2 c r)
  then show ?case using set_first_by_name [of r] by (auto split: if_splits)
qed simp

lemma newest_one: "a \<in> set (newest rows) \<Longrightarrow> b \<in> set (newest rows) \<Longrightarrow> sma_name a = sma_name b \<Longrightarrow> a = b"
  unfolding newest_def by (rule first_by_name_one)

lemma newest_version:
  assumes "a \<in> set (newest rows)" and "b \<in> set rows" and "sma_name b = sma_name a"
  shows "sma_version b \<le> sma_version a"
proof -
  let ?f = "\<lambda>a. (str_key (sma_name a), - int (sma_version a))"
  have "?f a \<le> ?f b"
    by (rule first_by_name_least [of ?f "sort_key ?f rows"]) (use assms in \<open>simp_all add: newest_def\<close>)
  with assms(3) show ?thesis by simp
qed

lemma newest_alone:
  assumes "b \<in> set rows" and "\<And>c. c \<in> set rows \<Longrightarrow> sma_name c = sma_name b \<Longrightarrow> c = b"
  shows "b \<in> set (newest rows)"
proof -
  have "b \<in> set (sort_key (\<lambda>a. (str_key (sma_name a), - int (sma_version a))) rows)" using assms(1) by simp
  then obtain c where c: "c \<in> set (newest rows)" "sma_name c = sma_name b"
    using first_by_name_has unfolding newest_def by blast
  then have "c \<in> set rows"
    unfolding newest_def using set_first_by_name [of "sort_key (\<lambda>a. (str_key (sma_name a), - int (sma_version a))) rows"] by auto
  with c assms(2) show ?thesis by metis
qed

text \<open>
  C38: An attachment can be missing from the catalog. Two sub manifests in the scope of a machine can
  each have an attachment of one name, and an attachment is named after its sub manifest, so these are
  two items. If that of the first is the newer one, the second sub manifest still lists its own among
  its items, but the catalog of the machine lacks it: the newest attachments are taken for each name
  over all the sub manifests together.
\<close>

theorem shared_attachment_name_lost:
  assumes "a \<in> set (mo_attachments db)" and "b \<in> set (mo_attachments db)"
    and "sma_name a = sma_name b" and "sma_version b < sma_version a"
    and "sma_sub_manifest a \<in> set (map sm_pk (manifest_sub_manifests db tags man))" and "sma_trashed_at b = None"
    and "\<And>c. c \<in> set (mo_attachments db) \<Longrightarrow> sma_sub_manifest c = sma_sub_manifest b \<Longrightarrow> sma_name c = sma_name b \<Longrightarrow> c = b"
  shows "AttachmentObject b \<in> set (sub_manifest_objects db (sma_sub_manifest b)) \<and> b \<notin> set (catalog_attachments db tags man)"
proof
  have "b \<in> set (active_attachments (sma_sub_manifest b) db)"
    unfolding active_attachments_def by (rule newest_alone) (use assms(2,6,7) in auto)
  then show "AttachmentObject b \<in> set (sub_manifest_objects db (sma_sub_manifest b))"
    by (simp add: sub_manifest_objects_def)
  show "b \<notin> set (catalog_attachments db tags man)"
  proof
    assume "b \<in> set (catalog_attachments db tags man)"
    then have "sma_version a \<le> sma_version b"
      unfolding catalog_attachments_def by (rule newest_version) (use assms(1,3,5) in auto)
    with assms(4) show False by simp
  qed
qed

definition wifi_profile :: "nat \<Rightarrow> nat \<Rightarrow> nat \<Rightarrow> sub_manifest_attachment" where
  "wifi_profile pk sm version =
     \<lparr>sma_pk = pk, sma_sub_manifest = sm, sma_key = ''managed_installs'', sma_type = ConfigurationProfile, sma_name = ''Wi-Fi'',
      sma_featured_item = False, sma_condition = None, sma_version = version, sma_file = [],
      sma_pkg_info = [(''version'', PStr (nat_str version @ ''.0''))], sma_trashed_at = None\<rparr>"

definition two_sub_manifests :: monolith_tables where
  "two_sub_manifests = sample_monolith
     \<lparr>mo_sub_manifests := map (\<lambda>k. \<lparr>sm_pk = k, sm_meta_business_unit = None, sm_name = ''office''\<rparr>) [1, 2],
      mo_manifest_sub_manifests := map (\<lambda>k. \<lparr>msm_pk = k, msm_manifest = 1, msm_sub_manifest = k, msm_tags = []\<rparr>) [1, 2],
      mo_attachments := [wifi_profile 1 1 2, wifi_profile 2 2 1]\<rparr>"

theorem shared_attachment_name_lost_witness:
  "AttachmentObject (wifi_profile 2 2 1) \<in> set (sub_manifest_objects two_sub_manifests 2) \<and>
   wifi_profile 2 2 1 \<notin> set (catalog_attachments two_sub_manifests [] 1) \<and>
   attachment_name (wifi_profile 2 2 1) = ''sub manifest 2 configuration profile Wi_Fi'' \<and>
   attachment_name (wifi_profile 1 1 2) = ''sub manifest 1 configuration profile Wi_Fi''"
proof -
  have "AttachmentObject (wifi_profile 2 2 1) \<in> set (sub_manifest_objects two_sub_manifests (sma_sub_manifest (wifi_profile 2 2 1))) \<and>
      wifi_profile 2 2 1 \<notin> set (catalog_attachments two_sub_manifests [] 1)"
  proof (rule shared_attachment_name_lost [where a = "wifi_profile 1 1 2"])
    show "sma_sub_manifest (wifi_profile 1 1 2) \<in> set (map sm_pk (manifest_sub_manifests two_sub_manifests [] 1))"
      by code_simp
  qed (auto simp: two_sub_manifests_def wifi_profile_def)
  moreover have "sma_sub_manifest (wifi_profile 2 2 1) = 2" by (simp add: wifi_profile_def)
  moreover have "attachment_name (wifi_profile 2 2 1) = ''sub manifest 2 configuration profile Wi_Fi''"
    "attachment_name (wifi_profile 1 1 2) = ''sub manifest 1 configuration profile Wi_Fi''" by code_simp+
  ultimately show ?thesis by simp
qed

end
