(* ===== verification/MonolithViews.thy ===== *)
theory MonolithViews imports MonolithModels begin

text \<open>
  The endpoints for munki of \<open>zentral/contrib/monolith/views.py\<close>: \<open>MRBaseView\<close> with the enrollment of a
  machine, and the views of a catalog, of the manifests and of the packages. A request is one
  transaction: when it raises, the tables are rolled back, and the cache and the events posted are
  kept. What a repository, the storage of the files and the inventory answer is left open.
\<close>

subsection \<open>State\<close>

record monolith_machine =
  mom_pk :: nat
  mom_enrollment :: nat
  mom_serial_number :: string

text \<open>\<open>mdb_enrollment_manifests\<close> is the column of the manifest of the enrollments.\<close>

record monolith_db =
  mdb_tables :: monolith_tables
  mdb_machines :: "monolith_machine list"
  mdb_enrollment_manifests :: "(nat \<times> nat) list"
  mdb_enrollment_db :: enrollment_db
  mdb_machine_tags :: "(string \<times> nat) list"

text \<open>
  What is put in the cache, each with the time it expires, if it does: a machine with its manifest as
  it was, and its tags; a property list; the name and the manifest of a sub manifest; the file of an
  enrollment package; the name of a sub manifest and an attachment; the name, the version and the
  location of a package; the current cache servers.
\<close>

datatype cached_value =
    CachedMachine monolith_machine manifest "nat list"
  | CachedPlist pyval
  | CachedSubManifest "string option" "dict option"
  | CachedFilename "string option"
  | CachedAttachment "string option" "sub_manifest_attachment option"
  | CachedPackage "string option" "string option" pyval
  | CachedServers "cache_server list"

type_synonym munki_cache = "(string \<times> cached_value \<times> int option) list"

record munki_state =
  mus_db :: monolith_db
  mus_cache :: munki_cache
  mus_events :: "event list"

text \<open>The clock and the random values, the meta business units of the inventory, and the settings.\<close>

record munki_env =
  mue_now :: int
  mue_uuid :: "nat \<Rightarrow> string"
  mue_valid_ip :: "string \<Rightarrow> bool"
  mue_mbu_serialize :: "nat \<Rightarrow> dict"
  mue_mbu_tags :: "string \<Rightarrow> nat list"
  mue_conf :: monolith_conf
  mue_signed_urls :: bool

text \<open>
  A response: a property list, a file of the storage or its address, the answer of the repository for a
  section, a name and a cache server, and the two refusals.
\<close>

datatype munki_response =
    PlistResponse pyval
  | FileContents string
  | FileRedirect string
  | RepositoryResponse string pyval "cache_server option"
  | NotFound
  | Forbidden

definition munki_cache_get :: "int \<Rightarrow> string \<Rightarrow> munki_cache \<Rightarrow> cached_value option" where
  "munki_cache_get now k cache =
     (case dict_get cache k of
        None \<Rightarrow> None
      | Some (v, None) \<Rightarrow> Some v
      | Some (v, Some t) \<Rightarrow> if now < t then Some v else None)"

subsection \<open>The machine of a request\<close>

definition last_word :: "string \<Rightarrow> string" where
  "last_word s = rev (takeWhile (\<lambda>c. \<not> is_space c) (rev (strip s)))"

definition get_secret :: "(string \<times> string) list \<Rightarrow> pyerror + string" where
  "get_secret meta =
     (case dict_get meta ''HTTP_AUTHORIZATION'' of
        None \<Rightarrow> Inl (PermissionDenied ''Could not read enrollment secret'')
      | Some v \<Rightarrow>
          if last_word v = [] then Inl (PermissionDenied ''Could not read enrollment secret'') else Inr (last_word v))"

definition munki_serial_number :: "(string \<times> string) list \<Rightarrow> pyerror + string" where
  "munki_serial_number meta =
     (case dict_get meta ''HTTP_X_ZENTRAL_SERIAL_NUMBER'' of
        None \<Rightarrow> Inl (PermissionDenied ''Missing custom serial number header'')
      | Some v \<Rightarrow> Inr (strip v))"

definition munki_uuid :: "(string \<times> string) list \<Rightarrow> pyerror + string" where
  "munki_uuid meta =
     (case dict_get meta ''HTTP_X_ZENTRAL_UUID'' of
        None \<Rightarrow> Inl (PermissionDenied ''Missing custom UUID header'')
      | Some v \<Rightarrow> Inr (strip v))"

definition monolith_verified ::
  "(pyerror + enrollment_secret_request) \<times> event list \<times> enrollment_db \<Rightarrow> (enrollment_secret_request \<times> enrollment_db) posted" where
  "monolith_verified answer =
     (case answer of
        (Inl (EnrollmentSecretVerificationFailed _), evs, _) \<Rightarrow>
          (Inl (PermissionDenied ''Enrollment secret verification failed''), evs)
      | (Inl e, evs, _) \<Rightarrow> (Inl e, evs)
      | (Inr esr, evs, edb) \<Rightarrow> (Inr (esr, edb), evs))"

definition MonolithEnrollmentEvent :: event_class where
  "MonolithEnrollmentEvent = \<lparr>event_type = ''monolith_enrollment'', namespace = None, class_tags = [''monolith'']\<rparr>"

definition MonolithMunkiRequestEvent :: event_class where
  "MonolithMunkiRequestEvent =
     \<lparr>event_type = ''monolith_munki_request'', namespace = None, class_tags = [''monolith'', ''heartbeat'']\<rparr>"

text \<open>The sender of a request: the user agent and the address.\<close>

definition munki_events :: "event_class \<Rightarrow> munki_env \<Rightarrow> nat \<Rightarrow> string \<Rightarrow> string \<times> string \<Rightarrow> dict \<Rightarrow> event list" where
  "munki_events c env i serial_number sender payload =
     build_from_machine_request_payloads c (mue_uuid env i) (mue_now env) (Some serial_number)
       (Some (fst sender)) (Some (snd sender)) [payload] None None"

definition munki_machine_row :: "string \<Rightarrow> string \<Rightarrow> monolith_db \<Rightarrow> pyerror + monolith_machine" where
  "munki_machine_row secret serial_number db =
     get_one (\<lambda>m. mom_serial_number m = serial_number \<and>
         list_ex (\<lambda>en. enr_model en = ''monolith_enrollment'' \<and> enr_pk en = mom_enrollment m \<and>
             list_ex (\<lambda>es. es_pk es = enr_secret en \<and> es_secret es = secret) (enrollment_secrets (mdb_enrollment_db db)))
           (enrollments (mdb_enrollment_db db)))
       (mdb_machines db)"

definition munki_machine_manifest :: "monolith_db \<Rightarrow> monolith_machine \<Rightarrow> pyerror + manifest" where
  "munki_machine_manifest db m =
     (case dict_get (mdb_enrollment_manifests db) (mom_enrollment m) of
        None \<Rightarrow> Inl DoesNotExist
      | Some pk \<Rightarrow> get_one (\<lambda>r. man_pk r = pk) (mo_manifests (mdb_tables db)))"

definition tag_munki_machine :: "string \<Rightarrow> nat list \<Rightarrow> monolith_db \<Rightarrow> monolith_db" where
  "tag_munki_machine serial_number tags db =
     db\<lparr>mdb_machine_tags := fold (\<lambda>t rows. if (serial_number, t) \<in> set rows then rows else rows @ [(serial_number, t)])
          tags (mdb_machine_tags db)\<rparr>"

definition create_munki_machine :: "nat \<Rightarrow> string \<Rightarrow> monolith_db \<Rightarrow> monolith_machine \<times> monolith_db" where
  "create_munki_machine enrollment serial_number db =
     (let m = \<lparr>mom_pk = fresh_pk (map mom_pk (mdb_machines db)), mom_enrollment = enrollment, mom_serial_number = serial_number\<rparr>
      in (m, db\<lparr>mdb_machines := mdb_machines db @ [m]\<rparr>))"

text \<open>The machine of an enrollment: one that is new gets the tags of the secret.\<close>

definition get_or_create_munki_machine ::
  "munki_env \<Rightarrow> string \<times> string \<Rightarrow> enrollment_secret \<Rightarrow> enrollment \<Rightarrow> string \<Rightarrow> monolith_db \<Rightarrow> (monolith_machine \<times> monolith_db) posted" where
  "get_or_create_munki_machine env sender es en serial_number db =
     (case get_one (\<lambda>m. mom_enrollment m = enr_pk en \<and> mom_serial_number m = serial_number) (mdb_machines db) of
        Inl DoesNotExist \<Rightarrow>
          (case create_munki_machine (enr_pk en) serial_number db of
             (m, db') \<Rightarrow>
               (Inr (m, tag_munki_machine serial_number (map fst (es_tags es)) db'),
                munki_events MonolithEnrollmentEvent env 1 serial_number sender [(''action'', PStr ''enrollment'')]))
      | Inl e \<Rightarrow> quiet (Inl e)
      | Inr m \<Rightarrow> quiet (Inr (m, db)))"

definition enroll_munki_machine ::
  "munki_env \<Rightarrow> string \<times> string \<Rightarrow> (string \<times> string) list \<Rightarrow> string \<Rightarrow> string \<Rightarrow> monolith_db \<Rightarrow> (monolith_machine \<times> monolith_db) posted" where
  "enroll_munki_machine env sender meta secret serial_number db =
     bind_posted (quiet (munki_uuid meta)) (\<lambda>uuid.
     bind_posted
       (monolith_verified (verify_enrollment_secret (mue_now env) (mue_uuid env 0) (mue_mbu_serialize env) ''monolith_enrollment''
          secret (fst sender) (snd sender) (Some serial_number) (Some uuid) None (\<lambda>_ _. True) (mdb_enrollment_db db))) (\<lambda>verified_secret.
     bind_posted
       (quiet (get_one (\<lambda>es. es_pk es = esr_enrollment_secret (fst verified_secret)) (enrollment_secrets (snd verified_secret)))) (\<lambda>es.
     bind_posted (quiet (enrollment_of ''monolith_enrollment'' es (snd verified_secret))) (\<lambda>en.
       get_or_create_munki_machine env sender es en serial_number (db\<lparr>mdb_enrollment_db := snd verified_secret\<rparr>)))))"

definition munki_tag_ids :: "munki_env \<Rightarrow> string \<Rightarrow> monolith_db \<Rightarrow> nat list" where
  "munki_tag_ids env serial_number db =
     remdups (map snd (filter (\<lambda>t. fst t = serial_number) (mdb_machine_tags db)) @ mue_mbu_tags env serial_number)"

text \<open>The machine in the tables, or one that is enrolled, with its manifest and its tags; they are cached for ten minutes.\<close>

definition stored_munki_machine ::
  "munki_env \<Rightarrow> string \<times> string \<Rightarrow> (string \<times> string) list \<Rightarrow> string \<Rightarrow> string \<Rightarrow> monolith_db \<Rightarrow> (monolith_machine \<times> monolith_db) posted" where
  "stored_munki_machine env sender meta secret serial_number db =
     (case munki_machine_row secret serial_number db of
        Inl DoesNotExist \<Rightarrow> enroll_munki_machine env sender meta secret serial_number db
      | Inl e \<Rightarrow> quiet (Inl e)
      | Inr m \<Rightarrow> quiet (Inr (m, db)))"

definition load_munki_machine ::
  "munki_env \<Rightarrow> string \<times> string \<Rightarrow> (string \<times> string) list \<Rightarrow> string \<Rightarrow> string \<Rightarrow> munki_state \<Rightarrow>
   ((monolith_machine \<times> manifest \<times> nat list) \<times> monolith_db \<times> munki_cache) posted" where
  "load_munki_machine env sender meta secret serial_number st =
     bind_posted (stored_munki_machine env sender meta secret serial_number (mus_db st)) (\<lambda>stored.
     bind_posted (quiet (munki_machine_manifest (snd stored) (fst stored))) (\<lambda>man.
       (let tags = munki_tag_ids env serial_number (snd stored) in
        quiet (Inr ((fst stored, man, tags), snd stored,
          dict_set (secret @ serial_number) (CachedMachine (fst stored) man tags, Some (mue_now env + 600)) (mus_cache st))))))"

text \<open>
  The machine of a request, from the cache or the tables. A pair or another value of the cache under
  the key is no machine.
\<close>

definition get_enrolled_machine_and_tags ::
  "munki_env \<Rightarrow> string \<times> string \<Rightarrow> (string \<times> string) list \<Rightarrow> munki_state \<Rightarrow>
   ((monolith_machine \<times> manifest \<times> nat list) \<times> monolith_db \<times> munki_cache) posted" where
  "get_enrolled_machine_and_tags env sender meta st =
     bind_posted (quiet (get_secret meta)) (\<lambda>secret.
     bind_posted (quiet (munki_serial_number meta)) (\<lambda>serial_number.
       case munki_cache_get (mue_now env) (secret @ serial_number) (mus_cache st) of
         None \<Rightarrow> load_munki_machine env sender meta secret serial_number st
       | Some (CachedFilename None) \<Rightarrow> load_munki_machine env sender meta secret serial_number st
       | Some (CachedMachine m man tags) \<Rightarrow> quiet (Inr ((m, man, tags), mus_db st, mus_cache st))
       | Some (CachedSubManifest n d) \<Rightarrow> quiet (Inl AttributeError)
       | Some (CachedAttachment n a) \<Rightarrow> quiet (Inl AttributeError)
       | Some _ \<Rightarrow> quiet (Inl ValueError)))"

subsection \<open>Names\<close>

datatype munki_view = MRCatalogView | MRManifestView | MRPackageView | MRRedirectView string

fun event_payload_type :: "munki_view \<Rightarrow> string" where
  "event_payload_type MRCatalogView = ''catalog''"
| "event_payload_type MRManifestView = ''manifest''"
| "event_payload_type MRPackageView = ''package''"
| "event_payload_type (MRRedirectView section) = section"

text \<open>A name that is none is the first request for the manifest.\<close>

definition get_request_args :: "munki_view \<Rightarrow> manifest \<Rightarrow> string \<Rightarrow> (string \<times> munki_key) option" where
  "get_request_args view man name =
     (case parse_munki_name name of
        Some a \<Rightarrow> Some a
      | None \<Rightarrow> if view = MRManifestView then Some (''manifest'', MunkiKey (int (man_pk man))) else None)"

definition get_cache_key :: "manifest \<Rightarrow> nat list \<Rightarrow> string \<Rightarrow> munki_key \<Rightarrow> string" where
  "get_cache_key man tags model key =
     join_with ''.''
       ([''monolith'', nat_str (man_pk man), nat_str (man_version man)] @ map nat_str (sort tags) @ [model] @
        (case key of MunkiKey k \<Rightarrow> [int_str k] | MunkiKeys ks \<Rightarrow> map int_str ks))"

fun munki_key_value :: "munki_key \<Rightarrow> pyval" where
  "munki_key_value (MunkiKey k) = PInt k"
| "munki_key_value (MunkiKeys ks) = PList (map PInt ks)"

text \<open>A primary key to look for: a list is refused.\<close>

fun single_key :: "munki_key \<Rightarrow> pyerror + int" where
  "single_key (MunkiKey k) = Inr k"
| "single_key (MunkiKeys ks) = Inl TypeError"

text \<open>
  What a view makes of a name: the response if there is one, whether it comes from the cache, and the
  items of the event; or an error. The cache is kept in both cases. The keys of the cache have the
  model, so that each kind of value has its own.
\<close>

type_synonym munki_answer = "(pyerror + munki_response option \<times> bool \<times> dict) \<times> munki_cache"

definition text_item :: "string \<Rightarrow> string option \<Rightarrow> dict" where
  "text_item k v = (case v of None \<Rightarrow> [] | Some s \<Rightarrow> [(k, PStr s)])"

subsection \<open>Catalogs and manifests\<close>

definition catalog_do_get ::
  "munki_env \<Rightarrow> monolith_tables \<Rightarrow> manifest \<Rightarrow> nat list \<Rightarrow> string \<Rightarrow> munki_key \<Rightarrow> string \<Rightarrow> munki_cache \<Rightarrow> munki_answer" where
  "catalog_do_get env db man tags model key ck cache =
     (if model = ''manifest_catalog'' \<and> key = MunkiKey (int (man_pk man))
      then case munki_cache_get (mue_now env) ck cache of
             Some (CachedPlist p) \<Rightarrow> (Inr (Some (PlistResponse p), True, []), cache)
           | _ \<Rightarrow>
               (case serialize_catalog (mue_conf env) db tags (man_pk man) of
                  Inl e \<Rightarrow> (Inl e, cache)
                | Inr p \<Rightarrow> (Inr (Some (PlistResponse p), False, []), dict_set ck (CachedPlist p, None) cache))
      else (Inr (None, False, []), cache))"

definition main_manifest_do_get ::
  "munki_env \<Rightarrow> monolith_tables \<Rightarrow> manifest \<Rightarrow> nat list \<Rightarrow> string \<Rightarrow> munki_cache \<Rightarrow> munki_answer" where
  "main_manifest_do_get env db man tags ck cache =
     (case munki_cache_get (mue_now env) ck cache of
        Some (CachedPlist p) \<Rightarrow> (Inr (Some (PlistResponse p), True, []), cache)
      | _ \<Rightarrow>
          (case serialize_manifest (mue_conf env) db tags man of
             Inl e \<Rightarrow> (Inl e, cache)
           | Inr p \<Rightarrow> (Inr (Some (PlistResponse p), False, []), dict_set ck (CachedPlist p, None) cache)))"

definition sub_manifest_answer :: "munki_key \<Rightarrow> string option \<Rightarrow> dict option \<Rightarrow> bool \<Rightarrow> munki_response option \<times> bool \<times> dict" where
  "sub_manifest_answer key name data hit =
     (map_option (PlistResponse \<circ> PDict) data, hit,
      [(''sub_manifest'', PDict ((''id'', munki_key_value key) # (if truthy_str name then text_item ''name'' name else [])))])"

definition sub_manifest_do_get ::
  "munki_env \<Rightarrow> monolith_tables \<Rightarrow> manifest \<Rightarrow> nat list \<Rightarrow> munki_key \<Rightarrow> string \<Rightarrow> munki_cache \<Rightarrow> munki_answer" where
  "sub_manifest_do_get env db man tags key ck cache =
     (case munki_cache_get (mue_now env) ck cache of
        Some (CachedSubManifest name data) \<Rightarrow> (Inr (sub_manifest_answer key name data True), cache)
      | _ \<Rightarrow>
          (case bind_result (single_key key) (get_sub_manifest db tags (man_pk man)) of
             Inl e \<Rightarrow> (Inl e, cache)
           | Inr sm \<Rightarrow>
               (let name = map_option sm_name sm; data = map_option (serialize_sub_manifest db) sm in
                (Inr (sub_manifest_answer key name data False), dict_set ck (CachedSubManifest name data, None) cache))))"

definition manifest_do_get ::
  "munki_env \<Rightarrow> monolith_tables \<Rightarrow> manifest \<Rightarrow> nat list \<Rightarrow> string \<Rightarrow> munki_key \<Rightarrow> string \<Rightarrow> munki_cache \<Rightarrow> munki_answer" where
  "manifest_do_get env db man tags model key ck cache =
     (if model = ''manifest'' then main_manifest_do_get env db man tags ck cache
      else if model = ''sub_manifest'' then sub_manifest_do_get env db man tags key ck cache
      else (Inr (None, False, []), cache))"

subsection \<open>Packages\<close>

definition current_cache_servers :: "int \<Rightarrow> nat \<Rightarrow> int \<Rightarrow> monolith_tables \<Rightarrow> cache_server list" where
  "current_cache_servers now man max_age db =
     filter (\<lambda>cs. cs_manifest cs = man \<and> now - max_age \<le> cs_updated_at cs) (mo_cache_servers db)"

text \<open>
  The cache server with the address of the request: a cache server has no attribute \<open>ip\<close>, so there is
  an error as soon as there is one.
\<close>

definition get_cache_server ::
  "munki_env \<Rightarrow> monolith_tables \<Rightarrow> manifest \<Rightarrow> munki_cache \<Rightarrow> (pyerror + cache_server option) \<times> munki_cache" where
  "get_cache_server env db man cache =
     (let ck = ''monolith.'' @ nat_str (man_pk man) @ ''.cache-servers'';
          (servers, cache') =
            (case munki_cache_get (mue_now env) ck cache of
               Some (CachedServers l) \<Rightarrow> (l, cache)
             | _ \<Rightarrow>
                 (let l = current_cache_servers (mue_now env) (man_pk man) 300 db in
                  (l, dict_set ck (CachedServers l, Some (mue_now env + 300)) cache)))
      in (if servers = [] then Inr None else Inl AttributeError, cache'))"

definition file_response :: "munki_env \<Rightarrow> string \<Rightarrow> munki_response" where
  "file_response env f = (if mue_signed_urls env then FileRedirect f else FileContents f)"

definition enrollment_pkg_answer :: "munki_env \<Rightarrow> munki_key \<Rightarrow> string option \<Rightarrow> bool \<Rightarrow> munki_response option \<times> bool \<times> dict" where
  "enrollment_pkg_answer env key filename hit =
     (if truthy_str filename then map_option (file_response env) filename else None, hit,
      [(''manifest_enrollment_package'',
        PDict ((''id'', munki_key_value key) # (if truthy_str filename then text_item ''filename'' filename else [])))])"

definition enrollment_pkg_do_get ::
  "munki_env \<Rightarrow> monolith_tables \<Rightarrow> manifest \<Rightarrow> munki_key \<Rightarrow> string \<Rightarrow> munki_cache \<Rightarrow> munki_answer" where
  "enrollment_pkg_do_get env db man key ck cache =
     (case munki_cache_get (mue_now env) ck cache of
        Some (CachedFilename (Some f)) \<Rightarrow> (Inr (enrollment_pkg_answer env key (Some f) True), cache)
      | _ \<Rightarrow>
          (case single_key key of
             Inl e \<Rightarrow> (Inl e, cache)
           | Inr pk \<Rightarrow>
               (case get_one (\<lambda>e. mep_manifest e = man_pk man \<and> int (mep_pk e) = pk) (mo_enrollment_packages db) of
                  Inl DoesNotExist \<Rightarrow>
                    (Inr (enrollment_pkg_answer env key None False), dict_set ck (CachedFilename None, None) cache)
                | Inl e \<Rightarrow> (Inl e, cache)
                | Inr mep \<Rightarrow>
                    (Inr (enrollment_pkg_answer env key (Some (mep_file mep)) False),
                     dict_set ck (CachedFilename (Some (mep_file mep)), None) cache))))"

text \<open>The active attachment with the name of the one that is asked for, which may have been replaced.\<close>

definition find_attachment :: "monolith_tables \<Rightarrow> nat \<Rightarrow> int \<Rightarrow> sub_manifest_attachment option" where
  "find_attachment db sm pk =
     (case get_one (\<lambda>a. sma_sub_manifest a = sm \<and> int (sma_pk a) = pk) (mo_attachments db) of
        Inl _ \<Rightarrow> None
      | Inr req \<Rightarrow> find (\<lambda>a. sma_name a = sma_name req) (active_attachments sm db))"

definition attachment_answer ::
  "munki_env \<Rightarrow> int \<Rightarrow> int \<Rightarrow> string option \<Rightarrow> sub_manifest_attachment option \<Rightarrow> bool \<Rightarrow> munki_response option \<times> bool \<times> dict" where
  "attachment_answer env sm_id sma_id name sma hit =
     (map_option (file_response env \<circ> sma_file) sma, hit,
      [(''sub_manifest'', PDict ((''id'', PInt sm_id) # (if truthy_str name then text_item ''name'' name else []))),
       (''sub_manifest_attachment'', PDict ((''req_id'', PInt sma_id) #
          (case sma of
             None \<Rightarrow> []
           | Some a \<Rightarrow> [(''id'', PInt (int (sma_pk a))), (''name'', PStr (sma_name a)), (''filename'', PStr (sma_file a))])))])"

text \<open>The key has the sub manifest and the attachment: one that is not a list cannot be unpacked.\<close>

definition attachment_do_get ::
  "munki_env \<Rightarrow> monolith_tables \<Rightarrow> manifest \<Rightarrow> nat list \<Rightarrow> munki_key \<Rightarrow> string \<Rightarrow> munki_cache \<Rightarrow> munki_answer" where
  "attachment_do_get env db man tags key ck cache =
     (case key of
        MunkiKeys [sm_id, sma_id] \<Rightarrow>
          (case munki_cache_get (mue_now env) ck cache of
             Some (CachedAttachment name sma) \<Rightarrow> (Inr (attachment_answer env sm_id sma_id name sma True), cache)
           | _ \<Rightarrow>
               (case get_sub_manifest db tags (man_pk man) sm_id of
                  Inl e \<Rightarrow> (Inl e, cache)
                | Inr sm \<Rightarrow>
                    (let name = map_option sm_name sm;
                         sma = Option.bind sm (\<lambda>r. find_attachment db (sm_pk r) sma_id)
                     in (Inr (attachment_answer env sm_id sma_id name sma False), dict_set ck (CachedAttachment name sma, None) cache))))
      | MunkiKeys ks \<Rightarrow> (Inl ValueError, cache)
      | MunkiKey k \<Rightarrow> (Inl TypeError, cache))"

definition package_answer ::
  "munki_env \<Rightarrow> monolith_tables \<Rightarrow> manifest \<Rightarrow> munki_key \<Rightarrow> string option \<Rightarrow> string option \<Rightarrow> pyval \<Rightarrow> bool \<Rightarrow> munki_cache \<Rightarrow> munki_answer" where
  "package_answer env db man key name version iil hit cache =
     (let items = [(''repository_package'', PDict ((''id'', munki_key_value key) # text_item ''name'' name @ text_item ''version'' version))] in
      if truthy iil
      then case get_cache_server env db man cache of
             (Inl e, cache') \<Rightarrow> (Inl e, cache')
           | (Inr cs, cache') \<Rightarrow> (Inr (Some (RepositoryResponse ''pkgs'' iil cs), hit, items), cache')
      else (Inr (None, hit, items), cache))"

definition repository_package_do_get ::
  "munki_env \<Rightarrow> monolith_tables \<Rightarrow> manifest \<Rightarrow> nat list \<Rightarrow> munki_key \<Rightarrow> string \<Rightarrow> munki_cache \<Rightarrow> munki_answer" where
  "repository_package_do_get env db man tags key ck cache =
     (case munki_cache_get (mue_now env) ck cache of
        Some (CachedPackage name version iil) \<Rightarrow> package_answer env db man key name version iil True cache
      | _ \<Rightarrow>
          (case find (\<lambda>p. MunkiKey (int (pi_pk p)) = key) (manifest_packages (mue_conf env) db tags (man_pk man)) of
             None \<Rightarrow> package_answer env db man key None None PNone False (dict_set ck (CachedPackage None None PNone, None) cache)
           | Some p \<Rightarrow>
               (case request_item (pi_data p) ''installer_item_location'' of
                  Inl e \<Rightarrow> (Inl e, cache)
                | Inr iil \<Rightarrow>
                    (let name = Some (pkg_name_of db (pi_name p)); version = Some (pi_version p) in
                     package_answer env db man key name version iil False
                       (dict_set ck (CachedPackage name version iil, None) cache)))))"

definition package_do_get ::
  "munki_env \<Rightarrow> monolith_tables \<Rightarrow> manifest \<Rightarrow> nat list \<Rightarrow> string \<Rightarrow> munki_key \<Rightarrow> string \<Rightarrow> munki_cache \<Rightarrow> munki_answer" where
  "package_do_get env db man tags model key ck cache =
     (if model = ''enrollment_pkg'' then enrollment_pkg_do_get env db man key ck cache
      else if model = ''sub_manifest_attachment'' then attachment_do_get env db man tags key ck cache
      else if model = ''repository_package'' then repository_package_do_get env db man tags key ck cache
      else (Inr (None, False, []), cache))"

subsection \<open>A request\<close>

definition munki_request_event ::
  "munki_env \<Rightarrow> string \<times> string \<Rightarrow> monolith_machine \<Rightarrow> manifest \<Rightarrow> dict \<Rightarrow> event list" where
  "munki_request_event env sender m man payload =
     munki_events MonolithMunkiRequestEvent env 2 (mom_serial_number m) sender
       (payload @ [(''manifest'', PDict
          [(''id'', PInt (int (man_pk man))), (''name'', PStr (man_name man)), (''version'', PInt (int (man_version man)))])])"

definition do_get ::
  "munki_env \<Rightarrow> munki_view \<Rightarrow> monolith_tables \<Rightarrow> manifest \<Rightarrow> nat list \<Rightarrow> string \<Rightarrow> munki_key \<Rightarrow> string \<Rightarrow> munki_cache \<Rightarrow> munki_answer" where
  "do_get env view db man tags model key ck cache =
     (case view of
        MRCatalogView \<Rightarrow> catalog_do_get env db man tags model key ck cache
      | MRManifestView \<Rightarrow> manifest_do_get env db man tags model key ck cache
      | MRPackageView \<Rightarrow> package_do_get env db man tags model key ck cache
      | MRRedirectView section \<Rightarrow> (Inr (None, False, []), cache))"

text \<open>The response to a name, with the payload of the event, and the cache.\<close>

definition named_get ::
  "munki_env \<Rightarrow> munki_view \<Rightarrow> monolith_tables \<Rightarrow> manifest \<Rightarrow> nat list \<Rightarrow> string \<Rightarrow> munki_cache \<Rightarrow>
   (pyerror + munki_response \<times> dict) \<times> munki_cache" where
  "named_get env view db man tags name cache =
     (let payload = [(''type'', PStr (event_payload_type view)), (''name'', PStr name)] in
      case get_request_args view man name of
        None \<Rightarrow> (Inr (Forbidden, payload @ [(''error'', PBool True)]), cache)
      | Some (model, key) \<Rightarrow>
          (let ck = get_cache_key man tags model key in
           case do_get env view db man tags model key ck cache of
             (Inl e, cache') \<Rightarrow> (Inl e, cache')
           | (Inr (response, hit, items), cache') \<Rightarrow>
               (Inr (case response of None \<Rightarrow> NotFound | Some r \<Rightarrow> r,
                     payload @ [(''subtype'', PStr model), (''cache'', PDict [(''key'', PStr ck), (''hit'', PBool hit)])] @
                     items @ [(''error'', PBool (response = None))]),
                cache')))"

definition view_get ::
  "munki_env \<Rightarrow> munki_view \<Rightarrow> monolith_tables \<Rightarrow> manifest \<Rightarrow> nat list \<Rightarrow> string \<Rightarrow> munki_cache \<Rightarrow>
   (pyerror + munki_response \<times> dict) \<times> munki_cache" where
  "view_get env view db man tags name cache =
     (case view of
        MRRedirectView section \<Rightarrow>
          (Inr (RepositoryResponse section (PStr name) None, [(''type'', PStr section), (''name'', PStr name)]), cache)
      | _ \<Rightarrow> named_get env view db man tags name cache)"

definition munki_get ::
  "munki_env \<Rightarrow> munki_view \<Rightarrow> (string \<times> string) list \<Rightarrow> string \<Rightarrow> munki_state \<Rightarrow> (pyerror + munki_response) \<times> munki_state" where
  "munki_get env view meta name st =
     (let sender = user_agent_and_ip_address_from_request (mue_valid_ip env) meta in
      case get_enrolled_machine_and_tags env sender meta st of
        (Inl e, evs) \<Rightarrow> (Inl e, st\<lparr>mus_events := mus_events st @ evs\<rparr>)
      | (Inr ((m, man, tags), db, cache), evs) \<Rightarrow>
          (case view_get env view (mdb_tables db) man tags name cache of
             (Inl e, cache') \<Rightarrow> (Inl e, st\<lparr>mus_cache := cache', mus_events := mus_events st @ evs\<rparr>)
           | (Inr (response, payload), cache') \<Rightarrow>
               (Inr response,
                \<lparr>mus_db = db, mus_cache = cache', mus_events = mus_events st @ evs @ munki_request_event env sender m man payload\<rparr>)))"

end
