(* ===== verification/MonolithServing.thy ===== *)
theory MonolithServing imports MonolithSync MonolithViews begin

text \<open>
  Requests of munki along a run, with changes of the tables in between: what the package view serves,
  from the tables or from a cache that never expires.
\<close>

subsection \<open>The keys of the cache\<close>

lemma int_str_no_dot: "CHR ''.'' \<notin> set (int_str k)"
  by (simp add: int_str_def nat_str_no_char is_digit_def)

text \<open>The texts of a key.\<close>

definition key_texts :: "munki_key \<Rightarrow> string list" where
  "key_texts key = (case key of MunkiKey k \<Rightarrow> [int_str k] | MunkiKeys ks \<Rightarrow> map int_str ks)"

lemma split_cache_key:
  assumes "CHR ''.'' \<notin> set model"
  shows "split_on CHR ''.'' (get_cache_key man tags model key) =
     [''monolith'', nat_str (man_pk man), nat_str (man_version man)] @ map nat_str (sort tags) @ [model] @ key_texts key"
proof -
  let ?ws = "[''monolith'', nat_str (man_pk man), nat_str (man_version man)] @ map nat_str (sort tags) @ [model] @ key_texts key"
  have "\<forall>w \<in> set ?ws. CHR ''.'' \<notin> set w"
    using assms by (auto simp: key_texts_def nat_str_no_char is_digit_def int_str_no_dot split: munki_key.splits)
  then have "split_on CHR ''.'' (join_with ''.'' ?ws) = ?ws" by (intro split_on_join) simp_all
  then show ?thesis by (simp add: get_cache_key_def key_texts_def)
qed

lemma map_nat_str: "map nat_str xs = map nat_str ys \<longleftrightarrow> xs = ys"
  by (rule inj_map_eq_map) (simp add: inj_on_def)

lemma model_no_number: "''repository_package'' \<noteq> nat_str n" "nat_str n \<noteq> ''repository_package''"
proof -
  have "CHR ''r'' \<notin> set (nat_str n)" by (rule nat_str_no_char) (simp add: is_digit_def)
  moreover have "CHR ''r'' \<in> set ''repository_package''" by simp
  ultimately show "''repository_package'' \<noteq> nat_str n" "nat_str n \<noteq> ''repository_package''" by metis+
qed

lemma same_package_key:
  assumes "get_cache_key man tags ''repository_package'' (MunkiKey (int pk)) = get_cache_key man' tags' ''repository_package'' key"
  shows "man_pk man = man_pk man' \<and> sort tags = sort tags' \<and> key_texts key = [nat_str pk]"
proof -
  define m where "m = ''repository_package''"
  have dot: "CHR ''.'' \<notin> set m" by (simp add: m_def)
  have no: "m \<notin> set (map nat_str (sort tags))" "m \<notin> set [nat_str pk]" by (auto simp: m_def model_no_number)
  have "split_on CHR ''.'' (get_cache_key man tags m (MunkiKey (int pk))) = split_on CHR ''.'' (get_cache_key man' tags' m key)"
    using assms by (simp only: m_def)
  then have "[''monolith'', nat_str (man_pk man), nat_str (man_version man)] @ map nat_str (sort tags) @ [m] @ key_texts (MunkiKey (int pk)) =
      [''monolith'', nat_str (man_pk man'), nat_str (man_version man')] @ map nat_str (sort tags') @ [m] @ key_texts key"
    by (simp only: split_cache_key [OF dot])
  moreover have "key_texts (MunkiKey (int pk)) = [nat_str pk]" by (simp add: key_texts_def int_str_def)
  ultimately have pk: "man_pk man = man_pk man'"
    and l: "map nat_str (sort tags) @ m # [nat_str pk] = map nat_str (sort tags') @ m # key_texts key"
    by (simp_all only: append_Cons append_Nil list.inject nat_str_inject simp_thms)
  from l have "map nat_str (sort tags) = map nat_str (sort tags') \<and> [nat_str pk] = key_texts key"
    using append_Cons_eq_iff [OF no] by blast
  with pk show ?thesis by (simp add: map_nat_str)
qed

lemma those_length: "those xs = Some ys \<Longrightarrow> length ys = length xs"
  by (induction xs arbitrary: ys) (auto split: option.splits)

lemma parse_key_list:
  assumes "parse_key s = Some (MunkiKeys ks)"
  shows "length ks \<noteq> 1"
proof -
  have k: "those (map parse_int (split_on CHR ''-'' s)) = Some ks" and d: "CHR ''-'' \<in> set s"
    using assms by (auto simp: parse_key_def split: if_splits)
  obtain w r where "s = w @ CHR ''-'' # r" "CHR ''-'' \<notin> set w" using split_list_first [OF d] by blast
  then have "split_on CHR ''-'' s = w # split_on CHR ''-'' r" by (simp add: split_on_append)
  with those_length [OF k] show ?thesis by simp
qed

lemma parsed_key:
  assumes "parse_munki_name name = Some (model, key)" and "key_texts key = [nat_str pk]"
  shows "key = MunkiKey (int pk)"
proof (cases key)
  case (MunkiKey k)
  with assms(2) have "int_str k = nat_str pk" by (simp add: key_texts_def)
  then have "parse_int (int_str k) = Some (int pk)" and "CHR ''-'' \<notin> set (int_str k)"
    by (simp_all add: nat_str_no_char is_digit_def)
  moreover from this(2) have "int_str k = nat_str (nat k)" "0 \<le> k" by (auto simp: int_str_def split: if_splits)
  ultimately show ?thesis using MunkiKey by simp
next
  case (MunkiKeys ks)
  then have "length ks \<noteq> 1"
    using assms(1) parse_key_list by (auto simp: parse_munki_name_def split: list.splits)
  with assms(2) MunkiKeys have "length ks = 1"
    by (simp add: key_texts_def) (metis length_map list.size(3,4) One_nat_def add_0)
  with \<open>length ks \<noteq> 1\<close> show ?thesis by simp
qed

subsection \<open>The packages found\<close>

text \<open>The queries depend on the set of the tags only.\<close>

lemma scope_rows_tags: "set tags = set tags' \<Longrightarrow> scope_rows tags f = scope_rows tags' f"
  by (simp add: fun_eq_iff scope_rows_def cong: if_cong)

lemma manifest_packages_tags:
  assumes "set tags = set tags'"
  shows "manifest_packages cf db tags man = manifest_packages cf db tags' man"
proof -
  have "in_scope tags = in_scope tags'" by (simp add: fun_eq_iff in_scope_def assms)
  moreover have "enrollment_package_step tags = enrollment_package_step tags'"
    by (simp add: fun_eq_iff enrollment_package_step_def assms)
  ultimately show ?thesis
    by (simp add: scope_rows_tags [OF assms] manifest_packages_def pkginfos_with_deps_and_updates_def pkginfo_deps_and_updates_def
        enrollment_packages_pkginfo_deps_def printers_pkginfo_deps_def default_managed_installs_deps_def
        in_manifest_catalogs_def manifest_catalog_rows_def manifest_sub_manifest_rows_def
        manifest_enrollment_packages_def manifest_printers_def)
qed

text \<open>A package with a location, found in the tables for a manifest and tags.\<close>

definition found_package :: "monolith_conf \<Rightarrow> monolith_tables \<Rightarrow> nat list \<Rightarrow> nat \<Rightarrow> nat \<Rightarrow> pyval \<Rightarrow> bool" where
  "found_package cf db tags man pk iil \<longleftrightarrow>
     list_ex (\<lambda>p. pi_pk p = pk \<and> dict_get (pi_data p) ''installer_item_location'' = Some iil) (manifest_packages cf db tags man)"

text \<open>The packages in the cache were found in one of the tables of the past.\<close>

definition cached_packages_found :: "monolith_conf \<Rightarrow> monolith_tables list \<Rightarrow> munki_cache \<Rightarrow> bool" where
  "cached_packages_found cf past cache \<longleftrightarrow>
     (\<forall>k name version iil t. dict_get cache k = Some (CachedPackage name version iil, t) \<longrightarrow> truthy iil \<longrightarrow>
        (\<exists>db \<in> set past. \<exists>man tags pk.
           k = get_cache_key man tags ''repository_package'' (MunkiKey (int pk)) \<and> found_package cf db tags (man_pk man) pk iil))"

lemma cached_packages_set:
  assumes "cached_packages_found cf past cache" and "\<And>name version iil. v \<noteq> CachedPackage name version iil"
  shows "cached_packages_found cf past (dict_set k (v, t) cache)"
  using assms unfolding cached_packages_found_def by (auto simp: dict_get_set split: if_splits)

lemma cached_packages_set_package:
  assumes "cached_packages_found cf past cache"
    and "truthy iil \<Longrightarrow> \<exists>db \<in> set past. \<exists>man tags pk.
      k = get_cache_key man tags ''repository_package'' (MunkiKey (int pk)) \<and> found_package cf db tags (man_pk man) pk iil"
  shows "cached_packages_found cf past (dict_set k (CachedPackage name version iil, t) cache)"
  using assms unfolding cached_packages_found_def by (auto simp: dict_get_set split: if_splits)

lemma munki_cache_getD: "munki_cache_get now k cache = Some v \<Longrightarrow> \<exists>t. dict_get cache k = Some (v, t)"
  by (auto simp: munki_cache_get_def split: option.splits if_splits)

subsection \<open>What the package view serves\<close>

lemma package_answer_served:
  assumes "package_answer env db man key name version iil hit cache = (Inr (Some (RepositoryResponse section i cs), h, items), cache')"
  shows "truthy iil \<and> i = iil"
  using assms by (auto simp: package_answer_def Let_def split: if_splits prod.splits sum.splits)

lemma package_answer_cache:
  assumes "cached_packages_found cf past cache"
  shows "cached_packages_found cf past (snd (package_answer env db man key name version iil hit cache))"
proof -
  have "cached_packages_found cf past (snd (get_cache_server env db man cache))"
    using assms by (auto simp: get_cache_server_def Let_def cached_packages_set split: option.splits cached_value.splits prod.splits)
  then show ?thesis
    using assms by (auto simp: package_answer_def Let_def split: prod.splits sum.splits)
qed

lemma found_packageI:
  assumes "find (\<lambda>p. MunkiKey (int (pi_pk p)) = key) (manifest_packages cf db tags man) = Some p"
    and "request_item (pi_data p) ''installer_item_location'' = Inr iil"
  shows "key = MunkiKey (int (pi_pk p)) \<and> found_package cf db tags man (pi_pk p) iil"
proof -
  from assms(1) have "p \<in> set (manifest_packages cf db tags man)" and k: "MunkiKey (int (pi_pk p)) = key"
    by (auto simp: find_Some_iff)
  moreover from assms(2) have "dict_get (pi_data p) ''installer_item_location'' = Some iil"
    by (simp add: request_item_def split: option.splits)
  ultimately have "found_package cf db tags man (pi_pk p) iil"
    unfolding found_package_def list_ex_iff by (intro bexI [of _ p]) simp_all
  with k show ?thesis by simp
qed

lemma repository_package_cases:
  obtains name version iil t where "dict_get cache ck = Some (CachedPackage name version iil, t)"
      and "repository_package_do_get env db man tags key ck cache = package_answer env db man key name version iil True cache"
  | "repository_package_do_get env db man tags key ck cache =
      package_answer env db man key None None PNone False (dict_set ck (CachedPackage None None PNone, None) cache)"
  | e where "repository_package_do_get env db man tags key ck cache = (Inl e, cache)"
  | pk name version iil where "key = MunkiKey (int pk)" and "found_package (mue_conf env) db tags (man_pk man) pk iil"
      and "repository_package_do_get env db man tags key ck cache =
        package_answer env db man key (Some name) (Some version) iil False (dict_set ck (CachedPackage (Some name) (Some version) iil, None) cache)"
proof (cases "\<exists>name version iil. munki_cache_get (mue_now env) ck cache = Some (CachedPackage name version iil)")
  case True
  then obtain name version iil where "munki_cache_get (mue_now env) ck cache = Some (CachedPackage name version iil)" by blast
  moreover from munki_cache_getD [OF this] obtain t where "dict_get cache ck = Some (CachedPackage name version iil, t)" ..
  ultimately show ?thesis by (intro that(1)) (simp_all add: repository_package_do_get_def)
next
  case False
  let ?found = "find (\<lambda>p. MunkiKey (int (pi_pk p)) = key) (manifest_packages (mue_conf env) db tags (man_pk man))"
  have miss: "repository_package_do_get env db man tags key ck cache =
    (case ?found of
       None \<Rightarrow> package_answer env db man key None None PNone False (dict_set ck (CachedPackage None None PNone, None) cache)
     | Some p \<Rightarrow>
         (case request_item (pi_data p) ''installer_item_location'' of
            Inl e \<Rightarrow> (Inl e, cache)
          | Inr iil \<Rightarrow>
              package_answer env db man key (Some (pkg_name_of db (pi_name p))) (Some (pi_version p)) iil False
                (dict_set ck (CachedPackage (Some (pkg_name_of db (pi_name p))) (Some (pi_version p)) iil, None) cache)))"
    using False unfolding repository_package_do_get_def Let_def
    by (cases "munki_cache_get (mue_now env) ck cache") (auto split: cached_value.splits)
  show ?thesis
  proof (cases ?found)
    case None
    then show ?thesis by (intro that(2)) (simp add: miss)
  next
    case (Some p)
    show ?thesis
    proof (cases "request_item (pi_data p) ''installer_item_location''")
      case (Inl e)
      with Some show ?thesis by (intro that(3)) (simp add: miss)
    next
      case (Inr iil)
      with Some show ?thesis by (intro that(4) [OF conjunct1 conjunct2, OF found_packageI found_packageI]) (auto simp: miss)
    qed
  qed
qed

lemma repository_package_cache:
  assumes c: "cached_packages_found cf past cache" and db: "db \<in> set past" and cf: "mue_conf env = cf"
  shows "cached_packages_found cf past (snd (repository_package_do_get env db man tags key
     (get_cache_key man tags ''repository_package'' key) cache))"
proof (cases rule: repository_package_cases [of cache "get_cache_key man tags ''repository_package'' key" env db man tags key])
  case (1 name version iil t)
  with c show ?thesis by (simp add: package_answer_cache)
next
  case 2
  have "cached_packages_found cf past
      (dict_set (get_cache_key man tags ''repository_package'' key) (CachedPackage None None PNone, None) cache)"
    by (rule cached_packages_set_package [OF c]) simp
  with 2 show ?thesis by (simp add: package_answer_cache)
next
  case (4 pk name version iil)
  then have "cached_packages_found cf past
      (dict_set (get_cache_key man tags ''repository_package'' key) (CachedPackage (Some name) (Some version) iil, None) cache)"
    using cf db by (intro cached_packages_set_package [OF c]) blast
  with 4 show ?thesis by (simp add: package_answer_cache)
qed (use c in simp)

lemma other_views_cache:
  assumes "cached_packages_found cf past cache"
  shows "cached_packages_found cf past (snd (catalog_do_get env db man tags model key ck cache))"
    and "cached_packages_found cf past (snd (main_manifest_do_get env db man tags ck cache))"
    and "cached_packages_found cf past (snd (sub_manifest_do_get env db man tags key ck cache))"
    and "cached_packages_found cf past (snd (enrollment_pkg_do_get env db man key ck cache))"
    and "cached_packages_found cf past (snd (attachment_do_get env db man tags key ck cache))"
  using assms
  by (auto simp: catalog_do_get_def main_manifest_do_get_def sub_manifest_do_get_def enrollment_pkg_do_get_def attachment_do_get_def
      cached_packages_set Let_def split: option.split cached_value.split sum.split pyerror.split munki_key.split list.split)

lemma view_get_cache:
  assumes c: "cached_packages_found cf past cache" and db: "db \<in> set past" and cf: "mue_conf env = cf"
  shows "cached_packages_found cf past (snd (view_get env view db man tags name cache))"
proof -
  have "cached_packages_found cf past (snd (do_get env view db man tags model key (get_cache_key man tags model key) cache))" for model key
    using repository_package_cache [OF assms, of man tags key] other_views_cache [OF c] c
    by (auto simp: do_get_def manifest_do_get_def package_do_get_def split: munki_view.split)
  then have "cached_packages_found cf past (snd (named_get env view db man tags name cache))"
    using c by (auto simp: named_get_def Let_def split: option.split prod.split sum.split) (metis snd_conv)+
  with c show ?thesis by (cases view) (simp_all add: view_get_def)
qed

lemma named_get_package:
  assumes "named_get env MRPackageView db man tags name cache = (Inr (RepositoryResponse section iil cs, payload), cache')"
  shows "\<exists>key h items. parse_munki_name name = Some (''repository_package'', key) \<and>
     repository_package_do_get env db man tags key (get_cache_key man tags ''repository_package'' key) cache =
       (Inr (Some (RepositoryResponse section iil cs), h, items), cache')"
proof -
  have no: "fst (enrollment_pkg_do_get env db man key ck cache) \<noteq> Inr (Some (RepositoryResponse section iil cs), h, items)"
    "fst (attachment_do_get env db man tags key ck cache) \<noteq> Inr (Some (RepositoryResponse section iil cs), h, items)" for key ck h items
    by (auto simp: enrollment_pkg_do_get_def enrollment_pkg_answer_def attachment_do_get_def attachment_answer_def file_response_def Let_def
        split: option.splits cached_value.splits sum.splits pyerror.splits munki_key.splits list.splits if_splits)
  obtain model key where p: "parse_munki_name name = Some (model, key)"
    using assms by (auto simp: named_get_def get_request_args_def split: option.splits)
  then obtain h items where "package_do_get env db man tags model key (get_cache_key man tags model key) cache =
      (Inr (Some (RepositoryResponse section iil cs), h, items), cache')"
    using assms by (auto simp: named_get_def get_request_args_def do_get_def Let_def split: prod.splits sum.splits option.splits)
  moreover from this have "model = ''repository_package''"
    using no by (auto simp: package_do_get_def split: if_splits) (metis fst_conv)+
  ultimately show ?thesis using p by (auto simp: package_do_get_def)
qed

text \<open>A package that is served was found, for the manifest and the tags of the request.\<close>

lemma served_package_found:
  assumes c: "cached_packages_found cf past cache" and db: "db \<in> set past" and cf: "mue_conf env = cf"
    and r: "named_get env MRPackageView db man tags name cache = (Inr (RepositoryResponse section iil cs, payload), cache')"
  shows "\<exists>db \<in> set past. \<exists>pk. parse_munki_name name = Some (''repository_package'', MunkiKey (int pk)) \<and>
     found_package cf db tags (man_pk man) pk iil"
proof -
  obtain key h items where n: "parse_munki_name name = Some (''repository_package'', key)"
    and g: "repository_package_do_get env db man tags key (get_cache_key man tags ''repository_package'' key) cache =
       (Inr (Some (RepositoryResponse section iil cs), h, items), cache')"
    using named_get_package [OF r] by blast
  show ?thesis
  proof (cases rule: repository_package_cases [of cache "get_cache_key man tags ''repository_package'' key" env db man tags key])
    case (1 nm version iil' t)
    with g have "package_answer env db man key nm version iil' True cache = (Inr (Some (RepositoryResponse section iil cs), h, items), cache')"
      by simp
    from package_answer_served [OF this] have i: "truthy iil'" "iil = iil'" by simp_all
    with 1(1) c obtain db' man' tags' pk where f: "db' \<in> set past"
      "get_cache_key man tags ''repository_package'' key = get_cache_key man' tags' ''repository_package'' (MunkiKey (int pk))"
      "found_package cf db' tags' (man_pk man') pk iil"
      unfolding cached_packages_found_def by blast
    from same_package_key [OF f(2) [symmetric]]
    have k: "man_pk man' = man_pk man" "sort tags' = sort tags" "key_texts key = [nat_str pk]" by simp_all
    then have "set tags' = set tags" by (metis set_sort)
    then have "manifest_packages cf db' tags' (man_pk man) = manifest_packages cf db' tags (man_pk man)"
      by (rule manifest_packages_tags)
    with f(3) k(1) have "found_package cf db' tags (man_pk man) pk iil" by (simp add: found_package_def)
    with f(1) n parsed_key [OF n k(3)] show ?thesis by blast
  next
    case 2
    note 2 [symmetric]
    also note g
    finally have "truthy PNone \<and> iil = PNone" by (rule package_answer_served)
    then show ?thesis by simp
  next
    case (4 pk nm version iil')
    note 4(3) [symmetric]
    also note g
    finally have "truthy iil' \<and> iil = iil'" by (rule package_answer_served)
    then have "iil = iil'" ..
    with 4 cf db n show ?thesis by blast
  qed (use g in simp)
qed

subsection \<open>Runs\<close>

text \<open>
  A run of requests at any times, with changes of the tables in between by the management interface
  and the imports; the second argument has the tables so far.
\<close>

inductive munki_run :: "monolith_conf \<Rightarrow> munki_state \<Rightarrow> monolith_tables list \<Rightarrow> bool" for cf where
  start: "mus_cache st = [] \<Longrightarrow> munki_run cf st [mdb_tables (mus_db st)]"
| request: "munki_run cf st past \<Longrightarrow> mue_conf env = cf \<Longrightarrow> munki_run cf (snd (munki_get env view meta name st)) past"
| change: "munki_run cf st past \<Longrightarrow> munki_run cf (st\<lparr>mus_db := db\<rparr>) (mdb_tables db # past)"

lemma get_or_create_munki_machine_tables:
  "get_or_create_munki_machine env sender es en serial_number db = (Inr (m, db'), evs) \<Longrightarrow> mdb_tables db' = mdb_tables db"
  by (auto simp: get_or_create_munki_machine_def quiet_def tag_munki_machine_def create_munki_machine_def Let_def
      split: sum.splits pyerror.splits)

lemma enroll_munki_machine_tables:
  assumes "enroll_munki_machine env sender meta secret serial_number db = (Inr (m, db'), evs)"
  shows "mdb_tables db' = mdb_tables db"
  using assms unfolding enroll_munki_machine_def bind_posted_Inr
  by (elim exE conjE) (drule get_or_create_munki_machine_tables, simp)

lemma stored_munki_machine_tables:
  assumes "stored_munki_machine env sender meta secret serial_number db = (Inr (m, db'), evs)"
  shows "mdb_tables db' = mdb_tables db"
proof (cases "munki_machine_row secret serial_number db")
  case (Inl e)
  with assms show ?thesis
    by (cases e) (auto simp: stored_munki_machine_def quiet_def dest: enroll_munki_machine_tables)
next
  case (Inr r)
  with assms show ?thesis by (simp add: stored_munki_machine_def quiet_def)
qed

lemma load_munki_machine_keeps:
  assumes "load_munki_machine env sender meta secret serial_number st = (Inr (a, db', cache), evs)"
  shows "mdb_tables db' = mdb_tables (mus_db st) \<and>
     (cached_packages_found cf past (mus_cache st) \<longrightarrow> cached_packages_found cf past cache)"
proof -
  from assms obtain m db1 evs1 man tags where
    s: "stored_munki_machine env sender meta secret serial_number (mus_db st) = (Inr (m, db1), evs1)"
    and d: "db' = db1" "cache = dict_set (secret @ serial_number) (CachedMachine m man tags, Some (mue_now env + 600)) (mus_cache st)"
    unfolding load_munki_machine_def bind_posted_Inr quiet_Inr Let_def by auto
  show ?thesis unfolding d using stored_munki_machine_tables [OF s] by (simp add: cached_packages_set)
qed

lemma get_enrolled_machine_and_tags_keeps:
  assumes "get_enrolled_machine_and_tags env sender meta st = (Inr (a, db', cache), evs)"
  shows "mdb_tables db' = mdb_tables (mus_db st) \<and>
     (cached_packages_found cf past (mus_cache st) \<longrightarrow> cached_packages_found cf past cache)"
proof -
  from assms obtain secret serial_number evs1 where
    "(case munki_cache_get (mue_now env) (secret @ serial_number) (mus_cache st) of
         None \<Rightarrow> load_munki_machine env sender meta secret serial_number st
       | Some (CachedFilename None) \<Rightarrow> load_munki_machine env sender meta secret serial_number st
       | Some (CachedMachine m man tags) \<Rightarrow> quiet (Inr ((m, man, tags), mus_db st, mus_cache st))
       | Some (CachedSubManifest n d) \<Rightarrow> quiet (Inl AttributeError)
       | Some (CachedAttachment n a) \<Rightarrow> quiet (Inl AttributeError)
       | Some _ \<Rightarrow> quiet (Inl ValueError)) = (Inr (a, db', cache), evs1)"
    unfolding get_enrolled_machine_and_tags_def bind_posted_Inr by blast
  then show ?thesis
    by (auto simp: quiet_def dest: load_munki_machine_keeps split: option.splits cached_value.splits)
qed

lemma munki_run_inv:
  assumes "munki_run cf st past"
  shows "mdb_tables (mus_db st) \<in> set past \<and> cached_packages_found cf past (mus_cache st)"
  using assms
proof (induction rule: munki_run.induct)
  case (start st)
  then show ?case by (simp add: cached_packages_found_def)
next
  case (request st past env view meta name)
  define sender where "sender = user_agent_and_ip_address_from_request (mue_valid_ip env) meta"
  obtain r evs where r: "get_enrolled_machine_and_tags env sender meta st = (r, evs)" by (rule prod.exhaust)
  show ?case
  proof (cases r)
    case (Inl e)
    with r request.IH show ?thesis by (simp add: munki_get_def Let_def flip: sender_def)
  next
    case (Inr a)
    obtain c db cache where "a = (c, db, cache)" by (cases a)
    moreover obtain m man tags where "c = (m, man, tags)" by (cases c)
    ultimately have a: "a = ((m, man, tags), db, cache)" by simp
    from r Inr a have "get_enrolled_machine_and_tags env sender meta st = (Inr ((m, man, tags), db, cache), evs)" by simp
    from get_enrolled_machine_and_tags_keeps [OF this] request.IH
    have t: "mdb_tables db \<in> set past" "cached_packages_found cf past cache" by simp_all
    from view_get_cache [OF t(2,1) request.hyps(2), of view man tags name]
    have "cached_packages_found cf past (snd (view_get env view (mdb_tables db) man tags name cache))" .
    with r Inr a t(1) request.IH show ?thesis
      by (auto simp: munki_get_def Let_def simp flip: sender_def split: prod.split sum.split)
  qed
next
  case (change st past db)
  then show ?case by (fastforce simp: cached_packages_found_def)
qed

text \<open>
  C21: munki is only given packages it could ask for. Along any run of requests and changes of the
  tables, when the package view answers with a package of the repository, it is for a machine that
  was let in, and the package is the one of the name that is asked for; it was found by the queries
  for the manifest and the tags of the machine, with that location, in the tables as they are or as
  they were: a cached answer never comes from another manifest, other tags or another package.
\<close>

theorem served_package_was_found:
  assumes "munki_run cf st past" and "mue_conf env = cf"
    and "munki_get env MRPackageView meta name st = (Inr (RepositoryResponse section iil cs), st')"
  shows "\<exists>m man tags db' cache evs. get_enrolled_machine_and_tags env
       (user_agent_and_ip_address_from_request (mue_valid_ip env) meta) meta st = (Inr ((m, man, tags), db', cache), evs) \<and>
     (\<exists>db \<in> set past. \<exists>pk. parse_munki_name name = Some (''repository_package'', MunkiKey (int pk)) \<and>
        found_package cf db tags (man_pk man) pk iil)"
proof -
  define sender where "sender = user_agent_and_ip_address_from_request (mue_valid_ip env) meta"
  from assms(3) obtain m man tags db cache evs payload cache' where
    e: "get_enrolled_machine_and_tags env sender meta st = (Inr ((m, man, tags), db, cache), evs)"
    and v: "named_get env MRPackageView (mdb_tables db) man tags name cache = (Inr (RepositoryResponse section iil cs, payload), cache')"
    by (auto simp: munki_get_def view_get_def Let_def simp flip: sender_def split: prod.splits sum.splits)
  have "mdb_tables db \<in> set past" "cached_packages_found cf past cache"
    using get_enrolled_machine_and_tags_keeps [OF e] munki_run_inv [OF assms(1)] by simp_all
  from served_package_found [OF this(2,1) assms(2) v] e show ?thesis unfolding sender_def by blast
qed

text \<open>
  A machine enrolls with its first request, for a package of a sub manifest. The second one is answered
  from the cache, though the package is gone.
\<close>

definition sample_munki_conf :: monolith_conf where
  "sample_munki_conf = \<lparr>mcf_default_managed_installs = [], mcf_builders = [], mcf_to_ascii = \<lambda>s. s\<rparr>"

definition sample_munki_env :: "int \<Rightarrow> munki_env" where
  "sample_munki_env now =
     \<lparr>mue_now = now, mue_uuid = \<lambda>_. ''u'', mue_valid_ip = \<lambda>_. False, mue_mbu_serialize = \<lambda>_. [], mue_mbu_tags = \<lambda>_. [],
      mue_conf = sample_munki_conf, mue_signed_urls = False\<rparr>"

definition office_package :: pkg_info where
  "office_package = (sample_package 1 ''78'' None)\<lparr>pi_data := [(''installer_item_location'', PStr ''apps/Firefox-78.dmg'')]\<rparr>"

definition office_tables :: monolith_tables where
  "office_tables = sample_monolith
     \<lparr>mo_pkg_infos := [office_package],
      mo_manifests := [\<lparr>man_pk = 1, man_meta_business_unit = 1, man_name = ''office'', man_version = 1\<rparr>],
      mo_manifest_catalogs := [\<lparr>mc_pk = 1, mc_manifest = 1, mc_catalog = 1, mc_tags = []\<rparr>],
      mo_sub_manifests := [\<lparr>sm_pk = 1, sm_meta_business_unit = None, sm_name = ''browsers''\<rparr>],
      mo_manifest_sub_manifests := [\<lparr>msm_pk = 1, msm_manifest = 1, msm_sub_manifest = 1, msm_tags = []\<rparr>],
      mo_sub_manifest_pkg_infos := [\<lparr>smp_pk = 1, smp_sub_manifest = 1, smp_key = ''managed_installs'', smp_pkg_info_name = 1,
        smp_featured_item = False, smp_condition = None\<rparr>]\<rparr>"

definition office_state :: munki_state where
  "office_state =
     \<lparr>mus_db =
        \<lparr>mdb_tables = office_tables, mdb_machines = [], mdb_enrollment_manifests = [(1, 1)],
         mdb_enrollment_db = sample_enrollment_db\<lparr>enrollments := [sample_enrollment\<lparr>enr_model := ''monolith_enrollment''\<rparr>]\<rparr>,
         mdb_machine_tags = []\<rparr>,
      mus_cache = [], mus_events = []\<rparr>"

definition office_meta :: "(string \<times> string) list" where
  "office_meta =
     [(''HTTP_AUTHORIZATION'', ''Bearer s3cr3t''), (''HTTP_X_ZENTRAL_SERIAL_NUMBER'', ''SN1''), (''HTTP_X_ZENTRAL_UUID'', ''U1''),
      (''HTTP_USER_AGENT'', ''Zentral''), (''REMOTE_ADDR'', ''1.2.3.4'')]"

definition first_request :: "(pyerror + munki_response) \<times> munki_state" where
  "first_request = munki_get (sample_munki_env 50) MRPackageView office_meta ''repository-package.1.Firefox-78.dmg'' office_state"

definition later_state :: munki_state where
  "later_state = (snd first_request)\<lparr>mus_db := (mus_db (snd first_request))\<lparr>mdb_tables := sample_monolith\<rparr>\<rparr>"

lemma office_requests:
  "fst first_request = Inr (RepositoryResponse ''pkgs'' (PStr ''apps/Firefox-78.dmg'') None)"
  "map mom_serial_number (mdb_machines (mus_db later_state)) = [''SN1'']"
  "fst (munki_get (sample_munki_env 90) MRPackageView office_meta ''repository-package.1.Firefox-78.dmg'' later_state) =
     Inr (RepositoryResponse ''pkgs'' (PStr ''apps/Firefox-78.dmg'') None)"
  by code_simp+

theorem served_package_was_found_witness:
  "fst (munki_get (sample_munki_env 90) MRPackageView office_meta ''repository-package.1.Firefox-78.dmg'' later_state) =
     Inr (RepositoryResponse ''pkgs'' (PStr ''apps/Firefox-78.dmg'') None) \<and>
   (\<exists>(man :: manifest) tags. \<exists>db \<in> set [sample_monolith, office_tables]. \<exists>pk.
      parse_munki_name ''repository-package.1.Firefox-78.dmg'' = Some (''repository_package'', MunkiKey (int pk)) \<and>
      found_package sample_munki_conf db tags (man_pk man) pk (PStr ''apps/Firefox-78.dmg''))"
proof -
  have cf: "mue_conf (sample_munki_env now) = sample_munki_conf" for now by (simp add: sample_munki_env_def)
  have "munki_run sample_munki_conf office_state [office_tables]"
    using munki_run.start [of office_state sample_munki_conf] by (simp add: office_state_def)
  then have "munki_run sample_munki_conf (snd first_request) [office_tables]"
    unfolding first_request_def by (rule munki_run.request [OF _ cf])
  from munki_run.change [OF this, of "(mus_db (snd first_request))\<lparr>mdb_tables := sample_monolith\<rparr>"]
  have run: "munki_run sample_munki_conf later_state [sample_monolith, office_tables]" by (simp add: later_state_def)
  obtain st' where "munki_get (sample_munki_env 90) MRPackageView office_meta ''repository-package.1.Firefox-78.dmg'' later_state =
      (Inr (RepositoryResponse ''pkgs'' (PStr ''apps/Firefox-78.dmg'') None), st')"
    using office_requests(3) by (metis prod.collapse)
  from served_package_was_found [OF run cf this]
  obtain man :: manifest and tags db pk where "db \<in> set [sample_monolith, office_tables]"
    "parse_munki_name ''repository-package.1.Firefox-78.dmg'' = Some (''repository_package'', MunkiKey (int pk))"
    "found_package sample_munki_conf db tags (man_pk man) pk (PStr ''apps/Firefox-78.dmg'')" by blast
  with office_requests(3) show ?thesis by blast
qed

end
