(* ===== verification/Spec2Isabelle.thy ===== *)
theory Spec2Isabelle
  imports Pipeline MdmEnroll MdmAnswers SantaRefinement SantaEnroll SantaLogs InventoryCommits OsqueryProps MachineInfo
    TaxonomyTags MonolithCatalogs MonolithServing
begin

text \<open>
  Zentral: events, incidents, enrollments, device management and binary authorization.

  Zentral is a Django server that agents on machines report to and take instructions from. The
  development models its core logic as it is written under \<open>src/\<close> (the Python package
  \<open>zentral\<close> and the project \<open>server\<close>), one theory per component, in seven groups.

  Events and incidents. An agent posts a payload, which becomes an event (\<open>Events\<close>, from
  \<open>core/events/base.py\<close> and \<open>utils.py\<close>: requests, metadata, linked objects, their serialization and
  the event commands). The enrichment worker (\<open>Pipeline\<close>, from \<open>core/events/pipeline.py\<close> and
  \<open>core/probes/conf.py\<close>) tests it against every probe (\<open>Probes\<close>, from \<open>core/probes/base.py\<close>: the
  inventory, metadata and payload filters and the validation of a probe source), and opens, updates
  or closes an incident (\<open>IncidentModels\<close> and \<open>Incidents\<close>, from \<open>core/incidents/models.py\<close> and
  \<open>utils.py\<close>). A table is a list of rows, a unique constraint is a test that makes the write an
  \<open>IntegrityError\<close>, and a concurrent transaction is the parameter \<open>race\<close>, a change of the tables
  between the read and the write. Lemmas: the invariant of the tables under every operation and
  every interleaving with manual updates, the severity that never decreases, what an event is
  after its enrichment, the meaning of the filters, and the round trips of the serializations.

  Enrollment. A secret (\<open>EnrollmentSecrets\<close>, from \<open>contrib/inventory/models.py\<close> and \<open>utils.py\<close>) is
  verified by every agent. Lemmas: which requests it admits, and its quota along every run of
  verifications, saves and deletions.

  Device management, from \<open>contrib/mdm\<close>. \<open>MdmModels\<close> and \<open>MdmSessions\<close> hold the devices, the
  enrollments and the sessions with their status changes; \<open>MdmEnroll\<close> the views that make them
  (\<open>views/ota.py\<close>, \<open>dep.py\<close>, \<open>user.py\<close>, \<open>scep.py\<close>); \<open>MdmArtifacts\<close> the queries that say what to install
  (the with clauses are definitions, in their order); \<open>MdmCommands\<close> the commands with their
  queue, answers and acknowledgements (\<open>commands/\<close>). Lemmas: a session completes in its order and
  uses a certificate once; \<open>MdmConvergence\<close>, rounds of installation bring an answering device to the
  latest versions, in as many rounds as artifacts are pending; \<open>MdmAnswers\<close>, what other answers
  do, and which command comes before which.

  Binary authorization, from \<open>contrib/santa\<close>. \<open>SantaModels\<close> holds the configurations and the rows of
  \<open>models.py\<close>, \<open>SantaRules\<close> the query for the rules a machine is to get and the batches,
  \<open>SantaEvents\<close> the upload of events and bundles (\<open>events/__init__.py\<close>), \<open>SantaLogs\<close> the parser of
  \<open>utils.py\<close>, \<open>MachineIds\<close> and \<open>SantaViews\<close> the sync API of \<open>views.py\<close>: a request reads the cache,
  enrolls, downloads or uploads in a transaction that is rolled back when it raises.
  \<open>InventoryConf\<close> and \<open>Certificates\<close> model \<open>contrib/inventory/conf.py\<close> and \<open>utils/certificates.py\<close>,
  which the views call. Lemmas: \<open>SantaRefinement\<close>, a batch is a step of a protocol on what the
  machine has been sent; \<open>SantaSync\<close>, the protocol ends with the rules of the configuration, and the
  two cases where it does not; \<open>SantaEnroll\<close>, one machine per hardware, who is let in, and what a
  preflight that fails leaves behind.

  Inventory. What an agent reports about a machine is a commit tree, a dictionary of dictionaries
  and lists (\<open>MtTrees\<close>, from \<open>utils/mt_models.py\<close>: the hasher, the preparation and the clean-up of a
  tree; \<open>Sha1\<close> is the digest). \<open>MtStore\<close> has the tables of the objects and the operations of
  \<open>AbstractMTObject\<close> and \<open>MTObjectManager\<close>: \<open>commit\<close> writes an object and its related ones by their
  hashes, \<open>serialize\<close>, \<open>hash\<close> and \<open>diff\<close> read them. \<open>InventoryModels\<close> holds the models of
  \<open>contrib/inventory/models.py\<close> with their fields and \<open>save\<close> methods; \<open>Snapshots\<close> the chain of the
  commits of a machine, its current snapshot, and the events made of a commit (\<open>utils.py\<close>). Lemmas:
  \<open>MtCommit\<close>, the commit as a relation, with the invariants of the tables; \<open>MtRoundtrip\<close>, what a
  commit of a fitting tree can raise, and the round trip through \<open>serialize\<close>; \<open>MtTypes\<close>, the typing
  of the rows; \<open>InventoryCommits\<close>, the properties of the inventory with samples.

  \<open>MetaMachines\<close> and \<open>MachineInfo\<close> model \<open>MetaMachine\<close>, what the other parts read of a machine: its
  business units and tags, its platform, and the query made for the events and the probes; \<open>UrlSerials\<close>
  is the serial number in the address of a machine. Lemmas: what the probes see is what the inventory
  says, but for the platform; \<open>TaxonomyTags\<close>, the tags of a taxonomy become the wanted ones.

  Osquery, from \<open>contrib/osquery\<close>. \<open>OsqueryModels\<close> holds the queries, packs, configurations, enrolled
  machines, distributed queries and file carvings of \<open>models.py\<close>, \<open>OsqueryConf\<close> the configuration an
  agent is given (\<open>conf.py\<close>), \<open>OsqueryTrees\<close> the commit tree of what an agent reports
  (\<open>views/utils.py\<close>), and \<open>OsqueryViews\<close> the API of \<open>views/api.py\<close>: a request is authenticated by a secret,
  a node key or a session, changes the tables in a transaction, and commits a snapshot to the
  inventory; \<open>Requests\<close> is what its views share with those of Santa, \<open>Md5\<close> the digest of the shards.
  Lemmas: \<open>OsqueryKeys\<close>, the names of the pack queries are read back; \<open>OsqueryQueries\<close>, which
  distributed queries a machine is given; \<open>OsqueryRuns\<close>, the invariant of the tables along any run of
  requests, tasks and administration; \<open>OsqueryProps\<close>, what follows for queries, carvings and
  enrollments, and what the API does not verify.

  Monolith, from \<open>contrib/monolith\<close>, serves munki. \<open>MunkiNames\<close> has the names that carry the model and
  the key of an object, \<open>MonolithModels\<close> the catalogs, packages, sub manifests and manifests of
  \<open>models.py\<close> and what is made of them for the tags of a machine (a recursive query is a function that
  adds rows until none is new), \<open>MonolithRepo\<close> the import of the catalog of a repository
  (\<open>repository_backends/base.py\<close>), \<open>MonolithViews\<close> the endpoints of \<open>views.py\<close> with the enrollment of a
  machine and a cache whose entries never expire. Lemmas: a name is read back; \<open>MonolithSync\<close>, the package infos after
  an import are those of the catalog, by a refinement of a map from names and versions; \<open>MonolithCatalogs\<close>,
  the packages a machine can download are those it needs, and a catalog can lack an attachment;
  \<open>MonolithServing\<close>, a package that is served was found for the machine, along any run of requests and
  changes of the tables.

  Conventions. A Python value is a \<open>pyval\<close>, a dictionary an association list in insertion order, an
  exception a \<open>pyerror\<close> on the left of a sum; integers are unbounded as in Python, with the bounds of
  a column where the code meets them. A primary key that the database would draw from a sequence is
  larger than every key in the table. The interfaces are locales: \<open>upsert_table\<close> (\<open>Prelude\<close>), the
  table written by \<open>update_or_create\<close>, interpreted on the machine rules, the enrolled machines of Santa and
  osquery and the current snapshots; \<open>staged_session\<close> (\<open>MdmSessions\<close>), a session whose status only moves along its
  stages, interpreted on the OTA, the DEP and the user sessions; \<open>mt_saves\<close> (\<open>MtCommit\<close>), the \<open>save\<close>
  methods of the models of commit trees, with its extensions \<open>mt_laws\<close> and \<open>commit_induction\<close>
  (\<open>MtRoundtrip\<close>), interpreted on the models of the inventory.

  Fuel. \<open>serialize\<close> and what calls it take the depth at which the interpreter gives up, and raise
  \<open>RecursionError\<close> there; the round trip says from which depth on they return. Two theorems count
  steps: the protocol of \<open>SantaSync\<close> takes a list
  of cursors, one per request, and ends when there are more of them than targets to change; the
  rounds of \<open>MdmConvergence\<close> are as many as the artifacts pending.

  Not modelled. The pages and forms of the management interface (templates and Django forms); the
  event stores and queues and the clients of other services; the settings; the property list,
  PKCS#7, JSON and zlib encodings, which are parameters where a view calls them; the SQL filters of
  the inventory pages. \<open>full_clean\<close> is taken to accept an object or not, without changing its values.
  A time that an osquery record gives with a fraction of a second is one that cannot be read. Munki,
  Jamf and the DEP synchronization are not modelled.
\<close>

end
